(* ===== verification/Prelude.thy ===== *)
theory Prelude
  imports Main "HOL-Library.Word"
begin

text \<open>
  What the components share: Rust's fixed-width integers, the checked and
  saturating operations of its standard library, \<open>Result\<close> with the early
  return of the question mark operator, little-endian byte arrays, slices of
  byte buffers and the iterator adaptors \<open>max_by_key\<close>, \<open>min_by_key\<close> and
  \<open>position\<close>.

  A computation of the program ends in one of three ways: \<open>Ok\<close> with a value,
  \<open>Err\<close> with an error value, or \<open>Panic\<close>, which stands for every way to stop
  without a value of its own: a failed assertion, \<open>expect\<close> or \<open>unwrap\<close> on an
  error, an index out of range, or a read through a cast pointer that the
  language leaves undefined. A theorem that ends in \<open>Ok\<close> therefore also says
  that none of these happened.

  Unchecked arithmetic (\<open>+\<close>, \<open>-\<close>, \<open>+=\<close>) is written on words, where it wraps:
  the release profile of the workspace does not turn overflow checks on.
\<close>

named_theorems result_simps \<open>equations that take a fallible computation apart\<close>
named_theorems word_nat \<open>equations that read word operations on natural numbers\<close>
named_theorems bytes_simps \<open>equations for byte buffers\<close>

type_synonym u8 = "8 word"
type_synonym u32 = "32 word"
type_synonym u64 = "64 word"
type_synonym pubkey = "256 word"
type_synonym epoch = u64

subsection \<open>Results and early return\<close>

datatype ('a, 'e) result = Ok 'a | Err 'e | Panic

definition and_then :: "('a, 'e) result \<Rightarrow> ('a \<Rightarrow> ('b, 'e) result) \<Rightarrow> ('b, 'e) result" where
  "and_then r f = (case r of Ok x \<Rightarrow> f x | Err e \<Rightarrow> Err e | Panic \<Rightarrow> Panic)"

definition map_ok :: "('a \<Rightarrow> 'b) \<Rightarrow> ('a, 'e) result \<Rightarrow> ('b, 'e) result" where
  "map_ok f r = (case r of Ok x \<Rightarrow> Ok (f x) | Err e \<Rightarrow> Err e | Panic \<Rightarrow> Panic)"

definition map_err :: "('e \<Rightarrow> 'f) \<Rightarrow> ('a, 'e) result \<Rightarrow> ('a, 'f) result" where
  "map_err g r = (case r of Ok x \<Rightarrow> Ok x | Err e \<Rightarrow> Err (g e) | Panic \<Rightarrow> Panic)"

definition expect :: "('a, 'e) result \<Rightarrow> ('a, 'f) result" where
  "expect r = (case r of Ok x \<Rightarrow> Ok x | Err e \<Rightarrow> Panic | Panic \<Rightarrow> Panic)"

definition ensure :: "bool \<Rightarrow> 'e \<Rightarrow> (unit, 'e) result" where
  "ensure b e = (if b then Ok () else Err e)"

definition assert :: "bool \<Rightarrow> (unit, 'e) result" where
  "assert b = (if b then Ok () else Panic)"

definition ok_or :: "'a option \<Rightarrow> 'e \<Rightarrow> ('a, 'e) result" where
  "ok_or x e = (case x of Some v \<Rightarrow> Ok v | None \<Rightarrow> Err e)"

definition unwrap_opt :: "'a option \<Rightarrow> ('a, 'e) result" where
  "unwrap_opt x = (case x of Some v \<Rightarrow> Ok v | None \<Rightarrow> Panic)"

definition is_ok :: "('a, 'e) result \<Rightarrow> bool" where
  "is_ok r = (case r of Ok x \<Rightarrow> True | Err e \<Rightarrow> False | Panic \<Rightarrow> False)"

text \<open>A loop whose body may return early: \<open>for x in xs { s = body(s, x)?; }\<close>\<close>

fun try_fold :: "('s \<Rightarrow> 'a \<Rightarrow> ('s, 'e) result) \<Rightarrow> 's \<Rightarrow> 'a list \<Rightarrow> ('s, 'e) result" where
  "try_fold f s [] = Ok s"
| "try_fold f s (x # xs) = and_then (f s x) (\<lambda>s'. try_fold f s' xs)"

subsection \<open>Checked and saturating integer operations\<close>

definition checked_add :: "'a::len word \<Rightarrow> 'a word \<Rightarrow> 'a word option" where
  "checked_add a b = (if unat a + unat b < 2 ^ LENGTH('a) then Some (a + b) else None)"

definition checked_sub :: "'a::len word \<Rightarrow> 'a word \<Rightarrow> 'a word option" where
  "checked_sub a b = (if unat b \<le> unat a then Some (a - b) else None)"

definition checked_mul :: "'a::len word \<Rightarrow> 'a word \<Rightarrow> 'a word option" where
  "checked_mul a b = (if unat a * unat b < 2 ^ LENGTH('a) then Some (a * b) else None)"

definition checked_div :: "'a::len word \<Rightarrow> 'a word \<Rightarrow> 'a word option" where
  "checked_div a b = (if b = 0 then None else Some (a div b))"

definition saturating_sub :: "'a::len word \<Rightarrow> 'a word \<Rightarrow> 'a word" where
  "saturating_sub a b = (if unat b \<le> unat a then a - b else 0)"

text \<open>The address type \<open>usize\<close> has 64 bits on the target; it is a \<open>nat\<close> whose operations saturate or wrap explicitly.\<close>

definition usize_max :: nat where
  "usize_max = 2 ^ 64 - 1"

definition usize_sat_add :: "nat \<Rightarrow> nat \<Rightarrow> nat" where
  "usize_sat_add a b = min (a + b) usize_max"

definition usize_sat_mul :: "nat \<Rightarrow> nat \<Rightarrow> nat" where
  "usize_sat_mul a b = min (a * b) usize_max"

definition usize_wrap :: "nat \<Rightarrow> nat" where
  "usize_wrap a = a mod 2 ^ 64"

subsection \<open>Byte buffers\<close>

fun le_bytes :: "nat \<Rightarrow> nat \<Rightarrow> u8 list" where
  "le_bytes 0 x = []"
| "le_bytes (Suc n) x = word_of_nat x # le_bytes n (x div 256)"

fun le_val :: "u8 list \<Rightarrow> nat" where
  "le_val [] = 0"
| "le_val (b # bs) = unat b + 256 * le_val bs"

definition write_at :: "nat \<Rightarrow> 'a list \<Rightarrow> 'a list \<Rightarrow> 'a list" where
  "write_at i bs d = take i d @ bs @ drop (i + length bs) d"

text \<open>\<open>&data[a..b]\<close> panics when the range is reversed or leaves the buffer.\<close>

definition get_range :: "'a list \<Rightarrow> nat \<Rightarrow> nat \<Rightarrow> ('a list, 'e) result" where
  "get_range d a b = (if a \<le> b \<and> b \<le> length d then Ok (take (b - a) (drop a d)) else Panic)"

subsection \<open>Iterator adaptors\<close>

text \<open>Of equal keys \<open>max_by_key\<close> keeps the last element and \<open>min_by_key\<close> the first.\<close>

fun max_by_key :: "('a \<Rightarrow> 'b::linorder) \<Rightarrow> 'a list \<Rightarrow> 'a option" where
  "max_by_key f [] = None"
| "max_by_key f (x # xs) = Some (foldl (\<lambda>m y. if f m \<le> f y then y else m) x xs)"

fun min_by_key :: "('a \<Rightarrow> 'b::linorder) \<Rightarrow> 'a list \<Rightarrow> 'a option" where
  "min_by_key f [] = None"
| "min_by_key f (x # xs) = Some (foldl (\<lambda>m y. if f y < f m then y else m) x xs)"

fun position :: "('a \<Rightarrow> bool) \<Rightarrow> 'a list \<Rightarrow> nat option" where
  "position p [] = None"
| "position p (x # xs) = (if p x then Some 0 else map_option Suc (position p xs))"

subsection \<open>Facts about results\<close>

lemma and_then_simps [simp]:
  "and_then (Ok x) f = f x" "and_then (Err e) f = Err e" "and_then Panic f = Panic"
  by (simp_all add: and_then_def)

lemma map_ok_simps [simp]:
  "map_ok g (Ok x) = Ok (g x)" "map_ok g (Err e) = Err e" "map_ok g Panic = Panic"
  by (simp_all add: map_ok_def)

lemma map_err_simps [simp]:
  "map_err g (Ok x) = Ok x" "map_err g (Err e) = Err (g e)" "map_err g Panic = Panic"
  by (simp_all add: map_err_def)

lemma expect_simps [simp]:
  "expect (Ok x) = Ok x" "expect (Err e) = Panic" "expect Panic = Panic"
  by (simp_all add: expect_def)

lemma ensure_simps [simp]:
  "ensure True e = Ok ()" "ensure False e = Err e"
  by (simp_all add: ensure_def)

lemma assert_simps [simp]:
  "assert True = Ok ()" "assert False = Panic"
  by (simp_all add: assert_def)

lemma ok_or_simps [simp]:
  "ok_or (Some v) e = Ok v" "ok_or None e = Err e"
  by (simp_all add: ok_or_def)

lemma unwrap_opt_simps [simp]:
  "unwrap_opt (Some v) = Ok v" "unwrap_opt None = Panic"
  by (simp_all add: unwrap_opt_def)

lemma is_ok_simps [simp]:
  "is_ok (Ok x)" "\<not> is_ok (Err e)" "\<not> is_ok Panic"
  by (simp_all add: is_ok_def)

lemma is_ok_iff: "is_ok r \<longleftrightarrow> (\<exists>x. r = Ok x)"
  by (cases r) auto

lemma and_then_eq_Ok [result_simps]:
  "and_then r f = Ok y \<longleftrightarrow> (\<exists>x. r = Ok x \<and> f x = Ok y)"
  by (cases r) auto

lemma map_ok_eq_Ok [result_simps]: "map_ok g r = Ok y \<longleftrightarrow> (\<exists>x. r = Ok x \<and> y = g x)"
  by (cases r) auto

lemma map_err_eq_Ok [result_simps]: "map_err g r = Ok y \<longleftrightarrow> r = Ok y"
  by (cases r) auto

lemma expect_eq_Ok [result_simps]: "expect r = Ok y \<longleftrightarrow> r = Ok y"
  by (cases r) auto

lemma expect_neq_Err [simp]: "expect r \<noteq> Err e"
  by (cases r) auto

lemma ensure_eq_Ok [result_simps]: "ensure b e = Ok u \<longleftrightarrow> b"
  by (cases b) auto

lemma assert_eq_Ok [result_simps]: "assert b = Ok u \<longleftrightarrow> b"
  by (cases b) auto

lemma ok_or_eq_Ok [result_simps]: "ok_or x e = Ok v \<longleftrightarrow> x = Some v"
  by (cases x) auto

lemma unwrap_opt_eq_Ok [result_simps]: "unwrap_opt x = Ok v \<longleftrightarrow> x = Some v"
  by (cases x) auto

lemma get_range_eq_Ok [result_simps]:
  "get_range d a b = Ok s \<longleftrightarrow> a \<le> b \<and> b \<le> length d \<and> s = take (b - a) (drop a d)"
  by (auto simp: get_range_def)

lemma if_Err_eq_Ok [result_simps]: "(if b then Err e else r) = Ok y \<longleftrightarrow> \<not> b \<and> r = Ok y"
  by simp

lemma if_Panic_eq_Ok [result_simps]: "(if b then Panic else r) = Ok y \<longleftrightarrow> \<not> b \<and> r = Ok y"
  by simp

text \<open>The rule for a loop with early return: what every completed iteration keeps holds at the end.\<close>

lemma try_fold_invariant:
  assumes "try_fold f s xs = Ok t" and "P s"
    and "\<And>s x s'. \<lbrakk>x \<in> set xs; P s; f s x = Ok s'\<rbrakk> \<Longrightarrow> P s'"
  shows "P t"
  using assms
proof (induction xs arbitrary: s)
  case Nil
  then show ?case by simp
next
  case (Cons x xs)
  from Cons.prems(1) obtain s' where s': "f s x = Ok s'" "try_fold f s' xs = Ok t"
    by (auto simp: and_then_eq_Ok)
  have "P s'" using Cons.prems(2,3) s'(1) by auto
  then show ?case using Cons.IH [OF s'(2)] Cons.prems(3) by auto
qed

subsection \<open>Facts about words\<close>

lemma unat_64_less [simp]: "unat (x :: u64) < 18446744073709551616"
  using unsigned_less [of x] by simp

lemma checked_add_eq_Some [word_nat]:
  "checked_add a b = Some c \<longleftrightarrow> unat a + unat b < 2 ^ LENGTH('a) \<and> unat c = unat a + unat b"
  for a b c :: "'a::len word"
proof -
  have "unat (a + b) = unat a + unat b" if "unat a + unat b < 2 ^ LENGTH('a)"
    using that unat_add_lem [of a b] by simp
  then show ?thesis by (auto simp: checked_add_def word_unat_eq_iff)
qed

lemma checked_sub_eq_Some [word_nat]:
  "checked_sub a b = Some c \<longleftrightarrow> unat b \<le> unat a \<and> unat c = unat a - unat b"
  for a b c :: "'a::len word"
proof -
  have "unat (a - b) = unat a - unat b" if "unat b \<le> unat a"
    using that by (simp add: unat_sub word_le_nat_alt)
  then show ?thesis by (auto simp: checked_sub_def word_unat_eq_iff)
qed

lemma checked_mul_eq_Some [word_nat]:
  "checked_mul a b = Some c \<longleftrightarrow> unat a * unat b < 2 ^ LENGTH('a) \<and> unat c = unat a * unat b"
  for a b c :: "'a::len word"
proof -
  have "unat (a * b) = unat a * unat b" if "unat a * unat b < 2 ^ LENGTH('a)"
    using that unat_mult_lem [of a b] by simp
  then show ?thesis by (auto simp: checked_mul_def word_unat_eq_iff)
qed

lemma checked_div_eq_Some [word_nat]:
  "checked_div a b = Some c \<longleftrightarrow> unat b \<noteq> 0 \<and> unat c = unat a div unat b"
  for a b c :: "'a::len word"
proof -
  have "unat (a div b) = unat a div unat b" by (rule unat_div_distrib)
  then have "a div b = c \<longleftrightarrow> unat c = unat a div unat b"
    by (metis word_unat_eq_iff)
  then show ?thesis by (simp add: checked_div_def unat_eq_zero)
qed

lemma checked_add_eq_None [word_nat]:
  "checked_add a b = None \<longleftrightarrow> 2 ^ LENGTH('a) \<le> unat a + unat b" for a b :: "'a::len word"
  by (auto simp: checked_add_def)

lemma checked_sub_eq_None [word_nat]: "checked_sub a b = None \<longleftrightarrow> unat a < unat b"
  by (auto simp: checked_sub_def)

lemma unat_saturating_sub [word_nat, simp]:
  "unat (saturating_sub a b) = unat a - unat b" for a b :: "'a::len word"
  by (auto simp: saturating_sub_def unat_sub word_le_nat_alt)

lemma unat_Suc_no_wrap: "unat x + 1 < 2 ^ LENGTH('a) \<Longrightarrow> unat (x + 1) = unat x + 1"
  for x :: "'a::len word"
  using unat_add_lem [of x 1] by (cases "LENGTH('a) = 1") auto

subsection \<open>Facts about byte buffers\<close>

lemma length_le_bytes [simp]: "length (le_bytes n x) = n"
  by (induction n arbitrary: x) auto

lemma le_val_le_bytes [simp]: "le_val (le_bytes n x) = x mod 256 ^ n"
proof (induction n arbitrary: x)
  case 0
  then show ?case by simp
next
  case (Suc n)
  have "unat (word_of_nat x :: u8) = x mod 256"
    by (simp add: unat_of_nat)
  with Suc show ?case by (simp add: mod_mult2_eq)
qed

lemma le_val_bound: "le_val bs < 256 ^ length bs"
proof (induction bs)
  case Nil
  then show ?case by simp
next
  case (Cons b bs)
  have "unat b < 256" using unsigned_less [of b] by simp
  with Cons show ?case by simp
qed

lemma le_bytes_le_val [simp]: "length bs = n \<Longrightarrow> le_bytes n (le_val bs) = bs"
proof (induction bs arbitrary: n)
  case Nil
  then show ?case by simp
next
  case (Cons b bs)
  have b: "unat b < 256" using unsigned_less [of b, where ?'a = nat] by simp
  have "unat (word_of_nat (unat b + 256 * le_val bs) :: u8) = unat b"
    using b by (simp only: unat_of_nat) simp
  then have "(word_of_nat (unat b + 256 * le_val bs) :: u8) = b"
    by (simp add: word_unat_eq_iff)
  with Cons b show ?case by auto
qed

lemma length_write_at [simp]: "i + length bs \<le> length d \<Longrightarrow> length (write_at i bs d) = length d"
  by (simp add: write_at_def)

lemma take_write_at [simp]: "j \<le> i \<Longrightarrow> i \<le> length d \<Longrightarrow> take j (write_at i bs d) = take j d"
  by (simp add: write_at_def min_def)

lemma drop_write_at [simp]:
  "i + length bs \<le> j \<Longrightarrow> i \<le> length d \<Longrightarrow> drop j (write_at i bs d) = drop j d"
  by (simp add: write_at_def min_def)

lemma read_write_at [simp]:
  "i \<le> length d \<Longrightarrow> n = length bs \<Longrightarrow> take n (drop i (write_at i bs d)) = bs"
  by (simp add: write_at_def)

lemma drop_write_at_split:
  "i \<le> length d \<Longrightarrow> drop i (write_at i bs d) = bs @ drop (i + length bs) d"
  by (simp add: write_at_def)

lemma drop_write_at_before:
  assumes "j \<le> i" and "i \<le> length d"
  shows "drop j (write_at i bs d) = take (i - j) (drop j d) @ bs @ drop (i + length bs) d"
  using assms by (simp add: write_at_def drop_take)

text \<open>A write leaves every range alone that it does not meet.\<close>

lemma range_write_at:
  assumes "j + n \<le> i \<or> i + length bs \<le> j" and "i + length bs \<le> length d"
  shows "take n (drop j (write_at i bs d)) = take n (drop j d)"
proof (cases "j + n \<le> i")
  case True
  have "take n (drop j xs) = drop j (take (n + j) xs)" for xs :: "'a list"
    by (simp add: take_drop)
  then show ?thesis using True assms by simp
next
  case False
  then show ?thesis using assms by simp
qed

subsection \<open>Facts about iterator adaptors\<close>

lemma foldl_max_by_key:
  fixes f :: "'a \<Rightarrow> 'b::linorder"
  shows "let m = foldl (\<lambda>m y. if f m \<le> f y then y else m) x xs
   in m \<in> set (x # xs) \<and> (\<forall>y \<in> set (x # xs). f y \<le> f m)"
proof (induction xs arbitrary: x)
  case Nil
  then show ?case by simp
next
  case (Cons z zs)
  show ?case
  proof (cases "f x \<le> f z")
    case True
    with Cons [of z] show ?thesis by (auto simp: Let_def intro: order_trans)
  next
    case False
    with Cons [of x] show ?thesis by (auto simp: Let_def intro: order_trans)
  qed
qed

lemma foldl_min_by_key:
  fixes f :: "'a \<Rightarrow> 'b::linorder"
  shows "let m = foldl (\<lambda>m y. if f y < f m then y else m) x xs
   in m \<in> set (x # xs) \<and> (\<forall>y \<in> set (x # xs). f m \<le> f y)"
proof (induction xs arbitrary: x)
  case Nil
  then show ?case by simp
next
  case (Cons z zs)
  show ?case
  proof (cases "f z < f x")
    case True
    with Cons [of z] show ?thesis by (auto simp: Let_def intro: order_trans)
  next
    case False
    with Cons [of x] show ?thesis by (auto simp: Let_def intro: order_trans)
  qed
qed

lemma max_by_key_SomeD:
  assumes "max_by_key f xs = Some m"
  shows "m \<in> set xs" and "\<And>y. y \<in> set xs \<Longrightarrow> f y \<le> f m"
  using assms foldl_max_by_key [of f "hd xs" "tl xs"] by (cases xs; auto simp: Let_def)+

lemma min_by_key_SomeD:
  assumes "min_by_key f xs = Some m"
  shows "m \<in> set xs" and "\<And>y. y \<in> set xs \<Longrightarrow> f m \<le> f y"
  using assms foldl_min_by_key [of f "hd xs" "tl xs"] by (cases xs; auto simp: Let_def)+

lemma max_by_key_eq_None [simp]: "max_by_key f xs = None \<longleftrightarrow> xs = []"
  by (cases xs) auto

lemma min_by_key_eq_None [simp]: "min_by_key f xs = None \<longleftrightarrow> xs = []"
  by (cases xs) auto

lemma position_SomeD:
  "position p xs = Some i \<Longrightarrow> i < length xs \<and> p (xs ! i) \<and> (\<forall>j < i. \<not> p (xs ! j))"
proof (induction xs arbitrary: i)
  case Nil
  then show ?case by simp
next
  case (Cons x xs)
  show ?case
  proof (cases "p x")
    case True
    with Cons.prems show ?thesis by simp
  next
    case False
    with Cons.prems obtain k where k: "position p xs = Some k" "i = Suc k" by auto
    from Cons.IH [OF k(1)] k(2) False show ?thesis by (auto simp: less_Suc_eq_0_disj)
  qed
qed

lemma position_eq_None [simp]: "position p xs = None \<longleftrightarrow> (\<forall>x \<in> set xs. \<not> p x)"
  by (induction xs) auto

end
