(* ===== verification/Errors.thy ===== *)
theory Errors
  imports Prelude
begin

text \<open>
  The error values of \<^verbatim>\<open>program/src/error.rs\<close>: the sixty variants of
  \<open>LidoError\<close> with their numeric codes, the \<open>ArithmeticError\<close> of
  \<^verbatim>\<open>token.rs\<close>, and the conversions that the question mark operator applies.
  \<open>ProgramError\<close> is Solana's type; the model has the variants that the program
  returns itself, and \<open>CpiError\<close> for an error of an invoked program.
\<close>

datatype arithmetic_error = ArithmeticError

datatype (plugins only: code size) lido_error =
    AlreadyInUse
  | InvalidOwner
  | InvalidAmount
  | SignatureMissing
  | InvalidReserveAccount
  | CalculationFailure
  | WrongStakeState
  | InvalidFeeAmount
  | MaximumNumberOfAccountsExceeded
  | UnexpectedMaxValidators
  | InvalidManager
  | InvalidMaintainer
  | InvalidAccountInfo
  | TooManyAccountKeys
  | InvalidFeeDistributionAccount
  | InvalidValidatorCreditAccount
  | ValidatorCreditChanged
  | InvalidFeeAccount
  | InvalidFeeRecipient
  | DuplicatedEntry
  | ValidatorCreditNotFound
  | ValidatorHasUnclaimedCredit
  | ReserveIsNotRentExempt
  | AmountExceedsReserve
  | DuplicatedMaintainer
  | InvalidAccountMember
  | InvalidAccountSize
  | NoActiveValidators
  | InvalidStakeAccount
  | InvalidStSolAccount
  | ExchangeRateAlreadyUpToDate
  | ExchangeRateNotUpdatedInThisEpoch
  | ValidatorBalanceDecreased
  | InvalidStakeAuthority
  | InvalidRewardsWithdrawAuthority
  | InvalidVoteAccount
  | InvalidTokenOwner
  | ValidatorWithMoreStakeExists
  | InvalidMint
  | StakeToInactiveValidator
  | ValidatorIsStillActive
  | ValidatorShouldHaveNoStakeAccounts
  | ValidatorWithLessStakeExists
  | ValidatorShouldHaveNoUnstakeAccounts
  | MaxUnstakeAccountsReached
  | ValidatorVoteAccountHasDifferentOwner
  | InvalidStSolAccountOwner
  | InstructionIsDeprecated
  | ValidationCommissionOutOfBounds
  | UnexpectedListAccountSize
  | InvalidAccountType
  | InvalidListAccount
  | LidoVersionMismatch
  | IndexOutOfBounds
  | PubkeyIndexMismatch
  | AccountListIndexOutOfBounds
  | ValidatorListNotEmpty
  | ValidatorHasNoStake
  | IncorrectReserveAddress
  | ValidatorPerfAlreadyUpdatedForEpoch

datatype program_error =
    Custom u32
  | InvalidArgument
  | InvalidInstructionData
  | InvalidAccountData
  | AccountDataTooSmall
  | NotEnoughAccountKeys
  | AccountNotRentExempt
  | InvalidSeeds
  | BorshIoError
  | CpiError u64

primrec lido_error_code :: "lido_error \<Rightarrow> u32" where
  "lido_error_code AlreadyInUse = 0"
| "lido_error_code InvalidOwner = 1"
| "lido_error_code InvalidAmount = 2"
| "lido_error_code SignatureMissing = 3"
| "lido_error_code InvalidReserveAccount = 4"
| "lido_error_code CalculationFailure = 5"
| "lido_error_code WrongStakeState = 6"
| "lido_error_code InvalidFeeAmount = 7"
| "lido_error_code MaximumNumberOfAccountsExceeded = 8"
| "lido_error_code UnexpectedMaxValidators = 9"
| "lido_error_code InvalidManager = 10"
| "lido_error_code InvalidMaintainer = 11"
| "lido_error_code InvalidAccountInfo = 12"
| "lido_error_code TooManyAccountKeys = 13"
| "lido_error_code InvalidFeeDistributionAccount = 14"
| "lido_error_code InvalidValidatorCreditAccount = 15"
| "lido_error_code ValidatorCreditChanged = 16"
| "lido_error_code InvalidFeeAccount = 17"
| "lido_error_code InvalidFeeRecipient = 18"
| "lido_error_code DuplicatedEntry = 19"
| "lido_error_code ValidatorCreditNotFound = 20"
| "lido_error_code ValidatorHasUnclaimedCredit = 21"
| "lido_error_code ReserveIsNotRentExempt = 22"
| "lido_error_code AmountExceedsReserve = 23"
| "lido_error_code DuplicatedMaintainer = 24"
| "lido_error_code InvalidAccountMember = 25"
| "lido_error_code InvalidAccountSize = 26"
| "lido_error_code NoActiveValidators = 27"
| "lido_error_code InvalidStakeAccount = 28"
| "lido_error_code InvalidStSolAccount = 29"
| "lido_error_code ExchangeRateAlreadyUpToDate = 30"
| "lido_error_code ExchangeRateNotUpdatedInThisEpoch = 31"
| "lido_error_code ValidatorBalanceDecreased = 32"
| "lido_error_code InvalidStakeAuthority = 33"
| "lido_error_code InvalidRewardsWithdrawAuthority = 34"
| "lido_error_code InvalidVoteAccount = 35"
| "lido_error_code InvalidTokenOwner = 36"
| "lido_error_code ValidatorWithMoreStakeExists = 37"
| "lido_error_code InvalidMint = 38"
| "lido_error_code StakeToInactiveValidator = 39"
| "lido_error_code ValidatorIsStillActive = 40"
| "lido_error_code ValidatorShouldHaveNoStakeAccounts = 41"
| "lido_error_code ValidatorWithLessStakeExists = 42"
| "lido_error_code ValidatorShouldHaveNoUnstakeAccounts = 43"
| "lido_error_code MaxUnstakeAccountsReached = 44"
| "lido_error_code ValidatorVoteAccountHasDifferentOwner = 45"
| "lido_error_code InvalidStSolAccountOwner = 46"
| "lido_error_code InstructionIsDeprecated = 47"
| "lido_error_code ValidationCommissionOutOfBounds = 48"
| "lido_error_code UnexpectedListAccountSize = 49"
| "lido_error_code InvalidAccountType = 50"
| "lido_error_code InvalidListAccount = 51"
| "lido_error_code LidoVersionMismatch = 52"
| "lido_error_code IndexOutOfBounds = 53"
| "lido_error_code PubkeyIndexMismatch = 54"
| "lido_error_code AccountListIndexOutOfBounds = 55"
| "lido_error_code ValidatorListNotEmpty = 56"
| "lido_error_code ValidatorHasNoStake = 57"
| "lido_error_code IncorrectReserveAddress = 58"
| "lido_error_code ValidatorPerfAlreadyUpdatedForEpoch = 59"

definition lido_error_of_arithmetic :: "arithmetic_error \<Rightarrow> lido_error" where
  "lido_error_of_arithmetic e = CalculationFailure"

definition program_error_of_arithmetic :: "arithmetic_error \<Rightarrow> program_error" where
  "program_error_of_arithmetic e = Custom (lido_error_code CalculationFailure)"

definition program_error_of_lido :: "lido_error \<Rightarrow> program_error" where
  "program_error_of_lido e = Custom (lido_error_code e)"

text \<open>Abbreviations for an error raised through \<open>.into()\<close> and for the conversions of the question mark operator.\<close>

abbreviation lido_err :: "lido_error \<Rightarrow> program_error" where
  "lido_err e \<equiv> program_error_of_lido e"

abbreviation from_arith :: "('a, arithmetic_error) result \<Rightarrow> ('a, program_error) result" where
  "from_arith r \<equiv> map_err program_error_of_arithmetic r"

abbreviation from_lido :: "('a, lido_error) result \<Rightarrow> ('a, program_error) result" where
  "from_lido r \<equiv> map_err program_error_of_lido r"

subsection \<open>Codes identify errors\<close>

definition all_lido_errors :: "lido_error list" where
  "all_lido_errors = [
     AlreadyInUse, InvalidOwner, InvalidAmount, SignatureMissing,
     InvalidReserveAccount, CalculationFailure, WrongStakeState, InvalidFeeAmount,
     MaximumNumberOfAccountsExceeded, UnexpectedMaxValidators, InvalidManager, InvalidMaintainer,
     InvalidAccountInfo, TooManyAccountKeys, InvalidFeeDistributionAccount, InvalidValidatorCreditAccount,
     ValidatorCreditChanged, InvalidFeeAccount, InvalidFeeRecipient, DuplicatedEntry,
     ValidatorCreditNotFound, ValidatorHasUnclaimedCredit, ReserveIsNotRentExempt, AmountExceedsReserve,
     DuplicatedMaintainer, InvalidAccountMember, InvalidAccountSize, NoActiveValidators,
     InvalidStakeAccount, InvalidStSolAccount, ExchangeRateAlreadyUpToDate, ExchangeRateNotUpdatedInThisEpoch,
     ValidatorBalanceDecreased, InvalidStakeAuthority, InvalidRewardsWithdrawAuthority, InvalidVoteAccount,
     InvalidTokenOwner, ValidatorWithMoreStakeExists, InvalidMint, StakeToInactiveValidator,
     ValidatorIsStillActive, ValidatorShouldHaveNoStakeAccounts, ValidatorWithLessStakeExists, ValidatorShouldHaveNoUnstakeAccounts,
     MaxUnstakeAccountsReached, ValidatorVoteAccountHasDifferentOwner, InvalidStSolAccountOwner, InstructionIsDeprecated,
     ValidationCommissionOutOfBounds, UnexpectedListAccountSize, InvalidAccountType, InvalidListAccount,
     LidoVersionMismatch, IndexOutOfBounds, PubkeyIndexMismatch, AccountListIndexOutOfBounds,
     ValidatorListNotEmpty, ValidatorHasNoStake, IncorrectReserveAddress, ValidatorPerfAlreadyUpdatedForEpoch]"

lemma all_lido_errors_complete: "e \<in> set all_lido_errors"
  by (cases e) (simp_all add: all_lido_errors_def)

lemma lido_error_code_index:
  "i < 60 \<Longrightarrow> unat (lido_error_code (all_lido_errors ! i)) = i"
proof -
  have "map (unat \<circ> lido_error_code) all_lido_errors = [0..<60]"
    by (simp add: all_lido_errors_def upt_rec)
  moreover assume "i < 60"
  moreover have "length all_lido_errors = 60"
    by (simp add: all_lido_errors_def)
  ultimately show ?thesis
    by (metis comp_apply nth_map nth_upt add_0 diff_zero)
qed

lemma lido_error_code_inj: "lido_error_code a = lido_error_code b \<Longrightarrow> a = b"
proof -
  assume eq: "lido_error_code a = lido_error_code b"
  have len: "length all_lido_errors = 60" by (simp add: all_lido_errors_def)
  obtain i j where "i < 60" "a = all_lido_errors ! i" "j < 60" "b = all_lido_errors ! j"
    using all_lido_errors_complete len by (metis in_set_conv_nth)
  with eq lido_error_code_index show ?thesis by metis
qed

lemma program_error_of_lido_inj [simp]:
  "program_error_of_lido a = program_error_of_lido b \<longleftrightarrow> a = b"
  by (auto simp: program_error_of_lido_def dest: lido_error_code_inj)

end
