(* ===== verification/Token.thy ===== *)
theory Token
  imports Complex_Main Errors
begin

text \<open>
  \<^verbatim>\<open>program/src/token.rs\<close>: rationals, the bodies that the macro
  \<open>impl_token!\<close> generates for every token type, and its two instances
  \<open>Lamports\<close> and \<open>StLamports\<close>. The macro's bodies are functions on \<open>u64\<close>; an
  instance wraps them in its own type. The locale \<open>token\<close> is the contract of
  one instance, and both instances interpret it. The floating point
  operations \<open>Rational::div\<close> and \<open>to_f64\<close> are not modelled.
\<close>

record rational =
  numerator :: u64
  denominator :: u64

datatype ordering = Less | Equal | Greater

definition rational_partial_cmp :: "rational \<Rightarrow> rational \<Rightarrow> ordering option" where
  "rational_partial_cmp a b =
     (if denominator a = 0 \<or> denominator b = 0 then None
      else let x = (ucast (numerator a) :: 128 word) * ucast (denominator b);
               y = (ucast (numerator b) :: 128 word) * ucast (denominator a)
           in Some (if x < y then Less else if x = y then Equal else Greater))"

text \<open>The operator \<open>>=\<close> that \<open>PartialOrd\<close> derives from \<open>partial_cmp\<close>.\<close>

definition rational_ge :: "rational \<Rightarrow> rational \<Rightarrow> bool" where
  "rational_ge a b = (case rational_partial_cmp a b of
     Some Greater \<Rightarrow> True | Some Equal \<Rightarrow> True | _ \<Rightarrow> False)"

subsection \<open>The bodies of the macro\<close>

definition token_mul_rational :: "u64 \<Rightarrow> rational \<Rightarrow> (u64, arithmetic_error) result" where
  "token_mul_rational x r =
     and_then (ok_or (checked_div ((ucast x :: 128 word) * ucast (numerator r))
                                  (ucast (denominator r))) ArithmeticError) (\<lambda>q.
     if unat q < 2 ^ 64 then Ok (ucast q) else Err ArithmeticError)"

definition token_mul :: "u64 \<Rightarrow> u64 \<Rightarrow> (u64, arithmetic_error) result" where
  "token_mul x y = ok_or (checked_mul x y) ArithmeticError"

definition token_div :: "u64 \<Rightarrow> u64 \<Rightarrow> (u64, arithmetic_error) result" where
  "token_div x y = ok_or (checked_div x y) ArithmeticError"

definition token_sub :: "u64 \<Rightarrow> u64 \<Rightarrow> (u64, arithmetic_error) result" where
  "token_sub x y = ok_or (checked_sub x y) ArithmeticError"

definition token_add :: "u64 \<Rightarrow> u64 \<Rightarrow> (u64, arithmetic_error) result" where
  "token_add x y = ok_or (checked_add x y) ArithmeticError"

definition token_sum :: "u64 list \<Rightarrow> (u64, arithmetic_error) result" where
  "token_sum xs = try_fold token_add 0 xs"

text \<open>Decimal printing, as \<open>fmt::Display\<close> does it: the formatter's digits, and \<open>{:0>9}\<close>.\<close>

fun dec_digits :: "nat \<Rightarrow> nat list" where
  "dec_digits n = (if n < 10 then [n] else dec_digits (n div 10) @ [n mod 10])"

definition digit_char :: "nat \<Rightarrow> char" where
  "digit_char d = char_of (48 + d)"

definition fmt_u64 :: "nat \<Rightarrow> string" where
  "fmt_u64 n = map digit_char (dec_digits n)"

definition pad_left_9 :: "string \<Rightarrow> string" where
  "pad_left_9 s = replicate (9 - length s) (digit_char 0) @ s"

definition token_display :: "nat \<Rightarrow> string \<Rightarrow> u64 \<Rightarrow> string" where
  "token_display decimals symbol x =
     fmt_u64 (unat x div 10 ^ decimals) @ ''.'' @
     drop (9 - decimals) (pad_left_9 (fmt_u64 (unat x mod 10 ^ decimals))) @ '' '' @ symbol"

datatype parse_error =
    SecondDecimalPoint
  | InvalidCharacter
  | TooManyDecimals
  | NoDigit

text \<open>
  The loop of \<open>from_str\<close> over the bytes of the string. The value is an
  unchecked \<open>u64\<close>; the exponent is an \<open>i32\<close> that starts at the number of
  decimals and is never decremented below \<open>-1\<close>.
\<close>

fun from_str_loop ::
  "string \<Rightarrow> u64 \<Rightarrow> bool \<Rightarrow> int \<Rightarrow> bool \<Rightarrow> (u64 \<times> int \<times> bool, parse_error) result" where
  "from_str_loop [] val is_after_decimal expo had_digit = Ok (val, expo, had_digit)"
| "from_str_loop (ch # s) val is_after_decimal expo had_digit =
     (let c = of_char ch :: nat in
      if 48 \<le> c \<and> c \<le> 57 then
        (let expo' = (if is_after_decimal then expo - 1 else expo) in
         if expo' < 0 then Err TooManyDecimals
         else from_str_loop s (val * 10 + word_of_nat (c - 48)) is_after_decimal expo' True)
      else if ch = CHR ''.'' \<and> \<not> is_after_decimal then
        (if expo < 0 then Err TooManyDecimals
         else from_str_loop s val True expo had_digit)
      else if ch = CHR ''.'' then Err SecondDecimalPoint
      else if ch = CHR ''_'' then
        (if expo < 0 then Err TooManyDecimals
         else from_str_loop s val is_after_decimal expo had_digit)
      else Err InvalidCharacter)"

text \<open>\<open>while exponent > 0 { value *= 10; exponent -= 1; }\<close>\<close>

fun scale_up :: "nat \<Rightarrow> u64 \<Rightarrow> u64" where
  "scale_up 0 val = val"
| "scale_up (Suc n) val = scale_up n (val * 10)"

definition token_from_str :: "nat \<Rightarrow> string \<Rightarrow> (u64, parse_error) result" where
  "token_from_str decimals s =
     and_then (from_str_loop s 0 False (int decimals) False) (\<lambda>(val, expo, had_digit).
     if \<not> had_digit then Err NoDigit
     else Ok (scale_up (nat expo) val))"

subsection \<open>The two instances\<close>

datatype lamports = Lamports (lam: u64)

datatype st_lamports = StLamports (st_lam: u64)

instantiation lamports :: linorder
begin

definition less_eq_lamports :: "lamports \<Rightarrow> lamports \<Rightarrow> bool" where
  "less_eq_lamports a b \<longleftrightarrow> lam a \<le> lam b"

definition less_lamports :: "lamports \<Rightarrow> lamports \<Rightarrow> bool" where
  "less_lamports a b \<longleftrightarrow> lam a < lam b"

instance
  by standard (auto simp: less_eq_lamports_def less_lamports_def lamports.expand)

end

instantiation st_lamports :: linorder
begin

definition less_eq_st_lamports :: "st_lamports \<Rightarrow> st_lamports \<Rightarrow> bool" where
  "less_eq_st_lamports a b \<longleftrightarrow> st_lam a \<le> st_lam b"

definition less_st_lamports :: "st_lamports \<Rightarrow> st_lamports \<Rightarrow> bool" where
  "less_st_lamports a b \<longleftrightarrow> st_lam a < st_lam b"

instance
  by standard (auto simp: less_eq_st_lamports_def less_st_lamports_def st_lamports.expand)

end

definition lamports_mul_rational :: "lamports \<Rightarrow> rational \<Rightarrow> (lamports, arithmetic_error) result" where
  "lamports_mul_rational a r = map_ok Lamports (token_mul_rational (lam a) r)"

definition lamports_mul :: "lamports \<Rightarrow> u64 \<Rightarrow> (lamports, arithmetic_error) result" where
  "lamports_mul a n = map_ok Lamports (token_mul (lam a) n)"

definition lamports_div :: "lamports \<Rightarrow> u64 \<Rightarrow> (lamports, arithmetic_error) result" where
  "lamports_div a n = map_ok Lamports (token_div (lam a) n)"

definition lamports_sub :: "lamports \<Rightarrow> lamports \<Rightarrow> (lamports, arithmetic_error) result" where
  "lamports_sub a b = map_ok Lamports (token_sub (lam a) (lam b))"

definition lamports_add :: "lamports \<Rightarrow> lamports \<Rightarrow> (lamports, arithmetic_error) result" where
  "lamports_add a b = map_ok Lamports (token_add (lam a) (lam b))"

definition lamports_sum :: "lamports list \<Rightarrow> (lamports, arithmetic_error) result" where
  "lamports_sum xs = map_ok Lamports (token_sum (map lam xs))"

definition lamports_display :: "lamports \<Rightarrow> string" where
  "lamports_display a = token_display 9 ''SOL'' (lam a)"

definition lamports_from_str :: "string \<Rightarrow> (lamports, parse_error) result" where
  "lamports_from_str s = map_ok Lamports (token_from_str 9 s)"

definition st_lamports_mul_rational :: "st_lamports \<Rightarrow> rational \<Rightarrow> (st_lamports, arithmetic_error) result" where
  "st_lamports_mul_rational a r = map_ok StLamports (token_mul_rational (st_lam a) r)"

definition st_lamports_mul :: "st_lamports \<Rightarrow> u64 \<Rightarrow> (st_lamports, arithmetic_error) result" where
  "st_lamports_mul a n = map_ok StLamports (token_mul (st_lam a) n)"

definition st_lamports_div :: "st_lamports \<Rightarrow> u64 \<Rightarrow> (st_lamports, arithmetic_error) result" where
  "st_lamports_div a n = map_ok StLamports (token_div (st_lam a) n)"

definition st_lamports_sub :: "st_lamports \<Rightarrow> st_lamports \<Rightarrow> (st_lamports, arithmetic_error) result" where
  "st_lamports_sub a b = map_ok StLamports (token_sub (st_lam a) (st_lam b))"

definition st_lamports_add :: "st_lamports \<Rightarrow> st_lamports \<Rightarrow> (st_lamports, arithmetic_error) result" where
  "st_lamports_add a b = map_ok StLamports (token_add (st_lam a) (st_lam b))"

definition st_lamports_sum :: "st_lamports list \<Rightarrow> (st_lamports, arithmetic_error) result" where
  "st_lamports_sum xs = map_ok StLamports (token_sum (map st_lam xs))"

definition st_lamports_display :: "st_lamports \<Rightarrow> string" where
  "st_lamports_display a = token_display 9 ''stSOL'' (st_lam a)"

definition st_lamports_from_str :: "string \<Rightarrow> (st_lamports, parse_error) result" where
  "st_lamports_from_str s = map_ok StLamports (token_from_str 9 s)"


subsection \<open>Widening multiplication\<close>

lemma unat_ucast_64_128 [simp]: "unat (ucast (x :: u64) :: 128 word) = unat x"
proof -
  have "unat x < 2 ^ 128" by (rule order_less_trans [OF unat_64_less]) simp
  then show ?thesis by (simp add: unsigned_ucast_eq take_bit_eq_mod)
qed

lemma u64_mult_bound: "unat (x :: u64) * unat (y :: u64) < 2 ^ 128"
proof -
  have "unat x * unat y < 2 ^ 64 * 2 ^ 64"
    by (rule mult_strict_mono') (use unsigned_less [where ?'a = nat and 'b = 64] in simp_all)
  then show ?thesis by simp
qed

lemma unat_widening_mul [simp]:
  "unat ((ucast (x :: u64) :: 128 word) * ucast (y :: u64)) = unat x * unat y"
proof -
  have "unat ((ucast x :: 128 word) * ucast y) = unat (ucast x :: 128 word) * unat (ucast y :: 128 word)"
    using u64_mult_bound [of x y] unat_mult_lem [of "ucast x :: 128 word" "ucast y"] by simp
  then show ?thesis by simp
qed

lemma unat_ucast_128_64: "unat (q :: 128 word) < 2 ^ 64 \<Longrightarrow> unat (ucast q :: u64) = unat q"
  by (simp add: unsigned_ucast_eq take_bit_eq_mod)

subsection \<open>The macro's bodies on natural numbers\<close>

lemma token_mul_rational_eq_Ok [word_nat]:
  "token_mul_rational x r = Ok y \<longleftrightarrow>
     unat (denominator r) \<noteq> 0 \<and>
     unat x * unat (numerator r) div unat (denominator r) < 2 ^ 64 \<and>
     unat y = unat x * unat (numerator r) div unat (denominator r)"
proof -
  have q: "checked_div ((ucast x :: 128 word) * ucast (numerator r)) (ucast (denominator r)) = Some q \<longleftrightarrow>
      unat (denominator r) \<noteq> 0 \<and> unat q = unat x * unat (numerator r) div unat (denominator r)" for q
    by (simp add: checked_div_eq_Some)
  show ?thesis
  proof (cases "unat (denominator r) = 0")
    case True
    then show ?thesis by (auto simp: token_mul_rational_def and_then_eq_Ok ok_or_eq_Ok q)
  next
    case False
    then have "checked_div ((ucast x :: 128 word) * ucast (numerator r)) (ucast (denominator r)) \<noteq> None"
      by (metis checked_div_def option.distinct(1) unat_ucast_64_128 unat_0)
    then obtain q' where q': "checked_div ((ucast x :: 128 word) * ucast (numerator r)) (ucast (denominator r)) = Some q'"
      by blast
    with q have uq: "unat q' = unat x * unat (numerator r) div unat (denominator r)" by blast
    have "token_mul_rational x r = Ok y \<longleftrightarrow> unat q' < 2 ^ 64 \<and> y = ucast q'"
      by (auto simp: token_mul_rational_def q')
    also have "\<dots> \<longleftrightarrow> unat q' < 2 ^ 64 \<and> unat y = unat q'"
      using unat_ucast_128_64 [of q'] by (auto simp: word_unat_eq_iff)
    finally show ?thesis using False uq by simp
  qed
qed

lemma token_mul_rational_no_Panic [simp]: "token_mul_rational x r \<noteq> Panic"
  by (cases "checked_div ((ucast x :: 128 word) * ucast (numerator r)) (ucast (denominator r))")
    (simp_all add: token_mul_rational_def)

lemma token_add_eq_Ok [word_nat]:
  "token_add x y = Ok z \<longleftrightarrow> unat x + unat y < 2 ^ 64 \<and> unat z = unat x + unat y"
  by (simp add: token_add_def ok_or_eq_Ok checked_add_eq_Some)

lemma token_sub_eq_Ok [word_nat]:
  "token_sub x y = Ok z \<longleftrightarrow> unat y \<le> unat x \<and> unat z = unat x - unat y"
  by (simp add: token_sub_def ok_or_eq_Ok checked_sub_eq_Some)

lemma token_mul_eq_Ok [word_nat]:
  "token_mul x y = Ok z \<longleftrightarrow> unat x * unat y < 2 ^ 64 \<and> unat z = unat x * unat y"
  by (simp add: token_mul_def ok_or_eq_Ok checked_mul_eq_Some)

lemma token_div_eq_Ok [word_nat]:
  "token_div x y = Ok z \<longleftrightarrow> unat y \<noteq> 0 \<and> unat z = unat x div unat y"
  by (simp add: token_div_def ok_or_eq_Ok checked_div_eq_Some)

lemma ok_or_no_Panic [simp]: "ok_or x e \<noteq> Panic"
  by (cases x) auto

lemma token_ops_no_Panic [simp]:
  "token_add x y \<noteq> Panic" "token_sub x y \<noteq> Panic" "token_mul x y \<noteq> Panic" "token_div x y \<noteq> Panic"
  by (simp_all add: token_add_def token_sub_def token_mul_def token_div_def)

lemma token_sum_from:
  "try_fold token_add s xs = Ok t \<longleftrightarrow>
     unat s + sum_list (map unat xs) < 2 ^ 64 \<and> unat t = unat s + sum_list (map unat xs)"
proof (induction xs arbitrary: s)
  case Nil
  have "unat s < 2 ^ 64" using unsigned_less [of s, where ?'a = nat] by simp
  then show ?case by (auto simp: word_unat_eq_iff)
next
  case (Cons x xs)
  show ?case
  proof (cases "unat s + unat x < 2 ^ 64")
    case True
    then have "token_add s x = Ok (s + x)" and "unat (s + x) = unat s + unat x"
      using unat_add_lem [of s x] by (simp_all add: token_add_eq_Ok)
    with Cons [of "s + x"] show ?thesis by (simp add: add.assoc)
  next
    case False
    then have "token_add s x \<noteq> Ok z" for z by (simp add: token_add_eq_Ok)
    with False show ?thesis by (auto simp: and_then_eq_Ok)
  qed
qed

lemma token_sum_eq_Ok [word_nat]:
  "token_sum xs = Ok t \<longleftrightarrow> sum_list (map unat xs) < 2 ^ 64 \<and> unat t = sum_list (map unat xs)"
  using token_sum_from [of 0 xs t] by (simp add: token_sum_def)

lemma try_fold_no_Panic: "(\<And>s x. f s x \<noteq> Panic) \<Longrightarrow> try_fold f s xs \<noteq> Panic"
proof (induction xs arbitrary: s)
  case Nil
  then show ?case by simp
next
  case (Cons x xs)
  then show ?case by (cases "f s x") auto
qed

lemma token_sum_no_Panic [simp]: "token_sum xs \<noteq> Panic"
  unfolding token_sum_def by (rule try_fold_no_Panic) simp

subsection \<open>The contract of a token type\<close>

text \<open>
  A token type wraps a \<open>u64\<close>, and its operations are the macro's bodies under
  the wrapper. Everything the components need of \<open>Lamports\<close> and \<open>StLamports\<close> is
  proved here once, on the natural number behind the value.
\<close>

locale token =
  fixes mk :: "u64 \<Rightarrow> 't"
    and raw :: "'t \<Rightarrow> u64"
    and add sub :: "'t \<Rightarrow> 't \<Rightarrow> ('t, arithmetic_error) result"
    and mulr :: "'t \<Rightarrow> rational \<Rightarrow> ('t, arithmetic_error) result"
    and sumr :: "'t list \<Rightarrow> ('t, arithmetic_error) result"
  assumes raw_mk: "raw (mk x) = x"
    and mk_raw: "mk (raw a) = a"
    and add_body: "add a b = map_ok mk (token_add (raw a) (raw b))"
    and sub_body: "sub a b = map_ok mk (token_sub (raw a) (raw b))"
    and mulr_body: "mulr a r = map_ok mk (token_mul_rational (raw a) r)"
    and sumr_body: "sumr xs = map_ok mk (token_sum (map raw xs))"
begin

lemma map_ok_mk_eq_Ok: "map_ok mk r = Ok c \<longleftrightarrow> r = Ok (raw c)"
  using raw_mk mk_raw by (cases r) auto

lemma add_eq_Ok:
  "add a b = Ok c \<longleftrightarrow>
     unat (raw a) + unat (raw b) < 2 ^ 64 \<and> unat (raw c) = unat (raw a) + unat (raw b)"
  by (simp add: add_body map_ok_mk_eq_Ok token_add_eq_Ok)

lemma sub_eq_Ok:
  "sub a b = Ok c \<longleftrightarrow> unat (raw b) \<le> unat (raw a) \<and> unat (raw c) = unat (raw a) - unat (raw b)"
  by (simp add: sub_body map_ok_mk_eq_Ok token_sub_eq_Ok)

lemma mulr_eq_Ok:
  "mulr a r = Ok c \<longleftrightarrow>
     unat (denominator r) \<noteq> 0 \<and>
     unat (raw a) * unat (numerator r) div unat (denominator r) < 2 ^ 64 \<and>
     unat (raw c) = unat (raw a) * unat (numerator r) div unat (denominator r)"
  by (simp add: mulr_body map_ok_mk_eq_Ok token_mul_rational_eq_Ok)

lemma sumr_eq_Ok:
  "sumr xs = Ok c \<longleftrightarrow>
     (\<Sum>x\<leftarrow>xs. unat (raw x)) < 2 ^ 64 \<and> unat (raw c) = (\<Sum>x\<leftarrow>xs. unat (raw x))"
  by (simp add: sumr_body map_ok_mk_eq_Ok token_sum_eq_Ok comp_def)

lemma no_Panic: "add a b \<noteq> Panic" "sub a b \<noteq> Panic" "mulr a r \<noteq> Panic" "sumr xs \<noteq> Panic"
  by (simp_all add: add_body sub_body mulr_body sumr_body map_ok_def split: result.splits)

lemma sub_exists: "unat (raw b) \<le> unat (raw a) \<Longrightarrow> \<exists>c. sub a b = Ok c"
  using sub_eq_Ok [of a b "mk (raw a - raw b)"] raw_mk
  by (metis unat_sub word_le_nat_alt)

lemma add_exists: "unat (raw a) + unat (raw b) < 2 ^ 64 \<Longrightarrow> \<exists>c. add a b = Ok c"
  using add_eq_Ok [of a b "mk (raw a + raw b)"] raw_mk unat_add_lem [of "raw a" "raw b"]
  by auto

lemma mulr_exists:
  assumes "unat (denominator r) \<noteq> 0"
    and "unat (raw a) * unat (numerator r) div unat (denominator r) < 2 ^ 64"
  shows "\<exists>c. mulr a r = Ok c"
proof -
  let ?n = "unat (raw a) * unat (numerator r) div unat (denominator r)"
  have "unat (word_of_nat ?n :: u64) = ?n" using assms(2) by (simp add: unat_of_nat)
  then have "mulr a r = Ok (mk (word_of_nat ?n))"
    using assms by (simp add: mulr_eq_Ok raw_mk)
  then show ?thesis ..
qed

lemma sumr_exists: "(\<Sum>x\<leftarrow>xs. unat (raw x)) < 2 ^ 64 \<Longrightarrow> \<exists>c. sumr xs = Ok c"
proof -
  let ?n = "\<Sum>x\<leftarrow>xs. unat (raw x)"
  assume "?n < 2 ^ 64"
  then have "sumr xs = Ok (mk (word_of_nat ?n))"
    by (simp add: sumr_eq_Ok raw_mk unat_of_nat)
  then show ?thesis ..
qed

end

interpretation lamp: token Lamports lam lamports_add lamports_sub lamports_mul_rational lamports_sum
  by unfold_locales
    (simp_all add: lamports_add_def lamports_sub_def lamports_mul_rational_def lamports_sum_def)

interpretation stl: token StLamports st_lam st_lamports_add st_lamports_sub st_lamports_mul_rational
  st_lamports_sum
  by unfold_locales
    (simp_all add: st_lamports_add_def st_lamports_sub_def st_lamports_mul_rational_def
      st_lamports_sum_def)

lemma lamports_eq_iff: "a = b \<longleftrightarrow> unat (lam a) = unat (lam b)"
  by (metis lamports.expand word_unat_eq_iff)

lemma st_lamports_eq_iff: "a = b \<longleftrightarrow> unat (st_lam a) = unat (st_lam b)"
  by (metis st_lamports.expand word_unat_eq_iff)

lemma lamports_le_iff: "a \<le> b \<longleftrightarrow> unat (lam a) \<le> unat (lam b)"
  by (simp add: less_eq_lamports_def word_le_nat_alt)

lemma lamports_less_iff: "a < b \<longleftrightarrow> unat (lam a) < unat (lam b)"
  by (simp add: less_lamports_def word_less_nat_alt)

lemma st_lamports_le_iff: "a \<le> b \<longleftrightarrow> unat (st_lam a) \<le> unat (st_lam b)"
  by (simp add: less_eq_st_lamports_def word_le_nat_alt)

lemmas token_nat = lamp.add_eq_Ok lamp.sub_eq_Ok lamp.mulr_eq_Ok lamp.sumr_eq_Ok
  stl.add_eq_Ok stl.sub_eq_Ok stl.mulr_eq_Ok stl.sumr_eq_Ok
  lamports_le_iff lamports_less_iff


subsection \<open>Comparing rationals\<close>

definition rational_value :: "rational \<Rightarrow> rat" where
  "rational_value r = of_nat (unat (numerator r)) / of_nat (unat (denominator r))"

lemma cross_multiply:
  fixes a b c d :: nat
  assumes "b \<noteq> 0" and "d \<noteq> 0"
  shows "(of_nat a / of_nat b :: rat) < of_nat c / of_nat d \<longleftrightarrow> a * d < c * b"
    and "(of_nat a / of_nat b :: rat) = of_nat c / of_nat d \<longleftrightarrow> a * d = c * b"
proof -
  have "(of_nat a / of_nat b :: rat) < of_nat c / of_nat d \<longleftrightarrow>
      (of_nat (a * d) :: rat) < of_nat (c * b)"
    using assms by (simp add: field_simps)
  then show "(of_nat a / of_nat b :: rat) < of_nat c / of_nat d \<longleftrightarrow> a * d < c * b"
    by (simp only: of_nat_less_iff)
  have "(of_nat a / of_nat b :: rat) = of_nat c / of_nat d \<longleftrightarrow>
      (of_nat (a * d) :: rat) = of_nat (c * b)"
    using assms by (simp add: field_simps)
  then show "(of_nat a / of_nat b :: rat) = of_nat c / of_nat d \<longleftrightarrow> a * d = c * b"
    by (simp only: of_nat_eq_iff)
qed

text \<open>\<open>partial_cmp\<close> on \<open>Rational\<close> decides the order of the two fractions exactly:
  the products in \<open>u128\<close> never overflow, the answer is \<open>None\<close> precisely when a
  denominator is zero, and otherwise it is the order of the rational numbers.\<close>

theorem rational_partial_cmp_exact:
  "rational_partial_cmp a b =
     (if denominator a = 0 \<or> denominator b = 0 then None
      else Some (if rational_value a < rational_value b then Less
                 else if rational_value a = rational_value b then Equal else Greater))"
proof (cases "denominator a = 0 \<or> denominator b = 0")
  case True
  then show ?thesis by (simp add: rational_partial_cmp_def)
next
  case False
  let ?x = "(ucast (numerator a) :: 128 word) * ucast (denominator b)"
  let ?y = "(ucast (numerator b) :: 128 word) * ucast (denominator a)"
  have nz: "unat (denominator a) \<noteq> 0" "unat (denominator b) \<noteq> 0"
    using False by (simp_all add: unat_eq_zero)
  have "?x < ?y \<longleftrightarrow> rational_value a < rational_value b"
    unfolding rational_value_def cross_multiply(1) [OF nz] by (simp add: word_less_nat_alt)
  moreover have "?x = ?y \<longleftrightarrow> rational_value a = rational_value b"
    unfolding rational_value_def cross_multiply(2) [OF nz] by (simp add: word_unat_eq_iff)
  ultimately show ?thesis using False by (simp add: rational_partial_cmp_def Let_def)
qed

lemma rational_ge_iff:
  "rational_ge a b \<longleftrightarrow>
     denominator a \<noteq> 0 \<and> denominator b \<noteq> 0 \<and>
     unat (numerator b) * unat (denominator a) \<le> unat (numerator a) * unat (denominator b)"
proof -
  let ?x = "(ucast (numerator a) :: 128 word) * ucast (denominator b)"
  let ?y = "(ucast (numerator b) :: 128 word) * ucast (denominator a)"
  have "?x < ?y \<longleftrightarrow> unat (numerator a) * unat (denominator b) < unat (numerator b) * unat (denominator a)"
    by (simp add: word_less_nat_alt)
  then show ?thesis
    by (auto simp: rational_ge_def rational_partial_cmp_def Let_def)
qed

subsection \<open>Printing and parsing\<close>

declare dec_digits.simps [simp del]

lemma dec_digits_less: "d \<in> set (dec_digits n) \<Longrightarrow> d < 10"
proof (induction n rule: dec_digits.induct)
  case (1 n)
  then show ?case by (subst (asm) dec_digits.simps) (auto split: if_splits)
qed

lemma dec_digits_nonempty [simp]: "dec_digits n \<noteq> []"
  by (subst dec_digits.simps) simp

lemma dec_digits_value: "foldl (\<lambda>v d. v * 10 + d) 0 (dec_digits n) = n"
proof (induction n rule: dec_digits.induct)
  case (1 n)
  then show ?case by (subst dec_digits.simps) auto
qed

lemma length_dec_digits: "n < 10 ^ k \<Longrightarrow> 0 < k \<Longrightarrow> length (dec_digits n) \<le> k"
proof (induction n arbitrary: k rule: dec_digits.induct)
  case (1 n)
  show ?case
  proof (cases "n < 10")
    case True
    with "1.prems" show ?thesis by (subst dec_digits.simps) simp
  next
    case False
    have "k \<noteq> 1" using "1.prems"(1) False by auto
    with "1.prems"(2) obtain j where j: "k = Suc j" "0 < j"
      by (cases k) auto
    with "1.prems" have "n div 10 < 10 ^ j" by (auto simp: less_mult_imp_div_less mult.commute)
    with "1.IH" False j have "length (dec_digits (n div 10)) \<le> j" by simp
    with False j show ?thesis by (subst dec_digits.simps) simp
  qed
qed

lemma of_char_digit_char [simp]: "d < 10 \<Longrightarrow> of_char (digit_char d) = 48 + d"
  by (simp add: digit_char_def)

lemma from_str_loop_digits:
  assumes "\<forall>d \<in> set ds. d < 10" and "0 \<le> e" and "after_point \<longrightarrow> int (length ds) \<le> e"
  shows "from_str_loop (map digit_char ds @ s) v after_point e h =
    from_str_loop s (foldl (\<lambda>v d. v * 10 + word_of_nat d) v ds) after_point
      (if after_point then e - int (length ds) else e) (h \<or> ds \<noteq> [])"
  using assms
proof (induction ds arbitrary: v e h)
  case Nil
  then show ?case by simp
next
  case (Cons d ds)
  then have "of_char (digit_char d) = 48 + d" by simp
  with Cons show ?case by (auto simp: Let_def algebra_simps)
qed

lemma foldl_digits_word:
  "foldl (\<lambda>v d. v * 10 + word_of_nat d) (word_of_nat v :: u64) ds =
   word_of_nat (foldl (\<lambda>v d. v * 10 + d) v ds)"
proof (induction ds arbitrary: v)
  case Nil
  then show ?case by simp
next
  case (Cons d ds)
  from Cons [of "v * 10 + d"] show ?case by simp
qed

lemma foldl_digits_zeros: "foldl (\<lambda>v d. v * 10 + d) v (replicate k (0::nat)) = v * 10 ^ k"
  by (induction k arbitrary: v) (auto simp: algebra_simps)

lemma foldl_digits_shift:
  "foldl (\<lambda>v d. v * 10 + d) v ds = v * 10 ^ length ds + foldl (\<lambda>v d. v * 10 + d) (0::nat) ds"
proof (induction ds arbitrary: v)
  case Nil
  then show ?case by simp
next
  case (Cons d ds)
  show ?case
    by (simp only: foldl.simps Cons [of "v * 10 + d"] Cons [of "0 * 10 + d"])
      (simp add: algebra_simps)
qed

lemma pad_left_9_digits:
  "pad_left_9 (map digit_char ds) = map digit_char (replicate (9 - length ds) 0 @ ds)"
  by (simp add: pad_left_9_def)

lemma token_from_str_display_number:
  "token_from_str 9 (fmt_u64 (unat x div 10 ^ 9) @ ''.'' @
     drop 0 (pad_left_9 (fmt_u64 (unat x mod 10 ^ 9)))) = Ok x"
proof -
  let ?hi = "dec_digits (unat x div 10 ^ 9)"
  let ?lo = "replicate (9 - length (dec_digits (unat x mod 10 ^ 9))) 0 @ dec_digits (unat x mod 10 ^ 9)"
  have len: "length (dec_digits (unat x mod 10 ^ 9)) \<le> 9"
    by (rule length_dec_digits) simp_all
  then have llo: "length ?lo = 9" by simp
  have lo: "\<forall>d \<in> set ?lo. d < 10" using dec_digits_less by (auto split: if_splits)
  have hi: "\<forall>d \<in> set ?hi. d < 10" using dec_digits_less by auto
  let ?v = "foldl (\<lambda>v d. v * 10 + d) 0 ?hi"
  let ?w = "foldl (\<lambda>v d. v * 10 + d) ?v ?lo"
  have v: "?v = unat x div 10 ^ 9" by (rule dec_digits_value)
  have "?w = ?v * 10 ^ 9 + unat x mod 10 ^ 9"
    using len by (simp add: foldl_digits_zeros foldl_digits_shift [of "_ * _"] dec_digits_value
        power_add [symmetric] mult.assoc)
  with v have w: "?w = unat x" by (simp add: div_mult_mod_eq)
  have "from_str_loop (map digit_char ?hi @ CHR ''.'' # map digit_char ?lo) 0 False 9 False
      = from_str_loop (CHR ''.'' # map digit_char ?lo) (word_of_nat ?v) False 9 True"
    using from_str_loop_digits [OF hi, of 9 False "CHR ''.'' # map digit_char ?lo" 0 False]
      foldl_digits_word [of 0 ?hi] by simp
  also have "\<dots> = from_str_loop (map digit_char ?lo @ []) (word_of_nat ?v) True 9 True"
    by (simp add: Let_def)
  also have "\<dots> = Ok (word_of_nat ?w, 0, True)"
    using from_str_loop_digits [OF lo, of 9 True "[]" "word_of_nat ?v" True] llo
      foldl_digits_word [of ?v ?lo] by simp
  also have "\<dots> = Ok (x, 0, True)" by (simp only: w) simp
  finally show ?thesis
    by (simp add: token_from_str_def fmt_u64_def pad_left_9_digits)
qed

text \<open>Parsing inverts printing. Printing any amount of SOL and cutting off the
  \<open>" SOL"\<close> suffix gives a string that \<open>Lamports::from_str\<close> parses back to exactly
  that amount, for every value of the underlying \<open>u64\<close>.\<close>

theorem lamports_display_from_str_roundtrip:
  "lamports_from_str (take (length (lamports_display x) - 4) (lamports_display x)) = Ok x"
proof -
  let ?n = "fmt_u64 (unat (lam x) div 10 ^ 9) @ ''.'' @
    drop 0 (pad_left_9 (fmt_u64 (unat (lam x) mod 10 ^ 9)))"
  have "lamports_display x = ?n @ '' SOL''"
    by (simp add: lamports_display_def token_display_def)
  then have "take (length (lamports_display x) - 4) (lamports_display x) = ?n" by simp
  then show ?thesis
    using token_from_str_display_number [of "lam x"] by (simp add: lamports_from_str_def)
qed

text \<open>The parser itself is not checked arithmetic: the amount is accumulated in a
  wrapping \<open>u64\<close>, so a decimal amount just past the largest \<open>u64\<close> is accepted and
  read as zero instead of being rejected.\<close>

theorem lamports_from_str_wraps:
  "lamports_from_str ''18446744073.709551616'' = Ok (Lamports 0)"
  by (simp add: lamports_from_str_def token_from_str_def Let_def of_char_def)

text \<open>Multiplying an amount with a rational gives the exact quotient rounded down
  when the denominator is not zero and the quotient fits a \<open>u64\<close>, and an
  \<open>ArithmeticError\<close> in every other case; it never panics and never wraps.\<close>

theorem lamports_mul_rational_exact:
  "lamports_mul_rational a r =
     (let q = unat (lam a) * unat (numerator r) div unat (denominator r) in
      if denominator r \<noteq> 0 \<and> q < 2 ^ 64 then Ok (Lamports (word_of_nat q)) else Err ArithmeticError)"
proof -
  let ?q = "unat (lam a) * unat (numerator r) div unat (denominator r)"
  have iff: "lamports_mul_rational a r = Ok c \<longleftrightarrow>
      denominator r \<noteq> 0 \<and> ?q < 2 ^ 64 \<and> unat (lam c) = ?q" for c
    by (simp add: lamp.mulr_eq_Ok unat_eq_zero)
  show ?thesis
  proof (cases "denominator r \<noteq> 0 \<and> ?q < 2 ^ 64")
    case True
    then have "unat (word_of_nat ?q :: u64) = ?q" by (simp add: unat_of_nat)
    with True show ?thesis using iff [of "Lamports (word_of_nat ?q)"] by (simp add: Let_def)
  next
    case False
    then have "lamports_mul_rational a r \<noteq> Ok c" for c using iff by blast
    moreover have "lamports_mul_rational a r \<noteq> Panic" by (rule lamp.no_Panic)
    ultimately show ?thesis
      using False arithmetic_error.exhaust
      by (cases "lamports_mul_rational a r") (auto simp: Let_def)
  qed
qed

end
