(* ===== verification/Metrics.thy ===== *)
theory Metrics
  imports Token
begin

text \<open>
  \<^verbatim>\<open>program/src/metrics.rs\<close>: the counters that the program keeps in the
  \<open>Lido\<close> account, the deposit histogram with its twelve buckets and the
  withdrawal counter. Counters are plain \<open>u64\<close> and wrap; the totals are token
  amounts and are checked.
\<close>

record lamports_histogram =
  hist_counts :: "u64 list"
  hist_total :: lamports

record withdraw_metric =
  total_st_sol_amount :: st_lamports
  total_sol_amount :: lamports
  withdraw_count :: u64

record metrics =
  fee_treasury_sol_total :: lamports
  fee_validation_sol_total :: lamports
  fee_developer_sol_total :: lamports
  st_sol_appreciation_sol_total :: lamports
  fee_treasury_st_sol_total :: st_lamports
  fee_validation_st_sol_total :: st_lamports
  fee_developer_st_sol_total :: st_lamports
  deposit_amount :: lamports_histogram
  withdraw_amount :: withdraw_metric

definition BUCKET_UPPER_BOUNDS :: "lamports list" where
  "BUCKET_UPPER_BOUNDS = map Lamports
     [100000, 1000000, 10000000, 100000000, 1000000000, 10000000000, 100000000000,
      1000000000000, 10000000000000, 100000000000000, 1000000000000000,
      18446744073709551615]"

definition lamports_histogram_new :: lamports_histogram where
  "lamports_histogram_new = \<lparr>hist_counts = replicate 12 0, hist_total = Lamports 0\<rparr>"

definition withdraw_metric_default :: withdraw_metric where
  "withdraw_metric_default =
     \<lparr>total_st_sol_amount = StLamports 0, total_sol_amount = Lamports 0, withdraw_count = 0\<rparr>"

definition metrics_new :: metrics where
  "metrics_new =
     \<lparr>fee_treasury_sol_total = Lamports 0,
      fee_validation_sol_total = Lamports 0,
      fee_developer_sol_total = Lamports 0,
      st_sol_appreciation_sol_total = Lamports 0,
      fee_treasury_st_sol_total = StLamports 0,
      fee_validation_st_sol_total = StLamports 0,
      fee_developer_st_sol_total = StLamports 0,
      deposit_amount = lamports_histogram_new,
      withdraw_amount = withdraw_metric_default\<rparr>"

definition histogram_observe ::
  "lamports_histogram \<Rightarrow> lamports \<Rightarrow> (lamports_histogram, program_error) result" where
  "histogram_observe h amount =
     (let counts = map2 (\<lambda>count upper_bound. if amount \<le> upper_bound then count + 1 else count)
                     (hist_counts h) BUCKET_UPPER_BOUNDS
      in and_then (from_arith (lamports_add (hist_total h) amount)) (\<lambda>total.
         Ok (h\<lparr>hist_counts := counts, hist_total := total\<rparr>)))"

text \<open>The array has twelve elements, so the index of the last bucket is in range.\<close>

definition num_observations :: "lamports_histogram \<Rightarrow> u64" where
  "num_observations h = hist_counts h ! (length (hist_counts h) - 1)"

definition withdraw_metric_observe ::
  "withdraw_metric \<Rightarrow> st_lamports \<Rightarrow> lamports \<Rightarrow> (withdraw_metric, arithmetic_error) result" where
  "withdraw_metric_observe w st_sol_amount sol_amount =
     and_then (st_lamports_add (total_st_sol_amount w) st_sol_amount) (\<lambda>st.
     and_then (lamports_add (total_sol_amount w) sol_amount) (\<lambda>sol.
     Ok (w\<lparr>total_st_sol_amount := st, total_sol_amount := sol,
           withdraw_count := withdraw_count w + 1\<rparr>)))"

definition observe_fee_treasury ::
  "metrics \<Rightarrow> lamports \<Rightarrow> st_lamports \<Rightarrow> (metrics, arithmetic_error) result" where
  "observe_fee_treasury m amount_sol amount_st_sol =
     and_then (lamports_add (fee_treasury_sol_total m) amount_sol) (\<lambda>sol.
     and_then (st_lamports_add (fee_treasury_st_sol_total m) amount_st_sol) (\<lambda>st.
     Ok (m\<lparr>fee_treasury_sol_total := sol, fee_treasury_st_sol_total := st\<rparr>)))"

definition observe_fee_validation ::
  "metrics \<Rightarrow> lamports \<Rightarrow> st_lamports \<Rightarrow> (metrics, arithmetic_error) result" where
  "observe_fee_validation m amount_sol amount_st_sol =
     and_then (lamports_add (fee_validation_sol_total m) amount_sol) (\<lambda>sol.
     and_then (st_lamports_add (fee_validation_st_sol_total m) amount_st_sol) (\<lambda>st.
     Ok (m\<lparr>fee_validation_sol_total := sol, fee_validation_st_sol_total := st\<rparr>)))"

definition observe_fee_developer ::
  "metrics \<Rightarrow> lamports \<Rightarrow> st_lamports \<Rightarrow> (metrics, arithmetic_error) result" where
  "observe_fee_developer m amount_sol amount_st_sol =
     and_then (lamports_add (fee_developer_sol_total m) amount_sol) (\<lambda>sol.
     and_then (st_lamports_add (fee_developer_st_sol_total m) amount_st_sol) (\<lambda>st.
     Ok (m\<lparr>fee_developer_sol_total := sol, fee_developer_st_sol_total := st\<rparr>)))"

definition observe_reward_st_sol_appreciation ::
  "metrics \<Rightarrow> lamports \<Rightarrow> (metrics, arithmetic_error) result" where
  "observe_reward_st_sol_appreciation m amount =
     and_then (lamports_add (st_sol_appreciation_sol_total m) amount) (\<lambda>sol.
     Ok (m\<lparr>st_sol_appreciation_sol_total := sol\<rparr>))"

definition observe_deposit :: "metrics \<Rightarrow> lamports \<Rightarrow> (metrics, program_error) result" where
  "observe_deposit m amount =
     map_ok (\<lambda>h. m\<lparr>deposit_amount := h\<rparr>) (histogram_observe (deposit_amount m) amount)"

definition observe_withdrawal ::
  "metrics \<Rightarrow> st_lamports \<Rightarrow> lamports \<Rightarrow> (metrics, arithmetic_error) result" where
  "observe_withdrawal m st_sol_amount sol_amount =
     map_ok (\<lambda>w. m\<lparr>withdraw_amount := w\<rparr>)
       (withdraw_metric_observe (withdraw_amount m) st_sol_amount sol_amount)"

subsection \<open>The histogram counts what was observed\<close>

text \<open>A sequence of observations, each of which must succeed.\<close>

definition histogram_observe_all ::
  "lamports_histogram \<Rightarrow> lamports list \<Rightarrow> (lamports_histogram, program_error) result" where
  "histogram_observe_all h xs = try_fold histogram_observe h xs"

lemma length_buckets [simp]: "length BUCKET_UPPER_BOUNDS = 12"
  by (simp add: BUCKET_UPPER_BOUNDS_def)

lemma histogram_observe_eq_Ok:
  "histogram_observe h a = Ok h' \<longleftrightarrow>
     unat (lam (hist_total h)) + unat (lam a) < 2 ^ 64 \<and>
     unat (lam (hist_total h')) = unat (lam (hist_total h)) + unat (lam a) \<and>
     hist_counts h' = map2 (\<lambda>count upper_bound. if a \<le> upper_bound then count + 1 else count)
       (hist_counts h) BUCKET_UPPER_BOUNDS"
  by (cases h; cases h')
    (auto simp: histogram_observe_def Let_def result_simps lamp.add_eq_Ok lamports_eq_iff)

definition histogram_delta :: "lamports_histogram \<Rightarrow> lamports list \<Rightarrow> lamports_histogram \<Rightarrow> bool" where
  "histogram_delta h xs h' \<longleftrightarrow> length (hist_counts h') = 12 \<and>
     (\<forall>i < 12. hist_counts h' ! i =
        hist_counts h ! i + word_of_nat (length (filter (\<lambda>a. a \<le> BUCKET_UPPER_BOUNDS ! i) xs))) \<and>
     unat (lam (hist_total h')) = unat (lam (hist_total h)) + (\<Sum>a\<leftarrow>xs. unat (lam a))"

lemma histogram_observe_delta:
  "histogram_observe h x = Ok g \<Longrightarrow> length (hist_counts h) = 12 \<Longrightarrow> histogram_delta h [x] g"
  by (auto simp: histogram_observe_eq_Ok histogram_delta_def)

lemma histogram_delta_Cons:
  "histogram_delta h [x] g \<Longrightarrow> histogram_delta g xs h' \<Longrightarrow> histogram_delta h (x # xs) h'"
  by (auto simp: histogram_delta_def algebra_simps)

lemma observe_all_delta:
  "histogram_observe_all h xs = Ok h' \<Longrightarrow> length (hist_counts h) = 12 \<Longrightarrow> histogram_delta h xs h'"
proof (induction xs arbitrary: h)
  case Nil
  then show ?case by (simp add: histogram_observe_all_def histogram_delta_def)
next
  case (Cons x xs)
  then obtain g where g: "histogram_observe h x = Ok g" "histogram_observe_all g xs = Ok h'"
    by (auto simp: histogram_observe_all_def result_simps)
  have d: "histogram_delta h [x] g" using g(1) Cons.prems(2) by (rule histogram_observe_delta)
  then have "histogram_delta g xs h'" using Cons.IH [OF g(2)] by (simp add: histogram_delta_def)
  with d show ?case by (rule histogram_delta_Cons)
qed

text \<open>The deposit histogram is cumulative and complete. After any sequence of
  successful observations on a new histogram, bucket \<open>i\<close> holds the number of
  observed amounts not above its bound (as a \<open>u64\<close>), the last bucket, which
  \<open>num_observations\<close> reads, counts all of them, and the total is the exact sum.\<close>

theorem histogram_counts_observations:
  assumes "histogram_observe_all lamports_histogram_new xs = Ok h"
  shows "(\<forall>i < 12. hist_counts h ! i =
            word_of_nat (length (filter (\<lambda>a. a \<le> BUCKET_UPPER_BOUNDS ! i) xs))) \<and>
         num_observations h = word_of_nat (length xs) \<and>
         unat (lam (hist_total h)) = (\<Sum>a\<leftarrow>xs. unat (lam a))"
proof -
  have new: "length (hist_counts lamports_histogram_new) = 12" "lam (hist_total lamports_histogram_new) = 0"
    "\<And>i. i < 12 \<Longrightarrow> hist_counts lamports_histogram_new ! i = 0"
    by (simp_all add: lamports_histogram_new_def)
  have d: "histogram_delta lamports_histogram_new xs h"
    using assms new(1) by (rule observe_all_delta)
  have top: "a \<le> BUCKET_UPPER_BOUNDS ! 11" for a
    using unat_64_less [of "lam a"] by (simp add: BUCKET_UPPER_BOUNDS_def lamports_le_iff less_Suc_eq_le [symmetric])
  have "num_observations h = word_of_nat (length xs)"
    using d new(3) [of 11] top by (simp add: num_observations_def histogram_delta_def)
  with d new(2,3) show ?thesis by (simp add: histogram_delta_def)
qed

theorem histogram_counts_observations_witness:
  "\<exists>h. histogram_observe_all lamports_histogram_new [Lamports 5, Lamports 2000000] = Ok h \<and>
       num_observations h = 2 \<and> unat (lam (hist_total h)) = 2000005"
proof -
  let ?xs = "[Lamports 5, Lamports 2000000]"
  have "\<exists>h. histogram_observe_all lamports_histogram_new ?xs = Ok h"
    by (simp add: histogram_observe_all_def histogram_observe_def lamports_histogram_new_def
        lamports_add_def token_add_def checked_add_def Let_def)
  then obtain h where h: "histogram_observe_all lamports_histogram_new ?xs = Ok h" ..
  with histogram_counts_observations [OF h] show ?thesis by (intro exI [of _ h]) simp
qed

end
