(* ===== verification/BigVec.thy ===== *)
theory BigVec
  imports Errors "HOL-Library.Multiset"
begin

text \<open>
  \<^verbatim>\<open>program/src/big_vec.rs\<close>: a vector that lives in the bytes of an
  account. The first four bytes hold the number of elements, and element \<open>i\<close>
  starts at byte \<open>4 + i * T::LEN\<close>. Elements are written with \<open>Pack\<close>, which uses
  Borsh, and are read and updated in place through a pointer that is cast to
  the element type.

  The Borsh code and the memory layout of the element type are not part of
  this file; they are the fields of an \<open>entry_layout\<close>. \<open>entry_read\<close> says what
  dereferencing a cast pointer yields, given the bytes from the pointer on
  (\<open>None\<close> when the bytes are no value of the type, which the language leaves
  undefined); \<open>entry_write\<close> says what assigning through the pointer does to
  these bytes. The locale \<open>entry_codec\<close> states what \<open>BigVec\<close> relies on, and
  proves that \<open>BigVec\<close> then implements lists.
\<close>

record 'a entry_layout =
  entry_len :: nat
  entry_borsh :: "'a \<Rightarrow> u8 list"
  entry_read :: "u8 list \<Rightarrow> 'a option"
  entry_write :: "'a \<Rightarrow> u8 list \<Rightarrow> u8 list"
  borsh_u32 :: "u32 \<Rightarrow> u8 list"
  borsh_read_u32 :: "u8 list \<Rightarrow> u32 option"

definition VEC_SIZE_BYTES :: nat where
  "VEC_SIZE_BYTES = 4"

text \<open>Wrapping subtraction of the address type.\<close>

definition usize_sub :: "nat \<Rightarrow> nat \<Rightarrow> nat" where
  "usize_sub a b = (if b \<le> a then a - b else usize_wrap (a + 2 ^ 64 - b))"

text \<open>\<open>BorshSerialize\<close> into a slice writes a prefix of it, and fails when the slice is too short.\<close>

definition serialize_into :: "u8 list \<Rightarrow> u8 list \<Rightarrow> (u8 list, program_error) result" where
  "serialize_into bs buf =
     (if length bs \<le> length buf then Ok (bs @ drop (length bs) buf) else Err BorshIoError)"

text \<open>\<open>Pack::pack_into_slice\<close> of the three entry types: Borsh, then \<open>unwrap\<close>.\<close>

definition pack_into_slice :: "'a entry_layout \<Rightarrow> 'a \<Rightarrow> u8 list \<Rightarrow> (u8 list, program_error) result" where
  "pack_into_slice L x buf = expect (serialize_into (entry_borsh L x) buf)"

definition bv_len :: "u8 list \<Rightarrow> (u32, program_error) result" where
  "bv_len d = map_ok (\<lambda>bs. word_of_nat (le_val bs)) (get_range d 0 VEC_SIZE_BYTES)"

definition bv_is_empty :: "u8 list \<Rightarrow> (bool, program_error) result" where
  "bv_is_empty d = map_ok (\<lambda>n. n = 0) (bv_len d)"

definition get_slice_bounds :: "'a entry_layout \<Rightarrow> u8 list \<Rightarrow> u32 \<Rightarrow> (nat \<times> nat, program_error) result" where
  "get_slice_bounds L d index =
     and_then (bv_len d) (\<lambda>len.
     if index \<ge> len then Err (lido_err AccountListIndexOutOfBounds)
     else
       (let start_index = usize_sat_add VEC_SIZE_BYTES (usize_sat_mul (unat index) (entry_len L));
            end_index = usize_sat_add start_index (entry_len L) in
        if length d < end_index then Err AccountDataTooSmall
        else if end_index - start_index \<noteq> entry_len L
        then Err (lido_err AccountListIndexOutOfBounds)
        else Ok (start_index, end_index)))"

definition read_ref :: "'a entry_layout \<Rightarrow> u8 list \<Rightarrow> nat \<Rightarrow> ('a, program_error) result" where
  "read_ref L d start_index = unwrap_opt (entry_read L (drop start_index d))"

text \<open>
  \<open>get_mut\<close> returns a reference into the buffer: its position and the value that
  is there. \<open>write_ref\<close> is an assignment through the reference.
\<close>

definition bv_get_mut :: "'a entry_layout \<Rightarrow> u8 list \<Rightarrow> u32 \<Rightarrow> (nat \<times> 'a, program_error) result" where
  "bv_get_mut L d index =
     and_then (get_slice_bounds L d index) (\<lambda>(start_index, end_index).
     and_then (read_ref L d start_index) (\<lambda>value.
     Ok (start_index, value)))"

definition write_ref :: "'a entry_layout \<Rightarrow> u8 list \<Rightarrow> nat \<Rightarrow> 'a \<Rightarrow> u8 list" where
  "write_ref L d start_index value = take start_index d @ entry_write L value (drop start_index d)"

text \<open>\<open>copy_within(a..b, dest)\<close> of the standard library.\<close>

definition copy_within :: "u8 list \<Rightarrow> nat \<Rightarrow> nat \<Rightarrow> nat \<Rightarrow> (u8 list, program_error) result" where
  "copy_within d a b dest =
     and_then (get_range d a b) (\<lambda>src.
     if length d < dest + length src then Panic else Ok (write_at dest src d))"

definition write_len :: "'a entry_layout \<Rightarrow> u8 list \<Rightarrow> u32 \<Rightarrow> (u8 list, program_error) result" where
  "write_len L d n =
     and_then (get_range d 0 VEC_SIZE_BYTES) (\<lambda>vec_len_ref.
     and_then (serialize_into (borsh_u32 L n) vec_len_ref) (\<lambda>bs.
     Ok (write_at 0 bs d)))"

definition bv_swap_remove ::
  "'a entry_layout \<Rightarrow> u8 list \<Rightarrow> u32 \<Rightarrow> ('a \<times> u8 list, program_error) result" where
  "bv_swap_remove L d index =
     and_then (get_slice_bounds L d index) (\<lambda>(start_index, end_index).
     and_then (read_ref L d start_index) (\<lambda>value.
     and_then (bv_len d) (\<lambda>len.
     let data_end_index = usize_sat_add VEC_SIZE_BYTES (usize_sat_mul (unat len) (entry_len L)) in
     and_then (if index \<noteq> len - 1
               then copy_within d (usize_sub data_end_index (entry_len L)) data_end_index start_index
               else Ok d) (\<lambda>d.
     and_then (bv_len d) (\<lambda>len.
     and_then (write_len L d (len - 1)) (\<lambda>d.
     Ok (value, d)))))))"

definition bv_push :: "'a entry_layout \<Rightarrow> u8 list \<Rightarrow> 'a \<Rightarrow> (u8 list, program_error) result" where
  "bv_push L d element =
     and_then (get_range d 0 VEC_SIZE_BYTES) (\<lambda>vec_len_ref.
     and_then (ok_or (borsh_read_u32 L vec_len_ref) BorshIoError) (\<lambda>vec_len.
     let start_index = usize_wrap (VEC_SIZE_BYTES + usize_wrap (unat vec_len * entry_len L));
         end_index = usize_wrap (start_index + entry_len L) in
     if length d < end_index then Err AccountDataTooSmall
     else
       and_then (write_len L d (vec_len + 1)) (\<lambda>d.
       and_then (get_range d start_index end_index) (\<lambda>element_ref.
       and_then (pack_into_slice L element element_ref) (\<lambda>bs.
       Ok (write_at start_index bs d))))))"

text \<open>The iterator: \<open>len - current\<close> elements are left, the next one starts at \<open>current_index\<close>.\<close>

fun iter_from :: "'a entry_layout \<Rightarrow> u8 list \<Rightarrow> nat \<Rightarrow> nat \<Rightarrow> ('a list, program_error) result" where
  "iter_from L d 0 current_index = Ok []"
| "iter_from L d (Suc left) current_index =
     (let end_index = usize_wrap (current_index + entry_len L) in
      and_then (get_range d current_index end_index) (\<lambda>buf.
      and_then (read_ref L d current_index) (\<lambda>value.
      and_then (iter_from L d left end_index) (\<lambda>rest.
      Ok (value # rest)))))"

definition bv_iter :: "'a entry_layout \<Rightarrow> u8 list \<Rightarrow> ('a list, program_error) result" where
  "bv_iter L d = and_then (bv_len d) (\<lambda>len. iter_from L d (unat len) VEC_SIZE_BYTES)"

text \<open>
  The mutable iterator yields references (position and value). Next to it, the
  adaptor \<open>find\<close>, which stops the iteration at the first element it accepts.
\<close>

fun iter_mut_from ::
  "'a entry_layout \<Rightarrow> u8 list \<Rightarrow> nat \<Rightarrow> nat \<Rightarrow> ((nat \<times> 'a) list, program_error) result" where
  "iter_mut_from L d 0 current_index = Ok []"
| "iter_mut_from L d (Suc left) current_index =
     (let end_index = usize_wrap (current_index + entry_len L) in
      and_then (get_range d current_index end_index) (\<lambda>buf.
      and_then (read_ref L d current_index) (\<lambda>value.
      and_then (iter_mut_from L d left end_index) (\<lambda>rest.
      Ok ((current_index, value) # rest)))))"

definition bv_iter_mut :: "'a entry_layout \<Rightarrow> u8 list \<Rightarrow> ((nat \<times> 'a) list, program_error) result" where
  "bv_iter_mut L d = and_then (bv_len d) (\<lambda>len. iter_mut_from L d (unat len) VEC_SIZE_BYTES)"

fun iter_find_from ::
  "'a entry_layout \<Rightarrow> u8 list \<Rightarrow> ('a \<Rightarrow> bool) \<Rightarrow> nat \<Rightarrow> nat \<Rightarrow> ((nat \<times> 'a) option, program_error) result" where
  "iter_find_from L d p 0 current_index = Ok None"
| "iter_find_from L d p (Suc left) current_index =
     (let end_index = usize_wrap (current_index + entry_len L) in
      and_then (get_range d current_index end_index) (\<lambda>buf.
      and_then (read_ref L d current_index) (\<lambda>value.
      if p value then Ok (Some (current_index, value))
      else iter_find_from L d p left end_index)))"

definition bv_iter_find ::
  "'a entry_layout \<Rightarrow> u8 list \<Rightarrow> ('a \<Rightarrow> bool) \<Rightarrow> ((nat \<times> 'a) option, program_error) result" where
  "bv_iter_find L d p = and_then (bv_len d) (\<lambda>len. iter_find_from L d p (unat len) VEC_SIZE_BYTES)"

text \<open>The adaptor \<open>position\<close> on the iterator stops at the first element it accepts, too.\<close>

fun iter_position_from ::
  "'a entry_layout \<Rightarrow> u8 list \<Rightarrow> ('a \<Rightarrow> bool) \<Rightarrow> nat \<Rightarrow> nat \<Rightarrow> (nat option, program_error) result" where
  "iter_position_from L d p 0 current_index = Ok None"
| "iter_position_from L d p (Suc left) current_index =
     (let end_index = usize_wrap (current_index + entry_len L) in
      and_then (get_range d current_index end_index) (\<lambda>buf.
      and_then (read_ref L d current_index) (\<lambda>value.
      if p value then Ok (Some 0)
      else map_ok (map_option Suc) (iter_position_from L d p left end_index))))"

definition bv_iter_position ::
  "'a entry_layout \<Rightarrow> u8 list \<Rightarrow> ('a \<Rightarrow> bool) \<Rightarrow> (nat option, program_error) result" where
  "bv_iter_position L d p =
     and_then (bv_len d) (\<lambda>len. iter_position_from L d p (unat len) VEC_SIZE_BYTES)"

text \<open>\<open>find\<close> compares the raw bytes of each element; a predicate may panic.\<close>

fun find_from ::
  "'a entry_layout \<Rightarrow> u8 list \<Rightarrow> (u8 list \<Rightarrow> (bool, program_error) result) \<Rightarrow> nat \<Rightarrow> nat \<Rightarrow>
   ('a option, program_error) result" where
  "find_from L d predicate 0 current_index = Ok None"
| "find_from L d predicate (Suc left) current_index =
     (let end_index = usize_wrap (current_index + entry_len L) in
      and_then (get_range d current_index end_index) (\<lambda>current_slice.
      and_then (predicate current_slice) (\<lambda>hit.
      if hit then map_ok Some (read_ref L d current_index)
      else find_from L d predicate left end_index)))"

definition bv_find ::
  "'a entry_layout \<Rightarrow> u8 list \<Rightarrow> (u8 list \<Rightarrow> (bool, program_error) result) \<Rightarrow>
   ('a option, program_error) result" where
  "bv_find L d predicate =
     and_then (bv_len d) (\<lambda>len. find_from L d predicate (unat len) VEC_SIZE_BYTES)"

subsection \<open>The abstract vector\<close>

text \<open>The list operations that \<open>BigVec\<close> implements, and the relation between a buffer and a list.\<close>

definition list_swap_remove :: "nat \<Rightarrow> 'a list \<Rightarrow> 'a list" where
  "list_swap_remove i xs = (if Suc i = length xs then butlast xs else (butlast xs)[i := last xs])"

definition bv_repr :: "'a entry_layout \<Rightarrow> u8 list \<Rightarrow> 'a list \<Rightarrow> bool" where
  "bv_repr L d xs \<longleftrightarrow>
     4 + length xs * entry_len L \<le> length d \<and> length d < 2 ^ 64 \<and>
     le_val (take 4 d) = length xs \<and>
     (\<forall>i < length xs. entry_read L (drop (4 + i * entry_len L) d) = Some (xs ! i))"

lemma set_list_swap_remove_subset: "set (list_swap_remove i xs) \<subseteq> set xs"
proof (cases "xs = []")
  case True
  then show ?thesis by (simp add: list_swap_remove_def)
next
  case False
  then have "set (butlast xs) \<subseteq> set xs" "last xs \<in> set xs"
    by (auto dest: in_set_butlastD)
  then show ?thesis
    using set_update_subset_insert [of "butlast xs" i "last xs"] by (auto simp: list_swap_remove_def)
qed

lemma mset_list_swap_remove:
  assumes "i < length xs"
  shows "add_mset (xs ! i) (mset (list_swap_remove i xs)) = mset xs"
proof -
  obtain ys y where xs: "xs = ys @ [y]" using assms by (metis append_butlast_last_id list.size(3) not_less0)
  show ?thesis
  proof (cases "i = length ys")
    case True
    then show ?thesis by (simp add: list_swap_remove_def xs)
  next
    case False
    then have i: "i < length ys" using assms xs by simp
    then have "xs ! i = ys ! i" by (simp add: xs nth_append)
    moreover have "add_mset (ys ! i) (mset (ys[i := y])) = add_mset y (mset ys)"
      using i by (simp add: mset_update add_mset_commute insert_DiffM)
    ultimately show ?thesis using False by (simp add: list_swap_remove_def xs)
  qed
qed

subsection \<open>What a vector relies on\<close>

text \<open>
  \<open>packable\<close> singles out the values whose Borsh form is also their memory form.
  The laws: packing fills the slot exactly and is read back as the value; a
  read looks at the slot only; an assignment changes the slot only and is read
  back; the slot starts with the key; \<open>u32\<close> is stored in little-endian order.
\<close>

locale entry_codec =
  fixes L :: "'a entry_layout"
    and packable :: "'a \<Rightarrow> bool"
    and entry_key :: "'a \<Rightarrow> pubkey"
  assumes len_min: "32 \<le> entry_len L"
    and borsh_length: "packable x \<Longrightarrow> length (entry_borsh L x) = entry_len L"
    and read_borsh: "packable x \<Longrightarrow> entry_read L (entry_borsh L x @ r) = Some x"
    and read_local: "entry_len L \<le> length bs \<Longrightarrow> entry_read L bs = entry_read L (take (entry_len L) bs)"
    and write_local: "entry_len L \<le> length bs \<Longrightarrow>
      \<exists>bs'. length bs' = entry_len L \<and> entry_write L x bs = bs' @ drop (entry_len L) bs"
    and read_write: "entry_len L \<le> length bs \<Longrightarrow> entry_read L (entry_write L x bs) = Some x"
    and read_key: "\<lbrakk>entry_len L \<le> length bs; entry_read L bs = Some x\<rbrakk> \<Longrightarrow>
      take 32 bs = le_bytes 32 (unat (entry_key x))"
    and borsh_u32: "borsh_u32 L n = le_bytes 4 (unat n)"
    and borsh_read_u32: "borsh_read_u32 L (le_bytes 4 (unat n)) = Some n"
begin

lemma read_same_slot:
  assumes "entry_len L \<le> length a" and "take (entry_len L) a = take (entry_len L) b"
  shows "entry_read L a = entry_read L b"
proof -
  have "entry_len L \<le> length b" using assms by (metis length_take min.absorb2 min_def nat_le_linear)
  then show ?thesis using assms read_local by metis
qed

lemma repr_length: "bv_repr L d xs \<Longrightarrow> bv_len d = Ok (word_of_nat (length xs))"
  using len_min by (auto simp: bv_repr_def bv_len_def get_range_def VEC_SIZE_BYTES_def)

lemma repr_u32: "bv_repr L d xs \<Longrightarrow> length xs < 2 ^ 32 \<and> unat (word_of_nat (length xs) :: u32) = length xs"
proof -
  assume r: "bv_repr L d xs"
  then have "le_val (take 4 d) < 256 ^ 4"
    using le_val_bound [of "take 4 d"] by (auto simp: bv_repr_def)
  then show ?thesis using r by (simp add: bv_repr_def unat_of_nat)
qed

lemma slot_in_buffer: "\<lbrakk>bv_repr L d xs; i < length xs\<rbrakk> \<Longrightarrow> 4 + i * entry_len L + entry_len L \<le> length d"
proof -
  assume r: "bv_repr L d xs" and i: "i < length xs"
  have "Suc i * entry_len L \<le> length xs * entry_len L" using i by (intro mult_le_mono1) simp
  then show ?thesis using r by (simp add: bv_repr_def)
qed

lemma bounds_in_range:
  assumes "bv_repr L d xs" and "unat i < length xs"
  shows "get_slice_bounds L d i = Ok (4 + unat i * entry_len L, 4 + unat i * entry_len L + entry_len L)"
proof -
  have slot: "4 + unat i * entry_len L + entry_len L \<le> length d" using slot_in_buffer [OF assms] .
  moreover have "length d < 2 ^ 64" using assms by (simp add: bv_repr_def)
  moreover have "\<not> i \<ge> (word_of_nat (length xs) :: u32)"
    using assms repr_u32 [OF assms(1)] by (simp add: word_le_nat_alt)
  ultimately show ?thesis
    by (simp add: get_slice_bounds_def repr_length [OF assms(1)] usize_sat_add_def usize_sat_mul_def
        usize_max_def VEC_SIZE_BYTES_def Let_def)
qed

lemma bounds_out_of_range:
  assumes "bv_repr L d xs" and "length xs \<le> unat i"
  shows "get_slice_bounds L d i = Err (lido_err AccountListIndexOutOfBounds)"
  using assms repr_u32 [OF assms(1)]
  by (simp add: get_slice_bounds_def repr_length [OF assms(1)] word_le_nat_alt)

lemma read_slot: "\<lbrakk>bv_repr L d xs; i < length xs\<rbrakk> \<Longrightarrow> read_ref L d (4 + i * entry_len L) = Ok (xs ! i)"
  by (simp add: read_ref_def bv_repr_def)

lemma get_mut_refines:
  assumes "bv_repr L d xs"
  shows "bv_get_mut L d i =
    (if unat i < length xs then Ok (4 + unat i * entry_len L, xs ! unat i)
     else Err (lido_err AccountListIndexOutOfBounds))"
  using assms bounds_in_range [OF assms] bounds_out_of_range [OF assms] read_slot [OF assms]
  by (auto simp: bv_get_mut_def not_less)

text \<open>Overwriting a slot, the length field, or the slot behind the last element.\<close>

lemma read_after_write:
  assumes "4 + j * entry_len L + entry_len L \<le> length d" and "s + length bs \<le> length d"
    and "4 + j * entry_len L + entry_len L \<le> s \<or> s + length bs \<le> 4 + j * entry_len L"
  shows "entry_read L (drop (4 + j * entry_len L) (write_at s bs d)) =
    entry_read L (drop (4 + j * entry_len L) d)"
  using assms range_write_at [of "4 + j * entry_len L" "entry_len L" s bs d]
  by (intro read_same_slot) auto

lemma slots_apart:
  assumes "j \<noteq> (i :: nat)"
  shows "4 + j * entry_len L + entry_len L \<le> 4 + i * entry_len L \<or>
    4 + i * entry_len L + entry_len L \<le> 4 + j * entry_len L"
proof -
  have "Suc j * entry_len L \<le> i * entry_len L \<or> Suc i * entry_len L \<le> j * entry_len L"
    using assms by (metis Suc_leI linorder_neqE_nat mult_le_mono1)
  then show ?thesis by auto
qed

lemma repr_write_slot:
  assumes "bv_repr L d xs" and "i < length xs"
    and "length bs = entry_len L" and "\<And>r. entry_read L (bs @ r) = Some x"
  shows "bv_repr L (write_at (4 + i * entry_len L) bs d) (xs[i := x])"
proof -
  let ?s = "4 + i * entry_len L"
  have in_buf: "?s + length bs \<le> length d" using slot_in_buffer [OF assms(1,2)] assms(3) by simp
  have "entry_read L (drop (4 + j * entry_len L) (write_at ?s bs d)) = Some (xs[i := x] ! j)"
    if j: "j < length xs" for j
  proof (cases "j = i")
    case True
    then show ?thesis using in_buf assms(2,4) by (simp add: drop_write_at_split)
  next
    case False
    have "entry_read L (drop (4 + j * entry_len L) (write_at ?s bs d)) =
        entry_read L (drop (4 + j * entry_len L) d)"
      using slot_in_buffer [OF assms(1) j] in_buf slots_apart [OF False] assms(3)
      by (intro read_after_write) auto
    then show ?thesis using assms(1) j False by (simp add: bv_repr_def)
  qed
  then show ?thesis using assms(1) in_buf by (simp add: bv_repr_def)
qed

lemma write_ref_refines:
  assumes "bv_repr L d xs" and "i < length xs"
  shows "bv_repr L (write_ref L d (4 + i * entry_len L) x) (xs[i := x])"
    and "length (write_ref L d (4 + i * entry_len L) x) = length d"
proof -
  let ?s = "4 + i * entry_len L"
  have fits: "entry_len L \<le> length (drop ?s d)" using slot_in_buffer [OF assms] by simp
  obtain bs where bs: "length bs = entry_len L"
    "entry_write L x (drop ?s d) = bs @ drop (entry_len L) (drop ?s d)"
    using write_local [OF fits] by blast
  have w: "write_ref L d ?s x = write_at ?s bs d"
    using bs by (simp add: write_ref_def write_at_def add.commute add.left_commute)
  have "entry_read L (bs @ drop (entry_len L) (drop ?s d)) = Some x"
    using read_write [OF fits, of x] bs by simp
  then have "entry_read L (bs @ r) = Some x" for r
    using bs(1) read_same_slot [of "bs @ r" "bs @ drop (entry_len L) (drop ?s d)"] by simp
  then show "bv_repr L (write_ref L d ?s x) (xs[i := x])"
    using repr_write_slot [OF assms bs(1)] w by simp
  show "length (write_ref L d ?s x) = length d"
    using w bs(1) slot_in_buffer [OF assms] by simp
qed

lemma repr_write_len:
  assumes "bv_repr L d xs" and "n \<le> length xs"
  shows "bv_repr L (write_at 0 (le_bytes 4 n) d) (take n xs)"
proof -
  have four: "4 \<le> length d" and n32: "n < 2 ^ 32" and small: "length d < 2 ^ 64"
    using assms repr_u32 [OF assms(1)] by (auto simp: bv_repr_def)
  have "n * entry_len L \<le> length xs * entry_len L" using assms(2) by (rule mult_le_mono1)
  moreover have "4 + length xs * entry_len L \<le> length d" using assms(1) by (simp add: bv_repr_def)
  ultimately have size: "4 + n * entry_len L \<le> length d" by linarith
  have "entry_read L (drop (4 + j * entry_len L) (write_at 0 (le_bytes 4 n) d)) = Some (xs ! j)"
    if j: "j < n" for j
    using j assms read_after_write [of j d 0 "le_bytes 4 n"] slot_in_buffer [OF assms(1), of j] four
    by (simp add: bv_repr_def)
  moreover have "le_val (take 4 (write_at 0 (le_bytes 4 n) d)) = n"
    using n32 by (simp add: write_at_def)
  moreover have "min (length xs) n = n" using assms(2) by simp
  ultimately show ?thesis using size four small by (auto simp: bv_repr_def)
qed

lemma write_len_refines:
  assumes "4 \<le> length d"
  shows "write_len L d n = Ok (write_at 0 (le_bytes 4 (unat n)) d)"
  using assms by (simp add: write_len_def get_range_def VEC_SIZE_BYTES_def serialize_into_def borsh_u32)

lemma push_refines:
  assumes "bv_repr L d xs" and "packable x" and "length xs < 2 ^ 32 - 1"
  shows "if 4 + Suc (length xs) * entry_len L \<le> length d
    then \<exists>d'. bv_push L d x = Ok d' \<and> bv_repr L d' (xs @ [x]) \<and> length d' = length d
    else bv_push L d x = Err AccountDataTooSmall \<or> 2 ^ 64 \<le> 4 + Suc (length xs) * entry_len L"
proof -
  let ?n = "length xs" and ?s = "4 + length xs * entry_len L"
  have four: "4 \<le> length d" and small: "length d < 2 ^ 64" and len: "le_val (take 4 d) = ?n"
    and start: "?s \<le> length d"
    using assms(1) by (auto simp: bv_repr_def)
  have n: "unat (word_of_nat ?n :: u32) = ?n" using repr_u32 [OF assms(1)] by blast
  have n1: "unat (word_of_nat ?n + 1 :: u32) = Suc ?n"
    using unat_Suc_no_wrap [of "word_of_nat ?n :: u32"] n assms(3) by simp
  have "take 4 d = le_bytes 4 ?n" using len four le_bytes_le_val [of "take 4 d" 4] by simp
  then have rd: "borsh_read_u32 L (take 4 d) = Some (word_of_nat ?n)"
    using borsh_read_u32 [of "word_of_nat ?n"] n by simp
  have ws: "usize_wrap (4 + usize_wrap (?n * entry_len L)) = ?s"
    using start small by (simp add: usize_wrap_def)
  show ?thesis
  proof (cases "?s + entry_len L \<le> length d")
    case True
    let ?d1 = "write_at 0 (le_bytes 4 (Suc ?n)) d"
    let ?d2 = "write_at ?s (entry_borsh L x) ?d1"
    have we: "usize_wrap (?s + entry_len L) = ?s + entry_len L"
      using True small by (simp add: usize_wrap_def)
    have wl: "write_len L d (word_of_nat ?n + 1) = Ok ?d1"
      using write_len_refines [OF four, of "word_of_nat ?n + 1"] n1 by simp
    have l1: "length ?d1 = length d" using four by simp
    have pk: "pack_into_slice L x (take (entry_len L) (drop ?s ?d1)) = Ok (entry_borsh L x)"
      using True l1 borsh_length [OF assms(2)] by (simp add: pack_into_slice_def serialize_into_def)
    have push: "bv_push L d x = Ok ?d2"
      using four small True rd ws we wl l1 pk n
      by (simp add: bv_push_def get_range_def VEC_SIZE_BYTES_def Let_def)
    have l2: "length ?d2 = length d" using l1 True borsh_length [OF assms(2)] by simp
    have rd_old: "entry_read L (drop (4 + j * entry_len L) ?d2) = Some (xs ! j)" if j: "j < ?n" for j
    proof -
      have "entry_read L (drop (4 + j * entry_len L) ?d2) = entry_read L (drop (4 + j * entry_len L) ?d1)"
        using slot_in_buffer [OF assms(1) j] slots_apart [of j ?n] j True l1 borsh_length [OF assms(2)]
        by (intro read_after_write) auto
      also have "\<dots> = entry_read L (drop (4 + j * entry_len L) d)"
        using slot_in_buffer [OF assms(1) j] four by (intro read_after_write) auto
      finally show ?thesis using assms(1) j by (simp add: bv_repr_def)
    qed
    have rd_new: "entry_read L (drop ?s ?d2) = Some x"
      using True l1 read_borsh [OF assms(2)] by (simp add: drop_write_at_split)
    have "le_val (take 4 ?d2) = Suc ?n"
      using True l1 four assms(3) by (simp add: write_at_def [of 0])
    then have "bv_repr L ?d2 (xs @ [x])"
      using rd_old rd_new l2 True small by (auto simp: bv_repr_def nth_append less_Suc_eq)
    then show ?thesis using push l2 True by auto
  next
    case False
    have "bv_push L d x = Err AccountDataTooSmall" if "?s + entry_len L < 2 ^ 64"
      using four small False rd ws n that
      by (simp add: bv_push_def get_range_def VEC_SIZE_BYTES_def Let_def usize_wrap_def)
    then show ?thesis using False by (auto simp: not_less)
  qed
qed

lemma last_slot:
  assumes "bv_repr L d xs" and "xs \<noteq> []"
  shows "\<And>r. entry_read L (take (entry_len L) (drop (4 + (length xs - 1) * entry_len L) d) @ r) = Some (last xs)"
proof -
  fix r
  let ?p = "4 + (length xs - 1) * entry_len L"
  have n: "length xs - 1 < length xs" using assms(2) by simp
  have l: "entry_len L \<le> length (drop ?p d)" using slot_in_buffer [OF assms(1) n] by simp
  have "entry_read L (take (entry_len L) (drop ?p d) @ r) = entry_read L (drop ?p d)"
    using l by (intro read_same_slot) auto
  also have "\<dots> = Some (last xs)"
    using assms n by (simp add: bv_repr_def last_conv_nth)
  finally show "entry_read L (take (entry_len L) (drop ?p d) @ r) = Some (last xs)" .
qed

lemma swap_remove_refines:
  assumes "bv_repr L d xs"
  shows "if unat i < length xs
    then \<exists>d'. bv_swap_remove L d i = Ok (xs ! unat i, d') \<and>
      bv_repr L d' (list_swap_remove (unat i) xs) \<and> length d' = length d
    else bv_swap_remove L d i = Err (lido_err AccountListIndexOutOfBounds)"
proof (cases "unat i < length xs")
  case False
  then show ?thesis using bounds_out_of_range [OF assms] by (simp add: bv_swap_remove_def)
next
  case True
  let ?n = "length xs" and ?i = "unat i" and ?len = "word_of_nat (length xs) :: u32"
  let ?bs = "take (entry_len L) (drop (4 + (?n - 1) * entry_len L) d)"
  let ?d1 = "write_at (4 + ?i * entry_len L) ?bs d"
  have n: "unat ?len = ?n" using repr_u32 [OF assms] by blast
  have pos: "0 < ?n" and ne: "xs \<noteq> []" using True by auto
  have n1: "unat (?len - 1) = ?n - 1" using n pos
    by (subst unat_sub) (auto simp: word_le_nat_alt Suc_le_eq simp del: length_greater_0_conv)
  have four: "4 \<le> length d" using assms by (simp add: bv_repr_def)
  have last_in: "4 + (?n - 1) * entry_len L + entry_len L \<le> length d"
    using slot_in_buffer [OF assms, of "?n - 1"] pos by simp
  have end_eq: "4 + ?n * entry_len L = 4 + (?n - 1) * entry_len L + entry_len L"
    using pos by (cases ?n) auto
  have end_sat: "usize_sat_add VEC_SIZE_BYTES (usize_sat_mul ?n (entry_len L)) = 4 + ?n * entry_len L"
    using assms by (simp add: bv_repr_def usize_sat_add_def usize_sat_mul_def usize_max_def VEC_SIZE_BYTES_def)
  have bs: "length ?bs = entry_len L" using last_in by simp
  have slot: "4 + ?i * entry_len L + entry_len L \<le> length d" using slot_in_buffer [OF assms True] .
  have r1: "bv_repr L ?d1 (xs[?i := last xs])"
    using repr_write_slot [OF assms True bs last_slot [OF assms ne]] .
  have l1: "length ?d1 = length d" using slot bs by simp
  have copy: "copy_within d (usize_sub (4 + ?n * entry_len L) (entry_len L)) (4 + ?n * entry_len L)
      (4 + ?i * entry_len L) = Ok ?d1"
    using last_in slot bs unfolding end_eq
    by (simp add: copy_within_def usize_sub_def get_range_def)
  note start = bounds_in_range [OF assms True] read_slot [OF assms True] repr_length [OF assms]
  show ?thesis
  proof (cases "?i = ?n - 1")
    case True
    let ?d2 = "write_at 0 (le_bytes 4 (?n - 1)) d"
    have "i = ?len - 1" using True n1 by (simp add: word_unat_eq_iff)
    then have "bv_swap_remove L d i = Ok (xs ! ?i, ?d2)"
      using start four write_len_refines [OF four, of "?len - 1"] n1
      by (simp add: bv_swap_remove_def Let_def)
    moreover have "bv_repr L ?d2 (list_swap_remove ?i xs)"
      using repr_write_len [OF assms, of "?n - 1"] True pos
      by (simp add: list_swap_remove_def butlast_conv_take)
    ultimately show ?thesis using True pos four by simp
  next
    case False
    let ?d2 = "write_at 0 (le_bytes 4 (?n - 1)) ?d1"
    have inner: "i \<noteq> ?len - 1" using False n1 by auto
    have len1: "bv_len ?d1 = Ok ?len" using repr_length [OF r1] by simp
    have four1: "4 \<le> length ?d1" using l1 four by simp
    have "bv_swap_remove L d i = Ok (xs ! ?i, ?d2)"
      using start inner copy len1 write_len_refines [OF four1, of "?len - 1"] n1 n
      by (simp add: bv_swap_remove_def Let_def end_sat)
    moreover have "take (?n - 1) (xs[?i := last xs]) = list_swap_remove ?i xs"
      using False pos True by (simp add: list_swap_remove_def butlast_conv_take take_update_swap)
    then have "bv_repr L ?d2 (list_swap_remove ?i xs)"
      using repr_write_len [OF r1, of "?n - 1"] by simp
    ultimately show ?thesis using \<open>?i < ?n\<close> four1 l1 by simp
  qed
qed

text \<open>One step of a traversal, and the traversals.\<close>

lemma step_slot:
  assumes "bv_repr L d xs" and "k < length xs"
  shows "usize_wrap (4 + k * entry_len L + entry_len L) = 4 + Suc k * entry_len L"
    and "get_range d (4 + k * entry_len L) (4 + Suc k * entry_len L) =
      Ok (take (entry_len L) (drop (4 + k * entry_len L) d))"
    and "read_ref L d (4 + k * entry_len L) = Ok (xs ! k)"
    and "length xs - k = Suc (length xs - Suc k)"
proof -
  have "length d < 2 ^ 64" using assms(1) by (simp add: bv_repr_def)
  then show "usize_wrap (4 + k * entry_len L + entry_len L) = 4 + Suc k * entry_len L"
    using slot_in_buffer [OF assms] by (simp add: usize_wrap_def)
  show "get_range d (4 + k * entry_len L) (4 + Suc k * entry_len L) =
      Ok (take (entry_len L) (drop (4 + k * entry_len L) d))"
    using slot_in_buffer [OF assms] by (simp add: get_range_def)
  show "read_ref L d (4 + k * entry_len L) = Ok (xs ! k)" using read_slot [OF assms] .
  show "length xs - k = Suc (length xs - Suc k)" using assms(2) by simp
qed

lemma iter_from_refines:
  "\<lbrakk>bv_repr L d xs; k \<le> length xs\<rbrakk> \<Longrightarrow>
    iter_from L d (length xs - k) (4 + k * entry_len L) = Ok (drop k xs)"
proof (induction "length xs - k" arbitrary: k)
  case 0
  then show ?case by simp
next
  case (Suc m)
  then have k: "k < length xs" by simp
  note st = step_slot [OF Suc.prems(1) k]
  have "iter_from L d (length xs - Suc k) (4 + Suc k * entry_len L) = Ok (drop (Suc k) xs)"
    using Suc k by (intro Suc.hyps) auto
  then show ?case
    using k by (simp only: st iter_from.simps Let_def and_then_simps Cons_nth_drop_Suc)
qed

lemma iter_refines: "bv_repr L d xs \<Longrightarrow> bv_iter L d = Ok xs"
  using iter_from_refines [of d xs 0] repr_u32 [of d xs]
  by (simp add: bv_iter_def repr_length VEC_SIZE_BYTES_def)

lemma iter_mut_from_refines:
  "\<lbrakk>bv_repr L d xs; k \<le> length xs\<rbrakk> \<Longrightarrow>
    iter_mut_from L d (length xs - k) (4 + k * entry_len L) =
    Ok (map (\<lambda>i. (4 + i * entry_len L, xs ! i)) [k..<length xs])"
proof (induction "length xs - k" arbitrary: k)
  case 0
  then show ?case by simp
next
  case (Suc m)
  then have k: "k < length xs" by simp
  note st = step_slot [OF Suc.prems(1) k]
  have "iter_mut_from L d (length xs - Suc k) (4 + Suc k * entry_len L) =
      Ok (map (\<lambda>i. (4 + i * entry_len L, xs ! i)) [Suc k..<length xs])"
    using Suc k by (intro Suc.hyps) auto
  then show ?case
    using k by (simp only: st iter_mut_from.simps Let_def and_then_simps upt_conv_Cons list.map)
qed

lemma iter_mut_refines:
  "bv_repr L d xs \<Longrightarrow>
    bv_iter_mut L d = Ok (map (\<lambda>i. (4 + i * entry_len L, xs ! i)) [0..<length xs])"
  using iter_mut_from_refines [of d xs 0] repr_u32 [of d xs]
  by (simp add: bv_iter_mut_def repr_length VEC_SIZE_BYTES_def)

lemma iter_find_from_refines:
  "\<lbrakk>bv_repr L d xs; k \<le> length xs\<rbrakk> \<Longrightarrow>
    iter_find_from L d p (length xs - k) (4 + k * entry_len L) =
    Ok (map_option (\<lambda>i. (4 + (k + i) * entry_len L, xs ! (k + i))) (position p (drop k xs)))"
proof (induction "length xs - k" arbitrary: k)
  case 0
  then show ?case by simp
next
  case (Suc m)
  then have k: "k < length xs" by simp
  note st = step_slot [OF Suc.prems(1) k]
  have "iter_find_from L d p (length xs - Suc k) (4 + Suc k * entry_len L) =
      Ok (map_option (\<lambda>i. (4 + (Suc k + i) * entry_len L, xs ! (Suc k + i)))
        (position p (drop (Suc k) xs)))"
    using Suc k by (intro Suc.hyps) auto
  moreover have "position p (drop k xs) =
      (if p (xs ! k) then Some 0 else map_option Suc (position p (drop (Suc k) xs)))"
    using k by (simp add: Cons_nth_drop_Suc [symmetric])
  ultimately show ?case
    using k by (simp only: st iter_find_from.simps Let_def and_then_simps)
      (simp add: option.map_comp comp_def)
qed

lemma iter_find_refines:
  "bv_repr L d xs \<Longrightarrow>
    bv_iter_find L d p = Ok (map_option (\<lambda>i. (4 + i * entry_len L, xs ! i)) (position p xs))"
  using iter_find_from_refines [of d xs 0 p] repr_u32 [of d xs]
  by (simp add: bv_iter_find_def repr_length VEC_SIZE_BYTES_def)

lemma find_from_refines:
  assumes "bv_repr L d xs"
    and "\<And>i. i < length xs \<Longrightarrow> predicate (take (entry_len L) (drop (4 + i * entry_len L) d)) = Ok (q (xs ! i))"
  shows "k \<le> length xs \<Longrightarrow>
    find_from L d predicate (length xs - k) (4 + k * entry_len L) = Ok (List.find q (drop k xs))"
proof (induction "length xs - k" arbitrary: k)
  case 0
  then show ?case by simp
next
  case (Suc m)
  then have k: "k < length xs" by simp
  note st = step_slot [OF assms(1) k]
  have "find_from L d predicate (length xs - Suc k) (4 + Suc k * entry_len L) =
      Ok (List.find q (drop (Suc k) xs))"
    using Suc k by (intro Suc.hyps) auto
  moreover have "List.find q (drop k xs) =
      (if q (xs ! k) then Some (xs ! k) else List.find q (drop (Suc k) xs))"
    using k by (simp add: Cons_nth_drop_Suc [symmetric])
  ultimately show ?case
    using assms(2) [OF k] by (simp only: st find_from.simps Let_def and_then_simps) simp
qed

lemma find_refines:
  assumes "bv_repr L d xs"
    and "\<And>i. i < length xs \<Longrightarrow> predicate (take (entry_len L) (drop (4 + i * entry_len L) d)) = Ok (q (xs ! i))"
  shows "bv_find L d predicate = Ok (List.find q xs)"
  using find_from_refines [of d xs predicate q 0, OF assms(1) assms(2)] repr_u32 [OF assms(1)]
  by (simp add: bv_find_def repr_length [OF assms(1)] VEC_SIZE_BYTES_def)

lemma slot_key:
  assumes "bv_repr L d xs" and "i < length xs"
  shows "take 32 (take (entry_len L) (drop (4 + i * entry_len L) d)) =
    le_bytes 32 (unat (entry_key (xs ! i)))"
proof -
  have "take 32 (drop (4 + i * entry_len L) d) = le_bytes 32 (unat (entry_key (xs ! i)))"
    using assms slot_in_buffer [OF assms] by (intro read_key) (auto simp: bv_repr_def)
  then show ?thesis using len_min by (simp add: min_def)
qed

end

end
