(* ===== verification/Entries.thy ===== *)
theory Entries
  imports Token BigVec
begin

text \<open>
  The entries of the account lists: \<^verbatim>\<open>program/src/state/validator.rs\<close>,
  \<^verbatim>\<open>maintainer.rs\<close> and \<^verbatim>\<open>validator_perf.rs\<close>, with the constants of
  \<^verbatim>\<open>lib.rs\<close>. Validators and maintainers have fixed layouts that implement
  the contract \<open>entry_codec\<close> of the list; the status byte of a validator has
  different Borsh and memory forms for \<open>PendingRemoval\<close>, so such a validator is
  not packable. Addresses of stake accounts come from Solana's
  \<open>find_program_address\<close>, which is a parameter (\<open>find_pda\<close>).
\<close>

subsection \<open>Constants\<close>

definition bytes_of_string :: "string \<Rightarrow> u8 list" where
  "bytes_of_string s = map (\<lambda>c. word_of_nat (of_char c)) s"

definition RESERVE_ACCOUNT :: "u8 list" where
  "RESERVE_ACCOUNT = bytes_of_string ''reserve_account''"

definition MINT_AUTHORITY :: "u8 list" where
  "MINT_AUTHORITY = bytes_of_string ''mint_authority''"

definition STAKE_AUTHORITY :: "u8 list" where
  "STAKE_AUTHORITY = bytes_of_string ''stake_authority''"

definition VALIDATOR_STAKE_ACCOUNT :: "u8 list" where
  "VALIDATOR_STAKE_ACCOUNT = bytes_of_string ''validator_stake_account''"

definition VALIDATOR_UNSTAKE_ACCOUNT :: "u8 list" where
  "VALIDATOR_UNSTAKE_ACCOUNT = bytes_of_string ''validator_unstake_account''"

definition MINIMUM_STAKE_ACCOUNT_BALANCE :: lamports where
  "MINIMUM_STAKE_ACCOUNT_BALANCE = Lamports 1002282880"

definition MAXIMUM_UNSTAKE_ACCOUNTS :: u64 where
  "MAXIMUM_UNSTAKE_ACCOUNTS = 3"

definition pubkey_bytes :: "pubkey \<Rightarrow> u8 list" where
  "pubkey_bytes k = le_bytes 32 (unat k)"

definition u64_bytes :: "u64 \<Rightarrow> u8 list" where
  "u64_bytes x = le_bytes 8 (unat x)"

definition find_authority_program_address ::
  "(u8 list list \<Rightarrow> pubkey \<Rightarrow> pubkey \<times> u8) \<Rightarrow> pubkey \<Rightarrow> pubkey \<Rightarrow> u8 list \<Rightarrow> pubkey \<times> u8" where
  "find_authority_program_address find_pda program_id lido_address authority =
     find_pda [pubkey_bytes lido_address, authority] program_id"

subsection \<open>Validators\<close>

datatype validator_status = AcceptingStakes | StakesSuspended | PendingRemoval

datatype stake_type = Stake | Unstake

record seed_range =
  seed_begin :: u64
  seed_end :: u64

record validator =
  vote_account_address :: pubkey
  stake_seeds :: seed_range
  unstake_seeds :: seed_range
  stake_accounts_balance :: lamports
  unstake_accounts_balance :: lamports
  effective_stake_balance :: lamports
  status :: validator_status

definition validator_default :: validator where
  "validator_default =
     \<lparr>vote_account_address = 0,
      stake_seeds = \<lparr>seed_begin = 0, seed_end = 0\<rparr>,
      unstake_seeds = \<lparr>seed_begin = 0, seed_end = 0\<rparr>,
      stake_accounts_balance = Lamports 0,
      unstake_accounts_balance = Lamports 0,
      effective_stake_balance = Lamports 0,
      status = AcceptingStakes\<rparr>"

definition validator_new :: "pubkey \<Rightarrow> validator" where
  "validator_new k = validator_default\<lparr>vote_account_address := k\<rparr>"

definition compute_effective_stake_balance :: "validator \<Rightarrow> (lamports, 'e) result" where
  "compute_effective_stake_balance v =
     expect (lamports_sub (stake_accounts_balance v) (unstake_accounts_balance v))"

definition observe_balance :: "lamports \<Rightarrow> lamports \<Rightarrow> (unit, program_error) result" where
  "observe_balance observed tracked =
     (if observed < tracked then Err (lido_err ValidatorBalanceDecreased) else Ok ())"

definition has_stake_accounts :: "validator \<Rightarrow> bool" where
  "has_stake_accounts v \<longleftrightarrow> seed_begin (stake_seeds v) \<noteq> seed_end (stake_seeds v)"

definition has_unstake_accounts :: "validator \<Rightarrow> bool" where
  "has_unstake_accounts v \<longleftrightarrow> seed_begin (unstake_seeds v) \<noteq> seed_end (unstake_seeds v)"

definition check_can_be_removed :: "validator \<Rightarrow> (unit, lido_error) result" where
  "check_can_be_removed v =
     (if status v \<noteq> PendingRemoval then Err ValidatorIsStillActive
      else if has_stake_accounts v then Err ValidatorShouldHaveNoStakeAccounts
      else if has_unstake_accounts v then Err ValidatorShouldHaveNoUnstakeAccounts
      else assert (stake_accounts_balance v = Lamports 0))"

definition find_stake_account_address_with_authority ::
  "(u8 list list \<Rightarrow> pubkey \<Rightarrow> pubkey \<times> u8) \<Rightarrow> validator \<Rightarrow> pubkey \<Rightarrow> pubkey \<Rightarrow> u8 list \<Rightarrow> u64 \<Rightarrow> pubkey \<times> u8" where
  "find_stake_account_address_with_authority find_pda v program_id solido_account authority seed =
     find_pda [pubkey_bytes solido_account, pubkey_bytes (vote_account_address v), authority, u64_bytes seed]
       program_id"

definition find_stake_account_address ::
  "(u8 list list \<Rightarrow> pubkey \<Rightarrow> pubkey \<times> u8) \<Rightarrow> validator \<Rightarrow> pubkey \<Rightarrow> pubkey \<Rightarrow> u64 \<Rightarrow> stake_type \<Rightarrow> pubkey \<times> u8" where
  "find_stake_account_address find_pda v program_id solido_account seed stake_type =
     (let authority = (case stake_type of
            Stake \<Rightarrow> VALIDATOR_STAKE_ACCOUNT
          | Unstake \<Rightarrow> VALIDATOR_UNSTAKE_ACCOUNT) in
      find_stake_account_address_with_authority find_pda v program_id solido_account authority seed)"

definition find_temporary_stake_account_address ::
  "(u8 list list \<Rightarrow> pubkey \<Rightarrow> pubkey \<times> u8) \<Rightarrow> validator \<Rightarrow> pubkey \<Rightarrow> pubkey \<Rightarrow> u64 \<Rightarrow> epoch \<Rightarrow> pubkey \<times> u8" where
  "find_temporary_stake_account_address find_pda v program_id solido_account seed e =
     find_stake_account_address_with_authority find_pda v program_id solido_account
       (VALIDATOR_STAKE_ACCOUNT @ u64_bytes e) seed"

definition is_active :: "validator \<Rightarrow> bool" where
  "is_active v \<longleftrightarrow> status v = AcceptingStakes"

definition is_inactive :: "validator \<Rightarrow> bool" where
  "is_inactive v \<longleftrightarrow> status v = StakesSuspended"

definition activate :: "validator \<Rightarrow> validator" where
  "activate v = (if status v \<noteq> StakesSuspended then v else v\<lparr>status := AcceptingStakes\<rparr>)"

definition deactivate :: "validator \<Rightarrow> validator" where
  "deactivate v = (if status v \<noteq> AcceptingStakes then v else v\<lparr>status := StakesSuspended\<rparr>)"

definition enqueue_for_removal :: "validator \<Rightarrow> validator" where
  "enqueue_for_removal v = v\<lparr>status := PendingRemoval\<rparr>"

subsection \<open>Maintainers and validator performance\<close>

record maintainer =
  maintainer_pubkey :: pubkey

definition maintainer_new :: "pubkey \<Rightarrow> maintainer" where
  "maintainer_new k = \<lparr>maintainer_pubkey = k\<rparr>"

record criteria =
  max_commission :: u8
  min_block_production_rate :: u64
  min_vote_success_rate :: u64

definition criteria_default :: criteria where
  "criteria_default =
     \<lparr>max_commission = 100, min_block_production_rate = 0, min_vote_success_rate = 0\<rparr>"

definition criteria_new :: "u8 \<Rightarrow> u64 \<Rightarrow> u64 \<Rightarrow> criteria" where
  "criteria_new c vote_rate block_rate =
     \<lparr>max_commission = c, min_block_production_rate = block_rate, min_vote_success_rate = vote_rate\<rparr>"

record offchain_validator_perf =
  updated_at :: epoch
  block_production_rate :: u64
  vote_success_rate :: u64

record validator_perf =
  validator_vote_account_address :: pubkey
  commission :: u8
  commission_updated_at :: epoch
  perf_rest :: "offchain_validator_perf option"

definition validator_perf_new :: "pubkey \<Rightarrow> validator_perf" where
  "validator_perf_new k =
     \<lparr>validator_vote_account_address = k, commission = 0, commission_updated_at = 0, perf_rest = None\<rparr>"

definition meets_criteria :: "validator_perf \<Rightarrow> criteria \<Rightarrow> bool" where
  "meets_criteria p c \<longleftrightarrow>
     commission p \<le> max_commission c \<and>
     (case perf_rest p of
        None \<Rightarrow> True
      | Some r \<Rightarrow> min_vote_success_rate c \<le> vote_success_rate r \<and>
                  min_block_production_rate c \<le> block_production_rate r)"

subsection \<open>Layouts\<close>

text \<open>
  The layouts of the two entry types without padding. A Borsh enum is the index of its
  variant; the memory form of \<open>ValidatorStatus\<close> (\<open>repr(i8)\<close>) is the discriminant,
  which is \<open>-1\<close> for \<open>PendingRemoval\<close>.
\<close>

definition status_borsh :: "validator_status \<Rightarrow> u8" where
  "status_borsh s = (case s of AcceptingStakes \<Rightarrow> 0 | StakesSuspended \<Rightarrow> 1 | PendingRemoval \<Rightarrow> 2)"

definition status_memory :: "validator_status \<Rightarrow> u8" where
  "status_memory s = (case s of AcceptingStakes \<Rightarrow> 0 | StakesSuspended \<Rightarrow> 1 | PendingRemoval \<Rightarrow> 255)"

definition status_of_memory :: "u8 \<Rightarrow> validator_status option" where
  "status_of_memory b =
     (if b = 0 then Some AcceptingStakes else if b = 1 then Some StakesSuspended
      else if b = 255 then Some PendingRemoval else None)"

definition validator_fields :: "validator \<Rightarrow> u8 list" where
  "validator_fields v =
     pubkey_bytes (vote_account_address v) @
     u64_bytes (seed_begin (stake_seeds v)) @ u64_bytes (seed_end (stake_seeds v)) @
     u64_bytes (seed_begin (unstake_seeds v)) @ u64_bytes (seed_end (unstake_seeds v)) @
     u64_bytes (lam (stake_accounts_balance v)) @
     u64_bytes (lam (unstake_accounts_balance v)) @
     u64_bytes (lam (effective_stake_balance v))"

definition u64_at :: "nat \<Rightarrow> u8 list \<Rightarrow> u64" where
  "u64_at i bs = word_of_nat (le_val (take 8 (drop i bs)))"

definition pubkey_at :: "nat \<Rightarrow> u8 list \<Rightarrow> pubkey" where
  "pubkey_at i bs = word_of_nat (le_val (take 32 (drop i bs)))"

definition validator_read :: "u8 list \<Rightarrow> validator option" where
  "validator_read bs =
     (if length bs < 89 then None
      else map_option (\<lambda>st.
        \<lparr>vote_account_address = pubkey_at 0 bs,
         stake_seeds = \<lparr>seed_begin = u64_at 32 bs, seed_end = u64_at 40 bs\<rparr>,
         unstake_seeds = \<lparr>seed_begin = u64_at 48 bs, seed_end = u64_at 56 bs\<rparr>,
         stake_accounts_balance = Lamports (u64_at 64 bs),
         unstake_accounts_balance = Lamports (u64_at 72 bs),
         effective_stake_balance = Lamports (u64_at 80 bs),
         status = st\<rparr>) (status_of_memory (bs ! 88)))"

definition validator_layout :: "validator entry_layout" where
  "validator_layout =
     \<lparr>entry_len = 89,
      entry_borsh = (\<lambda>v. validator_fields v @ [status_borsh (status v)]),
      entry_read = validator_read,
      entry_write = (\<lambda>v bs. validator_fields v @ [status_memory (status v)] @ drop 89 bs),
      borsh_u32 = (\<lambda>n. le_bytes 4 (unat n)),
      borsh_read_u32 = (\<lambda>bs. if length bs = 4 then Some (word_of_nat (le_val bs)) else None)\<rparr>"

definition maintainer_layout :: "maintainer entry_layout" where
  "maintainer_layout =
     \<lparr>entry_len = 32,
      entry_borsh = (\<lambda>m. pubkey_bytes (maintainer_pubkey m)),
      entry_read = (\<lambda>bs. if length bs < 32 then None else Some \<lparr>maintainer_pubkey = pubkey_at 0 bs\<rparr>),
      entry_write = (\<lambda>m bs. pubkey_bytes (maintainer_pubkey m) @ drop 32 bs),
      borsh_u32 = (\<lambda>n. le_bytes 4 (unat n)),
      borsh_read_u32 = (\<lambda>bs. if length bs = 4 then Some (word_of_nat (le_val bs)) else None)\<rparr>"

definition validator_packable :: "validator \<Rightarrow> bool" where
  "validator_packable v \<longleftrightarrow> status v \<noteq> PendingRemoval"

subsection \<open>Facts about words in buffers\<close>

lemma length_key_word_bytes [simp]: "length (pubkey_bytes k) = 32" "length (u64_bytes x) = 8"
  by (simp_all add: pubkey_bytes_def u64_bytes_def)

lemma word_of_le_bytes [simp]:
  "word_of_nat (le_val (u64_bytes x)) = x" "word_of_nat (le_val (pubkey_bytes k)) = k"
proof -
  have "unat x mod 256 ^ 8 = unat x" "unat k mod 256 ^ 32 = unat k"
    using unsigned_less [of x, where ?'a = nat] unsigned_less [of k, where ?'a = nat] by simp_all
  then show "word_of_nat (le_val (u64_bytes x)) = x" "word_of_nat (le_val (pubkey_bytes k)) = k"
    by (simp_all add: pubkey_bytes_def u64_bytes_def)
qed

lemma word_of_le_bytes_4: "word_of_nat (unat n mod 4294967296) = n" for n :: u32
  using unsigned_less [of n, where ?'a = nat] by simp

lemma pubkey_bytes_at:
  "i + 32 \<le> length bs \<Longrightarrow> pubkey_bytes (pubkey_at i bs) = take 32 (drop i bs)"
proof -
  assume "i + 32 \<le> length bs"
  then have l: "length (take 32 (drop i bs)) = 32" by simp
  then have "le_val (take 32 (drop i bs)) < 2 ^ 256"
    using le_val_bound [of "take 32 (drop i bs)"] by simp
  then have "unat (pubkey_at i bs) = le_val (take 32 (drop i bs))"
    by (simp add: pubkey_at_def unat_of_nat)
  then show ?thesis using l by (simp add: pubkey_bytes_def)
qed

lemma pubkey_bytes_inj [simp]: "pubkey_bytes a = pubkey_bytes b \<longleftrightarrow> a = b"
  by (metis word_of_le_bytes(2))

lemma at_take:
  "i + 8 \<le> n \<Longrightarrow> u64_at i (take n bs) = u64_at i bs"
  "i + 32 \<le> n \<Longrightarrow> pubkey_at i (take n bs) = pubkey_at i bs"
  by (simp_all add: u64_at_def pubkey_at_def drop_take min_def)

lemma length_validator_fields [simp]: "length (validator_fields v) = 88"
  by (simp add: validator_fields_def)

lemma validator_read_fields:
  "validator_read (validator_fields v @ b # r) =
     map_option (\<lambda>st. v\<lparr>status := st\<rparr>) (status_of_memory b)"
proof -
  have st: "(validator_fields v @ b # r) ! 88 = b" by (simp add: nth_append)
  show ?thesis
    unfolding validator_read_def st
    by (cases "status_of_memory b")
      (simp_all add: pubkey_at_def u64_at_def validator_fields_def)
qed

lemma status_of_memory_memory [simp]: "status_of_memory (status_memory s) = Some s"
  by (cases s) (simp_all add: status_of_memory_def status_memory_def)

lemma status_of_memory_borsh:
  "status_of_memory (status_borsh s) = (if s = PendingRemoval then None else Some s)"
  by (cases s) (simp_all add: status_of_memory_def status_borsh_def)

lemma validator_read_local:
  assumes "89 \<le> length bs"
  shows "validator_read bs = validator_read (take 89 bs)"
  using assms by (simp add: validator_read_def at_take)

interpretation vl: entry_codec validator_layout validator_packable vote_account_address
proof unfold_locales
  fix bs :: "u8 list" and x :: validator
  assume l: "entry_len validator_layout \<le> length bs" and r: "entry_read validator_layout bs = Some x"
  then show "take 32 bs = le_bytes 32 (unat (vote_account_address x))"
    using pubkey_bytes_at [of 0 bs] by (auto simp: validator_layout_def validator_read_def pubkey_bytes_def)
next
  fix bs :: "u8 list" and x :: validator
  assume "entry_len validator_layout \<le> length bs"
  show "\<exists>bs'. length bs' = entry_len validator_layout \<and>
      entry_write validator_layout x bs = bs' @ drop (entry_len validator_layout) bs"
    by (intro exI [of _ "validator_fields x @ [status_memory (status x)]"])
      (simp add: validator_layout_def)
qed (simp_all add: validator_layout_def validator_packable_def validator_read_fields
    status_of_memory_borsh word_of_le_bytes_4 validator_read_local [symmetric])

interpretation ml: entry_codec maintainer_layout "\<lambda>m. True" maintainer_pubkey
proof unfold_locales
  fix bs :: "u8 list" and x :: maintainer
  assume l: "entry_len maintainer_layout \<le> length bs" and r: "entry_read maintainer_layout bs = Some x"
  then show "take 32 bs = le_bytes 32 (unat (maintainer_pubkey x))"
    using pubkey_bytes_at [of 0 bs] by (auto simp: maintainer_layout_def pubkey_bytes_def split: if_splits)
next
  fix bs :: "u8 list" and x :: maintainer
  assume "entry_len maintainer_layout \<le> length bs"
  show "\<exists>bs'. length bs' = entry_len maintainer_layout \<and>
      entry_write maintainer_layout x bs = bs' @ drop (entry_len maintainer_layout) bs"
    by (intro exI [of _ "pubkey_bytes (maintainer_pubkey x)"]) (simp add: maintainer_layout_def)
qed (simp_all add: maintainer_layout_def pubkey_at_def word_of_le_bytes_4)

end
