(* ===== verification/Lists.thy ===== *)
theory Lists
  imports Entries
begin

text \<open>
  The account lists of \<^verbatim>\<open>program/src/state.rs\<close>: \<open>AccountType\<close>, \<open>ListHeader\<close>,
  \<open>AccountList\<close> and \<open>BigVecWithHeader\<close>. An account that holds a list starts with
  a header of six bytes; the rest, up to the size for the maximum number of
  entries, is a \<open>BigVec\<close>.

  What the trait \<open>ListEntry\<close> and the derived Borsh code give for one entry type is
  an argument, the record \<open>list_entry\<close>. The locale \<open>list_codec\<close> states what the
  lists rely on and proves the behaviour of every operation as an operation on
  a list with distinct keys and bounded length; the validator list and the
  maintainer list implement it.
\<close>

datatype account_type = Uninitialized | Lido | Validator | ValidatorPerf | Maintainer

record list_header =
  account_type :: account_type
  lido_version :: u8
  max_entries :: u32

record 'a account_list =
  al_header :: list_header
  entries :: "'a list"

record 'a list_entry =
  le_layout :: "'a entry_layout"
  le_type :: account_type
  le_pubkey :: "'a \<Rightarrow> pubkey"
  le_default :: 'a
  le_header_read :: "u8 list \<Rightarrow> list_header option"
  le_list_borsh :: "'a account_list \<Rightarrow> u8 list"

text \<open>The view of an account's bytes: the header, and the bytes of the vector.\<close>

record big_vec_with_header =
  bvh_header :: list_header
  bvh_data :: "u8 list"

definition LIDO_VERSION :: u8 where
  "LIDO_VERSION = 1"

definition check_lido_version :: "u8 \<Rightarrow> (unit, program_error) result" where
  "check_lido_version version =
     (if version \<noteq> LIDO_VERSION then Err (lido_err LidoVersionMismatch) else Ok ())"

definition LIST_HEADER_LEN :: nat where
  "LIST_HEADER_LEN = 6"

definition header_size :: nat where
  "header_size = LIST_HEADER_LEN + 4"

definition calculate_max_entries :: "'a list_entry \<Rightarrow> nat \<Rightarrow> nat" where
  "calculate_max_entries E buffer_length = (buffer_length - header_size) div entry_len (le_layout E)"

definition required_bytes :: "'a list_entry \<Rightarrow> u32 \<Rightarrow> nat" where
  "required_bytes E n = usize_wrap (header_size + usize_wrap (entry_len (le_layout E) * unat n))"

definition new_default :: "'a list_entry \<Rightarrow> u32 \<Rightarrow> 'a account_list" where
  "new_default E n =
     \<lparr>al_header = \<lparr>account_type = le_type E, lido_version = LIDO_VERSION, max_entries = n\<rparr>,
      entries = replicate (unat n) (le_default E)\<rparr>"

definition account_list_find :: "'a list_entry \<Rightarrow> 'a account_list \<Rightarrow> pubkey \<Rightarrow> 'a option" where
  "account_list_find E al key = List.find (\<lambda>x. le_pubkey E x = key) (entries al)"

definition account_list_position ::
  "'a list_entry \<Rightarrow> 'a account_list \<Rightarrow> pubkey \<Rightarrow> (u32 option, 'e) result" where
  "account_list_position E al key =
     (case position (\<lambda>x. le_pubkey E x = key) (entries al) of
        None \<Rightarrow> Ok None
      | Some i \<Rightarrow> if i < 2 ^ 32 then Ok (Some (word_of_nat i)) else Panic)"

text \<open>\<open>save\<close> takes and returns the bytes of the account.\<close>

definition account_list_save ::
  "'a list_entry \<Rightarrow> 'a account_list \<Rightarrow> u8 list \<Rightarrow> (u8 list, program_error) result" where
  "account_list_save E al account_data = serialize_into (le_list_borsh E al) account_data"

definition deserialize_checked :: "'a list_entry \<Rightarrow> u8 list \<Rightarrow> (list_header, program_error) result" where
  "deserialize_checked E data =
     and_then (ok_or (le_header_read E data) BorshIoError) (\<lambda>header.
     and_then (check_lido_version (lido_version header)) (\<lambda>u.
     if account_type header \<noteq> le_type E then Err (lido_err InvalidAccountType)
     else Ok header))"

definition deserialize_vec ::
  "'a list_entry \<Rightarrow> u8 list \<Rightarrow> (list_header \<times> u8 list, program_error) result" where
  "deserialize_vec E data =
     and_then (deserialize_checked E data) (\<lambda>header.
     and_then (get_range data LIST_HEADER_LEN (required_bytes E (max_entries header))) (\<lambda>vec.
     Ok (header, vec)))"

definition account_list_from :: "'a list_entry \<Rightarrow> u8 list \<Rightarrow> ('a account_list, program_error) result" where
  "account_list_from E data =
     and_then (deserialize_vec E data) (\<lambda>(header, vec).
     and_then (bv_iter (le_layout E) vec) (\<lambda>xs.
     Ok \<lparr>al_header = header, entries = xs\<rparr>))"

text \<open>The vector is a slice of the account's data, so its bytes are the account's bytes.\<close>

definition bvh_write_back :: "big_vec_with_header \<Rightarrow> u8 list \<Rightarrow> u8 list" where
  "bvh_write_back b account_data = write_at LIST_HEADER_LEN (bvh_data b) account_data"

definition bvh_len :: "big_vec_with_header \<Rightarrow> (u32, program_error) result" where
  "bvh_len b = bv_len (bvh_data b)"

definition bvh_is_empty :: "big_vec_with_header \<Rightarrow> (bool, program_error) result" where
  "bvh_is_empty b = bv_is_empty (bvh_data b)"

definition bvh_iter :: "'a list_entry \<Rightarrow> big_vec_with_header \<Rightarrow> ('a list, program_error) result" where
  "bvh_iter E b = bv_iter (le_layout E) (bvh_data b)"

definition memcmp_pubkey :: "u8 list \<Rightarrow> u8 list \<Rightarrow> (bool, program_error) result" where
  "memcmp_pubkey data key =
     and_then (get_range data 0 32) (\<lambda>a. and_then (get_range key 0 32) (\<lambda>b. Ok (a = b)))"

definition bvh_find :: "'a list_entry \<Rightarrow> big_vec_with_header \<Rightarrow> pubkey \<Rightarrow> ('a, program_error) result" where
  "bvh_find E b key =
     and_then (bv_find (le_layout E) (bvh_data b) (\<lambda>data. memcmp_pubkey data (pubkey_bytes key)))
       (\<lambda>r. ok_or r (lido_err InvalidAccountMember))"

definition bvh_push ::
  "'a list_entry \<Rightarrow> big_vec_with_header \<Rightarrow> 'a \<Rightarrow> (big_vec_with_header, program_error) result" where
  "bvh_push E b x =
     and_then (bvh_len b) (\<lambda>len.
     if max_entries (bvh_header b) = len then Err (lido_err MaximumNumberOfAccountsExceeded)
     else
       (case bvh_find E b (le_pubkey E x) of
          Ok y \<Rightarrow> Err (lido_err DuplicatedEntry)
        | Panic \<Rightarrow> Panic
        | Err e \<Rightarrow> map_ok (\<lambda>d. b\<lparr>bvh_data := d\<rparr>) (bv_push (le_layout E) (bvh_data b) x)))"

definition check_pubkey :: "'a list_entry \<Rightarrow> 'a \<Rightarrow> pubkey \<Rightarrow> (unit, program_error) result" where
  "check_pubkey E element key =
     (if le_pubkey E element \<noteq> key then Err (lido_err PubkeyIndexMismatch) else Ok ())"

definition bvh_get_mut ::
  "'a list_entry \<Rightarrow> big_vec_with_header \<Rightarrow> u32 \<Rightarrow> pubkey \<Rightarrow> (nat \<times> 'a, program_error) result" where
  "bvh_get_mut E b index key =
     and_then (bv_get_mut (le_layout E) (bvh_data b) index) (\<lambda>(ref, element).
     and_then (check_pubkey E element key) (\<lambda>u. Ok (ref, element)))"

definition bvh_write_ref ::
  "'a list_entry \<Rightarrow> big_vec_with_header \<Rightarrow> nat \<Rightarrow> 'a \<Rightarrow> big_vec_with_header" where
  "bvh_write_ref E b ref x = b\<lparr>bvh_data := write_ref (le_layout E) (bvh_data b) ref x\<rparr>"

definition bvh_remove ::
  "'a list_entry \<Rightarrow> big_vec_with_header \<Rightarrow> u32 \<Rightarrow> pubkey \<Rightarrow>
   ('a \<times> big_vec_with_header, program_error) result" where
  "bvh_remove E b index key =
     and_then (bv_get_mut (le_layout E) (bvh_data b) index) (\<lambda>(ref, element).
     and_then (check_pubkey E element key) (\<lambda>u.
     map_ok (\<lambda>(x, d). (x, b\<lparr>bvh_data := d\<rparr>)) (bv_swap_remove (le_layout E) (bvh_data b) index)))"

subsection \<open>Lists as the program uses them\<close>

text \<open>
  \<open>bvh_repr E b xs\<close>: the view represents \<open>xs\<close>, whose keys are distinct and whose
  length is within the maximum that the header promises. \<open>list_repr E data xs\<close>:
  the bytes of the account do, with a header of the current version and type.
\<close>

definition bvh_repr :: "'a list_entry \<Rightarrow> big_vec_with_header \<Rightarrow> 'a list \<Rightarrow> bool" where
  "bvh_repr E b xs \<longleftrightarrow>
     bv_repr (le_layout E) (bvh_data b) xs \<and>
     length (bvh_data b) = 4 + unat (max_entries (bvh_header b)) * entry_len (le_layout E) \<and>
     length xs \<le> unat (max_entries (bvh_header b)) \<and>
     distinct (map (le_pubkey E) xs)"

definition list_repr :: "'a list_entry \<Rightarrow> u8 list \<Rightarrow> list_header \<Rightarrow> 'a list \<Rightarrow> bool" where
  "list_repr E data h xs \<longleftrightarrow>
     le_header_read E data = Some h \<and> lido_version h = LIDO_VERSION \<and> account_type h = le_type E \<and>
     10 + unat (max_entries h) * entry_len (le_layout E) \<le> length data \<and> length data < 2 ^ 64 \<and>
     bvh_repr E \<lparr>bvh_header = h,
       bvh_data = take (4 + unat (max_entries h) * entry_len (le_layout E)) (drop 6 data)\<rparr> xs"

lemma distinct_list_swap_remove:
  "\<lbrakk>distinct (map f xs); i < length xs\<rbrakk> \<Longrightarrow> distinct (map f (list_swap_remove i xs))"
proof -
  assume d: "distinct (map f xs)" and i: "i < length xs"
  have "mset (map f xs) = add_mset (f (xs ! i)) (mset (map f (list_swap_remove i xs)))"
    using mset_list_swap_remove [OF i] by (metis image_mset_add_mset mset_map)
  then show ?thesis using d
    by (metis distinct_append mset_eq_imp_distinct_iff mset.simps(2) distinct.simps(2))
qed

lemma length_concat_same: "(\<And>x. x \<in> set xs \<Longrightarrow> length (f x) = n) \<Longrightarrow> length (concat (map f xs)) = length xs * n"
  by (induction xs) auto

lemma drop_concat_same:
  "(\<And>x. x \<in> set xs \<Longrightarrow> length (f x) = n) \<Longrightarrow> i \<le> length xs \<Longrightarrow>
     drop (i * n) (concat (map f xs)) = concat (map f (drop i xs))"
proof (induction xs arbitrary: i)
  case Nil
  then show ?case by simp
next
  case (Cons x xs)
  then show ?case by (cases i) simp_all
qed

locale list_codec = entry_codec "le_layout E" packable "le_pubkey E"
  for E :: "'a list_entry" and packable :: "'a \<Rightarrow> bool" +
  assumes header_local: "6 \<le> length data \<Longrightarrow> le_header_read E data = le_header_read E (take 6 data)"
    and header_borsh: "le_header_read E (le_list_borsh E al @ r) = Some (al_header al)"
    and list_borsh: "\<exists>hb. length hb = 6 \<and> le_list_borsh E al =
      hb @ le_bytes 4 (length (entries al)) @ concat (map (entry_borsh (le_layout E)) (entries al))"
begin

lemma memcmp_slot:
  assumes "bv_repr (le_layout E) d xs" and "i < length xs"
  shows "memcmp_pubkey (take (entry_len (le_layout E)) (drop (4 + i * entry_len (le_layout E)) d))
    (pubkey_bytes key) = Ok (le_pubkey E (xs ! i) = key)"
proof -
  let ?s = "take (entry_len (le_layout E)) (drop (4 + i * entry_len (le_layout E)) d)"
  have "32 \<le> length ?s" using slot_in_buffer [OF assms] len_min by simp
  moreover have "take 32 ?s = pubkey_bytes (le_pubkey E (xs ! i))"
    using slot_key [OF assms] by (simp add: pubkey_bytes_def)
  ultimately show ?thesis by (simp add: memcmp_pubkey_def get_range_def)
qed

lemma bvh_find_refines:
  assumes "bvh_repr E b xs"
  shows "bvh_find E b key =
    ok_or (List.find (\<lambda>x. le_pubkey E x = key) xs) (lido_err InvalidAccountMember)"
proof -
  have "bv_repr (le_layout E) (bvh_data b) xs" using assms by (simp add: bvh_repr_def)
  from find_refines [of _ _ "\<lambda>data. memcmp_pubkey data (pubkey_bytes key)" "\<lambda>x. le_pubkey E x = key",
      OF this memcmp_slot [OF this]]
  show ?thesis by (simp add: bvh_find_def)
qed

lemma bvh_iter_refines: "bvh_repr E b xs \<Longrightarrow> bvh_iter E b = Ok xs"
  by (simp add: bvh_iter_def bvh_repr_def iter_refines)

lemma bvh_len_refines:
  "bvh_repr E b xs \<Longrightarrow> bvh_len b = Ok (word_of_nat (length xs)) \<and> unat (word_of_nat (length xs) :: u32) = length xs"
  using repr_u32 by (auto simp: bvh_len_def bvh_repr_def repr_length)

lemma bvh_push_refines:
  assumes "bvh_repr E b xs" and "packable x"
  shows "if length xs = unat (max_entries (bvh_header b))
      then bvh_push E b x = Err (lido_err MaximumNumberOfAccountsExceeded)
    else if le_pubkey E x \<in> le_pubkey E ` set xs
      then bvh_push E b x = Err (lido_err DuplicatedEntry)
    else \<exists>b'. bvh_push E b x = Ok b' \<and> bvh_header b' = bvh_header b \<and> bvh_repr E b' (xs @ [x])"
proof -
  let ?L = "le_layout E" and ?max = "unat (max_entries (bvh_header b))"
  have bv: "bv_repr ?L (bvh_data b) xs"
    and size: "length (bvh_data b) = 4 + ?max * entry_len ?L" and le: "length xs \<le> ?max"
    and dist: "distinct (map (le_pubkey E) xs)"
    using assms(1) by (simp_all add: bvh_repr_def)
  note len = bvh_len_refines [OF assms(1)]
  have full: "max_entries (bvh_header b) = word_of_nat (length xs) \<longleftrightarrow> length xs = ?max"
    using len by (auto simp: word_unat_eq_iff)
  note find = bvh_find_refines [OF assms(1), of "le_pubkey E x"]
  consider "length xs = ?max" | "length xs < ?max" "le_pubkey E x \<in> le_pubkey E ` set xs"
    | "length xs < ?max" "le_pubkey E x \<notin> le_pubkey E ` set xs" using le by linarith
  then show ?thesis
  proof cases
    case 1
    then show ?thesis using len full by (simp add: bvh_push_def)
  next
    case 2
    then obtain y where "List.find (\<lambda>y. le_pubkey E y = le_pubkey E x) xs = Some y"
      by (cases "List.find (\<lambda>y. le_pubkey E y = le_pubkey E x) xs") (auto simp: find_None_iff)
    then show ?thesis using 2 len full find by (simp add: bvh_push_def)
  next
    case 3
    then have none: "List.find (\<lambda>y. le_pubkey E y = le_pubkey E x) xs = None"
      unfolding find_None_iff by (metis imageI)
    have "?max < 2 ^ 32" using unsigned_less [of "max_entries (bvh_header b)"] by simp
    then have small: "length xs < 2 ^ 32 - 1" using 3 by simp
    have "Suc (length xs) * entry_len ?L \<le> ?max * entry_len ?L" using 3 by (intro mult_le_mono1) simp
    then obtain d' where d': "bv_push ?L (bvh_data b) x = Ok d'" "bv_repr ?L d' (xs @ [x])"
      "length d' = length (bvh_data b)"
      using push_refines [OF bv assms(2) small] size by auto
    then show ?thesis
      using 3 len full find none size dist by (auto simp: bvh_push_def bvh_repr_def)
  qed
qed

lemma bvh_get_mut_refines:
  assumes "bvh_repr E b xs"
  shows "bvh_get_mut E b i key =
    (if unat i < length xs then
       if le_pubkey E (xs ! unat i) = key
       then Ok (4 + unat i * entry_len (le_layout E), xs ! unat i)
       else Err (lido_err PubkeyIndexMismatch)
     else Err (lido_err AccountListIndexOutOfBounds))"
  using assms get_mut_refines [of "bvh_data b" xs i]
  by (simp add: bvh_get_mut_def check_pubkey_def bvh_repr_def)

lemma bvh_write_ref_refines:
  assumes "bvh_repr E b xs" and "i < length xs" and "le_pubkey E x = le_pubkey E (xs ! i)"
  shows "bvh_repr E (bvh_write_ref E b (4 + i * entry_len (le_layout E)) x) (xs[i := x])"
    and "bvh_header (bvh_write_ref E b (4 + i * entry_len (le_layout E)) x) = bvh_header b"
proof -
  have "map (le_pubkey E) (xs[i := x]) = map (le_pubkey E) xs"
    using assms by (metis list_update_id map_update)
  then show "bvh_repr E (bvh_write_ref E b (4 + i * entry_len (le_layout E)) x) (xs[i := x])"
    using assms write_ref_refines [of "bvh_data b" xs i x]
    by (simp add: bvh_repr_def bvh_write_ref_def)
  show "bvh_header (bvh_write_ref E b (4 + i * entry_len (le_layout E)) x) = bvh_header b"
    by (simp add: bvh_write_ref_def)
qed

lemma bvh_remove_refines:
  assumes "bvh_repr E b xs"
  shows "if unat i < length xs then
      if le_pubkey E (xs ! unat i) = key
      then \<exists>b'. bvh_remove E b i key = Ok (xs ! unat i, b') \<and> bvh_header b' = bvh_header b \<and>
        bvh_repr E b' (list_swap_remove (unat i) xs)
      else bvh_remove E b i key = Err (lido_err PubkeyIndexMismatch)
    else bvh_remove E b i key = Err (lido_err AccountListIndexOutOfBounds)"
proof -
  have bv: "bv_repr (le_layout E) (bvh_data b) xs" using assms by (simp add: bvh_repr_def)
  have len: "unat i < length xs \<Longrightarrow> length (list_swap_remove (unat i) xs) \<le> length xs"
    by (simp add: list_swap_remove_def)
  show ?thesis
    using assms get_mut_refines [OF bv, of i] swap_remove_refines [OF bv, of i] len
      distinct_list_swap_remove [of "le_pubkey E" xs "unat i"]
    by (auto simp: bvh_remove_def check_pubkey_def bvh_repr_def)
qed

text \<open>From the bytes of an account to the view and back.\<close>

lemma required_bytes_in_buffer:
  "\<lbrakk>10 + unat n * entry_len (le_layout E) \<le> m; m < 2 ^ 64\<rbrakk> \<Longrightarrow>
    required_bytes E n = 10 + unat n * entry_len (le_layout E)"
  by (simp add: required_bytes_def usize_wrap_def header_size_def LIST_HEADER_LEN_def mult.commute)

lemma deserialize_vec_refines:
  assumes "list_repr E data h xs"
  shows "\<exists>vec. deserialize_vec E data = Ok (h, vec) \<and>
    bvh_repr E \<lparr>bvh_header = h, bvh_data = vec\<rparr> xs"
  using assms required_bytes_in_buffer [of "max_entries h" "length data"]
  by (simp add: list_repr_def deserialize_vec_def deserialize_checked_def check_lido_version_def
      get_range_def LIST_HEADER_LEN_def)

lemma account_list_from_refines:
  assumes "list_repr E data h xs"
  shows "account_list_from E data = Ok \<lparr>al_header = h, entries = xs\<rparr>"
proof -
  obtain vec where vec: "deserialize_vec E data = Ok (h, vec)"
    "bvh_repr E \<lparr>bvh_header = h, bvh_data = vec\<rparr> xs"
    using deserialize_vec_refines [OF assms] by blast
  then have "bv_iter (le_layout E) vec = Ok xs"
    using bvh_iter_refines [of "\<lparr>bvh_header = h, bvh_data = vec\<rparr>" xs] by (simp add: bvh_iter_def)
  with vec show ?thesis by (simp add: account_list_from_def)
qed

lemma write_back_refines:
  assumes "list_repr E data h xs" and "bvh_repr E b ys" and "bvh_header b = h"
  shows "list_repr E (bvh_write_back b data) h ys"
    and "length (bvh_write_back b data) = length data"
proof -
  have size: "length (bvh_data b) = 4 + unat (max_entries h) * entry_len (le_layout E)"
    using assms(2,3) by (simp add: bvh_repr_def)
  have room: "6 + length (bvh_data b) \<le> length data" using assms(1) size by (simp add: list_repr_def)
  let ?d = "bvh_write_back b data"
  show len: "length ?d = length data" using room by (simp add: bvh_write_back_def LIST_HEADER_LEN_def)
  have "take 6 ?d = take 6 data" using room by (simp add: bvh_write_back_def LIST_HEADER_LEN_def)
  then have "le_header_read E ?d = le_header_read E data"
    using header_local [of ?d] header_local [of data] room len by simp
  moreover have "take (length (bvh_data b)) (drop 6 ?d) = bvh_data b"
    using room by (simp add: bvh_write_back_def LIST_HEADER_LEN_def)
  then have "take (4 + unat (max_entries h) * entry_len (le_layout E)) (drop 6 ?d) = bvh_data b"
    using size by simp
  moreover have "b = \<lparr>bvh_header = h, bvh_data = bvh_data b\<rparr>" using assms(3) by simp
  ultimately show "list_repr E ?d h ys"
    using assms(1,2) len by (simp add: list_repr_def)
qed

text \<open>A list that is saved into an account is represented by it.\<close>

lemma save_refines:
  assumes pack: "\<And>x. x \<in> set (entries al) \<Longrightarrow> packable x" and dist: "distinct (map (le_pubkey E) (entries al))"
    and fits: "length (entries al) \<le> unat (max_entries (al_header al))"
    and head: "lido_version (al_header al) = LIDO_VERSION" "account_type (al_header al) = le_type E"
    and size: "10 + unat (max_entries (al_header al)) * entry_len (le_layout E) \<le> length data"
    and small: "length data < 2 ^ 64"
  shows "\<exists>d'. account_list_save E al data = Ok d' \<and> length d' = length data \<and>
    list_repr E d' (al_header al) (entries al)"
proof -
  let ?L = "le_layout E" and ?xs = "entries al" and ?max = "unat (max_entries (al_header al))"
  let ?n = "entry_len ?L"
  obtain hb where hb: "length hb = 6"
    "le_list_borsh E al = hb @ le_bytes 4 (length ?xs) @ concat (map (entry_borsh ?L) ?xs)"
    using list_borsh [of al] by auto
  have len: "length (concat (map (entry_borsh ?L) ?xs)) = length ?xs * ?n"
    using pack borsh_length by (intro length_concat_same) auto
  have le: "length ?xs * ?n \<le> ?max * ?n" using fits by simp
  then have room: "10 + length ?xs * ?n \<le> length data" using size by linarith
  let ?rest = "drop (10 + length ?xs * ?n) data"
  let ?d = "le_list_borsh E al @ ?rest"
  let ?vec = "take (4 + ?max * ?n) (drop 6 ?d)"
  have saved: "account_list_save E al data = Ok ?d"
    using hb len room by (simp add: account_list_save_def serialize_into_def)
  have len_d: "length ?d = length data" using hb len room by simp
  have vec: "?vec = le_bytes 4 (length ?xs) @ concat (map (entry_borsh ?L) ?xs) @ take (?max * ?n - length ?xs * ?n) ?rest"
    using hb len le by simp
  have read: "entry_read ?L (drop (4 + i * ?n) ?vec) = Some (?xs ! i)" if i: "i < length ?xs" for i
  proof -
    have "drop (i * ?n) (concat (map (entry_borsh ?L) ?xs)) = concat (map (entry_borsh ?L) (drop i ?xs))"
      using pack borsh_length i by (intro drop_concat_same) auto
    also have "\<dots> = entry_borsh ?L (?xs ! i) @ concat (map (entry_borsh ?L) (drop (Suc i) ?xs))"
      using i by (simp add: Cons_nth_drop_Suc [symmetric])
    finally have "drop (4 + i * ?n) ?vec = entry_borsh ?L (?xs ! i) @ concat (map (entry_borsh ?L) (drop (Suc i) ?xs)) @
        take (?max * ?n - length ?xs * ?n) ?rest"
      unfolding vec using i len by simp
    then show ?thesis using pack [of "?xs ! i"] i by (simp add: read_borsh)
  qed
  have "?max < 2 ^ 32" using unsigned_less [of "max_entries (al_header al)"] by simp
  then have count: "length ?xs < 2 ^ 32" using fits by linarith
  have len_vec: "length ?vec = 4 + ?max * ?n" using len_d size by simp
  have "4 + length ?xs * ?n \<le> length ?vec" "length ?vec < 2 ^ 64"
    using len_vec le size small by linarith+
  moreover have "le_val (take 4 ?vec) = length ?xs" unfolding vec using count by simp
  ultimately have "bv_repr ?L ?vec ?xs" unfolding bv_repr_def using read by blast
  then have "bvh_repr E \<lparr>bvh_header = al_header al, bvh_data = ?vec\<rparr> ?xs"
    using len_vec fits dist by (simp add: bvh_repr_def)
  then have "list_repr E ?d (al_header al) ?xs"
    unfolding list_repr_def using header_borsh [of al ?rest] head size small len_d by simp
  with saved len_d show ?thesis by blast
qed

lemma save_empty_refines:
  assumes "entries al = []" and "lido_version (al_header al) = LIDO_VERSION"
    and "account_type (al_header al) = le_type E"
    and "10 + unat (max_entries (al_header al)) * entry_len (le_layout E) \<le> length data"
    and "length data < 2 ^ 64"
  shows "\<exists>d'. account_list_save E al data = Ok d' \<and> length d' = length data \<and>
    list_repr E d' (al_header al) []"
  using save_refines [of al data] assms by simp

end

subsection \<open>The two lists with a fixed layout\<close>

definition header_bytes :: "list_header \<Rightarrow> u8 list" where
  "header_bytes h =
     [case account_type h of Uninitialized \<Rightarrow> 0 | Lido \<Rightarrow> 1 | Validator \<Rightarrow> 2 | ValidatorPerf \<Rightarrow> 3 | Maintainer \<Rightarrow> 4,
      lido_version h] @ le_bytes 4 (unat (max_entries h))"

definition account_type_of_byte :: "u8 \<Rightarrow> account_type option" where
  "account_type_of_byte b =
     (if b = 0 then Some Uninitialized else if b = 1 then Some Lido else if b = 2 then Some Validator
      else if b = 3 then Some ValidatorPerf else if b = 4 then Some Maintainer else None)"

definition header_read :: "u8 list \<Rightarrow> list_header option" where
  "header_read bs =
     (if length bs < 6 then None
      else map_option (\<lambda>t. \<lparr>account_type = t, lido_version = bs ! 1,
          max_entries = word_of_nat (le_val (take 4 (drop 2 bs)))\<rparr>)
        (account_type_of_byte (bs ! 0)))"

definition list_bytes :: "'a entry_layout \<Rightarrow> 'a account_list \<Rightarrow> u8 list" where
  "list_bytes L al = header_bytes (al_header al) @ le_bytes 4 (length (entries al)) @
     concat (map (entry_borsh L) (entries al))"

definition validator_entry :: "validator list_entry" where
  "validator_entry =
     \<lparr>le_layout = validator_layout, le_type = Validator, le_pubkey = vote_account_address,
      le_default = validator_default, le_header_read = header_read, le_list_borsh = list_bytes validator_layout\<rparr>"

definition maintainer_entry :: "maintainer list_entry" where
  "maintainer_entry =
     \<lparr>le_layout = maintainer_layout, le_type = Maintainer, le_pubkey = maintainer_pubkey,
      le_default = \<lparr>maintainer_pubkey = 0\<rparr>, le_header_read = header_read, le_list_borsh = list_bytes maintainer_layout\<rparr>"

lemma length_header_bytes [simp]: "length (header_bytes h) = 6"
  by (simp add: header_bytes_def)

lemma header_read_bytes: "header_read (header_bytes h @ r) = Some h"
  by (cases "account_type h")
    (simp_all add: header_read_def header_bytes_def account_type_of_byte_def word_of_le_bytes_4)

lemma header_read_local: "6 \<le> length d \<Longrightarrow> header_read d = header_read (take 6 d)"
  by (simp add: header_read_def drop_take min_def)

lemma list_codec_of_layout:
  assumes "entry_codec (le_layout E) packable (le_pubkey E)"
    and "le_header_read E = header_read" and "le_list_borsh E = list_bytes (le_layout E)"
  shows "list_codec E packable"
proof (rule list_codec.intro [OF assms(1)], unfold_locales)
  show "6 \<le> length d \<Longrightarrow> le_header_read E d = le_header_read E (take 6 d)" for d
    unfolding assms(2) by (rule header_read_local)
  show "le_header_read E (le_list_borsh E al @ r) = Some (al_header al)" for al r
    by (simp add: assms(2,3) list_bytes_def header_read_bytes)
  show "\<exists>hb. length hb = 6 \<and> le_list_borsh E al =
      hb @ le_bytes 4 (length (entries al)) @ concat (map (entry_borsh (le_layout E)) (entries al))" for al
    by (intro exI [of _ "header_bytes (al_header al)"]) (simp add: assms(3) list_bytes_def)
qed

interpretation vle: list_codec validator_entry validator_packable
  by (rule list_codec_of_layout) (simp_all add: validator_entry_def vl.entry_codec_axioms)

interpretation mle: list_codec maintainer_entry "\<lambda>m. True"
  by (rule list_codec_of_layout) (simp_all add: maintainer_entry_def ml.entry_codec_axioms)

subsection \<open>Properties\<close>

text \<open>A list with room for two maintainers, before and after one is added.\<close>

definition example_view :: big_vec_with_header where
  "example_view = \<lparr>bvh_header = \<lparr>account_type = Maintainer, lido_version = 1, max_entries = 2\<rparr>,
     bvh_data = replicate 68 0\<rparr>"

definition example_view_1 :: big_vec_with_header where
  "example_view_1 = \<lparr>bvh_header = \<lparr>account_type = Maintainer, lido_version = 1, max_entries = 2\<rparr>,
     bvh_data = [1, 0, 0, 0] @ pubkey_bytes 7 @ replicate 32 0\<rparr>"

lemma le_val_zeros [simp]: "le_val (replicate n 0) = 0"
  by (induction n) auto

lemma example_view_repr: "bvh_repr maintainer_entry example_view []"
  by (simp add: bvh_repr_def bv_repr_def example_view_def maintainer_entry_def maintainer_layout_def)

lemma example_view_1_repr: "bvh_repr maintainer_entry example_view_1 [maintainer_new 7]"
  by (simp add: bvh_repr_def bv_repr_def example_view_1_def maintainer_entry_def maintainer_layout_def
      pubkey_at_def maintainer_new_def)

text \<open>C31: Adding to an account list. For every view of a list account that represents a
  list \<open>xs\<close> (distinct keys, at most \<open>max_entries\<close> elements), \<open>push\<close> of a packable
  entry fails with \<open>MaximumNumberOfAccountsExceeded\<close> exactly when the list is full, then with
  \<open>DuplicatedEntry\<close> exactly when the key is present, and otherwise succeeds with a view that
  represents \<open>xs\<close> with the entry appended; so uniqueness and capacity are kept.\<close>

theorem bvh_push_spec:
  assumes "list_codec E packable" and "bvh_repr E b xs" and "packable x"
  shows "if length xs = unat (max_entries (bvh_header b))
      then bvh_push E b x = Err (lido_err MaximumNumberOfAccountsExceeded)
    else if le_pubkey E x \<in> le_pubkey E ` set xs
      then bvh_push E b x = Err (lido_err DuplicatedEntry)
    else \<exists>b'. bvh_push E b x = Ok b' \<and> bvh_header b' = bvh_header b \<and> bvh_repr E b' (xs @ [x])"
  using list_codec.bvh_push_refines [OF assms] .

theorem bvh_push_spec_witness:
  "\<exists>b'. bvh_push maintainer_entry example_view (maintainer_new 7) = Ok b' \<and>
     bvh_header b' = bvh_header example_view \<and> bvh_repr maintainer_entry b' [maintainer_new 7]"
  using bvh_push_spec [OF mle.list_codec_axioms example_view_repr, of "maintainer_new 7"]
  by (simp add: example_view_def)

text \<open>C32: Removing from an account list. With an index in range and the key of the entry
  there, \<open>remove\<close> returns that entry and leaves a view of the list with exactly this
  entry taken out (the last entry takes its place); with another key, or an index out
  of range, it fails with \<open>PubkeyIndexMismatch\<close> or \<open>AccountListIndexOutOfBounds\<close>.\<close>

theorem bvh_remove_spec:
  assumes "list_codec E packable" and "bvh_repr E b xs"
  shows "if unat i < length xs then
      if le_pubkey E (xs ! unat i) = key
      then \<exists>b' ys. bvh_remove E b i key = Ok (xs ! unat i, b') \<and> bvh_header b' = bvh_header b \<and>
        bvh_repr E b' ys \<and> mset xs = add_mset (xs ! unat i) (mset ys)
      else bvh_remove E b i key = Err (lido_err PubkeyIndexMismatch)
    else bvh_remove E b i key = Err (lido_err AccountListIndexOutOfBounds)"
  using list_codec.bvh_remove_refines [OF assms, of i key] mset_list_swap_remove [of "unat i" xs]
  by (auto split: if_splits) metis

theorem bvh_remove_spec_witness:
  "\<exists>b' ys. bvh_remove maintainer_entry example_view_1 0 7 = Ok (maintainer_new 7, b') \<and>
     bvh_header b' = bvh_header example_view_1 \<and> bvh_repr maintainer_entry b' ys \<and>
     mset [maintainer_new 7] = add_mset (maintainer_new 7) (mset ys)"
  using bvh_remove_spec [OF mle.list_codec_axioms example_view_1_repr, of 0 7]
  by (simp add: maintainer_entry_def maintainer_new_def)

text \<open>Reading and updating an entry in place. \<open>get_mut\<close> with an index in range and the
  right key yields the entry at that index, and an assignment through the reference that
  keeps the key changes that entry of the represented list and no other; a wrong key
  or index is an error.\<close>

theorem bvh_get_mut_spec:
  assumes "list_codec E packable" and "bvh_repr E b xs"
  shows "if unat i < length xs then
      if le_pubkey E (xs ! unat i) = key
      then \<exists>ref. bvh_get_mut E b i key = Ok (ref, xs ! unat i) \<and>
        (\<forall>x. le_pubkey E x = key \<longrightarrow> bvh_repr E (bvh_write_ref E b ref x) (xs[unat i := x]))
      else bvh_get_mut E b i key = Err (lido_err PubkeyIndexMismatch)
    else bvh_get_mut E b i key = Err (lido_err AccountListIndexOutOfBounds)"
  using list_codec.bvh_get_mut_refines [OF assms, of i key]
    list_codec.bvh_write_ref_refines(1) [OF assms, of "unat i"]
  by auto

theorem bvh_get_mut_spec_witness:
  "\<exists>ref. bvh_get_mut maintainer_entry example_view_1 0 7 = Ok (ref, maintainer_new 7) \<and>
     bvh_repr maintainer_entry (bvh_write_ref maintainer_entry example_view_1 ref (maintainer_new 7))
       [maintainer_new 7]"
  using bvh_get_mut_spec [OF mle.list_codec_axioms example_view_1_repr, of 0 7]
  by (auto simp: maintainer_entry_def maintainer_new_def)

text \<open>Saving and loading an account list. A list of packable entries with distinct keys and at most
  \<open>max_entries\<close> elements, saved into an account that has room for \<open>max_entries\<close> entries, is
  read back from the account as the same list with the same header, whatever the account held before, and
  the account keeps its size.\<close>

theorem account_list_save_roundtrip:
  assumes "list_codec E packable" and "list_all packable (entries al)"
    and "distinct (map (le_pubkey E) (entries al))"
    and "length (entries al) \<le> unat (max_entries (al_header al))"
    and "lido_version (al_header al) = LIDO_VERSION" and "account_type (al_header al) = le_type E"
    and "10 + unat (max_entries (al_header al)) * entry_len (le_layout E) \<le> length data"
    and "length data < 2 ^ 64"
  shows "\<exists>d'. account_list_save E al data = Ok d' \<and> length d' = length data \<and> account_list_from E d' = Ok al"
  using list_codec.save_refines [OF assms(1), of al data] list_codec.account_list_from_refines [OF assms(1)] assms
  by (auto simp: list_all_iff)

theorem account_list_save_roundtrip_witness:
  "\<exists>d'. account_list_save maintainer_entry
      \<lparr>al_header = \<lparr>account_type = Maintainer, lido_version = 1, max_entries = 2\<rparr>, entries = [maintainer_new 7]\<rparr>
      (replicate 80 9) = Ok d' \<and> length d' = 80 \<and>
    account_list_from maintainer_entry d' =
      Ok \<lparr>al_header = \<lparr>account_type = Maintainer, lido_version = 1, max_entries = 2\<rparr>, entries = [maintainer_new 7]\<rparr>"
  using account_list_save_roundtrip [OF mle.list_codec_axioms,
      of "\<lparr>al_header = \<lparr>account_type = Maintainer, lido_version = 1, max_entries = 2\<rparr>, entries = [maintainer_new 7]\<rparr>"
        "replicate 80 9"]
  by (simp add: maintainer_entry_def maintainer_layout_def LIDO_VERSION_def)

lemma borsh_size:
  assumes "list_all (\<lambda>x. length (entry_borsh L x) = entry_len L) (entries al)"
  shows "length (list_bytes L al) = 10 + length (entries al) * entry_len L"
proof -
  have "length (concat (map (entry_borsh L) (entries al))) = length (entries al) * entry_len L"
    using assms by (intro length_concat_same) (auto simp: list_all_iff)
  then show ?thesis by (simp add: list_bytes_def)
qed

lemma required_bytes_small:
  assumes "entry_len (le_layout E) \<le> 100"
  shows "required_bytes E n = 10 + unat n * entry_len (le_layout E)"
proof -
  have "unat n < 2 ^ 32" using unsigned_less [of n] by simp
  then have "unat n * entry_len (le_layout E) \<le> 2 ^ 32 * 100"
    using assms by (intro mult_le_mono) auto
  then show ?thesis
    by (simp add: required_bytes_def usize_wrap_def header_size_def LIST_HEADER_LEN_def mult.commute)
qed

lemma save_iff_size:
  assumes "le_list_borsh E = list_bytes (le_layout E)"
    and "list_all (\<lambda>x. length (entry_borsh (le_layout E) x) = entry_len (le_layout E)) (entries al)"
    and "length (entries al) = unat n" and "entry_len (le_layout E) \<le> 100" and "0 < entry_len (le_layout E)"
  shows "(\<exists>d. account_list_save E al data = Ok d) \<longleftrightarrow> required_bytes E n \<le> length data"
    and "0 < n \<Longrightarrow> required_bytes E n \<le> length data \<longleftrightarrow> unat n \<le> calculate_max_entries E (length data)"
proof -
  let ?l = "entry_len (le_layout E)"
  show "(\<exists>d. account_list_save E al data = Ok d) \<longleftrightarrow> required_bytes E n \<le> length data"
    using borsh_size [OF assms(2)] assms(1,3) required_bytes_small [OF assms(4), of n]
    by (auto simp: account_list_save_def serialize_into_def)
  assume "0 < n"
  then have "0 < unat n" by (simp add: word_less_nat_alt)
  moreover have "unat n \<le> (length data - 10) div ?l \<longleftrightarrow> unat n * ?l \<le> length data - 10"
    using assms(5) by (simp add: less_eq_div_iff_mult_less_eq)
  ultimately show "required_bytes E n \<le> length data \<longleftrightarrow> unat n \<le> calculate_max_entries E (length data)"
    using assms(5) required_bytes_small [OF assms(4), of n]
    by (cases "10 \<le> length data") (auto simp: calculate_max_entries_def header_size_def LIST_HEADER_LEN_def)
qed

text \<open>C36: The declared size of the list accounts is the size that they need. Saving a list of \<open>n\<close> validators, or
  of \<open>n\<close> maintainers, with its header succeeds exactly in an account of at least \<open>required_bytes n\<close> bytes; for \<open>n\<close> at least one these
  are the accounts for which \<open>calculate_max_entries\<close> gives at least \<open>n\<close>. No size overflows.\<close>

theorem required_bytes_exact:
  assumes "length (entries vs) = unat n" and "length (entries ms) = unat m"
  shows "((\<exists>d. account_list_save validator_entry vs data = Ok d) \<longleftrightarrow> required_bytes validator_entry n \<le> length data) \<and>
    ((\<exists>d. account_list_save maintainer_entry ms data = Ok d) \<longleftrightarrow> required_bytes maintainer_entry m \<le> length data) \<and>
    (0 < n \<longrightarrow> (required_bytes validator_entry n \<le> length data \<longleftrightarrow>
       unat n \<le> calculate_max_entries validator_entry (length data))) \<and>
    (0 < m \<longrightarrow> (required_bytes maintainer_entry m \<le> length data \<longleftrightarrow>
       unat m \<le> calculate_max_entries maintainer_entry (length data)))"
proof -
  have len: "entry_len (le_layout validator_entry) = 89" "entry_len (le_layout maintainer_entry) = 32"
    by (simp_all add: validator_entry_def validator_layout_def maintainer_entry_def maintainer_layout_def)
  have "list_all (\<lambda>x. length (entry_borsh (le_layout validator_entry) x) = entry_len (le_layout validator_entry)) (entries vs)"
    "list_all (\<lambda>x. length (entry_borsh (le_layout maintainer_entry) x) = entry_len (le_layout maintainer_entry)) (entries ms)"
    by (simp_all add: list_all_iff validator_entry_def validator_layout_def maintainer_entry_def maintainer_layout_def)
  note v = save_iff_size [OF _ this(1) assms(1)] and m = save_iff_size [OF _ this(2) assms(2)]
  have "le_list_borsh validator_entry = list_bytes (le_layout validator_entry)"
    "le_list_borsh maintainer_entry = list_bytes (le_layout maintainer_entry)"
    by (simp_all add: validator_entry_def maintainer_entry_def)
  then show ?thesis using v m by (simp add: len)
qed

theorem required_bytes_exact_witness:
  "\<not> (\<exists>d. account_list_save validator_entry
      \<lparr>al_header = \<lparr>account_type = Validator, lido_version = 1, max_entries = 2\<rparr>,
       entries = [validator_new 7, validator_new 8]\<rparr> (replicate 187 0) = Ok d) \<and>
   (\<exists>d. account_list_save validator_entry
      \<lparr>al_header = \<lparr>account_type = Validator, lido_version = 1, max_entries = 2\<rparr>,
       entries = [validator_new 7, validator_new 8]\<rparr> (replicate 188 0) = Ok d)"
proof -
  let ?vs = "\<lparr>al_header = \<lparr>account_type = Validator, lido_version = 1, max_entries = 2\<rparr>,
       entries = [validator_new 7, validator_new 8]\<rparr>"
  let ?ms = "\<lparr>al_header = \<lparr>account_type = Maintainer, lido_version = 1, max_entries = 2\<rparr>, entries = []\<rparr>"
  have "required_bytes validator_entry 2 = 188"
    by (simp add: required_bytes_def usize_wrap_def header_size_def LIST_HEADER_LEN_def validator_entry_def
        validator_layout_def)
  then show ?thesis
    using required_bytes_exact [of ?vs 2 ?ms 0 "replicate 187 0"] required_bytes_exact [of ?vs 2 ?ms 0 "replicate 188 0"]
    by simp
qed

end
