(* ===== verification/State.thy ===== *)
theory State
  imports Metrics Lists
begin

text \<open>
  The pool state of \<^verbatim>\<open>program/src/state.rs\<close>: the exchange rate and its two
  conversions, the distribution of rewards, and the record \<open>Lido\<close> with its
  first version. The checks that \<open>Lido\<close> makes on accounts are in the theory
  of the account model.
\<close>

subsection \<open>Exchange rate\<close>

record exchange_rate =
  computed_in_epoch :: epoch
  st_sol_supply :: st_lamports
  sol_balance :: lamports

definition exchange_sol :: "exchange_rate \<Rightarrow> lamports \<Rightarrow> (st_lamports, arithmetic_error) result" where
  "exchange_sol r amount =
     (if st_sol_supply r = StLamports 0 \<or> sol_balance r = Lamports 0 then Ok (StLamports (lam amount))
      else
        (let rate = \<lparr>numerator = st_lam (st_sol_supply r), denominator = lam (sol_balance r)\<rparr> in
         map_ok (\<lambda>x. StLamports (lam x)) (lamports_mul_rational amount rate)))"

definition exchange_st_sol :: "exchange_rate \<Rightarrow> st_lamports \<Rightarrow> (lamports, lido_error) result" where
  "exchange_st_sol r amount =
     (if st_sol_supply r = StLamports 0 then Err InvalidAmount
      else
        (let rate = \<lparr>numerator = lam (sol_balance r), denominator = st_lam (st_sol_supply r)\<rparr> in
         map_err lido_error_of_arithmetic
           (map_ok (\<lambda>x. Lamports (st_lam x)) (st_lamports_mul_rational amount rate))))"

subsection \<open>Reward distribution\<close>

record reward_distribution =
  treasury_fee :: u32
  developer_fee :: u32
  st_sol_appreciation :: u32

record fee_recipients =
  treasury_account :: pubkey
  developer_account :: pubkey

record fees =
  treasury_amount :: lamports
  developer_amount :: lamports
  st_sol_appreciation_amount :: lamports

definition reward_distribution_sum :: "reward_distribution \<Rightarrow> u64" where
  "reward_distribution_sum d =
     ucast (treasury_fee d) + ucast (developer_fee d) + ucast (st_sol_appreciation d)"

definition treasury_fraction :: "reward_distribution \<Rightarrow> rational" where
  "treasury_fraction d =
     \<lparr>numerator = ucast (treasury_fee d), denominator = reward_distribution_sum d\<rparr>"

definition developer_fraction :: "reward_distribution \<Rightarrow> rational" where
  "developer_fraction d =
     \<lparr>numerator = ucast (developer_fee d), denominator = reward_distribution_sum d\<rparr>"

definition split_reward :: "reward_distribution \<Rightarrow> lamports \<Rightarrow> (fees, arithmetic_error) result" where
  "split_reward d amount =
     and_then (lamports_mul_rational amount (treasury_fraction d)) (\<lambda>treasury.
     and_then (lamports_mul_rational amount (developer_fraction d)) (\<lambda>developer.
     and_then (lamports_add (Lamports 0) treasury) (\<lambda>t.
     and_then (lamports_add t developer) (\<lambda>total_fees.
     and_then (assert (total_fees \<le> amount)) (\<lambda>u.
     and_then (lamports_sub amount total_fees) (\<lambda>appreciation.
     Ok \<lparr>treasury_amount = treasury, developer_amount = developer,
         st_sol_appreciation_amount = appreciation\<rparr>))))))"

subsection \<open>The pool account\<close>

record lido =
  lido_account_type :: account_type
  lido_lido_version :: u8
  manager :: pubkey
  st_sol_mint :: pubkey
  exchange_rate :: exchange_rate
  sol_reserve_account_bump_seed :: u8
  stake_authority_bump_seed :: u8
  mint_authority_bump_seed :: u8
  reward_distribution :: reward_distribution
  fee_recipients :: fee_recipients
  lido_metrics :: metrics
  lido_criteria :: criteria
  validator_list :: pubkey
  validator_perf_list :: pubkey
  maintainer_list :: pubkey

definition LIDO_LEN :: nat where
  "LIDO_LEN = 466"

text \<open>The different ways to stake from the reserve.\<close>

datatype stake_deposit = Append | Merge

text \<open>The state before the migration.\<close>

record validator_v1 =
  v1_fee_credit :: st_lamports
  v1_fee_address :: pubkey
  v1_stake_seeds :: seed_range
  v1_unstake_seeds :: seed_range
  v1_stake_accounts_balance :: lamports
  v1_unstake_accounts_balance :: lamports
  v1_active :: bool

record 'a pubkey_and_entry =
  pe_pubkey :: pubkey
  pe_entry :: 'a

record 'a account_map =
  am_entries :: "'a pubkey_and_entry list"
  am_maximum_entries :: u32

record reward_distribution_v1 =
  v1_treasury_fee :: u32
  v1_validation_fee :: u32
  v1_developer_fee :: u32
  v1_st_sol_appreciation :: u32

record lido_v1 =
  v1_lido_version :: u8
  v1_manager :: pubkey
  v1_st_sol_mint :: pubkey
  v1_exchange_rate :: exchange_rate
  v1_sol_reserve_account_bump_seed :: u8
  v1_stake_authority_bump_seed :: u8
  v1_mint_authority_bump_seed :: u8
  v1_rewards_withdraw_authority_bump_seed :: u8
  v1_reward_distribution :: reward_distribution_v1
  v1_fee_recipients :: fee_recipients
  v1_metrics :: metrics
  v1_validators :: "validator_v1 account_map"
  v1_maintainers :: "unit account_map"

definition LIDO_V1_LEN :: nat where
  "LIDO_V1_LEN = 353"

definition get_bytes_to_check :: "validator list_entry \<Rightarrow> maintainer list_entry \<Rightarrow> nat" where
  "get_bytes_to_check VE ME =
     Max (set [LIDO_V1_LEN, LIDO_LEN, required_bytes VE 1, required_bytes ME 1])"

subsection \<open>Facts about the exchange rate\<close>

abbreviation st_sol :: "st_lamports \<Rightarrow> nat" where
  "st_sol a \<equiv> unat (st_lam a)"

lemma exchange_sol_eq_Ok:
  "exchange_sol r amount = Ok s \<longleftrightarrow>
     (if st_sol (st_sol_supply r) = 0 \<or> unat (lam (sol_balance r)) = 0 then st_sol s = unat (lam amount)
      else unat (lam amount) * st_sol (st_sol_supply r) div unat (lam (sol_balance r)) < 2 ^ 64 \<and>
        st_sol s = unat (lam amount) * st_sol (st_sol_supply r) div unat (lam (sol_balance r)))"
proof (cases "st_sol_supply r = StLamports 0 \<or> sol_balance r = Lamports 0")
  case True
  then show ?thesis
    by (auto simp: exchange_sol_def lamports_eq_iff st_lamports_eq_iff)
next
  case False
  then have nz: "st_sol (st_sol_supply r) \<noteq> 0" "unat (lam (sol_balance r)) \<noteq> 0"
    by (auto simp: lamports_eq_iff st_lamports_eq_iff)
  let ?rate = "\<lparr>numerator = st_lam (st_sol_supply r), denominator = lam (sol_balance r)\<rparr>"
  have "exchange_sol r amount = Ok s \<longleftrightarrow> lamports_mul_rational amount ?rate = Ok (Lamports (st_lam s))"
    using False by (auto simp: exchange_sol_def map_ok_eq_Ok Let_def)
  then show ?thesis using nz by (auto simp: lamp.mulr_eq_Ok)
qed

lemma exchange_st_sol_eq_Ok:
  "exchange_st_sol r amount = Ok s \<longleftrightarrow>
     st_sol (st_sol_supply r) \<noteq> 0 \<and>
     st_sol amount * unat (lam (sol_balance r)) div st_sol (st_sol_supply r) < 2 ^ 64 \<and>
     unat (lam s) = st_sol amount * unat (lam (sol_balance r)) div st_sol (st_sol_supply r)"
proof (cases "st_sol_supply r = StLamports 0")
  case True
  then show ?thesis by (simp add: exchange_st_sol_def)
next
  case False
  then have nz: "st_sol (st_sol_supply r) \<noteq> 0" by (auto simp: st_lamports_eq_iff)
  let ?rate = "\<lparr>numerator = lam (sol_balance r), denominator = st_lam (st_sol_supply r)\<rparr>"
  have "exchange_st_sol r amount = Ok s \<longleftrightarrow> st_lamports_mul_rational amount ?rate = Ok (StLamports (lam s))"
    using False by (auto simp: exchange_st_sol_def map_ok_eq_Ok map_err_eq_Ok Let_def)
  then show ?thesis using nz by (auto simp: stl.mulr_eq_Ok)
qed

lemma div_mult_div_le: "(a * n div m) * m div n \<le> (a :: nat)"
proof (cases "n = 0")
  case False
  have "(a * n div m) * m \<le> a * n" by simp
  then have "(a * n div m) * m div n \<le> a * n div n" by (rule div_le_mono)
  then show ?thesis using False by simp
qed simp

text \<open>C33: Depositing and withdrawing at the same exchange rate never makes a profit: if
  \<open>amount\<close> lamports are exchanged for stSOL and that stSOL is exchanged back, the second exchange
  returns at most \<open>amount\<close>, whatever the rate is. Both directions round down.\<close>

theorem exchange_round_trip_no_profit:
  assumes "exchange_sol r amount = Ok minted" and "exchange_st_sol r minted = Ok back"
  shows "back \<le> amount"
proof (cases "unat (lam (sol_balance r)) = 0")
  case True
  then show ?thesis using assms(2) by (simp add: exchange_st_sol_eq_Ok lamports_le_iff)
next
  case False
  have nz: "st_sol (st_sol_supply r) \<noteq> 0" using assms(2) by (simp add: exchange_st_sol_eq_Ok)
  with False have "st_sol minted = unat (lam amount) * st_sol (st_sol_supply r) div unat (lam (sol_balance r))"
    using assms(1) by (simp add: exchange_sol_eq_Ok split: if_splits)
  then show ?thesis
    using assms(2) div_mult_div_le [of "unat (lam amount)" "st_sol (st_sol_supply r)" "unat (lam (sol_balance r))"]
    by (simp add: exchange_st_sol_eq_Ok lamports_le_iff)
qed

theorem exchange_round_trip_no_profit_witness:
  "exchange_sol \<lparr>computed_in_epoch = 3, st_sol_supply = StLamports 3, sol_balance = Lamports 4\<rparr> (Lamports 10) =
     Ok (StLamports 7) \<and>
   exchange_st_sol \<lparr>computed_in_epoch = 3, st_sol_supply = StLamports 3, sol_balance = Lamports 4\<rparr> (StLamports 7) =
     Ok (Lamports 9) \<and> Lamports 9 \<le> Lamports 10"
proof -
  let ?r = "\<lparr>computed_in_epoch = 3, st_sol_supply = StLamports 3, sol_balance = Lamports 4\<rparr>"
  have "exchange_sol ?r (Lamports 10) = Ok (StLamports 7)" by (simp add: exchange_sol_eq_Ok)
  moreover have "exchange_st_sol ?r (StLamports 7) = Ok (Lamports 9)" by (simp add: exchange_st_sol_eq_Ok)
  ultimately show ?thesis using exchange_round_trip_no_profit [of ?r "Lamports 10" "StLamports 7" "Lamports 9"]
    by simp
qed

text \<open>A deposit at the current rate does not dilute the holders. When stSOL is minted for a
  deposit at a rate with nonzero supply and balance, the SOL per stSOL of the pool after the
  deposit (balance plus deposit over supply plus minted) is at least the rate before it.\<close>

theorem deposit_does_not_dilute:
  assumes "exchange_sol r amount = Ok minted"
    and "sol_balance r \<noteq> Lamports 0" and "st_sol_supply r \<noteq> StLamports 0"
  shows "unat (lam (sol_balance r)) * (st_sol (st_sol_supply r) + st_sol minted) \<le>
    (unat (lam (sol_balance r)) + unat (lam amount)) * st_sol (st_sol_supply r)"
proof -
  let ?B = "unat (lam (sol_balance r))" and ?S = "st_sol (st_sol_supply r)" and ?a = "unat (lam amount)"
  have "st_sol minted = ?a * ?S div ?B"
    using assms by (auto simp: exchange_sol_eq_Ok lamports_eq_iff st_lamports_eq_iff)
  then have "?B * st_sol minted \<le> ?a * ?S" by simp
  then show ?thesis by (simp add: algebra_simps)
qed

theorem deposit_does_not_dilute_witness:
  "4 * (3 + 7) \<le> (4 + 10) * (3 :: nat) \<and>
   exchange_sol \<lparr>computed_in_epoch = 3, st_sol_supply = StLamports 3, sol_balance = Lamports 4\<rparr> (Lamports 10) =
     Ok (StLamports 7)"
proof -
  let ?r = "\<lparr>computed_in_epoch = 3, st_sol_supply = StLamports 3, sol_balance = Lamports 4\<rparr>"
  have "exchange_sol ?r (Lamports 10) = Ok (StLamports 7)" by (simp add: exchange_sol_eq_Ok)
  then show ?thesis using deposit_does_not_dilute [of ?r "Lamports 10" "StLamports 7"] by simp
qed

subsection \<open>Facts about reward distribution\<close>

lemma unat_ucast_32_64 [simp]: "unat (ucast (x :: u32) :: u64) = unat x"
proof -
  have "unat x < 2 ^ 32" using unsigned_less [of x] by simp
  then have "unat x < 2 ^ 64" by simp
  then show ?thesis by (simp add: unsigned_ucast_eq take_bit_eq_mod)
qed

lemma unat_u32_less: "unat (x :: u32) < 2 ^ 32"
  using unsigned_less [of x] by simp

lemma unat_reward_distribution_sum:
  "unat (reward_distribution_sum d) =
     unat (treasury_fee d) + unat (developer_fee d) + unat (st_sol_appreciation d)"
proof -
  note less = unat_u32_less [of "treasury_fee d"] unat_u32_less [of "developer_fee d"]
    unat_u32_less [of "st_sol_appreciation d"]
  have 1: "unat ((ucast (treasury_fee d) :: u64) + ucast (developer_fee d)) =
      unat (treasury_fee d) + unat (developer_fee d)"
    using less unat_add_lem [of "ucast (treasury_fee d) :: u64" "ucast (developer_fee d)"] by simp
  show ?thesis
    using less 1 unat_add_lem [of "(ucast (treasury_fee d) :: u64) + ucast (developer_fee d)" "ucast (st_sol_appreciation d)"]
    by (simp add: reward_distribution_sum_def)
qed

lemma div_add_le: "a div m + b div m \<le> (a + b) div (m :: nat)"
  by (metis div_add1_eq le_add1)

lemma share_le: "n \<le> m \<Longrightarrow> (a :: nat) * n div m \<le> a"
  by (metis div_le_mono div_mult_self_is_m le_zero_eq mult_le_mono2 neq0_conv div_by_0 mult_zero_right
      nat_le_linear zero_le order_refl)

text \<open>C34: Splitting a reward. Unless all parts are zero (then the division fails with an
  arithmetic error), \<open>split_reward\<close> succeeds, its assertion holds, each fee is its part of the
  amount rounded down, and the three amounts add up to exactly the input, so the remainder goes to
  stSOL appreciation.\<close>

theorem split_reward_spec:
  "if treasury_fee d = 0 \<and> developer_fee d = 0 \<and> st_sol_appreciation d = 0
   then split_reward d amount = Err ArithmeticError
   else \<exists>f. split_reward d amount = Ok f \<and>
     unat (lam (treasury_amount f)) =
       unat (lam amount) * unat (treasury_fee d) div unat (reward_distribution_sum d) \<and>
     unat (lam (developer_amount f)) =
       unat (lam amount) * unat (developer_fee d) div unat (reward_distribution_sum d) \<and>
     unat (lam (treasury_amount f)) + unat (lam (developer_amount f)) +
       unat (lam (st_sol_appreciation_amount f)) = unat (lam amount)"
proof (cases "unat (reward_distribution_sum d) = 0")
  case True
  then have "treasury_fee d = 0 \<and> developer_fee d = 0 \<and> st_sol_appreciation d = 0"
    by (simp add: unat_reward_distribution_sum unat_eq_zero)
  moreover have "lamports_mul_rational amount (treasury_fraction d) = Err ArithmeticError"
    using True by (cases "lamports_mul_rational amount (treasury_fraction d)")
      (auto simp: treasury_fraction_def lamp.mulr_eq_Ok lamp.no_Panic intro: arithmetic_error.exhaust)
  ultimately show ?thesis by (simp add: split_reward_def)
next
  case False
  let ?a = "unat (lam amount)" and ?m = "unat (reward_distribution_sum d)"
  let ?t = "?a * unat (treasury_fee d) div ?m" and ?d = "?a * unat (developer_fee d) div ?m"
  have some: "\<not> (treasury_fee d = 0 \<and> developer_fee d = 0 \<and> st_sol_appreciation d = 0)"
    using False by (auto simp: unat_reward_distribution_sum)
  have "?t + ?d \<le> (?a * unat (treasury_fee d) + ?a * unat (developer_fee d)) div ?m"
    by (rule div_add_le)
  also have "\<dots> = ?a * (unat (treasury_fee d) + unat (developer_fee d)) div ?m"
    by (simp add: algebra_simps)
  also have "\<dots> \<le> ?a" by (rule share_le) (simp add: unat_reward_distribution_sum)
  finally have le: "?t + ?d \<le> ?a" .
  have a64: "?a < 2 ^ 64" by simp
  have t64: "?t < 2 ^ 64" and d64: "?d < 2 ^ 64" and td64: "?t + ?d < 2 ^ 64" using le a64 by linarith+
  obtain tr where tr: "lamports_mul_rational amount (treasury_fraction d) = Ok tr" "unat (lam tr) = ?t"
    using lamp.mulr_exists [of "treasury_fraction d" amount] False t64
    by (auto simp: treasury_fraction_def lamp.mulr_eq_Ok)
  obtain dv where dv: "lamports_mul_rational amount (developer_fraction d) = Ok dv" "unat (lam dv) = ?d"
    using lamp.mulr_exists [of "developer_fraction d" amount] False d64
    by (auto simp: developer_fraction_def lamp.mulr_eq_Ok)
  obtain t1 where t1: "lamports_add (Lamports 0) tr = Ok t1" "unat (lam t1) = ?t"
    using lamp.add_exists [of "Lamports 0" tr] tr(2) t64 by (auto simp: lamp.add_eq_Ok)
  obtain tot where tot: "lamports_add t1 dv = Ok tot" "unat (lam tot) = ?t + ?d"
    using lamp.add_exists [of t1 dv] t1(2) dv(2) td64 by (auto simp: lamp.add_eq_Ok)
  obtain ap where ap: "lamports_sub amount tot = Ok ap" "unat (lam ap) = ?a - (?t + ?d)"
    using lamp.sub_exists [of tot amount] tot(2) le by (auto simp: lamp.sub_eq_Ok)
  have "tot \<le> amount" using tot(2) le by (simp add: lamports_le_iff)
  then have "split_reward d amount =
      Ok \<lparr>treasury_amount = tr, developer_amount = dv, st_sol_appreciation_amount = ap\<rparr>"
    by (simp add: split_reward_def tr(1) dv(1) t1(1) tot(1) ap(1))
  then show ?thesis using some tr(2) dv(2) ap(2) le by simp
qed

end
