(* ===== verification/StakeAccounts.thy ===== *)
theory StakeAccounts
  imports Token
begin

text \<open>
  \<^verbatim>\<open>program/src/stake_account.rs\<close> and \<^verbatim>\<open>program/src/vote_state.rs\<close>: the
  byte readers for stake and vote accounts, the split of a stake account's
  balance into inactive, activating, active and deactivating lamports, and the
  rule for which stake accounts can be merged.

  Solana's own function \<open>stake_activating_and_deactivating\<close> is a parameter
  (\<open>status\<close>); the stake history that it reads is opaque. A little-endian
  \<open>f64\<close> is kept as its bit pattern.
\<close>

type_synonym stake_history = "u8 list"

record delegation =
  voter_pubkey :: pubkey
  delegated_stake :: u64
  activation_epoch :: epoch
  deactivation_epoch :: epoch
  warmup_cooldown_rate :: u64

record stake =
  stake_delegation :: delegation
  credits_observed :: u64

record stake_activation =
  effective :: u64
  activating_lamports :: u64
  deactivating_lamports :: u64

record stake_balance =
  inactive :: lamports
  activating :: lamports
  active :: lamports
  deactivating :: lamports

record stake_account =
  sa_balance :: stake_balance
  sa_credits_observed :: u64
  sa_activation_epoch :: epoch
  sa_seed :: u64

definition stake_balance_zero :: stake_balance where
  "stake_balance_zero =
     \<lparr>inactive = Lamports 0, activating = Lamports 0, active = Lamports 0, deactivating = Lamports 0\<rparr>"

definition stake_balance_total :: "stake_balance \<Rightarrow> (lamports, 'e) result" where
  "stake_balance_total b =
     and_then (expect (lamports_add (inactive b) (activating b))) (\<lambda>t1.
     and_then (expect (lamports_add t1 (active b))) (\<lambda>t2.
     expect (lamports_add t2 (deactivating b))))"

definition stake_balance_add ::
  "stake_balance \<Rightarrow> stake_balance \<Rightarrow> (stake_balance, arithmetic_error) result" where
  "stake_balance_add a b =
     and_then (lamports_add (inactive a) (inactive b)) (\<lambda>i.
     and_then (lamports_add (activating a) (activating b)) (\<lambda>g.
     and_then (lamports_add (active a) (active b)) (\<lambda>c.
     and_then (lamports_add (deactivating a) (deactivating b)) (\<lambda>d.
     Ok \<lparr>inactive = i, activating = g, active = c, deactivating = d\<rparr>))))"

definition stake_balance_sum :: "stake_balance list \<Rightarrow> (stake_balance, 'e) result" where
  "stake_balance_sum xs = try_fold (\<lambda>acc x. expect (stake_balance_add acc x)) stake_balance_zero xs"

subsection \<open>Reading account data\<close>

definition take_pubkey :: "u8 list \<Rightarrow> (pubkey \<times> u8 list, 'e) result" where
  "take_pubkey data = (if length data < 32 then Panic
     else Ok (word_of_nat (le_val (take 32 data)), drop 32 data))"

definition take_u32_le :: "u8 list \<Rightarrow> (u32 \<times> u8 list, 'e) result" where
  "take_u32_le data = (if length data < 4 then Panic
     else Ok (word_of_nat (le_val (take 4 data)), drop 4 data))"

definition take_u64_le :: "u8 list \<Rightarrow> (u64 \<times> u8 list, 'e) result" where
  "take_u64_le data = (if length data < 8 then Panic
     else Ok (word_of_nat (le_val (take 8 data)), drop 8 data))"

definition take_f64_le :: "u8 list \<Rightarrow> (u64 \<times> u8 list, 'e) result" where
  "take_f64_le data = (if length data < 8 then Panic
     else Ok (word_of_nat (le_val (take 8 data)), drop 8 data))"

definition deserialize_rent_exempt_reserve :: "u8 list \<Rightarrow> (lamports, program_error) result" where
  "deserialize_rent_exempt_reserve data =
     (if length data < 12 then Err (lido_err InvalidStakeAccount)
      else
        and_then (take_u32_le data) (\<lambda>(tag, data).
        if tag \<noteq> 2 then Err (lido_err InvalidStakeAccount)
        else
          and_then (take_u64_le data) (\<lambda>(rent_exempt_reserve, suffix).
          Ok (Lamports rent_exempt_reserve))))"

definition deserialize_stake_account :: "u8 list \<Rightarrow> (stake, program_error) result" where
  "deserialize_stake_account data =
     (if length data < 196 then Err (lido_err InvalidStakeAccount)
      else
        and_then (take_u32_le data) (\<lambda>(tag, data).
        if tag \<noteq> 2 then Err (lido_err InvalidStakeAccount)
        else
          and_then (if length data < 120 then Panic else Ok (drop 120 data)) (\<lambda>data.
          and_then (take_pubkey data) (\<lambda>(voter, data).
          and_then (take_u64_le data) (\<lambda>(stake, data).
          and_then (take_u64_le data) (\<lambda>(act_epoch, data).
          and_then (take_u64_le data) (\<lambda>(deact_epoch, data).
          and_then (take_f64_le data) (\<lambda>(rate, data).
          and_then (take_u64_le data) (\<lambda>(credits, suffix).
          Ok \<lparr>stake_delegation =
                \<lparr>voter_pubkey = voter, delegated_stake = stake, activation_epoch = act_epoch,
                 deactivation_epoch = deact_epoch, warmup_cooldown_rate = rate\<rparr>,
              credits_observed = credits\<rparr>)))))))))"

subsection \<open>Stake accounts\<close>

definition from_delegated_account ::
  "(delegation \<Rightarrow> epoch \<Rightarrow> stake_history \<Rightarrow> stake_activation) \<Rightarrow>
   lamports \<Rightarrow> stake \<Rightarrow> epoch \<Rightarrow> stake_history \<Rightarrow> u64 \<Rightarrow> (stake_account, 'e) result" where
  "from_delegated_account status account_lamports stake clock_epoch history seed =
     (let state = status (stake_delegation stake) clock_epoch history;
          eff = effective state - deactivating_lamports state in
      and_then (unwrap_opt (checked_sub (lam account_lamports) eff)) (\<lambda>l1.
      and_then (unwrap_opt (checked_sub l1 (activating_lamports state))) (\<lambda>l2.
      and_then (unwrap_opt (checked_sub l2 (deactivating_lamports state))) (\<lambda>inactive_lamports.
      Ok \<lparr>sa_balance =
            \<lparr>inactive = Lamports inactive_lamports,
             activating = Lamports (activating_lamports state),
             active = Lamports eff,
             deactivating = Lamports (deactivating_lamports state)\<rparr>,
          sa_credits_observed = credits_observed stake,
          sa_activation_epoch = activation_epoch (stake_delegation stake),
          sa_seed = seed\<rparr>))))"

definition stake_is_active :: "stake_account \<Rightarrow> bool" where
  "stake_is_active s \<longleftrightarrow> active (sa_balance s) > Lamports 0 \<and>
     activating (sa_balance s) = Lamports 0 \<and> deactivating (sa_balance s) = Lamports 0"

definition stake_is_inactive :: "stake_account \<Rightarrow> bool" where
  "stake_is_inactive s \<longleftrightarrow> active (sa_balance s) = Lamports 0 \<and>
     activating (sa_balance s) = Lamports 0 \<and> deactivating (sa_balance s) = Lamports 0"

definition stake_is_activating :: "stake_account \<Rightarrow> bool" where
  "stake_is_activating s \<longleftrightarrow> activating (sa_balance s) > Lamports 0"

definition can_merge :: "stake_account \<Rightarrow> stake_account \<Rightarrow> bool" where
  "can_merge self merge_from =
     (if stake_is_inactive self \<and> stake_is_inactive merge_from then True
      else if (stake_is_inactive merge_from \<and> stake_is_activating self) \<or>
              (stake_is_inactive self \<and> stake_is_activating merge_from) then True
      else if sa_credits_observed self = sa_credits_observed merge_from then
        (if stake_is_active self \<and> stake_is_active merge_from then True
         else if stake_is_activating self \<and> stake_is_activating merge_from \<and>
                 sa_activation_epoch self = sa_activation_epoch merge_from then True
         else False)
      else False)"

subsection \<open>Vote accounts\<close>

definition PARTIAL_VOTE_STATE_LEN :: nat where
  "PARTIAL_VOTE_STATE_LEN = 69"

record partial_vote_state =
  pvs_version :: u32
  pvs_node_pubkey :: pubkey
  pvs_commission :: u8

definition get_vote_account_commission :: "u8 list \<Rightarrow> (u8, lido_error) result" where
  "get_vote_account_commission data =
     ok_or (if 68 < length data then Some (data ! 68) else None) InvalidVoteAccount"

definition partial_vote_state_deserialize ::
  "pubkey \<Rightarrow> pubkey \<Rightarrow> u8 list \<Rightarrow> u8 \<Rightarrow> (partial_vote_state, lido_error) result" where
  "partial_vote_state_deserialize vote_program_id owner data max_commission_percentage =
     (if owner \<noteq> vote_program_id then Err ValidatorVoteAccountHasDifferentOwner
      else if length data \<le> PARTIAL_VOTE_STATE_LEN then Err InvalidVoteAccount
      else
        (let version = word_of_nat (le_val (take 4 data)) :: u32 in
         if version \<noteq> 1 then Err InvalidVoteAccount
         else
           and_then (get_range data 4 36) (\<lambda>node.
           and_then (get_vote_account_commission data) (\<lambda>commission.
           if commission > max_commission_percentage then Err InvalidVoteAccount
           else Ok \<lparr>pvs_version = version, pvs_node_pubkey = word_of_nat (le_val node),
                    pvs_commission = commission\<rparr>))))"

subsection \<open>Balances of delegated accounts\<close>

lemma stake_balance_total_eq_Ok:
  "stake_balance_total b = Ok t \<longleftrightarrow>
     unat (lam t) = unat (lam (inactive b)) + unat (lam (activating b)) +
       unat (lam (active b)) + unat (lam (deactivating b))"
  (is "_ \<longleftrightarrow> ?rhs")
proof
  assume "stake_balance_total b = Ok t"
  then show ?rhs by (auto simp: stake_balance_total_def result_simps lamp.add_eq_Ok)
next
  assume t: ?rhs
  have bound: "unat (lam t) < 2 ^ 64" by simp
  obtain t1 where t1: "lamports_add (inactive b) (activating b) = Ok t1"
    using lamp.add_exists [of "inactive b" "activating b"] t bound by auto
  obtain t2 where t2: "lamports_add t1 (active b) = Ok t2"
    using lamp.add_exists [of t1 "active b"] t bound t1 by (auto simp: lamp.add_eq_Ok)
  have "lamports_add t2 (deactivating b) = Ok t"
    using t bound t1 t2 by (simp add: lamp.add_eq_Ok)
  with t1 t2 show "stake_balance_total b = Ok t" by (simp add: stake_balance_total_def)
qed

definition plausible_status :: "lamports \<Rightarrow> stake_activation \<Rightarrow> bool" where
  "plausible_status l st \<longleftrightarrow>
     unat (deactivating_lamports st) \<le> unat (effective st) \<and>
     unat (effective st) + unat (activating_lamports st) \<le> unat (lam l)"

lemma unat_minus_le: "unat b \<le> unat a \<Longrightarrow> unat (a - b) = unat a - unat b" for a b :: "'a::len word"
  by (simp add: unat_sub word_le_nat_alt)

lemma split_subtractions:
  fixes w e a d :: u64
  assumes "unat d \<le> unat e" and "unat e + unat a \<le> unat w"
  shows "checked_sub w (e - d) = Some (w - (e - d))"
    and "checked_sub (w - (e - d)) a = Some (w - (e - d) - a)"
    and "checked_sub (w - (e - d) - a) d = Some (w - (e - d) - a - d)"
    and "unat (w - (e - d) - a - d) = unat w - (unat e + unat a)"
    and "unat (w - (e - d) - a - d) + unat a + unat (e - d) + unat d = unat w"
proof -
  have ed: "unat (e - d) = unat e - unat d" using assms by (simp add: unat_minus_le)
  have w1: "unat (w - (e - d)) = unat w - unat (e - d)"
    by (rule unat_minus_le) (use assms ed in linarith)
  have w2: "unat (w - (e - d) - a) = unat (w - (e - d)) - unat a"
    by (rule unat_minus_le) (use assms ed w1 in linarith)
  have w3: "unat (w - (e - d) - a - d) = unat (w - (e - d) - a) - unat d"
    by (rule unat_minus_le) (use assms ed w1 w2 in linarith)
  show "checked_sub w (e - d) = Some (w - (e - d))"
    and "checked_sub (w - (e - d)) a = Some (w - (e - d) - a)"
    and "checked_sub (w - (e - d) - a) d = Some (w - (e - d) - a - d)"
    unfolding checked_sub_def using assms ed w1 w2 by simp_all
  show "unat (w - (e - d) - a - d) = unat w - (unat e + unat a)"
    and "unat (w - (e - d) - a - d) + unat a + unat (e - d) + unat d = unat w"
    using assms ed w1 w2 w3 by linarith+
qed

text \<open>Splitting a delegated stake account loses nothing. If the activation status
  is plausible (not more deactivating than effective stake, and effective plus
  activating stake within the account's lamports) then the split succeeds without
  panicking, the four parts add up to exactly the lamports of the account, and the
  inactive part is what is neither effective nor activating.\<close>

theorem from_delegated_account_total:
  assumes "plausible_status l (status (stake_delegation s) e h)"
  shows "\<exists>a. from_delegated_account status l s e h seed = Ok a \<and>
     stake_balance_total (sa_balance a) = Ok l \<and>
     unat (lam (inactive (sa_balance a))) = unat (lam l) -
       (unat (effective (status (stake_delegation s) e h)) +
        unat (activating_lamports (status (stake_delegation s) e h)))"
proof -
  let ?st = "status (stake_delegation s) e h"
  have "unat (deactivating_lamports ?st) \<le> unat (effective ?st)"
    "unat (effective ?st) + unat (activating_lamports ?st) \<le> unat (lam l)"
    using assms by (simp_all add: plausible_status_def)
  note subs = split_subtractions [OF this]
  show ?thesis
    using subs by (simp add: from_delegated_account_def Let_def stake_balance_total_eq_Ok)
qed

definition example_status :: "delegation \<Rightarrow> epoch \<Rightarrow> stake_history \<Rightarrow> stake_activation" where
  "example_status d e h = \<lparr>effective = delegated_stake d, activating_lamports = 0, deactivating_lamports = 0\<rparr>"

theorem from_delegated_account_total_witness:
  "\<exists>a. from_delegated_account example_status (Lamports 100)
     \<lparr>stake_delegation = \<lparr>voter_pubkey = 7, delegated_stake = 60, activation_epoch = 1,
        deactivation_epoch = 99, warmup_cooldown_rate = 0\<rparr>, credits_observed = 3\<rparr> 5 [] 0 = Ok a \<and>
     stake_balance_total (sa_balance a) = Ok (Lamports 100) \<and>
     unat (lam (inactive (sa_balance a))) = 40"
  using from_delegated_account_total [of "Lamports 100" example_status
      "\<lparr>stake_delegation = \<lparr>voter_pubkey = 7, delegated_stake = 60, activation_epoch = 1,
        deactivation_epoch = 99, warmup_cooldown_rate = 0\<rparr>, credits_observed = 3\<rparr>" 5 "[]" 0]
  by (simp add: plausible_status_def example_status_def)

text \<open>Whether two stake accounts can be merged does not depend on which one is
  merged into the other.\<close>

theorem can_merge_symmetric: "can_merge a b = can_merge b a"
  by (auto simp: can_merge_def)

subsection \<open>Readers and layouts\<close>

lemma take_readers_eq_Ok [result_simps]:
  "take_pubkey d = Ok (k, r) \<longleftrightarrow> 32 \<le> length d \<and> k = word_of_nat (le_val (take 32 d)) \<and> r = drop 32 d"
  "take_u32_le d = Ok (w, r) \<longleftrightarrow> 4 \<le> length d \<and> w = word_of_nat (le_val (take 4 d)) \<and> r = drop 4 d"
  "take_u64_le d = Ok (v, r) \<longleftrightarrow> 8 \<le> length d \<and> v = word_of_nat (le_val (take 8 d)) \<and> r = drop 8 d"
  "take_f64_le d = Ok (v, r) \<longleftrightarrow> 8 \<le> length d \<and> v = word_of_nat (le_val (take 8 d)) \<and> r = drop 8 d"
  by (auto simp: take_pubkey_def take_u32_le_def take_u64_le_def take_f64_le_def)

lemma take_readers_append:
  "take_pubkey (le_bytes 32 (unat k) @ r) = Ok (k, r)"
  "take_u32_le (le_bytes 4 (unat w) @ r) = Ok (w, r)"
  "take_u64_le (le_bytes 8 (unat v) @ r) = Ok (v, r)"
  "take_f64_le (le_bytes 8 (unat v) @ r) = Ok (v, r)"
proof -
  have k: "unat k mod 256 ^ 32 = unat k"
    using unsigned_less [of k, where ?'a = nat] by simp
  have w: "unat w mod 256 ^ 4 = unat w" and v: "unat v mod 256 ^ 8 = unat v"
    using unsigned_less [of w, where ?'a = nat] unsigned_less [of v, where ?'a = nat] by simp_all
  show "take_pubkey (le_bytes 32 (unat k) @ r) = Ok (k, r)"
    using k by (simp add: take_pubkey_def)
  show "take_u32_le (le_bytes 4 (unat w) @ r) = Ok (w, r)"
    using w by (simp add: take_u32_le_def)
  show "take_u64_le (le_bytes 8 (unat v) @ r) = Ok (v, r)"
    using v by (simp add: take_u64_le_def)
  show "take_f64_le (le_bytes 8 (unat v) @ r) = Ok (v, r)"
    using v by (simp add: take_f64_le_def)
qed

text \<open>The bytes of a \<open>StakeState::Stake\<close> account: tag 2, the 120 bytes of \<open>Meta\<close>, then \<open>Stake\<close>.\<close>

definition stake_state_bytes :: "u8 list \<Rightarrow> stake \<Rightarrow> u8 list \<Rightarrow> u8 list" where
  "stake_state_bytes meta s suffix =
     le_bytes 4 (unat (2 :: u32)) @ meta @ le_bytes 32 (unat (voter_pubkey (stake_delegation s))) @
     le_bytes 8 (unat (delegated_stake (stake_delegation s))) @
     le_bytes 8 (unat (activation_epoch (stake_delegation s))) @
     le_bytes 8 (unat (deactivation_epoch (stake_delegation s))) @
     le_bytes 8 (unat (warmup_cooldown_rate (stake_delegation s))) @
     le_bytes 8 (unat (credits_observed s)) @ suffix"

text \<open>The hand-written stake account reader inverts the account layout: on the
  bytes of a \<open>StakeState::Stake\<close> value with any 120-byte \<open>Meta\<close> and any trailing
  bytes it returns exactly that stake. (The tag, the skipped \<open>Meta\<close> and the order
  and width of the fields are therefore the layout's.)\<close>

theorem deserialize_stake_account_roundtrip:
  assumes "length meta = 120"
  shows "deserialize_stake_account (stake_state_bytes meta s suffix) = Ok s"
proof -
  have split: "drop 120 (meta @ r) = r" "\<not> length (meta @ r) < 120" for r using assms by simp_all
  have "\<not> length (stake_state_bytes meta s suffix) < 196"
    using assms by (simp add: stake_state_bytes_def)
  then show ?thesis
    unfolding deserialize_stake_account_def stake_state_bytes_def
    by (simp only: if_False take_readers_append and_then_simps prod.case split simp_thms) simp
qed

theorem deserialize_stake_account_roundtrip_witness:
  "deserialize_stake_account (stake_state_bytes (replicate 120 0)
     \<lparr>stake_delegation = \<lparr>voter_pubkey = 7, delegated_stake = 60, activation_epoch = 1,
        deactivation_epoch = 99, warmup_cooldown_rate = 0\<rparr>, credits_observed = 3\<rparr> [1, 2]) =
   Ok \<lparr>stake_delegation = \<lparr>voter_pubkey = 7, delegated_stake = 60, activation_epoch = 1,
        deactivation_epoch = 99, warmup_cooldown_rate = 0\<rparr>, credits_observed = 3\<rparr>"
  by (rule deserialize_stake_account_roundtrip) simp

lemma deserialize_stake_account_no_Panic: "deserialize_stake_account d \<noteq> Panic"
  by (cases "length d < 196")
    (auto simp: deserialize_stake_account_def take_pubkey_def take_u32_le_def take_u64_le_def
      take_f64_le_def)

lemma partial_vote_state_deserialize_Ok:
  "partial_vote_state_deserialize vp owner data maxc = Ok p \<Longrightarrow>
     owner = vp \<and> 69 < length data \<and> pvs_commission p = data ! 68 \<and> data ! 68 \<le> maxc"
  by (auto simp: partial_vote_state_deserialize_def PARTIAL_VOTE_STATE_LEN_def Let_def
      get_vote_account_commission_def result_simps split: if_splits)

end
