(* ===== verification/Runtime.thy ===== *)
theory Runtime
  imports State StakeAccounts
begin

text \<open>
  What the program sees of Solana. Accounts live in a ledger, a map from
  addresses; an \<open>AccountInfo\<close> that an instruction receives is the address with
  its signer and writable flags, and the lamports, owner and data are those of
  the ledger, so two infos with the same address share them. Account data is
  behind a \<open>RefCell\<close>: a second borrow while a mutable borrow lasts panics.

  A handler is a state transformer with early return (\<open>prog\<close>). Code outside of the
  repository is the record \<open>env\<close>: program and sysvar addresses, address
  derivation, the sysvars, the SPL token readers, the derived Borsh code, the
  builders of foreign instructions, and what an invoked program does to the
  ledger (\<open>env_invoke\<close>).
\<close>

subsection \<open>Accounts and programs\<close>

record account =
  acc_lamports :: u64
  acc_owner :: pubkey
  acc_data :: "u8 list"

record account_info =
  key :: pubkey
  is_signer :: bool
  is_writable :: bool

record world =
  ledger :: "pubkey \<Rightarrow> account"
  borrowed :: "pubkey list"

type_synonym 'a prog = "world \<Rightarrow> ('a \<times> world, program_error) result"

definition return :: "'a \<Rightarrow> 'a prog" where
  "return x = (\<lambda>w. Ok (x, w))"

definition then_do :: "'a prog \<Rightarrow> ('a \<Rightarrow> 'b prog) \<Rightarrow> 'b prog" where
  "then_do m f = (\<lambda>w. and_then (m w) (\<lambda>(x, w'). f x w'))"

definition lift :: "('a, program_error) result \<Rightarrow> 'a prog" where
  "lift r = (\<lambda>w. map_ok (\<lambda>x. (x, w)) r)"

definition fail :: "program_error \<Rightarrow> 'a prog" where
  "fail e = (\<lambda>w. Err e)"

definition fail_lido :: "lido_error \<Rightarrow> 'a prog" where
  "fail_lido e = fail (lido_err e)"

text \<open>\<open>if bad { return Err(e.into()) }\<close>\<close>

definition require :: "bool \<Rightarrow> program_error \<Rightarrow> unit prog" where
  "require b e = (\<lambda>w. if b then Ok ((), w) else Err e)"

definition lamports_of :: "account_info \<Rightarrow> lamports prog" where
  "lamports_of a = (\<lambda>w. Ok (Lamports (acc_lamports (ledger w (key a))), w))"

definition owner_of :: "account_info \<Rightarrow> pubkey prog" where
  "owner_of a = (\<lambda>w. Ok (acc_owner (ledger w (key a)), w))"

text \<open>\<open>account.data.borrow()\<close> for as long as one expression; \<open>data_len\<close> borrows as well.\<close>

definition data_borrow :: "account_info \<Rightarrow> u8 list prog" where
  "data_borrow a = (\<lambda>w. if key a \<in> set (borrowed w) then Panic
     else Ok (acc_data (ledger w (key a)), w))"

definition data_len :: "account_info \<Rightarrow> nat prog" where
  "data_len a = then_do (data_borrow a) (\<lambda>d. return (length d))"

definition set_data :: "pubkey \<Rightarrow> u8 list \<Rightarrow> world \<Rightarrow> world" where
  "set_data k d w = w\<lparr>ledger := (ledger w)(k := (ledger w k)\<lparr>acc_data := d\<rparr>)\<rparr>"

text \<open>\<open>*account.data.borrow_mut() = ...\<close> for as long as one expression.\<close>

definition data_write :: "account_info \<Rightarrow> (u8 list \<Rightarrow> (u8 list, program_error) result) \<Rightarrow> unit prog" where
  "data_write a f = then_do (data_borrow a) (\<lambda>d. then_do (lift (f d)) (\<lambda>d'. (\<lambda>w. Ok ((), set_data (key a) d' w))))"

text \<open>\<open>let data = &mut *account.data.borrow_mut(); body\<close>: the borrow lasts until the end of the body.\<close>

definition with_borrow_mut :: "account_info \<Rightarrow> (u8 list \<Rightarrow> 'a prog) \<Rightarrow> 'a prog" where
  "with_borrow_mut a body = (\<lambda>w.
     if key a \<in> set (borrowed w) then Panic
     else
       and_then (body (acc_data (ledger w (key a))) (w\<lparr>borrowed := key a # borrowed w\<rparr>)) (\<lambda>(x, w').
       Ok (x, w'\<lparr>borrowed := borrowed w\<rparr>)))"

text \<open>Inside the body: the buffer is updated in place.\<close>

definition store :: "account_info \<Rightarrow> u8 list \<Rightarrow> unit prog" where
  "store a d = (\<lambda>w. Ok ((), set_data (key a) d w))"

subsection \<open>Code outside of the repository\<close>

record rent =
  minimum_balance :: "nat \<Rightarrow> u64"
  is_exempt :: "u64 \<Rightarrow> nat \<Rightarrow> bool"

record clock =
  clock_epoch :: epoch

record mint =
  mint_supply :: u64
  mint_mint_authority :: "pubkey option"
  mint_freeze_authority :: "pubkey option"

record token_account =
  token_mint :: pubkey
  token_owner :: pubkey
  token_balance :: u64

datatype stake_authorize = Staker | Withdrawer

text \<open>The instructions of other programs that the program invokes.\<close>

datatype foreign_instruction =
    SystemTransfer pubkey pubkey u64
  | SystemAllocate pubkey u64
  | SystemAssign pubkey pubkey
  | StakeInitialize pubkey pubkey pubkey
  | StakeDelegate pubkey pubkey pubkey
  | StakeMerge pubkey pubkey pubkey
  | StakeSplit pubkey pubkey u64 pubkey
  | StakeDeactivate pubkey pubkey
  | StakeWithdraw u64 pubkey pubkey pubkey
  | StakeAuthorize pubkey pubkey pubkey stake_authorize
  | TokenMintTo pubkey pubkey pubkey pubkey u64
  | TokenBurn pubkey pubkey pubkey pubkey u64

record 'i env =
  spl_token_id :: pubkey
  system_program_id :: pubkey
  stake_program_id :: pubkey
  vote_program_id :: pubkey
  stake_config_id :: pubkey
  sysvar_rent_id :: pubkey
  sysvar_clock_id :: pubkey
  sysvar_stake_history_id :: pubkey
  stake_state_size :: u64
  find_program_address :: "u8 list list \<Rightarrow> pubkey \<Rightarrow> pubkey \<times> u8"
  create_program_address :: "u8 list list \<Rightarrow> pubkey \<Rightarrow> pubkey option"
  rent_get :: "(rent, program_error) result"
  clock_get :: "(clock, program_error) result"
  stake_history_from :: "u8 list \<Rightarrow> (stake_history, program_error) result"
  stake_status :: "delegation \<Rightarrow> epoch \<Rightarrow> stake_history \<Rightarrow> stake_activation"
  unpack_mint :: "u8 list \<Rightarrow> (mint, program_error) result"
  unpack_token_account :: "u8 list \<Rightarrow> (token_account, program_error) result"
  merge_instructions :: "pubkey \<Rightarrow> pubkey \<Rightarrow> pubkey \<Rightarrow> foreign_instruction list"
  split_instructions :: "pubkey \<Rightarrow> pubkey \<Rightarrow> u64 \<Rightarrow> pubkey \<Rightarrow> foreign_instruction list"
  mint_to_instruction :: "pubkey \<Rightarrow> pubkey \<Rightarrow> pubkey \<Rightarrow> pubkey \<Rightarrow> u64 \<Rightarrow> (foreign_instruction, program_error) result"
  burn_instruction :: "pubkey \<Rightarrow> pubkey \<Rightarrow> pubkey \<Rightarrow> pubkey \<Rightarrow> u64 \<Rightarrow> (foreign_instruction, program_error) result"
  env_invoke :: "foreign_instruction \<Rightarrow> account_info list \<Rightarrow> u8 list list list \<Rightarrow> world \<Rightarrow> (world, program_error) result"
  lido_borsh :: "lido \<Rightarrow> u8 list"
  lido_read :: "u8 list \<Rightarrow> lido option"
  lido_v1_read :: "u8 list \<Rightarrow> lido_v1 option"
  instruction_read :: "u8 list \<Rightarrow> 'i option"
  instruction_borsh :: "'i \<Rightarrow> u8 list"
  VE :: "validator list_entry"
  PE :: "validator_perf list_entry"
  ME :: "maintainer list_entry"

definition invoke_signed ::
  "'i env \<Rightarrow> foreign_instruction \<Rightarrow> account_info list \<Rightarrow> u8 list list list \<Rightarrow> unit prog" where
  "invoke_signed E ins infos seeds = (\<lambda>w. map_ok (\<lambda>w'. ((), w')) (env_invoke E ins infos seeds w))"

definition invoke :: "'i env \<Rightarrow> foreign_instruction \<Rightarrow> account_info list \<Rightarrow> unit prog" where
  "invoke E ins infos = invoke_signed E ins infos []"

subsection \<open>Facts about programs\<close>

lemma then_do_eq_Ok [result_simps]:
  "then_do m f w = Ok (y, w') \<longleftrightarrow> (\<exists>x w1. m w = Ok (x, w1) \<and> f x w1 = Ok (y, w'))"
  by (auto simp: then_do_def and_then_eq_Ok)

lemma return_eq_Ok [result_simps]: "return x w = Ok (y, w') \<longleftrightarrow> y = x \<and> w' = w"
  by (auto simp: return_def)

lemma lift_eq_Ok [result_simps]: "lift r w = Ok (y, w') \<longleftrightarrow> r = Ok y \<and> w' = w"
  by (auto simp: lift_def map_ok_eq_Ok)

lemma fail_neq_Ok [simp]: "fail e w \<noteq> Ok r" "fail_lido e' w \<noteq> Ok r"
  by (simp_all add: fail_def fail_lido_def)

lemma require_eq_Ok [result_simps]: "require b e w = Ok (u, w') \<longleftrightarrow> b \<and> w' = w"
  by (auto simp: require_def)

lemma lamports_of_eq_Ok [result_simps]:
  "lamports_of a w = Ok (l, w') \<longleftrightarrow> l = Lamports (acc_lamports (ledger w (key a))) \<and> w' = w"
  by (auto simp: lamports_of_def)

lemma owner_of_eq_Ok [result_simps]:
  "owner_of a w = Ok (k, w') \<longleftrightarrow> k = acc_owner (ledger w (key a)) \<and> w' = w"
  by (auto simp: owner_of_def)

lemma data_borrow_eq_Ok [result_simps]:
  "data_borrow a w = Ok (d, w') \<longleftrightarrow>
     key a \<notin> set (borrowed w) \<and> d = acc_data (ledger w (key a)) \<and> w' = w"
  by (auto simp: data_borrow_def)

lemma data_len_eq_Ok [result_simps]:
  "data_len a w = Ok (n, w') \<longleftrightarrow>
     key a \<notin> set (borrowed w) \<and> n = length (acc_data (ledger w (key a))) \<and> w' = w"
  by (auto simp: data_len_def result_simps)

lemma data_write_eq_Ok [result_simps]:
  "data_write a f w = Ok (u, w') \<longleftrightarrow>
     key a \<notin> set (borrowed w) \<and>
     (\<exists>d. f (acc_data (ledger w (key a))) = Ok d \<and> w' = set_data (key a) d w)"
  by (auto simp: data_write_def result_simps)

lemma store_eq_Ok [result_simps]: "store a d w = Ok (u, w') \<longleftrightarrow> w' = set_data (key a) d w"
  by (auto simp: store_def)

lemma with_borrow_mut_eq_Ok [result_simps]:
  "with_borrow_mut a body w = Ok (x, w') \<longleftrightarrow>
     key a \<notin> set (borrowed w) \<and>
     (\<exists>w1. body (acc_data (ledger w (key a))) (w\<lparr>borrowed := key a # borrowed w\<rparr>) = Ok (x, w1) \<and>
       w' = w1\<lparr>borrowed := borrowed w\<rparr>)"
  by (auto simp: with_borrow_mut_def and_then_eq_Ok)

lemma invoke_signed_eq_Ok [result_simps]:
  "invoke_signed E ins infos seeds w = Ok (u, w') \<longleftrightarrow> env_invoke E ins infos seeds w = Ok w'"
  by (auto simp: invoke_signed_def map_ok_eq_Ok)

lemma invoke_eq_Ok [result_simps]:
  "invoke E ins infos w = Ok (u, w') \<longleftrightarrow> env_invoke E ins infos [] w = Ok w'"
  by (simp add: invoke_def invoke_signed_eq_Ok)

lemma if_prog_eq_Ok [result_simps]:
  "(if b then m else m') w = Ok r \<longleftrightarrow> (b \<and> m w = Ok r) \<or> (\<not> b \<and> m' w = Ok r)"
  by simp

lemma ledger_set_data [simp]:
  "ledger (set_data k d w) = (ledger w)(k := (ledger w k)\<lparr>acc_data := d\<rparr>)"
  "borrowed (set_data k d w) = borrowed w"
  by (simp_all add: set_data_def)

lemma set_data_account [simp]:
  "acc_lamports (ledger (set_data k d w) j) = acc_lamports (ledger w j)"
  "acc_owner (ledger (set_data k d w) j) = acc_owner (ledger w j)"
  "acc_data (ledger (set_data k d w) j) = (if j = k then d else acc_data (ledger w j))"
  by simp_all

end
