(* ===== verification/Instructions.thy ===== *)
theory Instructions
  imports Runtime
begin

text \<open>
  \<^verbatim>\<open>program/src/accounts.rs\<close> and \<^verbatim>\<open>program/src/instruction.rs\<close>. The macro
  \<open>accounts_struct!\<close> turns a list of named accounts into two structs and their
  conversions; here one list, an \<open>accounts_spec\<close>, is the argument of the functions that
  the macro generates. The fields of an \<open>Info\<close> struct are the elements of the
  returned list in the order of the specification: first the \<open>pub\<close> accounts, then the
  \<open>const\<close> ones. The variadic accounts are returned separately.
\<close>

subsection \<open>The macro\<close>

record account_meta =
  meta_pubkey :: pubkey
  meta_is_signer :: bool
  meta_is_writable :: bool

record accounts_spec =
  var_accounts :: "(string \<times> bool \<times> bool) list"
  const_accounts :: "(string \<times> pubkey) list"
  variadic :: bool

abbreviation ro :: "bool \<times> bool" where "ro \<equiv> (False, False)"
abbreviation rw :: "bool \<times> bool" where "rw \<equiv> (False, True)"
abbreviation signer_ro :: "bool \<times> bool" where "signer_ro \<equiv> (True, False)"
abbreviation signer_rw :: "bool \<times> bool" where "signer_rw \<equiv> (True, True)"

definition accounts_struct_meta :: "pubkey \<Rightarrow> bool \<times> bool \<Rightarrow> account_meta" where
  "accounts_struct_meta k flags =
     \<lparr>meta_pubkey = k, meta_is_signer = fst flags, meta_is_writable = snd flags\<rparr>"

definition meta_to_vec :: "accounts_spec \<Rightarrow> pubkey list \<Rightarrow> pubkey list \<Rightarrow> account_meta list" where
  "meta_to_vec spec keys multi =
     map2 (\<lambda>k (name, flags). accounts_struct_meta k flags) keys (var_accounts spec) @
     map (\<lambda>(name, k). accounts_struct_meta k ro) (const_accounts spec) @
     (if variadic spec then map (\<lambda>k. accounts_struct_meta k rw) multi else [])"

fun meta_take_var ::
  "(string \<times> bool \<times> bool) list \<Rightarrow> account_meta list \<Rightarrow> (pubkey list \<times> account_meta list, program_error) result" where
  "meta_take_var [] metas = Ok ([], metas)"
| "meta_take_var (x # xs) [] = Err NotEnoughAccountKeys"
| "meta_take_var ((name, s, wr) # xs) (m # metas) =
     (if (s \<and> \<not> meta_is_signer m) \<or> (wr \<and> \<not> meta_is_writable m) then Err (lido_err InvalidAccountInfo)
      else map_ok (\<lambda>(ks, rest). (meta_pubkey m # ks, rest)) (meta_take_var xs metas))"

fun meta_take_const ::
  "(string \<times> pubkey) list \<Rightarrow> account_meta list \<Rightarrow> (account_meta list, program_error) result" where
  "meta_take_const [] metas = Ok metas"
| "meta_take_const (x # xs) [] = Err NotEnoughAccountKeys"
| "meta_take_const (x # xs) (m # metas) = meta_take_const xs metas"

definition meta_try_from_slice ::
  "accounts_spec \<Rightarrow> account_meta list \<Rightarrow> (pubkey list \<times> pubkey list, program_error) result" where
  "meta_try_from_slice spec metas =
     and_then (meta_take_var (var_accounts spec) metas) (\<lambda>(ks, metas).
     and_then (meta_take_const (const_accounts spec) metas) (\<lambda>metas.
     if variadic spec then
       (if \<exists>m \<in> set metas. \<not> meta_is_writable m then Err (lido_err InvalidAccountInfo)
        else Ok (ks, map meta_pubkey metas))
     else if metas \<noteq> [] then Err (lido_err TooManyAccountKeys)
     else Ok (ks, [])))"

fun info_take_var ::
  "(string \<times> bool \<times> bool) list \<Rightarrow> account_info list \<Rightarrow> (account_info list \<times> account_info list, program_error) result" where
  "info_take_var [] infos = Ok ([], infos)"
| "info_take_var (x # xs) [] = Err NotEnoughAccountKeys"
| "info_take_var ((name, s, wr) # xs) (a # infos) =
     (if s \<and> \<not> is_signer a then Err (lido_err InvalidAccountInfo)
      else if wr \<and> \<not> is_writable a then Err (lido_err InvalidAccountInfo)
      else map_ok (\<lambda>(as, rest). (a # as, rest)) (info_take_var xs infos))"

fun info_take_const ::
  "(string \<times> pubkey) list \<Rightarrow> account_info list \<Rightarrow> (account_info list \<times> account_info list, program_error) result" where
  "info_take_const [] infos = Ok ([], infos)"
| "info_take_const (x # xs) [] = Err NotEnoughAccountKeys"
| "info_take_const ((name, k) # xs) (a # infos) =
     (if is_signer a \<or> is_writable a then Err (lido_err InvalidAccountInfo)
      else if key a \<noteq> k then Err (lido_err InvalidAccountInfo)
      else map_ok (\<lambda>(as, rest). (a # as, rest)) (info_take_const xs infos))"

definition info_try_from_slice ::
  "accounts_spec \<Rightarrow> account_info list \<Rightarrow> (account_info list \<times> account_info list, program_error) result" where
  "info_try_from_slice spec infos =
     and_then (info_take_var (var_accounts spec) infos) (\<lambda>(vars, infos).
     and_then (info_take_const (const_accounts spec) infos) (\<lambda>(fixed, infos).
     if variadic spec then
       (if \<exists>a \<in> set infos. \<not> is_writable a then Err (lido_err InvalidAccountInfo)
        else Ok (vars @ fixed, infos))
     else if infos \<noteq> [] then Err (lido_err TooManyAccountKeys)
     else Ok (vars @ fixed, [])))"

subsection \<open>The instructions\<close>

datatype (plugins only: code size) lido_instruction =
    Initialize reward_distribution criteria u32 u32
  | Deposit lamports
  | Withdraw st_lamports
  | StakeDeposit lamports
  | Unstake lamports
  | UpdateExchangeRate
  | WithdrawInactiveStake
  | CollectValidatorFee
  | ClaimValidatorFee
  | ChangeRewardDistribution reward_distribution
  | AddValidator
  | DeactivateValidator
  | RemoveValidator
  | AddMaintainer
  | RemoveMaintainer
  | MergeStake
  | UpdateStakeAccountBalance u32
  | AddValidatorV2
  | DeactivateIfViolates
  | ReactivateIfComplies
  | ChangeCriteria criteria
  | StakeDepositV2 lamports u32 u32
  | UnstakeV2 lamports u32 u32
  | UpdateExchangeRateV2
  | UpdateOffchainValidatorPerf u64 u64
  | UpdateOnchainValidatorPerf
  | WithdrawV2 st_lamports u32
  | EnqueueValidatorForRemovalV2 u32
  | RemoveValidatorV2 u32
  | DeactivateValidatorV2 u32
  | AddMaintainerV2
  | RemoveMaintainerV2 u32
  | MergeStakeV2 u32
  | MigrateStateToV2 reward_distribution u32 u32 u8

type_synonym lenv = "lido_instruction env"

record instruction =
  ins_program_id :: pubkey
  ins_accounts :: "account_meta list"
  ins_data :: "u8 list"

subsection \<open>The accounts of each instruction\<close>

definition initialize_accounts :: "'i env \<Rightarrow> accounts_spec" where
  "initialize_accounts E =
     \<lparr>var_accounts =
       [(''lido'', rw), (''manager'', ro), (''st_sol_mint'', ro), (''treasury_account'', ro),
        (''developer_account'', ro), (''reserve_account'', ro), (''validator_list'', rw),
        (''validator_perf_list'', rw), (''maintainer_list'', rw)],
      const_accounts =
       [(''sysvar_rent'', sysvar_rent_id E), (''spl_token'', spl_token_id E)],
      variadic = False\<rparr>"

definition deposit_accounts :: "'i env \<Rightarrow> accounts_spec" where
  "deposit_accounts E =
     \<lparr>var_accounts =
       [(''lido'', rw), (''user'', signer_rw), (''recipient'', rw), (''st_sol_mint'', rw),
        (''reserve_account'', rw), (''mint_authority'', ro)],
      const_accounts =
       [(''spl_token'', spl_token_id E), (''system_program'', system_program_id E)],
      variadic = False\<rparr>"

definition withdraw_accounts :: "'i env \<Rightarrow> accounts_spec" where
  "withdraw_accounts E =
     \<lparr>var_accounts =
       [(''lido'', rw), (''st_sol_account_owner'', signer_ro), (''st_sol_account'', rw),
        (''st_sol_mint'', rw), (''validator_vote_account'', ro), (''source_stake_account'', rw),
        (''destination_stake_account'', signer_rw), (''stake_authority'', ro),
        (''validator_list'', rw)],
      const_accounts =
       [(''spl_token'', spl_token_id E), (''sysvar_clock'', sysvar_clock_id E),
        (''system_program'', system_program_id E), (''stake_program'', stake_program_id E)],
      variadic = False\<rparr>"

definition stake_deposit_accounts :: "'i env \<Rightarrow> accounts_spec" where
  "stake_deposit_accounts E =
     \<lparr>var_accounts =
       [(''lido'', ro), (''maintainer'', signer_ro), (''reserve'', rw),
        (''validator_vote_account'', ro), (''stake_account_merge_into'', rw),
        (''stake_account_end'', rw), (''stake_authority'', ro), (''validator_list'', rw),
        (''maintainer_list'', ro)],
      const_accounts =
       [(''sysvar_clock'', sysvar_clock_id E), (''system_program'', system_program_id E),
        (''sysvar_rent'', sysvar_rent_id E), (''stake_program'', stake_program_id E),
        (''stake_history'', sysvar_stake_history_id E),
        (''stake_program_config'', stake_config_id E)],
      variadic = False\<rparr>"

definition unstake_accounts :: "'i env \<Rightarrow> accounts_spec" where
  "unstake_accounts E =
     \<lparr>var_accounts =
       [(''lido'', ro), (''maintainer'', signer_ro), (''validator_vote_account'', ro),
        (''source_stake_account'', rw), (''destination_unstake_account'', rw),
        (''stake_authority'', ro), (''validator_list'', rw), (''maintainer_list'', ro)],
      const_accounts =
       [(''sysvar_clock'', sysvar_clock_id E), (''system_program'', system_program_id E),
        (''stake_program'', stake_program_id E)],
      variadic = False\<rparr>"

definition update_exchange_rate_accounts :: "'i env \<Rightarrow> accounts_spec" where
  "update_exchange_rate_accounts E =
     \<lparr>var_accounts =
       [(''lido'', rw), (''reserve'', ro), (''st_sol_mint'', ro), (''validator_list'', ro)],
      const_accounts =
       [(''sysvar_clock'', sysvar_clock_id E), (''sysvar_rent'', sysvar_rent_id E)],
      variadic = False\<rparr>"

definition update_offchain_validator_perf_accounts :: "'i env \<Rightarrow> accounts_spec" where
  "update_offchain_validator_perf_accounts E =
     \<lparr>var_accounts =
       [(''lido'', rw), (''validator_vote_account_to_update'', ro), (''validator_list'', ro),
        (''validator_perf_list'', rw)],
      const_accounts =
       [(''sysvar_clock'', sysvar_clock_id E)],
      variadic = False\<rparr>"

definition update_onchain_validator_perf_accounts :: "'i env \<Rightarrow> accounts_spec" where
  "update_onchain_validator_perf_accounts E =
     \<lparr>var_accounts =
       [(''lido'', rw), (''validator_vote_account_to_update'', ro), (''validator_list'', ro),
        (''validator_perf_list'', rw)],
      const_accounts =
       [(''sysvar_clock'', sysvar_clock_id E)],
      variadic = False\<rparr>"

definition change_reward_distribution_accounts :: "'i env \<Rightarrow> accounts_spec" where
  "change_reward_distribution_accounts E =
     \<lparr>var_accounts =
       [(''lido'', rw), (''manager'', signer_ro), (''treasury_account'', ro),
        (''developer_account'', ro)],
      const_accounts =
       [],
      variadic = False\<rparr>"

definition remove_validator_accounts :: "'i env \<Rightarrow> accounts_spec" where
  "remove_validator_accounts E =
     \<lparr>var_accounts =
       [(''lido'', ro), (''validator_vote_account_to_remove'', ro), (''validator_list'', rw)],
      const_accounts =
       [],
      variadic = False\<rparr>"

definition deactivate_validator_accounts :: "'i env \<Rightarrow> accounts_spec" where
  "deactivate_validator_accounts E =
     \<lparr>var_accounts =
       [(''lido'', ro), (''manager'', signer_ro), (''validator_vote_account_to_deactivate'', ro),
        (''validator_list'', rw)],
      const_accounts =
       [],
      variadic = False\<rparr>"

definition enqueue_validator_for_removal_accounts :: "'i env \<Rightarrow> accounts_spec" where
  "enqueue_validator_for_removal_accounts E =
     \<lparr>var_accounts =
       [(''lido'', ro), (''manager'', signer_ro), (''validator_vote_account_to_remove'', ro),
        (''validator_list'', rw)],
      const_accounts =
       [],
      variadic = False\<rparr>"

definition add_maintainer_accounts :: "'i env \<Rightarrow> accounts_spec" where
  "add_maintainer_accounts E =
     \<lparr>var_accounts =
       [(''lido'', ro), (''manager'', signer_ro), (''maintainer'', ro), (''maintainer_list'', rw)],
      const_accounts =
       [],
      variadic = False\<rparr>"

definition remove_maintainer_accounts :: "'i env \<Rightarrow> accounts_spec" where
  "remove_maintainer_accounts E =
     \<lparr>var_accounts =
       [(''lido'', ro), (''manager'', signer_ro), (''maintainer'', ro), (''maintainer_list'', rw)],
      const_accounts =
       [],
      variadic = False\<rparr>"

definition merge_stake_accounts :: "'i env \<Rightarrow> accounts_spec" where
  "merge_stake_accounts E =
     \<lparr>var_accounts =
       [(''lido'', ro), (''validator_vote_account'', ro), (''from_stake'', rw), (''to_stake'', rw),
        (''stake_authority'', ro), (''validator_list'', rw)],
      const_accounts =
       [(''sysvar_clock'', sysvar_clock_id E), (''stake_history'', sysvar_stake_history_id E),
        (''stake_program'', stake_program_id E)],
      variadic = False\<rparr>"

definition add_validator_accounts :: "'i env \<Rightarrow> accounts_spec" where
  "add_validator_accounts E =
     \<lparr>var_accounts =
       [(''lido'', ro), (''manager'', signer_ro), (''validator_vote_account'', ro),
        (''validator_list'', rw)],
      const_accounts =
       [],
      variadic = False\<rparr>"

definition update_stake_account_balance_accounts :: "'i env \<Rightarrow> accounts_spec" where
  "update_stake_account_balance_accounts E =
     \<lparr>var_accounts =
       [(''lido'', rw), (''validator_vote_account'', ro), (''stake_authority'', ro),
        (''reserve'', rw), (''st_sol_mint'', rw), (''mint_authority'', ro),
        (''treasury_st_sol_account'', rw), (''developer_st_sol_account'', rw),
        (''validator_list'', rw)],
      const_accounts =
       [(''spl_token_program'', spl_token_id E), (''sysvar_clock'', sysvar_clock_id E),
        (''sysvar_stake_history'', sysvar_stake_history_id E),
        (''stake_program'', stake_program_id E)],
      variadic = True\<rparr>"

definition deactivate_if_violates_accounts :: "'i env \<Rightarrow> accounts_spec" where
  "deactivate_if_violates_accounts E =
     \<lparr>var_accounts =
       [(''lido'', ro), (''validator_vote_account_to_deactivate'', ro), (''validator_list'', rw),
        (''validator_perf_list'', ro)],
      const_accounts =
       [],
      variadic = False\<rparr>"

definition reactivate_if_complies_accounts :: "'i env \<Rightarrow> accounts_spec" where
  "reactivate_if_complies_accounts E =
     \<lparr>var_accounts =
       [(''lido'', ro), (''validator_vote_account_to_reactivate'', ro), (''validator_list'', rw),
        (''validator_perf_list'', ro)],
      const_accounts =
       [],
      variadic = False\<rparr>"

definition change_criteria_accounts :: "'i env \<Rightarrow> accounts_spec" where
  "change_criteria_accounts E =
     \<lparr>var_accounts =
       [(''lido'', rw), (''manager'', signer_ro)],
      const_accounts =
       [],
      variadic = False\<rparr>"

definition migrate_state_to_v2_accounts :: "'i env \<Rightarrow> accounts_spec" where
  "migrate_state_to_v2_accounts E =
     \<lparr>var_accounts =
       [(''lido'', rw), (''manager'', signer_ro), (''validator_list'', rw),
        (''validator_perf_list'', ro), (''maintainer_list'', rw), (''developer_account'', ro)],
      const_accounts =
       [],
      variadic = False\<rparr>"

subsection \<open>Builders\<close>

definition build :: "lenv \<Rightarrow> pubkey \<Rightarrow> accounts_spec \<Rightarrow> pubkey list \<Rightarrow> pubkey list \<Rightarrow> lido_instruction \<Rightarrow> instruction" where
  "build E program_id spec keys multi ins =
     \<lparr>ins_program_id = program_id, ins_accounts = meta_to_vec spec keys multi,
      ins_data = instruction_borsh E ins\<rparr>"

definition initialize ::
  "lenv \<Rightarrow> pubkey \<Rightarrow> pubkey list \<Rightarrow> reward_distribution \<Rightarrow> criteria \<Rightarrow> u32 \<Rightarrow> u32 \<Rightarrow> instruction" where
  "initialize E program_id keys rd c max_validators max_maintainers =
     build E program_id (initialize_accounts E) keys [] (Initialize rd c max_validators max_maintainers)"

definition deposit ::
  "lenv \<Rightarrow> pubkey \<Rightarrow> pubkey list \<Rightarrow> lamports \<Rightarrow> instruction" where
  "deposit E program_id keys amount =
     build E program_id (deposit_accounts E) keys [] (Deposit amount)"

definition withdraw ::
  "lenv \<Rightarrow> pubkey \<Rightarrow> pubkey list \<Rightarrow> st_lamports \<Rightarrow> u32 \<Rightarrow> instruction" where
  "withdraw E program_id keys amount validator_index =
     build E program_id (withdraw_accounts E) keys [] (WithdrawV2 amount validator_index)"

definition stake_deposit ::
  "lenv \<Rightarrow> pubkey \<Rightarrow> pubkey list \<Rightarrow> lamports \<Rightarrow> u32 \<Rightarrow> u32 \<Rightarrow> instruction" where
  "stake_deposit E program_id keys amount validator_index maintainer_index =
     build E program_id (stake_deposit_accounts E) keys [] (StakeDepositV2 amount validator_index maintainer_index)"

definition unstake ::
  "lenv \<Rightarrow> pubkey \<Rightarrow> pubkey list \<Rightarrow> lamports \<Rightarrow> u32 \<Rightarrow> u32 \<Rightarrow> instruction" where
  "unstake E program_id keys amount validator_index maintainer_index =
     build E program_id (unstake_accounts E) keys [] (UnstakeV2 amount validator_index maintainer_index)"

definition update_exchange_rate ::
  "lenv \<Rightarrow> pubkey \<Rightarrow> pubkey list \<Rightarrow> instruction" where
  "update_exchange_rate E program_id keys =
     build E program_id (update_exchange_rate_accounts E) keys [] UpdateExchangeRateV2"

definition update_offchain_validator_perf ::
  "lenv \<Rightarrow> pubkey \<Rightarrow> pubkey list \<Rightarrow> u64 \<Rightarrow> u64 \<Rightarrow> instruction" where
  "update_offchain_validator_perf E program_id keys block_rate vote_rate =
     build E program_id (update_offchain_validator_perf_accounts E) keys [] (UpdateOffchainValidatorPerf block_rate vote_rate)"

definition update_onchain_validator_perf ::
  "lenv \<Rightarrow> pubkey \<Rightarrow> pubkey list \<Rightarrow> instruction" where
  "update_onchain_validator_perf E program_id keys =
     build E program_id (update_onchain_validator_perf_accounts E) keys [] UpdateOnchainValidatorPerf"

definition change_reward_distribution ::
  "lenv \<Rightarrow> pubkey \<Rightarrow> pubkey list \<Rightarrow> reward_distribution \<Rightarrow> instruction" where
  "change_reward_distribution E program_id keys rd =
     build E program_id (change_reward_distribution_accounts E) keys [] (ChangeRewardDistribution rd)"

definition remove_validator ::
  "lenv \<Rightarrow> pubkey \<Rightarrow> pubkey list \<Rightarrow> u32 \<Rightarrow> instruction" where
  "remove_validator E program_id keys validator_index =
     build E program_id (remove_validator_accounts E) keys [] (RemoveValidatorV2 validator_index)"

definition deactivate_validator ::
  "lenv \<Rightarrow> pubkey \<Rightarrow> pubkey list \<Rightarrow> u32 \<Rightarrow> instruction" where
  "deactivate_validator E program_id keys validator_index =
     build E program_id (deactivate_validator_accounts E) keys [] (DeactivateValidatorV2 validator_index)"

definition enqueue_validator_for_removal ::
  "lenv \<Rightarrow> pubkey \<Rightarrow> pubkey list \<Rightarrow> u32 \<Rightarrow> instruction" where
  "enqueue_validator_for_removal E program_id keys validator_index =
     build E program_id (enqueue_validator_for_removal_accounts E) keys [] (EnqueueValidatorForRemovalV2 validator_index)"

definition add_maintainer ::
  "lenv \<Rightarrow> pubkey \<Rightarrow> pubkey list \<Rightarrow> instruction" where
  "add_maintainer E program_id keys =
     build E program_id (add_maintainer_accounts E) keys [] AddMaintainerV2"

definition remove_maintainer ::
  "lenv \<Rightarrow> pubkey \<Rightarrow> pubkey list \<Rightarrow> u32 \<Rightarrow> instruction" where
  "remove_maintainer E program_id keys maintainer_index =
     build E program_id (remove_maintainer_accounts E) keys [] (RemoveMaintainerV2 maintainer_index)"

definition merge_stake ::
  "lenv \<Rightarrow> pubkey \<Rightarrow> pubkey list \<Rightarrow> u32 \<Rightarrow> instruction" where
  "merge_stake E program_id keys validator_index =
     build E program_id (merge_stake_accounts E) keys [] (MergeStakeV2 validator_index)"

definition add_validator ::
  "lenv \<Rightarrow> pubkey \<Rightarrow> pubkey list \<Rightarrow> instruction" where
  "add_validator E program_id keys =
     build E program_id (add_validator_accounts E) keys [] AddValidatorV2"

definition update_stake_account_balance ::
  "lenv \<Rightarrow> pubkey \<Rightarrow> pubkey list \<Rightarrow> pubkey list \<Rightarrow> u32 \<Rightarrow> instruction" where
  "update_stake_account_balance E program_id keys multi validator_index =
     build E program_id (update_stake_account_balance_accounts E) keys multi (UpdateStakeAccountBalance validator_index)"

definition deactivate_if_violates ::
  "lenv \<Rightarrow> pubkey \<Rightarrow> pubkey list \<Rightarrow> instruction" where
  "deactivate_if_violates E program_id keys =
     build E program_id (deactivate_if_violates_accounts E) keys [] DeactivateIfViolates"

definition reactivate_if_complies ::
  "lenv \<Rightarrow> pubkey \<Rightarrow> pubkey list \<Rightarrow> instruction" where
  "reactivate_if_complies E program_id keys =
     build E program_id (reactivate_if_complies_accounts E) keys [] ReactivateIfComplies"

definition change_criteria ::
  "lenv \<Rightarrow> pubkey \<Rightarrow> pubkey list \<Rightarrow> criteria \<Rightarrow> instruction" where
  "change_criteria E program_id keys c =
     build E program_id (change_criteria_accounts E) keys [] (ChangeCriteria c)"

definition migrate_state_to_v2 ::
  "lenv \<Rightarrow> pubkey \<Rightarrow> pubkey list \<Rightarrow> reward_distribution \<Rightarrow> u32 \<Rightarrow> u32 \<Rightarrow> u8 \<Rightarrow> instruction" where
  "migrate_state_to_v2 E program_id keys rd max_validators max_maintainers max_commission_percentage =
     build E program_id (migrate_state_to_v2_accounts E) keys [] (MigrateStateToV2 rd max_validators max_maintainers max_commission_percentage)"

subsection \<open>What the conversions guarantee\<close>

definition var_ok :: "string \<times> bool \<times> bool \<Rightarrow> account_info \<Rightarrow> bool" where
  "var_ok = (\<lambda>(name, s, wr) a. (s \<longrightarrow> is_signer a) \<and> (wr \<longrightarrow> is_writable a))"

definition const_ok :: "string \<times> pubkey \<Rightarrow> account_info \<Rightarrow> bool" where
  "const_ok = (\<lambda>(name, k) a. key a = k \<and> \<not> is_signer a \<and> \<not> is_writable a)"

lemma info_take_var_eq_Ok [result_simps]:
  "info_take_var xs infos = Ok (as, rest) \<longleftrightarrow> infos = as @ rest \<and> list_all2 var_ok xs as"
proof (induction xs infos arbitrary: as rest rule: info_take_var.induct)
  case (1 infos)
  then show ?case by auto
next
  case (2 x xs)
  then show ?case by (auto simp: list_all2_Cons1)
next
  case (3 name s wr xs a infos)
  then show ?case
    by (cases as) (auto simp: map_ok_eq_Ok var_ok_def list_all2_Cons1)
qed

lemma info_take_const_eq_Ok [result_simps]:
  "info_take_const xs infos = Ok (as, rest) \<longleftrightarrow> infos = as @ rest \<and> list_all2 const_ok xs as"
proof (induction xs infos arbitrary: as rest rule: info_take_const.induct)
  case (1 infos)
  then show ?case by auto
next
  case (2 x xs)
  then show ?case by (auto simp: list_all2_Cons1)
next
  case (3 name k xs a infos)
  then show ?case
    by (cases as) (auto simp: map_ok_eq_Ok const_ok_def list_all2_Cons1)
qed

lemma info_try_from_slice_eq_Ok:
  "info_try_from_slice spec infos = Ok (accs, multi) \<longleftrightarrow>
     (\<exists>vars fixed. accs = vars @ fixed \<and> infos = vars @ fixed @ multi \<and>
       list_all2 var_ok (var_accounts spec) vars \<and>
       list_all2 const_ok (const_accounts spec) fixed \<and>
       (if variadic spec then list_all is_writable multi else multi = []))"
  by (auto simp: info_try_from_slice_def result_simps list_all_iff split: if_splits) blast

text \<open>The account parser accepts exactly the account lists of its specification: it
  succeeds with the fields \<open>accs\<close> and the variadic accounts \<open>multi\<close> if and only if the input is
  their concatenation, the \<open>pub\<close> fields carry every signature and write permission that is asked
  for, the \<open>const\<close> fields have their fixed address and neither permission, and variadic
  accounts are all writable, or absent when the struct has none.\<close>

theorem info_try_from_slice_iff:
  "info_try_from_slice spec infos = Ok (accs, multi) \<longleftrightarrow>
     (\<exists>vars fixed. accs = vars @ fixed \<and> infos = vars @ fixed @ multi \<and>
       list_all2 var_ok (var_accounts spec) vars \<and>
       list_all2 const_ok (const_accounts spec) fixed \<and>
       (if variadic spec then list_all is_writable multi else multi = []))"
  by (rule info_try_from_slice_eq_Ok)

lemma info_try_from_slice_OkD:
  assumes "info_try_from_slice spec infos = Ok (accs, multi)"
  shows "infos = accs @ multi"
    and "length accs = length (var_accounts spec) + length (const_accounts spec)"
    and "\<And>i. i < length (var_accounts spec) \<Longrightarrow> var_ok (var_accounts spec ! i) (accs ! i)"
    and "\<And>i. i < length (const_accounts spec) \<Longrightarrow>
      const_ok (const_accounts spec ! i) (accs ! (length (var_accounts spec) + i))"
  using assms
  by (auto simp: info_try_from_slice_def result_simps nth_append list_all2_conv_all_nth split: if_splits)

definition info_of_meta :: "account_meta \<Rightarrow> account_info" where
  "info_of_meta m = \<lparr>key = meta_pubkey m, is_signer = meta_is_signer m, is_writable = meta_is_writable m\<rparr>"

lemma accounts_struct_meta_sel [simp]:
  "meta_pubkey (accounts_struct_meta k f) = k" "meta_is_signer (accounts_struct_meta k f) = fst f"
  "meta_is_writable (accounts_struct_meta k f) = snd f"
  by (simp_all add: accounts_struct_meta_def)

lemma meta_take_var_to_vec:
  "length keys = length xs \<Longrightarrow>
     meta_take_var xs (map2 (\<lambda>k (name, flags). accounts_struct_meta k flags) keys xs @ rest) = Ok (keys, rest)"
  by (induction keys xs rule: list_induct2) (auto simp: accounts_struct_meta_def)

lemma meta_take_const_to_vec:
  "meta_take_const xs (map (\<lambda>(name, k). accounts_struct_meta k ro) xs @ rest) = Ok rest"
  by (induction xs) auto

lemma info_take_var_to_vec:
  "length keys = length xs \<Longrightarrow>
     list_all2 var_ok xs (map info_of_meta (map2 (\<lambda>k (name, flags). accounts_struct_meta k flags) keys xs)) \<and>
     map key (map info_of_meta (map2 (\<lambda>k (name, flags). accounts_struct_meta k flags) keys xs)) = keys"
  by (induction keys xs rule: list_induct2) (auto simp: accounts_struct_meta_def var_ok_def info_of_meta_def)

lemma info_take_const_to_vec:
  "list_all2 const_ok xs (map info_of_meta (map (\<lambda>(name, k). accounts_struct_meta k ro) xs)) \<and>
   map key (map info_of_meta (map (\<lambda>(name, k). accounts_struct_meta k ro) xs)) = map snd xs"
  by (induction xs) (auto simp: accounts_struct_meta_def const_ok_def info_of_meta_def)

text \<open>Callers and program agree on the accounts. The metas that \<open>to_vec\<close> produces for any keys
  of the right number are parsed back to the same keys by the \<open>Meta\<close> struct, and are accepted by
  the \<open>Info\<close> struct of the program, whose fields then have those keys followed by the
  fixed addresses.\<close>

theorem accounts_to_vec_roundtrip:
  assumes "length keys = length (var_accounts spec)" and "variadic spec \<or> multi = []"
  shows "meta_try_from_slice spec (meta_to_vec spec keys multi) = Ok (keys, multi) \<and>
    (\<exists>accs ms. info_try_from_slice spec (map info_of_meta (meta_to_vec spec keys multi)) = Ok (accs, ms) \<and>
      map key accs = keys @ map snd (const_accounts spec) \<and> map key ms = multi)"
proof
  show "meta_try_from_slice spec (meta_to_vec spec keys multi) = Ok (keys, multi)"
    using assms meta_take_const_to_vec [of "const_accounts spec" "[]"]
    by (auto simp: meta_try_from_slice_def meta_to_vec_def meta_take_var_to_vec meta_take_const_to_vec comp_def)
  let ?vars = "map info_of_meta (map2 (\<lambda>k (name, flags). accounts_struct_meta k flags) keys (var_accounts spec))"
  let ?fixed = "map info_of_meta (map (\<lambda>(name, k). accounts_struct_meta k ro) (const_accounts spec))"
  let ?ms = "map info_of_meta (map (\<lambda>k. accounts_struct_meta k rw) multi)"
  have split: "map info_of_meta (meta_to_vec spec keys multi) = ?vars @ ?fixed @ ?ms"
    using assms(2) by (auto simp: meta_to_vec_def)
  have "info_try_from_slice spec (map info_of_meta (meta_to_vec spec keys multi)) = Ok (?vars @ ?fixed, ?ms)"
    unfolding split info_try_from_slice_eq_Ok
    using info_take_var_to_vec [OF assms(1)] info_take_const_to_vec [of "const_accounts spec"] assms(2)
    by (intro exI [of _ ?vars] exI [of _ ?fixed]) (auto simp: info_of_meta_def list_all_iff)
  moreover have "map key (?vars @ ?fixed) = keys @ map snd (const_accounts spec)"
    using info_take_var_to_vec [OF assms(1)] info_take_const_to_vec [of "const_accounts spec"]
    by (simp only: map_append)
  moreover have "map key ?ms = multi"
    by (simp add: accounts_struct_meta_def info_of_meta_def comp_def)
  ultimately show "\<exists>accs ms. info_try_from_slice spec (map info_of_meta (meta_to_vec spec keys multi)) = Ok (accs, ms) \<and>
      map key accs = keys @ map snd (const_accounts spec) \<and> map key ms = multi"
    by blast
qed

definition example_spec :: accounts_spec where
  "example_spec = \<lparr>var_accounts = [(''lido'', rw), (''manager'', signer_ro)],
     const_accounts = [(''sysvar_clock'', 9)], variadic = True\<rparr>"

theorem accounts_to_vec_roundtrip_witness:
  "meta_try_from_slice example_spec (meta_to_vec example_spec [1, 2] [5, 6]) = Ok ([1, 2], [5, 6]) \<and>
   (\<exists>accs ms. info_try_from_slice example_spec (map info_of_meta (meta_to_vec example_spec [1, 2] [5, 6])) = Ok (accs, ms) \<and>
      map key accs = [1, 2, 9] \<and> map key ms = [5, 6])"
  using accounts_to_vec_roundtrip [of "[1, 2]" example_spec "[5, 6]"]
  by (simp add: example_spec_def)

end
