(* ===== verification/LidoChecks.thy ===== *)
theory LidoChecks
  imports Instructions
begin

text \<open>
  The methods of \<open>Lido\<close> and \<open>LidoV1\<close> in \<^verbatim>\<open>program/src/state.rs\<close> that read or
  check accounts, with \<open>check_account_owner\<close> and \<open>get_reserve_available_balance\<close> of
  \<^verbatim>\<open>logic.rs\<close>, which they call. A check that succeeds leaves the ledger as it
  is. A list that is borrowed for update is a \<open>list_ref\<close>: the account, its bytes
  at the time of the borrow, and the view of them.
\<close>

subsection \<open>Owners and reserve\<close>

definition check_account_owner :: "account_info \<Rightarrow> pubkey \<Rightarrow> unit prog" where
  "check_account_owner a program_id =
     then_do (owner_of a) (\<lambda>owner. require (program_id = owner) (lido_err InvalidOwner))"

definition get_reserve_available_balance :: "rent \<Rightarrow> account_info \<Rightarrow> lamports prog" where
  "get_reserve_available_balance rent reserve_account =
     (let min_balance = Lamports (minimum_balance rent 0) in
      then_do (lamports_of reserve_account) (\<lambda>l.
      case lamports_sub l min_balance of
        Ok balance \<Rightarrow> return balance
      | Err e \<Rightarrow> fail_lido ReserveIsNotRentExempt
      | Panic \<Rightarrow> lift Panic))"

subsection \<open>Loading and saving\<close>

definition deserialize_lido :: "lenv \<Rightarrow> pubkey \<Rightarrow> account_info \<Rightarrow> lido prog" where
  "deserialize_lido E program_id a =
     then_do (check_account_owner a program_id) (\<lambda>u.
     then_do (data_borrow a) (\<lambda>d.
     then_do (lift (ok_or (lido_read E d) BorshIoError)) (\<lambda>l.
     then_do (require (lido_account_type l = Lido) (lido_err InvalidAccountType)) (\<lambda>u.
     then_do (lift (check_lido_version (lido_lido_version l))) (\<lambda>u.
     return l)))))"

definition save :: "lenv \<Rightarrow> lido \<Rightarrow> account_info \<Rightarrow> unit prog" where
  "save E l a = data_write a (serialize_into (lido_borsh E l))"

definition save_list :: "'a list_entry \<Rightarrow> 'a account_list \<Rightarrow> account_info \<Rightarrow> unit prog" where
  "save_list LE al a = data_write a (account_list_save LE al)"

definition deserialize_lido_v1 :: "lenv \<Rightarrow> pubkey \<Rightarrow> account_info \<Rightarrow> lido_v1 prog" where
  "deserialize_lido_v1 E program_id a =
     then_do (check_account_owner a program_id) (\<lambda>u.
     then_do (data_borrow a) (\<lambda>d.
     lift (ok_or (lido_v1_read E d) BorshIoError)))"

definition lido_v1_check_manager :: "lido_v1 \<Rightarrow> account_info \<Rightarrow> unit prog" where
  "lido_v1_check_manager l a = require (v1_manager l = key a) (lido_err InvalidManager)"

subsection \<open>Checks\<close>

definition check_mint_is_st_sol_mint :: "lido \<Rightarrow> account_info \<Rightarrow> unit prog" where
  "check_mint_is_st_sol_mint l a = require (st_sol_mint l = key a) (lido_err InvalidStSolAccount)"

definition check_is_st_sol_account :: "lenv \<Rightarrow> lido \<Rightarrow> account_info \<Rightarrow> unit prog" where
  "check_is_st_sol_account E l a =
     then_do (owner_of a) (\<lambda>owner.
     then_do (require (owner = spl_token_id E) (lido_err InvalidStSolAccountOwner)) (\<lambda>u.
     then_do (data_borrow a) (\<lambda>d.
     then_do (lift (case unpack_token_account E d of
         Ok t \<Rightarrow> Ok t | Err e \<Rightarrow> Err (lido_err InvalidStSolAccount) | Panic \<Rightarrow> Panic)) (\<lambda>t.
     require (token_mint t = st_sol_mint l) (lido_err InvalidFeeRecipient)))))"

definition check_manager :: "lido \<Rightarrow> account_info \<Rightarrow> unit prog" where
  "check_manager l a = require (manager l = key a) (lido_err InvalidManager)"

definition check_treasury_fee_st_sol_account :: "lenv \<Rightarrow> lido \<Rightarrow> account_info \<Rightarrow> unit prog" where
  "check_treasury_fee_st_sol_account E l a =
     then_do (require (treasury_account (fee_recipients l) = key a) (lido_err InvalidFeeRecipient)) (\<lambda>u.
     check_is_st_sol_account E l a)"

definition check_developer_fee_st_sol_account :: "lenv \<Rightarrow> lido \<Rightarrow> account_info \<Rightarrow> unit prog" where
  "check_developer_fee_st_sol_account E l a =
     then_do (require (developer_account (fee_recipients l) = key a) (lido_err InvalidFeeRecipient)) (\<lambda>u.
     check_is_st_sol_account E l a)"

definition get_reserve_account :: "lenv \<Rightarrow> lido \<Rightarrow> pubkey \<Rightarrow> pubkey \<Rightarrow> (pubkey, program_error) result" where
  "get_reserve_account E l program_id solido_address =
     ok_or (create_program_address E
       [pubkey_bytes solido_address, RESERVE_ACCOUNT, [sol_reserve_account_bump_seed l]] program_id)
       (lido_err InvalidReserveAccount)"

definition check_reserve_account :: "lenv \<Rightarrow> lido \<Rightarrow> pubkey \<Rightarrow> pubkey \<Rightarrow> account_info \<Rightarrow> pubkey prog" where
  "check_reserve_account E l program_id solido_address a =
     then_do (lift (get_reserve_account E l program_id solido_address)) (\<lambda>reserve_id.
     then_do (require (reserve_id = key a) (lido_err InvalidReserveAccount)) (\<lambda>u.
     return reserve_id))"

definition get_stake_authority :: "lenv \<Rightarrow> lido \<Rightarrow> pubkey \<Rightarrow> pubkey \<Rightarrow> (pubkey, program_error) result" where
  "get_stake_authority E l program_id solido_address =
     ok_or (create_program_address E
       [pubkey_bytes solido_address, STAKE_AUTHORITY, [stake_authority_bump_seed l]] program_id)
       InvalidSeeds"

definition check_stake_authority :: "lenv \<Rightarrow> lido \<Rightarrow> pubkey \<Rightarrow> pubkey \<Rightarrow> account_info \<Rightarrow> pubkey prog" where
  "check_stake_authority E l program_id solido_address a =
     then_do (lift (get_stake_authority E l program_id solido_address)) (\<lambda>authority.
     then_do (require (authority = key a) (lido_err InvalidStakeAuthority)) (\<lambda>u.
     return authority))"

definition get_mint_authority :: "lenv \<Rightarrow> lido \<Rightarrow> pubkey \<Rightarrow> pubkey \<Rightarrow> (pubkey, program_error) result" where
  "get_mint_authority E l program_id solido_address =
     ok_or (create_program_address E
       [pubkey_bytes solido_address, MINT_AUTHORITY, [mint_authority_bump_seed l]] program_id)
       InvalidSeeds"

definition check_can_stake_amount :: "lenv \<Rightarrow> account_info \<Rightarrow> lamports \<Rightarrow> unit prog" where
  "check_can_stake_amount E reserve amount =
     then_do (require (\<not> amount < MINIMUM_STAKE_ACCOUNT_BALANCE) (lido_err InvalidAmount)) (\<lambda>u.
     then_do (lift (rent_get E)) (\<lambda>rent.
     then_do (get_reserve_available_balance rent reserve) (\<lambda>available.
     require (\<not> amount > available) (lido_err AmountExceedsReserve))))"

definition check_stake_account ::
  "lenv \<Rightarrow> pubkey \<Rightarrow> pubkey \<Rightarrow> validator \<Rightarrow> u64 \<Rightarrow> account_info \<Rightarrow> u8 list \<Rightarrow> u8 prog" where
  "check_stake_account E program_id solido_address v stake_account_seed stake_account authority =
     (let (stake_addr, bump) = find_stake_account_address_with_authority (find_program_address E) v
            program_id solido_address authority stake_account_seed in
      then_do (require (stake_addr = key stake_account) (lido_err InvalidStakeAccount)) (\<lambda>u.
      return bump))"

text \<open>The validators come from an iterator, which is consumed after the reserve was checked.\<close>

definition get_sol_balance ::
  "(validator list, program_error) result \<Rightarrow> rent \<Rightarrow> account_info \<Rightarrow> lamports prog" where
  "get_sol_balance validators rent reserve =
     then_do (get_reserve_available_balance rent reserve) (\<lambda>effective_reserve_balance.
     then_do (lift validators) (\<lambda>vs.
     lift (from_arith (and_then (lamports_sum (map stake_accounts_balance vs))
       (\<lambda>s. lamports_add s effective_reserve_balance)))))"

definition get_st_sol_supply :: "lenv \<Rightarrow> lido \<Rightarrow> account_info \<Rightarrow> st_lamports prog" where
  "get_st_sol_supply E l a =
     then_do (check_mint_is_st_sol_mint l a) (\<lambda>u.
     then_do (data_borrow a) (\<lambda>d.
     then_do (lift (unpack_mint E d)) (\<lambda>m.
     return (StLamports (mint_supply m)))))"

definition check_exchange_rate_last_epoch :: "lido \<Rightarrow> clock \<Rightarrow> unit prog" where
  "check_exchange_rate_last_epoch l clock =
     require (\<not> computed_in_epoch (exchange_rate l) < clock_epoch clock)
       (lido_err ExchangeRateNotUpdatedInThisEpoch)"

subsection \<open>Account lists\<close>

record list_ref =
  lr_account :: account_info
  lr_data :: "u8 list"
  lr_view :: big_vec_with_header

definition check_account_list_info :: "pubkey \<Rightarrow> pubkey \<Rightarrow> account_info \<Rightarrow> unit prog" where
  "check_account_list_info program_id list_address a =
     then_do (check_account_owner a program_id) (\<lambda>u.
     require (list_address = key a) (lido_err InvalidListAccount))"

definition deserialize_account_list_info ::
  "'a list_entry \<Rightarrow> lido \<Rightarrow> pubkey \<Rightarrow> account_info \<Rightarrow> u8 list \<Rightarrow> list_ref prog" where
  "deserialize_account_list_info LE l program_id a data =
     then_do (case le_type LE of
         Validator \<Rightarrow> return (validator_list l)
       | Maintainer \<Rightarrow> return (maintainer_list l)
       | ValidatorPerf \<Rightarrow> return (validator_perf_list l)
       | Uninitialized \<Rightarrow> fail_lido InvalidAccountType
       | Lido \<Rightarrow> fail_lido InvalidAccountType) (\<lambda>solido_list_address.
     then_do (check_account_list_info program_id solido_list_address a) (\<lambda>u.
     then_do (lift (deserialize_vec LE data)) (\<lambda>(header, vec).
     return \<lparr>lr_account = a, lr_data = data,
       lr_view = \<lparr>bvh_header = header, bvh_data = vec\<rparr>\<rparr>)))"

text \<open>Writing through the borrowed buffer: the whole view, or one entry of it.\<close>

definition store_view :: "list_ref \<Rightarrow> big_vec_with_header \<Rightarrow> unit prog" where
  "store_view r b = store (lr_account r) (bvh_write_back b (lr_data r))"

definition store_entry :: "'a list_entry \<Rightarrow> list_ref \<Rightarrow> nat \<Rightarrow> 'a \<Rightarrow> unit prog" where
  "store_entry LE r ref x = store_view r (bvh_write_ref LE (lr_view r) ref x)"

definition check_maintainer :: "lenv \<Rightarrow> lido \<Rightarrow> pubkey \<Rightarrow> account_info \<Rightarrow> u32 \<Rightarrow> account_info \<Rightarrow> unit prog" where
  "check_maintainer E l program_id list_info maintainer_index maintainer =
     with_borrow_mut list_info (\<lambda>data.
     then_do (deserialize_account_list_info (ME E) l program_id list_info data) (\<lambda>r.
     lift (case bvh_get_mut (ME E) (lr_view r) maintainer_index (key maintainer) of
         Ok x \<Rightarrow> Ok ()
       | Err e \<Rightarrow> Err (lido_err InvalidMaintainer)
       | Panic \<Rightarrow> Panic)))"

subsection \<open>Successful checks change nothing\<close>

lemma check_account_owner_eq_Ok [result_simps]:
  "check_account_owner a p w = Ok (u, w') \<longleftrightarrow> acc_owner (ledger w (key a)) = p \<and> w' = w"
  by (auto simp: check_account_owner_def result_simps)

lemma get_reserve_available_balance_eq_Ok [result_simps]:
  "get_reserve_available_balance rent a w = Ok (b, w') \<longleftrightarrow>
     lamports_sub (Lamports (acc_lamports (ledger w (key a)))) (Lamports (minimum_balance rent 0)) = Ok b \<and> w' = w"
  by (auto simp: get_reserve_available_balance_def result_simps Let_def split: result.splits)

lemma deserialize_lido_eq_Ok [result_simps]:
  "deserialize_lido E p a w = Ok (l, w') \<longleftrightarrow>
     acc_owner (ledger w (key a)) = p \<and> key a \<notin> set (borrowed w) \<and>
     lido_read E (acc_data (ledger w (key a))) = Some l \<and> lido_account_type l = Lido \<and>
     lido_lido_version l = LIDO_VERSION \<and> w' = w"
  by (auto simp: deserialize_lido_def result_simps check_lido_version_def)

lemma simple_checks_eq_Ok [result_simps]:
  "check_mint_is_st_sol_mint l a w = Ok (u, w') \<longleftrightarrow> st_sol_mint l = key a \<and> w' = w"
  "check_manager l a w = Ok (u, w') \<longleftrightarrow> manager l = key a \<and> w' = w"
  "lido_v1_check_manager l1 a w = Ok (u, w') \<longleftrightarrow> v1_manager l1 = key a \<and> w' = w"
  "check_exchange_rate_last_epoch l c w = Ok (u, w') \<longleftrightarrow>
     clock_epoch c \<le> computed_in_epoch (exchange_rate l) \<and> w' = w"
  by (auto simp: check_mint_is_st_sol_mint_def check_manager_def lido_v1_check_manager_def
      check_exchange_rate_last_epoch_def result_simps not_less)

lemma check_is_st_sol_account_OkD:
  "check_is_st_sol_account E l a w = Ok (u, w') \<Longrightarrow>
     w' = w \<and> acc_owner (ledger w (key a)) = spl_token_id E \<and>
     (\<exists>t. unpack_token_account E (acc_data (ledger w (key a))) = Ok t \<and> token_mint t = st_sol_mint l)"
  by (auto simp: check_is_st_sol_account_def result_simps split: result.splits)

lemma check_fee_accounts_OkD:
  "check_treasury_fee_st_sol_account E l a w = Ok (u, w') \<Longrightarrow>
     w' = w \<and> treasury_account (fee_recipients l) = key a"
  "check_developer_fee_st_sol_account E l a w = Ok (u, w') \<Longrightarrow>
     w' = w \<and> developer_account (fee_recipients l) = key a"
  by (auto simp: check_treasury_fee_st_sol_account_def check_developer_fee_st_sol_account_def result_simps
      dest!: check_is_st_sol_account_OkD)

lemma derived_checks_eq_Ok [result_simps]:
  "check_reserve_account E l p s a w = Ok (k, w') \<longleftrightarrow>
     get_reserve_account E l p s = Ok (key a) \<and> k = key a \<and> w' = w"
  "check_stake_authority E l p s a w = Ok (k, w') \<longleftrightarrow>
     get_stake_authority E l p s = Ok (key a) \<and> k = key a \<and> w' = w"
  by (auto simp: check_reserve_account_def check_stake_authority_def result_simps)

lemma check_can_stake_amount_eq_Ok [result_simps]:
  "check_can_stake_amount E a amount w = Ok (u, w') \<longleftrightarrow>
     MINIMUM_STAKE_ACCOUNT_BALANCE \<le> amount \<and> w' = w \<and>
     (\<exists>rent b. rent_get E = Ok rent \<and>
       lamports_sub (Lamports (acc_lamports (ledger w (key a)))) (Lamports (minimum_balance rent 0)) = Ok b \<and>
       amount \<le> b)"
  by (auto simp: check_can_stake_amount_def result_simps not_less)

lemma check_stake_account_eq_Ok [result_simps]:
  "check_stake_account E p s v seed a authority w = Ok (bump, w') \<longleftrightarrow>
     find_stake_account_address_with_authority (find_program_address E) v p s authority seed = (key a, bump) \<and>
     w' = w"
  by (auto simp: check_stake_account_def result_simps Let_def split: prod.splits)

lemma get_st_sol_supply_eq_Ok [result_simps]:
  "get_st_sol_supply E l a w = Ok (s, w') \<longleftrightarrow>
     st_sol_mint l = key a \<and> key a \<notin> set (borrowed w) \<and> w' = w \<and>
     (\<exists>m. unpack_mint E (acc_data (ledger w (key a))) = Ok m \<and> s = StLamports (mint_supply m))"
  by (auto simp: get_st_sol_supply_def result_simps)

definition list_address :: "'a list_entry \<Rightarrow> lido \<Rightarrow> pubkey option" where
  "list_address LE l = (case le_type LE of
       Validator \<Rightarrow> Some (validator_list l) | Maintainer \<Rightarrow> Some (maintainer_list l)
     | ValidatorPerf \<Rightarrow> Some (validator_perf_list l) | Uninitialized \<Rightarrow> None | Lido \<Rightarrow> None)"

lemma deserialize_account_list_info_eq_Ok [result_simps]:
  "deserialize_account_list_info LE l p a data w = Ok (r, w') \<longleftrightarrow>
     list_address LE l = Some (key a) \<and> acc_owner (ledger w (key a)) = p \<and> w' = w \<and>
     (\<exists>h vec. deserialize_vec LE data = Ok (h, vec) \<and>
       r = \<lparr>lr_account = a, lr_data = data, lr_view = \<lparr>bvh_header = h, bvh_data = vec\<rparr>\<rparr>)"
  by (cases "le_type LE")
    (auto simp: deserialize_account_list_info_def check_account_list_info_def list_address_def result_simps)

lemma case_unit_eq_Ok [result_simps]:
  "(case r of Ok x \<Rightarrow> Ok () | Err e \<Rightarrow> Err f | Panic \<Rightarrow> Panic) = Ok u \<longleftrightarrow> (\<exists>x. r = Ok x)"
  by (cases r) auto

lemma check_maintainer_OkD:
  assumes "check_maintainer E l p list_info i m w = Ok (u, w')"
  shows "w' = w" and "list_address (ME E) l = Some (key list_info)"
    and "acc_owner (ledger w (key list_info)) = p"
    and "\<exists>h vec ref x. deserialize_vec (ME E) (acc_data (ledger w (key list_info))) = Ok (h, vec) \<and>
      bvh_get_mut (ME E) \<lparr>bvh_header = h, bvh_data = vec\<rparr> i (key m) = Ok (ref, x)"
  using assms
  by (auto simp: check_maintainer_def result_simps)

end
