(* ===== verification/Logic.thy ===== *)
theory Logic
  imports LidoChecks
begin

text \<open>
  \<^verbatim>\<open>program/src/logic.rs\<close>: checks on accounts at initialisation, the helpers that
  invoke the system, stake and token programs, and the distribution of fees.
  Where the source passes a struct of accounts, the accounts it uses are arguments.
\<close>

subsection \<open>Checks\<close>

definition check_rent_exempt :: "rent \<Rightarrow> account_info \<Rightarrow> unit prog" where
  "check_rent_exempt rent a =
     then_do (lamports_of a) (\<lambda>l.
     then_do (data_len a) (\<lambda>n.
     require (is_exempt rent (lam l) n) AccountNotRentExempt))"

definition check_mint :: "lenv \<Rightarrow> rent \<Rightarrow> account_info \<Rightarrow> pubkey \<Rightarrow> unit prog" where
  "check_mint E rent mint mint_authority =
     then_do (check_account_owner mint (spl_token_id E)) (\<lambda>u.
     then_do (lamports_of mint) (\<lambda>l.
     then_do (data_len mint) (\<lambda>n.
     then_do (require (is_exempt rent (lam l) n) AccountNotRentExempt) (\<lambda>u.
     then_do (data_borrow mint) (\<lambda>d.
     then_do (lift (unpack_mint E d)) (\<lambda>m.
     then_do (require (mint_supply m = 0) (lido_err InvalidMint)) (\<lambda>u.
     then_do (case mint_mint_authority m of
         Some authority \<Rightarrow> require (authority = mint_authority) (lido_err InvalidMint)
       | None \<Rightarrow> fail_lido InvalidMint) (\<lambda>u.
     case mint_freeze_authority m of
         Some authority \<Rightarrow> fail_lido InvalidMint
       | None \<Rightarrow> return ()))))))))"

definition does_perform_well :: "criteria \<Rightarrow> u8 \<Rightarrow> validator_perf option \<Rightarrow> bool" where
  "does_perform_well c comm perf \<longleftrightarrow>
     (case perf of None \<Rightarrow> True | Some p \<Rightarrow> meets_criteria p c) \<and> comm \<le> max_commission c"

definition check_account_data :: "lenv \<Rightarrow> account_info \<Rightarrow> nat \<Rightarrow> unit prog" where
  "check_account_data E a expected_size =
     then_do (data_borrow a) (\<lambda>d.
     let bytes_to_check = min (length d) (get_bytes_to_check (VE E) (ME E)) in
     then_do (require (\<forall>b \<in> set (take bytes_to_check d). b = 0) (lido_err AlreadyInUse)) (\<lambda>u.
     then_do (data_write a (\<lambda>d. Ok (take bytes_to_check d @ replicate (length d - bytes_to_check) 0))) (\<lambda>u.
     then_do (data_len a) (\<lambda>n.
     require (\<not> n < expected_size) (lido_err InvalidAccountSize)))))"

subsection \<open>Invoking other programs\<close>

definition create_account_even_if_funded ::
  "lenv \<Rightarrow> pubkey \<Rightarrow> lamports \<Rightarrow> u64 \<Rightarrow> pubkey \<Rightarrow> u8 list list \<Rightarrow> account_info \<Rightarrow>
   account_info \<Rightarrow> u8 \<Rightarrow> account_info \<Rightarrow> unit prog" where
  "create_account_even_if_funded E solido_address fund_amount data_size owner sign_seeds acc
     reserve reserve_account_bump_seed system_program =
     (let reserve_account_seeds =
        [pubkey_bytes solido_address, RESERVE_ACCOUNT, [reserve_account_bump_seed]] in
      then_do (invoke_signed E (SystemAllocate (key acc) data_size) [acc, system_program] [sign_seeds]) (\<lambda>u.
      then_do (invoke_signed E (SystemAssign (key acc) owner) [acc, system_program] [sign_seeds]) (\<lambda>u.
      invoke_signed E (SystemTransfer (key reserve) (key acc) (lam fund_amount))
        [reserve, acc, system_program] [reserve_account_seeds, sign_seeds])))"

definition initialize_stake_account_undelegated ::
  "lenv \<Rightarrow> pubkey \<Rightarrow> account_info \<Rightarrow> account_info \<Rightarrow> account_info \<Rightarrow> unit prog" where
  "initialize_stake_account_undelegated E stake_authority stake_account sysvar_rent stake_program =
     invoke E (StakeInitialize (key stake_account) stake_authority stake_authority)
       [stake_account, sysvar_rent, stake_program]"

definition mint_st_sol_to ::
  "lenv \<Rightarrow> lido \<Rightarrow> pubkey \<Rightarrow> account_info \<Rightarrow> account_info \<Rightarrow> account_info \<Rightarrow> account_info \<Rightarrow>
   st_lamports \<Rightarrow> unit prog" where
  "mint_st_sol_to E solido solido_address spl_token_program mint mint_authority recipient amount =
     then_do (check_mint_is_st_sol_mint solido mint) (\<lambda>u.
     then_do (check_is_st_sol_account E solido recipient) (\<lambda>u.
     then_do (lift (mint_to_instruction E (key spl_token_program) (key mint) (key recipient)
       (key mint_authority) (st_lam amount))) (\<lambda>ins.
     invoke_signed E ins [mint, recipient, mint_authority, spl_token_program]
       [[pubkey_bytes solido_address, MINT_AUTHORITY, [mint_authority_bump_seed solido]]])))"

definition burn_st_sol ::
  "lenv \<Rightarrow> lido \<Rightarrow> account_info \<Rightarrow> account_info \<Rightarrow> account_info \<Rightarrow> account_info \<Rightarrow> st_lamports \<Rightarrow> unit prog" where
  "burn_st_sol E solido st_sol_account_owner st_sol_account mint spl_token amount =
     then_do (check_mint_is_st_sol_mint solido mint) (\<lambda>u.
     then_do (check_is_st_sol_account E solido st_sol_account) (\<lambda>u.
     then_do (data_borrow st_sol_account) (\<lambda>d.
     then_do (lift (unpack_token_account E d)) (\<lambda>t.
     then_do (require (token_owner t = key st_sol_account_owner) (lido_err InvalidTokenOwner)) (\<lambda>u.
     then_do (lift (burn_instruction E (key spl_token) (key st_sol_account) (key mint)
       (key st_sol_account_owner) (st_lam amount))) (\<lambda>ins.
     invoke E ins [st_sol_account, mint, st_sol_account_owner, spl_token]))))))"

definition transfer_stake_authority ::
  "lenv \<Rightarrow> account_info \<Rightarrow> account_info \<Rightarrow> account_info \<Rightarrow> account_info \<Rightarrow> account_info \<Rightarrow> account_info \<Rightarrow>
   u8 \<Rightarrow> unit prog" where
  "transfer_stake_authority E lido_info st_sol_account_owner destination_stake_account stake_authority
     sysvar_clock stake_program bump =
     (let infos = [destination_stake_account, sysvar_clock, stake_authority, stake_program];
          seeds = [[pubkey_bytes (key lido_info), STAKE_AUTHORITY, [bump]]] in
      then_do (invoke_signed E (StakeAuthorize (key destination_stake_account) (key stake_authority)
        (key st_sol_account_owner) Withdrawer) infos seeds) (\<lambda>u.
      invoke_signed E (StakeAuthorize (key destination_stake_account) (key stake_authority)
        (key st_sol_account_owner) Staker) infos seeds))"

definition split_stake_account ::
  "lenv \<Rightarrow> pubkey \<Rightarrow> lido \<Rightarrow> account_info \<Rightarrow> account_info \<Rightarrow> account_info \<Rightarrow> account_info \<Rightarrow> account_info \<Rightarrow>
   lamports \<Rightarrow> u8 list list list \<Rightarrow> unit prog" where
  "split_stake_account E lido_address l source destination authority system_program stake_program amount seeds =
     (let ins = split_instructions E (key source) (key authority) (lam amount) (key destination) in
      then_do (lift (assert (length ins = 3))) (\<lambda>u.
      then_do (invoke_signed E (ins ! 0) [destination, system_program] seeds) (\<lambda>u.
      then_do (invoke_signed E (ins ! 1) [destination, system_program] seeds) (\<lambda>u.
      invoke_signed E (ins ! 2) [source, destination, authority, stake_program]
        [[pubkey_bytes lido_address, STAKE_AUTHORITY, [stake_authority_bump_seed l]]]))))"

subsection \<open>Fees\<close>

definition distribute_fees ::
  "lenv \<Rightarrow> lido \<Rightarrow> account_info \<Rightarrow> account_info \<Rightarrow> account_info \<Rightarrow> account_info \<Rightarrow> account_info \<Rightarrow> account_info \<Rightarrow>
   clock \<Rightarrow> lamports \<Rightarrow> lido prog" where
  "distribute_fees E l lido_info mint mint_authority treasury_st_sol_account developer_st_sol_account
     spl_token_program clock rewards =
     (if rewards = Lamports 0 then return l
      else
        then_do (check_mint_is_st_sol_mint l mint) (\<lambda>u.
        then_do (check_treasury_fee_st_sol_account E l treasury_st_sol_account) (\<lambda>u.
        then_do (check_developer_fee_st_sol_account E l developer_st_sol_account) (\<lambda>u.
        then_do (check_exchange_rate_last_epoch l clock) (\<lambda>u.
        then_do (lift (from_arith (split_reward (reward_distribution l) rewards))) (\<lambda>f.
        then_do (lift (from_arith (exchange_sol (exchange_rate l) (treasury_amount f)))) (\<lambda>treasury.
        then_do (lift (from_arith (exchange_sol (exchange_rate l) (developer_amount f)))) (\<lambda>developer.
        then_do (mint_st_sol_to E l (key lido_info) spl_token_program mint mint_authority
          treasury_st_sol_account treasury) (\<lambda>u.
        then_do (mint_st_sol_to E l (key lido_info) spl_token_program mint mint_authority
          developer_st_sol_account developer) (\<lambda>u.
        then_do (lift (from_arith (observe_fee_treasury (lido_metrics l) (treasury_amount f) treasury))) (\<lambda>m1.
        then_do (lift (from_arith (observe_fee_developer m1 (developer_amount f) developer))) (\<lambda>m2.
        then_do (lift (from_arith (observe_reward_st_sol_appreciation m2 (st_sol_appreciation_amount f)))) (\<lambda>m3.
        return (l\<lparr>lido_metrics := m3\<rparr>))))))))))))))"

definition check_unstake_accounts ::
  "lenv \<Rightarrow> pubkey \<Rightarrow> validator \<Rightarrow> account_info \<Rightarrow> account_info \<Rightarrow> account_info \<Rightarrow> u8 prog" where
  "check_unstake_accounts E program_id v lido_info source_stake_account destination_unstake_account =
     then_do (require (has_stake_accounts v) (lido_err InvalidStakeAccount)) (\<lambda>u.
     let source_stake_seed = seed_begin (stake_seeds v);
         destination_stake_seed = seed_end (unstake_seeds v);
         (source, b) = find_stake_account_address (find_program_address E) v program_id (key lido_info)
           source_stake_seed stake_type.Stake in
     then_do (require (source = key source_stake_account) (lido_err InvalidStakeAccount)) (\<lambda>u.
     let (destination, destination_bump_seed) =
           find_stake_account_address (find_program_address E) v program_id (key lido_info)
             destination_stake_seed stake_type.Unstake in
     then_do (require (destination = key destination_unstake_account) (lido_err InvalidStakeAccount)) (\<lambda>u.
     return destination_bump_seed)))"

subsection \<open>What successful helpers did\<close>

lemma check_rent_exempt_OkD: "check_rent_exempt rent a w = Ok (u, w') \<Longrightarrow> w' = w"
  by (auto simp: check_rent_exempt_def result_simps)

lemma check_mint_OkD: "check_mint E rent a k w = Ok (u, w') \<Longrightarrow> w' = w"
  by (auto simp: check_mint_def result_simps split: option.splits)

lemma check_unstake_accounts_OkD:
  "check_unstake_accounts E p v li s d w = Ok (bump, w') \<Longrightarrow>
     w' = w \<and> has_stake_accounts v \<and>
     fst (find_stake_account_address (find_program_address E) v p (key li)
       (seed_begin (stake_seeds v)) stake_type.Stake) = key s \<and>
     find_stake_account_address (find_program_address E) v p (key li)
       (seed_end (unstake_seeds v)) stake_type.Unstake = (key d, bump)"
  by (auto simp: check_unstake_accounts_def result_simps Let_def split: prod.splits)

end
