(* ===== verification/Management.thy ===== *)
theory Management
  imports Logic
begin

text \<open>
  \<^verbatim>\<open>program/src/process_management.rs\<close>: the handlers for validators,
  maintainers, rewards and criteria, and merging of stake accounts. A handler takes the
  instruction's arguments and its accounts; the fields of the accounts struct are
  named from the parsed list in the order of the struct.
\<close>

definition process_change_reward_distribution ::
  "lenv \<Rightarrow> pubkey \<Rightarrow> reward_distribution \<Rightarrow> account_info list \<Rightarrow> unit prog" where
  "process_change_reward_distribution E program_id new_reward_distribution accounts_raw =
     then_do (lift (info_try_from_slice (change_reward_distribution_accounts E) accounts_raw)) (\<lambda>(accs, multi).
     let lido_info = accs ! 0; manager_info = accs ! 1; treasury_info = accs ! 2; developer_info = accs ! 3 in
     then_do (deserialize_lido E program_id lido_info) (\<lambda>l.
     then_do (check_manager l manager_info) (\<lambda>u.
     then_do (check_is_st_sol_account E l treasury_info) (\<lambda>u.
     then_do (check_is_st_sol_account E l developer_info) (\<lambda>u.
     save E (l\<lparr>reward_distribution := new_reward_distribution,
               fee_recipients := \<lparr>treasury_account = key treasury_info,
                                  developer_account = key developer_info\<rparr>\<rparr>) lido_info)))))"

definition process_add_validator :: "lenv \<Rightarrow> pubkey \<Rightarrow> account_info list \<Rightarrow> unit prog" where
  "process_add_validator E program_id accounts_raw =
     then_do (lift (info_try_from_slice (add_validator_accounts E) accounts_raw)) (\<lambda>(accs, multi).
     let lido_info = accs ! 0; manager_info = accs ! 1; vote_info = accs ! 2; list_info = accs ! 3 in
     then_do (deserialize_lido E program_id lido_info) (\<lambda>l.
     then_do (lift (rent_get E)) (\<lambda>rent.
     then_do (check_manager l manager_info) (\<lambda>u.
     then_do (check_rent_exempt rent vote_info) (\<lambda>u.
     then_do (owner_of vote_info) (\<lambda>vote_owner.
     then_do (data_borrow vote_info) (\<lambda>vote_data.
     then_do (lift (from_lido (partial_vote_state_deserialize (vote_program_id E) vote_owner vote_data
       (max_commission (lido_criteria l))))) (\<lambda>partial_vote_state.
     with_borrow_mut list_info (\<lambda>data.
     then_do (deserialize_account_list_info (VE E) l program_id list_info data) (\<lambda>r.
     then_do (lift (bvh_push (VE E) (lr_view r) (validator_new (key vote_info)))) (\<lambda>b.
     store_view r b)))))))))))"

definition process_remove_validator :: "lenv \<Rightarrow> pubkey \<Rightarrow> u32 \<Rightarrow> account_info list \<Rightarrow> unit prog" where
  "process_remove_validator E program_id validator_index accounts_raw =
     then_do (lift (info_try_from_slice (remove_validator_accounts E) accounts_raw)) (\<lambda>(accs, multi).
     let lido_info = accs ! 0; vote_info = accs ! 1; list_info = accs ! 2 in
     then_do (deserialize_lido E program_id lido_info) (\<lambda>l.
     with_borrow_mut list_info (\<lambda>data.
     then_do (deserialize_account_list_info (VE E) l program_id list_info data) (\<lambda>r.
     then_do (lift (bvh_remove (VE E) (lr_view r) validator_index (key vote_info))) (\<lambda>(removed_validator, b).
     then_do (store_view r b) (\<lambda>u.
     lift (from_lido (check_can_be_removed removed_validator))))))))"

definition process_enqueue_validator_for_removal ::
  "lenv \<Rightarrow> pubkey \<Rightarrow> u32 \<Rightarrow> account_info list \<Rightarrow> unit prog" where
  "process_enqueue_validator_for_removal E program_id validator_index accounts_raw =
     then_do (lift (info_try_from_slice (deactivate_validator_accounts E) accounts_raw)) (\<lambda>(accs, multi).
     let lido_info = accs ! 0; manager_info = accs ! 1; vote_info = accs ! 2; list_info = accs ! 3 in
     then_do (deserialize_lido E program_id lido_info) (\<lambda>l.
     then_do (check_manager l manager_info) (\<lambda>u.
     with_borrow_mut list_info (\<lambda>data.
     then_do (deserialize_account_list_info (VE E) l program_id list_info data) (\<lambda>r.
     then_do (lift (bvh_get_mut (VE E) (lr_view r) validator_index (key vote_info))) (\<lambda>(ref, v).
     store_entry (VE E) r ref (enqueue_for_removal v)))))))"

definition process_deactivate_validator :: "lenv \<Rightarrow> pubkey \<Rightarrow> u32 \<Rightarrow> account_info list \<Rightarrow> unit prog" where
  "process_deactivate_validator E program_id validator_index accounts_raw =
     then_do (lift (info_try_from_slice (deactivate_validator_accounts E) accounts_raw)) (\<lambda>(accs, multi).
     let lido_info = accs ! 0; manager_info = accs ! 1; vote_info = accs ! 2; list_info = accs ! 3 in
     then_do (deserialize_lido E program_id lido_info) (\<lambda>l.
     then_do (check_manager l manager_info) (\<lambda>u.
     with_borrow_mut list_info (\<lambda>data.
     then_do (deserialize_account_list_info (VE E) l program_id list_info data) (\<lambda>r.
     then_do (lift (bvh_get_mut (VE E) (lr_view r) validator_index (key vote_info))) (\<lambda>(ref, v).
     store_entry (VE E) r ref (deactivate v)))))))"

text \<open>The part that the two permissionless handlers share: is the validator's performance bad?\<close>

definition violates_criteria ::
  "lenv \<Rightarrow> lido \<Rightarrow> list_ref \<Rightarrow> account_info \<Rightarrow> bool prog" where
  "violates_criteria E l perfs vote_info =
     then_do (owner_of vote_info) (\<lambda>owner.
     if owner = vote_program_id E then
       then_do (lift (bv_iter_find (le_layout (PE E)) (bvh_data (lr_view perfs))
         (\<lambda>perf. validator_vote_account_address perf = key vote_info))) (\<lambda>perf.
       then_do (data_borrow vote_info) (\<lambda>d.
       then_do (lift (from_lido (get_vote_account_commission d))) (\<lambda>comm.
       return (\<not> does_perform_well (lido_criteria l) comm (map_option snd perf)))))
     else return True)"

definition process_deactivate_if_violates :: "lenv \<Rightarrow> pubkey \<Rightarrow> account_info list \<Rightarrow> unit prog" where
  "process_deactivate_if_violates E program_id accounts_raw =
     then_do (lift (info_try_from_slice (deactivate_if_violates_accounts E) accounts_raw)) (\<lambda>(accs, multi).
     let lido_info = accs ! 0; vote_info = accs ! 1; list_info = accs ! 2; perf_list_info = accs ! 3 in
     then_do (deserialize_lido E program_id lido_info) (\<lambda>l.
     with_borrow_mut perf_list_info (\<lambda>perf_data.
     then_do (deserialize_account_list_info (PE E) l program_id perf_list_info perf_data) (\<lambda>perfs.
     with_borrow_mut list_info (\<lambda>data.
     then_do (deserialize_account_list_info (VE E) l program_id list_info data) (\<lambda>r.
     then_do (lift (bv_iter_find (le_layout (VE E)) (bvh_data (lr_view r))
       (\<lambda>v. vote_account_address v = key vote_info))) (\<lambda>found.
     case found of
       None \<Rightarrow> fail_lido InvalidAccountInfo
     | Some (ref, v) \<Rightarrow>
         if \<not> is_active v then return ()
         else
           then_do (violates_criteria E l perfs vote_info) (\<lambda>should_deactivate.
           if \<not> should_deactivate then return ()
           else store_entry (VE E) r ref (deactivate v)))))))))"

definition process_reactivate_if_complies :: "lenv \<Rightarrow> pubkey \<Rightarrow> account_info list \<Rightarrow> unit prog" where
  "process_reactivate_if_complies E program_id accounts_raw =
     then_do (lift (info_try_from_slice (deactivate_if_violates_accounts E) accounts_raw)) (\<lambda>(accs, multi).
     let lido_info = accs ! 0; vote_info = accs ! 1; list_info = accs ! 2; perf_list_info = accs ! 3 in
     then_do (deserialize_lido E program_id lido_info) (\<lambda>l.
     with_borrow_mut perf_list_info (\<lambda>perf_data.
     then_do (deserialize_account_list_info (PE E) l program_id perf_list_info perf_data) (\<lambda>perfs.
     with_borrow_mut list_info (\<lambda>data.
     then_do (deserialize_account_list_info (VE E) l program_id list_info data) (\<lambda>r.
     then_do (lift (bv_iter_find (le_layout (VE E)) (bvh_data (lr_view r))
       (\<lambda>v. vote_account_address v = key vote_info))) (\<lambda>found.
     case found of
       None \<Rightarrow> fail_lido InvalidAccountInfo
     | Some (ref, v) \<Rightarrow>
         if is_active v then return ()
         else
           then_do (violates_criteria E l perfs vote_info) (\<lambda>should_be_inactive.
           if should_be_inactive then return ()
           else store_entry (VE E) r ref (activate v)))))))))"

definition process_add_maintainer :: "lenv \<Rightarrow> pubkey \<Rightarrow> account_info list \<Rightarrow> unit prog" where
  "process_add_maintainer E program_id accounts_raw =
     then_do (lift (info_try_from_slice (add_maintainer_accounts E) accounts_raw)) (\<lambda>(accs, multi).
     let lido_info = accs ! 0; manager_info = accs ! 1; maintainer_info = accs ! 2; list_info = accs ! 3 in
     then_do (deserialize_lido E program_id lido_info) (\<lambda>l.
     then_do (check_manager l manager_info) (\<lambda>u.
     with_borrow_mut list_info (\<lambda>data.
     then_do (deserialize_account_list_info (ME E) l program_id list_info data) (\<lambda>r.
     then_do (lift (bvh_push (ME E) (lr_view r) (maintainer_new (key maintainer_info)))) (\<lambda>b.
     store_view r b))))))"

definition process_remove_maintainer :: "lenv \<Rightarrow> pubkey \<Rightarrow> u32 \<Rightarrow> account_info list \<Rightarrow> unit prog" where
  "process_remove_maintainer E program_id maintainer_index accounts_raw =
     then_do (lift (info_try_from_slice (remove_maintainer_accounts E) accounts_raw)) (\<lambda>(accs, multi).
     let lido_info = accs ! 0; manager_info = accs ! 1; maintainer_info = accs ! 2; list_info = accs ! 3 in
     then_do (deserialize_lido E program_id lido_info) (\<lambda>l.
     then_do (check_manager l manager_info) (\<lambda>u.
     with_borrow_mut list_info (\<lambda>data.
     then_do (deserialize_account_list_info (ME E) l program_id list_info data) (\<lambda>r.
     then_do (lift (bvh_remove (ME E) (lr_view r) maintainer_index (key maintainer_info))) (\<lambda>(x, b).
     store_view r b))))))"

definition process_change_criteria :: "lenv \<Rightarrow> pubkey \<Rightarrow> criteria \<Rightarrow> account_info list \<Rightarrow> unit prog" where
  "process_change_criteria E program_id new_criteria accounts_raw =
     then_do (require (\<not> max_commission new_criteria > 100) (lido_err ValidationCommissionOutOfBounds)) (\<lambda>u.
     then_do (lift (info_try_from_slice (change_criteria_accounts E) accounts_raw)) (\<lambda>(accs, multi).
     let lido_info = accs ! 0; manager_info = accs ! 1 in
     then_do (deserialize_lido E program_id lido_info) (\<lambda>l.
     then_do (check_manager l manager_info) (\<lambda>u.
     save E (l\<lparr>lido_criteria := new_criteria\<rparr>) lido_info))))"

definition process_merge_stake :: "lenv \<Rightarrow> pubkey \<Rightarrow> u32 \<Rightarrow> account_info list \<Rightarrow> unit prog" where
  "process_merge_stake E program_id validator_index accounts_raw =
     then_do (lift (info_try_from_slice (merge_stake_accounts E) accounts_raw)) (\<lambda>(accs, multi).
     let lido_info = accs ! 0; vote_info = accs ! 1; from_stake = accs ! 2; to_stake = accs ! 3;
         stake_authority = accs ! 4; list_info = accs ! 5; sysvar_clock = accs ! 6;
         stake_history = accs ! 7; stake_program = accs ! 8 in
     then_do (deserialize_lido E program_id lido_info) (\<lambda>l.
     with_borrow_mut list_info (\<lambda>data.
     then_do (deserialize_account_list_info (VE E) l program_id list_info data) (\<lambda>r.
     then_do (lift (bvh_get_mut (VE E) (lr_view r) validator_index (key vote_info))) (\<lambda>(ref, v).
     let from_seed = seed_begin (stake_seeds v); to_seed = seed_begin (stake_seeds v) + 1 in
     then_do (require (\<not> to_seed \<ge> seed_end (stake_seeds v)) (lido_err InvalidStakeAccount)) (\<lambda>u.
     let (from_stake_addr, b1) = find_stake_account_address (find_program_address E) v program_id
           (key lido_info) from_seed stake_type.Stake in
     then_do (require (from_stake_addr = key from_stake) (lido_err InvalidStakeAccount)) (\<lambda>u.
     let (to_stake_addr, b2) = find_stake_account_address (find_program_address E) v program_id
           (key lido_info) to_seed stake_type.Stake in
     then_do (require (to_stake_addr = key to_stake) (lido_err InvalidStakeAccount)) (\<lambda>u.
     then_do (store_entry (VE E) r ref
       (v\<lparr>stake_seeds := (stake_seeds v)\<lparr>seed_begin := seed_begin (stake_seeds v) + 1\<rparr>\<rparr>)) (\<lambda>u.
     let ins = merge_instructions E to_stake_addr from_stake_addr (key stake_authority) in
     then_do (lift (assert (length ins = 1))) (\<lambda>u.
     invoke_signed E (ins ! 0)
       [from_stake, to_stake, sysvar_clock, stake_history, stake_authority, stake_program]
       [[pubkey_bytes (key lido_info), STAKE_AUTHORITY, [stake_authority_bump_seed l]]]))))))))))"

end
