(* ===== verification/Balance.thy ===== *)
theory Balance
  imports Lists
begin

text \<open>
  \<^verbatim>\<open>program/src/balance.rs\<close>: how stake should be spread over the validators,
  which validator to unstake from, which one to stake with and which one to
  withdraw from. Every \<open>expect\<close> and \<open>assert!\<close> of the source is a branch to
  \<open>Panic\<close>, so the theorems below also show that they never fire.
\<close>

abbreviation raw_balance :: "validator \<Rightarrow> nat" where
  "raw_balance v \<equiv> unat (lam (stake_accounts_balance v))"

definition iter_active :: "validator account_list \<Rightarrow> validator list" where
  "iter_active vs = filter is_active (entries vs)"

text \<open>The loop that hands out the remainder, one lamport per active validator.\<close>

fun distribute_remainder ::
  "lamports \<Rightarrow> (lamports \<times> validator) list \<Rightarrow> (lamports list, lido_error) result" where
  "distribute_remainder remainder [] = Ok []"
| "distribute_remainder remainder ((target, v) # rest) =
     (if remainder = Lamports 0 then Ok (target # map fst rest)
      else if is_active v then
        and_then (expect (lamports_add target (Lamports 1))) (\<lambda>target'.
        and_then (expect (lamports_sub remainder (Lamports 1))) (\<lambda>remainder'.
        map_ok (\<lambda>ts. target' # ts) (distribute_remainder remainder' rest)))
      else map_ok (\<lambda>ts. target # ts) (distribute_remainder remainder rest))"

definition get_target_balance ::
  "lamports \<Rightarrow> validator account_list \<Rightarrow> (lamports list, lido_error) result" where
  "get_target_balance undelegated_lamports vs =
     and_then (map_err lido_error_of_arithmetic
       (and_then (lamports_sum (map stake_accounts_balance (entries vs)))
          (\<lambda>t. lamports_add t undelegated_lamports))) (\<lambda>total_lamports.
     let num_active_validators = word_of_nat (length (iter_active vs)) :: u64 in
     if num_active_validators = 0 then Err NoActiveValidators
     else
       and_then (expect (lamports_mul_rational total_lamports
         \<lparr>numerator = 1, denominator = num_active_validators\<rparr>)) (\<lambda>lamports_per_validator.
       let target_balance = map (\<lambda>v. if is_active v then lamports_per_validator else Lamports 0) (entries vs) in
       and_then (expect (lamports_sum target_balance)) (\<lambda>total_lamports_distributed.
       and_then (expect (lamports_sub total_lamports total_lamports_distributed)) (\<lambda>remainder.
       and_then (assert (lam remainder < num_active_validators)) (\<lambda>u.
       and_then (distribute_remainder remainder (zip target_balance (entries vs))) (\<lambda>target_balance.
       and_then (expect (lamports_sum target_balance)) (\<lambda>total_lamports_distributed.
       and_then (assert (total_lamports_distributed = total_lamports)) (\<lambda>u.
       Ok target_balance))))))))"

text \<open>\<open>Iterator::any\<close> with a closure that may panic stops at the first hit.\<close>

fun any_result :: "('a \<Rightarrow> (bool, 'e) result) \<Rightarrow> 'a list \<Rightarrow> (bool, 'e) result" where
  "any_result f [] = Ok False"
| "any_result f (x # xs) = and_then (f x) (\<lambda>b. if b then Ok True else any_result f xs)"

fun map_try :: "('a \<Rightarrow> ('b, 'e) result) \<Rightarrow> 'a list \<Rightarrow> ('b list, 'e) result" where
  "map_try f [] = Ok []"
| "map_try f (x # xs) = and_then (f x) (\<lambda>y. map_ok (\<lambda>ys. y # ys) (map_try f xs))"

definition get_unstake_validator_index ::
  "validator account_list \<Rightarrow> lamports list \<Rightarrow> rational \<Rightarrow> ((nat \<times> lamports) option, lido_error) result" where
  "get_unstake_validator_index vs target_balance threshold =
     and_then (any_result (\<lambda>(v, target).
       and_then (compute_effective_stake_balance v) (\<lambda>eff.
       let target_difference = saturating_sub (lam target) (lam eff) in
       if target = Lamports 0 then Ok False
       else Ok (rational_ge \<lparr>numerator = target_difference, denominator = lam target\<rparr> threshold)))
       (zip (entries vs) target_balance)) (\<lambda>needs_unstake.
     and_then (map_try (\<lambda>((idx, v), target).
       map_ok (\<lambda>eff. (saturating_sub (lam eff) (lam target), idx, v, target))
         (compute_effective_stake_balance v))
       (zip (enumerate 0 (entries vs)) target_balance)) (\<lambda>keyed.
     case max_by_key fst keyed of
       None \<Rightarrow> Ok None
     | Some (key, idx, v, target) \<Rightarrow>
         and_then (compute_effective_stake_balance v) (\<lambda>eff.
         let amount = saturating_sub (lam eff) (lam target);
             ratio = \<lparr>numerator = amount, denominator = lam target\<rparr> in
         if rational_ge ratio threshold \<or> needs_unstake then Ok (Some (idx, Lamports amount))
         else Ok None)))"

text \<open>The loop state is the index, the lowest balance so far, and the amount.\<close>

definition minimum_stake_step ::
  "nat \<times> lamports \<times> lamports \<Rightarrow> nat \<times> validator \<times> lamports \<Rightarrow> (nat \<times> lamports \<times> lamports, lido_error) result" where
  "minimum_stake_step = (\<lambda>(index, lowest_balance, amount) (i, v, target).
     if \<not> is_active v then Ok (index, lowest_balance, amount)
     else
       and_then (compute_effective_stake_balance v) (\<lambda>eff.
       if eff < lowest_balance
       then Ok (i, eff, Lamports (saturating_sub (lam target) (lam eff)))
       else Ok (index, lowest_balance, amount)))"

definition get_minimum_stake_validator_index_amount ::
  "validator account_list \<Rightarrow> lamports list \<Rightarrow> (nat \<times> lamports, lido_error) result" where
  "get_minimum_stake_validator_index_amount vs target_balance =
     and_then (assert (length (entries vs) = length target_balance)) (\<lambda>u.
     and_then (unwrap_opt (position is_active (entries vs))) (\<lambda>index.
     and_then (compute_effective_stake_balance (entries vs ! index)) (\<lambda>lowest_balance.
     let amount = Lamports (saturating_sub (lam (target_balance ! index)) (lam lowest_balance)) in
     and_then (try_fold minimum_stake_step (index, lowest_balance, amount)
       (enumerate 0 (zip (entries vs) target_balance))) (\<lambda>(index, lowest_balance, amount).
     Ok (index, amount)))))"

definition get_validator_to_withdraw :: "validator account_list \<Rightarrow> (validator, lido_error) result" where
  "get_validator_to_withdraw vs =
     and_then (map_try (\<lambda>v. map_ok (\<lambda>eff. (eff, v)) (compute_effective_stake_balance v)) (entries vs)) (\<lambda>keyed.
     ok_or (map_option snd (max_by_key fst keyed)) NoActiveValidators)"

subsection \<open>Target balances\<close>

abbreviation sol :: "lamports \<Rightarrow> nat" where
  "sol a \<equiv> unat (lam a)"

lemma sum_targets:
  "(\<Sum>v\<leftarrow>xs. sol (if is_active v then q else Lamports 0)) = length (filter is_active xs) * sol q"
  by (induction xs) auto

definition active_before :: "validator list \<Rightarrow> nat \<Rightarrow> nat" where
  "active_before xs i = length (filter is_active (take i xs))"

text \<open>What the loop returns: the first \<open>r\<close> active validators get one lamport more.\<close>

fun spread :: "nat \<Rightarrow> nat \<Rightarrow> validator list \<Rightarrow> nat list" where
  "spread q r [] = []"
| "spread q r (v # vs) =
     (if is_active v then (if r = 0 then q else Suc q) # spread q (r - 1) vs else 0 # spread q r vs)"

lemma length_spread [simp]: "length (spread q r vs) = length vs"
  by (induction q r vs rule: spread.induct) auto

lemma spread_zero: "spread q 0 vs = map (\<lambda>v. if is_active v then q else 0) vs"
  by (induction vs) auto

lemma sum_list_spread:
  "r \<le> length (filter is_active vs) \<Longrightarrow> sum_list (spread q r vs) = length (filter is_active vs) * q + r"
proof (induction q r vs rule: spread.induct)
  case (2 q r v vs)
  show ?case
  proof (cases "is_active v \<and> r \<noteq> 0")
    case True
    then have "r - 1 \<le> length (filter is_active vs)" using 2 by auto
    then show ?thesis using 2 True by auto
  next
    case False
    then show ?thesis using 2 by auto
  qed
qed auto

lemma spread_nth:
  "i < length vs \<Longrightarrow> spread q r vs ! i =
     (if is_active (vs ! i) then (if active_before vs i < r then Suc q else q) else 0)"
proof (induction q r vs arbitrary: i rule: spread.induct)
  case (2 q r v vs)
  show ?case
  proof (cases i)
    case 0
    then show ?thesis by (auto simp: active_before_def)
  next
    case (Suc j)
    then show ?thesis using 2 by (auto simp: active_before_def)
  qed
qed simp

lemma distribute_remainder_spread:
  assumes "sol r = 0 \<or> sol q < 2 ^ 64 - 1" and "sol r \<le> length (filter is_active vs)"
  shows "\<exists>ts. distribute_remainder r (zip (map (\<lambda>v. if is_active v then q else Lamports 0) vs) vs) = Ok ts \<and>
    map sol ts = spread (sol q) (sol r) vs"
  using assms
proof (induction vs arbitrary: r)
  case Nil
  then show ?case by simp
next
  case (Cons v vs)
  have zero: "r = Lamports 0 \<longleftrightarrow> sol r = 0" by (simp add: lamports_eq_iff)
  show ?case
  proof (cases "sol r = 0 \<or> \<not> is_active v")
    case True
    then show ?thesis
    proof (cases "sol r = 0")
      case True
      have "map fst (zip (map (\<lambda>v. if is_active v then q else Lamports 0) vs) vs) =
          map (\<lambda>v. if is_active v then q else Lamports 0) vs" by simp
      then show ?thesis using True zero by (auto simp: spread_zero comp_def)
    next
      case False
      then obtain ts where "distribute_remainder r (zip (map (\<lambda>v. if is_active v then q else Lamports 0) vs) vs) = Ok ts"
        "map sol ts = spread (sol q) (sol r) vs"
        using Cons True by auto
      then show ?thesis using True False zero by auto
    qed
  next
    case False
    then have act: "is_active v" and r: "0 < sol r" by auto
    obtain q' where q': "lamports_add q (Lamports 1) = Ok q'" "sol q' = Suc (sol q)"
      using lamp.add_exists [of q "Lamports 1"] Cons.prems(1) r by (auto simp: lamp.add_eq_Ok)
    obtain r' where r': "lamports_sub r (Lamports 1) = Ok r'" "sol r' = sol r - 1"
      using lamp.sub_exists [of "Lamports 1" r] r by (auto simp: lamp.sub_eq_Ok)
    have "sol r' \<le> length (filter is_active vs)" using Cons.prems(2) act r' by simp
    then obtain ts where "distribute_remainder r' (zip (map (\<lambda>v. if is_active v then q else Lamports 0) vs) vs) = Ok ts"
      "map sol ts = spread (sol q) (sol r - 1) vs"
      using Cons.IH [of r'] Cons.prems(1) r' by auto
    then show ?thesis using act r zero q' r' by auto
  qed
qed

lemma Lamports_word_of_nat: "n < 2 ^ 64 \<Longrightarrow> sol (Lamports (word_of_nat n)) = n"
  by (simp add: unat_of_nat)

definition total_sol :: "lamports \<Rightarrow> validator account_list \<Rightarrow> nat" where
  "total_sol undelegated vs = (\<Sum>v\<leftarrow>entries vs. sol (stake_accounts_balance v)) + sol undelegated"

definition num_active :: "validator account_list \<Rightarrow> nat" where
  "num_active vs = length (filter is_active (entries vs))"

lemma total_sum:
  fixes vs :: "validator account_list" and u :: lamports
  defines "s \<equiv> and_then (lamports_sum (map stake_accounts_balance (entries vs))) (\<lambda>t. lamports_add t u)"
  shows "s = Ok t \<longleftrightarrow> total_sol u vs < 2 ^ 64 \<and> sol t = total_sol u vs" and "s \<noteq> Panic"
proof -
  let ?S = "\<Sum>v\<leftarrow>entries vs. sol (stake_accounts_balance v)"
  show "s \<noteq> Panic"
    unfolding s_def using lamp.no_Panic by (cases "lamports_sum (map stake_accounts_balance (entries vs))") auto
  show "s = Ok t \<longleftrightarrow> total_sol u vs < 2 ^ 64 \<and> sol t = total_sol u vs"
  proof
    assume "s = Ok t"
    then show "total_sol u vs < 2 ^ 64 \<and> sol t = total_sol u vs"
      by (auto simp: s_def and_then_eq_Ok lamp.sumr_eq_Ok lamp.add_eq_Ok total_sol_def comp_def)
  next
    assume t: "total_sol u vs < 2 ^ 64 \<and> sol t = total_sol u vs"
    then obtain c where "lamports_sum (map stake_accounts_balance (entries vs)) = Ok c" "sol c = ?S"
      using lamp.sumr_exists [of "map stake_accounts_balance (entries vs)"]
      by (auto simp: lamp.sumr_eq_Ok total_sol_def comp_def)
    then show "s = Ok t" using t by (simp add: s_def lamp.add_eq_Ok total_sol_def)
  qed
qed

lemma equal_shares_are_small:
  fixes m n :: nat
  assumes "m < 2 ^ 64" and "0 < n"
  shows "m mod n = 0 \<or> m div n < 2 ^ 64 - 1"
proof (cases "n = 1")
  case False
  then have "m div n \<le> m div 2" using assms(2) by (intro div_le_mono2) simp_all
  moreover have "m div 2 < 2 ^ 63" using assms(1) by simp
  ultimately have "m div n < 2 ^ 63" by (rule order_le_less_trans)
  then show ?thesis by simp
qed simp

lemma get_target_balance_Ok:
  fixes vs :: "validator account_list" and u :: lamports
  defines "m \<equiv> total_sol u vs" and "n \<equiv> num_active vs"
  assumes "length (entries vs) < 2 ^ 64" and "m < 2 ^ 64" and "0 < n"
  shows "\<exists>ts. get_target_balance u vs = Ok ts \<and> map sol ts = spread (m div n) (m mod n) (entries vs)"
proof -
  let ?t = "Lamports (word_of_nat m)" and ?n = "word_of_nat (length (iter_active vs)) :: u64"
  let ?q = "Lamports (word_of_nat (m div n))" and ?r = "Lamports (word_of_nat (m mod n))"
  let ?d = "Lamports (word_of_nat (n * (m div n)))"
  let ?T = "map (\<lambda>v. if is_active v then ?q else Lamports 0) (entries vs)"
  have n64: "n < 2 ^ 64"
    using order_le_less_trans [OF length_filter_le assms(3)] by (simp add: n_def num_active_def)
  then have num: "unat ?n = n" by (simp add: iter_active_def n_def num_active_def unat_of_nat)
  have bounds: "m div n \<le> m" "m mod n < n" "n * (m div n) + m mod n = m" using assms(5) by simp_all
  then have nd: "n * (m div n) < 2 ^ 64" using assms(4) by linarith
  have vals: "sol ?t = m" "sol ?q = m div n" "sol ?r = m mod n" "sol ?d = n * (m div n)"
    by (rule Lamports_word_of_nat; use assms(4) n64 nd bounds in linarith)+
  have sum_T: "(\<Sum>x\<leftarrow>?T. sol x) = n * (m div n)"
    using sum_targets [of ?q "entries vs"] vals(2) by (simp add: comp_def n_def num_active_def)
  have start: "and_then (lamports_sum (map stake_accounts_balance (entries vs))) (\<lambda>t. lamports_add t u) = Ok ?t"
    using total_sum(1) [of vs u ?t] assms(4) vals(1) by (simp only: m_def)
  have share: "lamports_mul_rational ?t \<lparr>numerator = 1, denominator = ?n\<rparr> = Ok ?q"
    unfolding lamp.mulr_eq_Ok rational.simps unat_1 num vals mult_1_right
    using order_le_less_trans [OF bounds(1) assms(4)] assms(5) by simp
  have dist: "lamports_sum ?T = Ok ?d"
    unfolding lamp.sumr_eq_Ok sum_T vals using nd by simp
  have rem: "lamports_sub ?t ?d = Ok ?r"
    unfolding lamp.sub_eq_Ok vals by (simp add: minus_mult_div_eq_mod)
  have less: "lam ?r < ?n" "?n \<noteq> 0"
    using bounds(2) assms(5) num vals(3) by (auto simp: word_less_nat_alt)
  note steps = start share dist rem less
  have small: "sol ?r = 0 \<or> sol ?q < 2 ^ 64 - 1"
    using equal_shares_are_small [OF assms(4,5)] vals by simp
  have r_le: "sol ?r \<le> length (filter is_active (entries vs))"
    using bounds(2) vals(3) by (simp add: n_def num_active_def)
  obtain ts where ts: "distribute_remainder ?r (zip ?T (entries vs)) = Ok ts"
    "map sol ts = spread (m div n) (m mod n) (entries vs)"
    using distribute_remainder_spread [OF small r_le] vals by auto
  have "sum_list (map sol ts) = m"
    using ts(2) sum_list_spread [of "m mod n" "entries vs" "m div n"] bounds(2,3)
    by (simp add: n_def num_active_def)
  then have "lamports_sum ts = Ok ?t" using vals(1) assms(4) by (simp add: lamp.sumr_eq_Ok)
  then show ?thesis
    using steps ts by (auto simp: get_target_balance_def Let_def)
qed

text \<open>C30: The target balances. For a validator list shorter than \<open>2^64\<close>, with \<open>total_sol\<close> the sum
  of all stake balances and the undelegated lamports, and \<open>num_active\<close> the number of active
  validators: if the total does not fit a \<open>u64\<close> the result is \<open>CalculationFailure\<close>; if no
  validator is active it is \<open>NoActiveValidators\<close>; otherwise no assertion fails, inactive
  validators get nothing, active ones get the total divided by their number, the first few (as many
  as the remainder) one lamport more, and the targets add up to exactly the total.\<close>

theorem get_target_balance_spec:
  assumes "length (entries vs) < 2 ^ 64"
  shows "if 2 ^ 64 \<le> total_sol u vs then get_target_balance u vs = Err CalculationFailure
    else if num_active vs = 0 then get_target_balance u vs = Err NoActiveValidators
    else \<exists>ts. get_target_balance u vs = Ok ts \<and> length ts = length (entries vs) \<and>
      sum_list (map sol ts) = total_sol u vs \<and>
      (\<forall>i < length ts. sol (ts ! i) =
        (if is_active (entries vs ! i)
         then total_sol u vs div num_active vs +
           (if active_before (entries vs) i < total_sol u vs mod num_active vs then 1 else 0)
         else 0))"
proof -
  let ?s = "and_then (lamports_sum (map stake_accounts_balance (entries vs))) (\<lambda>t. lamports_add t u)"
  let ?m = "total_sol u vs" and ?n = "num_active vs"
  consider "2 ^ 64 \<le> ?m" | "?m < 2 ^ 64" "?n = 0" | "?m < 2 ^ 64" "0 < ?n" by linarith
  then show ?thesis
  proof cases
    case 1
    then obtain e where "?s = Err e" using total_sum [of vs u] by (cases ?s) auto
    then show ?thesis using 1 by (simp add: get_target_balance_def lido_error_of_arithmetic_def)
  next
    case 2
    have "?s = Ok (Lamports (word_of_nat ?m))"
      using total_sum(1) [of vs u] 2 Lamports_word_of_nat by blast
    then show ?thesis
      using 2 by (simp add: get_target_balance_def num_active_def iter_active_def)
  next
    case 3
    then obtain ts where ts: "get_target_balance u vs = Ok ts"
      "map sol ts = spread (?m div ?n) (?m mod ?n) (entries vs)"
      using get_target_balance_Ok [OF assms] by blast
    then have len: "length ts = length (entries vs)" by (metis length_map length_spread)
    moreover have "?m mod ?n \<le> length (filter is_active (entries vs))"
      using 3 mod_less_divisor [of ?n ?m] by (simp add: num_active_def less_imp_le)
    then have "sum_list (map sol ts) = ?m"
      using ts(2) sum_list_spread [of "?m mod ?n" "entries vs" "?m div ?n"] by (simp add: num_active_def)
    moreover have "sol (ts ! i) = spread (?m div ?n) (?m mod ?n) (entries vs) ! i" if "i < length ts" for i
      using that ts(2) by (metis nth_map)
    ultimately show ?thesis using 3 ts(1) by (auto simp: spread_nth)
  qed
qed

definition example_validators :: "validator account_list" where
  "example_validators =
     \<lparr>al_header = \<lparr>account_type = Validator, lido_version = 1, max_entries = 3\<rparr>,
      entries =
       [(validator_new 1)\<lparr>stake_accounts_balance := Lamports 10\<rparr>,
        (validator_new 2)\<lparr>stake_accounts_balance := Lamports 4, status := PendingRemoval\<rparr>,
        (validator_new 3)\<lparr>stake_accounts_balance := Lamports 2\<rparr>]\<rparr>"

theorem get_target_balance_spec_witness:
  "\<exists>ts. get_target_balance (Lamports 5) example_validators = Ok ts \<and> length ts = 3 \<and>
     sum_list (map sol ts) = 21 \<and> sol (ts ! 0) = 11 \<and> sol (ts ! 1) = 0 \<and> sol (ts ! 2) = 10"
proof -
  have e: "length (entries example_validators) = 3" "total_sol (Lamports 5) example_validators = 21"
    "num_active example_validators = 2"
    "active_before (entries example_validators) 0 = 0" "active_before (entries example_validators) 2 = 1"
    "is_active (entries example_validators ! 0)" "\<not> is_active (entries example_validators ! Suc 0)"
    "is_active (entries example_validators ! 2)"
    by (simp_all add: example_validators_def total_sol_def num_active_def active_before_def is_active_def
        validator_new_def validator_default_def)
  show ?thesis
    using get_target_balance_spec [of example_validators "Lamports 5"] by (auto simp: e)
qed

subsection \<open>Choosing validators\<close>

text \<open>Bookkeeping that the handlers keep: no more unstaking than staked.\<close>

definition unstake_within_stake :: "validator \<Rightarrow> bool" where
  "unstake_within_stake v \<longleftrightarrow> unstake_accounts_balance v \<le> stake_accounts_balance v"

definition effective_of :: "validator \<Rightarrow> lamports" where
  "effective_of v = Lamports (lam (stake_accounts_balance v) - lam (unstake_accounts_balance v))"

lemma compute_effective_Ok:
  "unstake_within_stake v \<Longrightarrow> compute_effective_stake_balance v = Ok (effective_of v)"
  by (simp add: unstake_within_stake_def effective_of_def compute_effective_stake_balance_def
      less_eq_lamports_def lamports_sub_def token_sub_def checked_sub_def word_le_nat_alt)

lemma compute_effective_Panic:
  "\<not> unstake_within_stake v \<Longrightarrow> compute_effective_stake_balance v = Panic"
  by (simp add: unstake_within_stake_def compute_effective_stake_balance_def
      less_eq_lamports_def lamports_sub_def token_sub_def checked_sub_def word_le_nat_alt)

lemma map_try_Ok: "(\<And>x. x \<in> set xs \<Longrightarrow> f x = Ok (g x)) \<Longrightarrow> map_try f xs = Ok (map g xs)"
  by (induction xs) auto

text \<open>The loop invariant: the index points at an active validator, with its balance and amount,
  and no active validator seen so far has a lower balance.\<close>

definition min_inv :: "validator list \<Rightarrow> lamports list \<Rightarrow> nat \<Rightarrow> nat \<times> lamports \<times> lamports \<Rightarrow> bool" where
  "min_inv vs ts k = (\<lambda>(index, lowest, amount).
     index < length vs \<and> is_active (vs ! index) \<and> lowest = effective_of (vs ! index) \<and>
     amount = Lamports (saturating_sub (lam (ts ! index)) (lam lowest)) \<and>
     (\<forall>j < k. is_active (vs ! j) \<longrightarrow> lowest \<le> effective_of (vs ! j)))"

lemma minimum_stake_step_inv:
  assumes "min_inv vs ts k s" and "k < length vs" and "unstake_within_stake (vs ! k)"
  shows "\<exists>s'. minimum_stake_step s (k, vs ! k, ts ! k) = Ok s' \<and> min_inv vs ts (Suc k) s'"
  using assms
  by (cases s) (auto simp: min_inv_def minimum_stake_step_def compute_effective_Ok less_Suc_eq
      intro: order.strict_implies_order dest: order.strict_trans2)

lemma minimum_stake_loop:
  assumes "length vs = length ts" and "\<forall>v \<in> set vs. unstake_within_stake v"
    and "k \<le> length vs" and "min_inv vs ts k s"
  shows "\<exists>s'. try_fold minimum_stake_step s (enumerate k (drop k (zip vs ts))) = Ok s' \<and>
    min_inv vs ts (length vs) s'"
  using assms(3,4)
proof (induction "length vs - k" arbitrary: k s)
  case 0
  then show ?case using assms(1) by simp
next
  case (Suc n)
  then have k: "k < length vs" by simp
  obtain s' where s': "minimum_stake_step s (k, vs ! k, ts ! k) = Ok s'" "min_inv vs ts (Suc k) s'"
    using minimum_stake_step_inv [OF Suc.prems(2) k] assms(2) k by auto
  have "drop k (zip vs ts) = (vs ! k, ts ! k) # drop (Suc k) (zip vs ts)"
    using k assms(1) by (simp add: Cons_nth_drop_Suc [symmetric])
  moreover have "\<exists>t. try_fold minimum_stake_step s' (enumerate (Suc k) (drop (Suc k) (zip vs ts))) = Ok t \<and>
      min_inv vs ts (length vs) t"
    using Suc k s' by (intro Suc.hyps) auto
  ultimately show ?case using s' by simp
qed

lemma minimum_stake_validator_found:
  assumes "\<forall>v \<in> set (entries vs). unstake_within_stake v"
    and "length (entries vs) = length ts" and "\<exists>v \<in> set (entries vs). is_active v"
  shows "\<exists>i lowest amount. get_minimum_stake_validator_index_amount vs ts = Ok (i, amount) \<and>
    min_inv (entries vs) ts (length (entries vs)) (i, lowest, amount)"
proof -
  let ?xs = "entries vs"
  obtain p where p: "position is_active ?xs = Some p" using assms(3) by fastforce
  then have pi: "p < length ?xs" "is_active (?xs ! p)" using position_SomeD by blast+
  then have eff: "compute_effective_stake_balance (?xs ! p) =
      (Ok (effective_of (?xs ! p)) :: (lamports, lido_error) result)"
    using assms(1) by (simp add: compute_effective_Ok)
  let ?s = "(p, effective_of (?xs ! p), Lamports (saturating_sub (lam (ts ! p)) (lam (effective_of (?xs ! p)))))"
  have inv: "min_inv ?xs ts 0 ?s" using pi by (simp add: min_inv_def)
  obtain i lowest amount where
    fold: "try_fold minimum_stake_step ?s (enumerate 0 (zip ?xs ts)) = Ok (i, lowest, amount)"
    and res: "min_inv ?xs ts (length ?xs) (i, lowest, amount)"
    using minimum_stake_loop [OF assms(2,1) _ inv] by auto
  have "get_minimum_stake_validator_index_amount vs ts = Ok (i, amount)"
    using assms(2) p eff fold by (simp add: get_minimum_stake_validator_index_amount_def)
  then show ?thesis using res by blast
qed

text \<open>Choosing where to stake. When every validator's unstake balance is within its stake
  balance, there are as many targets as validators, and some validator is active, then
  \<open>get_minimum_stake_validator_index_amount\<close> returns without panicking the index of an active
  validator whose effective stake is the least of all active ones, with the amount by which it is
  below its target (zero when it is above).\<close>

theorem get_minimum_stake_validator_spec:
  assumes "\<forall>v \<in> set (entries vs). unstake_within_stake v"
    and "length (entries vs) = length ts" and "\<exists>v \<in> set (entries vs). is_active v"
  shows "\<exists>i amount. get_minimum_stake_validator_index_amount vs ts = Ok (i, amount) \<and>
    i < length (entries vs) \<and> is_active (entries vs ! i) \<and>
    (\<forall>v \<in> set (entries vs). is_active v \<longrightarrow> effective_of (entries vs ! i) \<le> effective_of v) \<and>
    sol amount = sol (ts ! i) - sol (effective_of (entries vs ! i))"
  using minimum_stake_validator_found [OF assms] by (fastforce simp: min_inv_def in_set_conv_nth)

theorem get_minimum_stake_validator_spec_witness:
  "\<exists>i amount. get_minimum_stake_validator_index_amount example_validators [Lamports 11, Lamports 0, Lamports 10] =
     Ok (i, amount) \<and> i < 3 \<and> is_active (entries example_validators ! i)"
  using get_minimum_stake_validator_spec [of example_validators "[Lamports 11, Lamports 0, Lamports 10]"]
  by (auto simp: example_validators_def unstake_within_stake_def validator_new_def validator_default_def
      is_active_def lamports_le_iff)

text \<open>Choosing where to withdraw from. With consistent balances,
  \<open>get_validator_to_withdraw\<close> fails with \<open>NoActiveValidators\<close> on the empty list only, and otherwise
  returns a validator of the list with the largest effective stake of all validators.\<close>

theorem get_validator_to_withdraw_spec:
  assumes "\<forall>v \<in> set (entries vs). unstake_within_stake v"
  shows "if entries vs = [] then get_validator_to_withdraw vs = Err NoActiveValidators
    else \<exists>v. get_validator_to_withdraw vs = Ok v \<and> v \<in> set (entries vs) \<and>
      (\<forall>w \<in> set (entries vs). effective_of w \<le> effective_of v)"
proof -
  let ?keyed = "map (\<lambda>v. (effective_of v, v)) (entries vs)"
  have k: "map_try (\<lambda>v. map_ok (\<lambda>eff. (eff, v)) (compute_effective_stake_balance v)) (entries vs) =
      (Ok ?keyed :: ((lamports \<times> validator) list, lido_error) result)"
    using assms by (intro map_try_Ok) (simp add: compute_effective_Ok)
  show ?thesis
  proof (cases "max_by_key fst ?keyed")
    case None
    then show ?thesis by (simp add: get_validator_to_withdraw_def)
  next
    case (Some m)
    then have "m \<in> set ?keyed" "\<forall>w \<in> set ?keyed. fst w \<le> fst m"
      using max_by_key_SomeD [OF Some] by auto
    then show ?thesis using Some k by (auto simp: get_validator_to_withdraw_def)
  qed
qed

theorem get_validator_to_withdraw_spec_witness:
  "\<exists>v. get_validator_to_withdraw example_validators = Ok v \<and> v \<in> set (entries example_validators) \<and>
     (\<forall>w \<in> set (entries example_validators). effective_of w \<le> effective_of v)"
  using get_validator_to_withdraw_spec [of example_validators]
  by (simp add: example_validators_def unstake_within_stake_def validator_new_def validator_default_def
      lamports_le_iff)

lemma any_result_Ok: "(\<And>x. x \<in> set xs \<Longrightarrow> f x = Ok (g x)) \<Longrightarrow> any_result f xs = Ok (\<exists>x \<in> set xs. g x)"
  by (induction xs) auto

definition below_target :: "rational \<Rightarrow> validator \<times> lamports \<Rightarrow> bool" where
  "below_target threshold = (\<lambda>(v, target). target \<noteq> Lamports 0 \<and>
     rational_ge \<lparr>numerator = saturating_sub (lam target) (lam (effective_of v)), denominator = lam target\<rparr> threshold)"

definition excess :: "validator \<Rightarrow> lamports \<Rightarrow> lamports" where
  "excess v target = Lamports (saturating_sub (lam (effective_of v)) (lam target))"

text \<open>C35: Choosing where to unstake. With consistent balances and as many targets as
  validators (at least one), \<open>get_unstake_validator_index\<close> does not panic and considers the
  validator \<open>i\<close> whose effective stake exceeds its target the most; it returns \<open>i\<close> with that
  excess when the excess relative to the target reaches the threshold, or some validator is below a
  nonzero target by at least the threshold, and nothing otherwise.\<close>

theorem get_unstake_validator_index_spec:
  assumes "\<forall>v \<in> set (entries vs). unstake_within_stake v"
    and "length (entries vs) = length ts" and "entries vs \<noteq> []"
  shows "\<exists>i < length ts. (\<forall>j < length ts. excess (entries vs ! j) (ts ! j) \<le> excess (entries vs ! i) (ts ! i)) \<and>
    get_unstake_validator_index vs ts threshold =
      Ok (if rational_ge \<lparr>numerator = lam (excess (entries vs ! i) (ts ! i)), denominator = lam (ts ! i)\<rparr> threshold \<or>
             (\<exists>p \<in> set (zip (entries vs) ts). below_target threshold p)
          then Some (i, excess (entries vs ! i) (ts ! i)) else None)"
proof -
  let ?xs = "entries vs"
  have any: "any_result (\<lambda>(v, target).
       and_then (compute_effective_stake_balance v) (\<lambda>eff.
       let target_difference = saturating_sub (lam target) (lam eff) in
       if target = Lamports 0 then Ok False
       else Ok (rational_ge \<lparr>numerator = target_difference, denominator = lam target\<rparr> threshold)))
       (zip ?xs ts) = (Ok (\<exists>p \<in> set (zip ?xs ts). below_target threshold p) :: (bool, lido_error) result)"
    using assms(1)
    by (intro any_result_Ok) (auto simp: below_target_def compute_effective_Ok dest!: set_zip_leftD)
  let ?key = "\<lambda>((idx, v), target). (lam (excess v target), idx, v, target)"
  let ?keyed = "map ?key (zip (enumerate 0 ?xs) ts)"
  have keyed: "map_try (\<lambda>((idx, v), target).
       map_ok (\<lambda>eff. (saturating_sub (lam eff) (lam target), idx, v, target))
         (compute_effective_stake_balance v))
       (zip (enumerate 0 ?xs) ts) =
       (Ok ?keyed :: ((u64 \<times> nat \<times> validator \<times> lamports) list, lido_error) result)"
    using assms(1)
    by (intro map_try_Ok) (auto simp: compute_effective_Ok excess_def in_set_enumerate_eq dest!: set_zip_leftD)
  have elem: "j < length ts \<Longrightarrow> (lam (excess (?xs ! j) (ts ! j)), j, ?xs ! j, ts ! j) \<in> set ?keyed" for j
    using assms(2) by (force simp: in_set_conv_nth nth_enumerate_eq)
  have "?keyed \<noteq> []" using assms(2,3) elem [of 0] by (cases ts) force+
  then have "max_by_key fst ?keyed \<noteq> None" unfolding max_by_key_eq_None .
  then obtain m where m: "max_by_key fst ?keyed = Some m" by blast
  then have "m \<in> set ?keyed" by (rule max_by_key_SomeD(1))
  then obtain i where i: "i < length ts" "m = (lam (excess (?xs ! i) (ts ! i)), i, ?xs ! i, ts ! i)"
    using assms(2) by (auto simp: in_set_conv_nth nth_enumerate_eq)
  have "excess (?xs ! j) (ts ! j) \<le> excess (?xs ! i) (ts ! i)" if "j < length ts" for j
    using max_by_key_SomeD(2) [OF m elem [OF that]] i(2) by (simp add: less_eq_lamports_def)
  moreover have "compute_effective_stake_balance (?xs ! i) =
      (Ok (effective_of (?xs ! i)) :: (lamports, lido_error) result)"
    using assms i(1) by (simp add: compute_effective_Ok)
  ultimately show ?thesis
    using i(1) m unfolding get_unstake_validator_index_def any keyed i(2)
    by (intro exI [of _ i]) (simp add: excess_def)
qed

lemma example_excess:
  "excess (entries example_validators ! 0) (Lamports 5) = Lamports 5"
  "excess (entries example_validators ! 1) (Lamports 0) = Lamports 4"
  "excess (entries example_validators ! 2) (Lamports 8) = Lamports 0"
  by (simp_all add: example_validators_def excess_def effective_of_def validator_new_def validator_default_def
      saturating_sub_def)

theorem get_unstake_validator_index_spec_witness:
  "get_unstake_validator_index example_validators [Lamports 5, Lamports 0, Lamports 8] \<lparr>numerator = 1, denominator = 10\<rparr> =
     Ok (Some (0, Lamports 5))"
proof -
  let ?ts = "[Lamports 5, Lamports 0, Lamports 8]"
  have e: "\<forall>v \<in> set (entries example_validators). unstake_within_stake v"
    "length (entries example_validators) = length ?ts" "entries example_validators \<noteq> []"
    by (simp_all add: example_validators_def unstake_within_stake_def validator_new_def
        validator_default_def lamports_le_iff)
  obtain i where i: "i < length ?ts"
    and most: "\<forall>j < length ?ts. excess (entries example_validators ! j) (?ts ! j) \<le> excess (entries example_validators ! i) (?ts ! i)"
    and result: "get_unstake_validator_index example_validators ?ts \<lparr>numerator = 1, denominator = 10\<rparr> =
      Ok (if rational_ge \<lparr>numerator = lam (excess (entries example_validators ! i) (?ts ! i)), denominator = lam (?ts ! i)\<rparr>
               \<lparr>numerator = 1, denominator = 10\<rparr> \<or>
             (\<exists>p \<in> set (zip (entries example_validators) ?ts). below_target \<lparr>numerator = 1, denominator = 10\<rparr> p)
          then Some (i, excess (entries example_validators ! i) (?ts ! i)) else None)"
    using get_unstake_validator_index_spec [OF e] by blast
  have "i = 0 \<or> i = 1 \<or> i = 2" using i by auto
  moreover have "excess (entries example_validators ! 0) (?ts ! 0) \<le> excess (entries example_validators ! i) (?ts ! i)"
    using most [rule_format, of 0] by simp
  ultimately have "i = 0" by (auto simp: example_excess example_excess(2) [unfolded One_nat_def] less_eq_lamports_def)
  then show ?thesis using result
    by (simp add: example_excess rational_ge_def rational_partial_cmp_def)
qed

end
