(* ===== verification/Processor.thy ===== *)
theory Processor
  imports Management Balance
begin

text \<open>
  \<^verbatim>\<open>program/src/processor.rs\<close>: the handlers that move SOL and stSOL, the
  migration, and the dispatch \<open>process\<close> on the decoded instruction. Log messages are
  left out, except for one whose arguments can panic.
\<close>

subsection \<open>Initialisation\<close>

definition exchange_rate_default :: exchange_rate where
  "exchange_rate_default =
     \<lparr>computed_in_epoch = 0, st_sol_supply = StLamports 0, sol_balance = Lamports 0\<rparr>"

definition empty_list :: "'a list_entry \<Rightarrow> u32 \<Rightarrow> 'a account_list" where
  "empty_list LE n =
     (let al = new_default LE 0 in al\<lparr>al_header := (al_header al)\<lparr>max_entries := n\<rparr>\<rparr>)"

definition process_initialize ::
  "lenv \<Rightarrow> pubkey \<Rightarrow> reward_distribution \<Rightarrow> criteria \<Rightarrow> u32 \<Rightarrow> u32 \<Rightarrow> account_info list \<Rightarrow> unit prog" where
  "process_initialize E program_id rd crit max_validators max_maintainers accounts_raw =
     then_do (lift (info_try_from_slice (initialize_accounts E) accounts_raw)) (\<lambda>(accs, multi).
     let lido_info = accs ! 0; manager_info = accs ! 1; mint_info = accs ! 2; treasury_info = accs ! 3;
         developer_info = accs ! 4; reserve_info = accs ! 5; validator_list_info = accs ! 6;
         perf_list_info = accs ! 7; maintainer_list_info = accs ! 8 in
     then_do (lift (rent_get E)) (\<lambda>rent.
     then_do (check_rent_exempt rent lido_info) (\<lambda>u.
     then_do (check_rent_exempt rent reserve_info) (\<lambda>u.
     then_do (check_rent_exempt rent validator_list_info) (\<lambda>u.
     then_do (check_rent_exempt rent perf_list_info) (\<lambda>u.
     then_do (check_rent_exempt rent maintainer_list_info) (\<lambda>u.
     then_do (check_account_owner lido_info program_id) (\<lambda>u.
     then_do (check_account_owner validator_list_info program_id) (\<lambda>u.
     then_do (check_account_owner perf_list_info program_id) (\<lambda>u.
     then_do (check_account_owner maintainer_list_info program_id) (\<lambda>u.
     then_do (check_account_data E lido_info LIDO_LEN) (\<lambda>u.
     then_do (check_account_data E validator_list_info (required_bytes (VE E) max_validators)) (\<lambda>u.
     then_do (check_account_data E perf_list_info (required_bytes (PE E) max_validators)) (\<lambda>u.
     then_do (check_account_data E maintainer_list_info (required_bytes (ME E) max_maintainers)) (\<lambda>u.
     then_do (require (key lido_info \<noteq> key validator_list_info) (lido_err AlreadyInUse)) (\<lambda>u.
     then_do (require (key lido_info \<noteq> key maintainer_list_info) (lido_err AlreadyInUse)) (\<lambda>u.
     then_do (require (key validator_list_info \<noteq> key maintainer_list_info) (lido_err AlreadyInUse)) (\<lambda>u.
     let validators = empty_list (VE E) max_validators;
         perfs = empty_list (PE E) max_validators;
         maintainers = empty_list (ME E) max_maintainers;
         (reserve_account_pda, reserve_bump_seed) =
           find_program_address E [pubkey_bytes (key lido_info), RESERVE_ACCOUNT] program_id in
     then_do (require (reserve_account_pda = key reserve_info) (lido_err IncorrectReserveAddress)) (\<lambda>u.
     let (stake_authority, stake_bump_seed) =
           find_program_address E [pubkey_bytes (key lido_info), STAKE_AUTHORITY] program_id;
         (mint_authority, mint_bump_seed) =
           find_program_address E [pubkey_bytes (key lido_info), MINT_AUTHORITY] program_id in
     then_do (check_mint E rent mint_info mint_authority) (\<lambda>u.
     then_do (require (\<not> max_commission crit > 100) (lido_err ValidationCommissionOutOfBounds)) (\<lambda>u.
     let l = \<lparr>lido_account_type = Lido, lido_lido_version = LIDO_VERSION, manager = key manager_info,
              st_sol_mint = key mint_info, exchange_rate = exchange_rate_default,
              sol_reserve_account_bump_seed = reserve_bump_seed,
              stake_authority_bump_seed = stake_bump_seed,
              mint_authority_bump_seed = mint_bump_seed,
              reward_distribution = rd,
              fee_recipients = \<lparr>treasury_account = key treasury_info, developer_account = key developer_info\<rparr>,
              lido_metrics = metrics_new, lido_criteria = crit,
              validator_list = key validator_list_info,
              validator_perf_list = key perf_list_info,
              maintainer_list = key maintainer_list_info\<rparr> in
     then_do (check_is_st_sol_account E l treasury_info) (\<lambda>u.
     then_do (check_is_st_sol_account E l developer_info) (\<lambda>u.
     then_do (save_list (VE E) validators validator_list_info) (\<lambda>u.
     then_do (save_list (PE E) perfs perf_list_info) (\<lambda>u.
     then_do (save_list (ME E) maintainers maintainer_list_info) (\<lambda>u.
     save E l lido_info))))))))))))))))))))))))))"

subsection \<open>Deposits\<close>

definition process_deposit :: "lenv \<Rightarrow> pubkey \<Rightarrow> lamports \<Rightarrow> account_info list \<Rightarrow> unit prog" where
  "process_deposit E program_id amount accounts_raw =
     then_do (lift (info_try_from_slice (deposit_accounts E) accounts_raw)) (\<lambda>(accs, multi).
     let lido_info = accs ! 0; user = accs ! 1; recipient = accs ! 2; mint_info = accs ! 3;
         reserve = accs ! 4; mint_authority = accs ! 5; spl_token = accs ! 6; system_program = accs ! 7 in
     then_do (require (amount \<noteq> Lamports 0) InvalidArgument) (\<lambda>u.
     then_do (deserialize_lido E program_id lido_info) (\<lambda>l.
     then_do (check_reserve_account E l program_id (key lido_info) reserve) (\<lambda>k.
     then_do (invoke E (SystemTransfer (key user) (key reserve) (lam amount)) [user, reserve, system_program]) (\<lambda>u.
     then_do (lift (from_arith (exchange_sol (exchange_rate l) amount))) (\<lambda>st_sol_amount.
     then_do (mint_st_sol_to E l (key lido_info) spl_token mint_info mint_authority recipient st_sol_amount) (\<lambda>u.
     then_do (lift (histogram_observe (deposit_amount (lido_metrics l)) amount)) (\<lambda>h.
     save E (l\<lparr>lido_metrics := (lido_metrics l)\<lparr>deposit_amount := h\<rparr>\<rparr>) lido_info))))))))"

definition process_stake_deposit ::
  "lenv \<Rightarrow> pubkey \<Rightarrow> lamports \<Rightarrow> u32 \<Rightarrow> u32 \<Rightarrow> account_info list \<Rightarrow> unit prog" where
  "process_stake_deposit E program_id amount validator_index maintainer_index raw_accounts =
     then_do (lift (info_try_from_slice (stake_deposit_accounts E) raw_accounts)) (\<lambda>(accs, multi).
     let lido_info = accs ! 0; maintainer = accs ! 1; reserve = accs ! 2; vote_info = accs ! 3;
         stake_account_merge_into = accs ! 4; stake_account_end = accs ! 5; stake_authority = accs ! 6;
         list_info = accs ! 7; maintainer_list_info = accs ! 8; sysvar_clock = accs ! 9;
         system_program = accs ! 10; sysvar_rent = accs ! 11; stake_program = accs ! 12;
         stake_history = accs ! 13; stake_program_config = accs ! 14 in
     then_do (deserialize_lido E program_id lido_info) (\<lambda>l.
     then_do (check_maintainer E l program_id maintainer_list_info maintainer_index maintainer) (\<lambda>u.
     then_do (check_reserve_account E l program_id (key lido_info) reserve) (\<lambda>k.
     then_do (check_stake_authority E l program_id (key lido_info) stake_authority) (\<lambda>k.
     then_do (check_can_stake_amount E reserve amount) (\<lambda>u.
     with_borrow_mut list_info (\<lambda>data.
     then_do (deserialize_account_list_info (VE E) l program_id list_info data) (\<lambda>r.
     then_do (lift (bvh_iter (VE E) (lr_view r))) (\<lambda>vs.
     then_do (lift (ok_or (min_by_key effective_stake_balance (filter is_active vs))
       (lido_err NoActiveValidators))) (\<lambda>minimum_stake_validator.
     let minimum_stake_balance = effective_stake_balance minimum_stake_validator in
     then_do (lift (bvh_get_mut (VE E) (lr_view r) validator_index (key vote_info))) (\<lambda>(ref, v).
     then_do (require (is_active v) (lido_err StakeToInactiveValidator)) (\<lambda>u.
     then_do (require (\<not> effective_stake_balance v > minimum_stake_balance)
       (lido_err ValidatorWithLessStakeExists)) (\<lambda>u.
     then_do (lift (clock_get E)) (\<lambda>clock.
     let (approach, stake_account_end_authority) =
           (if key stake_account_end = key stake_account_merge_into
            then (Append, VALIDATOR_STAKE_ACCOUNT)
            else (Merge, VALIDATOR_STAKE_ACCOUNT @ u64_bytes (clock_epoch clock))) in
     then_do (check_stake_account E program_id (key lido_info) v (seed_end (stake_seeds v))
       stake_account_end stake_account_end_authority) (\<lambda>bump.
     then_do (data_borrow stake_account_end) (\<lambda>stake_data.
     then_do (require (length stake_data = 0) (lido_err WrongStakeState)) (\<lambda>u.
     let stake_account_seeds = [pubkey_bytes (key lido_info), pubkey_bytes (vote_account_address v),
           stake_account_end_authority, u64_bytes (seed_end (stake_seeds v)), [bump]] in
     then_do (create_account_even_if_funded E (key lido_info) amount (stake_state_size E)
       (stake_program_id E) stake_account_seeds stake_account_end reserve
       (sol_reserve_account_bump_seed l) system_program) (\<lambda>u.
     then_do (initialize_stake_account_undelegated E (key stake_authority) stake_account_end
       sysvar_rent stake_program) (\<lambda>u.
     then_do (lift (from_arith (lamports_add (stake_accounts_balance v) amount))) (\<lambda>new_balance.
     let v = v\<lparr>stake_accounts_balance := new_balance\<rparr> in
     then_do (lift (compute_effective_stake_balance v)) (\<lambda>eff.
     let v = v\<lparr>effective_stake_balance := eff\<rparr> in
     then_do (store_entry (VE E) r ref v) (\<lambda>u.
     case approach of
       Append \<Rightarrow>
         then_do (invoke_signed E (StakeDelegate (key stake_account_end) (key stake_authority) (key vote_info))
           [stake_account_end, vote_info, sysvar_clock, stake_history, stake_program_config,
            stake_authority, stake_program]
           [[pubkey_bytes (key lido_info), STAKE_AUTHORITY, [stake_authority_bump_seed l]]]) (\<lambda>u.
         store_entry (VE E) r ref
           (v\<lparr>stake_seeds := (stake_seeds v)\<lparr>seed_end := seed_end (stake_seeds v) + 1\<rparr>\<rparr>))
     | Merge \<Rightarrow>
         then_do (require (\<not> seed_end (stake_seeds v) \<le> seed_begin (stake_seeds v))
           (lido_err InvalidStakeAccount)) (\<lambda>u.
         then_do (check_stake_account E program_id (key lido_info) v (seed_end (stake_seeds v) - 1)
           stake_account_merge_into VALIDATOR_STAKE_ACCOUNT) (\<lambda>bump.
         let ins = merge_instructions E (key stake_account_merge_into) (key stake_account_end)
               (key stake_authority) in
         then_do (lift (assert (length ins = 1))) (\<lambda>u.
         invoke_signed E (ins ! 0)
           [stake_account_merge_into, stake_account_end, sysvar_clock, stake_history,
            stake_authority, stake_program]
           [[pubkey_bytes (key lido_info), STAKE_AUTHORITY, [stake_authority_bump_seed l]]])))
     ))))))))))))))))))))))"

subsection \<open>Unstaking\<close>

definition process_unstake ::
  "lenv \<Rightarrow> pubkey \<Rightarrow> lamports \<Rightarrow> u32 \<Rightarrow> u32 \<Rightarrow> account_info list \<Rightarrow> unit prog" where
  "process_unstake E program_id amount validator_index maintainer_index raw_accounts =
     then_do (lift (info_try_from_slice (unstake_accounts E) raw_accounts)) (\<lambda>(accs, multi).
     let lido_info = accs ! 0; maintainer = accs ! 1; vote_info = accs ! 2; source = accs ! 3;
         destination = accs ! 4; stake_authority = accs ! 5; list_info = accs ! 6;
         maintainer_list_info = accs ! 7; sysvar_clock = accs ! 8; system_program = accs ! 9;
         stake_program = accs ! 10 in
     then_do (deserialize_lido E program_id lido_info) (\<lambda>l.
     then_do (check_maintainer E l program_id maintainer_list_info maintainer_index maintainer) (\<lambda>u.
     then_do (check_stake_authority E l program_id (key lido_info) stake_authority) (\<lambda>k.
     with_borrow_mut list_info (\<lambda>data.
     then_do (deserialize_account_list_info (VE E) l program_id list_info data) (\<lambda>r.
     then_do (lift (bvh_get_mut (VE E) (lr_view r) validator_index (key vote_info))) (\<lambda>(ref, v).
     then_do (check_unstake_accounts E program_id v lido_info source destination) (\<lambda>destination_bump_seed.
     then_do (require (\<not> seed_end (unstake_seeds v) - seed_begin (unstake_seeds v) \<ge> MAXIMUM_UNSTAKE_ACCOUNTS)
       (lido_err MaxUnstakeAccountsReached)) (\<lambda>u.
     let seeds = [pubkey_bytes (key lido_info), pubkey_bytes (key vote_info), VALIDATOR_UNSTAKE_ACCOUNT,
           u64_bytes (seed_end (unstake_seeds v)), [destination_bump_seed]] in
     then_do (lamports_of source) (\<lambda>source_balance.
     then_do (split_stake_account E (key lido_info) l source destination stake_authority system_program
       stake_program amount [seeds]) (\<lambda>u.
     then_do (invoke_signed E (StakeDeactivate (key destination) (key stake_authority))
       [destination, sysvar_clock, stake_authority, stake_program]
       [[pubkey_bytes (key lido_info), STAKE_AUTHORITY, [stake_authority_bump_seed l]]]) (\<lambda>u.
     then_do (if is_active v then
         then_do (lift (from_arith (lamports_sub source_balance amount))) (\<lambda>new_source_balance.
         then_do (require (\<not> new_source_balance < MINIMUM_STAKE_ACCOUNT_BALANCE) (lido_err InvalidAmount)) (\<lambda>u.
         return v))
       else
         then_do (require (amount = source_balance) (lido_err InvalidAmount)) (\<lambda>u.
         return (v\<lparr>stake_seeds := (stake_seeds v)\<lparr>seed_begin := seed_begin (stake_seeds v) + 1\<rparr>\<rparr>))) (\<lambda>v.
     then_do (lift (from_arith (lamports_add (unstake_accounts_balance v) amount))) (\<lambda>new_unstake.
     let v = v\<lparr>unstake_accounts_balance := new_unstake\<rparr> in
     then_do (lift (compute_effective_stake_balance v)) (\<lambda>eff.
     store_entry (VE E) r ref
       (v\<lparr>effective_stake_balance := eff,
          unstake_seeds := (unstake_seeds v)\<lparr>seed_end := seed_end (unstake_seeds v) + 1\<rparr>\<rparr>))))))))))))))))"

subsection \<open>Exchange rate\<close>

definition process_update_exchange_rate :: "lenv \<Rightarrow> pubkey \<Rightarrow> account_info list \<Rightarrow> unit prog" where
  "process_update_exchange_rate E program_id raw_accounts =
     then_do (lift (info_try_from_slice (update_exchange_rate_accounts E) raw_accounts)) (\<lambda>(accs, multi).
     let lido_info = accs ! 0; reserve = accs ! 1; mint_info = accs ! 2; list_info = accs ! 3 in
     then_do (deserialize_lido E program_id lido_info) (\<lambda>l.
     then_do (check_reserve_account E l program_id (key lido_info) reserve) (\<lambda>k.
     then_do (lift (clock_get E)) (\<lambda>clock.
     then_do (lift (rent_get E)) (\<lambda>rent.
     then_do (require (\<not> computed_in_epoch (exchange_rate l) \<ge> clock_epoch clock)
       (lido_err ExchangeRateAlreadyUpToDate)) (\<lambda>u.
     with_borrow_mut list_info (\<lambda>data.
     then_do (deserialize_account_list_info (VE E) l program_id list_info data) (\<lambda>r.
     then_do (get_sol_balance (bvh_iter (VE E) (lr_view r)) rent reserve) (\<lambda>balance.
     then_do (get_st_sol_supply E l mint_info) (\<lambda>supply.
     save E (l\<lparr>exchange_rate := \<lparr>computed_in_epoch = clock_epoch clock, st_sol_supply = supply,
       sol_balance = balance\<rparr>\<rparr>) lido_info))))))))))"

subsection \<open>Validator performance\<close>

definition perf_for ::
  "lenv \<Rightarrow> pubkey \<Rightarrow> list_ref \<Rightarrow> (nat \<times> validator_perf \<times> list_ref, program_error) result" where
  "perf_for E vote_key perfs =
     and_then (bv_iter_position (le_layout (PE E)) (bvh_data (lr_view perfs))
       (\<lambda>perf. validator_vote_account_address perf = vote_key)) (\<lambda>index.
     case index of
       None \<Rightarrow>
         and_then (bvh_push (PE E) (lr_view perfs) (validator_perf_new vote_key)) (\<lambda>b.
         and_then (bv_iter_mut (le_layout (PE E)) (bvh_data b)) (\<lambda>refs.
         and_then (unwrap_opt (if refs = [] then None else Some (last refs))) (\<lambda>(ref, perf).
         Ok (ref, perf, perfs\<lparr>lr_view := b\<rparr>))))
     | Some i \<Rightarrow>
         and_then (bvh_get_mut (PE E) (lr_view perfs) (word_of_nat i) vote_key) (\<lambda>(ref, perf).
         Ok (ref, perf, perfs)))"

definition process_update_offchain_validator_perf ::
  "lenv \<Rightarrow> pubkey \<Rightarrow> u64 \<Rightarrow> u64 \<Rightarrow> account_info list \<Rightarrow> unit prog" where
  "process_update_offchain_validator_perf E program_id block_rate vote_rate raw_accounts =
     then_do (lift (info_try_from_slice (update_offchain_validator_perf_accounts E) raw_accounts)) (\<lambda>(accs, multi).
     let lido_info = accs ! 0; vote_info = accs ! 1; perf_list_info = accs ! 3 in
     then_do (deserialize_lido E program_id lido_info) (\<lambda>l.
     with_borrow_mut perf_list_info (\<lambda>data.
     then_do (deserialize_account_list_info (PE E) l program_id perf_list_info data) (\<lambda>r.
     then_do (lift (perf_for E (key vote_info) r)) (\<lambda>(ref, perf, r).
     then_do (data_borrow vote_info) (\<lambda>d.
     then_do (lift (from_lido (get_vote_account_commission d))) (\<lambda>comm.
     then_do (lift (clock_get E)) (\<lambda>clock.
     then_do (require (\<not> (case perf_rest perf of None \<Rightarrow> False | Some rest \<Rightarrow> updated_at rest \<ge> clock_epoch clock))
       (lido_err ValidatorPerfAlreadyUpdatedForEpoch)) (\<lambda>u.
     store_entry (PE E) r ref
       (perf\<lparr>perf_rest := Some \<lparr>updated_at = clock_epoch clock, block_production_rate = block_rate,
          vote_success_rate = vote_rate\<rparr>\<rparr>))))))))))"

definition process_update_onchain_validator_perf :: "lenv \<Rightarrow> pubkey \<Rightarrow> account_info list \<Rightarrow> unit prog" where
  "process_update_onchain_validator_perf E program_id raw_accounts =
     then_do (lift (info_try_from_slice (update_onchain_validator_perf_accounts E) raw_accounts)) (\<lambda>(accs, multi).
     let lido_info = accs ! 0; vote_info = accs ! 1; perf_list_info = accs ! 3 in
     then_do (deserialize_lido E program_id lido_info) (\<lambda>l.
     with_borrow_mut perf_list_info (\<lambda>data.
     then_do (deserialize_account_list_info (PE E) l program_id perf_list_info data) (\<lambda>r.
     then_do (lift (perf_for E (key vote_info) r)) (\<lambda>(ref, perf, r).
     then_do (data_borrow vote_info) (\<lambda>d.
     then_do (lift (from_lido (get_vote_account_commission d))) (\<lambda>comm.
     then_do (lift (clock_get E)) (\<lambda>clock.
     let current_expired = commission_updated_at perf < clock_epoch clock;
         new_exceeds_max = comm > max_commission (lido_criteria l) \<and> comm > commission perf;
         should_update = new_exceeds_max \<or> current_expired in
     then_do (require should_update (lido_err ValidatorPerfAlreadyUpdatedForEpoch)) (\<lambda>u.
     store_entry (PE E) r ref
       (perf\<lparr>commission_updated_at := clock_epoch clock, commission := comm\<rparr>))))))))))"

subsection \<open>Observing stake accounts\<close>

definition withdraw_inactive_sol ::
  "lenv \<Rightarrow> account_info \<Rightarrow> account_info \<Rightarrow> account_info \<Rightarrow> account_info \<Rightarrow> account_info \<Rightarrow> account_info \<Rightarrow>
   account_info \<Rightarrow> u8 \<Rightarrow> lamports \<Rightarrow> unit prog" where
  "withdraw_inactive_sol E lido_info stake_authority reserve sysvar_clock sysvar_stake_history stake_program
     stake_account bump amount =
     (if amount = Lamports 0 then return ()
      else invoke_signed E (StakeWithdraw (lam amount) (key stake_account) (key reserve) (key stake_authority))
        [stake_account, reserve, sysvar_clock, sysvar_stake_history, stake_authority, stake_program]
        [[pubkey_bytes (key lido_info), STAKE_AUTHORITY, [bump]]])"

definition get_stake_account ::
  "lenv \<Rightarrow> clock \<Rightarrow> stake_history \<Rightarrow> account_info \<Rightarrow> u64 \<Rightarrow> stake_account prog" where
  "get_stake_account E clock history stake_account seed =
     then_do (data_borrow stake_account) (\<lambda>d.
     then_do (lift (deserialize_stake_account d)) (\<lambda>s.
     then_do (lamports_of stake_account) (\<lambda>l.
     lift (from_delegated_account (stake_status E) l s (clock_epoch clock) history seed))))"

definition check_address_and_get_balance :: "pubkey \<Rightarrow> account_info \<Rightarrow> lamports prog" where
  "check_address_and_get_balance derived provided =
     then_do (require (key provided = derived) (lido_err InvalidStakeAccount)) (\<lambda>u.
     lamports_of provided)"

text \<open>A \<open>for\<close> loop over a list with early return, and the seeds of a range.\<close>

fun for_each :: "('s \<Rightarrow> 'a \<Rightarrow> 's prog) \<Rightarrow> 's \<Rightarrow> 'a list \<Rightarrow> 's prog" where
  "for_each body s [] = return s"
| "for_each body s (x # xs) = then_do (body s x) (\<lambda>s'. for_each body s' xs)"

definition seeds_of :: "seed_range \<Rightarrow> u64 list" where
  "seeds_of r = map word_of_nat [unat (seed_begin r)..<unat (seed_end r)]"

text \<open>The bodies of the two loops. Their state is the excess removed and the total observed; the
  second loop also moves the begin of the unstake seeds.\<close>

definition observe_stake_account ::
  "lenv \<Rightarrow> pubkey \<Rightarrow> validator \<Rightarrow> lido \<Rightarrow> clock \<Rightarrow> stake_history \<Rightarrow> rent \<Rightarrow> account_info list \<Rightarrow>
   lamports \<times> lamports \<Rightarrow> u64 \<times> account_info \<Rightarrow> (lamports \<times> lamports) prog" where
  "observe_stake_account E program_id v l clock history rent accs =
     (let lido_info = accs ! 0; stake_authority = accs ! 2; reserve = accs ! 3;
          sysvar_clock = accs ! 10; sysvar_stake_history = accs ! 11; stake_program = accs ! 12 in
     (\<lambda>(excess_removed, stake_observed_total) (seed, provided).
     let (stake_account_address, b) = find_stake_account_address (find_program_address E) v program_id
           (key lido_info) seed stake_type.Stake in
     then_do (check_address_and_get_balance stake_account_address provided) (\<lambda>account_balance.
     then_do (get_stake_account E clock history provided seed) (\<lambda>stake_acc.
     then_do (data_len provided) (\<lambda>n.
     then_do (lift (expect (lamports_sub (inactive (sa_balance stake_acc)) (Lamports (minimum_balance rent n))))) (\<lambda>amount.
     then_do (withdraw_inactive_sol E lido_info stake_authority reserve sysvar_clock sysvar_stake_history
       stake_program provided (stake_authority_bump_seed l) amount) (\<lambda>u.
     then_do (lift (from_arith (lamports_add excess_removed amount))) (\<lambda>excess_removed.
     then_do (lift (from_arith (lamports_add stake_observed_total account_balance))) (\<lambda>stake_observed_total.
     return (excess_removed, stake_observed_total))))))))))"

definition observe_unstake_account ::
  "lenv \<Rightarrow> pubkey \<Rightarrow> lido \<Rightarrow> clock \<Rightarrow> stake_history \<Rightarrow> account_info list \<Rightarrow>
   validator \<times> lamports \<times> lamports \<Rightarrow> u64 \<times> account_info \<Rightarrow> (validator \<times> lamports \<times> lamports) prog" where
  "observe_unstake_account E program_id l clock history accs =
     (let lido_info = accs ! 0; stake_authority = accs ! 2; reserve = accs ! 3;
          sysvar_clock = accs ! 10; sysvar_stake_history = accs ! 11; stake_program = accs ! 12 in
     (\<lambda>(v, unstake_removed, unstake_observed_total) (seed, unstake_account).
     let (unstake_account_address, b) = find_stake_account_address (find_program_address E) v program_id
           (key lido_info) seed stake_type.Unstake in
     then_do (check_address_and_get_balance unstake_account_address unstake_account) (\<lambda>account_balance.
     then_do (get_stake_account E clock history unstake_account seed) (\<lambda>stake_acc.
     then_do (if seed_begin (unstake_seeds v) = seed
       then lift (map_ok (\<lambda>t. inactive (sa_balance stake_acc) = t) (stake_balance_total (sa_balance stake_acc)))
       else return False) (\<lambda>withdraw_all.
     then_do (if withdraw_all then
         then_do (withdraw_inactive_sol E lido_info stake_authority reserve sysvar_clock sysvar_stake_history
           stake_program unstake_account (stake_authority_bump_seed l) (inactive (sa_balance stake_acc))) (\<lambda>u.
         then_do (lift (from_arith (lamports_add unstake_removed (inactive (sa_balance stake_acc))))) (\<lambda>unstake_removed.
         return (v\<lparr>unstake_seeds := (unstake_seeds v)\<lparr>seed_begin := seed_begin (unstake_seeds v) + 1\<rparr>\<rparr>,
           unstake_removed)))
       else return (v, unstake_removed)) (\<lambda>(v, unstake_removed).
     then_do (lift (from_arith (lamports_add unstake_observed_total account_balance))) (\<lambda>unstake_observed_total.
     return (v, unstake_removed, unstake_observed_total))))))))"

definition process_update_stake_account_balance ::
  "lenv \<Rightarrow> pubkey \<Rightarrow> u32 \<Rightarrow> account_info list \<Rightarrow> unit prog" where
  "process_update_stake_account_balance E program_id validator_index raw_accounts =
     then_do (lift (info_try_from_slice (update_stake_account_balance_accounts E) raw_accounts)) (\<lambda>(accs, stake_accounts).
     let lido_info = accs ! 0; vote_info = accs ! 1; reserve = accs ! 3; mint_info = accs ! 4;
         mint_authority = accs ! 5; treasury_info = accs ! 6; developer_info = accs ! 7;
         list_info = accs ! 8; spl_token_program = accs ! 9; sysvar_stake_history = accs ! 11 in
     then_do (deserialize_lido E program_id lido_info) (\<lambda>l.
     then_do (data_borrow sysvar_stake_history) (\<lambda>history_data.
     then_do (lift (stake_history_from E history_data)) (\<lambda>history.
     then_do (lift (clock_get E)) (\<lambda>clock.
     then_do (lift (rent_get E)) (\<lambda>rent.
     then_do (check_reserve_account E l program_id (key lido_info) reserve) (\<lambda>k.
     with_borrow_mut list_info (\<lambda>data.
     then_do (deserialize_account_list_info (VE E) l program_id list_info data) (\<lambda>r.
     then_do (lift (bvh_get_mut (VE E) (lr_view r) validator_index (key vote_info))) (\<lambda>(ref, v).
     let n_stake_accounts = seed_end (stake_seeds v) - seed_begin (stake_seeds v);
         n_unstake_accounts = seed_end (unstake_seeds v) - seed_begin (unstake_seeds v) in
     then_do (require (word_of_nat (length stake_accounts) = n_stake_accounts + n_unstake_accounts)
       (lido_err InvalidStakeAccount)) (\<lambda>u.
     then_do (lift (assert (unat n_stake_accounts \<le> length stake_accounts))) (\<lambda>u.
     let stake_infos = take (unat n_stake_accounts) stake_accounts;
         unstake_infos = drop (unat n_stake_accounts) stake_accounts in
     then_do (for_each (observe_stake_account E program_id v l clock history rent accs) (Lamports 0, Lamports 0)
       (zip (seeds_of (stake_seeds v)) stake_infos)) (\<lambda>(excess_removed, stake_observed_total).
     then_do (lift (observe_balance stake_observed_total (effective_stake_balance v))) (\<lambda>u.
     then_do (for_each (observe_unstake_account E program_id l clock history accs) (v, Lamports 0, Lamports 0)
       (zip (seeds_of (unstake_seeds v)) unstake_infos)) (\<lambda>(v, unstake_removed, unstake_observed_total).
     then_do (lift (observe_balance unstake_observed_total (unstake_accounts_balance v))) (\<lambda>u.
     then_do (lift (from_arith (lamports_add stake_observed_total unstake_observed_total))) (\<lambda>stake_total_with_rewards.
     then_do (lift (expect (lamports_sub stake_total_with_rewards (stake_accounts_balance v)))) (\<lambda>rewards.
     then_do (lift (expect (lamports_sub unstake_observed_total unstake_removed))) (\<lambda>new_unstake.
     then_do (lift (expect (lamports_sub stake_observed_total excess_removed))) (\<lambda>remaining.
     then_do (lift (expect (lamports_add remaining new_unstake))) (\<lambda>new_stake.
     let v = v\<lparr>unstake_accounts_balance := new_unstake, stake_accounts_balance := new_stake\<rparr> in
     then_do (lift (compute_effective_stake_balance v)) (\<lambda>eff.
     then_do (store_entry (VE E) r ref (v\<lparr>effective_stake_balance := eff\<rparr>)) (\<lambda>u.
     then_do (distribute_fees E l lido_info mint_info mint_authority treasury_info developer_info
       spl_token_program clock rewards) (\<lambda>l.
     save E l lido_info))))))))))))))))))))))))"

subsection \<open>Withdrawals\<close>

definition LAMPORTS_PER_SOL :: u64 where
  "LAMPORTS_PER_SOL = 1000000000"

definition process_withdraw :: "lenv \<Rightarrow> pubkey \<Rightarrow> st_lamports \<Rightarrow> u32 \<Rightarrow> account_info list \<Rightarrow> unit prog" where
  "process_withdraw E program_id amount validator_index raw_accounts =
     then_do (lift (info_try_from_slice (withdraw_accounts E) raw_accounts)) (\<lambda>(accs, multi).
     let lido_info = accs ! 0; st_sol_account_owner = accs ! 1; st_sol_account = accs ! 2;
         mint_info = accs ! 3; vote_info = accs ! 4; source = accs ! 5; destination = accs ! 6;
         stake_authority = accs ! 7; list_info = accs ! 8; spl_token = accs ! 9;
         sysvar_clock = accs ! 10; system_program = accs ! 11; stake_program = accs ! 12 in
     then_do (deserialize_lido E program_id lido_info) (\<lambda>l.
     then_do (lift (clock_get E)) (\<lambda>clock.
     then_do (check_exchange_rate_last_epoch l clock) (\<lambda>u.
     with_borrow_mut list_info (\<lambda>data.
     then_do (deserialize_account_list_info (VE E) l program_id list_info data) (\<lambda>r.
     then_do (lift (bvh_iter (VE E) (lr_view r))) (\<lambda>vs.
     then_do (lift (ok_or (max_by_key effective_stake_balance vs) (lido_err NoActiveValidators))) (\<lambda>maximum.
     let maximum_stake_balance = effective_stake_balance maximum in
     then_do (lift (bvh_get_mut (VE E) (lr_view r) validator_index (key vote_info))) (\<lambda>(ref, v).
     then_do (require (effective_stake_balance v \<noteq> Lamports 0) (lido_err ValidatorHasNoStake)) (\<lambda>u.
     then_do (require (\<not> effective_stake_balance v < maximum_stake_balance)
       (lido_err ValidatorWithMoreStakeExists)) (\<lambda>u.
     let (stake_account, b) = find_stake_account_address (find_program_address E) v program_id
           (key lido_info) (seed_begin (stake_seeds v)) stake_type.Stake in
     then_do (require (stake_account = key source) (lido_err InvalidStakeAccount)) (\<lambda>u.
     then_do (lift (from_lido (exchange_st_sol (exchange_rate l) amount))) (\<lambda>sol_to_withdraw.
     then_do (lamports_of source) (\<lambda>source_balance.
     then_do (lift (expect (lamports_mul_rational source_balance \<lparr>numerator = 1, denominator = 10\<rparr>))) (\<lambda>tenth.
     then_do (lift (from_arith (lamports_add tenth (Lamports (10 * LAMPORTS_PER_SOL))))) (\<lambda>max_withdraw_amount.
     then_do (require (\<not> sol_to_withdraw > max_withdraw_amount) (lido_err InvalidAmount)) (\<lambda>u.
     then_do (lift (from_arith (lamports_sub source_balance sol_to_withdraw))) (\<lambda>remaining_balance.
     then_do (if remaining_balance < MINIMUM_STAKE_ACCOUNT_BALANCE then
         then_do (lift (expect (lamports_sub source_balance MINIMUM_STAKE_ACCOUNT_BALANCE))) (\<lambda>logged.
         fail_lido InvalidAmount)
       else return ()) (\<lambda>u.
     then_do (lift (from_arith (lamports_sub (stake_accounts_balance v) sol_to_withdraw))) (\<lambda>new_balance.
     let v = v\<lparr>stake_accounts_balance := new_balance\<rparr> in
     then_do (lift (compute_effective_stake_balance v)) (\<lambda>eff.
     then_do (store_entry (VE E) r ref (v\<lparr>effective_stake_balance := eff\<rparr>)) (\<lambda>u.
     then_do (burn_st_sol E l st_sol_account_owner st_sol_account mint_info spl_token amount) (\<lambda>u.
     then_do (lift (from_arith (observe_withdrawal (lido_metrics l) amount sol_to_withdraw))) (\<lambda>m.
     let l = l\<lparr>lido_metrics := m\<rparr> in
     then_do (split_stake_account E (key lido_info) l source destination stake_authority system_program
       stake_program sol_to_withdraw []) (\<lambda>u.
     then_do (transfer_stake_authority E lido_info st_sol_account_owner destination stake_authority
       sysvar_clock stake_program (stake_authority_bump_seed l)) (\<lambda>u.
     save E l lido_info))))))))))))))))))))))))))"

subsection \<open>Migration\<close>

definition process_migrate_to_v2 ::
  "lenv \<Rightarrow> pubkey \<Rightarrow> reward_distribution \<Rightarrow> u32 \<Rightarrow> u32 \<Rightarrow> u8 \<Rightarrow> account_info list \<Rightarrow> unit prog" where
  "process_migrate_to_v2 E program_id rd max_validators max_maintainers max_commission_percentage accounts_raw =
     then_do (lift (info_try_from_slice (migrate_state_to_v2_accounts E) accounts_raw)) (\<lambda>(accs, multi).
     let lido_info = accs ! 0; manager_info = accs ! 1; validator_list_info = accs ! 2;
         perf_list_info = accs ! 3; maintainer_list_info = accs ! 4; developer_info = accs ! 5 in
     then_do (deserialize_lido_v1 E program_id lido_info) (\<lambda>l1.
     then_do (lido_v1_check_manager l1 manager_info) (\<lambda>u.
     then_do (require (v1_lido_version l1 = 0 \<and> LIDO_VERSION = 1) (lido_err LidoVersionMismatch)) (\<lambda>u.
     then_do (lift (rent_get E)) (\<lambda>rent.
     then_do (check_rent_exempt rent validator_list_info) (\<lambda>u.
     then_do (check_rent_exempt rent perf_list_info) (\<lambda>u.
     then_do (check_rent_exempt rent maintainer_list_info) (\<lambda>u.
     then_do (check_account_owner validator_list_info program_id) (\<lambda>u.
     then_do (check_account_owner perf_list_info program_id) (\<lambda>u.
     then_do (check_account_owner maintainer_list_info program_id) (\<lambda>u.
     then_do (check_account_data E validator_list_info (required_bytes (VE E) max_validators)) (\<lambda>u.
     then_do (check_account_data E perf_list_info (required_bytes (PE E) max_validators)) (\<lambda>u.
     then_do (check_account_data E maintainer_list_info (required_bytes (ME E) max_maintainers)) (\<lambda>u.
     then_do (require (key validator_list_info \<noteq> key maintainer_list_info) (lido_err AlreadyInUse)) (\<lambda>u.
     then_do (require (\<not> length (am_entries (v1_maintainers l1)) > unat max_maintainers)
       (lido_err MaximumNumberOfAccountsExceeded)) (\<lambda>u.
     let maintainers = (empty_list (ME E) max_maintainers)
           \<lparr>entries := map (\<lambda>pe. maintainer_new (pe_pubkey pe)) (am_entries (v1_maintainers l1))\<rparr> in
     then_do (require (\<not> length (am_entries (v1_validators l1)) > unat max_validators)
       (lido_err MaximumNumberOfAccountsExceeded)) (\<lambda>u.
     let validators = empty_list (VE E) max_validators in
     then_do (require (am_entries (v1_validators l1) = []) (lido_err ValidatorListNotEmpty)) (\<lambda>u.
     then_do (require (\<not> max_commission_percentage > 100) (lido_err ValidationCommissionOutOfBounds)) (\<lambda>u.
     let l = \<lparr>lido_account_type = Lido, lido_lido_version = LIDO_VERSION, manager = v1_manager l1,
              st_sol_mint = v1_st_sol_mint l1, exchange_rate = v1_exchange_rate l1,
              sol_reserve_account_bump_seed = v1_sol_reserve_account_bump_seed l1,
              stake_authority_bump_seed = v1_stake_authority_bump_seed l1,
              mint_authority_bump_seed = v1_mint_authority_bump_seed l1,
              reward_distribution = rd,
              fee_recipients = \<lparr>treasury_account = treasury_account (v1_fee_recipients l1),
                                developer_account = key developer_info\<rparr>,
              lido_metrics = v1_metrics l1, lido_criteria = criteria_default,
              validator_list = key validator_list_info,
              validator_perf_list = key perf_list_info,
              maintainer_list = key maintainer_list_info\<rparr> in
     then_do (check_is_st_sol_account E l developer_info) (\<lambda>u.
     then_do (save_list (VE E) validators validator_list_info) (\<lambda>u.
     then_do (save_list (ME E) maintainers maintainer_list_info) (\<lambda>u.
     save E l lido_info))))))))))))))))))))))"

subsection \<open>Dispatch\<close>

definition process_instruction :: "lenv \<Rightarrow> pubkey \<Rightarrow> account_info list \<Rightarrow> lido_instruction \<Rightarrow> unit prog" where
  "process_instruction E program_id accounts ins =
     (case ins of
        Initialize rd crit max_validators max_maintainers \<Rightarrow>
          process_initialize E program_id rd crit max_validators max_maintainers accounts
      | Deposit amount \<Rightarrow> process_deposit E program_id amount accounts
      | StakeDepositV2 amount validator_index maintainer_index \<Rightarrow>
          process_stake_deposit E program_id amount validator_index maintainer_index accounts
      | UnstakeV2 amount validator_index maintainer_index \<Rightarrow>
          process_unstake E program_id amount validator_index maintainer_index accounts
      | UpdateExchangeRateV2 \<Rightarrow> process_update_exchange_rate E program_id accounts
      | UpdateStakeAccountBalance validator_index \<Rightarrow>
          process_update_stake_account_balance E program_id validator_index accounts
      | UpdateOffchainValidatorPerf block_rate vote_rate \<Rightarrow>
          process_update_offchain_validator_perf E program_id block_rate vote_rate accounts
      | UpdateOnchainValidatorPerf \<Rightarrow> process_update_onchain_validator_perf E program_id accounts
      | WithdrawV2 amount validator_index \<Rightarrow> process_withdraw E program_id amount validator_index accounts
      | ChangeRewardDistribution rd \<Rightarrow> process_change_reward_distribution E program_id rd accounts
      | AddValidatorV2 \<Rightarrow> process_add_validator E program_id accounts
      | EnqueueValidatorForRemovalV2 validator_index \<Rightarrow>
          process_enqueue_validator_for_removal E program_id validator_index accounts
      | RemoveValidatorV2 validator_index \<Rightarrow> process_remove_validator E program_id validator_index accounts
      | DeactivateValidatorV2 validator_index \<Rightarrow>
          process_deactivate_validator E program_id validator_index accounts
      | AddMaintainerV2 \<Rightarrow> process_add_maintainer E program_id accounts
      | RemoveMaintainerV2 maintainer_index \<Rightarrow>
          process_remove_maintainer E program_id maintainer_index accounts
      | MergeStakeV2 validator_index \<Rightarrow> process_merge_stake E program_id validator_index accounts
      | DeactivateIfViolates \<Rightarrow> process_deactivate_if_violates E program_id accounts
      | ReactivateIfComplies \<Rightarrow> process_reactivate_if_complies E program_id accounts
      | ChangeCriteria crit \<Rightarrow> process_change_criteria E program_id crit accounts
      | MigrateStateToV2 rd max_validators max_maintainers max_commission_percentage \<Rightarrow>
          process_migrate_to_v2 E program_id rd max_validators max_maintainers
            max_commission_percentage accounts
      | WithdrawInactiveStake \<Rightarrow> fail_lido InstructionIsDeprecated
      | CollectValidatorFee \<Rightarrow> fail_lido InstructionIsDeprecated
      | ClaimValidatorFee \<Rightarrow> fail_lido InstructionIsDeprecated
      | UpdateExchangeRate \<Rightarrow> fail_lido InstructionIsDeprecated
      | MergeStake \<Rightarrow> fail_lido InstructionIsDeprecated
      | AddValidator \<Rightarrow> fail_lido InstructionIsDeprecated
      | AddMaintainer \<Rightarrow> fail_lido InstructionIsDeprecated
      | DeactivateValidator \<Rightarrow> fail_lido InstructionIsDeprecated
      | RemoveMaintainer \<Rightarrow> fail_lido InstructionIsDeprecated
      | RemoveValidator \<Rightarrow> fail_lido InstructionIsDeprecated
      | StakeDeposit amount \<Rightarrow> fail_lido InstructionIsDeprecated
      | lido_instruction.Unstake amount \<Rightarrow> fail_lido InstructionIsDeprecated
      | Withdraw amount \<Rightarrow> fail_lido InstructionIsDeprecated)"

definition process :: "lenv \<Rightarrow> pubkey \<Rightarrow> account_info list \<Rightarrow> u8 list \<Rightarrow> unit prog" where
  "process E program_id accounts input =
     then_do (lift (ok_or (instruction_read E input) BorshIoError)) (\<lambda>ins.
     process_instruction E program_id accounts ins)"

end
