(* ===== verification/Pool.thy ===== *)
theory Pool
  imports Processor
begin

text \<open>
  The abstract specification of the program: a pool is its state record with the
  list of validators and the list of maintainers, and an instruction is a step
  between pools. Bytes, accounts and invoked programs do not occur here, and what they
  decide (an observed balance, a new exchange rate) is an arbitrary value within the bounds that the
  program enforces. The set in a step holds the addresses that signed the transaction.
\<close>

record pool =
  pool_lido :: lido
  pool_validators :: "validator list"
  pool_maintainers :: "maintainer list"

definition maintainer_at :: "pool \<Rightarrow> u32 \<Rightarrow> pubkey \<Rightarrow> bool" where
  "maintainer_at s i m \<longleftrightarrow>
     unat i < length (pool_maintainers s) \<and> maintainer_pubkey (pool_maintainers s ! unat i) = m"

definition validator_at :: "pool \<Rightarrow> u32 \<Rightarrow> validator \<Rightarrow> bool" where
  "validator_at s i v \<longleftrightarrow> unat i < length (pool_validators s) \<and> pool_validators s ! unat i = v"

definition set_validator :: "pool \<Rightarrow> u32 \<Rightarrow> validator \<Rightarrow> pool" where
  "set_validator s i v = s\<lparr>pool_validators := (pool_validators s)[unat i := v]\<rparr>"

definition set_lido :: "pool \<Rightarrow> lido \<Rightarrow> pool" where
  "set_lido s l = s\<lparr>pool_lido := l\<rparr>"

definition unstake_count :: "validator \<Rightarrow> nat" where
  "unstake_count v = unat (seed_end (unstake_seeds v) - seed_begin (unstake_seeds v))"

text \<open>The new balances of a validator, with the effective balance recomputed.\<close>

definition with_balances :: "validator \<Rightarrow> lamports \<Rightarrow> lamports \<Rightarrow> validator" where
  "with_balances v stk unstk =
     v\<lparr>stake_accounts_balance := stk, unstake_accounts_balance := unstk,
       effective_stake_balance := Lamports (lam stk - lam unstk)\<rparr>"

inductive pool_step :: "epoch \<Rightarrow> pubkey set \<Rightarrow> lido_instruction \<Rightarrow> pool \<Rightarrow> pool \<Rightarrow> bool"
  for now :: epoch and signers :: "pubkey set" where
  deposit_step:
    "\<lbrakk>amount \<noteq> Lamports 0;
      histogram_observe (deposit_amount (lido_metrics (pool_lido s))) amount = Ok h\<rbrakk> \<Longrightarrow>
     pool_step now signers (Deposit amount) s
       (set_lido s ((pool_lido s)\<lparr>lido_metrics := (lido_metrics (pool_lido s))\<lparr>deposit_amount := h\<rparr>\<rparr>))"
| stake_deposit_step:
    "\<lbrakk>maintainer_at s mi m; m \<in> signers; MINIMUM_STAKE_ACCOUNT_BALANCE \<le> amount;
      validator_at s vi v; is_active v;
      \<forall>u \<in> set (pool_validators s). is_active u \<longrightarrow> effective_stake_balance v \<le> effective_stake_balance u;
      lamports_add (stake_accounts_balance v) amount = Ok stk;
      unstake_accounts_balance v \<le> stk;
      se = seed_end (stake_seeds v) + 1 \<or>
        se = seed_end (stake_seeds v) \<and> seed_begin (stake_seeds v) < seed_end (stake_seeds v)\<rbrakk> \<Longrightarrow>
     pool_step now signers (StakeDepositV2 amount vi mi) s
       (set_validator s vi ((with_balances v stk (unstake_accounts_balance v))
         \<lparr>stake_seeds := (stake_seeds v)\<lparr>seed_end := se\<rparr>\<rparr>))"
| unstake_step:
    "\<lbrakk>maintainer_at s mi m; m \<in> signers; validator_at s vi v; has_stake_accounts v;
      unstake_count v < 3;
      lamports_add (unstake_accounts_balance v) amount = Ok unstk;
      unstk \<le> stake_accounts_balance v;
      sb = (if is_active v then seed_begin (stake_seeds v) else seed_begin (stake_seeds v) + 1)\<rbrakk> \<Longrightarrow>
     pool_step now signers (UnstakeV2 amount vi mi) s
       (set_validator s vi ((with_balances v (stake_accounts_balance v) unstk)
         \<lparr>stake_seeds := (stake_seeds v)\<lparr>seed_begin := sb\<rparr>,
          unstake_seeds := (unstake_seeds v)\<lparr>seed_end := seed_end (unstake_seeds v) + 1\<rparr>\<rparr>))"
| update_exchange_rate_step:
    "\<lbrakk>computed_in_epoch (exchange_rate (pool_lido s)) < now;
      and_then (lamports_sum (map stake_accounts_balance (pool_validators s)))
        (\<lambda>t. lamports_add t reserve) = Ok balance\<rbrakk> \<Longrightarrow>
     pool_step now signers UpdateExchangeRateV2 s
       (set_lido s ((pool_lido s)\<lparr>exchange_rate :=
         \<lparr>computed_in_epoch = now, st_sol_supply = supply, sol_balance = balance\<rparr>\<rparr>))"
| update_stake_account_balance_step:
    "\<lbrakk>validator_at s vi v;
      effective_stake_balance v \<le> stake_observed; unstake_accounts_balance v \<le> unstake_observed;
      lamports_sub unstake_observed unstake_removed = Ok unstk;
      lamports_sub stake_observed excess_removed = Ok remaining;
      lamports_add remaining unstk = Ok stk;
      unat (seed_end (unstake_seeds v) - ub) \<le> unstake_count v;
      deposit_amount metr = deposit_amount (lido_metrics (pool_lido s))\<rbrakk> \<Longrightarrow>
     pool_step now signers (UpdateStakeAccountBalance vi) s
       (set_lido (set_validator s vi ((with_balances v stk unstk)
         \<lparr>unstake_seeds := (unstake_seeds v)\<lparr>seed_begin := ub\<rparr>\<rparr>))
         ((pool_lido s)\<lparr>lido_metrics := metr\<rparr>))"
| withdraw_step:
    "\<lbrakk>now \<le> computed_in_epoch (exchange_rate (pool_lido s));
      validator_at s vi v; effective_stake_balance v \<noteq> Lamports 0;
      \<forall>u \<in> set (pool_validators s). effective_stake_balance u \<le> effective_stake_balance v;
      exchange_st_sol (exchange_rate (pool_lido s)) amount = Ok sol_out;
      lamports_sub (stake_accounts_balance v) sol_out = Ok stk;
      unstake_accounts_balance v \<le> stk;
      observe_withdrawal (lido_metrics (pool_lido s)) amount sol_out = Ok metr\<rbrakk> \<Longrightarrow>
     pool_step now signers (WithdrawV2 amount vi) s
       (set_lido (set_validator s vi (with_balances v stk (unstake_accounts_balance v)))
         ((pool_lido s)\<lparr>lido_metrics := metr\<rparr>))"
| change_reward_distribution_step:
    "manager (pool_lido s) \<in> signers \<Longrightarrow>
     pool_step now signers (ChangeRewardDistribution rd) s
       (set_lido s ((pool_lido s)\<lparr>reward_distribution := rd, fee_recipients := recipients\<rparr>))"
| add_validator_step:
    "\<lbrakk>manager (pool_lido s) \<in> signers; k \<notin> vote_account_address ` set (pool_validators s)\<rbrakk> \<Longrightarrow>
     pool_step now signers AddValidatorV2 s (s\<lparr>pool_validators := pool_validators s @ [validator_new k]\<rparr>)"
| enqueue_validator_for_removal_step:
    "\<lbrakk>manager (pool_lido s) \<in> signers; validator_at s vi v\<rbrakk> \<Longrightarrow>
     pool_step now signers (EnqueueValidatorForRemovalV2 vi) s (set_validator s vi (enqueue_for_removal v))"
| remove_validator_step:
    "\<lbrakk>validator_at s vi v; status v = PendingRemoval; \<not> has_stake_accounts v; \<not> has_unstake_accounts v;
      stake_accounts_balance v = Lamports 0\<rbrakk> \<Longrightarrow>
     pool_step now signers (RemoveValidatorV2 vi) s
       (s\<lparr>pool_validators := list_swap_remove (unat vi) (pool_validators s)\<rparr>)"
| deactivate_validator_step:
    "\<lbrakk>manager (pool_lido s) \<in> signers; validator_at s vi v\<rbrakk> \<Longrightarrow>
     pool_step now signers (DeactivateValidatorV2 vi) s (set_validator s vi (deactivate v))"
| add_maintainer_step:
    "\<lbrakk>manager (pool_lido s) \<in> signers; k \<notin> maintainer_pubkey ` set (pool_maintainers s)\<rbrakk> \<Longrightarrow>
     pool_step now signers AddMaintainerV2 s (s\<lparr>pool_maintainers := pool_maintainers s @ [maintainer_new k]\<rparr>)"
| remove_maintainer_step:
    "\<lbrakk>manager (pool_lido s) \<in> signers; unat mi < length (pool_maintainers s)\<rbrakk> \<Longrightarrow>
     pool_step now signers (RemoveMaintainerV2 mi) s
       (s\<lparr>pool_maintainers := list_swap_remove (unat mi) (pool_maintainers s)\<rparr>)"
| merge_stake_step:
    "\<lbrakk>validator_at s vi v; seed_begin (stake_seeds v) + 1 < seed_end (stake_seeds v)\<rbrakk> \<Longrightarrow>
     pool_step now signers (MergeStakeV2 vi) s
       (set_validator s vi (v\<lparr>stake_seeds := (stake_seeds v)\<lparr>seed_begin := seed_begin (stake_seeds v) + 1\<rparr>\<rparr>))"
| deactivate_if_violates_step:
    "\<lbrakk>validator_at s vi v; is_active v\<rbrakk> \<Longrightarrow>
     pool_step now signers DeactivateIfViolates s (set_validator s vi (deactivate v))"
| deactivate_if_violates_idle: "pool_step now signers DeactivateIfViolates s s"
| reactivate_if_complies_step:
    "\<lbrakk>validator_at s vi v; \<not> is_active v\<rbrakk> \<Longrightarrow>
     pool_step now signers ReactivateIfComplies s (set_validator s vi (activate v))"
| reactivate_if_complies_idle: "pool_step now signers ReactivateIfComplies s s"
| change_criteria_step:
    "\<lbrakk>manager (pool_lido s) \<in> signers; max_commission c \<le> 100\<rbrakk> \<Longrightarrow>
     pool_step now signers (ChangeCriteria c) s (set_lido s ((pool_lido s)\<lparr>lido_criteria := c\<rparr>))"
| update_offchain_validator_perf_step: "pool_step now signers (UpdateOffchainValidatorPerf block vote) s s"
| update_onchain_validator_perf_step: "pool_step now signers UpdateOnchainValidatorPerf s s"

subsection \<open>Invariants\<close>

text \<open>A validator's bookkeeping: the unstake balance is within the stake balance, the stored
  effective balance is their difference, and there are at most three unstake accounts.\<close>

definition validator_inv :: "validator \<Rightarrow> bool" where
  "validator_inv v \<longleftrightarrow>
     unstake_within_stake v \<and> effective_stake_balance v = effective_of v \<and> unstake_count v \<le> 3"

definition pool_inv :: "pool \<Rightarrow> bool" where
  "pool_inv s \<longleftrightarrow>
     (\<forall>v \<in> set (pool_validators s). validator_inv v) \<and>
     distinct (map vote_account_address (pool_validators s)) \<and>
     distinct (map maintainer_pubkey (pool_maintainers s))"

lemma validator_inv_with_balances:
  assumes "unstk \<le> stk" and "unat (seed_end us - seed_begin us) \<le> 3"
  shows "validator_inv ((with_balances v stk unstk)\<lparr>stake_seeds := ss, unstake_seeds := us\<rparr>)"
  using assms
  by (simp add: validator_inv_def with_balances_def unstake_within_stake_def effective_of_def unstake_count_def)

lemma validator_inv_status [simp]:
  "validator_inv (v\<lparr>status := st\<rparr>) = validator_inv v"
  "validator_inv (v\<lparr>stake_seeds := ss\<rparr>) = validator_inv v"
  by (simp_all add: validator_inv_def unstake_within_stake_def effective_of_def unstake_count_def)

lemma validator_inv_operations [simp]:
  "validator_inv (enqueue_for_removal v) = validator_inv v"
  "validator_inv (deactivate v) = validator_inv v" "validator_inv (activate v) = validator_inv v"
  by (simp_all add: enqueue_for_removal_def deactivate_def activate_def)

lemma validator_inv_new: "validator_inv (validator_new k)"
  by (simp add: validator_inv_def validator_new_def validator_default_def unstake_within_stake_def
      effective_of_def unstake_count_def)

lemma validator_key [simp]:
  "vote_account_address (with_balances v a b) = vote_account_address v"
  "vote_account_address (enqueue_for_removal v) = vote_account_address v"
  "vote_account_address (deactivate v) = vote_account_address v"
  "vote_account_address (activate v) = vote_account_address v"
  "vote_account_address (validator_new k) = k"
  by (simp_all add: with_balances_def enqueue_for_removal_def deactivate_def activate_def validator_new_def)

lemma pool_inv_set_validator:
  assumes "pool_inv s" and "validator_at s i v" and "validator_inv v'"
    and "vote_account_address v' = vote_account_address v"
  shows "pool_inv (set_validator s i v')"
proof -
  have "map vote_account_address ((pool_validators s)[unat i := v']) = map vote_account_address (pool_validators s)"
    using assms(2,4) by (metis list_update_id map_update validator_at_def)
  moreover have "\<forall>u \<in> set ((pool_validators s)[unat i := v']). validator_inv u"
    using assms(1,3) set_update_subset_insert [of "pool_validators s" "unat i" v'] by (auto simp: pool_inv_def)
  ultimately show ?thesis using assms(1) by (simp add: pool_inv_def set_validator_def)
qed

lemma pool_inv_set_lido [simp]: "pool_inv (set_lido s l) = pool_inv s"
  by (simp add: pool_inv_def set_lido_def)

lemma validator_at_inv: "\<lbrakk>pool_inv s; validator_at s i v\<rbrakk> \<Longrightarrow> validator_inv v"
  by (auto simp: pool_inv_def validator_at_def)

lemma pool_inv_update:
  "\<lbrakk>pool_inv s; validator_at s i v; validator_inv v \<Longrightarrow> validator_inv v';
    vote_account_address v' = vote_account_address v\<rbrakk> \<Longrightarrow> pool_inv (set_validator s i v')"
  by (blast intro: pool_inv_set_validator validator_at_inv)

lemma unat_le_Suc: "unat (x + 1 :: u64) \<le> Suc (unat x)"
  by (simp add: unat_word_ariths(1) mod_less_eq_dividend)

lemma pool_step_inv:
  assumes "pool_step now signers ins s s'" and "pool_inv s"
  shows "pool_inv s'"
  using assms
proof (induction rule: pool_step.induct)
  case (stake_deposit_step s mi m amount vi v stk se)
  then have "validator_inv v" by (blast intro: validator_at_inv)
  then have "validator_inv ((with_balances v stk (unstake_accounts_balance v))
      \<lparr>stake_seeds := (stake_seeds v)\<lparr>seed_end := se\<rparr>, unstake_seeds := unstake_seeds v\<rparr>)"
    using stake_deposit_step by (intro validator_inv_with_balances) (auto simp: validator_inv_def unstake_count_def)
  then show ?case
    using stake_deposit_step by (intro pool_inv_set_validator) (auto simp: with_balances_def)
next
  case (unstake_step s mi m vi v amount unstk sb)
  have "seed_end (unstake_seeds v) + 1 - seed_begin (unstake_seeds v) =
      seed_end (unstake_seeds v) - seed_begin (unstake_seeds v) + 1" by simp
  then have "unat (seed_end (unstake_seeds v) + 1 - seed_begin (unstake_seeds v)) \<le> 3"
    using unat_le_Suc [of "seed_end (unstake_seeds v) - seed_begin (unstake_seeds v)"] unstake_step(5)
    by (simp only: unstake_count_def)
  then show ?case
    using unstake_step by (intro pool_inv_set_validator validator_inv_with_balances) auto
next
  case (update_stake_account_balance_step s vi v stake_observed unstake_observed unstake_removed unstk
      excess_removed remaining stk ub metr)
  then have inv: "validator_inv v" by (blast intro: validator_at_inv)
  have le: "unstk \<le> stk"
    using update_stake_account_balance_step(6) by (auto simp: lamports_le_iff lamp.add_eq_Ok)
  have "validator_inv ((with_balances v stk unstk)
      \<lparr>stake_seeds := stake_seeds v, unstake_seeds := (unstake_seeds v)\<lparr>seed_begin := ub\<rparr>\<rparr>)"
    using inv le update_stake_account_balance_step(7)
    by (intro validator_inv_with_balances) (auto simp: validator_inv_def)
  then show ?case
    using update_stake_account_balance_step by (auto intro!: pool_inv_set_validator simp: with_balances_def)
next
  case (withdraw_step s vi v amount sol_out stk metr)
  then have "validator_inv v" by (blast intro: validator_at_inv)
  then have "validator_inv ((with_balances v stk (unstake_accounts_balance v))
      \<lparr>stake_seeds := stake_seeds v, unstake_seeds := unstake_seeds v\<rparr>)"
    using withdraw_step by (intro validator_inv_with_balances) (auto simp: validator_inv_def unstake_count_def)
  then show ?case
    using withdraw_step by (auto intro!: pool_inv_set_validator simp: with_balances_def)
next
  case (remove_validator_step s vi v)
  then show ?case
    using set_list_swap_remove_subset [of "unat vi" "pool_validators s"]
      distinct_list_swap_remove [of vote_account_address "pool_validators s" "unat vi"]
    by (auto simp: pool_inv_def validator_at_def)
next
  case (remove_maintainer_step s mi)
  then show ?case
    using distinct_list_swap_remove [of maintainer_pubkey "pool_maintainers s" "unat mi"]
    by (auto simp: pool_inv_def)
next
  case (add_validator_step s k)
  then show ?case by (auto simp: pool_inv_def validator_inv_new)
next
  case (add_maintainer_step s k)
  then show ?case by (auto simp: pool_inv_def maintainer_new_def)
qed (simp_all, (erule (1) pool_inv_update, simp, simp)+)

end
