(* ===== verification/Borsh.thy ===== *)
theory Borsh
  imports State
begin

text \<open>
  The Borsh form of the state account, as the derived code of \<open>Lido\<close> and \<open>LidoV1\<close> in
  \<^verbatim>\<open>program/src/state.rs\<close> and \<^verbatim>\<open>metrics.rs\<close> writes it: fields in the
  order of declaration, integers little-endian, an enum as the index of its variant, a vector with its length
  in front. A reader takes the bytes it needs from the front and returns the rest. The
  locale \<open>borsh_codec\<close> is the contract of one type; the codec of a struct is put together
  from those of its fields.
\<close>

type_synonym 'a reader = "u8 list \<Rightarrow> ('a \<times> u8 list) option"

locale borsh_codec =
  fixes enc :: "'a \<Rightarrow> u8 list" and dec :: "'a reader" and wf :: "'a \<Rightarrow> bool" and len :: nat
  assumes read_write: "wf x \<Longrightarrow> dec (enc x @ r) = Some (x, r)"
    and length_write: "wf x \<Longrightarrow> length (enc x) = len"
    and read_wf: "dec bs = Some (x, r) \<Longrightarrow> wf x"
begin

lemma write_inj: "\<lbrakk>wf x; wf y; enc x = enc y\<rbrakk> \<Longrightarrow> x = y"
  by (metis Pair_inject option.inject read_write)

end

subsection \<open>Integers and keys\<close>

definition read_bytes :: "nat \<Rightarrow> u8 list reader" where
  "read_bytes n bs = (if length bs < n then None else Some (take n bs, drop n bs))"

definition read_u8 :: "u8 reader" where
  "read_u8 bs = (case bs of [] \<Rightarrow> None | b # r \<Rightarrow> Some (b, r))"

definition u32_bytes :: "u32 \<Rightarrow> u8 list" where
  "u32_bytes x = le_bytes 4 (unat x)"

definition read_u32 :: "u32 reader" where
  "read_u32 bs = map_option (\<lambda>(x, r). (word_of_nat (le_val x), r)) (read_bytes 4 bs)"

definition read_u64 :: "u64 reader" where
  "read_u64 bs = map_option (\<lambda>(x, r). (word_of_nat (le_val x), r)) (read_bytes 8 bs)"

definition read_pubkey :: "pubkey reader" where
  "read_pubkey bs = map_option (\<lambda>(x, r). (word_of_nat (le_val x), r)) (read_bytes 32 bs)"

definition read_lamports :: "lamports reader" where
  "read_lamports bs = map_option (\<lambda>(x, r). (Lamports x, r)) (read_u64 bs)"

definition read_st_lamports :: "st_lamports reader" where
  "read_st_lamports bs = map_option (\<lambda>(x, r). (StLamports x, r)) (read_u64 bs)"

lemma length_u32_bytes [simp]: "length (u32_bytes x) = 4"
  by (simp add: u32_bytes_def)

lemma read_primitive [simp]:
  "read_u8 (b # r) = Some (b, r)"
  "read_u32 (u32_bytes x @ r) = Some (x, r)"
  "read_u64 (u64_bytes y @ r) = Some (y, r)"
  "read_pubkey (pubkey_bytes k @ r) = Some (k, r)"
  "read_lamports (u64_bytes y @ r) = Some (Lamports y, r)"
  "read_st_lamports (u64_bytes y @ r) = Some (StLamports y, r)"
  by (simp_all add: read_u8_def read_u32_def read_u64_def read_pubkey_def read_lamports_def read_st_lamports_def
      read_bytes_def u32_bytes_def word_of_le_bytes_4)

fun read_many :: "'a reader \<Rightarrow> nat \<Rightarrow> 'a list reader" where
  "read_many rd 0 bs = Some ([], bs)"
| "read_many rd (Suc n) bs =
     Option.bind (rd bs) (\<lambda>(x, bs). Option.bind (read_many rd n bs) (\<lambda>(xs, bs). Some (x # xs, bs)))"

lemma read_many_write:
  "(\<And>x r. rd (wr x @ r) = Some (x, r)) \<Longrightarrow>
     read_many rd (length xs) (concat (map wr xs) @ r) = Some (xs, r)"
  by (induction xs) auto

lemma read_many_length: "read_many rd n bs = Some (xs, r) \<Longrightarrow> length xs = n"
  by (induction n arbitrary: bs xs) (auto simp: bind_eq_Some_conv)

definition read_vec :: "'a reader \<Rightarrow> 'a list reader" where
  "read_vec rd bs = Option.bind (read_u32 bs) (\<lambda>(n, bs). read_many rd (unat n) bs)"

subsection \<open>The structs of the state account\<close>

definition exchange_rate_bytes :: "exchange_rate \<Rightarrow> u8 list" where
  "exchange_rate_bytes x =
     u64_bytes (computed_in_epoch x) @ u64_bytes (st_lam (st_sol_supply x)) @ u64_bytes (lam (sol_balance x))"

definition read_exchange_rate :: "exchange_rate reader" where
  "read_exchange_rate bs =
     Option.bind (read_u64 bs) (\<lambda>(e, bs).
     Option.bind (read_st_lamports bs) (\<lambda>(s, bs).
     Option.bind (read_lamports bs) (\<lambda>(b, bs).
     Some (\<lparr>computed_in_epoch = e, st_sol_supply = s, sol_balance = b\<rparr>, bs))))"

definition reward_distribution_bytes :: "reward_distribution \<Rightarrow> u8 list" where
  "reward_distribution_bytes x =
     u32_bytes (treasury_fee x) @ u32_bytes (developer_fee x) @ u32_bytes (st_sol_appreciation x)"

definition read_reward_distribution :: "reward_distribution reader" where
  "read_reward_distribution bs =
     Option.bind (read_u32 bs) (\<lambda>(t, bs).
     Option.bind (read_u32 bs) (\<lambda>(d, bs).
     Option.bind (read_u32 bs) (\<lambda>(a, bs).
     Some (\<lparr>treasury_fee = t, developer_fee = d, st_sol_appreciation = a\<rparr>, bs))))"

definition fee_recipients_bytes :: "fee_recipients \<Rightarrow> u8 list" where
  "fee_recipients_bytes x = pubkey_bytes (treasury_account x) @ pubkey_bytes (developer_account x)"

definition read_fee_recipients :: "fee_recipients reader" where
  "read_fee_recipients bs =
     Option.bind (read_pubkey bs) (\<lambda>(t, bs).
     Option.bind (read_pubkey bs) (\<lambda>(d, bs).
     Some (\<lparr>treasury_account = t, developer_account = d\<rparr>, bs)))"

definition criteria_bytes :: "criteria \<Rightarrow> u8 list" where
  "criteria_bytes x =
     max_commission x # u64_bytes (min_block_production_rate x) @ u64_bytes (min_vote_success_rate x)"

definition read_criteria :: "criteria reader" where
  "read_criteria bs =
     Option.bind (read_u8 bs) (\<lambda>(c, bs).
     Option.bind (read_u64 bs) (\<lambda>(b, bs).
     Option.bind (read_u64 bs) (\<lambda>(v, bs).
     Some (\<lparr>max_commission = c, min_block_production_rate = b, min_vote_success_rate = v\<rparr>, bs))))"

definition metrics_bytes :: "metrics \<Rightarrow> u8 list" where
  "metrics_bytes m =
     u64_bytes (lam (fee_treasury_sol_total m)) @ u64_bytes (lam (fee_validation_sol_total m)) @
     u64_bytes (lam (fee_developer_sol_total m)) @ u64_bytes (lam (st_sol_appreciation_sol_total m)) @
     u64_bytes (st_lam (fee_treasury_st_sol_total m)) @ u64_bytes (st_lam (fee_validation_st_sol_total m)) @
     u64_bytes (st_lam (fee_developer_st_sol_total m)) @
     concat (map u64_bytes (hist_counts (deposit_amount m))) @ u64_bytes (lam (hist_total (deposit_amount m))) @
     u64_bytes (st_lam (total_st_sol_amount (withdraw_amount m))) @
     u64_bytes (lam (total_sol_amount (withdraw_amount m))) @ u64_bytes (withdraw_count (withdraw_amount m))"

definition read_metrics :: "metrics reader" where
  "read_metrics bs =
     Option.bind (read_lamports bs) (\<lambda>(a, bs).
     Option.bind (read_lamports bs) (\<lambda>(b, bs).
     Option.bind (read_lamports bs) (\<lambda>(c, bs).
     Option.bind (read_lamports bs) (\<lambda>(d, bs).
     Option.bind (read_st_lamports bs) (\<lambda>(e, bs).
     Option.bind (read_st_lamports bs) (\<lambda>(f, bs).
     Option.bind (read_st_lamports bs) (\<lambda>(g, bs).
     Option.bind (read_many read_u64 12 bs) (\<lambda>(counts, bs).
     Option.bind (read_lamports bs) (\<lambda>(tot, bs).
     Option.bind (read_st_lamports bs) (\<lambda>(ws, bs).
     Option.bind (read_lamports bs) (\<lambda>(wl, bs).
     Option.bind (read_u64 bs) (\<lambda>(n, bs).
     Some (\<lparr>fee_treasury_sol_total = a, fee_validation_sol_total = b, fee_developer_sol_total = c,
       st_sol_appreciation_sol_total = d, fee_treasury_st_sol_total = e, fee_validation_st_sol_total = f,
       fee_developer_st_sol_total = g, deposit_amount = \<lparr>hist_counts = counts, hist_total = tot\<rparr>,
       withdraw_amount = \<lparr>total_st_sol_amount = ws, total_sol_amount = wl, withdraw_count = n\<rparr>\<rparr>, bs)))))))))))))"

definition metrics_wf :: "metrics \<Rightarrow> bool" where
  "metrics_wf m \<longleftrightarrow> length (hist_counts (deposit_amount m)) = 12"

definition account_type_byte :: "account_type \<Rightarrow> u8" where
  "account_type_byte t =
     (case t of Uninitialized \<Rightarrow> 0 | Lido \<Rightarrow> 1 | Validator \<Rightarrow> 2 | ValidatorPerf \<Rightarrow> 3 | Maintainer \<Rightarrow> 4)"

definition read_account_type :: "account_type reader" where
  "read_account_type bs =
     Option.bind (read_u8 bs) (\<lambda>(b, bs). map_option (\<lambda>t. (t, bs)) (account_type_of_byte b))"

definition lido_bytes :: "lido \<Rightarrow> u8 list" where
  "lido_bytes l =
     [account_type_byte (lido_account_type l), lido_lido_version l] @
     pubkey_bytes (manager l) @ pubkey_bytes (st_sol_mint l) @ exchange_rate_bytes (exchange_rate l) @
     [sol_reserve_account_bump_seed l, stake_authority_bump_seed l, mint_authority_bump_seed l] @
     reward_distribution_bytes (reward_distribution l) @ fee_recipients_bytes (fee_recipients l) @
     metrics_bytes (lido_metrics l) @ criteria_bytes (lido_criteria l) @
     pubkey_bytes (validator_list l) @ pubkey_bytes (validator_perf_list l) @ pubkey_bytes (maintainer_list l)"

definition read_lido :: "lido reader" where
  "read_lido bs =
     Option.bind (read_account_type bs) (\<lambda>(t, bs).
     Option.bind (read_u8 bs) (\<lambda>(version, bs).
     Option.bind (read_pubkey bs) (\<lambda>(man, bs).
     Option.bind (read_pubkey bs) (\<lambda>(mint, bs).
     Option.bind (read_exchange_rate bs) (\<lambda>(rate, bs).
     Option.bind (read_u8 bs) (\<lambda>(b1, bs).
     Option.bind (read_u8 bs) (\<lambda>(b2, bs).
     Option.bind (read_u8 bs) (\<lambda>(b3, bs).
     Option.bind (read_reward_distribution bs) (\<lambda>(rd, bs).
     Option.bind (read_fee_recipients bs) (\<lambda>(fr, bs).
     Option.bind (read_metrics bs) (\<lambda>(m, bs).
     Option.bind (read_criteria bs) (\<lambda>(c, bs).
     Option.bind (read_pubkey bs) (\<lambda>(vl, bs).
     Option.bind (read_pubkey bs) (\<lambda>(pl, bs).
     Option.bind (read_pubkey bs) (\<lambda>(ml, bs).
     Some (\<lparr>lido_account_type = t, lido_lido_version = version, manager = man, st_sol_mint = mint,
       exchange_rate = rate, sol_reserve_account_bump_seed = b1, stake_authority_bump_seed = b2,
       mint_authority_bump_seed = b3, reward_distribution = rd, fee_recipients = fr, lido_metrics = m,
       lido_criteria = c, validator_list = vl, validator_perf_list = pl, maintainer_list = ml\<rparr>, bs))))))))))))))))"

subsection \<open>The first version\<close>

definition read_reward_distribution_v1 :: "reward_distribution_v1 reader" where
  "read_reward_distribution_v1 bs =
     Option.bind (read_u32 bs) (\<lambda>(t, bs).
     Option.bind (read_u32 bs) (\<lambda>(v, bs).
     Option.bind (read_u32 bs) (\<lambda>(d, bs).
     Option.bind (read_u32 bs) (\<lambda>(a, bs).
     Some (\<lparr>v1_treasury_fee = t, v1_validation_fee = v, v1_developer_fee = d, v1_st_sol_appreciation = a\<rparr>, bs)))))"

definition read_seed_range :: "seed_range reader" where
  "read_seed_range bs =
     Option.bind (read_u64 bs) (\<lambda>(b, bs).
     Option.bind (read_u64 bs) (\<lambda>(e, bs).
     Some (\<lparr>seed_begin = b, seed_end = e\<rparr>, bs)))"

definition read_validator_v1 :: "validator_v1 reader" where
  "read_validator_v1 bs =
     Option.bind (read_st_lamports bs) (\<lambda>(fc, bs).
     Option.bind (read_pubkey bs) (\<lambda>(fa, bs).
     Option.bind (read_seed_range bs) (\<lambda>(ss, bs).
     Option.bind (read_seed_range bs) (\<lambda>(us, bs).
     Option.bind (read_lamports bs) (\<lambda>(sb, bs).
     Option.bind (read_lamports bs) (\<lambda>(ub, bs).
     Option.bind (read_u8 bs) (\<lambda>(a, bs).
     if a = 0 \<or> a = 1 then
       Some (\<lparr>v1_fee_credit = fc, v1_fee_address = fa, v1_stake_seeds = ss, v1_unstake_seeds = us,
         v1_stake_accounts_balance = sb, v1_unstake_accounts_balance = ub, v1_active = (a = 1)\<rparr>, bs)
     else None)))))))"

definition read_account_map :: "'a reader \<Rightarrow> 'a account_map reader" where
  "read_account_map rd bs =
     Option.bind (read_vec (\<lambda>bs. Option.bind (read_pubkey bs) (\<lambda>(k, bs). Option.bind (rd bs) (\<lambda>(x, bs).
       Some (\<lparr>pe_pubkey = k, pe_entry = x\<rparr>, bs)))) bs) (\<lambda>(es, bs).
     Option.bind (read_u32 bs) (\<lambda>(n, bs).
     Some (\<lparr>am_entries = es, am_maximum_entries = n\<rparr>, bs)))"

definition read_lido_v1 :: "lido_v1 reader" where
  "read_lido_v1 bs =
     Option.bind (read_u8 bs) (\<lambda>(version, bs).
     Option.bind (read_pubkey bs) (\<lambda>(man, bs).
     Option.bind (read_pubkey bs) (\<lambda>(mint, bs).
     Option.bind (read_exchange_rate bs) (\<lambda>(rate, bs).
     Option.bind (read_u8 bs) (\<lambda>(b1, bs).
     Option.bind (read_u8 bs) (\<lambda>(b2, bs).
     Option.bind (read_u8 bs) (\<lambda>(b3, bs).
     Option.bind (read_u8 bs) (\<lambda>(b4, bs).
     Option.bind (read_reward_distribution_v1 bs) (\<lambda>(rd, bs).
     Option.bind (read_fee_recipients bs) (\<lambda>(fr, bs).
     Option.bind (read_metrics bs) (\<lambda>(m, bs).
     Option.bind (read_account_map read_validator_v1 bs) (\<lambda>(vs, bs).
     Option.bind (read_account_map (\<lambda>bs. Some ((), bs)) bs) (\<lambda>(ms, bs).
     Some (\<lparr>v1_lido_version = version, v1_manager = man, v1_st_sol_mint = mint, v1_exchange_rate = rate,
       v1_sol_reserve_account_bump_seed = b1, v1_stake_authority_bump_seed = b2,
       v1_mint_authority_bump_seed = b3, v1_rewards_withdraw_authority_bump_seed = b4,
       v1_reward_distribution = rd, v1_fee_recipients = fr, v1_metrics = m,
       v1_validators = vs, v1_maintainers = ms\<rparr>, bs))))))))))))))"

subsection \<open>The codecs\<close>

interpretation xr: borsh_codec exchange_rate_bytes read_exchange_rate "\<lambda>x. True" 24
  by unfold_locales (simp_all add: exchange_rate_bytes_def read_exchange_rate_def)

interpretation rd: borsh_codec reward_distribution_bytes read_reward_distribution "\<lambda>x. True" 12
  by unfold_locales (simp_all add: reward_distribution_bytes_def read_reward_distribution_def)

interpretation fr: borsh_codec fee_recipients_bytes read_fee_recipients "\<lambda>x. True" 64
  by unfold_locales (simp_all add: fee_recipients_bytes_def read_fee_recipients_def)

interpretation cr: borsh_codec criteria_bytes read_criteria "\<lambda>x. True" 17
  by unfold_locales (simp_all add: criteria_bytes_def read_criteria_def)

lemma length_concat_u64: "length (concat (map u64_bytes xs)) = 8 * length xs"
  by (induction xs) auto

lemma read_counts: "length xs = 12 \<Longrightarrow> read_many read_u64 12 (concat (map u64_bytes xs) @ r) = Some (xs, r)"
  using read_many_write [of read_u64 u64_bytes xs r] by simp

interpretation me: borsh_codec metrics_bytes read_metrics metrics_wf 184
  by unfold_locales (auto simp: metrics_bytes_def read_metrics_def metrics_wf_def read_counts length_concat_u64
      bind_eq_Some_conv dest: read_many_length)

lemma read_account_type_byte [simp]: "read_account_type (account_type_byte t # r) = Some (t, r)"
  by (cases t) (simp_all add: read_account_type_def account_type_byte_def account_type_of_byte_def)

text \<open>The histogram is an array of twelve counters in the source.\<close>

definition lido_wf :: "lido \<Rightarrow> bool" where
  "lido_wf l \<longleftrightarrow> length (hist_counts (deposit_amount (lido_metrics l))) = 12"

lemma lido_wf_metrics: "lido_wf l \<longleftrightarrow> metrics_wf (lido_metrics l)"
  by (simp add: lido_wf_def metrics_wf_def)

interpretation li: borsh_codec lido_bytes read_lido lido_wf LIDO_LEN
proof unfold_locales
  fix l :: lido and r :: "u8 list"
  assume "lido_wf l"
  then show "read_lido (lido_bytes l @ r) = Some (l, r)"
    by (simp add: lido_bytes_def read_lido_def lido_wf_metrics xr.read_write rd.read_write fr.read_write
        cr.read_write me.read_write)
next
  fix l :: lido
  assume "lido_wf l"
  then show "length (lido_bytes l) = LIDO_LEN"
    by (simp add: lido_bytes_def LIDO_LEN_def lido_wf_metrics xr.length_write rd.length_write fr.length_write
        cr.length_write me.length_write)
next
  fix bs r :: "u8 list" and l :: lido
  assume "read_lido bs = Some (l, r)"
  then show "lido_wf l"
    by (auto simp: read_lido_def lido_wf_metrics bind_eq_Some_conv dest: me.read_wf)
qed

lemma read_account_type_Lido: "read_account_type bs = Some (Lido, r) \<Longrightarrow> \<exists>bs'. bs = 1 # bs'"
  by (auto simp: read_account_type_def read_u8_def account_type_of_byte_def bind_eq_Some_conv
      split: list.splits if_splits)

lemma read_lido_tag:
  "\<lbrakk>read_lido bs = Some (l, r); lido_account_type l = Lido\<rbrakk> \<Longrightarrow> \<exists>bs'. bs = 1 # bs'"
  by (auto simp: read_lido_def bind_eq_Some_conv dest!: read_account_type_Lido)

lemma read_lido_v1_version:
  "read_lido_v1 (b # bs) = Some (l, r) \<Longrightarrow> v1_lido_version l = b"
  by (auto simp: read_lido_v1_def bind_eq_Some_conv)

text \<open>C39: The state account. The Borsh form of a pool state has exactly \<open>Lido::LEN\<close> bytes and is read back as the
  same state, whatever follows it in the account.\<close>

theorem lido_borsh_roundtrip:
  assumes "lido_wf l"
  shows "length (lido_bytes l) = LIDO_LEN \<and> read_lido (lido_bytes l @ r) = Some (l, r)"
  using li.length_write [OF assms] li.read_write [OF assms] by blast

definition example_state :: lido where
  "example_state =
     \<lparr>lido_account_type = Lido, lido_lido_version = 1, manager = 7, st_sol_mint = 8,
      exchange_rate = \<lparr>computed_in_epoch = 3, st_sol_supply = StLamports 9, sol_balance = Lamports 10\<rparr>,
      sol_reserve_account_bump_seed = 255, stake_authority_bump_seed = 254, mint_authority_bump_seed = 253,
      reward_distribution = \<lparr>treasury_fee = 4, developer_fee = 1, st_sol_appreciation = 95\<rparr>,
      fee_recipients = \<lparr>treasury_account = 11, developer_account = 12\<rparr>,
      lido_metrics = metrics_new, lido_criteria = criteria_default,
      validator_list = 13, validator_perf_list = 14, maintainer_list = 15\<rparr>"

theorem lido_borsh_roundtrip_witness:
  "length (lido_bytes example_state) = 466 \<and> read_lido (lido_bytes example_state @ [1, 2]) = Some (example_state, [1, 2])"
  using lido_borsh_roundtrip [of example_state "[1, 2]"]
  by (simp add: lido_wf_def example_state_def metrics_new_def lamports_histogram_new_def LIDO_LEN_def)

end
