(* ===== verification/PoolRefinement.thy ===== *)
theory PoolRefinement
  imports Pool Borsh
begin

text \<open>
  The program implements the abstract pool. \<open>represents E p k w s\<close> says that in the ledger of
  \<open>w\<close> the account \<open>k\<close> and its lists, owned by the program \<open>p\<close>, hold the pool \<open>s\<close>. The locale
  \<open>solana\<close> states what the handlers rely on: the derived Borsh code of the state
  account reads back what it wrote, the entry types of the two lists have a codec, and an
  invoked program changes neither the data nor the owner of an account that is owned by this program.
  In the locale, each handler is shown to make a step of the abstract pool when it succeeds.
\<close>

subsection \<open>The relation\<close>

definition same_accounts :: "lido \<Rightarrow> lido \<Rightarrow> bool" where
  "same_accounts l l' \<longleftrightarrow>
     lido_account_type l' = lido_account_type l \<and> lido_lido_version l' = lido_lido_version l \<and>
     validator_list l' = validator_list l \<and> validator_perf_list l' = validator_perf_list l \<and>
     maintainer_list l' = maintainer_list l"

definition holds_list :: "'a list_entry \<Rightarrow> pubkey \<Rightarrow> world \<Rightarrow> pubkey \<Rightarrow> 'a list \<Rightarrow> bool" where
  "holds_list LE p w k xs \<longleftrightarrow>
     acc_owner (ledger w k) = p \<and> (\<exists>h. list_repr LE (acc_data (ledger w k)) h xs)"

definition represents :: "lenv \<Rightarrow> pubkey \<Rightarrow> pubkey \<Rightarrow> world \<Rightarrow> pool \<Rightarrow> bool" where
  "represents E p k w s \<longleftrightarrow>
     acc_owner (ledger w k) = p \<and> lido_read E (acc_data (ledger w k)) = Some (pool_lido s) \<and>
     lido_account_type (pool_lido s) = Lido \<and> lido_lido_version (pool_lido s) = LIDO_VERSION \<and>
     distinct [k, validator_list (pool_lido s), validator_perf_list (pool_lido s), maintainer_list (pool_lido s)] \<and>
     holds_list (VE E) p w (validator_list (pool_lido s)) (pool_validators s) \<and>
     holds_list (ME E) p w (maintainer_list (pool_lido s)) (pool_maintainers s)"

text \<open>The accounts that the program owns keep their owner and their data.\<close>

definition own_frame :: "pubkey \<Rightarrow> world \<Rightarrow> world \<Rightarrow> bool" where
  "own_frame p w w' \<longleftrightarrow>
     (\<forall>k. acc_owner (ledger w k) = p \<longrightarrow>
        acc_owner (ledger w' k) = p \<and> acc_data (ledger w' k) = acc_data (ledger w k))"

lemma own_frame_refl [simp]: "own_frame p w w"
  by (simp add: own_frame_def)

lemma own_frame_trans [trans]: "\<lbrakk>own_frame p w1 w2; own_frame p w2 w3\<rbrakk> \<Longrightarrow> own_frame p w1 w3"
  by (simp add: own_frame_def)

lemma own_frame_borrowed [simp]:
  "own_frame p (w\<lparr>borrowed := b\<rparr>) w' = own_frame p w w'" "own_frame p w (w'\<lparr>borrowed := b\<rparr>) = own_frame p w w'"
  by (simp_all add: own_frame_def)

lemma represents_borrowed [simp]: "represents E p k (w\<lparr>borrowed := b\<rparr>) s = represents E p k w s"
  by (simp add: represents_def holds_list_def)

lemma represents_frame: "\<lbrakk>represents E p k w s; own_frame p w w'\<rbrakk> \<Longrightarrow> represents E p k w' s"
  by (simp add: represents_def holds_list_def own_frame_def)

lemma represents_perf_data:
  "\<lbrakk>represents E p k w s; j = validator_perf_list (pool_lido s)\<rbrakk> \<Longrightarrow> represents E p k (set_data j d w) s"
  by (auto simp: represents_def holds_list_def)

lemma represents_validators_data:
  assumes "represents E p k w (s\<lparr>pool_validators := vs\<rparr>)" and "j = validator_list (pool_lido s)"
    and "list_repr (VE E) d h vs'"
  shows "represents E p k (set_data j d w) (s\<lparr>pool_validators := vs'\<rparr>)"
  using assms by (auto simp: represents_def holds_list_def)

lemma represents_maintainers_data:
  assumes "represents E p k w s" and "j = maintainer_list (pool_lido s)" and "list_repr (ME E) d h ms"
  shows "represents E p k (set_data j d w) (s\<lparr>pool_maintainers := ms\<rparr>)"
  using assms by (auto simp: represents_def holds_list_def)

lemma deserialize_represented_eq:
  assumes "represents E p k w s" and "key a = k"
  shows "deserialize_lido E p a w = Ok (l, w') \<longleftrightarrow> l = pool_lido s \<and> k \<notin> set (borrowed w) \<and> w' = w"
  using assms by (auto simp: represents_def result_simps)

text \<open>What a successful \<open>deserialize_account_list_info\<close> saw, with the ledger unchanged.\<close>

definition list_opened ::
  "'a list_entry \<Rightarrow> lido \<Rightarrow> pubkey \<Rightarrow> account_info \<Rightarrow> u8 list \<Rightarrow> (pubkey \<Rightarrow> account) \<Rightarrow> list_ref \<Rightarrow> bool" where
  "list_opened LE l q a data L r \<longleftrightarrow>
     list_address LE l = Some (key a) \<and> acc_owner (L (key a)) = q \<and>
     (\<exists>h vec. deserialize_vec LE data = Ok (h, vec) \<and>
       r = \<lparr>lr_account = a, lr_data = data, lr_view = \<lparr>bvh_header = h, bvh_data = vec\<rparr>\<rparr>)"

lemma list_opened_eq_Ok:
  "deserialize_account_list_info LE l q a data w = Ok (r, w') \<longleftrightarrow>
     list_opened LE l q a data (ledger w) r \<and> w' = w"
  by (auto simp: result_simps list_opened_def)

subsection \<open>What the handlers rely on\<close>

locale solana = validators: list_codec "VE E" validator_packable + maintainers: list_codec "ME E" "\<lambda>m. True"
  for E :: lenv +
  fixes p :: pubkey
  assumes invoke_frame: "env_invoke E ins infos seeds w = Ok w' \<Longrightarrow> own_frame p w w'"
    and read_lido: "lido_wf l \<Longrightarrow> lido_read E (lido_borsh E l @ r) = Some l"
    and lido_read_wf: "lido_read E d = Some l \<Longrightarrow> lido_wf l"
    and lido_tag: "\<lbrakk>lido_read E d = Some l; lido_account_type l = Lido\<rbrakk> \<Longrightarrow> \<exists>r. d = 1 # r"
    and lido_v1_tag: "lido_v1_read E (b # r) = Some l1 \<Longrightarrow> v1_lido_version l1 = b"
    and entry_types: "le_type (VE E) = Validator" "le_type (ME E) = Maintainer" "le_type (PE E) = ValidatorPerf"
    and entry_keys: "le_pubkey (VE E) = vote_account_address" "le_pubkey (ME E) = maintainer_pubkey"
    and entry_lens: "entry_len (le_layout (VE E)) = 89" "entry_len (le_layout (ME E)) = 32"
begin

lemma list_addresses:
  "list_address (VE E) l = Some (validator_list l)" "list_address (ME E) l = Some (maintainer_list l)"
  "list_address (PE E) l = Some (validator_perf_list l)"
  by (simp_all add: list_address_def entry_types)

lemma save_represents:
  assumes "represents E p k w s" and "save E l a w = Ok (u, w')" and "key a = k"
    and "lido_wf l" and "same_accounts (pool_lido s) l"
  shows "represents E p k w' (set_lido s l)"
  using assms
  by (auto simp: represents_def save_def result_simps serialize_into_def read_lido same_accounts_def set_lido_def
      holds_list_def split: if_splits)

lemma represented_wf: "represents E p k w s \<Longrightarrow> lido_wf (pool_lido s)"
  by (auto simp: represents_def dest: lido_read_wf)

subsubsection \<open>Borrowed lists\<close>

text \<open>\<open>r\<close> is the borrowed validator list of \<open>s\<close>, and then one of its entries.\<close>

definition validators_ref :: "pool \<Rightarrow> list_ref \<Rightarrow> bool" where
  "validators_ref s r \<longleftrightarrow>
     key (lr_account r) = validator_list (pool_lido s) \<and>
     (\<exists>h. list_repr (VE E) (lr_data r) h (pool_validators s) \<and> bvh_header (lr_view r) = h) \<and>
     bvh_repr (VE E) (lr_view r) (pool_validators s)"

definition maintainers_ref :: "pool \<Rightarrow> list_ref \<Rightarrow> bool" where
  "maintainers_ref s r \<longleftrightarrow>
     key (lr_account r) = maintainer_list (pool_lido s) \<and>
     (\<exists>h. list_repr (ME E) (lr_data r) h (pool_maintainers s) \<and> bvh_header (lr_view r) = h) \<and>
     bvh_repr (ME E) (lr_view r) (pool_maintainers s)"

lemma borrow_validators:
  assumes "represents E p k w s"
    and "list_opened (VE E) (pool_lido s) q a (acc_data (ledger w (key a))) L r"
  shows "validators_ref s r"
proof -
  obtain h vec where r: "key a = validator_list (pool_lido s)"
    "deserialize_vec (VE E) (acc_data (ledger w (key a))) = Ok (h, vec)"
    "r = \<lparr>lr_account = a, lr_data = acc_data (ledger w (key a)), lr_view = \<lparr>bvh_header = h, bvh_data = vec\<rparr>\<rparr>"
    using assms(2) by (auto simp: list_opened_def list_addresses)
  obtain h' where "list_repr (VE E) (acc_data (ledger w (key a))) h' (pool_validators s)"
    using assms(1) r(1) by (auto simp: represents_def holds_list_def)
  then show ?thesis
    using validators.deserialize_vec_refines [of "acc_data (ledger w (key a))" h' "pool_validators s"] r
    by (auto simp: validators_ref_def)
qed

lemma borrow_maintainers:
  assumes "represents E p k w s"
    and "list_opened (ME E) (pool_lido s) q a (acc_data (ledger w (key a))) L r"
  shows "maintainers_ref s r"
proof -
  obtain h vec where r: "key a = maintainer_list (pool_lido s)"
    "deserialize_vec (ME E) (acc_data (ledger w (key a))) = Ok (h, vec)"
    "r = \<lparr>lr_account = a, lr_data = acc_data (ledger w (key a)), lr_view = \<lparr>bvh_header = h, bvh_data = vec\<rparr>\<rparr>"
    using assms(2) by (auto simp: list_opened_def list_addresses)
  obtain h' where "list_repr (ME E) (acc_data (ledger w (key a))) h' (pool_maintainers s)"
    using assms(1) r(1) by (auto simp: represents_def holds_list_def)
  then show ?thesis
    using maintainers.deserialize_vec_refines [of "acc_data (ledger w (key a))" h' "pool_maintainers s"] r
    by (auto simp: maintainers_ref_def)
qed

definition entry_ref :: "pool \<Rightarrow> list_ref \<Rightarrow> u32 \<Rightarrow> nat \<Rightarrow> validator \<Rightarrow> bool" where
  "entry_ref s r i ref v \<longleftrightarrow>
     validators_ref s r \<and> validator_at s i v \<and> ref = 4 + unat i * entry_len (le_layout (VE E))"

lemma get_mut_entry:
  "\<lbrakk>validators_ref s r; bvh_get_mut (VE E) (lr_view r) i k' = Ok (ref, v)\<rbrakk> \<Longrightarrow>
     entry_ref s r i ref v \<and> vote_account_address v = k'"
  using validators.bvh_get_mut_refines [of "lr_view r" "pool_validators s" i k']
  by (auto simp: entry_ref_def validators_ref_def validator_at_def entry_keys split: if_splits)

lemma store_entry_represents:
  assumes "entry_ref s r i ref v" and "represents E p k w (s\<lparr>pool_validators := vs\<rparr>)"
    and "store_entry (VE E) r ref v' w = Ok (u, w')"
    and "vote_account_address v' = vote_account_address v"
  shows "represents E p k w' (set_validator s i v')"
proof -
  have at: "unat i < length (pool_validators s)" "pool_validators s ! unat i = v"
    and ref: "ref = 4 + unat i * entry_len (le_layout (VE E))"
    and a: "key (lr_account r) = validator_list (pool_lido s)"
    and view: "bvh_repr (VE E) (lr_view r) (pool_validators s)"
    using assms(1) by (auto simp: entry_ref_def validators_ref_def validator_at_def)
  obtain h where h: "list_repr (VE E) (lr_data r) h (pool_validators s)" "bvh_header (lr_view r) = h"
    using assms(1) by (auto simp: entry_ref_def validators_ref_def)
  let ?b = "bvh_write_ref (VE E) (lr_view r) ref v'"
  have "list_repr (VE E) (bvh_write_back ?b (lr_data r)) h ((pool_validators s)[unat i := v'])"
    using h at ref assms(4)
    by (intro validators.write_back_refines) (auto simp: entry_keys intro!: validators.bvh_write_ref_refines view)
  then show ?thesis
    using assms(3) represents_validators_data [OF assms(2) a]
    by (auto simp: store_entry_def store_view_def result_simps set_validator_def)
qed

end

end
