(* ===== verification/Simulation.thy ===== *)
theory Simulation
  imports PoolRefinement
begin

text \<open>
  Each handler of the program makes a step of the abstract pool: when a handler succeeds on the
  accounts of a represented pool, the ledger afterwards represents a pool that the abstract
  step relation allows. The last lemma of the locale puts the handlers together along the dispatch of
  \<^verbatim>\<open>processor.rs\<close>.
\<close>

definition signers_of :: "account_info list \<Rightarrow> pubkey set" where
  "signers_of accounts = key ` {a \<in> set accounts. is_signer a}"

definition epoch_of :: "'i env \<Rightarrow> epoch" where
  "epoch_of E = (case clock_get E of Ok c \<Rightarrow> clock_epoch c | Err e \<Rightarrow> 0 | Panic \<Rightarrow> 0)"

lemma parsedE:
  assumes "then_do (lift r) f w = Ok (u, w')"
  obtains accs multi where "r = Ok (accs, multi)"
  using assms by (auto simp: then_do_eq_Ok lift_eq_Ok)

lemma parsed_head:
  "\<lbrakk>info_try_from_slice spec accounts = Ok (accs, multi); var_accounts spec \<noteq> []\<rbrakk> \<Longrightarrow> accs ! 0 = accounts ! 0"
  using info_try_from_slice_OkD(1,2) [of spec accounts accs multi]
  by (cases "var_accounts spec") (auto simp: nth_append)

lemma parsed_signer:
  assumes "info_try_from_slice spec accounts = Ok (accs, multi)"
    and "i < length (var_accounts spec)" and "fst (snd (var_accounts spec ! i))"
  shows "key (accs ! i) \<in> signers_of accounts"
proof -
  note d = info_try_from_slice_OkD [OF assms(1)]
  have "is_signer (accs ! i)"
    using d(3) [OF assms(2)] assms(3) by (auto simp: var_ok_def split: prod.splits)
  moreover have "accs ! i \<in> set accounts" using d(1,2) assms(2) by auto
  ultimately show ?thesis by (auto simp: signers_of_def)
qed

lemma compute_effective_eq_Ok [result_simps]:
  "(compute_effective_stake_balance v :: (lamports, 'e) result) = Ok eff \<longleftrightarrow>
     unstake_accounts_balance v \<le> stake_accounts_balance v \<and>
     eff = Lamports (lam (stake_accounts_balance v) - lam (unstake_accounts_balance v))"
proof -
  have "unat (lam (stake_accounts_balance v)) - unat (lam (unstake_accounts_balance v)) =
      unat (lam (stake_accounts_balance v) - lam (unstake_accounts_balance v))"
    if "unstake_accounts_balance v \<le> stake_accounts_balance v"
    using that by (simp add: unat_sub less_eq_lamports_def)
  then show ?thesis
    by (auto simp: compute_effective_stake_balance_def result_simps lamp.sub_eq_Ok lamports_le_iff lamports_eq_iff)
qed

lemma unat_diff_step: "b < e \<Longrightarrow> unat (e - (b + 1)) \<le> unat (e - b)" for b e :: u64
proof -
  assume "b < e"
  then have "1 \<le> e - b" by (simp add: unat_sub word_le_nat_alt word_less_nat_alt)
  then have "unat (e - b - 1) \<le> unat (e - b)" by (simp add: unat_sub)
  moreover have "e - (b + 1) = e - b - 1" by simp
  ultimately show ?thesis by (simp only:)
qed

lemma seeds_of_less: "x \<in> set (zip (seeds_of sr) ys) \<Longrightarrow> fst x < seed_end sr"
proof -
  assume "x \<in> set (zip (seeds_of sr) ys)"
  then have "fst x \<in> set (seeds_of sr)" by (metis in_set_zipE prod.collapse)
  then obtain n where "n < unat (seed_end sr)" "fst x = word_of_nat n" by (auto simp: seeds_of_def)
  moreover have "n < 2 ^ 64" 
    using order.strict_trans [OF calculation(1) unsigned_less [of "seed_end sr", where ?'a = nat]] by simp
  then have "unat (word_of_nat n :: u64) = n" by (simp add: unat_of_nat)
  ultimately show ?thesis by (simp add: word_less_nat_alt)
qed

lemma histogram_observe_wf:
  "\<lbrakk>lido_wf l; histogram_observe (deposit_amount (lido_metrics l)) a = Ok h\<rbrakk> \<Longrightarrow>
     lido_wf (l\<lparr>lido_metrics := (lido_metrics l)\<lparr>deposit_amount := h\<rparr>\<rparr>)"
  by (auto simp: lido_wf_def histogram_observe_eq_Ok)

context solana
begin

subsection \<open>Helpers leave the accounts of the program alone\<close>

lemma create_account_even_if_funded_frame:
  "create_account_even_if_funded E sa am sz ow ss a rs b sp w = Ok (u, w') \<Longrightarrow> own_frame p w w'"
  by (auto simp: create_account_even_if_funded_def result_simps Let_def dest!: invoke_frame intro: own_frame_trans)

lemma initialize_stake_account_undelegated_frame:
  "initialize_stake_account_undelegated E sa a rs sp w = Ok (u, w') \<Longrightarrow> own_frame p w w'"
  by (auto simp: initialize_stake_account_undelegated_def result_simps dest!: invoke_frame)

lemma mint_st_sol_to_frame: "mint_st_sol_to E l k t m au rc am w = Ok (u, w') \<Longrightarrow> own_frame p w w'"
  by (auto simp: mint_st_sol_to_def result_simps dest!: invoke_frame check_is_st_sol_account_OkD)

lemma burn_st_sol_frame: "burn_st_sol E l ow a m t am w = Ok (u, w') \<Longrightarrow> own_frame p w w'"
  by (auto simp: burn_st_sol_def result_simps dest!: invoke_frame check_is_st_sol_account_OkD)

lemma transfer_stake_authority_frame:
  "transfer_stake_authority E li ow d au c sp b w = Ok (u, w') \<Longrightarrow> own_frame p w w'"
  by (auto simp: transfer_stake_authority_def result_simps Let_def dest!: invoke_frame intro: own_frame_trans)

lemma split_stake_account_frame:
  "split_stake_account E k l a d au sys sp am ss w = Ok (u, w') \<Longrightarrow> own_frame p w w'"
  by (auto simp: split_stake_account_def result_simps Let_def dest!: invoke_frame intro: own_frame_trans)

lemma withdraw_inactive_sol_frame:
  "withdraw_inactive_sol E li au rs c h sp a b am w = Ok (u, w') \<Longrightarrow> own_frame p w w'"
  by (auto simp: withdraw_inactive_sol_def result_simps dest!: invoke_frame)

lemma distribute_fees_frame:
  assumes "distribute_fees E l li m au tr dv t c rew w = Ok (l', w')"
  shows "own_frame p w w' \<and> (\<exists>metr. l' = l\<lparr>lido_metrics := metr\<rparr> \<and>
    deposit_amount metr = deposit_amount (lido_metrics l))"
proof (cases "rew = Lamports 0")
  case True
  then show ?thesis using assms by (auto simp: distribute_fees_def result_simps intro: exI [of _ "lido_metrics l"])
next
  case False
  then show ?thesis using assms
    by (auto simp: distribute_fees_def result_simps observe_fee_treasury_def observe_fee_developer_def
        observe_reward_st_sol_appreciation_def
        dest!: check_fee_accounts_OkD mint_st_sol_to_frame intro: own_frame_trans)
qed

subsection \<open>Handlers that change the state account\<close>

lemma represents_borrow: "represents E p k w s \<Longrightarrow> represents E p k (w\<lparr>borrowed := b\<rparr>) s"
  by simp

lemma own_frame_borrow: "own_frame p w (w\<lparr>borrowed := b\<rparr>)"
  by simp

lemma process_deposit_step:
  assumes rep: "represents E p k w s" and k: "key (accounts ! 0) = k"
    and ok: "process_deposit E p amount accounts w = Ok (u, w')"
  shows "\<exists>s'. represents E p k w' s' \<and> pool_step now signers (Deposit amount) s s'"
proof -
  let ?l = "pool_lido s"
  obtain accs multi where accs: "info_try_from_slice (deposit_accounts E) accounts = Ok (accs, multi)"
    by (rule parsedE [OF ok [unfolded process_deposit_def]])
  have head: "key (accs ! 0) = k" using parsed_head [OF accs] k by (simp add: deposit_accounts_def)
  obtain w1 h where "amount \<noteq> Lamports 0" and f: "own_frame p w w1"
    and h: "histogram_observe (deposit_amount (lido_metrics ?l)) amount = Ok h"
    and save: "save E (?l\<lparr>lido_metrics := (lido_metrics ?l)\<lparr>deposit_amount := h\<rparr>\<rparr>) (accs ! 0) w1 = Ok ((), w')"
    using ok accs
    by (auto simp: process_deposit_def result_simps Let_def deserialize_represented_eq [OF rep head]
        simp del: deserialize_lido_eq_Ok dest!: invoke_frame mint_st_sol_to_frame intro: own_frame_trans)
  then show ?thesis
    using save_represents [OF represents_frame [OF rep f] save head] histogram_observe_wf [OF represented_wf [OF rep] h]
    by (auto simp: same_accounts_def intro: pool_step.deposit_step)
qed

lemma process_change_criteria_step:
  assumes rep: "represents E p k w s" and k: "key (accounts ! 0) = k"
    and ok: "process_change_criteria E p c accounts w = Ok (u, w')"
  shows "\<exists>s'. represents E p k w' s' \<and> pool_step now (signers_of accounts) (ChangeCriteria c) s s'"
proof -
  obtain accs multi where accs: "info_try_from_slice (change_criteria_accounts E) accounts = Ok (accs, multi)"
    using ok by (auto simp: process_change_criteria_def result_simps)
  have head: "key (accs ! 0) = k" using parsed_head [OF accs] k by (simp add: change_criteria_accounts_def)
  have sig: "key (accs ! 1) \<in> signers_of accounts"
    using parsed_signer [OF accs, of 1] by (simp add: change_criteria_accounts_def)
  have c: "max_commission c \<le> 100" and man: "manager (pool_lido s) \<in> signers_of accounts"
    and save: "save E ((pool_lido s)\<lparr>lido_criteria := c\<rparr>) (accs ! 0) w = Ok ((), w')"
    using ok accs sig
    by (auto simp: process_change_criteria_def result_simps Let_def deserialize_represented_eq [OF rep head]
        simp del: deserialize_lido_eq_Ok)
  show ?thesis
    using save_represents [OF rep save head] represented_wf [OF rep] pool_step.change_criteria_step [OF man c]
    by (auto simp: same_accounts_def lido_wf_def)
qed

lemma process_change_reward_distribution_step:
  assumes rep: "represents E p k w s" and k: "key (accounts ! 0) = k"
    and ok: "process_change_reward_distribution E p rd accounts w = Ok (u, w')"
  shows "\<exists>s'. represents E p k w' s' \<and> pool_step now (signers_of accounts) (ChangeRewardDistribution rd) s s'"
proof -
  obtain accs multi where accs: "info_try_from_slice (change_reward_distribution_accounts E) accounts = Ok (accs, multi)"
    by (rule parsedE [OF ok [unfolded process_change_reward_distribution_def]])
  have head: "key (accs ! 0) = k" using parsed_head [OF accs] k by (simp add: change_reward_distribution_accounts_def)
  have sig: "key (accs ! 1) \<in> signers_of accounts"
    using parsed_signer [OF accs, of 1] by (simp add: change_reward_distribution_accounts_def)
  have man: "manager (pool_lido s) \<in> signers_of accounts"
    and save: "\<exists>fr. save E ((pool_lido s)\<lparr>reward_distribution := rd, fee_recipients := fr\<rparr>) (accs ! 0) w = Ok ((), w')"
    using ok accs sig
    by (auto simp: process_change_reward_distribution_def result_simps Let_def deserialize_represented_eq [OF rep head]
        simp del: deserialize_lido_eq_Ok dest!: check_is_st_sol_account_OkD)
  then obtain fr where "save E ((pool_lido s)\<lparr>reward_distribution := rd, fee_recipients := fr\<rparr>) (accs ! 0) w = Ok ((), w')"
    by blast
  from save_represents [OF rep this head] show ?thesis
    using represented_wf [OF rep] pool_step.change_reward_distribution_step [OF man]
    by (auto simp: same_accounts_def lido_wf_def)
qed

subsection \<open>Handlers that change the validator list\<close>

lemma store_view_validators:
  assumes "validators_ref s r" and "bvh_repr (VE E) b vs" and "bvh_header b = bvh_header (lr_view r)"
    and "represents E p k w s" and "store_view r b w = Ok (u, w')"
  shows "represents E p k w' (s\<lparr>pool_validators := vs\<rparr>)"
proof -
  obtain h where h: "list_repr (VE E) (lr_data r) h (pool_validators s)" "bvh_header (lr_view r) = h"
    using assms(1) by (auto simp: validators_ref_def)
  have "list_repr (VE E) (bvh_write_back b (lr_data r)) h vs"
    using h assms(2,3) by (intro validators.write_back_refines) auto
  moreover have "w' = set_data (validator_list (pool_lido s)) (bvh_write_back b (lr_data r)) w"
    using assms(1,5) by (auto simp: store_view_def result_simps validators_ref_def)
  ultimately show ?thesis
    using represents_validators_data [where vs = "pool_validators s" and s = s] assms(4) by auto
qed

lemma store_view_maintainers:
  assumes "maintainers_ref s r" and "bvh_repr (ME E) b ms" and "bvh_header b = bvh_header (lr_view r)"
    and "represents E p k w s" and "store_view r b w = Ok (u, w')"
  shows "represents E p k w' (s\<lparr>pool_maintainers := ms\<rparr>)"
proof -
  obtain h where h: "list_repr (ME E) (lr_data r) h (pool_maintainers s)" "bvh_header (lr_view r) = h"
    using assms(1) by (auto simp: maintainers_ref_def)
  have "list_repr (ME E) (bvh_write_back b (lr_data r)) h ms"
    using h assms(2,3) by (intro maintainers.write_back_refines) auto
  moreover have "w' = set_data (maintainer_list (pool_lido s)) (bvh_write_back b (lr_data r)) w"
    using assms(1,5) by (auto simp: store_view_def result_simps maintainers_ref_def)
  ultimately show ?thesis
    using represents_maintainers_data [of E p k w s] assms(4) by auto
qed

lemma push_validator:
  assumes "validators_ref s r" and "bvh_push (VE E) (lr_view r) (validator_new k') = Ok b"
    and "represents E p k w s" and "store_view r b w = Ok (u, w')"
  shows "k' \<notin> vote_account_address ` set (pool_validators s) \<and>
    represents E p k w' (s\<lparr>pool_validators := pool_validators s @ [validator_new k']\<rparr>)"
proof -
  have view: "bvh_repr (VE E) (lr_view r) (pool_validators s)" using assms(1) by (simp add: validators_ref_def)
  have "validator_packable (validator_new k')"
    by (simp add: validator_packable_def validator_new_def validator_default_def)
  from validators.bvh_push_refines [OF view this] show ?thesis
    using assms(2) store_view_validators [OF assms(1) _ _ assms(3,4)]
    by (auto simp: entry_keys split: if_splits)
qed

lemma maintainer_key: "maintainer_pubkey (maintainer_new k') = k'"
  by (simp add: maintainer_new_def)

lemma push_maintainer:
  assumes "maintainers_ref s r" and "bvh_push (ME E) (lr_view r) (maintainer_new k') = Ok b"
    and "represents E p k w s" and "store_view r b w = Ok (u, w')"
  shows "k' \<notin> maintainer_pubkey ` set (pool_maintainers s) \<and>
    represents E p k w' (s\<lparr>pool_maintainers := pool_maintainers s @ [maintainer_new k']\<rparr>)"
proof -
  have view: "bvh_repr (ME E) (lr_view r) (pool_maintainers s)" using assms(1) by (simp add: maintainers_ref_def)
  from maintainers.bvh_push_refines [OF view TrueI, of "maintainer_new k'"] show ?thesis
    using assms(2) store_view_maintainers [OF assms(1) _ _ assms(3,4)]
    by (auto simp: entry_keys maintainer_key split: if_splits)
qed

lemma remove_validator:
  assumes "validators_ref s r" and "bvh_remove (VE E) (lr_view r) i k' = Ok (v, b)"
    and "represents E p k w s" and "store_view r b w = Ok (u, w')"
  shows "validator_at s i v \<and>
    represents E p k w' (s\<lparr>pool_validators := list_swap_remove (unat i) (pool_validators s)\<rparr>)"
proof -
  have view: "bvh_repr (VE E) (lr_view r) (pool_validators s)" using assms(1) by (simp add: validators_ref_def)
  from validators.bvh_remove_refines [OF view, of i k'] show ?thesis
    using assms(2) store_view_validators [OF assms(1) _ _ assms(3,4)]
    by (auto simp: validator_at_def split: if_splits)
qed

lemma remove_maintainer:
  assumes "maintainers_ref s r" and "bvh_remove (ME E) (lr_view r) i k' = Ok (m, b)"
    and "represents E p k w s" and "store_view r b w = Ok (u, w')"
  shows "unat i < length (pool_maintainers s) \<and>
    represents E p k w' (s\<lparr>pool_maintainers := list_swap_remove (unat i) (pool_maintainers s)\<rparr>)"
proof -
  have view: "bvh_repr (ME E) (lr_view r) (pool_maintainers s)" using assms(1) by (simp add: maintainers_ref_def)
  from maintainers.bvh_remove_refines [OF view, of i k'] show ?thesis
    using assms(2) store_view_maintainers [OF assms(1) _ _ assms(3,4)]
    by (auto split: if_splits)
qed

lemma process_add_validator_step:
  assumes rep: "represents E p k w s" and k: "key (accounts ! 0) = k"
    and ok: "process_add_validator E p accounts w = Ok (u, w')"
  shows "\<exists>s'. represents E p k w' s' \<and> pool_step now (signers_of accounts) AddValidatorV2 s s'"
proof -
  obtain accs multi where accs: "info_try_from_slice (add_validator_accounts E) accounts = Ok (accs, multi)"
    by (rule parsedE [OF ok [unfolded process_add_validator_def]])
  have head: "key (accs ! 0) = k" using parsed_head [OF accs] k by (simp add: add_validator_accounts_def)
  have sig: "key (accs ! 1) \<in> signers_of accounts"
    using parsed_signer [OF accs, of 1] by (simp add: add_validator_accounts_def)
  let ?a = "accs ! 3" and ?v = "validator_new (key (accs ! 2))"
  obtain r b w2 where man: "manager (pool_lido s) \<in> signers_of accounts"
    and r: "list_opened (VE E) (pool_lido s) p ?a (acc_data (ledger w (key ?a))) (ledger w) r"
    and push: "bvh_push (VE E) (lr_view r) ?v = Ok b"
    and store: "store_view r b (w\<lparr>borrowed := key ?a # borrowed w\<rparr>) = Ok ((), w2)" and w': "w' = w2\<lparr>borrowed := borrowed w\<rparr>"
    using ok accs sig
    by (auto simp: process_add_validator_def result_simps Let_def deserialize_represented_eq [OF rep head]
        list_opened_eq_Ok
        simp del: deserialize_lido_eq_Ok deserialize_account_list_info_eq_Ok dest!: check_rent_exempt_OkD)
  show ?thesis
    using push_validator [OF borrow_validators [OF rep r] push represents_borrow [OF rep] store]
      w' pool_step.add_validator_step [OF man, of "key (accs ! 2)"]
    by auto
qed

lemma process_remove_validator_step:
  assumes rep: "represents E p k w s" and k: "key (accounts ! 0) = k"
    and ok: "process_remove_validator E p i accounts w = Ok (u, w')"
  shows "\<exists>s'. represents E p k w' s' \<and> pool_step now signers (RemoveValidatorV2 i) s s'"
proof -
  obtain accs multi where accs: "info_try_from_slice (remove_validator_accounts E) accounts = Ok (accs, multi)"
    by (rule parsedE [OF ok [unfolded process_remove_validator_def]])
  have head: "key (accs ! 0) = k" using parsed_head [OF accs] k by (simp add: remove_validator_accounts_def)
  let ?a = "accs ! 2"
  obtain r b v w2 where r: "list_opened (VE E) (pool_lido s) p ?a (acc_data (ledger w (key ?a))) (ledger w) r"
    and rem: "bvh_remove (VE E) (lr_view r) i (key (accs ! 1)) = Ok (v, b)"
    and store: "store_view r b (w\<lparr>borrowed := key ?a # borrowed w\<rparr>) = Ok ((), w2)" and w': "w' = w2\<lparr>borrowed := borrowed w\<rparr>"
    and can: "check_can_be_removed v = Ok ()"
    using ok accs
    by (auto simp: process_remove_validator_def result_simps Let_def deserialize_represented_eq [OF rep head]
        list_opened_eq_Ok
        simp del: deserialize_lido_eq_Ok deserialize_account_list_info_eq_Ok)
  have "status v = PendingRemoval" "\<not> has_stake_accounts v" "\<not> has_unstake_accounts v"
    "stake_accounts_balance v = Lamports 0"
    using can by (auto simp: check_can_be_removed_def result_simps split: if_splits)
  then show ?thesis
    using remove_validator [OF borrow_validators [OF rep r] rem represents_borrow [OF rep] store]
      w' pool_step.remove_validator_step [of s i v]
    by auto
qed

lemma process_add_maintainer_step:
  assumes rep: "represents E p k w s" and k: "key (accounts ! 0) = k"
    and ok: "process_add_maintainer E p accounts w = Ok (u, w')"
  shows "\<exists>s'. represents E p k w' s' \<and> pool_step now (signers_of accounts) AddMaintainerV2 s s'"
proof -
  obtain accs multi where accs: "info_try_from_slice (add_maintainer_accounts E) accounts = Ok (accs, multi)"
    by (rule parsedE [OF ok [unfolded process_add_maintainer_def]])
  have head: "key (accs ! 0) = k" using parsed_head [OF accs] k by (simp add: add_maintainer_accounts_def)
  have sig: "key (accs ! 1) \<in> signers_of accounts"
    using parsed_signer [OF accs, of 1] by (simp add: add_maintainer_accounts_def)
  let ?a = "accs ! 3"
  obtain r b w2 where man: "manager (pool_lido s) \<in> signers_of accounts"
    and r: "list_opened (ME E) (pool_lido s) p ?a (acc_data (ledger w (key ?a))) (ledger w) r"
    and push: "bvh_push (ME E) (lr_view r) (maintainer_new (key (accs ! 2))) = Ok b"
    and store: "store_view r b (w\<lparr>borrowed := key ?a # borrowed w\<rparr>) = Ok ((), w2)" and w': "w' = w2\<lparr>borrowed := borrowed w\<rparr>"
    using ok accs sig
    by (auto simp: process_add_maintainer_def result_simps Let_def deserialize_represented_eq [OF rep head]
        list_opened_eq_Ok
        simp del: deserialize_lido_eq_Ok deserialize_account_list_info_eq_Ok)
  show ?thesis
    using push_maintainer [OF borrow_maintainers [OF rep r] push represents_borrow [OF rep] store]
      w' pool_step.add_maintainer_step [OF man, of "key (accs ! 2)"]
    by auto
qed

lemma process_remove_maintainer_step:
  assumes rep: "represents E p k w s" and k: "key (accounts ! 0) = k"
    and ok: "process_remove_maintainer E p i accounts w = Ok (u, w')"
  shows "\<exists>s'. represents E p k w' s' \<and> pool_step now (signers_of accounts) (RemoveMaintainerV2 i) s s'"
proof -
  obtain accs multi where accs: "info_try_from_slice (remove_maintainer_accounts E) accounts = Ok (accs, multi)"
    by (rule parsedE [OF ok [unfolded process_remove_maintainer_def]])
  have head: "key (accs ! 0) = k" using parsed_head [OF accs] k by (simp add: remove_maintainer_accounts_def)
  have sig: "key (accs ! 1) \<in> signers_of accounts"
    using parsed_signer [OF accs, of 1] by (simp add: remove_maintainer_accounts_def)
  let ?a = "accs ! 3"
  obtain r b m w2 where man: "manager (pool_lido s) \<in> signers_of accounts"
    and r: "list_opened (ME E) (pool_lido s) p ?a (acc_data (ledger w (key ?a))) (ledger w) r"
    and rem: "bvh_remove (ME E) (lr_view r) i (key (accs ! 2)) = Ok (m, b)"
    and store: "store_view r b (w\<lparr>borrowed := key ?a # borrowed w\<rparr>) = Ok ((), w2)" and w': "w' = w2\<lparr>borrowed := borrowed w\<rparr>"
    using ok accs sig
    by (auto simp: process_remove_maintainer_def result_simps Let_def deserialize_represented_eq [OF rep head]
        list_opened_eq_Ok
        simp del: deserialize_lido_eq_Ok deserialize_account_list_info_eq_Ok)
  show ?thesis
    using remove_maintainer [OF borrow_maintainers [OF rep r] rem represents_borrow [OF rep] store]
      w' pool_step.remove_maintainer_step [OF man, of i]
    by auto
qed

text \<open>The handlers that load one validator, change it in place, and store it.\<close>

lemma stored_validator:
  assumes rep: "represents E p k w s"
    and r: "list_opened (VE E) (pool_lido s) q a (acc_data (ledger w (key a))) L r"
    and get: "bvh_get_mut (VE E) (lr_view r) i k' = Ok (ref, v)"
    and frame: "own_frame p w w2"
    and store: "store_entry (VE E) r ref v' w2 = Ok (u, w3)"
    and key: "vote_account_address v' = vote_account_address v"
  shows "validator_at s i v" and "represents E p k w3 (set_validator s i v')"
proof -
  note ref = get_mut_entry [OF borrow_validators [OF rep r] get, THEN conjunct1]
  show "validator_at s i v" using ref by (simp add: entry_ref_def)
  have "represents E p k w2 (s\<lparr>pool_validators := pool_validators s\<rparr>)"
    using represents_frame [OF rep frame] by simp
  from store_entry_represents [OF ref this store key]
  show "represents E p k w3 (set_validator s i v')" .
qed

lemma process_enqueue_validator_for_removal_step:
  assumes rep: "represents E p k w s" and k: "key (accounts ! 0) = k"
    and ok: "process_enqueue_validator_for_removal E p i accounts w = Ok (u, w')"
  shows "\<exists>s'. represents E p k w' s' \<and>
    pool_step now (signers_of accounts) (EnqueueValidatorForRemovalV2 i) s s'"
proof -
  obtain accs multi where accs: "info_try_from_slice (deactivate_validator_accounts E) accounts = Ok (accs, multi)"
    by (rule parsedE [OF ok [unfolded process_enqueue_validator_for_removal_def]])
  have head: "key (accs ! 0) = k" using parsed_head [OF accs] k by (simp add: deactivate_validator_accounts_def)
  have sig: "key (accs ! 1) \<in> signers_of accounts"
    using parsed_signer [OF accs, of 1] by (simp add: deactivate_validator_accounts_def)
  let ?a = "accs ! 3"
  obtain r ref v w2 where man: "manager (pool_lido s) \<in> signers_of accounts"
    and r: "list_opened (VE E) (pool_lido s) p ?a (acc_data (ledger w (key ?a))) (ledger w) r"
    and get: "bvh_get_mut (VE E) (lr_view r) i (key (accs ! 2)) = Ok (ref, v)"
    and store: "store_entry (VE E) r ref (enqueue_for_removal v) (w\<lparr>borrowed := key ?a # borrowed w\<rparr>) = Ok ((), w2)"
    and w': "w' = w2\<lparr>borrowed := borrowed w\<rparr>"
    using ok accs sig
    by (auto simp: process_enqueue_validator_for_removal_def result_simps Let_def
        deserialize_represented_eq [OF rep head]
        list_opened_eq_Ok
        simp del: deserialize_lido_eq_Ok deserialize_account_list_info_eq_Ok)
  show ?thesis
    using stored_validator [OF rep r get own_frame_borrow store] w'
      pool_step.enqueue_validator_for_removal_step [OF man, of i v]
    by auto
qed

lemma process_deactivate_validator_step:
  assumes rep: "represents E p k w s" and k: "key (accounts ! 0) = k"
    and ok: "process_deactivate_validator E p i accounts w = Ok (u, w')"
  shows "\<exists>s'. represents E p k w' s' \<and> pool_step now (signers_of accounts) (DeactivateValidatorV2 i) s s'"
proof -
  obtain accs multi where accs: "info_try_from_slice (deactivate_validator_accounts E) accounts = Ok (accs, multi)"
    by (rule parsedE [OF ok [unfolded process_deactivate_validator_def]])
  have head: "key (accs ! 0) = k" using parsed_head [OF accs] k by (simp add: deactivate_validator_accounts_def)
  have sig: "key (accs ! 1) \<in> signers_of accounts"
    using parsed_signer [OF accs, of 1] by (simp add: deactivate_validator_accounts_def)
  let ?a = "accs ! 3"
  obtain r ref v w2 where man: "manager (pool_lido s) \<in> signers_of accounts"
    and r: "list_opened (VE E) (pool_lido s) p ?a (acc_data (ledger w (key ?a))) (ledger w) r"
    and get: "bvh_get_mut (VE E) (lr_view r) i (key (accs ! 2)) = Ok (ref, v)"
    and store: "store_entry (VE E) r ref (deactivate v) (w\<lparr>borrowed := key ?a # borrowed w\<rparr>) = Ok ((), w2)"
    and w': "w' = w2\<lparr>borrowed := borrowed w\<rparr>"
    using ok accs sig
    by (auto simp: process_deactivate_validator_def result_simps Let_def deserialize_represented_eq [OF rep head]
        list_opened_eq_Ok
        simp del: deserialize_lido_eq_Ok deserialize_account_list_info_eq_Ok)
  show ?thesis
    using stored_validator [OF rep r get own_frame_borrow store] w'
      pool_step.deactivate_validator_step [OF man, of i v]
    by auto
qed

lemma process_merge_stake_step:
  assumes rep: "represents E p k w s" and k: "key (accounts ! 0) = k"
    and ok: "process_merge_stake E p i accounts w = Ok (u, w')"
  shows "\<exists>s'. represents E p k w' s' \<and> pool_step now signers (MergeStakeV2 i) s s'"
proof -
  obtain accs multi where accs: "info_try_from_slice (merge_stake_accounts E) accounts = Ok (accs, multi)"
    by (rule parsedE [OF ok [unfolded process_merge_stake_def]])
  have head: "key (accs ! 0) = k" using parsed_head [OF accs] k by (simp add: merge_stake_accounts_def)
  let ?a = "accs ! 5"
  obtain r ref v w2 w3 where
      r: "list_opened (VE E) (pool_lido s) p ?a (acc_data (ledger w (key ?a))) (ledger w) r"
    and get: "bvh_get_mut (VE E) (lr_view r) i (key (accs ! 1)) = Ok (ref, v)"
    and seeds: "seed_begin (stake_seeds v) + 1 < seed_end (stake_seeds v)"
    and store: "store_entry (VE E) r ref
      (v\<lparr>stake_seeds := (stake_seeds v)\<lparr>seed_begin := seed_begin (stake_seeds v) + 1\<rparr>\<rparr>) (w\<lparr>borrowed := key ?a # borrowed w\<rparr>) = Ok ((), w2)"
    and f: "own_frame p w2 w3" and w': "w' = w3\<lparr>borrowed := borrowed w\<rparr>"
    using ok accs
    by (auto simp: process_merge_stake_def result_simps Let_def deserialize_represented_eq [OF rep head] not_le
        case_prod_beta list_opened_eq_Ok
        simp del: deserialize_lido_eq_Ok deserialize_account_list_info_eq_Ok dest!: invoke_frame)
  show ?thesis
    using stored_validator(1) [OF rep r get own_frame_borrow store] w'
      represents_frame [OF stored_validator(2) [OF rep r get own_frame_borrow store] f] pool_step.merge_stake_step [of s i v] seeds
    by auto
qed

subsection \<open>Performance\<close>

lemma find_entry:
  assumes "validators_ref s r"
    and "bv_iter_find (le_layout (VE E)) (bvh_data (lr_view r)) P = Ok (Some (ref, v))"
  shows "\<exists>i. entry_ref s r i ref v"
proof -
  have view: "bv_repr (le_layout (VE E)) (bvh_data (lr_view r)) (pool_validators s)"
    using assms(1) by (simp add: validators_ref_def bvh_repr_def)
  obtain j where j: "position P (pool_validators s) = Some j" "ref = 4 + j * entry_len (le_layout (VE E))"
    "v = pool_validators s ! j"
    using assms(2) validators.iter_find_refines [OF view, of P] by auto
  then have "j < length (pool_validators s)" by (auto dest: position_SomeD)
  moreover from this have "unat (word_of_nat j :: u32) = j"
    using validators.repr_u32 [OF view] by (simp add: unat_of_nat)
  ultimately show ?thesis
    using assms(1) j by (intro exI [of _ "word_of_nat j"]) (simp add: entry_ref_def validator_at_def)
qed

lemma stored_found:
  assumes rep: "represents E p k w s"
    and r: "list_opened (VE E) (pool_lido s) q a (acc_data (ledger w (key a))) L r"
    and find: "bv_iter_find (le_layout (VE E)) (bvh_data (lr_view r)) P = Ok (Some (ref, v))"
    and frame: "own_frame p w w2"
    and store: "store_entry (VE E) r ref v' w2 = Ok (u, w3)"
    and key: "vote_account_address v' = vote_account_address v"
  shows "\<exists>i. validator_at s i v \<and> represents E p k w3 (set_validator s i v')"
proof -
  obtain i where ref: "entry_ref s r i ref v" using find_entry [OF borrow_validators [OF rep r] find] ..
  have "represents E p k w2 (s\<lparr>pool_validators := pool_validators s\<rparr>)"
    using represents_frame [OF rep frame] by simp
  from store_entry_represents [OF ref this store key] ref show ?thesis by (auto simp: entry_ref_def)
qed

lemma violates_criteria_OkD: "violates_criteria E l perfs a w = Ok (b, w') \<Longrightarrow> w' = w"
  by (auto simp: violates_criteria_def result_simps)

lemma process_deactivate_if_violates_step:
  assumes rep: "represents E p k w s" and k: "key (accounts ! 0) = k"
    and ok: "process_deactivate_if_violates E p accounts w = Ok (u, w')"
  shows "\<exists>s'. represents E p k w' s' \<and> pool_step now signers DeactivateIfViolates s s'"
proof -
  obtain accs multi where accs: "info_try_from_slice (deactivate_if_violates_accounts E) accounts = Ok (accs, multi)"
    by (rule parsedE [OF ok [unfolded process_deactivate_if_violates_def]])
  have head: "key (accs ! 0) = k" using parsed_head [OF accs] k by (simp add: deactivate_if_violates_accounts_def)
  let ?a = "accs ! 2"
  consider (idle) "represents E p k w' s"
    | (store) r ref v bs w2 where
      "list_opened (VE E) (pool_lido s) p ?a (acc_data (ledger w (key ?a))) (ledger w) r"
      "bv_iter_find (le_layout (VE E)) (bvh_data (lr_view r)) (\<lambda>v. vote_account_address v = key (accs ! 1)) =
        Ok (Some (ref, v))"
      "is_active v" "store_entry (VE E) r ref (deactivate v) (w\<lparr>borrowed := bs\<rparr>) = Ok ((), w2)"
      "w' = w2\<lparr>borrowed := borrowed w\<rparr>"
    using ok accs rep
    by (auto simp: process_deactivate_if_violates_def result_simps Let_def deserialize_represented_eq [OF rep head]
        list_opened_eq_Ok
        simp del: deserialize_lido_eq_Ok deserialize_account_list_info_eq_Ok
        dest!: violates_criteria_OkD split: option.splits if_splits)
  then show ?thesis
  proof cases
    case idle
    then show ?thesis using pool_step.deactivate_if_violates_idle by blast
  next
    case store
    then show ?thesis
      using stored_found [OF rep store(1,2) own_frame_borrow store(4)] pool_step.deactivate_if_violates_step
      by fastforce
  qed
qed

lemma process_reactivate_if_complies_step:
  assumes rep: "represents E p k w s" and k: "key (accounts ! 0) = k"
    and ok: "process_reactivate_if_complies E p accounts w = Ok (u, w')"
  shows "\<exists>s'. represents E p k w' s' \<and> pool_step now signers ReactivateIfComplies s s'"
proof -
  obtain accs multi where accs: "info_try_from_slice (deactivate_if_violates_accounts E) accounts = Ok (accs, multi)"
    by (rule parsedE [OF ok [unfolded process_reactivate_if_complies_def]])
  have head: "key (accs ! 0) = k" using parsed_head [OF accs] k by (simp add: deactivate_if_violates_accounts_def)
  let ?a = "accs ! 2"
  consider (idle) "represents E p k w' s"
    | (store) r ref v bs w2 where
      "list_opened (VE E) (pool_lido s) p ?a (acc_data (ledger w (key ?a))) (ledger w) r"
      "bv_iter_find (le_layout (VE E)) (bvh_data (lr_view r)) (\<lambda>v. vote_account_address v = key (accs ! 1)) =
        Ok (Some (ref, v))"
      "\<not> is_active v" "store_entry (VE E) r ref (activate v) (w\<lparr>borrowed := bs\<rparr>) = Ok ((), w2)"
      "w' = w2\<lparr>borrowed := borrowed w\<rparr>"
    using ok accs rep
    by (auto simp: process_reactivate_if_complies_def result_simps Let_def deserialize_represented_eq [OF rep head]
        list_opened_eq_Ok
        simp del: deserialize_lido_eq_Ok deserialize_account_list_info_eq_Ok
        dest!: violates_criteria_OkD split: option.splits if_splits)
  then show ?thesis
  proof cases
    case idle
    then show ?thesis using pool_step.reactivate_if_complies_idle by blast
  next
    case store
    then show ?thesis
      using stored_found [OF rep store(1,2) own_frame_borrow store(4)] pool_step.reactivate_if_complies_step
      by fastforce
  qed
qed

lemma perf_for_OkD: "perf_for E k' r = Ok (ref, perf, r') \<Longrightarrow> lr_account r' = lr_account r"
  by (auto simp: perf_for_def result_simps split: option.splits)

lemma stored_perf:
  assumes "represents E p k w s" and "list_opened (PE E) (pool_lido s) q a d L r"
    and "perf_for E k' r = Ok (ref, perf, r')" and "store_entry (PE E) r' ref x (w\<lparr>borrowed := bs\<rparr>) = Ok (u, w2)"
  shows "represents E p k w2 s"
proof -
  have "key (lr_account r') = validator_perf_list (pool_lido s)"
    using assms(2) perf_for_OkD [OF assms(3)] by (auto simp: list_opened_def list_addresses)
  then show ?thesis
    using assms(1,4) represents_perf_data [OF represents_borrow [OF assms(1)]]
    by (auto simp: store_entry_def store_view_def result_simps)
qed

lemma process_update_offchain_validator_perf_step:
  assumes rep: "represents E p k w s" and k: "key (accounts ! 0) = k"
    and ok: "process_update_offchain_validator_perf E p block vote accounts w = Ok (u, w')"
  shows "\<exists>s'. represents E p k w' s' \<and> pool_step now signers (UpdateOffchainValidatorPerf block vote) s s'"
proof -
  obtain accs multi where
      accs: "info_try_from_slice (update_offchain_validator_perf_accounts E) accounts = Ok (accs, multi)"
    by (rule parsedE [OF ok [unfolded process_update_offchain_validator_perf_def]])
  have head: "key (accs ! 0) = k"
    using parsed_head [OF accs] k by (simp add: update_offchain_validator_perf_accounts_def)
  have "represents E p k w' s"
    using ok accs
    by (auto simp: process_update_offchain_validator_perf_def result_simps Let_def list_opened_eq_Ok
        deserialize_represented_eq [OF rep head]
        simp del: deserialize_lido_eq_Ok deserialize_account_list_info_eq_Ok dest: stored_perf [OF rep])
  then show ?thesis using pool_step.update_offchain_validator_perf_step by blast
qed

lemma process_update_onchain_validator_perf_step:
  assumes rep: "represents E p k w s" and k: "key (accounts ! 0) = k"
    and ok: "process_update_onchain_validator_perf E p accounts w = Ok (u, w')"
  shows "\<exists>s'. represents E p k w' s' \<and> pool_step now signers UpdateOnchainValidatorPerf s s'"
proof -
  obtain accs multi where
      accs: "info_try_from_slice (update_onchain_validator_perf_accounts E) accounts = Ok (accs, multi)"
    by (rule parsedE [OF ok [unfolded process_update_onchain_validator_perf_def]])
  have head: "key (accs ! 0) = k"
    using parsed_head [OF accs] k by (simp add: update_onchain_validator_perf_accounts_def)
  have "represents E p k w' s"
    using ok accs
    by (auto simp: process_update_onchain_validator_perf_def result_simps Let_def list_opened_eq_Ok
        deserialize_represented_eq [OF rep head]
        simp del: deserialize_lido_eq_Ok deserialize_account_list_info_eq_Ok dest: stored_perf [OF rep])
  then show ?thesis using pool_step.update_onchain_validator_perf_step by blast
qed

subsection \<open>The exchange rate\<close>

lemma iter_validators: "validators_ref s r \<Longrightarrow> bvh_iter (VE E) (lr_view r) = Ok (pool_validators s)"
  by (auto simp: validators_ref_def validators.bvh_iter_refines)

lemma process_update_exchange_rate_step:
  assumes rep: "represents E p k w s" and k: "key (accounts ! 0) = k"
    and ok: "process_update_exchange_rate E p accounts w = Ok (u, w')"
  shows "\<exists>s'. represents E p k w' s' \<and> pool_step (epoch_of E) signers UpdateExchangeRateV2 s s'"
proof -
  let ?l = "pool_lido s"
  obtain accs multi where accs: "info_try_from_slice (update_exchange_rate_accounts E) accounts = Ok (accs, multi)"
    by (rule parsedE [OF ok [unfolded process_update_exchange_rate_def]])
  have head: "key (accs ! 0) = k" using parsed_head [OF accs] k by (simp add: update_exchange_rate_accounts_def)
  let ?a = "accs ! 3"
  obtain r clock vs staked reserve balance st w2 where
      clock: "clock_get E = Ok clock" and epoch: "computed_in_epoch (exchange_rate ?l) < clock_epoch clock"
    and r: "list_opened (VE E) ?l p ?a (acc_data (ledger w (key ?a))) (ledger w) r"
    and balance: "bvh_iter (VE E) (lr_view r) = Ok vs" "lamports_sum (map stake_accounts_balance vs) = Ok staked"
      "lamports_add staked reserve = Ok balance"
    and save: "save E (?l\<lparr>exchange_rate := \<lparr>computed_in_epoch = clock_epoch clock, st_sol_supply = st,
      sol_balance = balance\<rparr>\<rparr>) (accs ! 0) (w\<lparr>borrowed := key ?a # borrowed w\<rparr>) = Ok ((), w2)"
    and w': "w' = w2\<lparr>borrowed := borrowed w\<rparr>"
    using ok accs
    by (auto simp: process_update_exchange_rate_def result_simps Let_def list_opened_eq_Ok not_le get_sol_balance_def
        deserialize_represented_eq [OF rep head]
        simp del: deserialize_lido_eq_Ok deserialize_account_list_info_eq_Ok)
  have "and_then (lamports_sum (map stake_accounts_balance (pool_validators s)))
      (\<lambda>t. lamports_add t reserve) = Ok balance"
    using balance iter_validators [OF borrow_validators [OF rep r]] by simp
  moreover have "computed_in_epoch (exchange_rate ?l) < epoch_of E" "clock_epoch clock = epoch_of E"
    using epoch clock by (auto simp: epoch_of_def)
  ultimately show ?thesis
    using save_represents [OF represents_borrow [OF rep] save head] represented_wf [OF rep] w'
      pool_step.update_exchange_rate_step [of s "epoch_of E" reserve balance signers st]
    by (auto simp: same_accounts_def lido_wf_def)
qed

subsection \<open>Staking and unstaking\<close>

lemma check_maintainer_represented:
  assumes rep: "represents E p k w s" and ok: "check_maintainer E (pool_lido s) q a i m w = Ok (u, w')"
  shows "w' = w \<and> maintainer_at s i (key m)"
proof -
  obtain h vec ref x where vec: "deserialize_vec (ME E) (acc_data (ledger w (key a))) = Ok (h, vec)"
    and get: "bvh_get_mut (ME E) \<lparr>bvh_header = h, bvh_data = vec\<rparr> i (key m) = Ok (ref, x)"
    using check_maintainer_OkD(4) [OF ok] by blast
  obtain h' where "list_repr (ME E) (acc_data (ledger w (key a))) h' (pool_maintainers s)"
    using rep check_maintainer_OkD(2) [OF ok] by (auto simp: represents_def holds_list_def list_addresses)
  from maintainers.deserialize_vec_refines [OF this] vec
  have "bvh_repr (ME E) \<lparr>bvh_header = h, bvh_data = vec\<rparr> (pool_maintainers s)" by auto
  from maintainers.bvh_get_mut_refines [OF this, of i "key m"] get
  show ?thesis using check_maintainer_OkD(1) [OF ok]
    by (auto simp: maintainer_at_def entry_keys split: if_splits)
qed

lemma process_unstake_step:
  assumes rep: "represents E p k w s" and k: "key (accounts ! 0) = k"
    and ok: "process_unstake E p amount i j accounts w = Ok (u, w')"
  shows "\<exists>s'. represents E p k w' s' \<and> pool_step now (signers_of accounts) (UnstakeV2 amount i j) s s'"
proof -
  let ?l = "pool_lido s"
  obtain accs multi where accs: "info_try_from_slice (unstake_accounts E) accounts = Ok (accs, multi)"
    by (rule parsedE [OF ok [unfolded process_unstake_def]])
  have head: "key (accs ! 0) = k" using parsed_head [OF accs] k by (simp add: unstake_accounts_def)
  have sig: "key (accs ! 1) \<in> signers_of accounts"
    using parsed_signer [OF accs, of 1] by (simp add: unstake_accounts_def)
  let ?a = "accs ! 6"
  have "\<exists>r ref v v0 unstk w2 w3. maintainer_at s j (key (accs ! 1)) \<and>
      list_opened (VE E) ?l p ?a (acc_data (ledger w (key ?a))) (ledger w) r \<and>
      bvh_get_mut (VE E) (lr_view r) i (key (accs ! 2)) = Ok (ref, v) \<and> has_stake_accounts v \<and>
      seed_end (unstake_seeds v) - seed_begin (unstake_seeds v) < MAXIMUM_UNSTAKE_ACCOUNTS \<and>
      lamports_add (unstake_accounts_balance v) amount = Ok unstk \<and> unstk \<le> stake_accounts_balance v \<and>
      store_entry (VE E) r ref (v0\<lparr>unstake_accounts_balance := unstk,
        effective_stake_balance := Lamports (lam (stake_accounts_balance v) - lam unstk),
        unstake_seeds := (unstake_seeds v)\<lparr>seed_end := seed_end (unstake_seeds v) + 1\<rparr>\<rparr>) w2 = Ok ((), w3) \<and>
      (is_active v \<and> v0 = v \<or>
       \<not> is_active v \<and> v0 = v\<lparr>stake_seeds := (stake_seeds v)\<lparr>seed_begin := seed_begin (stake_seeds v) + 1\<rparr>\<rparr>) \<and>
      w' = w3\<lparr>borrowed := borrowed w\<rparr> \<and> own_frame p w w2"
    using ok accs
    by (clarsimp simp: process_unstake_def result_simps Let_def list_opened_eq_Ok not_le
        deserialize_represented_eq [OF rep head]
        simp del: deserialize_lido_eq_Ok deserialize_account_list_info_eq_Ok split: if_splits
        dest!: check_maintainer_represented [OF rep] check_unstake_accounts_OkD split_stake_account_frame invoke_frame)
      (elim disjE conjE exE, (clarsimp, intro exI conjI, assumption+, fastforce, rule refl, blast intro: own_frame_trans)+)
  then obtain r ref v v0 unstk w2 w3 where m: "maintainer_at s j (key (accs ! 1))"
    and r: "list_opened (VE E) ?l p ?a (acc_data (ledger w (key ?a))) (ledger w) r"
    and get: "bvh_get_mut (VE E) (lr_view r) i (key (accs ! 2)) = Ok (ref, v)"
    and has: "has_stake_accounts v"
    and count: "seed_end (unstake_seeds v) - seed_begin (unstake_seeds v) < MAXIMUM_UNSTAKE_ACCOUNTS"
    and unstk: "lamports_add (unstake_accounts_balance v) amount = Ok unstk" "unstk \<le> stake_accounts_balance v"
    and store: "store_entry (VE E) r ref (v0\<lparr>unstake_accounts_balance := unstk,
        effective_stake_balance := Lamports (lam (stake_accounts_balance v) - lam unstk),
        unstake_seeds := (unstake_seeds v)\<lparr>seed_end := seed_end (unstake_seeds v) + 1\<rparr>\<rparr>) w2 = Ok ((), w3)"
    and v0: "is_active v \<and> v0 = v \<or>
      \<not> is_active v \<and> v0 = v\<lparr>stake_seeds := (stake_seeds v)\<lparr>seed_begin := seed_begin (stake_seeds v) + 1\<rparr>\<rparr>"
    and w': "w' = w3\<lparr>borrowed := borrowed w\<rparr>" and f: "own_frame p w w2"
    by metis
  let ?v = "(with_balances v (stake_accounts_balance v) unstk)
    \<lparr>stake_seeds := (stake_seeds v)\<lparr>seed_begin :=
       (if is_active v then seed_begin (stake_seeds v) else seed_begin (stake_seeds v) + 1)\<rparr>,
     unstake_seeds := (unstake_seeds v)\<lparr>seed_end := seed_end (unstake_seeds v) + 1\<rparr>\<rparr>"
  have eq: "v0\<lparr>unstake_accounts_balance := unstk,
      effective_stake_balance := Lamports (lam (stake_accounts_balance v) - lam unstk),
      unstake_seeds := (unstake_seeds v)\<lparr>seed_end := seed_end (unstake_seeds v) + 1\<rparr>\<rparr> = ?v"
    using v0 by (cases v) (auto simp: with_balances_def)
  have "unstake_count v < 3"
    using count by (simp add: unstake_count_def MAXIMUM_UNSTAKE_ACCOUNTS_def word_less_nat_alt)
  then show ?thesis
    using stored_validator [OF rep r get f store [unfolded eq]] w'
      pool_step.unstake_step [OF m sig _ has _ unstk refl]
    by auto
qed

lemma staked_step:
  assumes rep: "represents E p k w s" and m: "maintainer_at s j m" "m \<in> signers"
    and amount: "MINIMUM_STAKE_ACCOUNT_BALANCE \<le> amount"
    and r: "list_opened (VE E) (pool_lido s) q a (acc_data (ledger w (key a))) L r"
    and vs: "bvh_iter (VE E) (lr_view r) = Ok vs" "min_by_key effective_stake_balance (filter is_active vs) = Some mv"
    and get: "bvh_get_mut (VE E) (lr_view r) i k' = Ok (ref, v)" and v: "is_active v"
      "effective_stake_balance v \<le> effective_stake_balance mv"
    and stk: "lamports_add (stake_accounts_balance v) amount = Ok stk" "unstake_accounts_balance v \<le> stk"
    and se: "se = seed_end (stake_seeds v) + 1 \<or>
      se = seed_end (stake_seeds v) \<and> seed_begin (stake_seeds v) < seed_end (stake_seeds v)"
  shows "pool_step now signers (StakeDepositV2 amount i j) s
    (set_validator s i ((with_balances v stk (unstake_accounts_balance v))
       \<lparr>stake_seeds := (stake_seeds v)\<lparr>seed_end := se\<rparr>\<rparr>))"
proof -
  have "vs = pool_validators s" using vs(1) iter_validators [OF borrow_validators [OF rep r]] by simp
  then have "\<forall>u \<in> set (pool_validators s). is_active u \<longrightarrow>
      effective_stake_balance v \<le> effective_stake_balance u"
    using min_by_key_SomeD [OF vs(2)] v(2) by fastforce
  moreover have "validator_at s i v"
    using get_mut_entry [OF borrow_validators [OF rep r] get] by (simp add: entry_ref_def)
  ultimately show ?thesis using m amount v(1) stk se by (intro pool_step.stake_deposit_step) auto
qed

lemma process_stake_deposit_step:
  assumes rep: "represents E p k w s" and k: "key (accounts ! 0) = k"
    and ok: "process_stake_deposit E p amount i j accounts w = Ok (u, w')"
  shows "\<exists>s'. represents E p k w' s' \<and> pool_step now (signers_of accounts) (StakeDepositV2 amount i j) s s'"
proof -
  let ?l = "pool_lido s"
  obtain accs multi where accs: "info_try_from_slice (stake_deposit_accounts E) accounts = Ok (accs, multi)"
    by (rule parsedE [OF ok [unfolded process_stake_deposit_def]])
  have head: "key (accs ! 0) = k" using parsed_head [OF accs] k by (simp add: stake_deposit_accounts_def)
  have sig: "key (accs ! 1) \<in> signers_of accounts"
    using parsed_signer [OF accs, of 1] by (simp add: stake_deposit_accounts_def)
  let ?a = "accs ! 7"
  note unfold = process_stake_deposit_def result_simps Let_def list_opened_eq_Ok not_less not_le
    deserialize_represented_eq [OF rep head] case_prod_beta
  show ?thesis
  proof (cases "key (accs ! 5) = key (accs ! 4)")
    case True
    obtain r ref v vs m stk w0 w1 w2 w3 w4 where mt: "maintainer_at s j (key (accs ! 1))"
      and am: "MINIMUM_STAKE_ACCOUNT_BALANCE \<le> amount"
      and r: "list_opened (VE E) ?l p ?a (acc_data (ledger w (key ?a))) (ledger w) r"
      and vs: "bvh_iter (VE E) (lr_view r) = Ok vs" "min_by_key effective_stake_balance (filter is_active vs) = Some m"
      and get: "bvh_get_mut (VE E) (lr_view r) i (key (accs ! 3)) = Ok (ref, v)" and act: "is_active v"
      and eff: "effective_stake_balance v \<le> effective_stake_balance m"
      and stk: "lamports_add (stake_accounts_balance v) amount = Ok stk" "unstake_accounts_balance v \<le> stk"
      and store: "store_entry (VE E) r ref (v\<lparr>stake_accounts_balance := stk,
        effective_stake_balance := Lamports (lam stk - lam (unstake_accounts_balance v))\<rparr>) w1 = Ok ((), w2)"
      and store': "store_entry (VE E) r ref (v\<lparr>stake_accounts_balance := stk,
        effective_stake_balance := Lamports (lam stk - lam (unstake_accounts_balance v)),
        stake_seeds := (stake_seeds v)\<lparr>seed_end := seed_end (stake_seeds v) + 1\<rparr>\<rparr>) w3 = Ok ((), w4)"
      and w': "w' = w4\<lparr>borrowed := borrowed w\<rparr>"
      and f: "own_frame p w w0" "own_frame p w0 w1" "own_frame p w2 w3"
      using ok accs True
      by (auto simp: unfold simp del: deserialize_lido_eq_Ok deserialize_account_list_info_eq_Ok
          dest!: check_maintainer_represented [OF rep] create_account_even_if_funded_frame
            initialize_stake_account_undelegated_frame invoke_frame)
    have eq: "v\<lparr>stake_accounts_balance := stk,
        effective_stake_balance := Lamports (lam stk - lam (unstake_accounts_balance v)),
        stake_seeds := (stake_seeds v)\<lparr>seed_end := seed_end (stake_seeds v) + 1\<rparr>\<rparr> =
        (with_balances v stk (unstake_accounts_balance v))
          \<lparr>stake_seeds := (stake_seeds v)\<lparr>seed_end := seed_end (stake_seeds v) + 1\<rparr>\<rparr>"
      by (cases v) (simp add: with_balances_def)
    have "represents E p k w3 (s\<lparr>pool_validators := (pool_validators s)[unat i :=
        v\<lparr>stake_accounts_balance := stk,
          effective_stake_balance := Lamports (lam stk - lam (unstake_accounts_balance v))\<rparr>]\<rparr>)"
      using represents_frame [OF stored_validator(2) [OF rep r get own_frame_trans [OF f(1,2)] store] f(3)]
      by (simp add: set_validator_def)
    from store_entry_represents [OF get_mut_entry [OF borrow_validators [OF rep r] get, THEN conjunct1] this
        store' [unfolded eq]] show ?thesis
      using staked_step [OF rep mt sig am r vs get act eff stk disjI1 [OF refl]] w' by (auto simp: with_balances_def)
  next
    case False
    obtain r ref v vs m stk w0 w1 w2 w3 where mt: "maintainer_at s j (key (accs ! 1))"
      and am: "MINIMUM_STAKE_ACCOUNT_BALANCE \<le> amount"
      and r: "list_opened (VE E) ?l p ?a (acc_data (ledger w (key ?a))) (ledger w) r"
      and vs: "bvh_iter (VE E) (lr_view r) = Ok vs" "min_by_key effective_stake_balance (filter is_active vs) = Some m"
      and get: "bvh_get_mut (VE E) (lr_view r) i (key (accs ! 3)) = Ok (ref, v)" and act: "is_active v"
      and eff: "effective_stake_balance v \<le> effective_stake_balance m"
      and stk: "lamports_add (stake_accounts_balance v) amount = Ok stk" "unstake_accounts_balance v \<le> stk"
      and store: "store_entry (VE E) r ref (v\<lparr>stake_accounts_balance := stk,
        effective_stake_balance := Lamports (lam stk - lam (unstake_accounts_balance v))\<rparr>) w1 = Ok ((), w2)"
      and seeds: "seed_begin (stake_seeds v) < seed_end (stake_seeds v)"
      and w': "w' = w3\<lparr>borrowed := borrowed w\<rparr>"
      and f: "own_frame p w w0" "own_frame p w0 w1" "own_frame p w2 w3"
      using ok accs False
      by (auto simp: unfold simp del: deserialize_lido_eq_Ok deserialize_account_list_info_eq_Ok
          dest!: check_maintainer_represented [OF rep] create_account_even_if_funded_frame
            initialize_stake_account_undelegated_frame invoke_frame)
    have eq: "v\<lparr>stake_accounts_balance := stk,
        effective_stake_balance := Lamports (lam stk - lam (unstake_accounts_balance v))\<rparr> =
        (with_balances v stk (unstake_accounts_balance v))
          \<lparr>stake_seeds := (stake_seeds v)\<lparr>seed_end := seed_end (stake_seeds v)\<rparr>\<rparr>"
      by (cases v) (simp add: with_balances_def)
    from represents_frame [OF stored_validator(2) [OF rep r get own_frame_trans [OF f(1,2)] store] f(3)]
    show ?thesis
      using staked_step [OF rep mt sig am r vs get act eff stk disjI2 [OF conjI [OF refl seeds]]] w'
      unfolding eq by auto
  qed
qed

subsection \<open>Withdrawals\<close>

lemma observe_withdrawal_wf:
  "\<lbrakk>observe_withdrawal (lido_metrics l) a b = Ok metr; lido_wf l\<rbrakk> \<Longrightarrow> lido_wf (l\<lparr>lido_metrics := metr\<rparr>)"
  by (auto simp: observe_withdrawal_def result_simps lido_wf_def)

lemma process_withdraw_step:
  assumes rep: "represents E p k w s" and k: "key (accounts ! 0) = k"
    and ok: "process_withdraw E p amount i accounts w = Ok (u, w')"
  shows "\<exists>s'. represents E p k w' s' \<and> pool_step (epoch_of E) signers (WithdrawV2 amount i) s s'"
proof -
  let ?l = "pool_lido s"
  obtain accs multi where accs: "info_try_from_slice (withdraw_accounts E) accounts = Ok (accs, multi)"
    by (rule parsedE [OF ok [unfolded process_withdraw_def]])
  have head: "key (accs ! 0) = k" using parsed_head [OF accs] k by (simp add: withdraw_accounts_def)
  let ?a = "accs ! 8"
  obtain r ref v vs m c out stk metr w1 w2 w3 w4 w5 where
      clock: "clock_get E = Ok c" "clock_epoch c \<le> computed_in_epoch (exchange_rate ?l)"
    and r: "list_opened (VE E) ?l p ?a (acc_data (ledger w (key ?a))) (ledger w) r"
    and vs: "bvh_iter (VE E) (lr_view r) = Ok vs" "max_by_key effective_stake_balance vs = Some m"
    and get: "bvh_get_mut (VE E) (lr_view r) i (key (accs ! 4)) = Ok (ref, v)"
    and v: "effective_stake_balance v \<noteq> Lamports 0" "effective_stake_balance m \<le> effective_stake_balance v"
    and out: "exchange_st_sol (exchange_rate ?l) amount = Ok out"
    and stk: "lamports_sub (stake_accounts_balance v) out = Ok stk" "unstake_accounts_balance v \<le> stk"
    and metr: "observe_withdrawal (lido_metrics ?l) amount out = Ok metr"
    and store: "store_entry (VE E) r ref (v\<lparr>stake_accounts_balance := stk,
        effective_stake_balance := Lamports (lam stk - lam (unstake_accounts_balance v))\<rparr>)
        (w\<lparr>borrowed := key ?a # borrowed w\<rparr>) = Ok ((), w1)"
    and f: "own_frame p w1 w2" "own_frame p w2 w3" "own_frame p w3 w4"
    and save: "save E (?l\<lparr>lido_metrics := metr\<rparr>) (accs ! 0) w4 = Ok ((), w5)"
    and w': "w' = w5\<lparr>borrowed := borrowed w\<rparr>"
    using ok accs
    by (auto simp: process_withdraw_def result_simps Let_def list_opened_eq_Ok not_less not_le
        deserialize_represented_eq [OF rep head] case_prod_beta
        simp del: deserialize_lido_eq_Ok deserialize_account_list_info_eq_Ok
        dest!: burn_st_sol_frame split_stake_account_frame transfer_stake_authority_frame)
  have eq: "v\<lparr>stake_accounts_balance := stk,
      effective_stake_balance := Lamports (lam stk - lam (unstake_accounts_balance v))\<rparr> =
      with_balances v stk (unstake_accounts_balance v)"
    by (cases v) (simp add: with_balances_def)
  let ?s1 = "set_validator s i (with_balances v stk (unstake_accounts_balance v))"
  have at: "validator_at s i v" using stored_validator(1) [OF rep r get own_frame_borrow store] by simp
  have rep4: "represents E p k w4 ?s1"
    using represents_frame [OF stored_validator(2) [OF rep r get own_frame_borrow store]
        own_frame_trans [OF own_frame_trans [OF f(1,2)] f(3)]] unfolding eq by simp
  have l1: "pool_lido ?s1 = ?l" by (simp add: set_validator_def)
  have "represents E p k w5 (set_lido ?s1 (?l\<lparr>lido_metrics := metr\<rparr>))"
    by (rule save_represents [OF rep4 save head])
      (simp_all add: l1 same_accounts_def observe_withdrawal_wf [OF metr represented_wf [OF rep]])
  moreover have "vs = pool_validators s" using vs(1) iter_validators [OF borrow_validators [OF rep r]] by simp
  then have "\<forall>u \<in> set (pool_validators s). effective_stake_balance u \<le> effective_stake_balance v"
    using max_by_key_SomeD [OF vs(2)] v(2) by fastforce
  moreover have "epoch_of E \<le> computed_in_epoch (exchange_rate ?l)" using clock by (simp add: epoch_of_def)
  ultimately show ?thesis
    using w' pool_step.withdraw_step [OF _ at v(1) _ out stk metr] by auto
qed

subsection \<open>Observing stake accounts\<close>

lemma for_each_frame:
  assumes "\<And>st x w st' w'. body st x w = Ok (st', w') \<Longrightarrow> own_frame p w w'"
  shows "for_each body st xs w = Ok (st', w') \<Longrightarrow> own_frame p w w'"
  by (induction xs arbitrary: st w) (auto simp: result_simps dest!: assms intro: own_frame_trans)

lemma observe_stake_account_frame:
  "observe_stake_account E q v l c h rent accs st x w = Ok (st', w') \<Longrightarrow> own_frame p w w'"
  by (cases st; cases x)
    (auto simp: observe_stake_account_def result_simps Let_def case_prod_beta check_address_and_get_balance_def
      get_stake_account_def dest!: withdraw_inactive_sol_frame)

lemma observe_unstake_account_frame:
  assumes "observe_unstake_account E q l c h accs (v, a, b) (seed, info) w = Ok ((v', a', b'), w')"
  shows "own_frame p w w' \<and> (v' = v \<or> seed = seed_begin (unstake_seeds v) \<and>
    v' = v\<lparr>unstake_seeds := (unstake_seeds v)\<lparr>seed_begin := seed_begin (unstake_seeds v) + 1\<rparr>\<rparr>)"
  using assms
  by (auto simp: observe_unstake_account_def result_simps Let_def case_prod_beta check_address_and_get_balance_def
      get_stake_account_def dest!: withdraw_inactive_sol_frame split: if_splits)

lemma observe_unstake_accounts_frame:
  assumes "for_each (observe_unstake_account E q l c h accs) (v, a, b) xs w = Ok ((v', a', b'), w')"
    and "\<forall>x \<in> set xs. fst x < seed_end (unstake_seeds v)"
  shows "own_frame p w w' \<and> (\<exists>ub. v' = v\<lparr>unstake_seeds := (unstake_seeds v)\<lparr>seed_begin := ub\<rparr>\<rparr> \<and>
    unat (seed_end (unstake_seeds v) - ub) \<le> unstake_count v)"
  using assms
proof (induction xs arbitrary: v a b w)
  case Nil
  then show ?case by (auto simp: result_simps unstake_count_def intro!: exI [of _ "seed_begin (unstake_seeds v)"])
next
  case (Cons x xs)
  obtain seed info where x: "x = (seed, info)" by (cases x)
  obtain v1 a1 b1 w1 where first: "observe_unstake_account E q l c h accs (v, a, b) (seed, info) w = Ok ((v1, a1, b1), w1)"
    and rest: "for_each (observe_unstake_account E q l c h accs) (v1, a1, b1) xs w1 = Ok ((v', a', b'), w')"
    using Cons.prems(1) unfolding x by (auto simp: result_simps)
  note f = observe_unstake_account_frame [OF first]
  have se: "seed_end (unstake_seeds v1) = seed_end (unstake_seeds v)" using f by auto
  have count: "unstake_count v1 \<le> unstake_count v"
    using f Cons.prems(2) unat_diff_step [of "seed_begin (unstake_seeds v)" "seed_end (unstake_seeds v)"]
    by (auto simp: x unstake_count_def)
  obtain ub where "own_frame p w1 w'" "v' = v1\<lparr>unstake_seeds := (unstake_seeds v1)\<lparr>seed_begin := ub\<rparr>\<rparr>"
    "unat (seed_end (unstake_seeds v1) - ub) \<le> unstake_count v1"
    using Cons.IH [OF rest] Cons.prems(2) se by auto
  then show ?case
    using f count se by (auto intro: own_frame_trans intro!: exI [of _ ub])
qed

lemma process_update_stake_account_balance_step:
  assumes rep: "represents E p k w s" and k: "key (accounts ! 0) = k"
    and ok: "process_update_stake_account_balance E p i accounts w = Ok (u, w')"
  shows "\<exists>s'. represents E p k w' s' \<and> pool_step now signers (UpdateStakeAccountBalance i) s s'"
proof -
  let ?l = "pool_lido s"
  obtain accs stakes where accs: "info_try_from_slice (update_stake_account_balance_accounts E) accounts = Ok (accs, stakes)"
    by (rule parsedE [OF ok [unfolded process_update_stake_account_balance_def]])
  have head: "key (accs ! 0) = k"
    using parsed_head [OF accs] k by (simp add: update_stake_account_balance_accounts_def)
  let ?a = "accs ! 8"
  obtain r ref v v1 c h rent xs ys ex so ur uo unstk remaining stk m au tr dv t rew l' w1 w2 w3 w4 w5 where
      r: "list_opened (VE E) ?l p ?a (acc_data (ledger w (key ?a))) (ledger w) r"
    and get: "bvh_get_mut (VE E) (lr_view r) i (key (accs ! 1)) = Ok (ref, v)"
    and stakes: "for_each (observe_stake_account E p v ?l c h rent accs) (Lamports 0, Lamports 0) xs
        (w\<lparr>borrowed := key ?a # borrowed w\<rparr>) = Ok ((ex, so), w1)"
    and so: "observe_balance so (effective_stake_balance v) = Ok ()"
    and unstakes: "for_each (observe_unstake_account E p ?l c h accs) (v, Lamports 0, Lamports 0)
        (zip (seeds_of (unstake_seeds v)) ys) w1 = Ok ((v1, ur, uo), w2)"
    and uo: "observe_balance uo (unstake_accounts_balance v1) = Ok ()"
    and bal: "lamports_sub uo ur = Ok unstk" "lamports_sub so ex = Ok remaining" "lamports_add remaining unstk = Ok stk"
    and store: "store_entry (VE E) r ref (v1\<lparr>unstake_accounts_balance := unstk, stake_accounts_balance := stk,
        effective_stake_balance := Lamports (lam stk - lam unstk)\<rparr>) w2 = Ok ((), w3)"
    and fees: "distribute_fees E ?l (accs ! 0) m au tr dv t c rew w3 = Ok (l', w4)"
    and save: "save E l' (accs ! 0) w4 = Ok ((), w5)"
    and w': "w' = w5\<lparr>borrowed := borrowed w\<rparr>"
    using ok accs
    by (auto simp: process_update_stake_account_balance_def result_simps Let_def list_opened_eq_Ok not_less not_le
        deserialize_represented_eq [OF rep head]
        simp del: deserialize_lido_eq_Ok deserialize_account_list_info_eq_Ok)
  note f1 = for_each_frame [OF observe_stake_account_frame stakes]
  obtain ub where f2: "own_frame p w1 w2" and v1: "v1 = v\<lparr>unstake_seeds := (unstake_seeds v)\<lparr>seed_begin := ub\<rparr>\<rparr>"
    and ub: "unat (seed_end (unstake_seeds v) - ub) \<le> unstake_count v"
    using observe_unstake_accounts_frame [OF unstakes] seeds_of_less by blast
  obtain metr where f3: "own_frame p w3 w4" and l': "l' = ?l\<lparr>lido_metrics := metr\<rparr>"
    and metr: "deposit_amount metr = deposit_amount (lido_metrics ?l)"
    using distribute_fees_frame [OF fees] by blast
  let ?v = "(with_balances v stk unstk)\<lparr>unstake_seeds := (unstake_seeds v)\<lparr>seed_begin := ub\<rparr>\<rparr>"
  have eq: "v1\<lparr>unstake_accounts_balance := unstk, stake_accounts_balance := stk,
      effective_stake_balance := Lamports (lam stk - lam unstk)\<rparr> = ?v"
    unfolding v1 by (cases v) (simp add: with_balances_def)
  have frame: "own_frame p w w2" using own_frame_trans [OF f1 f2] by simp
  have at: "validator_at s i v" and rep3: "represents E p k w3 (set_validator s i ?v)"
    using stored_validator [OF rep r get frame store [unfolded eq]] by (auto simp: with_balances_def)
  have lido: "pool_lido (set_validator s i ?v) = ?l" by (simp add: set_validator_def)
  have "represents E p k w5 (set_lido (set_validator s i ?v) (?l\<lparr>lido_metrics := metr\<rparr>))"
    using represented_wf [OF rep] metr
    by (intro save_represents [OF represents_frame [OF rep3 f3] save [unfolded l'] head])
      (simp_all add: lido same_accounts_def lido_wf_def)
  moreover have "effective_stake_balance v \<le> so" "unstake_accounts_balance v \<le> uo"
    using so uo by (auto simp: observe_balance_def v1 not_less split: if_splits)
  ultimately show ?thesis
    using w' pool_step.update_stake_account_balance_step [OF at _ _ bal ub metr] by auto
qed

subsection \<open>The dispatch\<close>

lemma represented_tag: "represents E p k w s \<Longrightarrow> \<exists>r. acc_data (ledger w k) = 1 # r"
  by (auto simp: represents_def dest: lido_tag)

lemma check_account_data_zero:
  assumes "check_account_data E a n w = Ok (u, w')"
  shows "acc_data (ledger w (key a)) \<noteq> b # r \<or> b = 0"
proof -
  have "466 \<le> get_bytes_to_check (VE E) (ME E)" by (simp add: get_bytes_to_check_def LIDO_LEN_def LIDO_V1_LEN_def)
  then obtain n where "get_bytes_to_check (VE E) (ME E) = Suc n" by (cases "get_bytes_to_check (VE E) (ME E)") auto
  then show ?thesis using assms by (auto simp: check_account_data_def result_simps Let_def)
qed

lemma process_initialize_fails:
  assumes rep: "represents E p k w s" and k: "key (accounts ! 0) = k"
  shows "process_initialize E p rd c mv mm accounts w \<noteq> Ok (u, w')"
proof
  assume ok: "process_initialize E p rd c mv mm accounts w = Ok (u, w')"
  obtain accs multi where accs: "info_try_from_slice (initialize_accounts E) accounts = Ok (accs, multi)"
    by (rule parsedE [OF ok [unfolded process_initialize_def]])
  have head: "key (accs ! 0) = k" using parsed_head [OF accs] k by (simp add: initialize_accounts_def)
  have "\<exists>w1. check_account_data E (accs ! 0) LIDO_LEN w = Ok ((), w1)"
    using ok accs
    by (auto simp: process_initialize_def then_do_eq_Ok lift_eq_Ok check_account_owner_eq_Ok Let_def
        dest!: check_rent_exempt_OkD)
  then show False using check_account_data_zero represented_tag [OF rep] head by fastforce
qed

lemma process_migrate_to_v2_fails:
  assumes rep: "represents E p k w s" and k: "key (accounts ! 0) = k"
  shows "process_migrate_to_v2 E p rd mv mm mc accounts w \<noteq> Ok (u, w')"
proof
  assume ok: "process_migrate_to_v2 E p rd mv mm mc accounts w = Ok (u, w')"
  obtain accs multi where accs: "info_try_from_slice (migrate_state_to_v2_accounts E) accounts = Ok (accs, multi)"
    by (rule parsedE [OF ok [unfolded process_migrate_to_v2_def]])
  have head: "key (accs ! 0) = k" using parsed_head [OF accs] k by (simp add: migrate_state_to_v2_accounts_def)
  have "\<exists>l1. lido_v1_read E (acc_data (ledger w k)) = Some l1 \<and> v1_lido_version l1 = 0"
    using ok accs head
    by (auto simp: process_migrate_to_v2_def then_do_eq_Ok lift_eq_Ok require_eq_Ok deserialize_lido_v1_def
        data_borrow_eq_Ok ok_or_eq_Ok check_account_owner_eq_Ok simple_checks_eq_Ok Let_def)
  then show False using represented_tag [OF rep] lido_v1_tag by fastforce
qed

lemmas handler_steps =
  process_deposit_step process_stake_deposit_step process_unstake_step process_update_exchange_rate_step
  process_update_stake_account_balance_step process_withdraw_step process_change_reward_distribution_step
  process_add_validator_step process_enqueue_validator_for_removal_step process_remove_validator_step
  process_deactivate_validator_step process_add_maintainer_step process_remove_maintainer_step
  process_merge_stake_step process_deactivate_if_violates_step process_reactivate_if_complies_step
  process_change_criteria_step process_update_offchain_validator_perf_step process_update_onchain_validator_perf_step

lemma process_instruction_refines:
  assumes rep: "represents E p k w s" and k: "key (accounts ! 0) = k"
    and ok: "process_instruction E p accounts ins w = Ok (u, w')"
  shows "\<exists>s'. represents E p k w' s' \<and> pool_step (epoch_of E) (signers_of accounts) ins s s'"
  using ok
  by (cases ins) (auto simp: process_instruction_def process_initialize_fails [OF rep k]
      process_migrate_to_v2_fails [OF rep k] intro: handler_steps [OF rep k])

end

end
