(* ===== verification/Init.thy ===== *)
theory Init
  imports Simulation
begin

text \<open>
  Initialisation establishes the representation: after a successful \<open>Initialize\<close> the accounts
  represent a pool without validators and maintainers. The handler compares the addresses
  of the state account, the validator list and the maintainer list, and not that of the performance
  list; that it differs from the others is a hypothesis here.
\<close>

lemma check_account_data_OkD:
  assumes "check_account_data E a n w = Ok (u, w')"
  shows "\<exists>d. w' = set_data (key a) d w \<and> length d = length (acc_data (ledger w (key a))) \<and> n \<le> length d"
  using assms by (auto simp: check_account_data_def result_simps Let_def not_less)

definition initial_pool :: "lido \<Rightarrow> pool" where
  "initial_pool l = \<lparr>pool_lido = l, pool_validators = [], pool_maintainers = []\<rparr>"

lemma initial_pool_inv: "pool_inv (initial_pool l)"
  by (simp add: pool_inv_def initial_pool_def)

context solana
begin

lemma save_empty_list:
  assumes codec: "list_codec LE packable" and len: "entry_len (le_layout LE) < 2 ^ 31"
    and ok: "save_list LE (empty_list LE n) a w = Ok (u, w')"
    and size: "required_bytes LE n \<le> length (acc_data (ledger w (key a)))"
    and small: "length (acc_data (ledger w (key a))) < 2 ^ 64"
  shows "\<exists>d h. w' = set_data (key a) d w \<and> list_repr LE d h []"
proof -
  have "entry_len (le_layout LE) * unat n < 2 ^ 31 * 2 ^ 32"
    using len unat_u32_less [of n] by (intro mult_strict_mono) auto
  then have "required_bytes LE n = 10 + unat n * entry_len (le_layout LE)"
    by (simp add: required_bytes_def usize_wrap_def header_size_def LIST_HEADER_LEN_def mult.commute)
  then show ?thesis
    using list_codec.save_empty_refines [OF codec, of "empty_list LE n" "acc_data (ledger w (key a))"] ok size small
    by (auto simp: save_list_def result_simps empty_list_def new_default_def)
qed

lemma process_initialize_worlds:
  assumes ok: "process_initialize E p rd c mv mm accounts w = Ok (u, w')"
    and accs: "info_try_from_slice (initialize_accounts E) accounts = Ok (accs, multi)"
  obtains l w1 w2 w3 w4 w5 w6 w7 where
    "acc_owner (ledger w (key (accs ! 0))) = p" "acc_owner (ledger w (key (accs ! 6))) = p"
    "acc_owner (ledger w (key (accs ! 8))) = p"
    "check_account_data E (accs ! 0) LIDO_LEN w = Ok ((), w1)"
    "check_account_data E (accs ! 6) (required_bytes (VE E) mv) w1 = Ok ((), w2)"
    "check_account_data E (accs ! 7) (required_bytes (PE E) mv) w2 = Ok ((), w3)"
    "check_account_data E (accs ! 8) (required_bytes (ME E) mm) w3 = Ok ((), w4)"
    "key (accs ! 0) \<noteq> key (accs ! 6)" "key (accs ! 0) \<noteq> key (accs ! 8)" "key (accs ! 6) \<noteq> key (accs ! 8)"
    "save_list (VE E) (empty_list (VE E) mv) (accs ! 6) w4 = Ok ((), w5)"
    "save_list (PE E) (empty_list (PE E) mv) (accs ! 7) w5 = Ok ((), w6)"
    "save_list (ME E) (empty_list (ME E) mm) (accs ! 8) w6 = Ok ((), w7)"
    "save E l (accs ! 0) w7 = Ok ((), w')"
    "lido_account_type l = Lido" "lido_lido_version l = LIDO_VERSION" "manager l = key (accs ! 1)"
    "exchange_rate l = exchange_rate_default" "reward_distribution l = rd" "lido_metrics l = metrics_new"
    "lido_criteria l = c" "max_commission c \<le> 100"
    "validator_list l = key (accs ! 6)" "validator_perf_list l = key (accs ! 7)" "maintainer_list l = key (accs ! 8)"
  using ok accs
  by (auto simp: process_initialize_def then_do_eq_Ok lift_eq_Ok require_eq_Ok check_account_owner_eq_Ok
      case_prod_beta Let_def not_less
      dest!: check_rent_exempt_OkD check_mint_OkD check_is_st_sol_account_OkD)

lemma process_initialize_represents:
  assumes ok: "process_initialize E p rd c mv mm accounts w = Ok (u, w')"
    and perf: "key (accounts ! 7) \<notin> {key (accounts ! 0), key (accounts ! 6), key (accounts ! 8)}"
    and small: "\<And>k. length (acc_data (ledger w k)) < 2 ^ 64"
  shows "\<exists>l. represents E p (key (accounts ! 0)) w' (initial_pool l) \<and>
    manager l = key (accounts ! 1) \<and> exchange_rate l = exchange_rate_default \<and>
    reward_distribution l = rd \<and> lido_metrics l = metrics_new \<and> lido_criteria l = c \<and> max_commission c \<le> 100"
proof -
  obtain accs multi where accs: "info_try_from_slice (initialize_accounts E) accounts = Ok (accs, multi)"
    by (rule parsedE [OF ok [unfolded process_initialize_def]])
  have same: "accs ! i = accounts ! i" if "i < 9" for i
    using info_try_from_slice_OkD(1,2) [OF accs] that by (auto simp: initialize_accounts_def nth_append)
  have eqs: "accs ! 0 = accounts ! 0" "accs ! 1 = accounts ! 1" "accs ! 6 = accounts ! 6"
    "accs ! 7 = accounts ! 7" "accs ! 8 = accounts ! 8"
    by (simp_all add: same)
  let ?k = "key (accounts ! 0)" and ?vl = "key (accounts ! 6)" and ?pl = "key (accounts ! 7)"
    and ?ml = "key (accounts ! 8)"
  obtain l w1 w2 w3 w4 w5 w6 w7 where
    own: "acc_owner (ledger w ?k) = p" "acc_owner (ledger w ?vl) = p" "acc_owner (ledger w ?ml) = p"
    and chk: "check_account_data E (accounts ! 0) LIDO_LEN w = Ok ((), w1)"
    "check_account_data E (accounts ! 6) (required_bytes (VE E) mv) w1 = Ok ((), w2)"
    "check_account_data E (accounts ! 7) (required_bytes (PE E) mv) w2 = Ok ((), w3)"
    "check_account_data E (accounts ! 8) (required_bytes (ME E) mm) w3 = Ok ((), w4)"
    and ne: "?k \<noteq> ?vl" "?k \<noteq> ?ml" "?vl \<noteq> ?ml"
    and sav: "save_list (VE E) (empty_list (VE E) mv) (accounts ! 6) w4 = Ok ((), w5)"
    "save_list (PE E) (empty_list (PE E) mv) (accounts ! 7) w5 = Ok ((), w6)"
    "save_list (ME E) (empty_list (ME E) mm) (accounts ! 8) w6 = Ok ((), w7)"
    "save E l (accounts ! 0) w7 = Ok ((), w')"
    and l: "lido_account_type l = Lido" "lido_lido_version l = LIDO_VERSION" "manager l = key (accounts ! 1)"
    "exchange_rate l = exchange_rate_default" "reward_distribution l = rd" "lido_metrics l = metrics_new"
    "lido_criteria l = c" "max_commission c \<le> 100"
    "validator_list l = ?vl" "validator_perf_list l = ?pl" "maintainer_list l = ?ml"
    by (rule process_initialize_worlds [OF ok accs, unfolded eqs]) blast
  obtain d1 d2 d3 d4 where w4: "w4 = set_data ?ml d4 (set_data ?pl d3 (set_data ?vl d2 (set_data ?k d1 w)))"
    and d2: "length d2 = length (acc_data (ledger w ?vl))" "required_bytes (VE E) mv \<le> length d2"
    and d4: "length d4 = length (acc_data (ledger w ?ml))" "required_bytes (ME E) mm \<le> length d4"
    using check_account_data_OkD [OF chk(1)] check_account_data_OkD [OF chk(2)]
      check_account_data_OkD [OF chk(3)] check_account_data_OkD [OF chk(4)] ne perf by auto
  obtain dv h where w5: "w5 = set_data ?vl dv w4" and dv: "list_repr (VE E) dv h []"
    using save_empty_list [OF validators.list_codec_axioms _ sav(1)] d2 small [of ?vl] ne perf
    by (auto simp: w4 entry_lens)
  obtain dp where w6: "w6 = set_data ?pl dp w5" using sav(2) by (auto simp: save_list_def result_simps)
  obtain dm h' where w7: "w7 = set_data ?ml dm w6" and dm: "list_repr (ME E) dm h' []"
    using save_empty_list [OF maintainers.list_codec_axioms _ sav(3)] d4 small [of ?ml] ne perf
    by (auto simp: w6 w5 w4 entry_lens)
  obtain r where w': "w' = set_data ?k (lido_borsh E l @ r) w7"
    using sav(4) by (auto simp: save_def result_simps serialize_into_def split: if_splits)
  have "lido_wf l" by (simp add: lido_wf_def l metrics_new_def lamports_histogram_new_def)
  then have "represents E p ?k w' (initial_pool l)"
    using own ne perf dv dm l
    by (auto simp: represents_def initial_pool_def holds_list_def read_lido w' w7 w6 w5 w4)
  then show ?thesis using l by blast
qed

end

end
