(* ===== verification/ReferenceEnv.thy ===== *)
theory ReferenceEnv
  imports Init
begin

text \<open>
  A concrete environment for the parameters of the model: the Borsh codecs of state and
  instructions, the layouts of the list entries, the account layouts of the SPL token
  program, and an interpreter for the invoked instructions. The system program moves lamports and
  allocates and assigns accounts that it owns; the token program mints and burns in accounts that it owns; the
  stake program moves lamports between stake accounts. Address derivation adds up the bytes of the seeds. The
  environment satisfies every law of the locale \<open>solana\<close>, and the
  properties of the refinement are applied to it.
\<close>

subsection \<open>Instructions\<close>

definition instruction_bytes :: "lido_instruction \<Rightarrow> u8 list" where
  "instruction_bytes ins =
     (case ins of
        Initialize a b c d \<Rightarrow> 0 # reward_distribution_bytes a @ criteria_bytes b @ u32_bytes c @ u32_bytes d
      | Deposit a \<Rightarrow> 1 # u64_bytes (lam a)
      | Withdraw a \<Rightarrow> 2 # u64_bytes (st_lam a)
      | StakeDeposit a \<Rightarrow> 3 # u64_bytes (lam a)
      | lido_instruction.Unstake a \<Rightarrow> 4 # u64_bytes (lam a)
      | UpdateExchangeRate \<Rightarrow> 5 # []
      | WithdrawInactiveStake \<Rightarrow> 6 # []
      | CollectValidatorFee \<Rightarrow> 7 # []
      | ClaimValidatorFee \<Rightarrow> 8 # []
      | ChangeRewardDistribution a \<Rightarrow> 9 # reward_distribution_bytes a
      | AddValidator \<Rightarrow> 10 # []
      | DeactivateValidator \<Rightarrow> 11 # []
      | RemoveValidator \<Rightarrow> 12 # []
      | AddMaintainer \<Rightarrow> 13 # []
      | RemoveMaintainer \<Rightarrow> 14 # []
      | MergeStake \<Rightarrow> 15 # []
      | UpdateStakeAccountBalance a \<Rightarrow> 16 # u32_bytes a
      | AddValidatorV2 \<Rightarrow> 17 # []
      | DeactivateIfViolates \<Rightarrow> 18 # []
      | ReactivateIfComplies \<Rightarrow> 19 # []
      | ChangeCriteria a \<Rightarrow> 20 # criteria_bytes a
      | StakeDepositV2 a b c \<Rightarrow> 21 # u64_bytes (lam a) @ u32_bytes b @ u32_bytes c
      | UnstakeV2 a b c \<Rightarrow> 22 # u64_bytes (lam a) @ u32_bytes b @ u32_bytes c
      | UpdateExchangeRateV2 \<Rightarrow> 23 # []
      | UpdateOffchainValidatorPerf a b \<Rightarrow> 24 # u64_bytes a @ u64_bytes b
      | UpdateOnchainValidatorPerf \<Rightarrow> 25 # []
      | WithdrawV2 a b \<Rightarrow> 26 # u64_bytes (st_lam a) @ u32_bytes b
      | EnqueueValidatorForRemovalV2 a \<Rightarrow> 27 # u32_bytes a
      | RemoveValidatorV2 a \<Rightarrow> 28 # u32_bytes a
      | DeactivateValidatorV2 a \<Rightarrow> 29 # u32_bytes a
      | AddMaintainerV2 \<Rightarrow> 30 # []
      | RemoveMaintainerV2 a \<Rightarrow> 31 # u32_bytes a
      | MergeStakeV2 a \<Rightarrow> 32 # u32_bytes a
      | MigrateStateToV2 a b c d \<Rightarrow> 33 # reward_distribution_bytes a @ u32_bytes b @ u32_bytes c @ [d])"

definition read_instruction_fields :: "u8 \<Rightarrow> lido_instruction reader" where
  "read_instruction_fields tag bs =
     (if tag = 0 then Option.bind (read_reward_distribution bs) (\<lambda>(a, bs). Option.bind (read_criteria bs) (\<lambda>(b, bs). Option.bind (read_u32 bs) (\<lambda>(c, bs). Option.bind (read_u32 bs) (\<lambda>(d, bs). Some (Initialize a b c d, bs)))))
      else if tag = 1 then Option.bind (read_lamports bs) (\<lambda>(a, bs). Some (Deposit a, bs))
      else if tag = 2 then Option.bind (read_st_lamports bs) (\<lambda>(a, bs). Some (Withdraw a, bs))
      else if tag = 3 then Option.bind (read_lamports bs) (\<lambda>(a, bs). Some (StakeDeposit a, bs))
      else if tag = 4 then Option.bind (read_lamports bs) (\<lambda>(a, bs). Some (lido_instruction.Unstake a, bs))
      else if tag = 5 then Some (UpdateExchangeRate, bs)
      else if tag = 6 then Some (WithdrawInactiveStake, bs)
      else if tag = 7 then Some (CollectValidatorFee, bs)
      else if tag = 8 then Some (ClaimValidatorFee, bs)
      else if tag = 9 then Option.bind (read_reward_distribution bs) (\<lambda>(a, bs). Some (ChangeRewardDistribution a, bs))
      else if tag = 10 then Some (AddValidator, bs)
      else if tag = 11 then Some (DeactivateValidator, bs)
      else if tag = 12 then Some (RemoveValidator, bs)
      else if tag = 13 then Some (AddMaintainer, bs)
      else if tag = 14 then Some (RemoveMaintainer, bs)
      else if tag = 15 then Some (MergeStake, bs)
      else if tag = 16 then Option.bind (read_u32 bs) (\<lambda>(a, bs). Some (UpdateStakeAccountBalance a, bs))
      else if tag = 17 then Some (AddValidatorV2, bs)
      else if tag = 18 then Some (DeactivateIfViolates, bs)
      else if tag = 19 then Some (ReactivateIfComplies, bs)
      else if tag = 20 then Option.bind (read_criteria bs) (\<lambda>(a, bs). Some (ChangeCriteria a, bs))
      else if tag = 21 then Option.bind (read_lamports bs) (\<lambda>(a, bs). Option.bind (read_u32 bs) (\<lambda>(b, bs). Option.bind (read_u32 bs) (\<lambda>(c, bs). Some (StakeDepositV2 a b c, bs))))
      else if tag = 22 then Option.bind (read_lamports bs) (\<lambda>(a, bs). Option.bind (read_u32 bs) (\<lambda>(b, bs). Option.bind (read_u32 bs) (\<lambda>(c, bs). Some (UnstakeV2 a b c, bs))))
      else if tag = 23 then Some (UpdateExchangeRateV2, bs)
      else if tag = 24 then Option.bind (read_u64 bs) (\<lambda>(a, bs). Option.bind (read_u64 bs) (\<lambda>(b, bs). Some (UpdateOffchainValidatorPerf a b, bs)))
      else if tag = 25 then Some (UpdateOnchainValidatorPerf, bs)
      else if tag = 26 then Option.bind (read_st_lamports bs) (\<lambda>(a, bs). Option.bind (read_u32 bs) (\<lambda>(b, bs). Some (WithdrawV2 a b, bs)))
      else if tag = 27 then Option.bind (read_u32 bs) (\<lambda>(a, bs). Some (EnqueueValidatorForRemovalV2 a, bs))
      else if tag = 28 then Option.bind (read_u32 bs) (\<lambda>(a, bs). Some (RemoveValidatorV2 a, bs))
      else if tag = 29 then Option.bind (read_u32 bs) (\<lambda>(a, bs). Some (DeactivateValidatorV2 a, bs))
      else if tag = 30 then Some (AddMaintainerV2, bs)
      else if tag = 31 then Option.bind (read_u32 bs) (\<lambda>(a, bs). Some (RemoveMaintainerV2 a, bs))
      else if tag = 32 then Option.bind (read_u32 bs) (\<lambda>(a, bs). Some (MergeStakeV2 a, bs))
      else if tag = 33 then Option.bind (read_reward_distribution bs) (\<lambda>(a, bs). Option.bind (read_u32 bs) (\<lambda>(b, bs). Option.bind (read_u32 bs) (\<lambda>(c, bs). Option.bind (read_u8 bs) (\<lambda>(d, bs). Some (MigrateStateToV2 a b c d, bs)))))
      else None)"

definition read_instruction :: "u8 list \<Rightarrow> lido_instruction option" where
  "read_instruction bs =
     Option.bind (read_u8 bs) (\<lambda>(tag, bs).
     Option.bind (read_instruction_fields tag bs) (\<lambda>(ins, bs). if bs = [] then Some ins else None))"

lemma read_last [simp]:
  "read_u32 (u32_bytes x) = Some (x, [])" "read_u64 (u64_bytes y) = Some (y, [])"
  "read_lamports (u64_bytes y) = Some (Lamports y, [])" "read_st_lamports (u64_bytes y) = Some (StLamports y, [])"
  "read_criteria (criteria_bytes c) = Some (c, [])" "read_reward_distribution (reward_distribution_bytes d) = Some (d, [])"
  using read_primitive(2) [of x "[]"] read_primitive(3,5,6) [of y "[]"] cr.read_write [of c "[]"]
    rd.read_write [of d "[]"] by simp_all

lemma read_instruction_bytes: "read_instruction (instruction_bytes ins) = Some ins"
  by (cases ins) (simp_all add: read_instruction_def instruction_bytes_def read_instruction_fields_def
      cr.read_write rd.read_write)

subsection \<open>Performance entries\<close>

text \<open>A layout in which every entry fits its slot; an absent value is filled up with zeros.\<close>

definition perf_rest_bytes :: "offchain_validator_perf option \<Rightarrow> u8 list" where
  "perf_rest_bytes x =
     (case x of
        None \<Rightarrow> replicate 25 0
      | Some r \<Rightarrow> 1 # u64_bytes (updated_at r) @ u64_bytes (block_production_rate r) @ u64_bytes (vote_success_rate r))"

definition perf_bytes :: "validator_perf \<Rightarrow> u8 list" where
  "perf_bytes x = pubkey_bytes (validator_vote_account_address x) @ [commission x] @
     u64_bytes (commission_updated_at x) @ perf_rest_bytes (perf_rest x)"

definition perf_read :: "u8 list \<Rightarrow> validator_perf option" where
  "perf_read bs =
     (if length bs < 66 then None
      else Some \<lparr>validator_vote_account_address = pubkey_at 0 bs, commission = bs ! 32,
        commission_updated_at = u64_at 33 bs,
        perf_rest = (if bs ! 41 = 0 then None
          else Some \<lparr>updated_at = u64_at 42 bs, block_production_rate = u64_at 50 bs,
            vote_success_rate = u64_at 58 bs\<rparr>)\<rparr>)"

definition perf_layout :: "validator_perf entry_layout" where
  "perf_layout =
     \<lparr>entry_len = 66, entry_borsh = perf_bytes, entry_read = perf_read,
      entry_write = (\<lambda>x bs. perf_bytes x @ drop 66 bs),
      borsh_u32 = u32_bytes,
      borsh_read_u32 = (\<lambda>bs. if length bs = 4 then Some (word_of_nat (le_val bs)) else None)\<rparr>"

definition perf_entry :: "validator_perf list_entry" where
  "perf_entry =
     \<lparr>le_layout = perf_layout, le_type = ValidatorPerf, le_pubkey = validator_vote_account_address,
      le_default = validator_perf_new 0, le_header_read = header_read, le_list_borsh = list_bytes perf_layout\<rparr>"

lemma length_perf_bytes [simp]: "length (perf_bytes x) = 66"
  by (simp add: perf_bytes_def perf_rest_bytes_def split: option.splits)

lemma perf_read_bytes: "perf_read (perf_bytes x @ r) = Some x"
proof (cases "perf_rest x")
  case None
  then show ?thesis
    by (cases x) (simp add: perf_read_def perf_bytes_def perf_rest_bytes_def pubkey_at_def u64_at_def nth_append)
next
  case (Some y)
  then show ?thesis
    by (cases x; cases y)
      (simp add: perf_read_def perf_bytes_def perf_rest_bytes_def pubkey_at_def u64_at_def nth_append)
qed

lemma perf_read_local: "66 \<le> length bs \<Longrightarrow> perf_read bs = perf_read (take 66 bs)"
  by (simp add: perf_read_def at_take)

interpretation pl: entry_codec perf_layout "\<lambda>x. True" validator_vote_account_address
proof unfold_locales
  fix bs :: "u8 list" and x :: validator_perf
  assume l: "entry_len perf_layout \<le> length bs" and r: "entry_read perf_layout bs = Some x"
  then show "take 32 bs = le_bytes 32 (unat (validator_vote_account_address x))"
    using pubkey_bytes_at [of 0 bs] by (auto simp: perf_layout_def perf_read_def pubkey_bytes_def)
next
  fix bs :: "u8 list" and x :: validator_perf
  assume "entry_len perf_layout \<le> length bs"
  show "\<exists>bs'. length bs' = entry_len perf_layout \<and>
      entry_write perf_layout x bs = bs' @ drop (entry_len perf_layout) bs"
    by (intro exI [of _ "perf_bytes x"]) (simp add: perf_layout_def)
qed (simp_all add: perf_layout_def perf_read_bytes word_of_le_bytes_4 u32_bytes_def perf_read_local [symmetric])

interpretation ple: list_codec perf_entry "\<lambda>x. True"
  by (rule list_codec_of_layout) (simp_all add: perf_entry_def pl.entry_codec_axioms)

subsection \<open>Invoked programs\<close>

definition ref_system :: pubkey where "ref_system = 0"
definition ref_token :: pubkey where "ref_token = 1"
definition ref_stake :: pubkey where "ref_stake = 2"

definition ref_unpack_mint :: "u8 list \<Rightarrow> (mint, program_error) result" where
  "ref_unpack_mint d =
     (if length d \<noteq> 82 then Err InvalidAccountData
      else Ok \<lparr>mint_supply = u64_at 36 d,
        mint_mint_authority = (if le_val (take 4 d) = 1 then Some (pubkey_at 4 d) else None),
        mint_freeze_authority = (if le_val (take 4 (drop 46 d)) = 1 then Some (pubkey_at 50 d) else None)\<rparr>)"

definition ref_unpack_token_account :: "u8 list \<Rightarrow> (token_account, program_error) result" where
  "ref_unpack_token_account d =
     (if length d \<noteq> 165 then Err InvalidAccountData
      else Ok \<lparr>token_mint = pubkey_at 0 d, token_owner = pubkey_at 32 d, token_balance = u64_at 64 d\<rparr>)"

text \<open>The two authorities of a stake account, at their place in the serialised state.\<close>

fun ref_authority_at :: "stake_authorize \<Rightarrow> nat" where
  "ref_authority_at Staker = 12"
| "ref_authority_at Withdrawer = 44"

definition ref_authority :: "stake_authorize \<Rightarrow> u8 list \<Rightarrow> pubkey" where
  "ref_authority kind d = pubkey_at (ref_authority_at kind) d"

definition ref_move :: "pubkey \<Rightarrow> pubkey \<Rightarrow> u64 \<Rightarrow> world \<Rightarrow> (world, program_error) result" where
  "ref_move a b n w =
     (if acc_lamports (ledger w a) < n \<or> a \<noteq> b \<and> 2 ^ 64 \<le> unat (acc_lamports (ledger w b)) + unat n then Err (CpiError 1)
      else
        (let w1 = w\<lparr>ledger := (ledger w)(a := (ledger w a)\<lparr>acc_lamports := acc_lamports (ledger w a) - n\<rparr>)\<rparr> in
         Ok (w1\<lparr>ledger := (ledger w1)(b := (ledger w1 b)\<lparr>acc_lamports := acc_lamports (ledger w1 b) + n\<rparr>)\<rparr>)))"

text \<open>Minting and burning: \<open>f\<close> computes the new supply of the mint and the new amount of the account.\<close>

definition ref_token_update ::
  "pubkey \<Rightarrow> pubkey \<Rightarrow> (u64 \<Rightarrow> u64 option) \<Rightarrow> world \<Rightarrow> (world, program_error) result" where
  "ref_token_update m a f w =
     (let dm = acc_data (ledger w m); da = acc_data (ledger w a) in
      if acc_owner (ledger w m) \<noteq> ref_token \<or> acc_owner (ledger w a) \<noteq> ref_token \<or>
         length dm \<noteq> 82 \<or> length da \<noteq> 165 \<or> pubkey_at 0 da \<noteq> m
      then Err (CpiError 2)
      else case (f (u64_at 36 dm), f (u64_at 64 da)) of
        (Some s, Some n) \<Rightarrow> Ok (set_data a (write_at 64 (u64_bytes n) da) (set_data m (write_at 36 (u64_bytes s) dm) w))
      | _ \<Rightarrow> Err (CpiError 3))"

fun ref_invoke :: "foreign_instruction \<Rightarrow> world \<Rightarrow> (world, program_error) result" where
  "ref_invoke (SystemTransfer a b n) w =
     (if acc_owner (ledger w a) = ref_system then ref_move a b n w else Err (CpiError 0))"
| "ref_invoke (SystemAllocate a n) w =
     (if acc_owner (ledger w a) = ref_system \<and> acc_data (ledger w a) = []
      then Ok (set_data a (replicate (unat n) 0) w) else Err (CpiError 0))"
| "ref_invoke (SystemAssign a owner) w =
     (if acc_owner (ledger w a) = ref_system
      then Ok (w\<lparr>ledger := (ledger w)(a := (ledger w a)\<lparr>acc_owner := owner\<rparr>)\<rparr>) else Err (CpiError 0))"
| "ref_invoke (StakeInitialize a s wd) w = Ok w"
| "ref_invoke (StakeDelegate a auth vote) w = Ok w"
| "ref_invoke (StakeMerge dest src auth) w = ref_move src dest (acc_lamports (ledger w src)) w"
| "ref_invoke (StakeSplit src auth n dest) w =
     (if acc_owner (ledger w src) = ref_stake \<and> src \<noteq> dest then ref_move src dest n w else Err (CpiError 4))"
| "ref_invoke (StakeDeactivate a auth) w = Ok w"
| "ref_invoke (StakeWithdraw n src dest auth) w = ref_move src dest n w"
| "ref_invoke (StakeAuthorize a auth new_auth kind) w =
     (let d = acc_data (ledger w a) in
      if acc_owner (ledger w a) = ref_stake \<and> 76 \<le> length d
      then Ok (set_data a (write_at (ref_authority_at kind) (pubkey_bytes new_auth) d) w) else Err (CpiError 5))"
| "ref_invoke (TokenMintTo prog m a auth n) w = ref_token_update m a (\<lambda>x. checked_add x n) w"
| "ref_invoke (TokenBurn prog a m auth n) w = ref_token_update m a (\<lambda>x. checked_sub x n) w"

definition ref_hash :: "u8 list list \<Rightarrow> pubkey \<Rightarrow> pubkey" where
  "ref_hash seeds program = word_of_nat (\<Sum>seed\<leftarrow>seeds. \<Sum>b\<leftarrow>seed. unat b) + program"

definition ref_status :: "delegation \<Rightarrow> epoch \<Rightarrow> stake_history \<Rightarrow> stake_activation" where
  "ref_status d e h =
     (if activation_epoch d < e \<and> e \<le> deactivation_epoch d
      then \<lparr>effective = delegated_stake d, activating_lamports = 0, deactivating_lamports = 0\<rparr>
      else if activation_epoch d = e
      then \<lparr>effective = 0, activating_lamports = delegated_stake d, deactivating_lamports = 0\<rparr>
      else \<lparr>effective = 0, activating_lamports = 0, deactivating_lamports = 0\<rparr>)"

definition reference_env :: "epoch \<Rightarrow> lenv" where
  "reference_env e =
     \<lparr>spl_token_id = ref_token, system_program_id = ref_system, stake_program_id = ref_stake,
      vote_program_id = 3, stake_config_id = 4, sysvar_rent_id = 5, sysvar_clock_id = 6,
      sysvar_stake_history_id = 7, stake_state_size = 200,
      find_program_address = (\<lambda>seeds program. (ref_hash (seeds @ [[255]]) program, 255)),
      create_program_address = (\<lambda>seeds program. Some (ref_hash seeds program)),
      rent_get = Ok \<lparr>minimum_balance = (\<lambda>n. word_of_nat ((n + 128) * 6960)),
        is_exempt = (\<lambda>l n. word_of_nat ((n + 128) * 6960) \<le> l)\<rparr>,
      clock_get = Ok \<lparr>clock_epoch = e\<rparr>,
      stake_history_from = Ok,
      stake_status = ref_status,
      unpack_mint = ref_unpack_mint,
      unpack_token_account = ref_unpack_token_account,
      merge_instructions = (\<lambda>dest src auth. [StakeMerge dest src auth]),
      split_instructions = (\<lambda>src auth n dest.
        [SystemAllocate dest 200, SystemAssign dest ref_stake, StakeSplit src auth n dest]),
      mint_to_instruction = (\<lambda>prog m a auth n. Ok (TokenMintTo prog m a auth n)),
      burn_instruction = (\<lambda>prog a m auth n. Ok (TokenBurn prog a m auth n)),
      env_invoke = (\<lambda>ins infos seeds w. ref_invoke ins w),
      lido_borsh = lido_bytes,
      lido_read = (\<lambda>bs. map_option fst (read_lido bs)),
      lido_v1_read = (\<lambda>bs. map_option fst (read_lido_v1 bs)),
      instruction_read = read_instruction,
      instruction_borsh = instruction_bytes,
      VE = validator_entry, PE = perf_entry, ME = maintainer_entry\<rparr>"

lemma ref_move_frame: "ref_move a b n w = Ok w' \<Longrightarrow> own_frame p w w'"
  by (auto simp: ref_move_def own_frame_def Let_def split: if_splits)

lemma ref_token_update_frame: "\<lbrakk>ref_token_update m a f w = Ok w'; p \<noteq> ref_token\<rbrakk> \<Longrightarrow> own_frame p w w'"
  by (auto simp: ref_token_update_def own_frame_def Let_def split: if_splits option.splits)

lemma own_frame_other:
  "acc_owner (ledger w a) \<noteq> p \<Longrightarrow> own_frame p w (set_data a d w)"
  "acc_owner (ledger w a) \<noteq> p \<Longrightarrow> own_frame p w (w\<lparr>ledger := (ledger w)(a := x)\<rparr>)"
  by (auto simp: own_frame_def)

lemma ref_invoke_frame:
  assumes "ref_invoke ins w = Ok w'" and "p \<noteq> ref_system" and "p \<noteq> ref_token" and "p \<noteq> ref_stake"
  shows "own_frame p w w'"
  using assms
  by (cases ins) (auto simp: Let_def intro: ref_move_frame ref_token_update_frame own_frame_other split: if_splits)

text \<open>The address of the program.\<close>

definition solido_id :: pubkey where "solido_id = 1000"

lemma solana_reference: "solana (reference_env e) solido_id"
proof (intro solana.intro solana_axioms.intro)
  show "list_codec (VE (reference_env e)) validator_packable" "list_codec (ME (reference_env e)) (\<lambda>m. True)"
    by (simp_all add: reference_env_def vle.list_codec_axioms mle.list_codec_axioms)
  show "own_frame solido_id w w'" if "env_invoke (reference_env e) ins infos seeds w = Ok w'" for ins infos seeds w w'
    using that by (auto simp: reference_env_def solido_id_def ref_system_def ref_token_def ref_stake_def intro: ref_invoke_frame)
qed (auto simp: reference_env_def validator_entry_def maintainer_entry_def perf_entry_def validator_layout_def
    maintainer_layout_def li.read_write dest: li.read_wf read_lido_tag read_lido_v1_version)

interpretation ref: solana "reference_env e" solido_id for e
  by (rule solana_reference)

text \<open>Instructions on the wire. Every instruction, written by the client with Borsh, is decoded by the entry point
  to the same instruction and dispatched to its handler with the same accounts.\<close>

lemma process_decodes_instructions:
  "process (reference_env e) p accounts (instruction_borsh (reference_env e) ins) w =
     process_instruction (reference_env e) p accounts ins w"
  by (simp add: process_def reference_env_def read_instruction_bytes then_do_def lift_def)

end
