(* ===== verification/PoolFacts.thy ===== *)
theory PoolFacts
  imports Pool
begin

text \<open>
  Consequences of the abstract step relation: which signatures a step needs, what it never changes,
  how the status of a validator and the exchange rate evolve, and how the total stake is accounted for.
\<close>

definition manager_instruction :: "lido_instruction \<Rightarrow> bool" where
  "manager_instruction ins \<longleftrightarrow> (case ins of
       ChangeRewardDistribution rd \<Rightarrow> True | AddValidatorV2 \<Rightarrow> True | EnqueueValidatorForRemovalV2 i \<Rightarrow> True
     | DeactivateValidatorV2 i \<Rightarrow> True | AddMaintainerV2 \<Rightarrow> True | RemoveMaintainerV2 i \<Rightarrow> True
     | ChangeCriteria c \<Rightarrow> True | _ \<Rightarrow> False)"

definition maintainer_index_of :: "lido_instruction \<Rightarrow> u32 option" where
  "maintainer_index_of ins = (case ins of
       StakeDepositV2 amount vi mi \<Rightarrow> Some mi | UnstakeV2 amount vi mi \<Rightarrow> Some mi | _ \<Rightarrow> None)"

lemma pool_step_manager:
  "\<lbrakk>pool_step now signers ins s s'; manager_instruction ins\<rbrakk> \<Longrightarrow> manager (pool_lido s) \<in> signers"
  by (induction rule: pool_step.induct) (simp_all add: manager_instruction_def)

lemma pool_step_maintainer:
  "\<lbrakk>pool_step now signers ins s s'; maintainer_index_of ins = Some i\<rbrakk> \<Longrightarrow>
     \<exists>m. maintainer_at s i m \<and> m \<in> signers"
  by (induction rule: pool_step.induct) (auto simp: maintainer_index_of_def)

text \<open>The part of the state account that no instruction changes.\<close>

definition fixed_fields :: "lido \<Rightarrow> pubkey list \<times> u8 list" where
  "fixed_fields l =
     ([manager l, st_sol_mint l, validator_list l, validator_perf_list l, maintainer_list l],
      [lido_lido_version l, sol_reserve_account_bump_seed l, stake_authority_bump_seed l, mint_authority_bump_seed l])"

lemma pool_lido_set [simp]:
  "pool_lido (set_lido s l) = l" "pool_lido (set_validator s i v) = pool_lido s"
  "pool_validators (set_lido s l) = pool_validators s"
  "pool_validators (set_validator s i v) = (pool_validators s)[unat i := v]"
  by (simp_all add: set_lido_def set_validator_def)

lemma pool_step_fixed_fields:
  "pool_step now signers ins s s' \<Longrightarrow> fixed_fields (pool_lido s') = fixed_fields (pool_lido s)"
  by (induction rule: pool_step.induct) (simp_all add: fixed_fields_def)

lemma pool_step_exchange_rate:
  "pool_step now signers ins s s' \<Longrightarrow>
     exchange_rate (pool_lido s') = exchange_rate (pool_lido s) \<or>
     ins = UpdateExchangeRateV2 \<and> computed_in_epoch (exchange_rate (pool_lido s)) < now \<and>
     computed_in_epoch (exchange_rate (pool_lido s')) = now"
  by (induction rule: pool_step.induct) simp_all

subsection \<open>Status of validators\<close>

definition pending_removal :: "pool \<Rightarrow> pubkey \<Rightarrow> bool" where
  "pending_removal s k \<longleftrightarrow>
     (\<exists>v \<in> set (pool_validators s). vote_account_address v = k \<and> status v = PendingRemoval)"

lemma pending_removal_update:
  assumes "pending_removal s k" and "validator_at s i v"
    and "vote_account_address v' = vote_account_address v" and "status v = PendingRemoval \<Longrightarrow> status v' = PendingRemoval"
  shows "pending_removal (set_validator s i v') k"
proof -
  obtain j where j: "j < length (pool_validators s)" "vote_account_address (pool_validators s ! j) = k"
    "status (pool_validators s ! j) = PendingRemoval"
    using assms(1) by (auto simp: pending_removal_def in_set_conv_nth)
  have "vote_account_address ((pool_validators s)[unat i := v'] ! j) = k \<and>
      status ((pool_validators s)[unat i := v'] ! j) = PendingRemoval"
    using j assms(2-4) by (cases "j = unat i") (auto simp: validator_at_def)
  moreover have "(pool_validators s)[unat i := v'] ! j \<in> set ((pool_validators s)[unat i := v'])"
    using j(1) by (intro nth_mem) simp
  ultimately show ?thesis by (auto simp: pending_removal_def)
qed

lemma pending_removal_lido [simp]: "pending_removal (set_lido s l) k = pending_removal s k"
  by (simp add: pending_removal_def)

lemma status_with_balances [simp]: "status (with_balances v a b) = status v"
  by (simp add: with_balances_def)

lemma pool_step_pending_removal:
  assumes "pool_step now signers ins s s'" and "pending_removal s k"
  shows "pending_removal s' k \<or> (\<exists>i. ins = RemoveValidatorV2 i)"
  using assms
proof (induction rule: pool_step.induct)
  case (add_validator_step s k')
  then show ?case by (auto simp: pending_removal_def)
next
  case (add_maintainer_step s k')
  then show ?case by (simp add: pending_removal_def)
next
  case (remove_maintainer_step s mi)
  then show ?case by (simp add: pending_removal_def)
qed (simp_all add: pending_removal_update enqueue_for_removal_def deactivate_def activate_def)

text \<open>A validator that a step drops from the list had nothing left.\<close>

definition drained :: "validator \<Rightarrow> bool" where
  "drained v \<longleftrightarrow> status v = PendingRemoval \<and> \<not> has_stake_accounts v \<and> \<not> has_unstake_accounts v \<and>
     stake_accounts_balance v = Lamports 0"

definition validator_keys :: "pool \<Rightarrow> pubkey set" where
  "validator_keys s = vote_account_address ` set (pool_validators s)"

lemma validator_keys_set [simp]:
  "validator_keys (set_lido s l) = validator_keys s" "validator_keys (s\<lparr>pool_maintainers := ms\<rparr>) = validator_keys s"
  by (simp_all add: validator_keys_def)

lemma validator_keys_update:
  "\<lbrakk>validator_at s i v; vote_account_address v' = vote_account_address v\<rbrakk> \<Longrightarrow>
     validator_keys (set_validator s i v') = validator_keys s"
  by (metis (no_types, lifting) list.set_map list_update_id map_update pool_lido_set(4) validator_at_def validator_keys_def)

lemma kept_drained:
  "validator_keys s \<subseteq> validator_keys s' \<Longrightarrow>
     list_all (\<lambda>v. vote_account_address v \<in> validator_keys s' \<or> drained v) (pool_validators s)"
  by (auto simp: list_all_iff validator_keys_def)

lemma pool_step_drained:
  assumes "pool_step now signers ins s s'"
  shows "list_all (\<lambda>v. vote_account_address v \<in> validator_keys s' \<or> drained v) (pool_validators s)"
  using assms
proof (induction rule: pool_step.induct)
  case (remove_validator_step s vi v)
  have "mset (pool_validators s) = add_mset v (mset (list_swap_remove (unat vi) (pool_validators s)))"
    using remove_validator_step mset_list_swap_remove [of "unat vi" "pool_validators s"] by (auto simp: validator_at_def)
  then have "set (pool_validators s) = insert v (set (list_swap_remove (unat vi) (pool_validators s)))"
    by (metis set_mset_add_mset_insert set_mset_mset)
  then show ?case using remove_validator_step by (auto simp: list_all_iff validator_keys_def drained_def)
next
  case (add_validator_step s k)
  show ?case by (rule kept_drained) (auto simp: validator_keys_def)
qed (auto simp: validator_keys_update intro!: kept_drained)

subsection \<open>Accounting\<close>

definition total_stake :: "pool \<Rightarrow> nat" where
  "total_stake s = (\<Sum>v\<leftarrow>pool_validators s. unat (lam (stake_accounts_balance v)))"

lemma sum_list_update:
  "i < length xs \<Longrightarrow> (\<Sum>x\<leftarrow>xs[i := y]. f x) + f (xs ! i) = (\<Sum>x\<leftarrow>xs. f x) + (f y :: nat)"
proof (induction xs arbitrary: i)
  case (Cons x xs)
  then show ?case by (cases i) (auto simp: algebra_simps)
qed simp

lemma total_stake_set_validator:
  assumes "validator_at s i v"
  shows "total_stake (set_validator s i v') + unat (lam (stake_accounts_balance v)) =
    total_stake s + unat (lam (stake_accounts_balance v'))"
  using assms sum_list_update [of "unat i" "pool_validators s" "\<lambda>v. unat (lam (stake_accounts_balance v))" v']
  by (simp add: total_stake_def validator_at_def)

lemma total_stake_same [simp]:
  "total_stake (set_lido s l) = total_stake s" "total_stake (s\<lparr>pool_maintainers := ms\<rparr>) = total_stake s"
  by (simp_all add: total_stake_def)

lemma total_stake_keep:
  "\<lbrakk>validator_at s i v; stake_accounts_balance v' = stake_accounts_balance v\<rbrakk> \<Longrightarrow>
     total_stake (set_validator s i v') = total_stake s"
  using total_stake_set_validator [of s i v v'] by simp

lemma stake_of_with_balances [simp]: "stake_accounts_balance (with_balances v a b) = a"
  by (simp add: with_balances_def)

text \<open>What each instruction does to the total, where \<open>n\<close> and \<open>n'\<close> are the totals before and after and
  \<open>observed vi\<close> stands for what \<open>UpdateStakeAccountBalance\<close> does, which the observed balances decide.\<close>

definition stake_effect_with ::
  "(u32 \<Rightarrow> bool) \<Rightarrow> lido_instruction \<Rightarrow> exchange_rate \<Rightarrow> nat \<Rightarrow> nat \<Rightarrow> bool" where
  "stake_effect_with observed ins rate n n' \<longleftrightarrow> (case ins of
       StakeDepositV2 amount vi mi \<Rightarrow> n' = n + unat (lam amount)
     | WithdrawV2 amount vi \<Rightarrow> (\<exists>out. exchange_st_sol rate amount = Ok out \<and> n' + unat (lam out) = n)
     | UpdateStakeAccountBalance vi \<Rightarrow> observed vi
     | _ \<Rightarrow> n' = n)"

lemma pool_step_stake_effect:
  assumes "pool_step now signers ins s s'" and "\<And>vi. ins = UpdateStakeAccountBalance vi \<Longrightarrow> observed vi"
  shows "stake_effect_with observed ins (exchange_rate (pool_lido s)) (total_stake s) (total_stake s')"
  using assms
proof (induction rule: pool_step.induct)
  case (stake_deposit_step s mi m amount vi v stk se)
  then show ?case
    using total_stake_set_validator [of s vi v "(with_balances v stk (unstake_accounts_balance v))
        \<lparr>stake_seeds := (stake_seeds v)\<lparr>seed_end := se\<rparr>\<rparr>"]
    by (auto simp: stake_effect_with_def lamp.add_eq_Ok)
next
  case (withdraw_step s vi v amount sol_out stk metr)
  then show ?case
    using total_stake_set_validator [of s vi v "with_balances v stk (unstake_accounts_balance v)"]
    by (auto simp: stake_effect_with_def lamp.sub_eq_Ok)
next
  case (remove_validator_step s vi v)
  have "mset (pool_validators s) = add_mset v (mset (list_swap_remove (unat vi) (pool_validators s)))"
    using remove_validator_step mset_list_swap_remove [of "unat vi" "pool_validators s"] by (auto simp: validator_at_def)
  then have "(\<Sum>x\<leftarrow>pool_validators s. unat (lam (stake_accounts_balance x))) =
      (\<Sum>x\<leftarrow>list_swap_remove (unat vi) (pool_validators s). unat (lam (stake_accounts_balance x)))"
    using remove_validator_step(5) by (simp add: sum_mset_sum_list [symmetric])
  then show ?case by (simp add: stake_effect_with_def total_stake_def)
next
  case (add_validator_step s k)
  then show ?case by (simp add: stake_effect_with_def total_stake_def validator_new_def validator_default_def)
qed (simp_all add: stake_effect_with_def total_stake_keep enqueue_for_removal_def deactivate_def activate_def)

end
