(* ===== verification/Runs.thy ===== *)
theory Runs
  imports ReferenceEnv PoolFacts
begin

text \<open>
  Histories of a pool. Between two instructions of this program other programs run, which
  cannot write to its accounts, and the clock and the other sysvars change; only the codecs stay.
  A failed instruction leaves no trace, since the runtime discards its effects.
\<close>

definition same_codec :: "lenv \<Rightarrow> lenv \<Rightarrow> bool" where
  "same_codec E E' \<longleftrightarrow> lido_read E' = lido_read E \<and> VE E' = VE E \<and> ME E' = ME E"

inductive ledger_run :: "pubkey \<Rightarrow> pubkey \<Rightarrow> lenv \<Rightarrow> world \<Rightarrow> world \<Rightarrow> bool"
  for p :: pubkey and k :: pubkey and E0 :: lenv where
  run_refl: "ledger_run p k E0 w w"
| run_other: "\<lbrakk>ledger_run p k E0 w w1; own_frame p w1 w2\<rbrakk> \<Longrightarrow> ledger_run p k E0 w w2"
| run_instruction:
    "\<lbrakk>ledger_run p k E0 w w1; solana E p; same_codec E0 E; key (accounts ! 0) = k;
      process_instruction E p accounts ins w1 = Ok ((), w2)\<rbrakk> \<Longrightarrow> ledger_run p k E0 w w2"

lemma represents_codec: "same_codec E E' \<Longrightarrow> represents E' p k w s = represents E p k w s"
  by (simp add: represents_def same_codec_def)

context solana
begin

lemma list_repr_unique:
  "\<lbrakk>list_repr (VE E) d h xs; list_repr (VE E) d h' ys\<rbrakk> \<Longrightarrow> xs = ys"
  "\<lbrakk>list_repr (ME E) d h ms; list_repr (ME E) d h' ns\<rbrakk> \<Longrightarrow> ms = ns"
  using validators.account_list_from_refines maintainers.account_list_from_refines
  by (metis account_list.select_convs(2) result.inject(1))+

lemma represents_unique: "\<lbrakk>represents E p k w s; represents E p k w s'\<rbrakk> \<Longrightarrow> s = s'"
  by (cases s; cases s') (auto simp: represents_def holds_list_def dest: list_repr_unique)

lemma instruction_step:
  assumes "represents E p k w s" and "key (accounts ! 0) = k"
    and "process_instruction E p accounts ins w = Ok ((), w')" and "represents E p k w' s'"
  shows "pool_step (epoch_of E) (signers_of accounts) ins s s'"
  using process_instruction_refines [OF assms(1-3)] represents_unique [OF assms(4)] by blast

end

text \<open>What a history keeps: the invariant, the fixed fields, and the order of the epochs of the rate.\<close>

definition history_inv :: "pool \<Rightarrow> pool \<Rightarrow> bool" where
  "history_inv s s' \<longleftrightarrow>
     pool_inv s' \<and> fixed_fields (pool_lido s') = fixed_fields (pool_lido s) \<and>
     computed_in_epoch (exchange_rate (pool_lido s)) \<le> computed_in_epoch (exchange_rate (pool_lido s'))"

lemma ledger_run_history:
  assumes "ledger_run p k E0 w w'" and "represents E0 p k w s" and "pool_inv s"
  shows "\<exists>s'. represents E0 p k w' s' \<and> history_inv s s'"
  using assms
proof (induction rule: ledger_run.induct)
  case (run_refl w)
  then show ?case by (auto simp: history_inv_def)
next
  case (run_other w w1 w2)
  then show ?case by (blast intro: represents_frame)
next
  case (run_instruction w w1 E accounts ins w2)
  then obtain s1 where s1: "represents E0 p k w1 s1" "history_inv s s1" by blast
  then have "represents E p k w1 s1" using run_instruction.hyps(3) by (simp add: represents_codec)
  from solana.process_instruction_refines [OF run_instruction.hyps(2) this run_instruction.hyps(4,5)]
  obtain s2 where s2: "represents E p k w2 s2" "pool_step (epoch_of E) (signers_of accounts) ins s1 s2" by blast
  then have "represents E0 p k w2 s2" using run_instruction.hyps(3) by (simp add: represents_codec)
  moreover have "history_inv s s2"
    using s1(2) pool_step_inv [OF s2(2)] pool_step_fixed_fields [OF s2(2)] pool_step_exchange_rate [OF s2(2)]
    by (auto simp: history_inv_def)
  ultimately show ?case by blast
qed

end
