(* ===== verification/Examples.thy ===== *)
theory Examples
  imports Runs
begin

text \<open>
  Two ledgers in the reference environment, on which the properties are applied: one with a pool of one
  validator and one maintainer, whose manager changes the criteria, and one with empty accounts, on which the
  pool is initialised.
\<close>

subsection \<open>An example ledger\<close>

definition example_lido :: lido where
  "example_lido =
     \<lparr>lido_account_type = Lido, lido_lido_version = 1, manager = 501, st_sol_mint = 502,
      exchange_rate = \<lparr>computed_in_epoch = 3, st_sol_supply = StLamports 9000000000, sol_balance = Lamports 10000000000\<rparr>,
      sol_reserve_account_bump_seed = 255, stake_authority_bump_seed = 255, mint_authority_bump_seed = 255,
      reward_distribution = \<lparr>treasury_fee = 4, developer_fee = 1, st_sol_appreciation = 95\<rparr>,
      fee_recipients = \<lparr>treasury_account = 503, developer_account = 504\<rparr>,
      lido_metrics = metrics_new, lido_criteria = criteria_default,
      validator_list = 511, validator_perf_list = 512, maintainer_list = 513\<rparr>"

definition example_validator :: validator where
  "example_validator = (validator_new 521)
     \<lparr>stake_seeds := \<lparr>seed_begin = 0, seed_end = 1\<rparr>,
      stake_accounts_balance := Lamports 10000000000, effective_stake_balance := Lamports 10000000000\<rparr>"

definition example_list :: "'a list_entry \<Rightarrow> 'a list \<Rightarrow> u8 list" where
  "example_list LE xs =
     (case account_list_save LE
        \<lparr>al_header = \<lparr>account_type = le_type LE, lido_version = 1, max_entries = 2\<rparr>, entries = xs\<rparr> (replicate 300 0) of
        Ok d \<Rightarrow> d | Err e \<Rightarrow> [] | Panic \<Rightarrow> [])"

definition example_world :: world where
  "example_world =
     \<lparr>ledger = (\<lambda>k.
       if k = 500 then \<lparr>acc_lamports = 10000000, acc_owner = solido_id, acc_data = lido_bytes example_lido\<rparr>
       else if k = 511 then \<lparr>acc_lamports = 10000000, acc_owner = solido_id,
         acc_data = example_list validator_entry [example_validator]\<rparr>
       else if k = 512 then \<lparr>acc_lamports = 10000000, acc_owner = solido_id, acc_data = example_list perf_entry []\<rparr>
       else if k = 513 then \<lparr>acc_lamports = 10000000, acc_owner = solido_id,
         acc_data = example_list maintainer_entry [maintainer_new 531]\<rparr>
       else \<lparr>acc_lamports = 5000000000, acc_owner = ref_system, acc_data = []\<rparr>),
      borrowed = []\<rparr>"

definition example_pool :: pool where
  "example_pool = \<lparr>pool_lido = example_lido, pool_validators = [example_validator],
     pool_maintainers = [maintainer_new 531]\<rparr>"

definition writable :: "pubkey \<Rightarrow> account_info" where
  "writable k = \<lparr>key = k, is_signer = False, is_writable = True\<rparr>"

definition readonly :: "pubkey \<Rightarrow> account_info" where
  "readonly k = \<lparr>key = k, is_signer = False, is_writable = False\<rparr>"

definition signer :: "pubkey \<Rightarrow> account_info" where
  "signer k = \<lparr>key = k, is_signer = True, is_writable = True\<rparr>"

lemma account_info_example [simp]:
  "key (writable k) = k" "key (readonly k) = k" "key (signer k) = k"
  "is_signer (writable k) = False" "is_signer (readonly k) = False" "is_signer (signer k) = True"
  "is_writable (writable k) = True" "is_writable (readonly k) = False" "is_writable (signer k) = True"
  by (simp_all add: writable_def readonly_def signer_def)

lemma example_list_repr:
  assumes "list_codec LE packable" and "list_all packable xs" and "distinct (map (le_pubkey LE) xs)"
    and "length xs \<le> 2" and "entry_len (le_layout LE) \<le> 145"
  shows "\<exists>h. list_repr LE (example_list LE xs) h xs"
  using list_codec.save_refines [OF assms(1), of
      "\<lparr>al_header = \<lparr>account_type = le_type LE, lido_version = 1, max_entries = 2\<rparr>, entries = xs\<rparr>"
      "replicate 300 0"] assms
  by (auto simp: example_list_def LIDO_VERSION_def list_all_iff)

lemma example_wf: "lido_wf example_lido"
  by (simp add: lido_wf_def example_lido_def metrics_new_def lamports_histogram_new_def)

lemma example_represents: "represents (reference_env e) solido_id 500 example_world example_pool"
proof -
  have "\<exists>h. list_repr validator_entry (example_list validator_entry [example_validator]) h [example_validator]"
    by (rule example_list_repr [OF vle.list_codec_axioms])
      (simp_all add: validator_packable_def example_validator_def validator_new_def validator_default_def
        validator_entry_def validator_layout_def)
  moreover have "\<exists>h. list_repr maintainer_entry (example_list maintainer_entry [maintainer_new 531]) h [maintainer_new 531]"
    by (rule example_list_repr [OF mle.list_codec_axioms]) (simp_all add: maintainer_entry_def maintainer_layout_def)
  moreover have "read_lido (lido_bytes example_lido) = Some (example_lido, [])"
    using li.read_write [OF example_wf, of "[]"] by simp
  moreover have "lido_account_type example_lido = Lido" "lido_lido_version example_lido = LIDO_VERSION"
    "validator_list example_lido = 511" "validator_perf_list example_lido = 512" "maintainer_list example_lido = 513"
    by (simp_all add: example_lido_def LIDO_VERSION_def)
  ultimately show ?thesis
    by (simp add: represents_def holds_list_def reference_env_def example_pool_def example_world_def)
qed

lemma example_inv: "pool_inv example_pool"
  by (simp add: pool_inv_def example_pool_def validator_inv_def example_validator_def validator_new_def
      validator_default_def unstake_within_stake_def effective_of_def unstake_count_def less_eq_lamports_def)

text \<open>The manager changes the criteria.\<close>

definition example_criteria :: criteria where
  "example_criteria = \<lparr>max_commission = 5, min_block_production_rate = 1, min_vote_success_rate = 2\<rparr>"

definition example_accounts :: "account_info list" where
  "example_accounts = [writable 500, signer 501]"

definition example_world_1 :: world where
  "example_world_1 = set_data 500 (lido_bytes (example_lido\<lparr>lido_criteria := example_criteria\<rparr>)) example_world"

definition example_pool_1 :: pool where
  "example_pool_1 = set_lido example_pool (example_lido\<lparr>lido_criteria := example_criteria\<rparr>)"

lemma example_parsed:
  "info_try_from_slice (change_criteria_accounts (reference_env e)) example_accounts =
     Ok ([writable 500, signer 501], [])"
  by (simp add: info_try_from_slice_def change_criteria_accounts_def example_accounts_def)

lemma example_instruction:
  "process_instruction (reference_env e) solido_id example_accounts (ChangeCriteria example_criteria) example_world =
     Ok ((), example_world_1)"
proof -
  let ?E = "reference_env e" and ?l = "example_lido\<lparr>lido_criteria := example_criteria\<rparr>"
  have "lido_wf ?l" using example_wf by (simp add: lido_wf_def)
  then have len: "length (lido_bytes ?l) = 466" "length (lido_bytes example_lido) = 466"
    using li.length_write [of ?l] li.length_write [OF example_wf] by (simp_all add: LIDO_LEN_def)
  have "deserialize_lido ?E solido_id (writable 500) example_world = Ok (example_lido, example_world)"
    using deserialize_represented_eq [OF example_represents, of "writable 500"]
    by (simp add: example_pool_def example_world_def)
  moreover have "save ?E ?l (writable 500) example_world = Ok ((), example_world_1)"
    using len by (simp add: save_def result_simps serialize_into_def reference_env_def example_world_1_def)
      (simp add: example_world_def)
  moreover have "manager example_lido = 501" by (simp add: example_lido_def)
  ultimately show ?thesis
    by (simp add: process_instruction_def process_change_criteria_def example_parsed then_do_def lift_def
        require_def check_manager_def example_criteria_def Let_def)
qed

lemma example_represents_1: "represents (reference_env e) solido_id 500 example_world_1 example_pool_1"
  using example_represents [of e] li.read_write [of "example_lido\<lparr>lido_criteria := example_criteria\<rparr>" "[]"] example_wf
  by (auto simp: represents_def holds_list_def example_world_1_def example_pool_1_def set_lido_def example_pool_def
      reference_env_def lido_wf_def)

lemma example_before:
  "represents (reference_env e) solido_id (key (example_accounts ! 0)) example_world example_pool"
  using example_represents [of e] by (simp add: example_accounts_def)

lemma example_after:
  "represents (reference_env e) solido_id (key (example_accounts ! 0)) example_world_1 example_pool_1"
  using example_represents_1 [of e] by (simp add: example_accounts_def)

lemma example_signers: "signers_of example_accounts = {501}"
  by (force simp: signers_of_def example_accounts_def)

lemma example_epoch: "epoch_of (reference_env e) = e"
  by (simp add: epoch_of_def reference_env_def)

subsection \<open>A ledger before initialisation\<close>

lemma le_bytes_numeral: "le_bytes (numeral n) x = word_of_nat x # le_bytes (pred_numeral n) (x div 256)"
  using le_bytes.simps(2) [of "pred_numeral n" x] by (simp only: numeral_eq_Suc [of n])
lemma le_bytes_0: "le_bytes n 0 = replicate n 0"
  by (induction n) simp_all
lemma pubkey_bytes_500: "pubkey_bytes 500 = 244 # 1 # replicate 30 0"
  by (simp add: pubkey_bytes_def le_bytes_numeral le_bytes_0)
lemma bytes_of_seeds:
  "(\<Sum>b\<leftarrow>RESERVE_ACCOUNT. unat b) = 1608"
  "(\<Sum>b\<leftarrow>MINT_AUTHORITY. unat b) = 1536"
  "(\<Sum>b\<leftarrow>STAKE_AUTHORITY. unat b) = 1632"
  by (simp_all add: RESERVE_ACCOUNT_def MINT_AUTHORITY_def STAKE_AUTHORITY_def bytes_of_string_def)
lemma example_addresses:
  "find_program_address (reference_env e) [pubkey_bytes 500, RESERVE_ACCOUNT] solido_id = (3108, 255)"
  "find_program_address (reference_env e) [pubkey_bytes 500, MINT_AUTHORITY] solido_id = (3036, 255)"
  "find_program_address (reference_env e) [pubkey_bytes 500, STAKE_AUTHORITY] solido_id = (3132, 255)"
  by (simp_all add: pubkey_bytes_500 reference_env_def ref_hash_def solido_id_def sum_list_replicate bytes_of_seeds)

definition genesis_mint :: "u8 list" where
  "genesis_mint = u32_bytes 1 @ pubkey_bytes 3036 @ u64_bytes 0 @ [9, 1] @ replicate 36 0"

definition genesis_token :: "u8 list" where
  "genesis_token = pubkey_bytes 502 @ replicate 133 0"

definition genesis_world :: world where
  "genesis_world =
     \<lparr>ledger = (\<lambda>k. \<lparr>acc_lamports = 10000000000,
       acc_owner = (if k \<in> {500, 511, 512, 513} then solido_id else if k \<in> {502, 503, 504} then ref_token else ref_system),
       acc_data = (if k = 500 then replicate 466 0 else if k \<in> {511, 512, 513} then replicate 300 0
         else if k = 502 then genesis_mint else if k \<in> {503, 504} then genesis_token else [])\<rparr>),
      borrowed = []\<rparr>"

definition genesis_accounts :: "account_info list" where
  "genesis_accounts = [writable 500, readonly 501, readonly 502, readonly 503, readonly 504, readonly 3108,
     writable 511, writable 512, writable 513, readonly 5, readonly 1]"

lemma genesis_parsed:
  "info_try_from_slice (initialize_accounts (reference_env e)) genesis_accounts = Ok (genesis_accounts, [])"
  by (simp add: info_try_from_slice_def initialize_accounts_def genesis_accounts_def reference_env_def ref_token_def)

lemma genesis_length: "length genesis_mint = 82" "length genesis_token = 165"
  by (simp_all add: genesis_mint_def genesis_token_def)

lemma genesis_checks:
  "ref_unpack_mint genesis_mint = Ok \<lparr>mint_supply = 0, mint_mint_authority = Some 3036, mint_freeze_authority = None\<rparr>"
  "ref_unpack_token_account genesis_token = Ok \<lparr>token_mint = 502, token_owner = 0, token_balance = 0\<rparr>"
   by (simp_all add: ref_unpack_mint_def genesis_mint_def ref_unpack_token_account_def genesis_token_def u64_at_def pubkey_at_def u32_bytes_def le_val_zeros)

lemma set_data_same [simp]: "set_data k (acc_data (ledger w k)) w = w"
  by (simp add: set_data_def)

lemma check_account_data_zeros:
  assumes "acc_data (ledger w (key a)) = replicate m 0" and "key a \<notin> set (borrowed w)" and "n \<le> m"
  shows "check_account_data E a n w = Ok ((), w)"
proof -
  have "set_data (key a) (replicate m 0) w = w" using set_data_same [of "key a" w] assms(1) by simp
  then show ?thesis
    using assms by (simp add: check_account_data_def then_do_def data_borrow_def require_def data_write_def lift_def data_len_def
        return_def Let_def min_def replicate_add [symmetric])
qed

lemma genesis_account [simp]:
  "acc_lamports (ledger genesis_world k) = 10000000000" "borrowed genesis_world = []"
  by (simp_all add: genesis_world_def)

lemma genesis_owner:
  "acc_owner (ledger genesis_world 500) = solido_id" "acc_owner (ledger genesis_world 511) = solido_id"
  "acc_owner (ledger genesis_world 512) = solido_id" "acc_owner (ledger genesis_world 513) = solido_id"
  "acc_owner (ledger genesis_world 502) = ref_token" "acc_owner (ledger genesis_world 503) = ref_token"
  "acc_owner (ledger genesis_world 504) = ref_token"
  by (simp_all add: genesis_world_def)

lemma genesis_data:
  "acc_data (ledger genesis_world 500) = replicate 466 0" "acc_data (ledger genesis_world 511) = replicate 300 0"
  "acc_data (ledger genesis_world 512) = replicate 300 0" "acc_data (ledger genesis_world 513) = replicate 300 0"
  "acc_data (ledger genesis_world 502) = genesis_mint" "acc_data (ledger genesis_world 503) = genesis_token"
  "acc_data (ledger genesis_world 504) = genesis_token" "acc_data (ledger genesis_world 3108) = []"
  by (simp_all add: genesis_world_def)

lemma word_of_nat_le_balance: "n \<le> 10000000000 \<Longrightarrow> (word_of_nat n :: u64) \<le> 10000000000"
  by (simp add: word_le_nat_alt unat_of_nat)

lemma genesis_rent:
  assumes "rent_get (reference_env e) = Ok rent" and "length (acc_data (ledger genesis_world (key a))) \<le> 466"
  shows "check_rent_exempt rent a genesis_world = Ok ((), genesis_world)"
proof -
  let ?n = "length (acc_data (ledger genesis_world (key a)))"
  have "(?n + 128) * 6960 \<le> 10000000000" using assms(2) by simp
  then have "(word_of_nat ((?n + 128) * 6960) :: u64) \<le> 10000000000"
    by (rule word_of_nat_le_balance)
  then show ?thesis
    using assms(1) by (auto simp: check_rent_exempt_def then_do_def lamports_of_def data_len_def data_borrow_def return_def
        require_def reference_env_def)
qed

lemma genesis_token_accounts:
  assumes "st_sol_mint l = 502" and "key a \<in> {503, 504}"
  shows "check_is_st_sol_account (reference_env e) l a genesis_world = Ok ((), genesis_world)"
  using assms
  by (auto simp: check_is_st_sol_account_def owner_of_def genesis_owner then_do_def data_borrow_def require_def lift_def
      reference_env_def genesis_data genesis_checks)

lemma save_list_ok:
  "\<lbrakk>length (le_list_borsh LE al) \<le> length (acc_data (ledger w (key a))); key a \<notin> set (borrowed w)\<rbrakk> \<Longrightarrow>
     \<exists>d. save_list LE al a w = Ok ((), set_data (key a) d w)"
  by (auto simp: save_list_def result_simps account_list_save_def serialize_into_def)

lemma genesis_ok:
  "\<exists>w'. process_instruction (reference_env e) solido_id genesis_accounts
     (Initialize \<lparr>treasury_fee = 4, developer_fee = 1, st_sol_appreciation = 95\<rparr> criteria_default 2 2) genesis_world = Ok ((), w') \<and>
   borrowed w' = [] \<and> length (acc_data (ledger w' 500)) = 466"
proof -
  obtain rent where rent: "rent_get (reference_env e) = Ok rent" by (simp add: reference_env_def)
  have acc: "genesis_accounts ! 0 = writable 500" "genesis_accounts ! Suc 0 = readonly 501" "genesis_accounts ! 2 = readonly 502"
    "genesis_accounts ! 3 = readonly 503" "genesis_accounts ! 4 = readonly 504" "genesis_accounts ! 5 = readonly 3108"
    "genesis_accounts ! 6 = writable 511" "genesis_accounts ! 7 = writable 512" "genesis_accounts ! 8 = writable 513"
    by (simp_all add: genesis_accounts_def)
  have sizes: "required_bytes (VE (reference_env e)) 2 = 188" "required_bytes (PE (reference_env e)) 2 = 142"
    "required_bytes (ME (reference_env e)) 2 = 74"
    by (simp_all add: required_bytes_def reference_env_def validator_entry_def perf_entry_def maintainer_entry_def
        validator_layout_def perf_layout_def maintainer_layout_def usize_wrap_def header_size_def LIST_HEADER_LEN_def)
  have mint: "check_mint (reference_env e) rent (readonly 502) 3036 genesis_world = Ok ((), genesis_world)"
    using genesis_rent [OF rent, of "readonly 502"]
    by (simp add: check_mint_def check_rent_exempt_def check_account_owner_def owner_of_def genesis_owner then_do_def lamports_of_def data_len_def
        data_borrow_def return_def require_def lift_def reference_env_def genesis_data genesis_checks genesis_length split: if_splits)
  have lists: "length (le_list_borsh (VE (reference_env e)) (empty_list (VE (reference_env e)) 2)) \<le> 300"
    "length (le_list_borsh (PE (reference_env e)) (empty_list (PE (reference_env e)) 2)) \<le> 300"
    "length (le_list_borsh (ME (reference_env e)) (empty_list (ME (reference_env e)) 2)) \<le> 300"
    by (simp_all add: reference_env_def validator_entry_def perf_entry_def maintainer_entry_def list_bytes_def
        empty_list_def new_default_def)
  obtain d1 where d1: "save_list (VE (reference_env e)) (empty_list (VE (reference_env e)) 2) (writable 511) genesis_world =
      Ok ((), set_data 511 d1 genesis_world)"
    using save_list_ok [of "VE (reference_env e)" "empty_list (VE (reference_env e)) 2" genesis_world "writable 511"] lists by (auto simp: genesis_data)
  let ?w1 = "set_data 511 d1 genesis_world"
  obtain d2 where d2: "save_list (PE (reference_env e)) (empty_list (PE (reference_env e)) 2) (writable 512) ?w1 =
      Ok ((), set_data 512 d2 ?w1)"
    using save_list_ok [of "PE (reference_env e)" "empty_list (PE (reference_env e)) 2" ?w1 "writable 512"] lists by (auto simp: genesis_data)
  let ?w2 = "set_data 512 d2 ?w1"
  obtain d3 where d3: "save_list (ME (reference_env e)) (empty_list (ME (reference_env e)) 2) (writable 513) ?w2 =
      Ok ((), set_data 513 d3 ?w2)"
    using save_list_ok [of "ME (reference_env e)" "empty_list (ME (reference_env e)) 2" ?w2 "writable 513"] lists by (auto simp: genesis_data)
  let ?w3 = "set_data 513 d3 ?w2"
  have save: "\<exists>w'. save (reference_env e) l (writable 500) ?w3 = Ok ((), w') \<and> borrowed w' = [] \<and>
      length (acc_data (ledger w' 500)) = 466" if "lido_wf l" for l
    using li.length_write [OF that] by (simp add: save_def result_simps serialize_into_def reference_env_def genesis_data LIDO_LEN_def)
  show ?thesis
    by (simp add: d1 d2 d3 save lido_wf_def metrics_new_def lamports_histogram_new_def genesis_token_accounts criteria_default_def
      process_instruction_def process_initialize_def genesis_parsed then_do_def lift_def require_def Let_def example_addresses
       rent acc sizes genesis_rent [OF rent] genesis_data check_account_owner_def owner_of_def genesis_owner check_account_data_zeros LIDO_LEN_def mint)
qed

text \<open>In every ledger that represents a pool with this manager, the manager can change the criteria.\<close>

lemma criteria_accepted:
  assumes "represents (reference_env e) solido_id 500 w s" and "manager (pool_lido s) = 501" and "borrowed w = []"
    and "length (acc_data (ledger w 500)) = 466"
  shows "\<exists>w'. process_instruction (reference_env e) solido_id example_accounts (ChangeCriteria example_criteria) w = Ok ((), w')"
proof -
  let ?E = "reference_env e" and ?l = "(pool_lido s)\<lparr>lido_criteria := example_criteria\<rparr>"
  have lido: "deserialize_lido ?E solido_id (writable 500) w = Ok (pool_lido s, w)"
    using deserialize_represented_eq [OF assms(1), of "writable 500"] assms(3) by simp
  have "lido_wf ?l" using ref.represented_wf [OF assms(1)] by (simp add: lido_wf_def)
  then have "length (lido_bytes ?l) = 466" using li.length_write [of ?l] by (simp add: LIDO_LEN_def)
  then have "\<exists>w'. save ?E ?l (writable 500) w = Ok ((), w')"
    using assms(3,4) by (simp add: save_def result_simps serialize_into_def reference_env_def)
  then show ?thesis
    using lido assms(2)
    by (simp add: process_instruction_def process_change_criteria_def example_parsed then_do_def lift_def
        require_def check_manager_def example_criteria_def Let_def)
qed

lemma genesis_small: "length (acc_data (ledger genesis_world k)) < 2 ^ 64"
  by (simp add: genesis_world_def genesis_length)

end
