(* ===== verification/Effects.thy ===== *)
theory Effects
  imports Examples
begin

text \<open>
  What a deposit and a withdrawal do to the accounts of other programs. The locale \<open>value_flow\<close> extends
  \<open>solana\<close> by the effects of the invoked instructions: a transfer and a split move lamports, minting and
  burning change one token account and the supply of its mint, the others change the shape of one stake
  account only. In the locale the value that goes in is related to the value that comes out; the reference
  environment satisfies the laws.
\<close>

subsection \<open>Effects on a ledger\<close>

definition lamports_at :: "world \<Rightarrow> pubkey \<Rightarrow> nat" where
  "lamports_at w k = unat (acc_lamports (ledger w k))"

text \<open>\<open>n\<close> lamports went from \<open>a\<close> to \<open>b\<close>, and no other balance changed.\<close>

definition moves :: "pubkey \<Rightarrow> pubkey \<Rightarrow> u64 \<Rightarrow> world \<Rightarrow> world \<Rightarrow> bool" where
  "moves a b n w w' \<longleftrightarrow>
     lamports_at w a = lamports_at w' a + unat n \<and> lamports_at w' b = lamports_at w b + unat n \<and>
     (\<forall>k. k \<noteq> a \<longrightarrow> k \<noteq> b \<longrightarrow> lamports_at w' k = lamports_at w k)"

definition same_lamports :: "world \<Rightarrow> world \<Rightarrow> bool" where
  "same_lamports w w' \<longleftrightarrow> (\<forall>k. lamports_at w' k = lamports_at w k)"

text \<open>Only the accounts in \<open>S\<close> may have other data or another owner.\<close>

definition keeps :: "pubkey set \<Rightarrow> world \<Rightarrow> world \<Rightarrow> bool" where
  "keeps S w w' \<longleftrightarrow>
     (\<forall>k. k \<notin> S \<longrightarrow> acc_data (ledger w' k) = acc_data (ledger w k) \<and> acc_owner (ledger w' k) = acc_owner (ledger w k))"

text \<open>The supply of a mint and the amount of a token account change together, by \<open>f\<close> and \<open>g\<close>.\<close>

definition token_change ::
  "lenv \<Rightarrow> (u8 list \<Rightarrow> nat) \<Rightarrow> pubkey \<Rightarrow> pubkey \<Rightarrow> (nat \<Rightarrow> nat \<Rightarrow> bool) \<Rightarrow> world \<Rightarrow> world \<Rightarrow> bool" where
  "token_change E token_amount m a change w w' \<longleftrightarrow>
     (\<exists>mt mt'. unpack_mint E (acc_data (ledger w m)) = Ok mt \<and> unpack_mint E (acc_data (ledger w' m)) = Ok mt' \<and>
        change (unat (mint_supply mt)) (unat (mint_supply mt'))) \<and>
     change (token_amount (acc_data (ledger w a))) (token_amount (acc_data (ledger w' a))) \<and>
     acc_owner (ledger w' m) = acc_owner (ledger w m) \<and> acc_owner (ledger w' a) = acc_owner (ledger w a)"

lemma same_lamports_refl [simp]: "same_lamports w w"
  by (simp add: same_lamports_def)

lemma same_lamports_trans [trans]: "same_lamports w1 w2 \<Longrightarrow> same_lamports w2 w3 \<Longrightarrow> same_lamports w1 w3"
  by (simp add: same_lamports_def)

lemma moves_same [trans]: "moves a b n w1 w2 \<Longrightarrow> same_lamports w2 w3 \<Longrightarrow> moves a b n w1 w3"
  by (simp add: moves_def same_lamports_def)

lemma same_moves [trans]: "same_lamports w1 w2 \<Longrightarrow> moves a b n w2 w3 \<Longrightarrow> moves a b n w1 w3"
  by (simp add: moves_def same_lamports_def)

lemma keeps_refl [simp]: "keeps S w w"
  by (simp add: keeps_def)

lemma keeps_trans [trans]: "keeps S w1 w2 \<Longrightarrow> keeps T w2 w3 \<Longrightarrow> keeps (S \<union> T) w1 w3"
  by (simp add: keeps_def)

lemma keeps_mono: "keeps S w w' \<Longrightarrow> S \<subseteq> T \<Longrightarrow> keeps T w w'"
  by (auto simp: keeps_def)

lemma keepsD: "keeps S w w' \<Longrightarrow> k \<notin> S \<Longrightarrow> acc_data (ledger w' k) = acc_data (ledger w k)"
  "keeps S w w' \<Longrightarrow> k \<notin> S \<Longrightarrow> acc_owner (ledger w' k) = acc_owner (ledger w k)"
  by (simp_all add: keeps_def)

lemma set_data_effect [simp]: "same_lamports w (set_data k d w)" "k \<in> S \<Longrightarrow> keeps S w (set_data k d w)"
  by (auto simp: same_lamports_def keeps_def lamports_at_def set_data_def)

lemma borrowed_effect [simp]:
  "same_lamports (w\<lparr>borrowed := b\<rparr>) w' = same_lamports w w'" "same_lamports w (w'\<lparr>borrowed := b\<rparr>) = same_lamports w w'"
  "keeps S (w\<lparr>borrowed := b\<rparr>) w' = keeps S w w'" "keeps S w (w'\<lparr>borrowed := b\<rparr>) = keeps S w w'"
  "moves x y n (w\<lparr>borrowed := b\<rparr>) w' = moves x y n w w'" "moves x y n w (w'\<lparr>borrowed := b\<rparr>) = moves x y n w w'"
  "token_change E token_amount m a c w (w'\<lparr>borrowed := b\<rparr>) = token_change E token_amount m a c w w'"
  by (simp_all add: same_lamports_def keeps_def lamports_at_def moves_def token_change_def)

lemma parsed_nth:
  "\<lbrakk>info_try_from_slice spec accounts = Ok (accs, multi); i < length (var_accounts spec) + length (const_accounts spec)\<rbrakk> \<Longrightarrow>
   accounts ! i = accs ! i"
  using info_try_from_slice_OkD(1,2) [of spec accounts accs multi] by (simp add: nth_append)

lemma parsed_account_signs:
  "\<lbrakk>info_try_from_slice spec accounts = Ok (accs, multi); i < length (var_accounts spec); fst (snd (var_accounts spec ! i))\<rbrakk> \<Longrightarrow>
   is_signer (accs ! i)"
  using info_try_from_slice_OkD(3) [of spec accounts accs multi i] by (auto simp: var_ok_def split: prod.splits)

lemma token_change_frame:
  assumes "token_change E token_amount m a change w1 w2" and "keeps S w w1" and "keeps T w2 w'"
    and "m \<notin> S \<union> T" and "a \<notin> S \<union> T"
  shows "token_change E token_amount m a change w w'"
  using assms by (simp add: token_change_def keeps_def)

lemma save_effect:
  "save E l a w = Ok (u, w') \<Longrightarrow> same_lamports w w' \<and> keeps {key a} w w'"
  by (auto simp: save_def result_simps)

lemma store_entry_effect:
  "store_entry LE r ref x w = Ok (u, w') \<Longrightarrow>
   same_lamports w w' \<and> keeps {key (lr_account r)} w w' \<and> (\<forall>k. acc_owner (ledger w' k) = acc_owner (ledger w k))"
  by (auto simp: store_entry_def store_view_def store_def result_simps set_data_def keeps_def same_lamports_def lamports_at_def)

subsection \<open>The laws\<close>

locale value_flow = solana E p for E :: lenv and p :: pubkey +
  fixes token_amount :: "u8 list \<Rightarrow> nat"
  assumes not_token_program: "p \<noteq> spl_token_id E" "system_program_id E \<noteq> spl_token_id E" "stake_program_id E \<noteq> spl_token_id E"
      "p \<noteq> system_program_id E"
    and transfer_moves: "\<lbrakk>env_invoke E (SystemTransfer a b n) infos seeds w = Ok w'; a \<noteq> b\<rbrakk> \<Longrightarrow>
      moves a b n w w' \<and> keeps {} w w'"
    and mint_to_mints: "\<lbrakk>mint_to_instruction E t m a auth n = Ok ins; env_invoke E ins infos seeds w = Ok w'\<rbrakk> \<Longrightarrow>
      token_change E token_amount m a (\<lambda>x y. y = x + unat n) w w' \<and> same_lamports w w' \<and> keeps {m, a} w w' \<and>
      acc_owner (ledger w m) = spl_token_id E"
    and burn_burns: "\<lbrakk>burn_instruction E t a m auth n = Ok ins; env_invoke E ins infos seeds w = Ok w'\<rbrakk> \<Longrightarrow>
      token_change E token_amount m a (\<lambda>x y. x = y + unat n) w w' \<and> same_lamports w w' \<and> keeps {m, a} w w' \<and>
      acc_owner (ledger w m) = spl_token_id E"
    and split_list: "split_instructions E src auth n dest =
      [SystemAllocate dest (stake_state_size E), SystemAssign dest (stake_program_id E), StakeSplit src auth n dest]"
    and allocate_shapes: "env_invoke E (SystemAllocate a n) infos seeds w = Ok w' \<Longrightarrow>
      same_lamports w w' \<and> keeps {a} w w' \<and> acc_owner (ledger w a) = system_program_id E"
    and assign_shapes: "env_invoke E (SystemAssign a q) infos seeds w = Ok w' \<Longrightarrow> same_lamports w w' \<and> keeps {a} w w'"
    and split_moves: "env_invoke E (StakeSplit src auth n dest) infos seeds w = Ok w' \<Longrightarrow>
      src \<noteq> dest \<and> moves src dest n w w' \<and> keeps {src, dest} w w' \<and> acc_owner (ledger w src) = stake_program_id E"
    and authorize_shapes: "env_invoke E (StakeAuthorize a auth q kind) infos seeds w = Ok w' \<Longrightarrow>
      same_lamports w w' \<and> keeps {a} w w'"
begin

lemma mint_st_sol_to_effect:
  assumes "mint_st_sol_to E l k prog m auth a n w = Ok (u, w')"
  shows "key m = st_sol_mint l \<and> acc_owner (ledger w (key a)) = spl_token_id E \<and>
    token_change E token_amount (key m) (key a) (\<lambda>x y. y = x + unat (st_lam n)) w w' \<and> same_lamports w w' \<and>
    keeps {key m, key a} w w' \<and> acc_owner (ledger w (key m)) = spl_token_id E"
  using assms by (auto simp: mint_st_sol_to_def result_simps invoke_signed_def
      dest!: check_is_st_sol_account_OkD dest: mint_to_mints)

lemma process_deposit_effect:
  assumes rep: "represents E p (key (accounts ! 0)) w s"
    and ok: "process_deposit E p amount accounts w = Ok (u, w')"
    and payer: "key (accounts ! 1) \<noteq> key (accounts ! 4)"
  shows "\<exists>n. exchange_sol (exchange_rate (pool_lido s)) amount = Ok n \<and>
    is_signer (accounts ! 1) \<and>
    get_reserve_account E (pool_lido s) p (key (accounts ! 0)) = Ok (key (accounts ! 4)) \<and>
    key (accounts ! 3) = st_sol_mint (pool_lido s) \<and>
    moves (key (accounts ! 1)) (key (accounts ! 4)) (lam amount) w w' \<and>
    token_change E token_amount (key (accounts ! 3)) (key (accounts ! 2)) (\<lambda>x y. y = x + unat (st_lam n)) w w' \<and>
    keeps {key (accounts ! 0), key (accounts ! 2), key (accounts ! 3)} w w'"
proof -
  let ?l = "pool_lido s" and ?k = "key (accounts ! 0)"
  obtain accs multi where accs: "info_try_from_slice (deposit_accounts E) accounts = Ok (accs, multi)"
    by (rule parsedE [OF ok [unfolded process_deposit_def]])
  have head: "key (accs ! 0) = ?k" using parsed_head [OF accs] by (simp add: deposit_accounts_def)
  have nth: "accounts ! i = accs ! i" if "i < 8" for i
    using parsed_nth [OF accs] that by (simp add: deposit_accounts_def)
  have sgn: "is_signer (accs ! 1)" using parsed_account_signs [OF accs, of 1] by (simp add: deposit_accounts_def)
  obtain w1 w2 n h l' where reserve: "get_reserve_account E ?l p (key (accs ! 0)) = Ok (key (accs ! 4))"
    and t: "env_invoke E (SystemTransfer (key (accs ! 1)) (key (accs ! 4)) (lam amount)) [accs ! 1, accs ! 4, accs ! 7] [] w = Ok w1"
    and n: "exchange_sol (exchange_rate ?l) amount = Ok n"
    and m: "mint_st_sol_to E ?l (key (accs ! 0)) (accs ! 6) (accs ! 3) (accs ! 5) (accs ! 2) n w1 = Ok ((), w2)"
    and save: "save E l' (accs ! 0) w2 = Ok ((), w')"
    using ok accs
    by (auto simp: process_deposit_def result_simps Let_def deserialize_represented_eq [OF rep head] invoke_def invoke_signed_def
        simp del: deserialize_lido_eq_Ok)
  have t': "moves (key (accs ! 1)) (key (accs ! 4)) (lam amount) w w1" "keeps {} w w1"
    using transfer_moves [OF t] payer by (simp_all add: nth)
  note m' = mint_st_sol_to_effect [OF m] and s' = save_effect [OF save]
  have owner: "acc_owner (ledger w1 ?k) = p"
    using rep invoke_frame [OF t] by (auto simp: represents_def own_frame_def)
  then have "?k \<noteq> key (accs ! 2)" "?k \<noteq> key (accs ! 3)" using m' not_token_program by auto
  then have "token_change E token_amount (key (accs ! 3)) (key (accs ! 2)) (\<lambda>x y. y = x + unat (st_lam n)) w w'"
    using token_change_frame [OF _ t'(2)] m' s' head by auto
  moreover have "keeps ({} \<union> {key (accs ! 3), key (accs ! 2)} \<union> {?k}) w w'"
    using t'(2) m' s' head by (metis keeps_trans)
  then have "keeps {?k, key (accs ! 2), key (accs ! 3)} w w'" by (rule keeps_mono) auto
  moreover have "moves (key (accs ! 1)) (key (accs ! 4)) (lam amount) w w'"
    using moves_same [OF moves_same [OF t'(1)]] m' s' by blast
  ultimately show ?thesis using n m' sgn reserve by (auto simp: nth)
qed

lemma burn_st_sol_effect:
  assumes "burn_st_sol E l owner a m prog n w = Ok (u, w')"
  shows "key m = st_sol_mint l \<and> acc_owner (ledger w (key a)) = spl_token_id E \<and>
    token_change E token_amount (key m) (key a) (\<lambda>x y. x = y + unat (st_lam n)) w w' \<and> same_lamports w w' \<and>
    keeps {key m, key a} w w' \<and> acc_owner (ledger w (key m)) = spl_token_id E \<and>
    (\<exists>t. unpack_token_account E (acc_data (ledger w (key a))) = Ok t \<and> token_owner t = key owner)"
  using assms by (auto simp: burn_st_sol_def result_simps invoke_def invoke_signed_def
      dest!: check_is_st_sol_account_OkD dest: burn_burns)

lemma split_stake_account_effect:
  assumes "split_stake_account E k l src dest auth sys prog amount seeds w = Ok (u, w')"
  shows "moves (key src) (key dest) (lam amount) w w' \<and> keeps {key src, key dest} w w' \<and>
    acc_owner (ledger w (key src)) = stake_program_id E \<and> acc_owner (ledger w (key dest)) = system_program_id E"
proof -
  obtain w1 w2 where "env_invoke E (SystemAllocate (key dest) (stake_state_size E)) [dest, sys] seeds w = Ok w1"
    "env_invoke E (SystemAssign (key dest) (stake_program_id E)) [dest, sys] seeds w1 = Ok w2"
    "env_invoke E (StakeSplit (key src) (key auth) (lam amount) (key dest)) [src, dest, auth, prog]
       [[pubkey_bytes k, STAKE_AUTHORITY, [stake_authority_bump_seed l]]] w2 = Ok w'"
    using assms(1) by (auto simp: split_stake_account_def result_simps invoke_signed_def split_list Let_def)
  then have steps: "same_lamports w w1" "keeps {key dest} w w1" "acc_owner (ledger w (key dest)) = system_program_id E"
    "same_lamports w1 w2" "keeps {key dest} w1 w2" "key src \<noteq> key dest" "moves (key src) (key dest) (lam amount) w2 w'"
    "keeps {key src, key dest} w2 w'" "acc_owner (ledger w2 (key src)) = stake_program_id E"
    using allocate_shapes assign_shapes split_moves by blast+
  have "moves (key src) (key dest) (lam amount) w w'" using steps by (meson same_moves)
  moreover have "keeps ({key dest} \<union> {key dest} \<union> {key src, key dest}) w w'" using steps by (meson keeps_trans)
  then have "keeps {key src, key dest} w w'" by (rule keeps_mono) auto
  moreover have "acc_owner (ledger w (key src)) = stake_program_id E" using steps by (simp add: keeps_def)
  ultimately show ?thesis using steps by blast
qed

lemma transfer_stake_authority_effect:
  "transfer_stake_authority E lido_info owner dest auth clk prog bump w = Ok (u, w') \<Longrightarrow>
   same_lamports w w' \<and> keeps {key dest} w w'"
  by (auto simp: transfer_stake_authority_def result_simps invoke_signed_def Let_def dest!: authorize_shapes
      intro: same_lamports_trans dest: keeps_trans)

lemma process_withdraw_effect:
  assumes rep: "represents E p (key (accounts ! 0)) w s"
    and ok: "process_withdraw E p amount i accounts w = Ok (u, w')"
  shows "\<exists>n v. exchange_st_sol (exchange_rate (pool_lido s)) amount = Ok n \<and>
    validator_at s i v \<and> vote_account_address v = key (accounts ! 4) \<and>
    fst (find_stake_account_address (find_program_address E) v p (key (accounts ! 0)) (seed_begin (stake_seeds v)) Stake) =
      key (accounts ! 5) \<and>
    is_signer (accounts ! 1) \<and>
    (\<exists>t. unpack_token_account E (acc_data (ledger w (key (accounts ! 2)))) = Ok t \<and> token_owner t = key (accounts ! 1)) \<and>
    key (accounts ! 3) = st_sol_mint (pool_lido s) \<and>
    moves (key (accounts ! 5)) (key (accounts ! 6)) (lam n) w w' \<and>
    token_change E token_amount (key (accounts ! 3)) (key (accounts ! 2)) (\<lambda>x y. x = y + unat (st_lam amount)) w w' \<and>
    keeps {key (accounts ! 0), key (accounts ! 2), key (accounts ! 3), key (accounts ! 5), key (accounts ! 6), key (accounts ! 8)} w w' \<and>
    (\<exists>bump w3 w4. transfer_stake_authority E (accounts ! 0) (accounts ! 1) (accounts ! 6) (accounts ! 7) (accounts ! 10)
        (accounts ! 12) bump w3 = Ok ((), w4) \<and> acc_data (ledger w' (key (accounts ! 6))) = acc_data (ledger w4 (key (accounts ! 6))))"
proof -
  let ?l = "pool_lido s" and ?k = "key (accounts ! 0)"
  obtain accs multi where accs: "info_try_from_slice (withdraw_accounts E) accounts = Ok (accs, multi)"
    by (rule parsedE [OF ok [unfolded process_withdraw_def]])
  have head: "key (accs ! 0) = ?k" using parsed_head [OF accs] by (simp add: withdraw_accounts_def)
  have nth: "accounts ! i = accs ! i" if "i < 13" for i
    using parsed_nth [OF accs] that by (simp add: withdraw_accounts_def)
  have sgn: "is_signer (accs ! 1)" using parsed_account_signs [OF accs, of 1] by (simp add: withdraw_accounts_def)
  obtain r ref v v' n l' w1 w2 w3 w4 w5 where
      r: "list_opened (VE E) ?l p (accs ! 8) (acc_data (ledger w (key (accs ! 8)))) (ledger w) r"
    and get: "bvh_get_mut (VE E) (lr_view r) i (key (accs ! 4)) = Ok (ref, v)"
    and source: "fst (find_stake_account_address (find_program_address E) v p (key (accs ! 0)) (seed_begin (stake_seeds v))
      stake_type.Stake) = key (accs ! 5)"
    and n: "exchange_st_sol (exchange_rate ?l) amount = Ok n"
    and store: "store_entry (VE E) r ref v' (w\<lparr>borrowed := key (accs ! 8) # borrowed w\<rparr>) = Ok ((), w1)"
    and burn: "burn_st_sol E ?l (accs ! 1) (accs ! 2) (accs ! 3) (accs ! 9) amount w1 = Ok ((), w2)"
    and spl: "split_stake_account E (key (accs ! 0)) l' (accs ! 5) (accs ! 6) (accs ! 7) (accs ! 11) (accs ! 12) n [] w2 = Ok ((), w3)"
    and tr: "transfer_stake_authority E (accs ! 0) (accs ! 1) (accs ! 6) (accs ! 7) (accs ! 10) (accs ! 12) (stake_authority_bump_seed l') w3 = Ok ((), w4)"
    and save: "save E l' (accs ! 0) w4 = Ok ((), w5)"
    and w': "w' = w5\<lparr>borrowed := borrowed w\<rparr>"
    using ok accs
    by (auto simp: process_withdraw_def result_simps Let_def list_opened_eq_Ok
        deserialize_represented_eq [OF rep head] case_prod_beta
        simp del: deserialize_lido_eq_Ok deserialize_account_list_info_eq_Ok)
  note store' = store_entry_effect [OF store] and burn' = burn_st_sol_effect [OF burn]
    and spl' = split_stake_account_effect [OF spl] and tr' = transfer_stake_authority_effect [OF tr] and save' = save_effect [OF save]
  have list: "key (lr_account r) = key (accs ! 8)" "acc_owner (ledger w1 (key (accs ! 8))) = p"
    using r store' by (auto simp: list_opened_def)
  have k: "acc_owner (ledger w1 ?k) = p" using rep store' by (simp add: represents_def)
  let ?m = "key (accs ! 3)" and ?a = "key (accs ! 2)" and ?S = "{key (accs ! 8)}" and ?T = "{key (accs ! 5), key (accs ! 6), ?k}"
  have before: "same_lamports w w1" "keeps ?S w w1" using store' list(1) by simp_all
  have "keeps ({key (accs ! 5), key (accs ! 6)} \<union> {key (accs ! 6)} \<union> {key (accs ! 0)}) w2 w5"
    using spl' tr' save' by (meson keeps_trans)
  then have after: "keeps ?T w2 w5" unfolding head by (rule keeps_mono) auto
  have token_owners: "acc_owner (ledger w2 ?m) = acc_owner (ledger w1 ?m)" "acc_owner (ledger w2 ?a) = acc_owner (ledger w1 ?a)"
    using burn' unfolding token_change_def by blast+
  then have owners: "acc_owner (ledger w2 ?m) = spl_token_id E" "acc_owner (ledger w2 ?a) = spl_token_id E"
    using burn' by metis+
  then have outside: "?m \<notin> ?S \<union> ?T" "?a \<notin> ?S \<union> ?T"
    using burn' spl' list k not_token_program by auto
  have tokens: "token_change E token_amount ?m ?a (\<lambda>x y. x = y + unat (st_lam amount)) w w5"
    using token_change_frame [OF _ before(2) after outside] burn' by blast
  have "moves (key (accs ! 5)) (key (accs ! 6)) (lam n) w1 w5"
    using burn' spl' tr' save' by (meson same_moves moves_same)
  then have lamports: "moves (key (accs ! 5)) (key (accs ! 6)) (lam n) w w5" using before(1) by (rule same_moves [rotated])
  have "keeps (?S \<union> {?m, ?a} \<union> ?T) w w5" using before(2) burn' after by (meson keeps_trans)
  then have data: "keeps {?k, ?a, ?m, key (accs ! 5), key (accs ! 6), key (accs ! 8)} w w5" by (rule keeps_mono) auto
  have mint: "?m = st_sol_mint ?l" using burn' by blast
  have v: "validator_at s i v" "vote_account_address v = key (accs ! 4)"
    using get_mut_entry [OF borrow_validators [OF rep r] get] by (simp_all add: entry_ref_def)
  have "acc_data (ledger w1 ?a) = acc_data (ledger w ?a)" using keepsD(1) [OF before(2)] outside(2) by simp
  then have owner: "\<exists>t. unpack_token_account E (acc_data (ledger w ?a)) = Ok t \<and> token_owner t = key (accs ! 1)"
    using burn' by simp
  have "key (accs ! 6) \<noteq> ?k"
  proof
    assume "key (accs ! 6) = ?k"
    moreover have "acc_owner (ledger w2 ?k) = p" using k burn' outside by (auto simp: keeps_def token_change_def)
    ultimately show False using spl' not_token_program(4) by simp
  qed
  then have dest: "acc_data (ledger w5 (key (accs ! 6))) = acc_data (ledger w4 (key (accs ! 6)))"
    using keepsD(1) save' head by auto
  show ?thesis
    using n v source owner sgn mint tokens lamports data tr dest unfolding w'
    by (intro exI [of _ n] exI [of _ v]) (auto simp: nth)
qed

end

text \<open>The laws of the stake program on balances and authorities, where \<open>authority kind d\<close> reads the authority
  of a kind from the data of a stake account.\<close>

locale stake_flow = value_flow E p token_amount for E :: lenv and p :: pubkey and token_amount :: "u8 list \<Rightarrow> nat" +
  fixes authority :: "stake_authorize \<Rightarrow> u8 list \<Rightarrow> pubkey"
  assumes authorize_sets: "env_invoke E (StakeAuthorize a auth q kind) infos seeds w = Ok w' \<Longrightarrow>
      authority kind (acc_data (ledger w' a)) = q \<and>
      (\<forall>kind'. kind' \<noteq> kind \<longrightarrow> authority kind' (acc_data (ledger w' a)) = authority kind' (acc_data (ledger w a)))"
    and withdraw_moves: "\<lbrakk>env_invoke E (StakeWithdraw n a b auth) infos seeds w = Ok w'; a \<noteq> b\<rbrakk> \<Longrightarrow> moves a b n w w'"
begin

lemma transfer_stake_authority_sets:
  assumes "transfer_stake_authority E lido_info owner dest auth clk prog bump w = Ok (u, w')"
  shows "authority kind (acc_data (ledger w' (key dest))) = key owner"
proof -
  obtain w1 seeds infos where "env_invoke E (StakeAuthorize (key dest) (key auth) (key owner) Withdrawer) infos seeds w = Ok w1"
    "env_invoke E (StakeAuthorize (key dest) (key auth) (key owner) Staker) infos seeds w1 = Ok w'"
    using assms by (auto simp: transfer_stake_authority_def result_simps invoke_signed_def Let_def)
  then show ?thesis using authorize_sets by (cases kind) fastforce+
qed

end

subsection \<open>The reference environment\<close>

definition ref_token_amount :: "u8 list \<Rightarrow> nat" where
  "ref_token_amount d = unat (u64_at 64 d)"

lemma ref_move_effect:
  assumes "ref_move a b n w = Ok w'" and "a \<noteq> b"
  shows "moves a b n w w' \<and> keeps S w w'"
proof -
  have "unat n \<le> unat (acc_lamports (ledger w a))" "unat (acc_lamports (ledger w b)) + unat n < 2 ^ 64"
    using assms by (auto simp: ref_move_def word_less_nat_alt split: if_splits)
  then have "unat (acc_lamports (ledger w a) - n) = unat (acc_lamports (ledger w a)) - unat n"
    "unat (acc_lamports (ledger w b) + n) = unat (acc_lamports (ledger w b)) + unat n"
    by (simp_all add: unat_sub word_le_nat_alt unat_add_lem [THEN iffD1])
  moreover have "w' = w\<lparr>ledger := (ledger w)(a := (ledger w a)\<lparr>acc_lamports := acc_lamports (ledger w a) - n\<rparr>,
      b := (ledger w b)\<lparr>acc_lamports := acc_lamports (ledger w b) + n\<rparr>)\<rparr>"
    using assms by (auto simp: ref_move_def Let_def split: if_splits)
  ultimately show ?thesis
    using assms(2) \<open>unat n \<le> _\<close> by (auto simp: moves_def keeps_def lamports_at_def)
qed

lemma u64_at_write [simp]: "i + 8 \<le> length d \<Longrightarrow> u64_at i (write_at i (u64_bytes n) d) = n"
  by (simp add: u64_at_def)

lemma ref_token_update_effect:
  assumes "ref_token_update m a f w = Ok w'" and "\<And>x y. f x = Some y \<Longrightarrow> change (unat x) (unat y)"
  shows "token_change (reference_env e) ref_token_amount m a change w w' \<and> same_lamports w w' \<and> keeps {m, a} w w' \<and>
    acc_owner (ledger w m) = spl_token_id (reference_env e)"
proof -
  obtain s n where ok: "acc_owner (ledger w m) = ref_token" "length (acc_data (ledger w m)) = 82"
      "length (acc_data (ledger w a)) = 165"
    and new: "f (u64_at 36 (acc_data (ledger w m))) = Some s" "f (u64_at 64 (acc_data (ledger w a))) = Some n"
    and w': "w' = set_data a (write_at 64 (u64_bytes n) (acc_data (ledger w a)))
      (set_data m (write_at 36 (u64_bytes s) (acc_data (ledger w m))) w)"
    using assms(1) by (auto simp: ref_token_update_def Let_def split: if_splits option.splits)
  have "m \<noteq> a" using ok by auto
  then show ?thesis
    using ok new assms(2)
    by (auto simp: w' token_change_def reference_env_def ref_unpack_mint_def ref_token_amount_def same_lamports_def keeps_def
        lamports_at_def set_data_def)
qed

lemma value_flow_reference: "value_flow (reference_env e) solido_id ref_token_amount"
proof (intro value_flow.intro value_flow_axioms.intro solana_reference)
  fix t m a auth n ins infos seeds w w'
  show "token_change (reference_env e) ref_token_amount m a (\<lambda>x y. y = x + unat n) w w' \<and> same_lamports w w' \<and> keeps {m, a} w w' \<and>
      acc_owner (ledger w m) = spl_token_id (reference_env e)"
    if "mint_to_instruction (reference_env e) t m a auth n = Ok ins" "env_invoke (reference_env e) ins infos seeds w = Ok w'"
    using that by (intro ref_token_update_effect [where f = "\<lambda>x. checked_add x n"]) (auto simp: reference_env_def checked_add_eq_Some)
  show "token_change (reference_env e) ref_token_amount m a (\<lambda>x y. x = y + unat n) w w' \<and> same_lamports w w' \<and> keeps {m, a} w w' \<and>
      acc_owner (ledger w m) = spl_token_id (reference_env e)"
    if "burn_instruction (reference_env e) t a m auth n = Ok ins" "env_invoke (reference_env e) ins infos seeds w = Ok w'"
    using that by (intro ref_token_update_effect [where f = "\<lambda>x. checked_sub x n"]) (auto simp: reference_env_def checked_sub_eq_Some)
qed (auto simp: reference_env_def ref_system_def ref_token_def ref_stake_def solido_id_def split: if_splits
    dest: ref_move_effect, auto simp: same_lamports_def keeps_def lamports_at_def Let_def set_data_def split: if_splits)

lemma pubkey_at_write:
  assumes "i + 32 \<le> length d"
  shows "pubkey_at i (write_at i (pubkey_bytes q) d) = q"
    and "i + 32 \<le> j \<Longrightarrow> pubkey_at j (write_at i (pubkey_bytes q) d) = pubkey_at j d"
    and "j + 32 \<le> i \<Longrightarrow> pubkey_at j (write_at i (pubkey_bytes q) d) = pubkey_at j d"
proof -
  show "pubkey_at i (write_at i (pubkey_bytes q) d) = q"
    and "i + 32 \<le> j \<Longrightarrow> pubkey_at j (write_at i (pubkey_bytes q) d) = pubkey_at j d"
    using assms by (simp_all add: pubkey_at_def write_at_def)
  assume j: "j + 32 \<le> i"
  then have "take 32 (drop j (take i d)) = take 32 (drop j d)" by (simp add: drop_take)
  then show "pubkey_at j (write_at i (pubkey_bytes q) d) = pubkey_at j d"
    using assms j by (simp add: pubkey_at_def write_at_def)
qed

lemma stake_flow_reference: "stake_flow (reference_env e) solido_id ref_token_amount ref_authority"
proof (intro stake_flow.intro stake_flow_axioms.intro value_flow_reference)
  fix a auth q kind infos seeds w w'
  assume "env_invoke (reference_env e) (StakeAuthorize a auth q kind) infos seeds w = Ok w'"
  then have len: "76 \<le> length (acc_data (ledger w a))"
    and w': "w' = set_data a (write_at (ref_authority_at kind) (pubkey_bytes q) (acc_data (ledger w a))) w"
    by (auto simp: reference_env_def Let_def split: if_splits)
  have "ref_authority kind' (acc_data (ledger w' a)) =
      (if kind' = kind then q else ref_authority kind' (acc_data (ledger w a)))" for kind'
    using len by (cases kind; cases kind') (simp_all add: w' ref_authority_def set_data_def pubkey_at_write)
  then show "ref_authority kind (acc_data (ledger w' a)) = q \<and>
      (\<forall>kind'. kind' \<noteq> kind \<longrightarrow> ref_authority kind' (acc_data (ledger w' a)) = ref_authority kind' (acc_data (ledger w a)))"
    by simp
next
  show "moves a b n w w'" if "env_invoke (reference_env e) (StakeWithdraw n a b auth) infos seeds w = Ok w'" "a \<noteq> b"
    for n a b auth infos seeds w w'
    using that ref_move_effect [of a b n w w'] by (simp add: reference_env_def)
qed

interpretation refs: stake_flow "reference_env e" solido_id ref_token_amount ref_authority for e
  by (rule stake_flow_reference)

interpretation refv: value_flow "reference_env e" solido_id ref_token_amount for e
  by (rule value_flow_reference)

end
