(* ===== verification/ValueFlow.thy ===== *)
theory ValueFlow
  imports Effects
begin

text \<open>
  Deposits and withdrawals from end to end: how many lamports and tokens change hands when the program accepts the
  instruction, with an accepted deposit and an accepted withdrawal in the reference environment.
\<close>

subsection \<open>An accepted deposit\<close>

text \<open>The example pool with a mint without supply and an empty token account. A user deposits one SOL.\<close>

definition token_world :: world where
  "token_world = example_world\<lparr>ledger := (ledger example_world)
     (502 := \<lparr>acc_lamports = 10000000, acc_owner = ref_token, acc_data = genesis_mint\<rparr>,
      505 := \<lparr>acc_lamports = 10000000, acc_owner = ref_token, acc_data = genesis_token\<rparr>)\<rparr>"

lemma token_world_account:
  "ledger token_world 502 = \<lparr>acc_lamports = 10000000, acc_owner = ref_token, acc_data = genesis_mint\<rparr>"
  "ledger token_world 505 = \<lparr>acc_lamports = 10000000, acc_owner = ref_token, acc_data = genesis_token\<rparr>"
  "k \<notin> {500, 502, 505, 511, 512, 513} \<Longrightarrow>
     ledger token_world k = \<lparr>acc_lamports = 5000000000, acc_owner = ref_system, acc_data = []\<rparr>"
  "borrowed token_world = []"
  by (simp_all add: token_world_def example_world_def)

lemma token_world_represents: "represents (reference_env e) solido_id 500 token_world example_pool"
  by (rule represents_frame [OF example_represents])
    (simp add: own_frame_def token_world_def example_world_def solido_id_def ref_system_def)

definition deposit_infos :: "account_info list" where
  "deposit_infos = [writable 500, signer 506, writable 505, writable 502, writable 3108, readonly 3036, readonly 1, readonly 0]"

lemma deposit_parsed: "info_try_from_slice (deposit_accounts (reference_env e)) deposit_infos = Ok (deposit_infos, [])"
  by (simp add: info_try_from_slice_def deposit_accounts_def deposit_infos_def reference_env_def ref_token_def ref_system_def)

lemma example_reserve: "create_program_address (reference_env e) [pubkey_bytes 500, RESERVE_ACCOUNT, [255]] solido_id = Some 3108"
  by (simp add: pubkey_bytes_500 reference_env_def ref_hash_def solido_id_def sum_list_replicate bytes_of_seeds)

lemma deposit_exchange: "exchange_sol (exchange_rate example_lido) (Lamports 1000000000) = Ok (StLamports 900000000)"
  by (simp add: example_lido_def exchange_sol_def lamports_mul_rational_def token_mul_rational_def checked_div_def ok_or_def)

lemma mint_supply_0: "u64_at 36 genesis_mint = 0" "u64_at 64 genesis_token = 0" "pubkey_at 0 genesis_token = 502"
  using genesis_checks by (simp_all add: ref_unpack_mint_def ref_unpack_token_account_def genesis_length)

lemma deposit_observed: "\<exists>h. histogram_observe (deposit_amount (lido_metrics example_lido)) (Lamports 1000000000) = Ok h"
  by (simp add: example_lido_def metrics_new_def lamports_histogram_new_def histogram_observe_def lamports_add_def token_add_def checked_add_def ok_or_def)

lemma deposit_ok:
  "\<exists>w'. process_instruction (reference_env 3) solido_id deposit_infos (Deposit (Lamports 1000000000)) token_world = Ok ((), w')"
proof -
  let ?E = "reference_env 3"
  have lido: "deserialize_lido ?E solido_id (writable 500) token_world = Ok (example_lido, token_world)"
    using deserialize_represented_eq [OF token_world_represents, of "writable 500"] by (simp add: token_world_account example_pool_def)
  have reserve: "check_reserve_account ?E example_lido solido_id 500 (writable 3108) token_world = Ok (3108, token_world)"
    using example_reserve [of 3] by (simp add: result_simps get_reserve_account_def example_lido_def)
  obtain w1 where w1: "invoke ?E (SystemTransfer 506 3108 1000000000) [signer 506, writable 3108, readonly 0] token_world = Ok ((), w1)"
    "ledger w1 502 = ledger token_world 502" "ledger w1 505 = ledger token_world 505" "borrowed w1 = []"
    "own_frame solido_id token_world w1"
  proof -
    have "\<exists>w1. ref_move 506 3108 1000000000 token_world = Ok w1"
      by (simp add: ref_move_def token_world_account)
    then obtain w1 where w1: "ref_move 506 3108 1000000000 token_world = Ok w1" by blast
    then have "ledger w1 502 = ledger token_world 502" "ledger w1 505 = ledger token_world 505" "borrowed w1 = []"
      by (auto simp: ref_move_def token_world_account Let_def split: if_splits)
    then show thesis
      using that [of w1] w1 ref_move_frame [OF w1] by (simp add: invoke_def invoke_signed_def reference_env_def token_world_account)
  qed
  obtain w2 where w2: "mint_st_sol_to ?E example_lido 500 (readonly 1) (writable 502) (readonly 3036) (writable 505) (StLamports 900000000) w1 = Ok ((), w2)"
    "borrowed w2 = []" "own_frame solido_id w1 w2"
  proof -
    have "\<exists>w2. ref_token_update 502 505 (\<lambda>x. checked_add x 900000000) w1 = Ok w2 \<and> borrowed w2 = []"
      using w1 by (simp add: ref_token_update_def token_world_account genesis_length mint_supply_0 checked_add_def set_data_def)
    then obtain w2 where w2: "ref_token_update 502 505 (\<lambda>x. checked_add x 900000000) w1 = Ok w2" "borrowed w2 = []" by blast
    have "check_is_st_sol_account ?E example_lido (writable 505) w1 = Ok ((), w1)"
      using w1 by (simp add: check_is_st_sol_account_def owner_of_def then_do_def data_borrow_def require_def lift_def
          reference_env_def token_world_account genesis_checks example_lido_def)
    moreover have "check_mint_is_st_sol_mint example_lido (writable 502) w1 = Ok ((), w1)"
      by (simp add: check_mint_is_st_sol_mint_def require_def example_lido_def)
    ultimately show thesis
      using that [OF _ w2(2)] w2(1) ref_token_update_frame [OF w2(1), of solido_id]
      by (simp add: mint_st_sol_to_def then_do_def lift_def invoke_signed_def solido_id_def ref_token_def reference_env_def)
  qed
  obtain h where h: "histogram_observe (deposit_amount (lido_metrics example_lido)) (Lamports 1000000000) = Ok h"
    using deposit_observed by blast
  have "\<exists>w3. save ?E (example_lido\<lparr>lido_metrics := (lido_metrics example_lido)\<lparr>deposit_amount := h\<rparr>\<rparr>) (writable 500) w2 = Ok ((), w3)"
  proof -
    let ?l = "example_lido\<lparr>lido_metrics := (lido_metrics example_lido)\<lparr>deposit_amount := h\<rparr>\<rparr>"
    have "lido_wf ?l" using histogram_observe_wf [OF example_wf h] by simp
    then have "length (lido_bytes ?l) = 466" using li.length_write [of ?l] by (simp add: LIDO_LEN_def)
    moreover have "acc_data (ledger w2 500) = lido_bytes example_lido"
      using w1(5) w2(3) by (simp add: own_frame_def token_world_def example_world_def)
    moreover have "length (lido_bytes example_lido) = 466" using li.length_write [OF example_wf] by (simp add: LIDO_LEN_def)
    ultimately show ?thesis using w2(2) by (simp add: save_def result_simps serialize_into_def reference_env_def)
  qed
  then show ?thesis
    using w1(1) w2(1) h deposit_exchange
    by (auto simp: process_instruction_def process_deposit_def deposit_parsed then_do_def lift_def require_def Let_def)
      (simp add: deposit_infos_def lido reserve)
qed


subsection \<open>An accepted withdrawal\<close>

text \<open>All stSOL is in one account, whose owner burns it for one SOL from the stake account of the only validator.\<close>

definition withdraw_world :: world where
  "withdraw_world = example_world\<lparr>ledger := (ledger example_world)
     (502 := \<lparr>acc_lamports = 10000000, acc_owner = ref_token,
        acc_data = u32_bytes 1 @ pubkey_bytes 3036 @ u64_bytes 900000000 @ [9, 1] @ replicate 36 0\<rparr>,
      505 := \<lparr>acc_lamports = 10000000, acc_owner = ref_token,
        acc_data = pubkey_bytes 502 @ pubkey_bytes 508 @ u64_bytes 900000000 @ replicate 93 0\<rparr>,
      3952 := \<lparr>acc_lamports = 10000000000, acc_owner = ref_stake, acc_data = []\<rparr>)\<rparr>"

lemma withdraw_world_represents: "represents (reference_env e) solido_id 500 withdraw_world example_pool"
  by (rule represents_frame [OF example_represents])
    (simp add: own_frame_def withdraw_world_def example_world_def solido_id_def ref_system_def)

lemma withdraw_source:
  "find_stake_account_address (find_program_address (reference_env e)) example_validator solido_id 500
     (seed_begin (stake_seeds example_validator)) stake_type.Stake = (3952, 255)"
    by (simp add: find_stake_account_address_def find_stake_account_address_with_authority_def reference_env_def ref_hash_def
     example_validator_def VALIDATOR_STAKE_ACCOUNT_def bytes_of_string_def pubkey_bytes_500 solido_id_def validator_new_def sum_list_replicate
     pubkey_bytes_def le_bytes_numeral le_bytes_0 u64_bytes_def)

definition withdraw_infos :: "account_info list" where
  "withdraw_infos = [writable 500, signer 508, writable 505, writable 502, readonly 521, writable 3952, signer 507, readonly 3132,
     writable 511, readonly 1, readonly 6, readonly 0, readonly 2]"

lemma withdraw_parsed: "info_try_from_slice (withdraw_accounts (reference_env e)) withdraw_infos = Ok (withdraw_infos, [])"
  by (simp add: info_try_from_slice_def withdraw_accounts_def withdraw_infos_def reference_env_def ref_token_def ref_system_def ref_stake_def)

lemma withdraw_world_account:
  "k \<notin> {500, 502, 505, 3952, 511, 512, 513} \<Longrightarrow>
     ledger withdraw_world k = \<lparr>acc_lamports = 5000000000, acc_owner = ref_system, acc_data = []\<rparr>"
  "ledger withdraw_world 3952 = \<lparr>acc_lamports = 10000000000, acc_owner = ref_stake, acc_data = []\<rparr>"
  "acc_owner (ledger withdraw_world 502) = ref_token" "acc_owner (ledger withdraw_world 505) = ref_token"
  "borrowed withdraw_world = []"
  by (simp_all add: withdraw_world_def example_world_def)

lemma withdraw_world_tokens:
  "length (acc_data (ledger withdraw_world 502)) = 82" "length (acc_data (ledger withdraw_world 505)) = 165"
  "u64_at 36 (acc_data (ledger withdraw_world 502)) = 900000000" "u64_at 64 (acc_data (ledger withdraw_world 505)) = 900000000"
  "pubkey_at 0 (acc_data (ledger withdraw_world 505)) = 502" "pubkey_at 32 (acc_data (ledger withdraw_world 505)) = 508"
  by (simp_all add: withdraw_world_def u64_at_def pubkey_at_def)

lemma withdraw_exchange: "exchange_st_sol (exchange_rate example_lido) (StLamports 900000000) = Ok (Lamports 1000000000)"
  by (simp add: example_lido_def exchange_st_sol_def st_lamports_mul_rational_def token_mul_rational_def checked_div_def ok_or_def)

lemma withdraw_amounts:
  "lamports_mul_rational (Lamports 10000000000) \<lparr>numerator = 1, denominator = 10\<rparr> = Ok (Lamports 1000000000)"
  "lamports_add (Lamports 1000000000) (Lamports (10 * LAMPORTS_PER_SOL)) = Ok (Lamports 11000000000)"
  "lamports_sub (Lamports 10000000000) (Lamports 1000000000) = Ok (Lamports 9000000000)"
  by (simp_all add: lamports_mul_rational_def token_mul_rational_def checked_div_def ok_or_def lamports_add_def token_add_def
      lamports_sub_def token_sub_def checked_add_def checked_sub_def LAMPORTS_PER_SOL_def)

lemma withdraw_validator:
  "stake_accounts_balance example_validator = Lamports 10000000000" "unstake_accounts_balance example_validator = Lamports 0"
  "effective_stake_balance example_validator = Lamports 10000000000" "vote_account_address example_validator = 521"
  by (simp_all add: example_validator_def validator_new_def validator_default_def)

lemma withdraw_observed: "\<exists>m. observe_withdrawal (lido_metrics example_lido) (StLamports 900000000) (Lamports 1000000000) = Ok m"
  by (simp add: example_lido_def metrics_new_def observe_withdrawal_def withdraw_metric_observe_def withdraw_metric_default_def
     lamports_add_def st_lamports_add_def token_add_def checked_add_def ok_or_def)

lemma example_opened:
  assumes "represents (reference_env 3) solido_id 500 W example_pool"
  obtains r where "deserialize_account_list_info (VE (reference_env 3)) example_lido solido_id (writable 511)
      (acc_data (ledger W 511)) (W\<lparr>borrowed := [511]\<rparr>) = Ok (r, W\<lparr>borrowed := [511]\<rparr>)"
    "lr_account r = writable 511" "bvh_iter (VE (reference_env 3)) (lr_view r) = Ok [example_validator]"
    "bvh_get_mut (VE (reference_env 3)) (lr_view r) 0 521 = Ok (4, example_validator)"
proof -
  have E: "VE (reference_env 3) = validator_entry" by (simp add: reference_env_def)
  obtain h where h: "list_repr validator_entry (acc_data (ledger W 511)) h [example_validator]"
    using assms by (auto simp: represents_def holds_list_def example_pool_def example_lido_def E)
  then obtain vec where vec: "deserialize_vec validator_entry (acc_data (ledger W 511)) = Ok (h, vec)"
    "bvh_repr validator_entry \<lparr>bvh_header = h, bvh_data = vec\<rparr> [example_validator]"
    using vle.deserialize_vec_refines by blast
  let ?r = "\<lparr>lr_account = writable 511, lr_data = acc_data (ledger W 511), lr_view = \<lparr>bvh_header = h, bvh_data = vec\<rparr>\<rparr>"
  have "list_opened validator_entry example_lido solido_id (writable 511) (acc_data (ledger W 511)) (ledger W) ?r"
    using vec(1) assms
    by (simp add: list_opened_def list_address_def validator_entry_def represents_def holds_list_def example_pool_def example_lido_def)
  then show thesis
    using that [of ?r] vle.bvh_iter_refines [OF vec(2)] vle.bvh_get_mut_refines [OF vec(2), of 0 521]
    by (simp add: list_opened_eq_Ok E withdraw_validator) (simp add: validator_entry_def withdraw_validator)
qed

lemma withdraw_ok:
  "\<exists>w'. process_instruction (reference_env 3) solido_id withdraw_infos (WithdrawV2 (StLamports 900000000) 0) withdraw_world = Ok ((), w')"
proof -
  let ?E = "reference_env 3" and ?w = "withdraw_world\<lparr>borrowed := [511]\<rparr>"
  let ?v = "example_validator\<lparr>stake_accounts_balance := Lamports 9000000000, effective_stake_balance := Lamports 9000000000\<rparr>"
  have lido: "deserialize_lido ?E solido_id (writable 500) withdraw_world = Ok (example_lido, withdraw_world)"
    using deserialize_represented_eq [OF withdraw_world_represents, of "writable 500"]
    by (simp add: withdraw_world_account example_pool_def)
  obtain r where r: "deserialize_account_list_info (VE ?E) example_lido solido_id (writable 511)
      (acc_data (ledger withdraw_world 511)) ?w = Ok (r, ?w)"
    "lr_account r = writable 511" "bvh_iter (VE ?E) (lr_view r) = Ok [example_validator]"
    "bvh_get_mut (VE ?E) (lr_view r) 0 521 = Ok (4, example_validator)"
    by (rule example_opened [OF withdraw_world_represents])
  obtain d where store: "store_entry (VE ?E) r 4 ?v ?w = Ok ((), set_data 511 d ?w)"
    using r(2) by (simp add: store_entry_def store_view_def store_def)
  let ?w1 = "set_data 511 d ?w"
  have other: "ledger ?w1 k = ledger withdraw_world k" if "k \<noteq> 511" for k
    using that by (simp add: set_data_def)
  obtain w2 where w2: "burn_st_sol ?E example_lido (signer 508) (writable 505) (writable 502) (readonly 1) (StLamports 900000000) ?w1 = Ok ((), w2)"
    "borrowed w2 = [511]" "\<And>k. k \<notin> {502, 505, 511} \<Longrightarrow> ledger w2 k = ledger withdraw_world k"
  proof -
    have "\<exists>w2. ref_token_update 502 505 (\<lambda>x. checked_sub x 900000000) ?w1 = Ok w2 \<and> borrowed w2 = [511] \<and>
        (\<forall>k. k \<notin> {502, 505, 511} \<longrightarrow> ledger w2 k = ledger withdraw_world k)"
      by (simp add: ref_token_update_def other withdraw_world_account withdraw_world_tokens checked_sub_def)
    moreover have "check_is_st_sol_account ?E example_lido (writable 505) ?w1 = Ok ((), ?w1)"
      "check_mint_is_st_sol_mint example_lido (writable 502) ?w1 = Ok ((), ?w1)"
      by (simp_all add: check_is_st_sol_account_def owner_of_def then_do_def data_borrow_def require_def lift_def
          reference_env_def other withdraw_world_account ref_unpack_token_account_def withdraw_world_tokens
          check_mint_is_st_sol_mint_def example_lido_def)
    ultimately show thesis
      using that by (auto simp: burn_st_sol_def then_do_def lift_def invoke_def invoke_signed_def require_def data_borrow_def
          reference_env_def other ref_unpack_token_account_def withdraw_world_tokens)
  qed
  obtain m where m: "observe_withdrawal (lido_metrics example_lido) (StLamports 900000000) (Lamports 1000000000) = Ok m"
    using withdraw_observed by blast
  let ?l = "example_lido\<lparr>lido_metrics := m\<rparr>"
  obtain w3 where w3: "split_stake_account ?E 500 ?l (writable 3952) (signer 507) (readonly 3132) (readonly 0) (readonly 2) (Lamports 1000000000) [] w2 = Ok ((), w3)"
    "borrowed w3 = [511]" "ledger w3 500 = ledger withdraw_world 500"
    "acc_owner (ledger w3 507) = ref_stake" "length (acc_data (ledger w3 507)) = 200"
  proof -
    let ?wa = "set_data 507 (replicate 200 0) w2"
    let ?wb = "?wa\<lparr>ledger := (ledger ?wa)(507 := (ledger ?wa 507)\<lparr>acc_owner := ref_stake\<rparr>)\<rparr>"
    have "\<exists>w3. ref_move 3952 507 1000000000 ?wb = Ok w3 \<and> borrowed w3 = [511] \<and> ledger w3 500 = ledger withdraw_world 500 \<and>
        acc_owner (ledger w3 507) = ref_stake \<and> length (acc_data (ledger w3 507)) = 200"
      using w2(2,3) by (simp add: ref_move_def withdraw_world_account set_data_def)
    then show thesis
      using that w2(3) by (auto simp: split_stake_account_def then_do_def lift_def assert_def invoke_signed_def reference_env_def
          withdraw_world_account ref_stake_def)
  qed
  obtain w4 where tr: "transfer_stake_authority ?E (writable 500) (signer 508) (signer 507) (readonly 3132) (readonly 6) (readonly 2) 255 w3 = Ok ((), w4)"
    "borrowed w4 = [511]" "ledger w4 500 = ledger withdraw_world 500"
    using that w3 by (auto simp: transfer_stake_authority_def then_do_def invoke_signed_def reference_env_def Let_def)
  have save: "\<exists>w5. save ?E ?l (writable 500) w4 = Ok ((), w5)"
  proof -
    have "lido_wf ?l" using ref.observe_withdrawal_wf [OF m example_wf] .
    then have "length (lido_bytes ?l) = 466" using li.length_write [of ?l] by (simp add: LIDO_LEN_def)
    moreover have "acc_data (ledger w4 500) = lido_bytes example_lido"
      by (simp add: tr(3) withdraw_world_def example_world_def)
    moreover have "length (lido_bytes example_lido) = 466" using li.length_write [OF example_wf] by (simp add: LIDO_LEN_def)
    ultimately show ?thesis using tr(2) by (simp add: save_def result_simps serialize_into_def reference_env_def)
  qed
  have infos: "withdraw_infos ! 0 = writable 500" "withdraw_infos ! Suc 0 = signer 508" "withdraw_infos ! 2 = writable 505"
    "withdraw_infos ! 3 = writable 502" "withdraw_infos ! 4 = readonly 521" "withdraw_infos ! 5 = writable 3952"
    "withdraw_infos ! 6 = signer 507" "withdraw_infos ! 7 = readonly 3132" "withdraw_infos ! 8 = writable 511"
    "withdraw_infos ! 9 = readonly 1" "withdraw_infos ! 10 = readonly 6" "withdraw_infos ! 11 = readonly 0" "withdraw_infos ! 12 = readonly 2"
    by (simp_all add: withdraw_infos_def)
  have clock: "clock_get ?E = Ok \<lparr>clock_epoch = 3\<rparr>" "computed_in_epoch (exchange_rate example_lido) = 3" "stake_authority_bump_seed example_lido = 255"
    by (simp_all add: reference_env_def example_lido_def)
  have eff: "compute_effective_stake_balance (example_validator\<lparr>stake_accounts_balance := Lamports 9000000000\<rparr>) =
      (Ok (Lamports 9000000000) :: (lamports, program_error) result)"
    by (simp add: compute_effective_stake_balance_def withdraw_validator lamports_sub_def token_sub_def checked_sub_def ok_or_def expect_def)
  show ?thesis
    using save
    by (auto simp: process_instruction_def process_withdraw_def withdraw_parsed then_do_def lift_def require_def Let_def infos lido clock
      check_exchange_rate_last_epoch_def with_borrow_mut_def withdraw_world_account r store w2(1) m w3(1) tr(1) withdraw_source withdraw_exchange lamports_of_def
      withdraw_amounts withdraw_validator eff return_def MINIMUM_STAKE_ACCOUNT_BALANCE_def lamports_less_iff)
qed


subsection \<open>Value for value\<close>

text \<open>C10: What a deposit does. When the system program and the token program do what they promise and the program
  accepts a deposit of \<open>amount\<close> from an account other than the one that receives it, the receiving account is the pool's
  reserve, the user signed, exactly \<open>amount\<close> lamports moved from the user to the
  reserve and no other balance changed; the recipient's account and the supply of the pool's mint grew by exactly the
  amount of stSOL that the stored exchange rate gives for \<open>amount\<close>; and no account other than the pool's state, the
  recipient and the mint has other data or another owner.\<close>

theorem deposit_moves_value:
  assumes "value_flow E p token_amount" and "represents E p (key (accounts ! 0)) w s"
    and "process_instruction E p accounts (Deposit amount) w = Ok ((), w')"
    and "key (accounts ! 1) \<noteq> key (accounts ! 4)"
  shows "\<exists>n. exchange_sol (exchange_rate (pool_lido s)) amount = Ok n \<and>
    is_signer (accounts ! 1) \<and>
    get_reserve_account E (pool_lido s) p (key (accounts ! 0)) = Ok (key (accounts ! 4)) \<and>
    key (accounts ! 3) = st_sol_mint (pool_lido s) \<and>
    moves (key (accounts ! 1)) (key (accounts ! 4)) (lam amount) w w' \<and>
    token_change E token_amount (key (accounts ! 3)) (key (accounts ! 2)) (\<lambda>x y. y = x + unat (st_lam n)) w w' \<and>
    keeps {key (accounts ! 0), key (accounts ! 2), key (accounts ! 3)} w w'"
  using value_flow.process_deposit_effect [OF assms(1,2) _ assms(4)] assms(3) by (simp add: process_instruction_def)

theorem deposit_moves_value_witness:
  "\<exists>w'. process_instruction (reference_env 3) solido_id deposit_infos (Deposit (Lamports 1000000000)) token_world = Ok ((), w') \<and>
     lamports_at w' 506 = 4000000000 \<and> lamports_at w' 3108 = 6000000000 \<and>
     ref_token_amount (acc_data (ledger w' 505)) = 900000000"
proof -
  obtain w' where ok: "process_instruction (reference_env 3) solido_id deposit_infos (Deposit (Lamports 1000000000)) token_world = Ok ((), w')"
    using deposit_ok by blast
  have "represents (reference_env 3) solido_id (key (deposit_infos ! 0)) token_world example_pool"
    using token_world_represents by (simp add: deposit_infos_def)
  from deposit_moves_value [OF value_flow_reference this ok]
  have "moves 506 3108 1000000000 token_world w'"
    "token_change (reference_env 3) ref_token_amount 502 505 (\<lambda>x y. y = x + 900000000) token_world w'"
    using deposit_exchange by (simp_all add: deposit_infos_def example_pool_def)
  then show ?thesis
    using ok mint_supply_0 by (simp add: moves_def token_change_def lamports_at_def token_world_account ref_token_amount_def)
qed

text \<open>C11: What a withdrawal does. When the invoked programs do what they promise and the program accepts a withdrawal of
  \<open>amount\<close> stSOL from validator \<open>i\<close>: the owner of the token account signed; the token account and the supply of the pool's
  mint shrank by exactly \<open>amount\<close>; exactly the lamports that the stored exchange rate gives for \<open>amount\<close> moved from the first stake
  account of that validator to the destination, and no other balance changed; the owner is now the staker and the
  withdrawer of the destination; and only the pool's state, its validator list, the token account, the mint and the two stake
  accounts may have other data or another owner.\<close>

theorem withdraw_moves_value:
  assumes "stake_flow E p token_amount authority" and "represents E p (key (accounts ! 0)) w s"
    and "process_instruction E p accounts (WithdrawV2 amount i) w = Ok ((), w')"
  shows "\<exists>n v. exchange_st_sol (exchange_rate (pool_lido s)) amount = Ok n \<and>
    validator_at s i v \<and> vote_account_address v = key (accounts ! 4) \<and>
    fst (find_stake_account_address (find_program_address E) v p (key (accounts ! 0)) (seed_begin (stake_seeds v)) Stake) =
      key (accounts ! 5) \<and>
    is_signer (accounts ! 1) \<and>
    (\<exists>t. unpack_token_account E (acc_data (ledger w (key (accounts ! 2)))) = Ok t \<and> token_owner t = key (accounts ! 1)) \<and>
    key (accounts ! 3) = st_sol_mint (pool_lido s) \<and>
    moves (key (accounts ! 5)) (key (accounts ! 6)) (lam n) w w' \<and>
    token_change E token_amount (key (accounts ! 3)) (key (accounts ! 2)) (\<lambda>x y. x = y + unat (st_lam amount)) w w' \<and>
    authority Staker (acc_data (ledger w' (key (accounts ! 6)))) = key (accounts ! 1) \<and>
    authority Withdrawer (acc_data (ledger w' (key (accounts ! 6)))) = key (accounts ! 1) \<and>
    keeps {key (accounts ! 0), key (accounts ! 2), key (accounts ! 3), key (accounts ! 5), key (accounts ! 6), key (accounts ! 8)} w w'"
proof -
  have "value_flow E p token_amount" using assms(1) by (simp add: stake_flow_def)
  from value_flow.process_withdraw_effect [OF this assms(2)] assms(3) stake_flow.transfer_stake_authority_sets [OF assms(1)]
  show ?thesis by (fastforce simp: process_instruction_def)
qed

theorem withdraw_moves_value_witness:
  "\<exists>w'. process_instruction (reference_env 3) solido_id withdraw_infos (WithdrawV2 (StLamports 900000000) 0) withdraw_world = Ok ((), w') \<and>
     lamports_at w' 3952 = 9000000000 \<and> lamports_at w' 507 = 6000000000 \<and>
     ref_token_amount (acc_data (ledger w' 505)) = 0 \<and> ref_authority Withdrawer (acc_data (ledger w' 507)) = 508"
proof -
  obtain w' where ok: "process_instruction (reference_env 3) solido_id withdraw_infos (WithdrawV2 (StLamports 900000000) 0) withdraw_world = Ok ((), w')"
    using withdraw_ok by blast
  have "represents (reference_env 3) solido_id (key (withdraw_infos ! 0)) withdraw_world example_pool"
    using withdraw_world_represents by (simp add: withdraw_infos_def)
  from withdraw_moves_value [OF stake_flow_reference this ok]
  have "moves 3952 507 1000000000 withdraw_world w'" "ref_authority Withdrawer (acc_data (ledger w' 507)) = 508"
    "token_change (reference_env 3) ref_token_amount 502 505 (\<lambda>x y. x = y + 900000000) withdraw_world w'"
    using withdraw_exchange by (auto simp: withdraw_infos_def example_pool_def)
  then show ?thesis
    using ok withdraw_world_tokens by (simp add: moves_def token_change_def lamports_at_def withdraw_world_account ref_token_amount_def)
qed

end
