(* ===== verification/StakeFlow.thy ===== *)
theory StakeFlow
  imports ValueFlow
begin

text \<open>
  \<open>UpdateStakeAccountBalance\<close> and the ledger. The instruction walks over the stake and unstake accounts of one
  validator, withdraws what is inactive into the reserve and records the rest. In the locale \<open>stake_flow\<close> the recorded
  balance is related to the lamports that the accounts hold afterwards.
\<close>

definition stake_address :: "lenv \<Rightarrow> pubkey \<Rightarrow> pubkey \<Rightarrow> validator \<Rightarrow> stake_type \<Rightarrow> u64 \<Rightarrow> pubkey" where
  "stake_address E p k v ty seed = fst (find_stake_account_address (find_program_address E) v p k seed ty)"

text \<open>The addresses of the accounts that a validator's seeds stand for.\<close>

definition validator_addresses :: "lenv \<Rightarrow> pubkey \<Rightarrow> pubkey \<Rightarrow> validator \<Rightarrow> pubkey list" where
  "validator_addresses E p k v =
     map (stake_address E p k v stake_type.Stake) (seeds_of (stake_seeds v)) @
     map (stake_address E p k v stake_type.Unstake) (seeds_of (unstake_seeds v))"

text \<open>What each instruction does to the total stake on record. \<open>UpdateStakeAccountBalance\<close> replaces the balance of its
  validator by what the accounts of the validator hold afterwards, when their addresses, which are hashes, and that of the
  reserve are distinct.\<close>

definition stake_effect :: "lenv \<Rightarrow> pubkey \<Rightarrow> pubkey \<Rightarrow> lido_instruction \<Rightarrow> world \<Rightarrow> pool \<Rightarrow> pool \<Rightarrow> bool" where
  "stake_effect E p k ins w' s s' \<longleftrightarrow>
     stake_effect_with (\<lambda>vi. \<exists>v reserve. validator_at s vi v \<and> get_reserve_account E (pool_lido s) p k = Ok reserve \<and>
        (distinct (reserve # validator_addresses E p k v) \<longrightarrow>
          total_stake s' + unat (lam (stake_accounts_balance v)) =
            total_stake s + (\<Sum>a\<leftarrow>validator_addresses E p k v. lamports_at w' a)))
       ins (exchange_rate (pool_lido s)) (total_stake s) (total_stake s')"

definition held :: "world \<Rightarrow> pubkey list \<Rightarrow> nat" where
  "held w ks = (\<Sum>a\<leftarrow>ks. lamports_at w a)"

definition same_outside :: "pubkey set \<Rightarrow> world \<Rightarrow> world \<Rightarrow> bool" where
  "same_outside S w w' \<longleftrightarrow> (\<forall>k. k \<notin> S \<longrightarrow> lamports_at w' k = lamports_at w k)"

lemma held_simps [simp]: "held w [] = 0" "held w (k # ks) = lamports_at w k + held w ks"
  "held w (ks @ ls) = held w ks + held w ls"
  by (simp_all add: held_def)

lemma held_same: "same_outside S w w' \<Longrightarrow> set ks \<inter> S = {} \<Longrightarrow> held w' ks = held w ks"
  by (induction ks) (auto simp: same_outside_def)

lemma same_outside_trans: "same_outside S w1 w2 \<Longrightarrow> same_outside T w2 w3 \<Longrightarrow> same_outside (S \<union> T) w1 w3"
  by (simp add: same_outside_def)

lemma same_outside_refl [simp]: "same_outside S w w"
  by (simp add: same_outside_def)

lemma moves_outside: "moves a b n w w' \<Longrightarrow> same_outside {a, b} w w'"
  by (simp add: moves_def same_outside_def)

lemma same_lamports_outside: "same_lamports w w' \<Longrightarrow> same_outside S w w'"
  by (simp add: same_lamports_def same_outside_def)

lemma lamports_at_borrowed [simp]: "lamports_at (w\<lparr>borrowed := b\<rparr>) k = lamports_at w k"
  by (simp add: lamports_at_def)

lemma held_borrowed [simp]: "held (w\<lparr>borrowed := b\<rparr>) ks = held w ks"
  by (simp add: held_def)

lemma length_seeds_of: "length (seeds_of r) \<le> unat (seed_end r - seed_begin r)"
  by (cases "seed_begin r \<le> seed_end r") (simp_all add: seeds_of_def unat_sub not_le word_less_nat_alt)

lemma map_fst_zip_le: "length xs \<le> length ys \<Longrightarrow> map fst (zip xs ys) = xs"
  by (simp add: map_fst_zip_take)

lemma unstake_infos_enough:
  fixes n m :: u64
  assumes "word_of_nat (length xs) = n + m" and "unat n \<le> length xs"
  shows "unat m \<le> length (drop (unat n) xs)"
proof -
  have "word_of_nat (length xs - unat n) = m"
    using assms by (simp add: of_nat_diff)
  then have "unat m = (length xs - unat n) mod 2 ^ 64"
    using unat_of_nat [where 'a = 64, of "length xs - unat n"] by simp
  then show ?thesis by simp
qed

context stake_flow
begin

lemma withdraw_inactive_sol_effect:
  assumes "withdraw_inactive_sol E li au rs c h sp a b am w = Ok (u, w')" and "key a \<noteq> key rs"
  shows "lamports_at w (key a) = lamports_at w' (key a) + unat (lam am) \<and> same_outside {key a, key rs} w w'"
  using assms
  by (auto simp: withdraw_inactive_sol_def result_simps invoke_signed_def moves_def same_outside_def split: if_splits
      dest!: withdraw_moves)

lemma observe_stake_account_effect:
  assumes "observe_stake_account E q v l c h rent accs (e, t) (seed, a) w = Ok ((e', t'), w')"
    and "stake_address E q (key (accs ! 0)) v stake_type.Stake seed \<noteq> key (accs ! 3)"
  shows "unat (lam t') + unat (lam e) = unat (lam t) + unat (lam e') +
      lamports_at w' (stake_address E q (key (accs ! 0)) v stake_type.Stake seed) \<and>
    same_outside {stake_address E q (key (accs ! 0)) v stake_type.Stake seed, key (accs ! 3)} w w'"
proof -
  let ?k = "stake_address E q (key (accs ! 0)) v stake_type.Stake seed"
  obtain am where k: "key a = ?k" and wd: "withdraw_inactive_sol E (accs ! 0) (accs ! 2) (accs ! 3) (accs ! 10)
      (accs ! 11) (accs ! 12) a (stake_authority_bump_seed l) am w = Ok ((), w')"
    and e: "lamports_add e am = Ok e'" and t: "lamports_add t (Lamports (acc_lamports (ledger w (key a)))) = Ok t'"
    using assms(1)
    by (auto simp: observe_stake_account_def stake_address_def result_simps Let_def case_prod_beta
        check_address_and_get_balance_def get_stake_account_def)
  have "lamports_at w (key a) = lamports_at w' (key a) + unat (lam am)" "same_outside {key a, key (accs ! 3)} w w'"
    using withdraw_inactive_sol_effect [OF wd] assms(2) k by auto
  then show ?thesis using e t k by (auto simp: lamp.add_eq_Ok lamports_at_def)
qed

lemma observe_stake_accounts_effect:
  assumes "for_each (observe_stake_account E q v l c h rent accs) (e, t) xs w = Ok ((e', t'), w')"
    and "distinct (key (accs ! 3) # map (stake_address E q (key (accs ! 0)) v stake_type.Stake \<circ> fst) xs)"
  shows "unat (lam t') + unat (lam e) = unat (lam t) + unat (lam e') +
      held w' (map (stake_address E q (key (accs ! 0)) v stake_type.Stake \<circ> fst) xs) \<and>
    same_outside (insert (key (accs ! 3)) (set (map (stake_address E q (key (accs ! 0)) v stake_type.Stake \<circ> fst) xs))) w w'"
  using assms
proof (induction xs arbitrary: e t w)
  case Nil
  then show ?case by (simp add: result_simps)
next
  case (Cons x xs)
  obtain seed a where x: "x = (seed, a)" by (cases x)
  let ?addr = "stake_address E q (key (accs ! 0)) v stake_type.Stake"
  let ?S = "insert (key (accs ! 3)) (set (map (?addr \<circ> fst) xs))"
  obtain e1 t1 w1 where first: "observe_stake_account E q v l c h rent accs (e, t) (seed, a) w = Ok ((e1, t1), w1)"
    and rest: "for_each (observe_stake_account E q v l c h rent accs) (e1, t1) xs w1 = Ok ((e', t'), w')"
    using Cons.prems(1) unfolding x by (auto simp: result_simps)
  have f: "unat (lam t1) + unat (lam e) = unat (lam t) + unat (lam e1) + lamports_at w1 (?addr seed)"
    "same_outside {?addr seed, key (accs ! 3)} w w1"
    using observe_stake_account_effect [OF first] Cons.prems(2) by (auto simp: x)
  have g: "unat (lam t') + unat (lam e1) = unat (lam t1) + unat (lam e') + held w' (map (?addr \<circ> fst) xs)"
    "same_outside ?S w1 w'"
    using Cons.IH [OF rest] Cons.prems(2) by (auto simp: comp_def)
  have "lamports_at w' (?addr seed) = lamports_at w1 (?addr seed)"
    using g(2) Cons.prems(2) by (auto simp: same_outside_def x)
  moreover have "{?addr seed, key (accs ! 3)} \<union> ?S = insert (key (accs ! 3)) (set (map (?addr \<circ> fst) (x # xs)))"
    by (auto simp: x)
  ultimately show ?case using f g same_outside_trans [OF f(2) g(2)] by (simp add: x comp_def)
qed

lemma unstake_address_same:
  "v' = v \<or> v' = v\<lparr>unstake_seeds := r\<rparr> \<Longrightarrow> stake_address E q k v' ty seed = stake_address E q k v ty seed"
  by (auto simp: stake_address_def find_stake_account_address_def find_stake_account_address_with_authority_def)

lemma observe_unstake_account_effect:
  assumes "observe_unstake_account E q l c h accs (v, e, t) (seed, a) w = Ok ((v', e', t'), w')"
    and "stake_address E q (key (accs ! 0)) v stake_type.Unstake seed \<noteq> key (accs ! 3)"
  shows "unat (lam t') + unat (lam e) = unat (lam t) + unat (lam e') +
      lamports_at w' (stake_address E q (key (accs ! 0)) v stake_type.Unstake seed) \<and>
    same_outside {stake_address E q (key (accs ! 0)) v stake_type.Unstake seed, key (accs ! 3)} w w'"
proof -
  let ?k = "stake_address E q (key (accs ! 0)) v stake_type.Unstake seed"
  have k: "key a = ?k" and t: "lamports_add t (Lamports (acc_lamports (ledger w (key a)))) = Ok t'"
    and cases: "e' = e \<and> w' = w \<or> (\<exists>am. lamports_add e am = Ok e' \<and>
      withdraw_inactive_sol E (accs ! 0) (accs ! 2) (accs ! 3) (accs ! 10) (accs ! 11) (accs ! 12) a
        (stake_authority_bump_seed l) am w = Ok ((), w'))"
    using assms(1)
    by (auto simp: observe_unstake_account_def stake_address_def result_simps Let_def case_prod_beta
        check_address_and_get_balance_def get_stake_account_def split: if_splits)
  from cases show ?thesis
  proof
    assume "e' = e \<and> w' = w"
    then show ?thesis using t k by (auto simp: lamp.add_eq_Ok lamports_at_def)
  next
    assume "\<exists>am. lamports_add e am = Ok e' \<and>
      withdraw_inactive_sol E (accs ! 0) (accs ! 2) (accs ! 3) (accs ! 10) (accs ! 11) (accs ! 12) a
        (stake_authority_bump_seed l) am w = Ok ((), w')"
    then obtain am where "lamports_add e am = Ok e'" "lamports_at w (key a) = lamports_at w' (key a) + unat (lam am)"
      "same_outside {key a, key (accs ! 3)} w w'"
      using withdraw_inactive_sol_effect assms(2) k by metis
    then show ?thesis using t k by (auto simp: lamp.add_eq_Ok lamports_at_def)
  qed
qed

lemma observe_unstake_accounts_effect:
  assumes "for_each (observe_unstake_account E q l c h accs) (v, e, t) xs w = Ok ((v', e', t'), w')"
    and "distinct (key (accs ! 3) # map (stake_address E q (key (accs ! 0)) v stake_type.Unstake \<circ> fst) xs)"
  shows "unat (lam t') + unat (lam e) = unat (lam t) + unat (lam e') +
      held w' (map (stake_address E q (key (accs ! 0)) v stake_type.Unstake \<circ> fst) xs) \<and>
    same_outside (insert (key (accs ! 3)) (set (map (stake_address E q (key (accs ! 0)) v stake_type.Unstake \<circ> fst) xs))) w w'"
  using assms
proof (induction xs arbitrary: v e t w)
  case Nil
  then show ?case by (simp add: result_simps)
next
  case (Cons x xs)
  obtain seed a where x: "x = (seed, a)" by (cases x)
  let ?addr = "stake_address E q (key (accs ! 0)) v stake_type.Unstake"
  let ?S = "insert (key (accs ! 3)) (set (map (?addr \<circ> fst) xs))"
  obtain v1 e1 t1 w1 where first: "observe_unstake_account E q l c h accs (v, e, t) (seed, a) w = Ok ((v1, e1, t1), w1)"
    and rest: "for_each (observe_unstake_account E q l c h accs) (v1, e1, t1) xs w1 = Ok ((v', e', t'), w')"
    using Cons.prems(1) unfolding x by (auto simp: result_simps)
  have addr: "stake_address E q (key (accs ! 0)) v1 stake_type.Unstake = ?addr"
    using observe_unstake_account_frame [OF first] unstake_address_same by (intro ext) blast
  have f: "unat (lam t1) + unat (lam e) = unat (lam t) + unat (lam e1) + lamports_at w1 (?addr seed)"
    "same_outside {?addr seed, key (accs ! 3)} w w1"
    using observe_unstake_account_effect [OF first] Cons.prems(2) by (auto simp: x)
  have g: "unat (lam t') + unat (lam e1) = unat (lam t1) + unat (lam e') + held w' (map (?addr \<circ> fst) xs)"
    "same_outside ?S w1 w'"
    using Cons.IH [OF rest] Cons.prems(2) by (auto simp: addr comp_def)
  have "lamports_at w' (?addr seed) = lamports_at w1 (?addr seed)"
    using g(2) Cons.prems(2) by (auto simp: same_outside_def x)
  moreover have "{?addr seed, key (accs ! 3)} \<union> ?S = insert (key (accs ! 3)) (set (map (?addr \<circ> fst) (x # xs)))"
    by (auto simp: x)
  ultimately show ?case using f g same_outside_trans [OF f(2) g(2)] by (simp add: x comp_def)
qed

lemma distribute_fees_lamports:
  "distribute_fees E l li m au tr dv t c rew w = Ok (l', w') \<Longrightarrow> same_lamports w w'"
  by (auto simp: distribute_fees_def result_simps dest!: check_fee_accounts_OkD mint_st_sol_to_effect
      intro: same_lamports_trans split: if_splits)

lemma process_update_stake_account_balance_effect:
  assumes rep: "represents E p k w s" and k: "key (accounts ! 0) = k"
    and ok: "process_update_stake_account_balance E p i accounts w = Ok (u, w')"
    and rep': "represents E p k w' s'"
  shows "\<exists>v reserve. validator_at s i v \<and> get_reserve_account E (pool_lido s) p k = Ok reserve \<and>
    (distinct (reserve # validator_addresses E p k v) \<longrightarrow>
      total_stake s' + unat (lam (stake_accounts_balance v)) =
        total_stake s + (\<Sum>a\<leftarrow>validator_addresses E p k v. lamports_at w' a))"
proof -
  let ?l = "pool_lido s"
  obtain accs stakes where accs: "info_try_from_slice (update_stake_account_balance_accounts E) accounts = Ok (accs, stakes)"
    by (rule parsedE [OF ok [unfolded process_update_stake_account_balance_def]])
  have head: "key (accs ! 0) = k"
    using parsed_head [OF accs] k by (simp add: update_stake_account_balance_accounts_def)
  let ?a = "accs ! 8"
  obtain r ref v v1 c h rent ex so ur uo unstk remaining stk m au tr dv t rew l' w1 w2 w3 w4 w5 where
      reserve: "get_reserve_account E ?l p (key (accs ! 0)) = Ok (key (accs ! 3))"
    and r: "list_opened (VE E) ?l p ?a (acc_data (ledger w (key ?a))) (ledger w) r"
    and get: "bvh_get_mut (VE E) (lr_view r) i (key (accs ! 1)) = Ok (ref, v)"
    and count: "word_of_nat (length stakes) = (seed_end (stake_seeds v) - seed_begin (stake_seeds v)) +
        (seed_end (unstake_seeds v) - seed_begin (unstake_seeds v))"
      "unat (seed_end (stake_seeds v) - seed_begin (stake_seeds v)) \<le> length stakes"
    and stakes: "for_each (observe_stake_account E p v ?l c h rent accs) (Lamports 0, Lamports 0)
        (zip (seeds_of (stake_seeds v)) (take (unat (seed_end (stake_seeds v) - seed_begin (stake_seeds v))) stakes))
        (w\<lparr>borrowed := key ?a # borrowed w\<rparr>) = Ok ((ex, so), w1)"
    and unstakes: "for_each (observe_unstake_account E p ?l c h accs) (v, Lamports 0, Lamports 0)
        (zip (seeds_of (unstake_seeds v)) (drop (unat (seed_end (stake_seeds v) - seed_begin (stake_seeds v))) stakes))
        w1 = Ok ((v1, ur, uo), w2)"
    and bal: "lamports_sub uo ur = Ok unstk" "lamports_sub so ex = Ok remaining" "lamports_add remaining unstk = Ok stk"
    and store: "store_entry (VE E) r ref (v1\<lparr>unstake_accounts_balance := unstk, stake_accounts_balance := stk,
        effective_stake_balance := Lamports (lam stk - lam unstk)\<rparr>) w2 = Ok ((), w3)"
    and fees: "distribute_fees E ?l (accs ! 0) m au tr dv t c rew w3 = Ok (l', w4)"
    and save: "save E l' (accs ! 0) w4 = Ok ((), w5)"
    and w': "w' = w5\<lparr>borrowed := borrowed w\<rparr>"
    using ok accs
    by (auto simp: process_update_stake_account_balance_def result_simps Let_def list_opened_eq_Ok not_less not_le
        deserialize_represented_eq [OF rep head]
        simp del: deserialize_lido_eq_Ok deserialize_account_list_info_eq_Ok)
  let ?S = "map (stake_address E p k v stake_type.Stake) (seeds_of (stake_seeds v))"
    and ?U = "map (stake_address E p k v stake_type.Unstake) (seeds_of (unstake_seeds v))"
    and ?xs = "zip (seeds_of (stake_seeds v)) (take (unat (seed_end (stake_seeds v) - seed_begin (stake_seeds v))) stakes)"
    and ?ys = "zip (seeds_of (unstake_seeds v)) (drop (unat (seed_end (stake_seeds v) - seed_begin (stake_seeds v))) stakes)"
  have "map fst ?xs = seeds_of (stake_seeds v)"
    using count(2) length_seeds_of [of "stake_seeds v"] by (intro map_fst_zip_le) simp
  then have xs: "map (stake_address E p (key (accs ! 0)) v stake_type.Stake \<circ> fst) ?xs = ?S" by (metis head map_map)
  have "map fst ?ys = seeds_of (unstake_seeds v)"
    using unstake_infos_enough [OF count] length_seeds_of [of "unstake_seeds v"] by (intro map_fst_zip_le) simp
  then have ys: "map (stake_address E p (key (accs ! 0)) v stake_type.Unstake \<circ> fst) ?ys = ?U" by (metis head map_map)
  obtain ub where v1: "v1 = v\<lparr>unstake_seeds := (unstake_seeds v)\<lparr>seed_begin := ub\<rparr>\<rparr>" and f2: "own_frame p w1 w2"
    using observe_unstake_accounts_frame [OF unstakes] seeds_of_less by blast
  obtain metr where f3: "own_frame p w3 w4" and l': "l' = ?l\<lparr>lido_metrics := metr\<rparr>"
    and metr: "deposit_amount metr = deposit_amount (lido_metrics ?l)"
    using distribute_fees_frame [OF fees] by blast
  let ?v = "v1\<lparr>unstake_accounts_balance := unstk, stake_accounts_balance := stk,
        effective_stake_balance := Lamports (lam stk - lam unstk)\<rparr>"
  have frame: "own_frame p w w2" using own_frame_trans [OF for_each_frame [OF observe_stake_account_frame stakes] f2] by simp
  have at: "validator_at s i v" and rep3: "represents E p k w3 (set_validator s i ?v)"
    using stored_validator [OF rep r get frame store] by (auto simp: v1)
  have "represents E p k w5 (set_lido (set_validator s i ?v) (?l\<lparr>lido_metrics := metr\<rparr>))"
    using represented_wf [OF rep] metr
    by (intro save_represents [OF represents_frame [OF rep3 f3] save [unfolded l'] head])
      (simp_all add: set_validator_def same_accounts_def lido_wf_def)
  then have s': "s' = set_lido (set_validator s i ?v) (?l\<lparr>lido_metrics := metr\<rparr>)"
    using represents_unique [OF rep'] w' by simp
  have total: "total_stake s' + unat (lam (stake_accounts_balance v)) = total_stake s + unat (lam stk)"
    using total_stake_set_validator [OF at, of ?v] by (simp add: s')
  have late: "same_lamports w2 w'"
    using store_entry_effect [OF store] distribute_fees_lamports [OF fees] save_effect [OF save] w'
    by (auto intro: same_lamports_trans)
  have "unat (lam stk) = held w' (?S @ ?U)" if d: "distinct (key (accs ! 3) # ?S @ ?U)"
  proof -
    have S: "unat (lam so) = unat (lam ex) + held w1 ?S"
      using observe_stake_accounts_effect [OF stakes] d by (simp add: xs)
    have U: "unat (lam uo) = unat (lam ur) + held w2 ?U" "same_outside (insert (key (accs ! 3)) (set ?U)) w1 w2"
      using observe_unstake_accounts_effect [OF unstakes] d by (simp_all add: ys)
    have "held w2 ?S = held w1 ?S" using d by (intro held_same [OF U(2)]) auto
    moreover have "held w' ks = held w2 ks" for ks using late by (simp add: held_def same_lamports_def)
    ultimately show ?thesis using bal S U(1) by (auto simp: lamp.add_eq_Ok lamp.sub_eq_Ok)
  qed
  then show ?thesis
    using at reserve total head
    by (intro exI [of _ v] exI [of _ "key (accs ! 3)"]) (simp add: validator_addresses_def held_def)
qed

lemma process_instruction_stake_effect:
  assumes rep: "represents E p (key (accounts ! 0)) w s"
    and ok: "process_instruction E p accounts ins w = Ok ((), w')" and rep': "represents E p (key (accounts ! 0)) w' s'"
  shows "stake_effect E p (key (accounts ! 0)) ins w' s s'"
  unfolding stake_effect_def
proof (rule pool_step_stake_effect [OF instruction_step [OF rep refl ok rep']])
  fix vi
  assume "ins = UpdateStakeAccountBalance vi"
  with ok have "process_update_stake_account_balance E p vi accounts w = Ok ((), w')" by (simp add: process_instruction_def)
  from process_update_stake_account_balance_effect [OF rep refl this rep']
  show "\<exists>v reserve. validator_at s vi v \<and> get_reserve_account E (pool_lido s) p (key (accounts ! 0)) = Ok reserve \<and>
    (distinct (reserve # validator_addresses E p (key (accounts ! 0)) v) \<longrightarrow>
      total_stake s' + unat (lam (stake_accounts_balance v)) =
        total_stake s + (\<Sum>a\<leftarrow>validator_addresses E p (key (accounts ! 0)) v. lamports_at w' a))" .
qed

end

subsection \<open>An accepted observation\<close>

text \<open>The only stake account of the example pool holds 1000 lamports more than its delegation and the rent, which go to
  the reserve.\<close>

definition observed_delegation :: stake where
  "observed_delegation =
     \<lparr>stake_delegation = \<lparr>voter_pubkey = 521, delegated_stake = 9997716120, activation_epoch = 1,
        deactivation_epoch = - 1, warmup_cooldown_rate = 0\<rparr>, credits_observed = 0\<rparr>"

definition observe_world :: world where
  "observe_world = example_world\<lparr>ledger := (ledger example_world)
     (3952 := \<lparr>acc_lamports = 10000000000, acc_owner = ref_stake,
        acc_data = stake_state_bytes (replicate 120 0) observed_delegation [0, 0, 0, 0]\<rparr>)\<rparr>"

definition observe_infos :: "account_info list" where
  "observe_infos = [writable 500, readonly 521, readonly 3132, writable 3108, writable 502, readonly 3036, writable 503,
     writable 504, writable 511, readonly 1, readonly 6, readonly 7, readonly 2, writable 3952]"

lemma observe_parsed: "info_try_from_slice (update_stake_account_balance_accounts (reference_env e)) observe_infos =
    Ok (take 13 observe_infos, [writable 3952])"
  by (simp add: info_try_from_slice_def update_stake_account_balance_accounts_def observe_infos_def reference_env_def
      ref_token_def ref_stake_def)

lemma observe_world_account:
  "ledger observe_world 3952 = \<lparr>acc_lamports = 10000000000, acc_owner = ref_stake,
     acc_data = stake_state_bytes (replicate 120 0) observed_delegation [0, 0, 0, 0]\<rparr>"
  "k \<notin> {500, 3952, 511, 512, 513} \<Longrightarrow>
     ledger observe_world k = \<lparr>acc_lamports = 5000000000, acc_owner = ref_system, acc_data = []\<rparr>"
  "borrowed observe_world = []"
  by (simp_all add: observe_world_def example_world_def)

lemma observe_world_represents: "represents (reference_env e) solido_id 500 observe_world example_pool"
  by (rule represents_frame [OF example_represents])
    (simp add: own_frame_def observe_world_def example_world_def solido_id_def ref_system_def)

lemma observed_stake_account:
  "get_stake_account (reference_env 3) \<lparr>clock_epoch = 3\<rparr> h (writable 3952) 0 (observe_world\<lparr>borrowed := [511]\<rparr>) =
     Ok (\<lparr>sa_balance = \<lparr>inactive = Lamports 2283880, activating = Lamports 0, active = Lamports 9997716120,
           deactivating = Lamports 0\<rparr>, sa_credits_observed = 0, sa_activation_epoch = 1, sa_seed = 0\<rparr>,
         observe_world\<lparr>borrowed := [511]\<rparr>)"
proof -
  have d: "deserialize_stake_account (stake_state_bytes (replicate 120 0) observed_delegation [0, 0, 0, 0]) = Ok observed_delegation"
    by (rule deserialize_stake_account_roundtrip) simp
  have "ref_status (stake_delegation observed_delegation) 3 h =
      \<lparr>effective = 9997716120, activating_lamports = 0, deactivating_lamports = 0\<rparr>"
    by (simp add: ref_status_def observed_delegation_def)
  then show ?thesis
    by (simp add: get_stake_account_def then_do_def data_borrow_def lift_def lamports_of_def observe_world_account d
        from_delegated_account_def reference_env_def unwrap_opt_def checked_sub_def)
      (simp add: observed_delegation_def)
qed

lemma observed_loop:
  obtains w1 where "for_each (observe_stake_account (reference_env 3) solido_id example_validator example_lido \<lparr>clock_epoch = 3\<rparr> h
      \<lparr>minimum_balance = (\<lambda>n. word_of_nat ((n + 128) * 6960)), is_exempt = (\<lambda>l n. word_of_nat ((n + 128) * 6960) \<le> l)\<rparr>
      (take 13 observe_infos)) (Lamports 0, Lamports 0) [(0, writable 3952)] (observe_world\<lparr>borrowed := [511]\<rparr>) =
      Ok ((Lamports 1000, Lamports 10000000000), w1)"
    "borrowed w1 = [511]" "ledger w1 500 = ledger observe_world 500"
proof -
  let ?w = "observe_world\<lparr>borrowed := [511]\<rparr>"
  have "\<exists>w1. ref_move 3952 3108 1000 ?w = Ok w1 \<and> borrowed w1 = [511] \<and> ledger w1 500 = ledger observe_world 500"
    by (simp add: ref_move_def observe_world_account)
  then obtain w1 where w1: "ref_move 3952 3108 1000 ?w = Ok w1" "borrowed w1 = [511]" "ledger w1 500 = ledger observe_world 500"
    by blast
  have len: "length (stake_state_bytes (replicate 120 0) observed_delegation [0, 0, 0, 0]) = 200"
    by (simp add: stake_state_bytes_def)
  have addr: "find_stake_account_address (find_program_address (reference_env 3)) example_validator solido_id 500 0 stake_type.Stake =
      (3952, 255)"
    using withdraw_source [of 3] by (simp add: example_validator_def)
  have "observe_stake_account (reference_env 3) solido_id example_validator example_lido \<lparr>clock_epoch = 3\<rparr> h
      \<lparr>minimum_balance = (\<lambda>n. word_of_nat ((n + 128) * 6960)), is_exempt = (\<lambda>l n. word_of_nat ((n + 128) * 6960) \<le> l)\<rparr>
      (take 13 observe_infos) (Lamports 0, Lamports 0) (0, writable 3952) ?w = Ok ((Lamports 1000, Lamports 10000000000), w1)"
    using w1(1)
    by (simp add: observe_stake_account_def Let_def observe_infos_def addr check_address_and_get_balance_def then_do_def
        require_def lamports_of_def observed_stake_account data_len_def data_borrow_def lift_def observe_world_account len
        lamports_sub_def token_sub_def checked_sub_def ok_or_def expect_def withdraw_inactive_sol_def invoke_signed_def
        lamports_add_def token_add_def checked_add_def return_def)
      (simp add: reference_env_def)
  then show thesis using that w1 by (simp add: then_do_def return_def)
qed

lemma observe_ok:
  "\<exists>w'. process_instruction (reference_env 3) solido_id observe_infos (UpdateStakeAccountBalance 0) observe_world = Ok ((), w')"
proof -
  let ?E = "reference_env 3" and ?w = "observe_world\<lparr>borrowed := [511]\<rparr>"
  let ?v = "example_validator\<lparr>unstake_accounts_balance := Lamports 0, stake_accounts_balance := Lamports 9999999000,
      effective_stake_balance := Lamports 9999999000\<rparr>"
  have lido: "deserialize_lido ?E solido_id (writable 500) observe_world = Ok (example_lido, observe_world)"
    using deserialize_represented_eq [OF observe_world_represents, of "writable 500"]
    by (simp add: observe_world_account example_pool_def)
  have reserve: "check_reserve_account ?E example_lido solido_id 500 (writable 3108) observe_world = Ok (3108, observe_world)"
    using example_reserve [of 3] by (simp add: result_simps get_reserve_account_def example_lido_def)
  obtain r where r: "deserialize_account_list_info (VE ?E) example_lido solido_id (writable 511)
      (acc_data (ledger observe_world 511)) ?w = Ok (r, ?w)"
    "lr_account r = writable 511" "bvh_get_mut (VE ?E) (lr_view r) 0 521 = Ok (4, example_validator)"
    by (rule example_opened [OF observe_world_represents])
  obtain w1 where w1: "for_each (observe_stake_account ?E solido_id example_validator example_lido \<lparr>clock_epoch = 3\<rparr> []
      \<lparr>minimum_balance = (\<lambda>n. word_of_nat ((n + 128) * 6960)), is_exempt = (\<lambda>l n. word_of_nat ((n + 128) * 6960) \<le> l)\<rparr>
      (take 13 observe_infos)) (Lamports 0, Lamports 0) [(0, writable 3952)] ?w = Ok ((Lamports 1000, Lamports 10000000000), w1)"
    "borrowed w1 = [511]" "ledger w1 500 = ledger observe_world 500"
    by (rule observed_loop)
  obtain d where store: "store_entry (VE ?E) r 4 ?v w1 = Ok ((), set_data 511 d w1)"
    using r(2) by (simp add: store_entry_def store_view_def store_def)
  have save: "\<exists>w5. save ?E example_lido (writable 500) (set_data 511 d w1) = Ok ((), w5)"
  proof -
    have "length (lido_bytes example_lido) = 466" using li.length_write [OF example_wf] by (simp add: LIDO_LEN_def)
    moreover have "acc_data (ledger (set_data 511 d w1) 500) = lido_bytes example_lido"
      by (simp add: set_data_def w1(3) observe_world_def example_world_def)
    ultimately show ?thesis using w1(2) by (simp add: save_def result_simps serialize_into_def reference_env_def)
  qed
  have infos: "take 13 observe_infos ! 0 = writable 500" "take 13 observe_infos ! Suc 0 = readonly 521"
    "take 13 observe_infos ! 3 = writable 3108" "take 13 observe_infos ! 8 = writable 511"
    "take 13 observe_infos ! 11 = readonly 7"
    by (simp_all add: observe_infos_def)
  have env: "clock_get ?E = Ok \<lparr>clock_epoch = 3\<rparr>" "stake_history_from ?E [] = Ok []"
    "rent_get ?E = Ok \<lparr>minimum_balance = (\<lambda>n. word_of_nat ((n + 128) * 6960)), is_exempt = (\<lambda>l n. word_of_nat ((n + 128) * 6960) \<le> l)\<rparr>"
    by (simp_all add: reference_env_def)
  have seeds: "stake_seeds example_validator = \<lparr>seed_begin = 0, seed_end = 1\<rparr>"
    "unstake_seeds example_validator = \<lparr>seed_begin = 0, seed_end = 0\<rparr>"
    by (simp_all add: example_validator_def validator_new_def validator_default_def)
  have eff: "compute_effective_stake_balance (example_validator\<lparr>unstake_accounts_balance := Lamports 0, stake_accounts_balance := Lamports 9999999000\<rparr>) =
      (Ok (Lamports 9999999000) :: (lamports, program_error) result)"
    by (simp add: compute_effective_stake_balance_def lamports_sub_def token_sub_def checked_sub_def ok_or_def expect_def)
  show ?thesis
    using save w1(1)
    by (auto simp: process_instruction_def process_update_stake_account_balance_def observe_parsed then_do_def lift_def require_def
      Let_def infos lido env reserve with_borrow_mut_def observe_world_account r(1,3) seeds seeds_of_def assert_def data_borrow_def
      observe_balance_def withdraw_validator eff store distribute_fees_def return_def
      lamports_add_def lamports_sub_def token_add_def token_sub_def checked_add_def checked_sub_def ok_or_def expect_def lamports_less_iff)
qed

lemma observed_addresses: "validator_addresses (reference_env e) solido_id 500 example_validator = [3952]"
proof -
  have "find_stake_account_address (find_program_address (reference_env e)) example_validator solido_id 500 0 stake_type.Stake =
      (3952, 255)"
    using withdraw_source [of e] by (simp add: example_validator_def)
  then show ?thesis
    by (simp add: validator_addresses_def stake_address_def seeds_of_def example_validator_def validator_new_def
        validator_default_def)
qed

end
