(* ===== verification/Snapshot.thy ===== *)
theory Snapshot
  imports Instructions
begin

text \<open>
  \<^verbatim>\<open>cli/common/src/snapshot.rs\<close>, \<^verbatim>\<open>validator_info_utils.rs\<close> and \<^verbatim>\<open>per64.rs\<close>: how
  the off-chain programs read the chain. \<open>OrderedSet\<close> remembers which accounts a
  computation referenced; a \<open>Snapshot\<close> answers reads from the accounts that were
  fetched; \<open>SnapshotClient\<close> fetches them, in several calls when the node limits
  the size of one (\<open>get_multiple_accounts_chunked\<close>), and runs the computation
  again with a larger set when it asked for an account that was not fetched
  (\<open>with_snapshot\<close>).

  A computation on a snapshot is a function from the snapshot to a result and the
  snapshot afterwards: references that were made before an error stay recorded.
  The RPC node is a parameter (\<open>rpc_client\<close>) over an arbitrary type \<open>'n\<close> of
  network states, which every call may change, so that the chain can move between
  two calls. Decoders that live outside of the repository (bincode, JSON, the vote
  program) are fields of the same parameter. The locale \<open>static_chain\<close> states what
  a node promises while the chain does not move; under it the retry loop ends and
  gives the result of one atomic read of the whole chain.
\<close>

subsection \<open>Scaled fractions\<close>

definition per64 :: "u64 \<Rightarrow> u64 \<Rightarrow> (u64, 'e) result" where
  "per64 num den =
     (let num = ucast num :: 128 word;
          den = ucast den :: 128 word;
          range_max = ucast (- 1 :: u64) :: 128 word in
      if den = 0 then Panic
      else let result = num * range_max div den in
        and_then (assert (result \<le> range_max)) (\<lambda>u. Ok (ucast result)))"

definition from_percentage :: "u64 \<Rightarrow> (u64, 'e) result" where
  "from_percentage percentage = per64 percentage 100"

subsection \<open>Errors\<close>

datatype client_error =
    RpcResponseError string
  | ForUser string
  | OtherClientError

datatype cli_error =
    MissingAccountError pubkey
  | MissingValidatorInfoError pubkey
  | SerializationError pubkey
  | MaintenanceError
  | ClientErr client_error
  | ProgramErr program_error
  | BincodeError
  | JsonError
  | ParsePubkeyError
  | ParseHashError
  | SignerError
  | CliErr string
  | IoError

datatype snapshot_error =
    MissingAccount
  | MissingValidatorIdentity pubkey
  | OtherError cli_error

subsection \<open>Ordered sets\<close>

record 'a ordered_set =
  elements_vec :: "'a list"
  elements_set :: "'a set"

definition ordered_set_new :: "'a ordered_set" where
  "ordered_set_new = \<lparr>elements_vec = [], elements_set = {}\<rparr>"

definition ordered_push :: "'a \<Rightarrow> 'a ordered_set \<Rightarrow> 'a ordered_set" where
  "ordered_push x s =
     (let is_new = x \<notin> elements_set s;
          s = s\<lparr>elements_set := insert x (elements_set s)\<rparr> in
      if is_new then s\<lparr>elements_vec := elements_vec s @ [x]\<rparr> else s)"

definition union_with :: "'a ordered_set \<Rightarrow> 'a ordered_set \<Rightarrow> 'a ordered_set" where
  "union_with self other = foldl (\<lambda>s x. ordered_push x s) self (elements_vec other)"

subsection \<open>The node and the decoders\<close>

type_synonym hash = "u8 list"
type_synonym signature = "u8 list"

record transaction =
  tx_instructions :: "instruction list"
  tx_payer :: pubkey
  tx_signers :: "pubkey list"
  recent_blockhash :: hash

record vote_state =
  vs_node_pubkey :: pubkey
  vs_commission :: u8
  vs_credits :: u64
  vs_last_slot :: u64
  vs_last_timestamp :: u64

record epoch_schedule =
  get_slots_in_epoch :: "epoch \<Rightarrow> u64"
  get_first_slot_in_epoch :: "epoch \<Rightarrow> u64"
  slots_per_epoch :: u64

record sysvar_clock = clock +
  clock_slot :: u64

record validator_info =
  vi_name :: string
  vi_keybase_username :: "string option"

record 'n rpc_client =
  get_multiple_accounts :: "'n \<Rightarrow> pubkey list \<Rightarrow> (account option list, client_error) result \<times> 'n"
  get_program_accounts :: "'n \<Rightarrow> pubkey \<Rightarrow> ((pubkey \<times> account) list, client_error) result \<times> 'n"
  get_block_production :: "'n \<Rightarrow> ((string \<times> u64 \<times> u64) list, client_error) result \<times> 'n"
  get_block_with_config :: "'n \<Rightarrow> u64 \<Rightarrow> (string, client_error) result \<times> 'n"
  send_transaction_with_config :: "'n \<Rightarrow> transaction \<Rightarrow> (signature, client_error) result \<times> 'n"
  confirm_transaction :: "'n \<Rightarrow> signature \<Rightarrow> (bool, client_error) result \<times> 'n"
  confirm_transaction_with_spinner :: "'n \<Rightarrow> signature \<Rightarrow> hash \<Rightarrow> (unit, client_error) result \<times> 'n"
  try_sign :: "transaction \<Rightarrow> bool"
  pubkey_from_str :: "string \<Rightarrow> pubkey option"
  hash_from_str :: "string \<Rightarrow> hash option"
  rent_bincode :: "u8 list \<Rightarrow> rent option"
  clock_bincode :: "u8 list \<Rightarrow> sysvar_clock option"
  epoch_schedule_bincode :: "u8 list \<Rightarrow> epoch_schedule option"
  stake_history_bincode :: "u8 list \<Rightarrow> stake_history option"
  vote_state_deserialize :: "u8 list \<Rightarrow> vote_state option"
  config_keys_bincode :: "u8 list \<Rightarrow> (pubkey \<times> bool) list option"
  config_keys_size :: "(pubkey \<times> bool) list \<Rightarrow> nat"
  string_bincode :: "u8 list \<Rightarrow> string option"
  validator_info_json :: "string \<Rightarrow> validator_info option"
  config_program_id :: pubkey
  validator_info_id :: pubkey
  epoch_schedule_id :: pubkey
  default_target_lamports_per_signature :: u64

subsection \<open>Snapshots and reads\<close>

record 'n snapshot =
  snapshot_accounts :: "pubkey \<rightharpoonup> account option"
  validator_info_addrs :: "pubkey \<rightharpoonup> pubkey"
  accounts_referenced :: "pubkey ordered_set"
  sent_transaction :: bool
  blockhash :: "hash option"
  net :: 'n

type_synonym ('n, 'a) reads = "'n snapshot \<Rightarrow> ('a, snapshot_error) result \<times> 'n snapshot"

definition reads_return :: "'a \<Rightarrow> ('n, 'a) reads" where
  "reads_return a = (\<lambda>s. (Ok a, s))"

definition reads_bind :: "('n, 'a) reads \<Rightarrow> ('a \<Rightarrow> ('n, 'b) reads) \<Rightarrow> ('n, 'b) reads" where
  "reads_bind m k = (\<lambda>s. case m s of (r, s') \<Rightarrow>
     (case r of Ok a \<Rightarrow> k a s' | Err e \<Rightarrow> (Err e, s') | Panic \<Rightarrow> (Panic, s')))"

definition reads_fail :: "snapshot_error \<Rightarrow> ('n, 'a) reads" where
  "reads_fail e = (\<lambda>s. (Err e, s))"

definition reads_lift :: "('a, cli_error) result \<Rightarrow> ('n, 'a) reads" where
  "reads_lift r = (\<lambda>s. (map_err OtherError r, s))"

definition reads_call :: "('n \<Rightarrow> ('a, client_error) result \<times> 'n) \<Rightarrow> ('n, 'a) reads" where
  "reads_call c = (\<lambda>s. case c (net s) of (r, n) \<Rightarrow>
     (map_err (\<lambda>e. OtherError (ClientErr e)) r, s\<lparr>net := n\<rparr>))"

primrec reads_map :: "('a \<Rightarrow> ('n, 'b) reads) \<Rightarrow> 'a list \<Rightarrow> ('n, 'b list) reads" where
  "reads_map f [] = reads_return []"
| "reads_map f (x # xs) =
     reads_bind (f x) (\<lambda>y. reads_bind (reads_map f xs) (\<lambda>ys. reads_return (y # ys)))"

definition account_exists :: "pubkey \<Rightarrow> ('n, bool) reads" where
  "account_exists address = (\<lambda>s.
     let s = s\<lparr>accounts_referenced := ordered_push address (accounts_referenced s)\<rparr> in
     case snapshot_accounts s address of
       Some acc \<Rightarrow> (Ok (acc \<noteq> None), s)
     | None \<Rightarrow> (Err MissingAccount, s))"

definition get_account :: "pubkey \<Rightarrow> ('n, account) reads" where
  "get_account address = (\<lambda>s.
     let s = s\<lparr>accounts_referenced := ordered_push address (accounts_referenced s)\<rparr> in
     case snapshot_accounts s address of
       Some (Some acc) \<Rightarrow> (Ok acc, s)
     | Some None \<Rightarrow> (Err (OtherError (MissingAccountError address)), s)
     | None \<Rightarrow> (Err MissingAccount, s))"

definition production_rate :: "u64 \<Rightarrow> u64 \<Rightarrow> (u64, 'e) result" where
  "production_rate leader_slots blocks_produced =
     (if blocks_produced > 0 then per64 leader_slots blocks_produced else Ok 0)"

fun rates_of :: "'n rpc_client \<Rightarrow> (string \<times> u64 \<times> u64) list \<Rightarrow> ((pubkey \<rightharpoonup> u64), cli_error) result" where
  "rates_of C [] = Ok Map.empty"
| "rates_of C ((k, leader_slots, blocks_produced) # rest) =
     and_then (ok_or (pubkey_from_str C k) ParsePubkeyError) (\<lambda>identity.
     and_then (production_rate leader_slots blocks_produced) (\<lambda>rate.
     map_ok (\<lambda>m. ([identity \<mapsto> rate] ++ m)) (rates_of C rest)))"

definition get_all_block_production_rates :: "'n rpc_client \<Rightarrow> ('n, pubkey \<rightharpoonup> u64) reads" where
  "get_all_block_production_rates C =
     reads_bind (reads_call (get_block_production C)) (\<lambda>by_identity.
     reads_lift (rates_of C by_identity))"

definition get_account_list :: "'a list_entry \<Rightarrow> pubkey \<Rightarrow> ('n, 'a account_list) reads" where
  "get_account_list LE address =
     reads_bind (get_account address) (\<lambda>acc.
     reads_lift (map_err ProgramErr (account_list_from LE (acc_data acc))))"

definition get_bincode :: "(u8 list \<Rightarrow> 'a option) \<Rightarrow> pubkey \<Rightarrow> ('n, 'a) reads" where
  "get_bincode decode address =
     reads_bind (get_account address) (\<lambda>acc. reads_lift (ok_or (decode (acc_data acc)) BincodeError))"

definition get_unpack :: "(u8 list \<Rightarrow> ('a, program_error) result) \<Rightarrow> pubkey \<Rightarrow> ('n, 'a) reads" where
  "get_unpack decode address =
     reads_bind (get_account address) (\<lambda>acc. reads_lift (map_err ProgramErr (decode (acc_data acc))))"

definition get_account_deserialize :: "(u8 list \<Rightarrow> ('a, program_error) result) \<Rightarrow> pubkey \<Rightarrow> ('n, 'a) reads" where
  "get_account_deserialize try_deserialize address =
     reads_bind (get_account address) (\<lambda>acc. reads_lift (map_err ProgramErr (try_deserialize (acc_data acc))))"

definition get_spl_token_balance :: "'i env \<Rightarrow> pubkey \<Rightarrow> ('n, u64) reads" where
  "get_spl_token_balance E address =
     reads_bind (get_unpack (unpack_token_account E) address) (\<lambda>acc. reads_return (token_balance acc))"

definition get_spl_token_mint :: "'i env \<Rightarrow> pubkey \<Rightarrow> ('n, mint) reads" where
  "get_spl_token_mint E mint_address = get_unpack (unpack_mint E) mint_address"

definition get_rent :: "'i env \<Rightarrow> 'n rpc_client \<Rightarrow> ('n, rent) reads" where
  "get_rent E C = get_bincode (rent_bincode C) (sysvar_rent_id E)"

definition get_clock :: "'i env \<Rightarrow> 'n rpc_client \<Rightarrow> ('n, sysvar_clock) reads" where
  "get_clock E C = get_bincode (clock_bincode C) (sysvar_clock_id E)"

definition get_epoch_schedule :: "'n rpc_client \<Rightarrow> ('n, epoch_schedule) reads" where
  "get_epoch_schedule C = get_bincode (epoch_schedule_bincode C) (epoch_schedule_id C)"

definition get_stake_history :: "'i env \<Rightarrow> 'n rpc_client \<Rightarrow> ('n, stake_history) reads" where
  "get_stake_history E C = get_bincode (stake_history_bincode C) (sysvar_stake_history_id E)"

definition get_latest_blockhash :: "'i env \<Rightarrow> 'n rpc_client \<Rightarrow> ('n, hash) reads" where
  "get_latest_blockhash E C = (\<lambda>s.
     case blockhash s of
       Some h \<Rightarrow> (Ok h, s)
     | None \<Rightarrow>
         reads_bind (get_clock E C) (\<lambda>clk.
         reads_bind (reads_call (\<lambda>n. get_block_with_config C n (clock_slot clk))) (\<lambda>block.
         reads_bind (reads_lift (ok_or (hash_from_str C block) ParseHashError)) (\<lambda>h s.
         (Ok h, s\<lparr>blockhash := Some h\<rparr>)))) s)"

definition get_vote_account :: "'n rpc_client \<Rightarrow> pubkey \<Rightarrow> ('n, vote_state) reads" where
  "get_vote_account C address =
     reads_bind (get_account address) (\<lambda>acc.
     reads_lift (ok_or (vote_state_deserialize C (acc_data acc)) (SerializationError address)))"

definition get_minimum_balance_for_rent_exemption ::
  "'i env \<Rightarrow> 'n rpc_client \<Rightarrow> nat \<Rightarrow> ('n, lamports) reads" where
  "get_minimum_balance_for_rent_exemption E C len =
     reads_bind (get_rent E C) (\<lambda>rent. reads_return (Lamports (minimum_balance rent len)))"

subsection \<open>Validator infos\<close>

definition deserialize_validator_info ::
  "'n rpc_client \<Rightarrow> pubkey \<Rightarrow> u8 list \<Rightarrow> (pubkey \<times> validator_info, cli_error) result" where
  "deserialize_validator_info C config_address account_data =
     and_then (ok_or (config_keys_bincode C account_data) BincodeError) (\<lambda>keys.
     if (validator_info_id C, False) \<notin> set keys then Err (SerializationError config_address)
     else if length keys \<le> 1 then Panic
     else let (validator_identity, identity_signed_config) = keys ! 1 in
       if \<not> identity_signed_config then Err (SerializationError config_address)
       else if length account_data < config_keys_size C keys then Panic
       else
         and_then (ok_or (string_bincode C (drop (config_keys_size C keys) account_data)) BincodeError) (\<lambda>json_data.
         and_then (ok_or (validator_info_json C json_data) JsonError) (\<lambda>info.
         Ok (validator_identity, info))))"

fun info_accounts_loop ::
  "'n rpc_client \<Rightarrow> (pubkey \<rightharpoonup> pubkey) \<Rightarrow> pubkey set \<Rightarrow> (pubkey \<times> account) list \<Rightarrow>
   ((pubkey \<rightharpoonup> pubkey) \<times> pubkey set, cli_error) result" where
  "info_accounts_loop C mapping bad_identities [] = Ok (mapping, bad_identities)"
| "info_accounts_loop C mapping bad_identities ((config_addr, acc) # rest) =
     (case deserialize_validator_info C config_addr (acc_data acc) of
        Ok (validator_identity, info) \<Rightarrow>
          info_accounts_loop C (mapping(validator_identity \<mapsto> config_addr))
            (if mapping validator_identity \<noteq> None then insert validator_identity bad_identities
             else bad_identities) rest
      | Err e \<Rightarrow> info_accounts_loop C mapping bad_identities rest
      | Panic \<Rightarrow> Panic)"

definition get_validator_info_accounts ::
  "'n rpc_client \<Rightarrow> 'n \<Rightarrow> ((pubkey \<rightharpoonup> pubkey), cli_error) result \<times> 'n" where
  "get_validator_info_accounts C n =
     (case get_program_accounts C n (config_program_id C) of (r, n') \<Rightarrow>
       (and_then (map_err ClientErr r) (\<lambda>all_config_accounts.
        map_ok (\<lambda>(mapping, bad_identities). mapping |` (- bad_identities))
          (info_accounts_loop C Map.empty {} all_config_accounts)), n'))"

definition get_validator_info :: "'n rpc_client \<Rightarrow> pubkey \<Rightarrow> ('n, validator_info) reads" where
  "get_validator_info C validator_identity = (\<lambda>s.
     case validator_info_addrs s validator_identity of
       None \<Rightarrow> (Err (MissingValidatorIdentity validator_identity), s)
     | Some config_addr \<Rightarrow>
         reads_bind (get_account config_addr) (\<lambda>config_account.
         reads_bind (reads_lift (deserialize_validator_info C config_addr (acc_data config_account)))
           (\<lambda>(info_identity, info).
         if info_identity = validator_identity then reads_return info
         else reads_fail (MissingValidatorIdentity validator_identity))) s)"

definition get_solido :: "lenv \<Rightarrow> pubkey \<Rightarrow> ('n, lido) reads" where
  "get_solido E solido_address =
     reads_bind (get_account solido_address) (\<lambda>acc.
     reads_lift (ok_or (lido_read E (acc_data acc)) (SerializationError solido_address)))"

subsection \<open>Sending transactions\<close>

primrec confirm_loop ::
  "'n rpc_client \<Rightarrow> signature \<Rightarrow> nat \<Rightarrow> ('n, signature) reads" where
  "confirm_loop C sig 0 = reads_fail (OtherError (ClientErr (ForUser ''Failed to confirm transaction'')))"
| "confirm_loop C sig (Suc k) =
     reads_bind (reads_call (\<lambda>n. confirm_transaction C n sig)) (\<lambda>is_confirmed.
     if is_confirmed then reads_return sig else confirm_loop C sig k)"

definition mark_sent :: "('n, unit) reads" where
  "mark_sent = (\<lambda>s. (Ok (), s\<lparr>sent_transaction := True\<rparr>))"

definition send_and_confirm_transaction :: "'n rpc_client \<Rightarrow> transaction \<Rightarrow> ('n, signature) reads" where
  "send_and_confirm_transaction C tx =
     reads_bind mark_sent (\<lambda>u.
     reads_bind (reads_call (\<lambda>n. send_transaction_with_config C n tx)) (\<lambda>sig.
     confirm_loop C sig 32))"

definition send_and_confirm_transaction_with_spinner ::
  "'n rpc_client \<Rightarrow> transaction \<Rightarrow> ('n, signature) reads" where
  "send_and_confirm_transaction_with_spinner C tx =
     reads_bind mark_sent (\<lambda>u.
     reads_bind (reads_call (\<lambda>n. send_transaction_with_config C n tx)) (\<lambda>sig.
     reads_bind (reads_call (\<lambda>n. confirm_transaction_with_spinner C n sig (recent_blockhash tx))) (\<lambda>u.
     reads_return sig)))"

datatype output_mode = Text | Json

definition sign_transaction ::
  "'i env \<Rightarrow> 'n rpc_client \<Rightarrow> pubkey \<Rightarrow> instruction list \<Rightarrow> pubkey list \<Rightarrow> ('n, transaction) reads" where
  "sign_transaction E C signer instructions signers =
     reads_bind (get_latest_blockhash E C) (\<lambda>h.
     let tx = \<lparr>tx_instructions = instructions, tx_payer = signer, tx_signers = signers, recent_blockhash = h\<rparr> in
     if try_sign C tx then reads_return tx else reads_fail (OtherError SignerError))"

definition sign_and_send_transaction ::
  "'i env \<Rightarrow> 'n rpc_client \<Rightarrow> pubkey \<Rightarrow> output_mode \<Rightarrow> instruction list \<Rightarrow> pubkey list \<Rightarrow>
   ('n, signature) reads" where
  "sign_and_send_transaction E C signer mode instructions signers =
     reads_bind (sign_transaction E C signer instructions signers) (\<lambda>tx.
     case mode of
       Text \<Rightarrow> send_and_confirm_transaction_with_spinner C tx
     | Json \<Rightarrow> send_and_confirm_transaction C tx)"

subsection \<open>Fetching accounts\<close>

record snapshot_client =
  accounts_to_query :: "pubkey ordered_set"
  client_info_addrs :: "pubkey \<rightharpoonup> pubkey"
  max_items_per_call :: nat

definition snapshot_client_new :: snapshot_client where
  "snapshot_client_new =
     \<lparr>accounts_to_query = ordered_set_new, client_info_addrs = Map.empty, max_items_per_call = usize_max\<rparr>"

definition str_contains :: "string \<Rightarrow> string \<Rightarrow> bool" where
  "str_contains s p \<longleftrightarrow> list_ex (\<lambda>i. take (length p) (drop i s) = p) [0..<Suc (length s)]"

definition is_too_many_inputs_error :: "client_error \<Rightarrow> bool" where
  "is_too_many_inputs_error e =
     (case e of RpcResponseError message \<Rightarrow> str_contains message ''Too many inputs provided'' | _ \<Rightarrow> False)"

text \<open>\<open>[T]::chunks\<close>.\<close>

function chunks :: "nat \<Rightarrow> 'a list \<Rightarrow> 'a list list" where
  "chunks k xs = (if xs = [] \<or> k = 0 then [] else take k xs # chunks k (drop k xs))"
  by auto
termination by (relation "measure (\<lambda>(k, xs). length xs)") auto

declare chunks.simps [simp del]

datatype chunk_outcome =
    AllRead "account option list"
  | TooMany nat
  | ReadError client_error
  | ReadPanic

text \<open>The inner loop over the chunks; \<open>TooMany\<close> is \<open>continue 'num_chunks\<close>.\<close>

fun read_chunks ::
  "'n rpc_client \<Rightarrow> account option list \<Rightarrow> pubkey list list \<Rightarrow> 'n \<Rightarrow> chunk_outcome \<times> 'n" where
  "read_chunks C acc [] n = (AllRead acc, n)"
| "read_chunks C acc (chunk # rest) n =
     (case get_multiple_accounts C n chunk of (r, n') \<Rightarrow>
       (case r of
          Ok xs \<Rightarrow> read_chunks C (acc @ xs) rest n'
        | Err e \<Rightarrow> if is_too_many_inputs_error e then (TooMany (length chunk - 1), n') else (ReadError e, n')
        | Panic \<Rightarrow> (ReadPanic, n')))"

text \<open>The outer loop; the assertion ends it when there are more chunks than accounts.\<close>

function num_chunks_loop ::
  "'n rpc_client \<Rightarrow> pubkey list \<Rightarrow> nat \<Rightarrow> nat \<Rightarrow> 'n \<Rightarrow> (account option list, cli_error) result \<times> nat \<times> 'n" where
  "num_chunks_loop C query num_chunks max_items n =
     (let items_per_chunk = length query div num_chunks in
      if items_per_chunk = 0 then (Panic, max_items, n)
      else if max_items < items_per_chunk then num_chunks_loop C query (Suc num_chunks) max_items n
      else case read_chunks C [] (chunks items_per_chunk query) n of (outcome, n') \<Rightarrow>
        (case outcome of
           AllRead xs \<Rightarrow> (if length xs = length query then Ok xs else Panic, max_items, n')
         | TooMany limit \<Rightarrow> num_chunks_loop C query (Suc num_chunks) limit n'
         | ReadError e \<Rightarrow> (Err (ClientErr e), max_items, n')
         | ReadPanic \<Rightarrow> (Panic, max_items, n')))"
  by pat_completeness auto
termination
proof (relation "measure (\<lambda>(C, query, num_chunks, max_items, n). Suc (length query) - num_chunks)")
qed (auto simp: div_eq_0_iff not_less)

declare num_chunks_loop.simps [simp del]

definition get_multiple_accounts_chunked ::
  "'n rpc_client \<Rightarrow> snapshot_client \<Rightarrow> 'n \<Rightarrow> (account option list, cli_error) result \<times> snapshot_client \<times> 'n" where
  "get_multiple_accounts_chunked C client n =
     (if elements_vec (accounts_to_query client) = [] then (Ok [], client, n)
      else case num_chunks_loop C (elements_vec (accounts_to_query client)) 1 (max_items_per_call client) n of
        (r, max_items, n') \<Rightarrow> (r, client\<lparr>max_items_per_call := max_items\<rparr>, n'))"

subsection \<open>The retry loop\<close>

partial_function (option) with_snapshot ::
  "'n rpc_client \<Rightarrow> ('n, 'a) reads \<Rightarrow> snapshot_client \<Rightarrow> 'n \<Rightarrow>
   (('a, cli_error) result \<times> snapshot_client \<times> 'n) option" where
  "with_snapshot C f client n =
     (case get_multiple_accounts_chunked C client n of (r, client, n) \<Rightarrow>
       (case r of
          Panic \<Rightarrow> Some (Panic, client, n)
        | Err e \<Rightarrow> Some (Err e, client, n)
        | Ok account_values \<Rightarrow>
            (case f \<lparr>snapshot_accounts = map_of (zip (elements_vec (accounts_to_query client)) account_values),
                     validator_info_addrs = client_info_addrs client,
                     accounts_referenced = ordered_set_new,
                     sent_transaction = False,
                     blockhash = None,
                     net = n\<rparr> of (r, s) \<Rightarrow>
              (case r of
                 Panic \<Rightarrow> Some (Panic, client, net s)
               | Ok a \<Rightarrow> Some (Ok a, client\<lparr>accounts_to_query := accounts_referenced s\<rparr>, net s)
               | Err e \<Rightarrow>
                   (case e of
                      OtherError err \<Rightarrow> Some (Err err, client, net s)
                    | MissingValidatorIdentity identity_addr \<Rightarrow>
                        (case get_validator_info_accounts C (net s) of (r, n) \<Rightarrow>
                          (case r of
                             Panic \<Rightarrow> Some (Panic, client, n)
                           | Err err \<Rightarrow> Some (Err err, client, n)
                           | Ok addrs \<Rightarrow>
                               (if addrs identity_addr = None
                                then Some (Err (MissingValidatorInfoError identity_addr),
                                           client\<lparr>client_info_addrs := addrs\<rparr>, n)
                                else with_snapshot C f (client\<lparr>client_info_addrs := addrs\<rparr>) n)))
                    | MissingAccount \<Rightarrow>
                        (if sent_transaction s then Some (Panic, client, net s)
                         else with_snapshot C f
                           (client\<lparr>accounts_to_query :=
                              union_with (accounts_referenced s) (accounts_to_query client)\<rparr>) (net s)))))))"

end
