(* ===== verification/Maintenance.thy ===== *)
theory Maintenance
  imports Logic Balance Snapshot
begin

text \<open>
  \<^verbatim>\<open>cli/maintainer/src/maintenance.rs\<close>: the maintainer bot. \<open>SolidoState::new\<close>
  reads the pool, its lists and every account that belongs to a validator; the
  \<open>try_\<close> methods look at that state and propose at most one instruction each;
  \<open>try_perform_maintenance\<close> sends the first proposal. Maintainer duty divides
  time into slices in which one maintainer acts.

  A \<open>try_\<close> method is a function from the state to \<open>'a maybe\<close>: \<open>Ok None\<close> when there
  is nothing to do, \<open>Panic\<close> where the source has \<open>expect\<close>, \<open>assert!\<close> or an index out
  of range. Arithmetic that the source leaves unchecked wraps, as in a release
  build. \<open>SystemTime\<close>, which only labels metrics, is left out of the state.
\<close>

subsection \<open>Control flow\<close>

type_synonym 'a maybe = "('a option, lido_error) result"

text \<open>The question mark operator on an \<open>Option\<close>, and \<open>Option::or_else\<close>.\<close>

definition opt_try :: "'a maybe \<Rightarrow> ('a \<Rightarrow> 'b maybe) \<Rightarrow> 'b maybe" where
  "opt_try m k = and_then m (\<lambda>o'. case o' of None \<Rightarrow> Ok None | Some a \<Rightarrow> k a)"

definition or_else :: "'a maybe \<Rightarrow> 'a maybe \<Rightarrow> 'a maybe" where
  "or_else m m' = and_then m (\<lambda>o'. case o' of None \<Rightarrow> m' | Some a \<Rightarrow> Ok (Some a))"

text \<open>A \<open>for\<close> loop whose body either continues or returns from the function.\<close>

datatype 'b loop_step = Continue | Return "'b option"

fun for_return :: "('a \<Rightarrow> ('b loop_step, lido_error) result) \<Rightarrow> 'a list \<Rightarrow> 'b maybe" where
  "for_return f [] = Ok None"
| "for_return f (x # xs) =
     and_then (f x) (\<lambda>r. case r of Continue \<Rightarrow> for_return f xs | Return o' \<Rightarrow> Ok o')"

definition index_or_panic :: "'a list \<Rightarrow> nat \<Rightarrow> ('a, 'e) result" where
  "index_or_panic xs i = (if i < length xs then Ok (xs ! i) else Panic)"

definition u32_of_usize :: "nat \<Rightarrow> (u32, 'e) result" where
  "u32_of_usize i = (if i < 2 ^ 32 then Ok (word_of_nat i) else Panic)"

text \<open>The operator \<open>>\<close> that \<open>PartialOrd\<close> derives from \<open>partial_cmp\<close>.\<close>

definition rational_gt :: "rational \<Rightarrow> rational \<Rightarrow> bool" where
  "rational_gt a b \<longleftrightarrow> rational_partial_cmp a b = Some Greater"

subsection \<open>Descriptions of maintenance\<close>

record unstake_task =
  un_validator_vote_account :: pubkey
  un_from_stake_account :: pubkey
  un_to_unstake_account :: pubkey
  un_from_stake_seed :: u64
  un_to_unstake_seed :: u64
  un_amount :: lamports

datatype maintenance_output =
    StakeDepositTask pubkey pubkey lamports
  | UpdateExchangeRateTask
  | UpdateOffchainValidatorPerfTask pubkey u64 u64
  | UpdateOnchainValidatorPerfTask pubkey
  | UpdateStakeAccountBalanceTask pubkey lamports lamports
  | MergeStakeTask pubkey pubkey pubkey u64 u64
  | UnstakeFromInactiveValidatorTask unstake_task
  | DeactivateIfViolatesTask pubkey
  | ReactivateIfCompliesTask pubkey
  | RemoveValidatorTask pubkey
  | UnstakeFromActiveValidatorTask unstake_task

record maintenance_instruction =
  mi_instruction :: instruction
  mi_output :: maintenance_output
  additional_signers :: "pubkey list"

definition maintenance_instruction_new :: "instruction \<Rightarrow> maintenance_output \<Rightarrow> maintenance_instruction" where
  "maintenance_instruction_new ins out = \<lparr>mi_instruction = ins, mi_output = out, additional_signers = []\<rparr>"

datatype stake_time = Anytime | OnlyNearEpochEnd

subsection \<open>The state\<close>

record solido_state =
  solido_program_id :: pubkey
  solido_address :: pubkey
  solido :: lido
  validator_stake_accounts :: "(pubkey \<times> stake_account) list list"
  validator_unstake_accounts :: "(pubkey \<times> stake_account) list list"
  validator_vote_account_balances :: "lamports list"
  validator_vote_accounts :: "vote_state option list"
  validator_identity_account_balances :: "lamports list"
  validator_perfs :: "validator_perf option list"
  validator_block_production_rates :: "u64 option list"
  validator_infos :: "validator_info list"
  maintainer_balances :: "lamports list"
  state_st_sol_mint :: mint
  reserve_address :: pubkey
  reserve_account :: account
  state_rent :: rent
  state_clock :: sysvar_clock
  state_epoch_schedule :: epoch_schedule
  state_stake_history :: stake_history
  maintainer_address :: pubkey
  stake_time :: stake_time
  validators :: "validator account_list"
  maintainers :: "maintainer account_list"
  end_of_epoch_threshold :: u8

subsection \<open>Reading the state\<close>

definition seed_iter :: "seed_range \<Rightarrow> u64 list" where
  "seed_iter r = map word_of_nat [unat (seed_begin r)..<unat (seed_end r)]"

definition get_validator_stake_accounts ::
  "lenv \<Rightarrow> pubkey \<Rightarrow> pubkey \<Rightarrow> sysvar_clock \<Rightarrow> stake_history \<Rightarrow> validator \<Rightarrow> stake_type \<Rightarrow>
   ('n, (pubkey \<times> stake_account) list) reads" where
  "get_validator_stake_accounts E program_id address clk history v stake_type =
     (let seeds = (case stake_type of Stake \<Rightarrow> stake_seeds v | stake_type.Unstake \<Rightarrow> unstake_seeds v) in
      reads_map (\<lambda>seed.
        let (addr, bump_seed) =
          find_stake_account_address (find_program_address E) v program_id address seed stake_type in
        reads_bind (get_account addr) (\<lambda>acc.
        reads_lift
          (and_then (expect (deserialize_stake_account (acc_data acc))) (\<lambda>stake.
           and_then (assert (voter_pubkey (stake_delegation stake) = vote_account_address v)) (\<lambda>u.
           and_then (from_delegated_account (stake_status E) (Lamports (acc_lamports acc)) stake
             (clock_epoch clk) history seed) (\<lambda>balance.
           Ok (addr, balance)))))))
        (seed_iter seeds))"

definition get_account_balance_except_rent :: "rent \<Rightarrow> account \<Rightarrow> (lamports, 'e) result" where
  "get_account_balance_except_rent rent acc =
     expect (lamports_sub (Lamports (acc_lamports acc)) (Lamports (minimum_balance rent (length (acc_data acc)))))"

text \<open>The vectors that \<open>SolidoState::new\<close> fills, one round of the loop per validator.\<close>

record state_vectors =
  sv_stake_accounts :: "(pubkey \<times> stake_account) list list"
  sv_unstake_accounts :: "(pubkey \<times> stake_account) list list"
  sv_vote_account_balances :: "lamports list"
  sv_identity_account_balances :: "lamports list"
  sv_vote_accounts :: "vote_state option list"
  sv_perfs :: "validator_perf option list"
  sv_block_production_rates :: "u64 option list"
  sv_infos :: "validator_info list"

definition state_vectors_empty :: state_vectors where
  "state_vectors_empty =
     \<lparr>sv_stake_accounts = [], sv_unstake_accounts = [], sv_vote_account_balances = [],
      sv_identity_account_balances = [], sv_vote_accounts = [], sv_perfs = [],
      sv_block_production_rates = [], sv_infos = []\<rparr>"

definition reads_try :: "('n, 'a) reads \<Rightarrow> ('n, ('a, snapshot_error) result) reads" where
  "reads_try m = (\<lambda>s. case m s of (r, s') \<Rightarrow>
     (case r of Ok a \<Rightarrow> (Ok (Ok a), s') | Err e \<Rightarrow> (Ok (Err e), s') | Panic \<Rightarrow> (Panic, s')))"

definition observe_vote_account ::
  "lenv \<Rightarrow> 'n rpc_client \<Rightarrow> rent \<Rightarrow> validator_perf account_list \<Rightarrow> (pubkey \<rightharpoonup> u64) \<Rightarrow>
   validator \<Rightarrow> account \<Rightarrow> state_vectors \<Rightarrow> ('n, state_vectors) reads" where
  "observe_vote_account E C rent all_perfs all_rates v vote_account sv =
     reads_bind (get_vote_account C (vote_account_address v)) (\<lambda>vs.
     let maybe_perf = List.find (\<lambda>p. le_pubkey (PE E) p = vote_account_address v) (entries all_perfs);
         sv = sv\<lparr>sv_perfs := sv_perfs sv @ [maybe_perf],
                 sv_block_production_rates := sv_block_production_rates sv @ [all_rates (vs_node_pubkey vs)]\<rparr> in
     reads_bind (reads_lift (get_account_balance_except_rent rent vote_account)) (\<lambda>vote_balance.
     let sv = sv\<lparr>sv_vote_account_balances := sv_vote_account_balances sv @ [vote_balance]\<rparr> in
     reads_bind (get_validator_info C (vs_node_pubkey vs)) (\<lambda>info.
     reads_bind (get_account (vs_node_pubkey vs)) (\<lambda>identity_account.
     reads_bind (reads_lift (get_account_balance_except_rent rent identity_account)) (\<lambda>identity_balance.
     reads_return (sv\<lparr>sv_identity_account_balances := sv_identity_account_balances sv @ [identity_balance],
                      sv_infos := sv_infos sv @ [info],
                      sv_vote_accounts := sv_vote_accounts sv @ [Some vs]\<rparr>))))))"

definition observe_validator ::
  "lenv \<Rightarrow> 'n rpc_client \<Rightarrow> pubkey \<Rightarrow> pubkey \<Rightarrow> rent \<Rightarrow> sysvar_clock \<Rightarrow> stake_history \<Rightarrow>
   validator_perf account_list \<Rightarrow> (pubkey \<rightharpoonup> u64) \<Rightarrow> validator \<Rightarrow> state_vectors \<Rightarrow> ('n, state_vectors) reads" where
  "observe_validator E C program_id address rent clk history all_perfs all_rates v sv =
     reads_bind (reads_try (get_account (vote_account_address v))) (\<lambda>r.
     reads_bind
       (case r of
          Ok vote_account \<Rightarrow> observe_vote_account E C rent all_perfs all_rates v vote_account sv
        | Err e \<Rightarrow>
            (case e of
               OtherError err \<Rightarrow> reads_return (sv\<lparr>sv_vote_accounts := sv_vote_accounts sv @ [None]\<rparr>)
             | MissingAccount \<Rightarrow> reads_fail e
             | MissingValidatorIdentity a \<Rightarrow> reads_fail e)
        | Panic \<Rightarrow> reads_lift Panic) (\<lambda>sv.
     reads_bind (get_validator_stake_accounts E program_id address clk history v Stake) (\<lambda>stakes.
     reads_bind (get_validator_stake_accounts E program_id address clk history v stake_type.Unstake) (\<lambda>unstakes.
     reads_return (sv\<lparr>sv_stake_accounts := sv_stake_accounts sv @ [stakes],
                      sv_unstake_accounts := sv_unstake_accounts sv @ [unstakes]\<rparr>)))))"

primrec observe_validators ::
  "(validator \<Rightarrow> state_vectors \<Rightarrow> ('n, state_vectors) reads) \<Rightarrow> validator list \<Rightarrow> state_vectors \<Rightarrow>
   ('n, state_vectors) reads" where
  "observe_validators f [] sv = reads_return sv"
| "observe_validators f (v # vs) sv = reads_bind (f v sv) (observe_validators f vs)"

definition solido_state_new ::
  "lenv \<Rightarrow> 'n rpc_client \<Rightarrow> pubkey \<Rightarrow> pubkey \<Rightarrow> pubkey \<Rightarrow> stake_time \<Rightarrow> u8 \<Rightarrow> ('n, solido_state) reads" where
  "solido_state_new E C signer program_id address time threshold =
     reads_bind (get_solido E address) (\<lambda>pool.
     reads_bind (get_account_list validator_entry (validator_list pool)) (\<lambda>vals.
     reads_bind (get_account_list (PE E) (validator_perf_list pool)) (\<lambda>all_perfs.
     reads_bind (get_account_list maintainer_entry (maintainer_list pool)) (\<lambda>maints.
     reads_bind (reads_lift (map_err ProgramErr (get_reserve_account E pool program_id address))) (\<lambda>reserve.
     reads_bind (get_account reserve) (\<lambda>reserve_acc.
     reads_bind (get_account (st_sol_mint pool)) (\<lambda>mint_acc.
     reads_bind (reads_lift (map_err ProgramErr (unpack_mint E (acc_data mint_acc)))) (\<lambda>mint.
     reads_bind (get_rent E C) (\<lambda>rent.
     reads_bind (get_clock E C) (\<lambda>clk.
     reads_bind (get_epoch_schedule C) (\<lambda>schedule.
     reads_bind (get_stake_history E C) (\<lambda>history.
     reads_bind (get_all_block_production_rates C) (\<lambda>all_rates.
     reads_bind (observe_validators
       (observe_validator E C program_id address rent clk history all_perfs all_rates)
       (entries vals) state_vectors_empty) (\<lambda>sv.
     reads_bind (reads_map (\<lambda>m. reads_bind (get_account (maintainer_pubkey m)) (\<lambda>acc.
       reads_return (Lamports (acc_lamports acc)))) (entries maints)) (\<lambda>balances.
     reads_return
       \<lparr>solido_program_id = program_id, solido_address = address, solido = pool,
        validator_stake_accounts = sv_stake_accounts sv,
        validator_unstake_accounts = sv_unstake_accounts sv,
        validator_vote_account_balances = sv_vote_account_balances sv,
        validator_vote_accounts = sv_vote_accounts sv,
        validator_identity_account_balances = sv_identity_account_balances sv,
        validator_perfs = sv_perfs sv,
        validator_block_production_rates = sv_block_production_rates sv,
        validator_infos = sv_infos sv,
        maintainer_balances = balances,
        state_st_sol_mint = mint,
        reserve_address = reserve,
        reserve_account = reserve_acc,
        state_rent = rent,
        state_clock = clk,
        state_epoch_schedule = schedule,
        state_stake_history = history,
        maintainer_address = signer,
        stake_time = time,
        validators = vals,
        maintainers = maints,
        end_of_epoch_threshold = threshold\<rparr>)))))))))))))))"

subsection \<open>Epoch progress\<close>

definition slots_into_current_epoch :: "solido_state \<Rightarrow> u64" where
  "slots_into_current_epoch st =
     (let first_slot = get_first_slot_in_epoch (state_epoch_schedule st) (clock_epoch (state_clock st)) in
      clock_slot (state_clock st) - first_slot)"

definition is_at_epoch_end :: "solido_state \<Rightarrow> bool" where
  "is_at_epoch_end st =
     (let slots_per_epoch = get_slots_in_epoch (state_epoch_schedule st) (clock_epoch (state_clock st)) in
      rational_ge \<lparr>numerator = slots_into_current_epoch st, denominator = slots_per_epoch\<rparr>
        \<lparr>numerator = ucast (end_of_epoch_threshold st), denominator = 100\<rparr>)"

definition confirm_should_stake_unstake_in_current_slot :: "solido_state \<Rightarrow> unit maybe" where
  "confirm_should_stake_unstake_in_current_slot st =
     (case stake_time st of
        Anytime \<Rightarrow> Ok (Some ())
      | OnlyNearEpochEnd \<Rightarrow>
          let schedule = state_epoch_schedule st;
              slots_epoch_begin = get_first_slot_in_epoch schedule (clock_epoch (state_clock st));
              next_epoch_begin = get_first_slot_in_epoch schedule (clock_epoch (state_clock st) + 1) in
          and_then (unwrap_opt (checked_sub next_epoch_begin slots_epoch_begin)) (\<lambda>slots_per_epoch.
          and_then (unwrap_opt (checked_sub (clock_slot (state_clock st)) slots_epoch_begin)) (\<lambda>slot_past_epoch.
          if rational_gt \<lparr>numerator = slot_past_epoch, denominator = slots_per_epoch\<rparr>
               \<lparr>numerator = ucast (end_of_epoch_threshold st), denominator = 100\<rparr>
          then Ok (Some ()) else Ok None)))"

subsection \<open>Proposals\<close>

definition MINIMUM_WITHDRAW_AMOUNT :: "'n rpc_client \<Rightarrow> lamports" where
  "MINIMUM_WITHDRAW_AMOUNT C = Lamports (default_target_lamports_per_signature C * 100)"

definition UNBALANCE_THRESHOLD :: rational where
  "UNBALANCE_THRESHOLD = \<lparr>numerator = 1, denominator = 10\<rparr>"

definition state_stake_authority :: "lenv \<Rightarrow> solido_state \<Rightarrow> pubkey" where
  "state_stake_authority E st =
     fst (find_authority_program_address (find_program_address E) (solido_program_id st)
       (solido_address st) STAKE_AUTHORITY)"

definition state_mint_authority :: "lenv \<Rightarrow> solido_state \<Rightarrow> pubkey" where
  "state_mint_authority E st =
     fst (find_authority_program_address (find_program_address E) (solido_program_id st)
       (solido_address st) MINT_AUTHORITY)"

definition get_effective_reserve :: "solido_state \<Rightarrow> lamports" where
  "get_effective_reserve st =
     Lamports (saturating_sub (acc_lamports (reserve_account st)) (minimum_balance (state_rent st) 0))"

definition stake_address :: "lenv \<Rightarrow> solido_state \<Rightarrow> validator \<Rightarrow> u64 \<Rightarrow> stake_type \<Rightarrow> pubkey" where
  "stake_address E st v seed stake_type =
     fst (find_stake_account_address (find_program_address E) v (solido_program_id st)
       (solido_address st) seed stake_type)"

definition maintainer_position :: "solido_state \<Rightarrow> u32 maybe" where
  "maintainer_position st = account_list_position maintainer_entry (maintainers st) (maintainer_address st)"

definition validator_position :: "solido_state \<Rightarrow> validator \<Rightarrow> u32 maybe" where
  "validator_position st v = account_list_position validator_entry (validators st) (vote_account_address v)"

definition try_stake_deposit :: "lenv \<Rightarrow> solido_state \<Rightarrow> maintenance_instruction maybe" where
  "try_stake_deposit E st =
     opt_try (confirm_should_stake_unstake_in_current_slot st) (\<lambda>u.
     if iter_active (validators st) = [] then Ok None
     else
       let reserve_balance = get_effective_reserve st in
       and_then (expect (get_target_balance reserve_balance (validators st))) (\<lambda>targets.
       and_then (get_minimum_stake_validator_index_amount (validators st) targets)
         (\<lambda>(validator_index, amount_below_target).
       and_then (index_or_panic (entries (validators st)) validator_index) (\<lambda>v.
       let amount_to_deposit = min amount_below_target reserve_balance;
           amount_to_deposit = max amount_to_deposit MINIMUM_STAKE_ACCOUNT_BALANCE in
       if amount_to_deposit > reserve_balance then Ok None
       else
         and_then (index_or_panic (validator_stake_accounts st) validator_index) (\<lambda>stake_accounts.
         let append_address = stake_address E st v (seed_end (stake_seeds v)) Stake;
             (stake_account_end, account_merge_into) =
               (if stake_accounts \<noteq> [] \<and>
                   sa_activation_epoch (snd (last stake_accounts)) = clock_epoch (state_clock st)
                then (fst (find_temporary_stake_account_address (find_program_address E) v
                        (solido_program_id st) (solido_address st) (seed_end (stake_seeds v))
                        (clock_epoch (state_clock st))), fst (last stake_accounts))
                else (append_address, append_address)) in
         opt_try (maintainer_position st) (\<lambda>maintainer_index.
         and_then (u32_of_usize validator_index) (\<lambda>index.
         Ok (Some (maintenance_instruction_new
           (stake_deposit E (solido_program_id st)
             [solido_address st, maintainer_address st, reserve_address st, vote_account_address v,
              account_merge_into, stake_account_end, state_stake_authority E st,
              validator_list (solido st), maintainer_list (solido st)]
             amount_to_deposit index maintainer_index)
           (StakeDepositTask (vote_account_address v) stake_account_end amount_to_deposit))))))))))"

definition get_unstake_instruction ::
  "lenv \<Rightarrow> solido_state \<Rightarrow> validator \<Rightarrow> pubkey \<times> stake_account \<Rightarrow> lamports \<Rightarrow> (pubkey \<times> instruction) maybe" where
  "get_unstake_instruction E st v stake_account amount =
     (let validator_unstake_account = stake_address E st v (seed_end (unstake_seeds v)) stake_type.Unstake in
      opt_try (validator_position st v) (\<lambda>validator_index.
      opt_try (maintainer_position st) (\<lambda>maintainer_index.
      Ok (Some (validator_unstake_account,
        unstake E (solido_program_id st)
          [solido_address st, maintainer_address st, vote_account_address v, fst stake_account,
           validator_unstake_account, state_stake_authority E st,
           validator_list (solido st), maintainer_list (solido st)]
          amount validator_index maintainer_index)))))"

definition unstake_task_of :: "validator \<Rightarrow> pubkey \<Rightarrow> pubkey \<Rightarrow> lamports \<Rightarrow> unstake_task" where
  "unstake_task_of v from_account to_account amount =
     \<lparr>un_validator_vote_account = vote_account_address v,
      un_from_stake_account = from_account,
      un_to_unstake_account = to_account,
      un_from_stake_seed = seed_begin (stake_seeds v),
      un_to_unstake_seed = seed_end (unstake_seeds v),
      un_amount = amount\<rparr>"

definition try_unstake_from_inactive_validator :: "lenv \<Rightarrow> solido_state \<Rightarrow> maintenance_instruction maybe" where
  "try_unstake_from_inactive_validator E st =
     for_return (\<lambda>(v, stake_accounts).
       if is_active v then Ok Continue
       else if seed_end (unstake_seeds v) - seed_begin (unstake_seeds v) \<ge> MAXIMUM_UNSTAKE_ACCOUNTS
       then Ok Continue
       else if stake_accounts = [] then Ok Continue
       else
         let (addr, stake_account) = hd stake_accounts in
         and_then (stake_balance_total (sa_balance stake_account)) (\<lambda>amount.
         map_ok Return
           (opt_try (get_unstake_instruction E st v (hd stake_accounts) amount) (\<lambda>(unstake_account, ins).
            Ok (Some (maintenance_instruction_new ins
              (UnstakeFromInactiveValidatorTask (unstake_task_of v addr unstake_account amount))))))))
       (zip (entries (validators st)) (validator_stake_accounts st))"

definition try_deactivate_if_violates :: "lenv \<Rightarrow> solido_state \<Rightarrow> maintenance_instruction maybe" where
  "try_deactivate_if_violates E st =
     for_return (\<lambda>(i, v, vote_state).
       if \<not> is_active v then Ok Continue
       else
         and_then
           (case vote_state of
              Some vs \<Rightarrow>
                and_then (index_or_panic (validator_perfs st) i) (\<lambda>perf.
                Ok (does_perform_well (lido_criteria (solido st)) (vs_commission vs) perf))
            | None \<Rightarrow> Ok False) (\<lambda>performs_well.
         if performs_well then Ok Continue
         else Ok (Return (Some (maintenance_instruction_new
           (deactivate_if_violates E (solido_program_id st)
             [solido_address st, vote_account_address v,
              validator_list (solido st), validator_perf_list (solido st)])
           (DeactivateIfViolatesTask (vote_account_address v)))))))
       (enumerate 0 (zip (entries (validators st)) (validator_vote_accounts st)))"

definition try_reactivate_if_complies :: "lenv \<Rightarrow> solido_state \<Rightarrow> maintenance_instruction maybe" where
  "try_reactivate_if_complies E st =
     (if \<not> is_at_epoch_end st then Ok None
      else for_return (\<lambda>(i, v, vote_state).
        and_then
          (if is_inactive v then
             (case vote_state of
                Some vs \<Rightarrow>
                  and_then (index_or_panic (validator_perfs st) i) (\<lambda>perf.
                  Ok (does_perform_well (lido_criteria (solido st)) (vs_commission vs) perf))
              | None \<Rightarrow> Ok False)
           else Ok False) (\<lambda>complies.
        if complies then Ok (Return (Some (maintenance_instruction_new
          (reactivate_if_complies E (solido_program_id st)
            [solido_address st, vote_account_address v,
             validator_list (solido st), validator_perf_list (solido st)])
          (ReactivateIfCompliesTask (vote_account_address v)))))
        else Ok Continue))
        (enumerate 0 (zip (entries (validators st)) (validator_vote_accounts st))))"

definition try_remove_pending_validators :: "lenv \<Rightarrow> solido_state \<Rightarrow> maintenance_instruction maybe" where
  "try_remove_pending_validators E st =
     for_return (\<lambda>(validator_index, v).
       (case check_can_be_removed v of
          Err e \<Rightarrow> Ok Continue
        | Panic \<Rightarrow> Panic
        | Ok u \<Rightarrow>
            and_then (u32_of_usize validator_index) (\<lambda>index.
            Ok (Return (Some (maintenance_instruction_new
              (remove_validator E (solido_program_id st)
                [solido_address st, vote_account_address v, validator_list (solido st)] index)
              (RemoveValidatorTask (vote_account_address v))))))))
       (enumerate 0 (entries (validators st)))"

definition get_merge_instruction ::
  "lenv \<Rightarrow> solido_state \<Rightarrow> validator \<Rightarrow> u64 \<Rightarrow> u64 \<Rightarrow> instruction maybe" where
  "get_merge_instruction E st v from_seed to_seed =
     (let from_stake = stake_address E st v from_seed Stake;
          to_stake = stake_address E st v to_seed Stake in
      opt_try (validator_position st v) (\<lambda>validator_index.
      Ok (Some (merge_stake E (solido_program_id st)
        [solido_address st, vote_account_address v, from_stake, to_stake,
         state_stake_authority E st, validator_list (solido st)] validator_index))))"

definition try_merge_on_all_stakes :: "lenv \<Rightarrow> solido_state \<Rightarrow> maintenance_instruction maybe" where
  "try_merge_on_all_stakes E st =
     for_return (\<lambda>(v, stake_accounts).
       if length stake_accounts > 1 then
         let from_stake = stake_accounts ! 0;
             to_stake = stake_accounts ! 1 in
         if can_merge (snd to_stake) (snd from_stake) then
           map_ok Return
             (opt_try (get_merge_instruction E st v (sa_seed (snd from_stake)) (sa_seed (snd to_stake))) (\<lambda>ins.
              Ok (Some (maintenance_instruction_new ins
                (MergeStakeTask (vote_account_address v) (fst from_stake) (fst to_stake)
                  (sa_seed (snd from_stake)) (sa_seed (snd to_stake)))))))
         else Ok Continue
       else Ok Continue)
       (zip (entries (validators st)) (validator_stake_accounts st))"

definition try_update_exchange_rate :: "lenv \<Rightarrow> solido_state \<Rightarrow> maintenance_instruction maybe" where
  "try_update_exchange_rate E st =
     (if computed_in_epoch (exchange_rate (solido st)) \<ge> clock_epoch (state_clock st) then Ok None
      else Ok (Some (maintenance_instruction_new
        (update_exchange_rate E (solido_program_id st)
          [solido_address st, reserve_address st, st_sol_mint (solido st), validator_list (solido st)])
        UpdateExchangeRateTask)))"

definition do_update_onchain_validator_perfs :: "lenv \<Rightarrow> solido_state \<Rightarrow> maintenance_instruction maybe" where
  "do_update_onchain_validator_perfs E st =
     for_return (\<lambda>(i, v, vote_state).
       case vote_state of
         None \<Rightarrow> Ok Continue
       | Some vs \<Rightarrow>
           and_then (index_or_panic (validator_perfs st) i) (\<lambda>maybe_perf.
           let expired =
                 (case maybe_perf of
                    None \<Rightarrow> True
                  | Some perf \<Rightarrow> commission_updated_at perf < clock_epoch (state_clock st)) \<and>
                 is_at_epoch_end st;
               exceeds_max =
                 (case maybe_perf of
                    None \<Rightarrow> False
                  | Some perf \<Rightarrow> vs_commission vs > max_commission (lido_criteria (solido st)) \<and>
                                 vs_commission vs > commission perf);
               should_update = expired \<or> exceeds_max in
           if \<not> should_update then Ok Continue
           else Ok (Return (Some (maintenance_instruction_new
             (update_onchain_validator_perf E (solido_program_id st)
               [solido_address st, vote_account_address v,
                validator_list (solido st), validator_perf_list (solido st)])
             (UpdateOnchainValidatorPerfTask (vote_account_address v)))))))
       (enumerate 0 (zip (entries (validators st)) (validator_vote_accounts st)))"

definition do_update_offchain_validator_perfs :: "lenv \<Rightarrow> solido_state \<Rightarrow> maintenance_instruction maybe" where
  "do_update_offchain_validator_perfs E st =
     (if \<not> is_at_epoch_end st then Ok None
      else for_return (\<lambda>(i, v).
        and_then (index_or_panic (validator_perfs st) i) (\<lambda>perf.
        let should_update =
              (case perf of
                 None \<Rightarrow> True
               | Some p \<Rightarrow> (case perf_rest p of
                              None \<Rightarrow> True
                            | Some rest \<Rightarrow> clock_epoch (state_clock st) > updated_at rest)) in
        if \<not> should_update then Ok Continue
        else
          and_then (index_or_panic (validator_vote_accounts st) i) (\<lambda>vote_state.
          case vote_state of
            None \<Rightarrow> Ok Continue
          | Some vs \<Rightarrow>
              and_then (index_or_panic (validator_block_production_rates st) i) (\<lambda>rate.
              let block_rate = (case rate of None \<Rightarrow> - 1 | Some r \<Rightarrow> r);
                  slots_per_epoch = get_slots_in_epoch (state_epoch_schedule st) (clock_epoch (state_clock st)) in
              and_then (per64 (min (vs_credits vs) slots_per_epoch) slots_per_epoch) (\<lambda>vote_rate.
              Ok (Return (Some (maintenance_instruction_new
                (update_offchain_validator_perf E (solido_program_id st)
                  [solido_address st, vote_account_address v,
                   validator_list (solido st), validator_perf_list (solido st)] block_rate vote_rate)
                (UpdateOffchainValidatorPerfTask (vote_account_address v) block_rate vote_rate)))))))))
        (enumerate 0 (entries (validators st))))"

definition try_update_validator_perfs :: "lenv \<Rightarrow> solido_state \<Rightarrow> maintenance_instruction maybe" where
  "try_update_validator_perfs E st =
     or_else (or_else (Ok None) (do_update_onchain_validator_perfs E st))
       (do_update_offchain_validator_perfs E st)"

definition sum_stake_accounts ::
  "lamports \<Rightarrow> (pubkey \<times> stake_account) list \<Rightarrow> (lamports \<times> lamports, lido_error) result" where
  "sum_stake_accounts stake_rent =
     try_fold (\<lambda>(total_stake_balance, can_be_withdrawn) (addr, detail).
       and_then (stake_balance_total (sa_balance detail)) (\<lambda>t.
       and_then (expect (lamports_add total_stake_balance t)) (\<lambda>total_stake_balance.
       and_then (expect (lamports_sub (inactive (sa_balance detail)) stake_rent)) (\<lambda>diff.
       and_then (expect (lamports_add can_be_withdrawn diff)) (\<lambda>can_be_withdrawn.
       Ok (total_stake_balance, can_be_withdrawn))))))
       (Lamports 0, Lamports 0)"

fun sum_removed_unstake :: "lamports \<Rightarrow> (pubkey \<times> stake_account) list \<Rightarrow> (lamports, lido_error) result" where
  "sum_removed_unstake removed [] = Ok removed"
| "sum_removed_unstake removed ((addr, a) # rest) =
     and_then (stake_balance_total (sa_balance a)) (\<lambda>t.
     if inactive (sa_balance a) \<noteq> t then Ok removed
     else and_then (expect (lamports_add removed t)) (\<lambda>removed. sum_removed_unstake removed rest))"

definition try_update_stake_account_balance ::
  "lenv \<Rightarrow> 'n rpc_client \<Rightarrow> solido_state \<Rightarrow> maintenance_instruction maybe" where
  "try_update_stake_account_balance E C st =
     for_return (\<lambda>(validator_index, v, stake_accounts, unstake_accounts).
       let stake_rent = Lamports (minimum_balance (state_rent st) (unat (stake_state_size E))) in
       and_then (sum_stake_accounts stake_rent stake_accounts) (\<lambda>(total_stake_balance, can_be_withdrawn).
       and_then (compute_effective_stake_balance v) (\<lambda>eff.
       and_then
         (if total_stake_balance > eff then expect (lamports_sub total_stake_balance eff)
          else Ok can_be_withdrawn) (\<lambda>expected_difference_stake.
       and_then (sum_removed_unstake (Lamports 0) unstake_accounts) (\<lambda>removed_unstake.
       if expected_difference_stake > MINIMUM_WITHDRAW_AMOUNT C \<or> removed_unstake > Lamports 0 then
         and_then (u32_of_usize validator_index) (\<lambda>index.
         Ok (Return (Some (maintenance_instruction_new
           (update_stake_account_balance E (solido_program_id st)
             [solido_address st, vote_account_address v, state_stake_authority E st, reserve_address st,
              st_sol_mint (solido st), state_mint_authority E st,
              treasury_account (fee_recipients (solido st)), developer_account (fee_recipients (solido st)),
              validator_list (solido st)]
             (map fst stake_accounts @ map fst unstake_accounts) index)
           (UpdateStakeAccountBalanceTask (vote_account_address v) expected_difference_stake removed_unstake)))))
       else Ok Continue)))))
       (zip [0..<length (entries (validators st))]
         (zip (entries (validators st)) (zip (validator_stake_accounts st) (validator_unstake_accounts st))))"

definition try_unstake_from_active_validators :: "lenv \<Rightarrow> solido_state \<Rightarrow> maintenance_instruction maybe" where
  "try_unstake_from_active_validators E st =
     opt_try (confirm_should_stake_unstake_in_current_slot st) (\<lambda>u.
     if iter_active (validators st) = [] then Ok None
     else
       and_then (expect (get_target_balance (get_effective_reserve st) (validators st))) (\<lambda>targets.
       opt_try (get_unstake_validator_index (validators st) targets UNBALANCE_THRESHOLD)
         (\<lambda>(validator_index, unstake_amount).
       and_then (index_or_panic (entries (validators st)) validator_index) (\<lambda>v.
       and_then (index_or_panic (validator_stake_accounts st) validator_index) (\<lambda>stake_accounts.
       if stake_accounts = [] then Ok None
       else
         let stake_account = hd stake_accounts in
         and_then (stake_balance_total (sa_balance (snd stake_account))) (\<lambda>total_balance.
         and_then (expect (lamports_sub total_balance MINIMUM_STAKE_ACCOUNT_BALANCE)) (\<lambda>maximum_unstake.
         let amount = min unstake_amount maximum_unstake in
         if amount < MINIMUM_STAKE_ACCOUNT_BALANCE then Ok None
         else
           opt_try (get_unstake_instruction E st v stake_account amount) (\<lambda>(unstake_account, ins).
           Ok (Some (maintenance_instruction_new ins
             (UnstakeFromActiveValidatorTask (unstake_task_of v (fst stake_account) unstake_account amount))))))))))))"

subsection \<open>Maintainer duty\<close>

definition MAINTAINER_DUTY_SLICE_LENGTH :: u64 where
  "MAINTAINER_DUTY_SLICE_LENGTH = 100"

definition MAINTAINER_DUTY_PAUSE_LENGTH :: u64 where
  "MAINTAINER_DUTY_PAUSE_LENGTH = 10"

definition get_current_maintainer_duty :: "solido_state \<Rightarrow> pubkey option" where
  "get_current_maintainer_duty st =
     (if entries (maintainers st) = [] then None
      else
        let duty_slice = clock_slot (state_clock st) div MAINTAINER_DUTY_SLICE_LENGTH;
            slot_in_duty_slice = clock_slot (state_clock st) mod MAINTAINER_DUTY_SLICE_LENGTH in
        if slot_in_duty_slice \<ge> MAINTAINER_DUTY_SLICE_LENGTH - MAINTAINER_DUTY_PAUSE_LENGTH then None
        else
          let maintainer_index = duty_slice mod word_of_nat (length (entries (maintainers st))) in
          Some (maintainer_pubkey (entries (maintainers st) ! unat maintainer_index)))"

definition get_next_maintainer_duty_slot :: "solido_state \<Rightarrow> pubkey \<Rightarrow> u64 option" where
  "get_next_maintainer_duty_slot st maintainer =
     (if entries (maintainers st) = [] then None
      else
        let cycle_length = word_of_nat (length (entries (maintainers st))) * MAINTAINER_DUTY_SLICE_LENGTH;
            current_cycle_start_slot = (clock_slot (state_clock st) div cycle_length) * cycle_length in
        case position (\<lambda>m. maintainer_pubkey m = maintainer) (entries (maintainers st)) of
          None \<Rightarrow> None
        | Some self_index \<Rightarrow>
            let self_slice_start_slot =
                  current_cycle_start_slot + word_of_nat self_index * MAINTAINER_DUTY_SLICE_LENGTH in
            if self_slice_start_slot \<le> clock_slot (state_clock st)
            then Some (self_slice_start_slot + cycle_length)
            else Some self_slice_start_slot)"

subsection \<open>Performing maintenance\<close>

definition minimum_maintainer_balance :: lamports where
  "minimum_maintainer_balance = Lamports 100000000"

definition maintainer_is_poor :: "solido_state \<Rightarrow> bool" where
  "maintainer_is_poor st =
     (case filter (\<lambda>(m, balance). maintainer_pubkey m = maintainer_address st)
             (zip (entries (maintainers st)) (maintainer_balances st)) of
        [] \<Rightarrow> False
      | (m, balance) # rest \<Rightarrow> balance < minimum_maintainer_balance)"

definition select_maintenance ::
  "lenv \<Rightarrow> 'n rpc_client \<Rightarrow> solido_state \<Rightarrow> maintenance_instruction maybe" where
  "select_maintenance E C st =
     or_else (or_else (or_else (or_else (or_else (or_else (or_else (or_else (or_else (or_else (Ok None)
       (try_merge_on_all_stakes E st))
       (try_update_exchange_rate E st))
       (try_update_validator_perfs E st))
       (try_reactivate_if_complies E st))
       (try_unstake_from_inactive_validator E st))
       (try_update_stake_account_balance E C st))
       (try_deactivate_if_violates E st))
       (try_stake_deposit E st))
       (try_unstake_from_active_validators E st))
       (try_remove_pending_validators E st)"

definition try_perform_maintenance ::
  "lenv \<Rightarrow> 'n rpc_client \<Rightarrow> pubkey \<Rightarrow> output_mode \<Rightarrow> solido_state \<Rightarrow> ('n, maintenance_output option) reads" where
  "try_perform_maintenance E C signer mode st =
     (if maintainer_is_poor st then reads_fail (OtherError MaintenanceError)
      else
        reads_bind (reads_lift (expect (select_maintenance E C st))) (\<lambda>instruction_output.
        case instruction_output of
          None \<Rightarrow> reads_return None
        | Some mi \<Rightarrow>
            reads_bind (sign_and_send_transaction E C signer mode [mi_instruction mi]
              (signer # additional_signers mi)) (\<lambda>sig.
            reads_return (Some (mi_output mi)))))"

definition run_perform_maintenance ::
  "lenv \<Rightarrow> 'n rpc_client \<Rightarrow> pubkey \<Rightarrow> output_mode \<Rightarrow> pubkey \<Rightarrow> pubkey \<Rightarrow> stake_time \<Rightarrow> u8 \<Rightarrow>
   ('n, maintenance_output option) reads" where
  "run_perform_maintenance E C signer mode program_id address time threshold =
     reads_bind (solido_state_new E C signer program_id address time threshold) (\<lambda>st.
     try_perform_maintenance E C signer mode st)"

end
