(* ===== verification/Config.thy ===== *)
theory Config
  imports Maintenance
begin

text \<open>
  \<^verbatim>\<open>cli/maintainer/src/config.rs\<close> and the option handling of \<^verbatim>\<open>main.rs\<close> and
  \<^verbatim>\<open>commands_multisig.rs\<close>: where the command line tool gets its options from. The macro
  \<open>cli_opt_struct!\<close> turns a list of fields into a struct of optional values and a method that fills
  the missing ones from a config file, from environment variables and from defaults. Here the list of fields
  is a value of type \<open>field_spec list\<close>, the struct is a partial map from field names to values, and the
  generated method is one function on both. Every use of the macro is a definition of such a list.

  A call of \<open>std::process::exit\<close> is the error \<open>Exit\<close> with its argument. The operating system, the
  JSON parser and base58 are the parameter \<open>host\<close>. The values that clap has read from the command
  line are the initial map.
\<close>

datatype exit = Exit nat

datatype (plugins only: code size) json_value =
    JNull
  | JBool bool
  | JNumber string
  | JString string
  | JArray "json_value list"
  | JObject "(string \<times> json_value) list"

record host =
  env_var :: "string \<Rightarrow> string option"
  read_file :: "string \<Rightarrow> string option"
  json_from_slice :: "string \<Rightarrow> json_value option"
  parse_pubkey :: "string \<Rightarrow> pubkey option"

record config_file =
  config_values :: json_value

subsection \<open>Reading one value\<close>

text \<open>\<open>serde_json::Value::get\<close> with a string: only objects have such members.\<close>

definition json_get :: "json_value \<Rightarrow> string \<Rightarrow> json_value option" where
  "json_get v name = (case v of JObject members \<Rightarrow> map_of members name | _ \<Rightarrow> None)"

definition get_option_from_config ::
  "(string \<Rightarrow> 'a option) \<Rightarrow> string \<Rightarrow> config_file option \<Rightarrow> ('a option, exit) result" where
  "get_option_from_config from_str name cf =
     (case cf of
        None \<Rightarrow> Ok None
      | Some file \<Rightarrow>
          (case json_get (config_values file) name of
             None \<Rightarrow> Ok None
           | Some (JString str_value) \<Rightarrow>
               (case from_str str_value of None \<Rightarrow> Err (Exit 1) | Some t \<Rightarrow> Ok (Some t))
           | Some _ \<Rightarrow> Ok None))"

definition get_option_from_env ::
  "host \<Rightarrow> (string \<Rightarrow> 'a option) \<Rightarrow> string \<Rightarrow> ('a option, exit) result" where
  "get_option_from_env H from_str str_key =
     (case env_var H str_key of
        None \<Rightarrow> Ok None
      | Some text \<Rightarrow> (case from_str text of Some t \<Rightarrow> Ok (Some t) | None \<Rightarrow> Err (Exit 1)))"

subsection \<open>Types of fields and their parsers\<close>

datatype (plugins only: code size) opt_type =
    StringT | PathT | PubkeyT | PubkeyVecT | U64T | U32T | U8T | BoolT
  | LamportsT | StLamportsT | OutputModeT | StakeTimeT

datatype (plugins only: code size) opt_value =
    StringV string | PathV string | PubkeyV pubkey | PubkeyVecV "pubkey list"
  | U64V u64 | U32V u32 | U8V u8 | BoolV bool
  | LamportsV lamports | StLamportsV st_lamports | OutputModeV output_mode | StakeTimeV stake_time

text \<open>\<open>str::split\<close> with a character, and the parser of unsigned integers of the standard library.\<close>

fun split_on :: "char \<Rightarrow> string \<Rightarrow> string list" where
  "split_on c [] = [[]]"
| "split_on c (x # s) =
     (if x = c then [] # split_on c s
      else (case split_on c s of [] \<Rightarrow> [[x]] | y # ys \<Rightarrow> (x # y) # ys))"

definition is_digit :: "char \<Rightarrow> bool" where
  "is_digit c \<longleftrightarrow> (48 :: nat) \<le> of_char c \<and> of_char c \<le> (57 :: nat)"

definition digits_value :: "string \<Rightarrow> nat" where
  "digits_value s = foldl (\<lambda>v c. v * 10 + (of_char c - 48)) 0 s"

definition uint_from_str :: "string \<Rightarrow> 'w::len word option" where
  "uint_from_str s =
     (let digits = (case s of c # rest \<Rightarrow> if c = CHR ''+'' then rest else s | [] \<Rightarrow> []) in
      if digits = [] \<or> \<not> list_all is_digit digits \<or> 2 ^ LENGTH('w) \<le> digits_value digits then None
      else Some (word_of_nat (digits_value digits)))"

definition bool_from_str :: "string \<Rightarrow> bool option" where
  "bool_from_str s = (if s = ''true'' then Some True else if s = ''false'' then Some False else None)"

definition pubkey_vec_from_str :: "host \<Rightarrow> string \<Rightarrow> pubkey list option" where
  "pubkey_vec_from_str H s = those (map (parse_pubkey H) (split_on (CHR '','') s))"

definition stake_time_from_str :: "string \<Rightarrow> stake_time option" where
  "stake_time_from_str s =
     (if s = ''anytime'' then Some Anytime
      else if s = ''only-near-epoch-end'' then Some OnlyNearEpochEnd
      else None)"

definition output_mode_from_str :: "string \<Rightarrow> output_mode option" where
  "output_mode_from_str s =
     (if s = ''text'' then Some Text else if s = ''json'' then Some Json else None)"

definition ok_option :: "('a, 'e) result \<Rightarrow> 'a option" where
  "ok_option r = (case r of Ok a \<Rightarrow> Some a | _ \<Rightarrow> None)"

definition opt_from_str :: "host \<Rightarrow> opt_type \<Rightarrow> string \<Rightarrow> opt_value option" where
  "opt_from_str H ty s =
     (case ty of
        StringT \<Rightarrow> Some (StringV s)
      | PathT \<Rightarrow> Some (PathV s)
      | PubkeyT \<Rightarrow> map_option PubkeyV (parse_pubkey H s)
      | PubkeyVecT \<Rightarrow> map_option PubkeyVecV (pubkey_vec_from_str H s)
      | U64T \<Rightarrow> map_option U64V (uint_from_str s)
      | U32T \<Rightarrow> map_option U32V (uint_from_str s)
      | U8T \<Rightarrow> map_option U8V (uint_from_str s)
      | BoolT \<Rightarrow> map_option BoolV (bool_from_str s)
      | LamportsT \<Rightarrow> map_option LamportsV (ok_option (lamports_from_str s))
      | StLamportsT \<Rightarrow> map_option StLamportsV (ok_option (st_lamports_from_str s))
      | OutputModeT \<Rightarrow> map_option OutputModeV (output_mode_from_str s)
      | StakeTimeT \<Rightarrow> map_option StakeTimeV (stake_time_from_str s))"

subsection \<open>The macro\<close>

type_synonym opts = "string \<rightharpoonup> opt_value"

record field_spec =
  field_name :: string
  field_type :: opt_type
  field_default :: "host \<Rightarrow> (opt_value option, exit) result"

definition required :: "string \<Rightarrow> opt_type \<Rightarrow> field_spec" where
  "required name ty = \<lparr>field_name = name, field_type = ty, field_default = (\<lambda>H. Ok None)\<rparr>"

definition defaulted :: "string \<Rightarrow> opt_type \<Rightarrow> opt_value \<Rightarrow> field_spec" where
  "defaulted name ty v = \<lparr>field_name = name, field_type = ty, field_default = (\<lambda>H. Ok (Some v))\<rparr>"

definition ascii_uppercase :: "char \<Rightarrow> char" where
  "ascii_uppercase c =
     (if (97 :: nat) \<le> of_char c \<and> of_char c \<le> (122 :: nat) then char_of ((of_char c :: nat) - 32) else c)"

definition env_var_name :: "string \<Rightarrow> string" where
  "env_var_name str_field = ''SOLIDO_'' @ map ascii_uppercase str_field"

definition opt_or :: "'a option \<Rightarrow> 'a option \<Rightarrow> 'a option" where
  "opt_or a b = (case a of Some x \<Rightarrow> Some x | None \<Rightarrow> b)"

definition merge_field ::
  "host \<Rightarrow> config_file option \<Rightarrow> field_spec \<Rightarrow> opt_value option \<Rightarrow> (opt_value option, exit) result" where
  "merge_field H cf f from_cli =
     and_then (get_option_from_config (opt_from_str H (field_type f)) (field_name f) cf) (\<lambda>from_config.
     and_then (field_default f H) (\<lambda>default.
     and_then (get_option_from_env H (opt_from_str H (field_type f)) (env_var_name (field_name f))) (\<lambda>env_option.
     Ok (opt_or (opt_or (opt_or from_cli from_config) env_option) default))))"

fun merge_fields ::
  "host \<Rightarrow> config_file option \<Rightarrow> field_spec list \<Rightarrow> opts \<Rightarrow> bool \<Rightarrow> (opts \<times> bool, exit) result" where
  "merge_fields H cf [] self failed = Ok (self, failed)"
| "merge_fields H cf (f # fs) self failed =
     and_then (merge_field H cf f (self (field_name f))) (\<lambda>v.
     merge_fields H cf fs (self(field_name f := v)) (failed \<or> v = None))"

definition merge_with_config_and_environment ::
  "host \<Rightarrow> field_spec list \<Rightarrow> config_file option \<Rightarrow> opts \<Rightarrow> (opts, exit) result" where
  "merge_with_config_and_environment H spec cf self =
     and_then (merge_fields H cf spec self False) (\<lambda>(self, failed).
     if failed then Err (Exit 1) else Ok self)"

text \<open>The getters, one for every field; they unwrap the value.\<close>

definition opt_string :: "opts \<Rightarrow> string \<Rightarrow> (string, 'e) result" where
  "opt_string self name = (case self name of Some (StringV s) \<Rightarrow> Ok s | _ \<Rightarrow> Panic)"

definition opt_path :: "opts \<Rightarrow> string \<Rightarrow> (string, 'e) result" where
  "opt_path self name = (case self name of Some (PathV s) \<Rightarrow> Ok s | _ \<Rightarrow> Panic)"

definition opt_pubkey :: "opts \<Rightarrow> string \<Rightarrow> (pubkey, 'e) result" where
  "opt_pubkey self name = (case self name of Some (PubkeyV k) \<Rightarrow> Ok k | _ \<Rightarrow> Panic)"

definition opt_pubkey_vec :: "opts \<Rightarrow> string \<Rightarrow> (pubkey list, 'e) result" where
  "opt_pubkey_vec self name = (case self name of Some (PubkeyVecV ks) \<Rightarrow> Ok ks | _ \<Rightarrow> Panic)"

definition opt_u64 :: "opts \<Rightarrow> string \<Rightarrow> (u64, 'e) result" where
  "opt_u64 self name = (case self name of Some (U64V n) \<Rightarrow> Ok n | _ \<Rightarrow> Panic)"

definition opt_u32 :: "opts \<Rightarrow> string \<Rightarrow> (u32, 'e) result" where
  "opt_u32 self name = (case self name of Some (U32V n) \<Rightarrow> Ok n | _ \<Rightarrow> Panic)"

definition opt_u8 :: "opts \<Rightarrow> string \<Rightarrow> (u8, 'e) result" where
  "opt_u8 self name = (case self name of Some (U8V n) \<Rightarrow> Ok n | _ \<Rightarrow> Panic)"

definition opt_bool :: "opts \<Rightarrow> string \<Rightarrow> (bool, 'e) result" where
  "opt_bool self name = (case self name of Some (BoolV b) \<Rightarrow> Ok b | _ \<Rightarrow> Panic)"

definition opt_lamports :: "opts \<Rightarrow> string \<Rightarrow> (lamports, 'e) result" where
  "opt_lamports self name = (case self name of Some (LamportsV a) \<Rightarrow> Ok a | _ \<Rightarrow> Panic)"

definition opt_st_lamports :: "opts \<Rightarrow> string \<Rightarrow> (st_lamports, 'e) result" where
  "opt_st_lamports self name = (case self name of Some (StLamportsV a) \<Rightarrow> Ok a | _ \<Rightarrow> Panic)"

definition opt_output_mode :: "opts \<Rightarrow> string \<Rightarrow> (output_mode, 'e) result" where
  "opt_output_mode self name = (case self name of Some (OutputModeV m) \<Rightarrow> Ok m | _ \<Rightarrow> Panic)"

definition opt_stake_time :: "opts \<Rightarrow> string \<Rightarrow> (stake_time, 'e) result" where
  "opt_stake_time self name = (case self name of Some (StakeTimeV t) \<Rightarrow> Ok t | _ \<Rightarrow> Panic)"

lemmas getter_defs = opt_string_def opt_path_def opt_pubkey_def opt_pubkey_vec_def opt_u64_def opt_u32_def
  opt_u8_def opt_bool_def opt_lamports_def opt_st_lamports_def opt_output_mode_def opt_stake_time_def

subsection \<open>The config file and the default key\<close>

definition read_config :: "host \<Rightarrow> string \<Rightarrow> (config_file, exit) result" where
  "read_config H config_path =
     (case read_file H config_path of
        None \<Rightarrow> Err (Exit 0x0100)
      | Some content \<Rightarrow>
          (case json_from_slice H content of
             None \<Rightarrow> Panic
           | Some values \<Rightarrow> Ok \<lparr>config_values = values\<rparr>))"

text \<open>\<open>PathBuf::push\<close> of a relative path.\<close>

definition path_push :: "string \<Rightarrow> string \<Rightarrow> string" where
  "path_push base rel = (if base = [] \<or> last base = CHR ''/'' then base @ rel else base @ ''/'' @ rel)"

definition get_default_keypair_path :: "host \<Rightarrow> (string, exit) result" where
  "get_default_keypair_path H =
     (case env_var H ''HOME'' of
        None \<Rightarrow> Panic
      | Some home \<Rightarrow> Ok (path_push home ''.config/solana/id.json''))"

definition default_keypair_path :: "host \<Rightarrow> (opt_value option, exit) result" where
  "default_keypair_path H = map_ok (\<lambda>p. Some (PathV p)) (get_default_keypair_path H)"

subsection \<open>The option structs\<close>

definition general_opts :: "field_spec list" where
  "general_opts =
    [defaulted ''keypair'' StringT (StringV ''''),
     \<lparr>field_name = ''keypair_path'', field_type = PathT, field_default = default_keypair_path\<rparr>,
     defaulted ''cluster'' StringT (StringV ''http://127.0.0.1:8899''),
     defaulted ''output_mode'' OutputModeT (OutputModeV Text),
     defaulted ''config'' PathT (PathV '''')]"

definition create_solido_opts :: "field_spec list" where
  "create_solido_opts =
    [required ''solido_program_id'' PubkeyT,
     required ''max_validators'' U32T,
     required ''max_maintainers'' U32T,
     required ''max_commission'' U8T,
     required ''min_vote_success_rate'' U64T,
     required ''min_block_production_rate'' U64T,
     required ''min_uptime'' U64T,
     required ''treasury_fee_share'' U32T,
     required ''developer_fee_share'' U32T,
     required ''st_sol_appreciation_share'' U32T,
     required ''treasury_account_owner'' PubkeyT,
     required ''developer_account_owner'' PubkeyT,
     defaulted ''mint_address'' PubkeyT (PubkeyV 0),
     defaulted ''solido_key_path'' PathT (PathV ''''),
     defaulted ''validator_list_key_path'' PathT (PathV ''''),
     defaulted ''validator_perf_list_key_path'' PathT (PathV ''''),
     defaulted ''maintainer_list_key_path'' PathT (PathV ''''),
     required ''multisig_address'' PubkeyT,
     required ''multisig_program_id'' PubkeyT]"

definition deposit_opts :: "field_spec list" where
  "deposit_opts =
    [required ''solido_program_id'' PubkeyT,
     required ''solido_address'' PubkeyT,
     required ''amount_sol'' LamportsT]"

definition withdraw_opts :: "field_spec list" where
  "withdraw_opts =
    [required ''solido_program_id'' PubkeyT,
     required ''solido_address'' PubkeyT,
     required ''amount_st_sol'' StLamportsT]"

definition add_validator_opts :: "field_spec list" where
  "add_validator_opts =
    [required ''solido_program_id'' PubkeyT,
     required ''solido_address'' PubkeyT,
     required ''validator_vote_account'' PubkeyT,
     required ''multisig_address'' PubkeyT,
     required ''multisig_program_id'' PubkeyT]"

definition deactivate_validator_opts :: "field_spec list" where
  "deactivate_validator_opts =
    [required ''solido_program_id'' PubkeyT,
     required ''solido_address'' PubkeyT,
     required ''validator_vote_account'' PubkeyT,
     required ''multisig_address'' PubkeyT,
     required ''multisig_program_id'' PubkeyT]"

definition deactivate_if_violates_opts :: "field_spec list" where
  "deactivate_if_violates_opts =
    [required ''solido_program_id'' PubkeyT,
     required ''solido_address'' PubkeyT]"

definition add_remove_maintainer_opts :: "field_spec list" where
  "add_remove_maintainer_opts =
    [required ''solido_program_id'' PubkeyT,
     required ''solido_address'' PubkeyT,
     required ''maintainer_address'' PubkeyT,
     required ''multisig_address'' PubkeyT,
     required ''multisig_program_id'' PubkeyT]"

definition show_solido_opts :: "field_spec list" where
  "show_solido_opts =
    [required ''solido_address'' PubkeyT,
     required ''solido_program_id'' PubkeyT]"

definition show_solido_authorities_opts :: "field_spec list" where
  "show_solido_authorities_opts =
    [required ''solido_address'' PubkeyT,
     required ''solido_program_id'' PubkeyT]"

definition perform_maintenance_opts :: "field_spec list" where
  "perform_maintenance_opts =
    [required ''solido_program_id'' PubkeyT,
     required ''solido_address'' PubkeyT,
     defaulted ''stake_time'' StakeTimeT (StakeTimeV OnlyNearEpochEnd),
     defaulted ''end_of_epoch_threshold'' U8T (U8V 95)]"

definition change_criteria_opts :: "field_spec list" where
  "change_criteria_opts =
    [required ''solido_program_id'' PubkeyT,
     required ''solido_address'' PubkeyT,
     required ''max_commission'' U8T,
     required ''min_block_production_rate'' U64T,
     required ''min_vote_success_rate'' U64T,
     required ''min_uptime'' U64T,
     required ''multisig_address'' PubkeyT,
     required ''multisig_program_id'' PubkeyT]"

definition remove_validator_opts :: "field_spec list" where
  "remove_validator_opts =
    [required ''solido_program_id'' PubkeyT,
     required ''solido_address'' PubkeyT,
     required ''validator_vote_account'' PubkeyT,
     required ''multisig_address'' PubkeyT,
     required ''multisig_program_id'' PubkeyT]"

definition create_multisig_opts :: "field_spec list" where
  "create_multisig_opts =
    [required ''threshold'' U64T,
     required ''owners'' PubkeyVecT,
     required ''multisig_program_id'' PubkeyT]"

definition propose_upgrade_opts :: "field_spec list" where
  "propose_upgrade_opts =
    [required ''multisig_address'' PubkeyT,
     required ''program_address'' PubkeyT,
     required ''buffer_address'' PubkeyT,
     required ''spill_address'' PubkeyT,
     required ''multisig_program_id'' PubkeyT]"

definition show_multisig_opts :: "field_spec list" where
  "show_multisig_opts =
    [required ''multisig_address'' PubkeyT,
     required ''multisig_program_id'' PubkeyT]"

definition show_transaction_opts :: "field_spec list" where
  "show_transaction_opts =
    [required ''transaction_address'' PubkeyT,
     required ''solido_program_id'' PubkeyT,
     required ''multisig_program_id'' PubkeyT]"

definition approve_opts :: "field_spec list" where
  "approve_opts =
    [required ''multisig_address'' PubkeyT,
     required ''transaction_address'' PubkeyT,
     required ''multisig_program_id'' PubkeyT]"

definition execute_transaction_opts :: "field_spec list" where
  "execute_transaction_opts =
    [required ''multisig_address'' PubkeyT,
     required ''transaction_address'' PubkeyT,
     required ''multisig_program_id'' PubkeyT]"

definition approve_batch_opts :: "field_spec list" where
  "approve_batch_opts =
    [required ''multisig_address'' PubkeyT,
     required ''transaction_addresses_path'' PathT,
     required ''multisig_program_id'' PubkeyT,
     required ''solido_program_id'' PubkeyT,
     required ''silent'' BoolT]"

definition propose_change_multisig_opts :: "field_spec list" where
  "propose_change_multisig_opts =
    [required ''multisig_address'' PubkeyT,
     required ''threshold'' U64T,
     required ''owners'' PubkeyVecT,
     required ''multisig_program_id'' PubkeyT]"

definition set_upgrade_authority_opts :: "field_spec list" where
  "set_upgrade_authority_opts =
    [required ''multisig_address'' PubkeyT,
     required ''multisig_program_id'' PubkeyT,
     required ''program_id'' PubkeyT,
     required ''new_authority'' PubkeyT]"

definition propose_owner_multisig_opts :: "field_spec list" where
  "propose_owner_multisig_opts =
    [required ''multisig_address'' PubkeyT,
     required ''owner'' PubkeyT,
     required ''multisig_program_id'' PubkeyT]"

definition run_maintainer_opts :: "field_spec list" where
  "run_maintainer_opts =
    [required ''solido_program_id'' PubkeyT,
     required ''solido_address'' PubkeyT,
     defaulted ''listen'' StringT (StringV ''0.0.0.0:8923''),
     defaulted ''max_poll_interval_seconds'' U64T (U64V 30),
     defaulted ''stake_time'' StakeTimeT (StakeTimeV OnlyNearEpochEnd),
     defaulted ''end_of_epoch_threshold'' U8T (U8V 95)]"

definition transfer_token_opts :: "field_spec list" where
  "transfer_token_opts =
    [required ''multisig_program_id'' PubkeyT,
     required ''multisig_address'' PubkeyT,
     required ''from_address'' PubkeyT,
     required ''to_address'' PubkeyT,
     required ''amount'' U64T]"

definition create_token_pool_opts :: "field_spec list" where
  "create_token_pool_opts =
    [required ''token_swap_program_id'' PubkeyT,
     required ''ust_mint_address'' PubkeyT,
     required ''st_sol_account'' PubkeyT,
     required ''ust_account'' PubkeyT]"

definition create_v2_accounts_opts :: "field_spec list" where
  "create_v2_accounts_opts =
    [required ''solido_program_id'' PubkeyT,
     required ''st_sol_mint'' PubkeyT,
     required ''developer_account_owner'' PubkeyT]"

definition migrate_state_to_v2_opts :: "field_spec list" where
  "migrate_state_to_v2_opts =
    [required ''solido_program_id'' PubkeyT,
     required ''solido_address'' PubkeyT,
     required ''max_commission_percentage'' U8T,
     required ''treasury_fee_share'' U32T,
     required ''developer_fee_share'' U32T,
     required ''st_sol_appreciation_share'' U32T,
     required ''developer_fee_address'' PubkeyT,
     required ''validator_list_address'' PubkeyT,
     required ''validator_perf_list_address'' PubkeyT,
     required ''maintainer_list_address'' PubkeyT,
     required ''multisig_address'' PubkeyT,
     required ''multisig_program_id'' PubkeyT]"

definition validate_or_exit :: "opts \<Rightarrow> (unit, exit) result" where
  "validate_or_exit self =
     and_then (opt_u64 self ''threshold'') (\<lambda>threshold.
     and_then (opt_pubkey_vec self ''owners'') (\<lambda>owners.
     if word_of_nat (length owners) < threshold then Err (Exit 1)
     else if threshold = 0 then Err (Exit 1)
     else Ok ()))"

text \<open>\<open>From<&ProposeChangeMultisigOpts> for CreateMultisigOpts\<close>\<close>

definition create_multisig_opts_from :: "opts \<Rightarrow> opts" where
  "create_multisig_opts_from self =
     Map.empty(''threshold'' := self ''threshold'', ''owners'' := self ''owners'',
      ''multisig_program_id'' := self ''multisig_program_id'')"

subsection \<open>Subcommands\<close>

datatype (plugins only: code size) multisig_subcommand =
    CreateMultisig opts
  | ShowMultisig opts
  | ShowTransaction opts
  | ProposeUpgrade opts
  | ProposeChangeMultisig opts
  | ProposeAddOwner opts
  | ProposeRevokeOwner opts
  | SetUpgradeAuthority opts
  | Approve opts
  | ExecuteTransaction opts
  | ApproveBatch opts
  | TokenTransfer opts

definition multisig_merge_with_config_and_environment ::
  "host \<Rightarrow> config_file option \<Rightarrow> multisig_subcommand \<Rightarrow> (multisig_subcommand, exit) result" where
  "multisig_merge_with_config_and_environment H cf c =
     (let merge = (\<lambda>spec self. merge_with_config_and_environment H spec cf self) in
      case c of
        CreateMultisig o1 \<Rightarrow> map_ok CreateMultisig (merge create_multisig_opts o1)
      | ShowMultisig o1 \<Rightarrow> map_ok ShowMultisig (merge show_multisig_opts o1)
      | ShowTransaction o1 \<Rightarrow> map_ok ShowTransaction (merge show_transaction_opts o1)
      | ProposeUpgrade o1 \<Rightarrow> map_ok ProposeUpgrade (merge propose_upgrade_opts o1)
      | ProposeChangeMultisig o1 \<Rightarrow> map_ok ProposeChangeMultisig (merge propose_change_multisig_opts o1)
      | ProposeAddOwner o1 \<Rightarrow> map_ok ProposeAddOwner (merge propose_owner_multisig_opts o1)
      | ProposeRevokeOwner o1 \<Rightarrow> map_ok ProposeRevokeOwner (merge propose_owner_multisig_opts o1)
      | SetUpgradeAuthority o1 \<Rightarrow> map_ok SetUpgradeAuthority (merge set_upgrade_authority_opts o1)
      | Approve o1 \<Rightarrow> map_ok Approve (merge approve_opts o1)
      | ExecuteTransaction o1 \<Rightarrow> map_ok ExecuteTransaction (merge execute_transaction_opts o1)
      | ApproveBatch o1 \<Rightarrow> map_ok ApproveBatch (merge approve_batch_opts o1)
      | TokenTransfer o1 \<Rightarrow> map_ok TokenTransfer (merge transfer_token_opts o1))"

datatype (plugins only: code size) subcommand =
    CmdCreateSolido opts
  | CmdAddValidator opts
  | CmdDeactivateValidator opts
  | CmdRemoveValidator opts
  | CmdDeactivateIfViolates opts
  | CmdAddMaintainer opts
  | CmdRemoveMaintainer opts
  | CmdDeposit opts
  | CmdWithdraw opts
  | CmdShowSolido opts
  | CmdShowAuthorities opts
  | CmdPerformMaintenance opts
  | CmdRunMaintainer opts
  | CmdMultisig multisig_subcommand
  | CmdChangeCriteria opts
  | CmdMigrateStateToV2 opts
  | CmdCreateV2Accounts opts

definition merge_subcommand ::
  "host \<Rightarrow> config_file option \<Rightarrow> subcommand \<Rightarrow> (subcommand, exit) result" where
  "merge_subcommand H cf c =
     (let merge = (\<lambda>spec self. merge_with_config_and_environment H spec cf self) in
      case c of
        CmdCreateSolido o1 \<Rightarrow> map_ok CmdCreateSolido (merge create_solido_opts o1)
      | CmdAddValidator o1 \<Rightarrow> map_ok CmdAddValidator (merge add_validator_opts o1)
      | CmdDeactivateValidator o1 \<Rightarrow> map_ok CmdDeactivateValidator (merge deactivate_validator_opts o1)
      | CmdRemoveValidator o1 \<Rightarrow> map_ok CmdRemoveValidator (merge remove_validator_opts o1)
      | CmdDeactivateIfViolates o1 \<Rightarrow> map_ok CmdDeactivateIfViolates (merge deactivate_if_violates_opts o1)
      | CmdAddMaintainer o1 \<Rightarrow> map_ok CmdAddMaintainer (merge add_remove_maintainer_opts o1)
      | CmdRemoveMaintainer o1 \<Rightarrow> map_ok CmdRemoveMaintainer (merge add_remove_maintainer_opts o1)
      | CmdDeposit o1 \<Rightarrow> map_ok CmdDeposit (merge deposit_opts o1)
      | CmdWithdraw o1 \<Rightarrow> map_ok CmdWithdraw (merge withdraw_opts o1)
      | CmdShowSolido o1 \<Rightarrow> map_ok CmdShowSolido (merge show_solido_opts o1)
      | CmdShowAuthorities o1 \<Rightarrow> map_ok CmdShowAuthorities (merge show_solido_authorities_opts o1)
      | CmdPerformMaintenance o1 \<Rightarrow> map_ok CmdPerformMaintenance (merge perform_maintenance_opts o1)
      | CmdRunMaintainer o1 \<Rightarrow> map_ok CmdRunMaintainer (merge run_maintainer_opts o1)
      | CmdMultisig m \<Rightarrow> map_ok CmdMultisig (multisig_merge_with_config_and_environment H cf m)
      | CmdChangeCriteria o1 \<Rightarrow> map_ok CmdChangeCriteria (merge change_criteria_opts o1)
      | CmdMigrateStateToV2 o1 \<Rightarrow> map_ok CmdMigrateStateToV2 (merge migrate_state_to_v2_opts o1)
      | CmdCreateV2Accounts o1 \<Rightarrow> map_ok CmdCreateV2Accounts (merge create_v2_accounts_opts o1))"

text \<open>\<open>struct Opts\<close> of \<^verbatim>\<open>main.rs\<close> and its merge with \<open>GeneralOpts\<close>.\<close>

record main_opts =
  main_keypair :: "string option"
  main_keypair_path :: "string option"
  main_cluster :: "string option"
  main_output_mode :: "output_mode option"
  main_subcommand :: subcommand
  main_config :: "string option"

definition main_merge_with_config_and_environment ::
  "host \<Rightarrow> main_opts \<Rightarrow> (main_opts \<times> config_file option, exit) result" where
  "main_merge_with_config_and_environment H self =
     and_then (case main_config self of None \<Rightarrow> Ok None | Some p \<Rightarrow> map_ok Some (read_config H p)) (\<lambda>cf.
     and_then (merge_with_config_and_environment H general_opts cf Map.empty) (\<lambda>general.
     and_then (case main_keypair self of Some x \<Rightarrow> Ok x | None \<Rightarrow> opt_string general ''keypair'') (\<lambda>keypair.
     and_then (case main_keypair_path self of Some x \<Rightarrow> Ok x | None \<Rightarrow> opt_path general ''keypair_path'') (\<lambda>keypair_path.
     and_then (case main_cluster self of Some x \<Rightarrow> Ok x | None \<Rightarrow> opt_string general ''cluster'') (\<lambda>cluster.
     and_then (case main_output_mode self of Some x \<Rightarrow> Ok x | None \<Rightarrow> opt_output_mode general ''output_mode'') (\<lambda>output_mode.
     Ok (self\<lparr>main_keypair := Some keypair, main_keypair_path := Some keypair_path,
              main_cluster := Some cluster, main_output_mode := Some output_mode\<rparr>, cf)))))))"

subsection \<open>Where an option comes from\<close>

text \<open>The specification of the merge: a field may be given as a text in the config file and in the environment.
  The value is the first of command line, config file, environment and default, and every text that is
  given must be readable, also one that is not used.\<close>

definition config_text :: "config_file option \<Rightarrow> string \<Rightarrow> string option" where
  "config_text cf name =
     (case cf of None \<Rightarrow> None
      | Some file \<Rightarrow> (case json_get (config_values file) name of Some (JString s) \<Rightarrow> Some s | _ \<Rightarrow> None))"

definition field_texts :: "host \<Rightarrow> config_file option \<Rightarrow> field_spec \<Rightarrow> string list" where
  "field_texts H cf f =
     List.map_filter id [config_text cf (field_name f), env_var H (env_var_name (field_name f))]"

definition field_readable :: "host \<Rightarrow> config_file option \<Rightarrow> field_spec \<Rightarrow> bool" where
  "field_readable H cf f \<longleftrightarrow> list_all (\<lambda>s. opt_from_str H (field_type f) s \<noteq> None) (field_texts H cf f)"

definition field_value ::
  "host \<Rightarrow> config_file option \<Rightarrow> field_spec \<Rightarrow> opt_value option \<Rightarrow> opt_value option \<Rightarrow> opt_value option" where
  "field_value H cf f from_cli fallback =
     (case from_cli of
        Some v \<Rightarrow> Some v
      | None \<Rightarrow> (case field_texts H cf f of s # _ \<Rightarrow> opt_from_str H (field_type f) s | [] \<Rightarrow> fallback))"

lemma get_option_from_config_eq:
  "get_option_from_config p name cf =
     (case config_text cf name of None \<Rightarrow> Ok None
      | Some s \<Rightarrow> (case p s of None \<Rightarrow> Err (Exit 1) | Some v \<Rightarrow> Ok (Some v)))"
  by (auto simp: get_option_from_config_def config_text_def split: option.splits json_value.splits)

lemma merge_field_eq:
  assumes "field_default f H = Ok d"
  shows "merge_field H cf f from_cli =
    (if field_readable H cf f then Ok (field_value H cf f from_cli d) else Err (Exit 1))"
  by (auto simp: merge_field_def get_option_from_config_eq get_option_from_env_def and_then_def assms opt_or_def
      field_readable_def field_texts_def field_value_def List.map_filter_simps split: option.splits)

lemma merge_fields_eq:
  assumes "distinct (map field_name fs)" and "\<And>f. f \<in> set fs \<Longrightarrow> field_default f H = Ok (d f)"
  shows "merge_fields H cf fs self failed =
    (if list_all (field_readable H cf) fs
     then Ok (\<lambda>n. case List.find (\<lambda>f. field_name f = n) fs of None \<Rightarrow> self n
                  | Some f \<Rightarrow> field_value H cf f (self n) (d f),
              failed \<or> \<not> list_all (\<lambda>f. field_value H cf f (self (field_name f)) (d f) \<noteq> None) fs)
     else Err (Exit 1))"
  using assms
proof (induction fs arbitrary: self failed)
  case (Cons f fs)
  define v where "v = field_value H cf f (self (field_name f)) (d f)"
  have name: "field_name g \<noteq> field_name f" if "g \<in> set fs" for g
    using that Cons.prems(1) by (metis distinct.simps(2) imageI list.map(2) list.set_map)
  have IH: "merge_fields H cf fs (self(field_name f := v)) (failed \<or> v = None) =
    (if list_all (field_readable H cf) fs
     then Ok (\<lambda>n. case List.find (\<lambda>f. field_name f = n) fs of None \<Rightarrow> (self(field_name f := v)) n
                  | Some g \<Rightarrow> field_value H cf g ((self(field_name f := v)) n) (d g),
              (failed \<or> v = None) \<or>
              \<not> list_all (\<lambda>g. field_value H cf g ((self(field_name f := v)) (field_name g)) (d g) \<noteq> None) fs)
     else Err (Exit 1))"
    using Cons.prems by (intro Cons.IH) auto
  have other: "list_all (\<lambda>g. field_value H cf g ((self(field_name f := v)) (field_name g)) (d g) \<noteq> None) fs =
      list_all (\<lambda>g. field_value H cf g (self (field_name g)) (d g) \<noteq> None) fs"
    using name by (intro list_all_cong refl) auto
  have merged: "(\<lambda>n. case List.find (\<lambda>f. field_name f = n) fs of None \<Rightarrow> (self(field_name f := v)) n
                  | Some g \<Rightarrow> field_value H cf g ((self(field_name f := v)) n) (d g)) =
      (\<lambda>n. case List.find (\<lambda>f. field_name f = n) (f # fs) of None \<Rightarrow> self n
                  | Some g \<Rightarrow> field_value H cf g (self n) (d g))" (is "?l = ?r")
  proof
    fix n
    show "?l n = ?r n"
    proof (cases "n = field_name f")
      case True
      then have "List.find (\<lambda>g. field_name g = n) fs = None" using name by (auto simp: find_None_iff)
      then show ?thesis using True by (simp add: v_def)
    qed (auto split: option.split)
  qed
  have first: "merge_field H cf f (self (field_name f)) = (if field_readable H cf f then Ok v else Err (Exit 1))"
    using Cons.prems(2) by (simp add: merge_field_eq v_def)
  show ?case
    by (cases "field_readable H cf f")
      (simp_all only: merge_fields.simps first and_then_def result.case if_True if_False IH other merged list.pred_inject(2)
        de_Morgan_conj v_def [symmetric] not_not disj_assoc simp_thms)
qed (simp add: fun_eq_iff)

text \<open>C20: Options. Take a struct of options whose fields have different names and whose defaults can be computed.
  Merging it with a config file and the environment gives every field the first value among command line, config
  file, environment variable and default, leaves everything else alone, and it does so exactly when
  every text in the file or the environment for one of the fields can be read and every field
  has a value; in all other cases the process exits with status 1.\<close>

theorem merge_spec:
  assumes "distinct (map field_name spec)" and "\<And>f. f \<in> set spec \<Longrightarrow> field_default f H = Ok (d f)"
  shows "merge_with_config_and_environment H spec cf self =
    (if list_all (\<lambda>f. field_readable H cf f \<and> field_value H cf f (self (field_name f)) (d f) \<noteq> None) spec
     then Ok (\<lambda>n. case List.find (\<lambda>f. field_name f = n) spec of None \<Rightarrow> self n
                  | Some f \<Rightarrow> field_value H cf f (self n) (d f))
     else Err (Exit 1))"
  using merge_fields_eq [OF assms, of cf self False]
  by (auto simp: merge_with_config_and_environment_def and_then_def list_all_iff)

definition example_host :: host where
  "example_host =
     \<lparr>env_var = [''SOLIDO_SOLIDO_PROGRAM_ID'' \<mapsto> ''7'', ''SOLIDO_AMOUNT_SOL'' \<mapsto> ''2.5''],
      read_file = (\<lambda>p. None), json_from_slice = (\<lambda>s. None),
      parse_pubkey = (\<lambda>s. uint_from_str s)\<rparr>"

definition example_file :: config_file where
  "example_file = \<lparr>config_values = JObject [(''solido_address'', JString ''500''), (''solido_program_id'', JString ''6'')]\<rparr>"

theorem merge_spec_witness:
  "merge_with_config_and_environment example_host deposit_opts (Some example_file) Map.empty =
     Ok [''solido_program_id'' \<mapsto> PubkeyV 6, ''solido_address'' \<mapsto> PubkeyV 500,
         ''amount_sol'' \<mapsto> LamportsV (Lamports 2500000000)]"
proof -
  have names: "distinct (map field_name deposit_opts)"
    by (simp add: deposit_opts_def required_def)
  have defaults: "field_default f example_host = Ok None" if "f \<in> set deposit_opts" for f
    using that by (auto simp: deposit_opts_def required_def)
  have texts: "env_var_name ''solido_program_id'' = ''SOLIDO_SOLIDO_PROGRAM_ID''"
    "env_var_name ''solido_address'' = ''SOLIDO_SOLIDO_ADDRESS''" "env_var_name ''amount_sol'' = ''SOLIDO_AMOUNT_SOL''"
    "lamports_from_str ''2.5'' = Ok (Lamports 2500000000)"
    by code_simp+
  show ?thesis
    using merge_spec [OF names defaults, of "Some example_file" Map.empty]
    by (simp add: deposit_opts_def required_def field_readable_def field_value_def field_texts_def
        List.map_filter_simps config_text_def json_get_def example_file_def example_host_def texts
        opt_from_str_def uint_from_str_def is_digit_def digits_value_def ok_option_def fun_eq_iff)
qed

end
