(* ===== verification/Multisig.thy ===== *)
theory Multisig
  imports Config
begin

text \<open>
  \<^verbatim>\<open>cli/maintainer/src/commands_multisig.rs\<close>: the commands that propose, show, approve and execute
  transactions of the multisig program, through which the manager of a pool acts. The multisig program and
  Anchor's encoding of its instructions are not part of the repository, nor are the builders of the system
  program, the token program and the loader: they are fields of the parameter \<open>cli\<close>, grouped into \<open>native\<close> (programs of Solana) and \<open>serum\<close>
  (the multisig program). A key pair is
  its public key; new ones are drawn from the network state, so that no two calls need to agree.

  A command is a computation on a snapshot, as in \<open>Snapshot\<close>. The batch approval runs several
  of them, each in its own retry loop, and reads the answers of the user from a list of lines;
  both loops may not end, so these definitions are partial functions into \<open>option\<close>. Where the code calls
  \<open>std::process::exit\<close> inside of such a computation the result is \<open>Panic\<close>.
\<close>

subsection \<open>Parameters\<close>

type_synonym transaction_account = account_meta

record multisig =
  ms_owners :: "pubkey list"
  ms_threshold :: u64
  ms_owner_set_seqno :: u32

record ms_transaction =
  mt_multisig :: pubkey
  mt_program_id :: pubkey
  mt_accounts :: "transaction_account list"
  mt_data :: "u8 list"
  mt_signers :: "bool list"
  mt_did_execute :: bool
  mt_owner_set_seqno :: u32

datatype (plugins only: code size) spl_instruction = SplTransfer u64 | SplOther

record native =
  create_account :: "pubkey \<Rightarrow> pubkey \<Rightarrow> u64 \<Rightarrow> u64 \<Rightarrow> pubkey \<Rightarrow> instruction"
  system_transfer :: "pubkey \<Rightarrow> pubkey \<Rightarrow> u64 \<Rightarrow> instruction"
  initialize_mint :: "pubkey \<Rightarrow> pubkey \<Rightarrow> pubkey \<Rightarrow> pubkey option \<Rightarrow> u8 \<Rightarrow> (instruction, program_error) result"
  initialize_account :: "pubkey \<Rightarrow> pubkey \<Rightarrow> pubkey \<Rightarrow> pubkey \<Rightarrow> (instruction, program_error) result"
  spl_transfer :: "pubkey \<Rightarrow> pubkey \<Rightarrow> pubkey \<Rightarrow> pubkey \<Rightarrow> pubkey list \<Rightarrow> u64 \<Rightarrow> (instruction, program_error) result"
  spl_unpack_instruction :: "u8 list \<Rightarrow> (spl_instruction, program_error) result"
  native_mint_decimals :: u8
  mint_len :: nat
  token_account_len :: nat
  get_associated_token_address :: "pubkey \<Rightarrow> pubkey \<Rightarrow> pubkey"
  create_associated_token_account :: "pubkey \<Rightarrow> pubkey \<Rightarrow> pubkey \<Rightarrow> instruction"
  loader_id :: pubkey
  is_upgrade_instruction :: "u8 list \<Rightarrow> bool"
  loader_upgrade :: "pubkey \<Rightarrow> pubkey \<Rightarrow> pubkey \<Rightarrow> pubkey \<Rightarrow> instruction"
  set_upgrade_authority :: "pubkey \<Rightarrow> pubkey \<Rightarrow> pubkey option \<Rightarrow> instruction"

record serum =
  multisig_try_deserialize :: "u8 list \<Rightarrow> (multisig, program_error) result"
  transaction_try_deserialize :: "u8 list \<Rightarrow> (ms_transaction, program_error) result"
  transaction_discriminator :: "u8 list"
  transaction_serialize :: "ms_transaction \<Rightarrow> u8 list"
  transaction_account_from :: "account_meta \<Rightarrow> transaction_account"
  account_meta_from :: "transaction_account \<Rightarrow> account_meta"
  instruction_from :: "ms_transaction \<Rightarrow> instruction"
  create_multisig_data :: "pubkey list \<Rightarrow> u64 \<Rightarrow> u8 \<Rightarrow> u8 list"
  create_transaction_data :: "pubkey \<Rightarrow> transaction_account list \<Rightarrow> u8 list \<Rightarrow> u8 list"
  set_owners_and_change_threshold_data :: "pubkey list \<Rightarrow> u64 \<Rightarrow> u8 list"
  set_owners_try_from_slice :: "u8 list \<Rightarrow> (pubkey list \<times> u64) option"
  approve_data :: "u8 list"
  execute_transaction_data :: "u8 list"
  create_multisig_metas :: "pubkey \<Rightarrow> pubkey \<Rightarrow> account_meta list"
  create_transaction_metas :: "pubkey \<Rightarrow> pubkey \<Rightarrow> pubkey \<Rightarrow> pubkey \<Rightarrow> account_meta list"
  auth_metas :: "pubkey \<Rightarrow> pubkey \<Rightarrow> account_meta list"
  approve_metas :: "pubkey \<Rightarrow> pubkey \<Rightarrow> pubkey \<Rightarrow> account_meta list"
  execute_transaction_metas :: "pubkey \<Rightarrow> pubkey \<Rightarrow> pubkey \<Rightarrow> account_meta list"

record 'n cli =
  rpc :: "'n rpc_client"
  keypair_new :: "'n \<Rightarrow> pubkey \<times> 'n"
  pubkey_display :: "pubkey \<Rightarrow> string"
  hash_set_iter :: "pubkey set \<Rightarrow> pubkey list"
  deserialize_instruction :: "u8 list \<Rightarrow> (lido_instruction \<times> u8 list) option"
  native :: native
  serum :: serum

text \<open>Who signs and pays, and how output is printed: \<open>Config\<close> without its client.\<close>

record cli_config =
  config_signer :: pubkey
  config_output_mode :: output_mode

subsection \<open>Steps that the commands share\<close>

definition reads_exit :: "('a, exit) result \<Rightarrow> ('n, 'a) reads" where
  "reads_exit r = (\<lambda>s. (case r of Ok a \<Rightarrow> Ok a | _ \<Rightarrow> Panic, s))"

definition new_keypair :: "'n cli \<Rightarrow> ('n, pubkey) reads" where
  "new_keypair K = (\<lambda>s. case keypair_new K (net s) of (k, n) \<Rightarrow> (Ok k, s\<lparr>net := n\<rparr>))"

definition cli_send ::
  "'i env \<Rightarrow> 'n cli \<Rightarrow> cli_config \<Rightarrow> instruction list \<Rightarrow> pubkey list \<Rightarrow> ('n, signature) reads" where
  "cli_send E K cfg instrs signers =
     sign_and_send_transaction E (rpc K) (config_signer cfg) (config_output_mode cfg) instrs signers"

definition get_multisig_program_address :: "'i env \<Rightarrow> pubkey \<Rightarrow> pubkey \<Rightarrow> pubkey \<times> u8" where
  "get_multisig_program_address E program_address multisig_pubkey =
     find_program_address E [pubkey_bytes multisig_pubkey] program_address"

subsection \<open>Creating and showing a multisig\<close>

record create_multisig_output =
  cmo_multisig_address :: pubkey
  cmo_program_derived_address :: pubkey

definition create_multisig ::
  "'i env \<Rightarrow> 'n cli \<Rightarrow> cli_config \<Rightarrow> opts \<Rightarrow> ('n, create_multisig_output) reads" where
  "create_multisig E K cfg opts =
     reads_bind (reads_exit (validate_or_exit opts)) (\<lambda>u.
     reads_bind (new_keypair K) (\<lambda>multisig_account.
     reads_bind (reads_lift (opt_pubkey opts ''multisig_program_id'')) (\<lambda>multisig_program_id.
     let (program_derived_address, nonce) =
       get_multisig_program_address E multisig_program_id multisig_account in
     reads_bind (get_minimum_balance_for_rent_exemption E (rpc K) 352) (\<lambda>rent_exempt.
     let create_instruction = create_account (native K) (config_signer cfg) multisig_account (lam rent_exempt) 352 multisig_program_id in
     reads_bind (reads_lift (opt_pubkey_vec opts ''owners'')) (\<lambda>owners.
     reads_bind (reads_lift (opt_u64 opts ''threshold'')) (\<lambda>threshold.
     let multisig_instruction =
       \<lparr>ins_program_id = multisig_program_id,
        ins_accounts = create_multisig_metas (serum K) multisig_account (sysvar_rent_id E),
        ins_data = create_multisig_data (serum K) owners threshold nonce\<rparr> in
     reads_bind (cli_send E K cfg [create_instruction, multisig_instruction] [multisig_account, config_signer cfg]) (\<lambda>sig.
     reads_return \<lparr>cmo_multisig_address = multisig_account,
       cmo_program_derived_address = program_derived_address\<rparr>)))))))"

record show_multisig_output =
  smo_program_derived_address :: pubkey
  smo_threshold :: u64
  smo_owners :: "pubkey list"

definition show_multisig :: "'i env \<Rightarrow> 'n cli \<Rightarrow> opts \<Rightarrow> ('n, show_multisig_output) reads" where
  "show_multisig E K opts =
     reads_bind (reads_lift (opt_pubkey opts ''multisig_address'')) (\<lambda>multisig_address.
     reads_bind (get_account_deserialize (multisig_try_deserialize (serum K)) multisig_address) (\<lambda>ms.
     reads_bind (reads_lift (opt_pubkey opts ''multisig_program_id'')) (\<lambda>multisig_program_id.
     reads_return
       \<lparr>smo_program_derived_address = fst (get_multisig_program_address E multisig_program_id multisig_address),
        smo_threshold = ms_threshold ms, smo_owners = ms_owners ms\<rparr>)))"

subsection \<open>Showing a transaction\<close>

record show_transaction_signer =
  sts_owner :: pubkey
  sts_did_sign :: bool

datatype (plugins only: code size) show_transaction_signers =
    Current "show_transaction_signer list"
  | Outdated nat nat

datatype (plugins only: code size) solido_instruction =
    ShownAddValidator (solido_instance: pubkey) (shown_manager: pubkey) pubkey
  | ShownDeactivateValidator (solido_instance: pubkey) (shown_manager: pubkey) pubkey u32
  | ShownAddMaintainer (solido_instance: pubkey) (shown_manager: pubkey) pubkey
  | ShownRemoveMaintainer (solido_instance: pubkey) (shown_manager: pubkey) pubkey u32
  | ShownChangeRewardDistribution lido reward_distribution (solido_instance: pubkey) (shown_manager: pubkey) fee_recipients
  | ShownChangeCriteria (solido_instance: pubkey) criteria (shown_manager: pubkey)
  | ShownMigrateStateToV2 (solido_instance: pubkey) (shown_manager: pubkey) pubkey pubkey pubkey
      reward_distribution u32 u32 u8

datatype (plugins only: code size) token_instruction =
    ShownTransfer pubkey pubkey pubkey u64
  | ShownUnsupported

datatype (plugins only: code size) parsed_instruction =
    BpfLoaderUpgrade pubkey pubkey pubkey pubkey
  | MultisigChange u64 "pubkey list" u64 "pubkey list"
  | SolidoInstruction solido_instruction
  | TokenInstruction token_instruction
  | InvalidSolidoInstruction
  | Unrecognized

record show_transaction_output =
  sto_multisig_address :: pubkey
  sto_did_execute :: bool
  sto_signers :: show_transaction_signers
  sto_instruction :: instruction
  sto_parsed_instruction :: parsed_instruction

definition try_parse_solido_instruction ::
  "lenv \<Rightarrow> 'n cli \<Rightarrow> instruction \<Rightarrow> ('n, parsed_instruction) reads" where
  "try_parse_solido_instruction E K instr =
     reads_bind (reads_lift (ok_or (deserialize_instruction K (ins_data instr)) IoError)) (\<lambda>(instruction, rest).
     let with_accounts = (\<lambda>spec f.
       reads_bind (reads_lift (map_err ProgramErr (meta_try_from_slice spec (ins_accounts instr)))) (\<lambda>(keys, multi). f keys)) in
     case instruction of
       ChangeRewardDistribution new_reward_distribution \<Rightarrow>
         with_accounts (change_reward_distribution_accounts E) (\<lambda>keys.
         reads_bind (get_solido E (keys ! 0)) (\<lambda>current_solido.
         reads_return (SolidoInstruction (ShownChangeRewardDistribution current_solido new_reward_distribution
           (keys ! 0) (keys ! 1)
           \<lparr>treasury_account = keys ! 2, developer_account = keys ! 3\<rparr>))))
     | AddValidatorV2 \<Rightarrow>
         with_accounts (add_validator_accounts E) (\<lambda>keys.
         reads_return (SolidoInstruction (ShownAddValidator (keys ! 0) (keys ! 1) (keys ! 2))))
     | DeactivateValidatorV2 validator_index \<Rightarrow>
         with_accounts (deactivate_validator_accounts E) (\<lambda>keys.
         reads_return (SolidoInstruction (ShownDeactivateValidator (keys ! 0) (keys ! 1) (keys ! 2) validator_index)))
     | AddMaintainerV2 \<Rightarrow>
         with_accounts (add_maintainer_accounts E) (\<lambda>keys.
         reads_return (SolidoInstruction (ShownAddMaintainer (keys ! 0) (keys ! 1) (keys ! 2))))
     | RemoveMaintainerV2 maintainer_index \<Rightarrow>
         with_accounts (remove_maintainer_accounts E) (\<lambda>keys.
         reads_return (SolidoInstruction (ShownRemoveMaintainer (keys ! 0) (keys ! 1) (keys ! 2) maintainer_index)))
     | ChangeCriteria new_criteria \<Rightarrow>
         with_accounts (change_criteria_accounts E) (\<lambda>keys.
         reads_return (SolidoInstruction (ShownChangeCriteria (keys ! 0) new_criteria (keys ! 1))))
     | MigrateStateToV2 rd max_validators max_maintainers max_commission_percentage \<Rightarrow>
         with_accounts (migrate_state_to_v2_accounts E) (\<lambda>keys.
         reads_return (SolidoInstruction (ShownMigrateStateToV2 (keys ! 0) (keys ! 1) (keys ! 2) (keys ! 4) (keys ! 5)
           rd max_validators max_maintainers max_commission_percentage)))
     | _ \<Rightarrow> reads_return InvalidSolidoInstruction)"

definition try_parse_token_instruction ::
  "'i env \<Rightarrow> 'n cli \<Rightarrow> instruction \<Rightarrow> ('n, parsed_instruction) reads" where
  "try_parse_token_instruction E K instr =
     reads_bind (reads_lift (map_err ProgramErr (spl_unpack_instruction (native K) (ins_data instr)))) (\<lambda>instruction.
     reads_bind (reads_lift (assert (0 < length (ins_accounts instr)))) (\<lambda>u.
     reads_bind (get_account (meta_pubkey (ins_accounts instr ! 0))) (\<lambda>from_account.
     reads_bind (reads_lift (map_err ProgramErr (unpack_token_account E (acc_data from_account)))) (\<lambda>spl_token_from.
     case instruction of
       SplTransfer amount \<Rightarrow>
         reads_bind (reads_lift (assert (1 < length (ins_accounts instr)))) (\<lambda>u.
         reads_return (TokenInstruction (ShownTransfer (meta_pubkey (ins_accounts instr ! 0))
           (meta_pubkey (ins_accounts instr ! 1)) (token_mint spl_token_from) amount)))
     | SplOther \<Rightarrow> reads_return (TokenInstruction ShownUnsupported)))))"

text \<open>The two places that replace an error of the parser by \<open>InvalidSolidoInstruction\<close>.\<close>

definition or_invalid :: "('n, parsed_instruction) reads \<Rightarrow> ('n, parsed_instruction) reads" where
  "or_invalid m =
     reads_bind (reads_try m) (\<lambda>r.
     case r of
       Ok instr \<Rightarrow> reads_return instr
     | Err MissingAccount \<Rightarrow> reads_fail MissingAccount
     | Err (MissingValidatorIdentity addr) \<Rightarrow> reads_fail (MissingValidatorIdentity addr)
     | Err (OtherError err) \<Rightarrow> reads_return InvalidSolidoInstruction
     | Panic \<Rightarrow> reads_lift Panic)"

definition parse_instruction ::
  "lenv \<Rightarrow> 'n cli \<Rightarrow> multisig \<Rightarrow> pubkey \<Rightarrow> pubkey \<Rightarrow> instruction \<Rightarrow> ('n, parsed_instruction) reads" where
  "parse_instruction E K ms multisig_program_id lido_program_id instr =
     (if ins_program_id instr = loader_id (native K) \<and> is_upgrade_instruction (native K) (ins_data instr) then
        reads_bind (reads_lift (assert (3 < length (ins_accounts instr)))) (\<lambda>u.
        reads_return (BpfLoaderUpgrade (meta_pubkey (ins_accounts instr ! 1)) (meta_pubkey (ins_accounts instr ! 0))
          (meta_pubkey (ins_accounts instr ! 2)) (meta_pubkey (ins_accounts instr ! 3))))
      else if ins_program_id instr = multisig_program_id \<and> length (ins_data instr) < 8 then reads_lift Panic
      else if ins_program_id instr = multisig_program_id \<and>
          take 8 (ins_data instr) = [55, 144, 74, 245, 249, 230, 14, 53] then
        (case set_owners_try_from_slice (serum K) (drop 8 (ins_data instr)) of
           Some (new_owners, new_threshold) \<Rightarrow>
             reads_return (MultisigChange (ms_threshold ms) (ms_owners ms) new_threshold new_owners)
         | None \<Rightarrow> reads_return Unrecognized)
      else if ins_program_id instr = lido_program_id then or_invalid (try_parse_solido_instruction E K instr)
      else if ins_program_id instr = spl_token_id E then or_invalid (try_parse_token_instruction E K instr)
      else reads_return Unrecognized)"

definition show_transaction ::
  "lenv \<Rightarrow> 'n cli \<Rightarrow> pubkey \<Rightarrow> pubkey \<Rightarrow> pubkey \<Rightarrow> ('n, show_transaction_output) reads" where
  "show_transaction E K transaction_address multisig_program_id lido_program_id =
     reads_bind (get_account_deserialize (transaction_try_deserialize (serum K)) transaction_address) (\<lambda>tx.
     reads_bind (get_account_deserialize (multisig_try_deserialize (serum K)) (mt_multisig tx)) (\<lambda>ms.
     let signers =
       (if mt_owner_set_seqno tx = ms_owner_set_seqno ms
        then Current (map (\<lambda>(owner, did_sign). \<lparr>sts_owner = owner, sts_did_sign = did_sign\<rparr>)
          (zip (ms_owners ms) (mt_signers tx)))
        else Outdated (length (filter id (mt_signers tx))) (length (mt_signers tx)));
      instr = instruction_from (serum K) tx in
     reads_bind (parse_instruction E K ms multisig_program_id lido_program_id instr) (\<lambda>parsed_instr.
     reads_return
       \<lparr>sto_multisig_address = mt_multisig tx, sto_did_execute = mt_did_execute tx, sto_signers = signers,
        sto_instruction = instr, sto_parsed_instruction = parsed_instr\<rparr>)))"

subsection \<open>Proposing\<close>

definition propose_instruction ::
  "'i env \<Rightarrow> 'n cli \<Rightarrow> cli_config \<Rightarrow> pubkey \<Rightarrow> pubkey \<Rightarrow> instruction \<Rightarrow> ('n, pubkey) reads" where
  "propose_instruction E K cfg multisig_program_id multisig_address instruction =
     reads_bind (new_keypair K) (\<lambda>transaction_account.
     let accounts = map (transaction_account_from (serum K)) (ins_accounts instruction) in
     reads_bind (get_account_deserialize (multisig_try_deserialize (serum K)) multisig_address) (\<lambda>ms.
     let dummy_tx =
       \<lparr>mt_multisig = multisig_address, mt_program_id = ins_program_id instruction, mt_accounts = accounts,
        mt_data = ins_data instruction, mt_signers = map (\<lambda>a. a = config_signer cfg) (ms_owners ms),
        mt_did_execute = False, mt_owner_set_seqno = ms_owner_set_seqno ms\<rparr>;
      tx_account_size = length (transaction_discriminator (serum K) @ transaction_serialize (serum K) dummy_tx) in
     reads_bind (get_minimum_balance_for_rent_exemption E (rpc K) tx_account_size) (\<lambda>rent_exempt.
     let create_instruction = create_account (native K) (config_signer cfg) transaction_account (lam rent_exempt)
           (word_of_nat tx_account_size) multisig_program_id;
         multisig_instruction =
           \<lparr>ins_program_id = multisig_program_id,
            ins_accounts = create_transaction_metas (serum K) multisig_address transaction_account (config_signer cfg)
              (sysvar_rent_id E),
            ins_data = create_transaction_data (serum K) (ins_program_id instruction) accounts (ins_data instruction)\<rparr> in
     reads_bind (cli_send E K cfg [create_instruction, multisig_instruction] [config_signer cfg, transaction_account]) (\<lambda>sig.
     reads_return transaction_account))))"

definition propose_upgrade :: "'i env \<Rightarrow> 'n cli \<Rightarrow> cli_config \<Rightarrow> opts \<Rightarrow> ('n, pubkey) reads" where
  "propose_upgrade E K cfg opts =
     reads_bind (reads_lift (opt_pubkey opts ''multisig_program_id'')) (\<lambda>multisig_program_id.
     reads_bind (reads_lift (opt_pubkey opts ''multisig_address'')) (\<lambda>multisig_address.
     let (program_derived_address, nonce) = get_multisig_program_address E multisig_program_id multisig_address in
     reads_bind (reads_lift (opt_pubkey opts ''program_address'')) (\<lambda>program_address.
     reads_bind (reads_lift (opt_pubkey opts ''buffer_address'')) (\<lambda>buffer_address.
     reads_bind (reads_lift (opt_pubkey opts ''spill_address'')) (\<lambda>spill_address.
     propose_instruction E K cfg multisig_program_id multisig_address
       (loader_upgrade (native K) program_address buffer_address program_derived_address spill_address))))))"

definition change_multisig_instruction ::
  "'n cli \<Rightarrow> pubkey \<Rightarrow> pubkey \<Rightarrow> pubkey \<Rightarrow> pubkey list \<Rightarrow> u64 \<Rightarrow> instruction" where
  "change_multisig_instruction K multisig_program_id multisig_address program_derived_address owners threshold =
     \<lparr>ins_program_id = multisig_program_id,
      ins_accounts = auth_metas (serum K) multisig_address program_derived_address,
      ins_data = set_owners_and_change_threshold_data (serum K) owners threshold\<rparr>"

definition propose_change_multisig :: "'i env \<Rightarrow> 'n cli \<Rightarrow> cli_config \<Rightarrow> opts \<Rightarrow> ('n, pubkey) reads" where
  "propose_change_multisig E K cfg opts =
     reads_bind (reads_exit (validate_or_exit (create_multisig_opts_from opts))) (\<lambda>u.
     reads_bind (reads_lift (opt_pubkey opts ''multisig_program_id'')) (\<lambda>multisig_program_id.
     reads_bind (reads_lift (opt_pubkey opts ''multisig_address'')) (\<lambda>multisig_address.
     let (program_derived_address, nonce) = get_multisig_program_address E multisig_program_id multisig_address in
     reads_bind (reads_lift (opt_pubkey_vec opts ''owners'')) (\<lambda>owners.
     reads_bind (reads_lift (opt_u64 opts ''threshold'')) (\<lambda>threshold.
     propose_instruction E K cfg multisig_program_id multisig_address
       (change_multisig_instruction K multisig_program_id multisig_address program_derived_address owners threshold))))))"

definition propose_owners ::
  "'i env \<Rightarrow> 'n cli \<Rightarrow> cli_config \<Rightarrow> (pubkey \<Rightarrow> pubkey list \<Rightarrow> pubkey list) \<Rightarrow> opts \<Rightarrow> ('n, pubkey) reads" where
  "propose_owners E K cfg change opts =
     reads_bind (reads_lift (opt_pubkey opts ''multisig_address'')) (\<lambda>multisig_address.
     reads_bind (get_account_deserialize (multisig_try_deserialize (serum K)) multisig_address) (\<lambda>ms.
     reads_bind (reads_lift (opt_pubkey opts ''multisig_program_id'')) (\<lambda>multisig_program_id.
     let (program_derived_address, nonce) = get_multisig_program_address E multisig_program_id multisig_address in
     reads_bind (reads_lift (opt_pubkey opts ''owner'')) (\<lambda>owner.
     propose_instruction E K cfg multisig_program_id multisig_address
       (change_multisig_instruction K multisig_program_id multisig_address program_derived_address
         (change owner (ms_owners ms)) (ms_threshold ms))))))"

definition propose_revoke_owner :: "'i env \<Rightarrow> 'n cli \<Rightarrow> cli_config \<Rightarrow> opts \<Rightarrow> ('n, pubkey) reads" where
  "propose_revoke_owner E K cfg = propose_owners E K cfg (\<lambda>owner owners. filter (\<lambda>o1. o1 \<noteq> owner) owners)"

definition propose_add_owner :: "'i env \<Rightarrow> 'n cli \<Rightarrow> cli_config \<Rightarrow> opts \<Rightarrow> ('n, pubkey) reads" where
  "propose_add_owner E K cfg = propose_owners E K cfg (\<lambda>owner owners. owners @ [owner])"

definition transfer_token :: "'i env \<Rightarrow> 'n cli \<Rightarrow> cli_config \<Rightarrow> opts \<Rightarrow> ('n, pubkey) reads" where
  "transfer_token E K cfg opts =
     reads_bind (reads_lift (opt_pubkey opts ''multisig_program_id'')) (\<lambda>multisig_program_id.
     reads_bind (reads_lift (opt_pubkey opts ''multisig_address'')) (\<lambda>multisig_address.
     let (derived_address, nonce) = get_multisig_program_address E multisig_program_id multisig_address in
     reads_bind (reads_lift (opt_pubkey opts ''from_address'')) (\<lambda>from_address.
     reads_bind (reads_lift (opt_pubkey opts ''to_address'')) (\<lambda>to_address.
     reads_bind (reads_lift (opt_u64 opts ''amount'')) (\<lambda>amount.
     reads_bind (reads_lift (map_err ProgramErr
       (spl_transfer (native K) (spl_token_id E) from_address to_address derived_address [] amount))) (\<lambda>instruction.
     propose_instruction E K cfg multisig_program_id multisig_address instruction))))))"

definition propose_set_upgrade_authority :: "'i env \<Rightarrow> 'n cli \<Rightarrow> cli_config \<Rightarrow> opts \<Rightarrow> ('n, pubkey) reads" where
  "propose_set_upgrade_authority E K cfg opts =
     reads_bind (reads_lift (opt_pubkey opts ''multisig_program_id'')) (\<lambda>multisig_program_id.
     reads_bind (reads_lift (opt_pubkey opts ''multisig_address'')) (\<lambda>multisig_address.
     let (program_derived_address, nonce) = get_multisig_program_address E multisig_program_id multisig_address in
     reads_bind (reads_lift (opt_pubkey opts ''program_id'')) (\<lambda>program_id.
     reads_bind (reads_lift (opt_pubkey opts ''new_authority'')) (\<lambda>new_authority.
     propose_instruction E K cfg multisig_program_id multisig_address
       (set_upgrade_authority (native K) program_id program_derived_address (Some new_authority))))))"

subsection \<open>Executing\<close>

text \<open>\<open>TransactionAccounts::to_account_metas\<close> without an override of the signer.\<close>

definition transaction_accounts_to_metas :: "'n cli \<Rightarrow> transaction_account list \<Rightarrow> pubkey \<Rightarrow> account_meta list" where
  "transaction_accounts_to_metas K accounts program_id =
     map (\<lambda>tx_account. (account_meta_from (serum K) tx_account)\<lparr>meta_is_signer := False\<rparr>) accounts @
     [\<lparr>meta_pubkey = program_id, meta_is_signer = False, meta_is_writable = False\<rparr>]"

definition execute_transaction ::
  "'i env \<Rightarrow> 'n cli \<Rightarrow> cli_config \<Rightarrow> pubkey \<Rightarrow> pubkey \<Rightarrow> pubkey \<Rightarrow> ('n, signature) reads" where
  "execute_transaction E K cfg transaction_address multisig_program_id multisig_address =
     (let (program_derived_address, nonce) = get_multisig_program_address E multisig_program_id multisig_address in
      reads_bind (get_account_deserialize (transaction_try_deserialize (serum K)) transaction_address) (\<lambda>tx.
      let accounts =
        execute_transaction_metas (serum K) multisig_address program_derived_address transaction_address @
        transaction_accounts_to_metas K (mt_accounts tx) (mt_program_id tx) in
      cli_send E K cfg
        [\<lparr>ins_program_id = multisig_program_id, ins_accounts = accounts,
          ins_data = execute_transaction_data (serum K)\<rparr>]
        [config_signer cfg]))"

subsection \<open>Approving\<close>

text \<open>A session runs several computations, each in a retry loop of its own; its state are the client, the network
  and the lines that the user will type.\<close>

type_synonym ('n, 'a) session =
  "snapshot_client \<times> 'n \<times> string list \<Rightarrow> (('a, cli_error) result \<times> snapshot_client \<times> 'n \<times> string list) option"

definition session_return :: "'a \<Rightarrow> ('n, 'a) session" where
  "session_return a = (\<lambda>st. Some (Ok a, st))"

definition session_bind :: "('n, 'a) session \<Rightarrow> ('a \<Rightarrow> ('n, 'b) session) \<Rightarrow> ('n, 'b) session" where
  "session_bind m k = (\<lambda>st.
     case m st of
       None \<Rightarrow> None
     | Some (Ok a, st') \<Rightarrow> k a st'
     | Some (Err e, st') \<Rightarrow> Some (Err e, st')
     | Some (Panic, st') \<Rightarrow> Some (Panic, st'))"

definition session_panic :: "('n, 'a) session" where
  "session_panic = (\<lambda>st. Some (Panic, st))"

definition session_lift :: "('a, cli_error) result \<Rightarrow> ('n, 'a) session" where
  "session_lift r = (\<lambda>st. Some (r, st))"

definition session_snapshot :: "'n cli \<Rightarrow> ('n, 'a) reads \<Rightarrow> ('n, 'a) session" where
  "session_snapshot K f = (\<lambda>(client, n, lines).
     map_option (\<lambda>(r, client, n). (r, client, n, lines)) (with_snapshot (rpc K) f client n))"

record approve_output =
  ao_transaction_id :: signature
  ao_sub_transactions :: "pubkey list"
  ao_num_approvals :: "u64 list"
  ao_threshold :: u64

definition send_approvals ::
  "'i env \<Rightarrow> 'n cli \<Rightarrow> cli_config \<Rightarrow> pubkey list \<Rightarrow> pubkey \<Rightarrow> pubkey \<Rightarrow> ('n, signature) reads" where
  "send_approvals E K cfg transactions multisig_program_id multisig_address =
     cli_send E K cfg
       (map (\<lambda>transaction_address.
          \<lparr>ins_program_id = multisig_program_id,
           ins_accounts = approve_metas (serum K) multisig_address transaction_address (config_signer cfg),
           ins_data = approve_data (serum K)\<rparr>) transactions)
       [config_signer cfg]"

definition query_approvals :: "'n cli \<Rightarrow> signature \<Rightarrow> pubkey list \<Rightarrow> pubkey \<Rightarrow> ('n, approve_output) reads" where
  "query_approvals K sig transactions multisig_address =
     reads_bind (get_account_deserialize (multisig_try_deserialize (serum K)) multisig_address) (\<lambda>ms.
     reads_bind (reads_map (\<lambda>transaction_address.
       reads_bind (get_account_deserialize (transaction_try_deserialize (serum K)) transaction_address) (\<lambda>tx.
       reads_return (word_of_nat (length (filter id (mt_signers tx))) :: u64))) transactions) (\<lambda>num_approvals.
     reads_return \<lparr>ao_transaction_id = sig, ao_sub_transactions = transactions, ao_num_approvals = num_approvals,
       ao_threshold = ms_threshold ms\<rparr>))"

definition approve ::
  "'i env \<Rightarrow> 'n cli \<Rightarrow> cli_config \<Rightarrow> pubkey list \<Rightarrow> pubkey \<Rightarrow> pubkey \<Rightarrow> ('n, approve_output) session" where
  "approve E K cfg transactions multisig_program_id multisig_address =
     session_bind (session_snapshot K (send_approvals E K cfg transactions multisig_program_id multisig_address)) (\<lambda>sig.
     session_snapshot K (query_approvals K sig transactions multisig_address))"

text \<open>\<open>str::trim\<close>, \<open>str::to_lowercase\<close>, \<open>str::lines\<close> and \<open>str::split_ascii_whitespace\<close> on ASCII text.\<close>

definition is_space :: "char \<Rightarrow> bool" where
  "is_space c \<longleftrightarrow> (of_char c :: nat) \<in> {9, 10, 11, 12, 13, 32}"

definition trim :: "string \<Rightarrow> string" where
  "trim s = rev (dropWhile is_space (rev (dropWhile is_space s)))"

definition ascii_lowercase :: "char \<Rightarrow> char" where
  "ascii_lowercase c =
     (if (65 :: nat) \<le> of_char c \<and> of_char c \<le> (90 :: nat) then char_of ((of_char c :: nat) + 32) else c)"

definition strip_cr :: "string \<Rightarrow> string" where
  "strip_cr s = (if s \<noteq> [] \<and> last s = CHR 0x0D then butlast s else s)"

definition text_lines :: "string \<Rightarrow> string list" where
  "text_lines s =
     (let pieces = split_on (CHR 0x0A) s in
      map strip_cr (if last pieces = [] then butlast pieces else pieces))"

definition first_word :: "string \<Rightarrow> string option" where
  "first_word s =
     (case takeWhile (\<lambda>c. \<not> is_space c) (dropWhile is_space s) of [] \<Rightarrow> None | w \<Rightarrow> Some w)"

text \<open>The answer to a prompt. At the end of the input every further line is empty.\<close>

definition next_line :: "string list \<Rightarrow> string \<times> string list" where
  "next_line lines = (case lines of [] \<Rightarrow> ([], []) | l # ls \<Rightarrow> (l, ls))"

partial_function (option) ask_user_y_n :: "string list \<Rightarrow> (bool \<times> string list) option" where
  "ask_user_y_n lines =
     (let (line, rest) = next_line lines;
          input = map ascii_lowercase (trim line) in
      if take 1 input = ''y'' then Some (True, rest)
      else if take 1 input = ''n'' then Some (False, rest)
      else ask_user_y_n rest)"

definition session_ask :: "('n, bool) session" where
  "session_ask = (\<lambda>(client, n, lines).
     map_option (\<lambda>(answer, rest). (Ok answer, client, n, rest)) (ask_user_y_n lines))"

primrec approve_each ::
  "lenv \<Rightarrow> 'n cli \<Rightarrow> cli_config \<Rightarrow> pubkey \<Rightarrow> pubkey \<Rightarrow> pubkey \<Rightarrow> pubkey list \<Rightarrow> ('n, unit) session" where
  "approve_each E K cfg multisig_program_id multisig_address lido_program_id [] = session_return ()"
| "approve_each E K cfg multisig_program_id multisig_address lido_program_id (transaction_address # rest) =
     session_bind (session_snapshot K
       (show_transaction E K transaction_address multisig_program_id lido_program_id)) (\<lambda>output.
     session_bind session_ask (\<lambda>yes.
     if \<not> yes then session_return ()
     else
       session_bind (approve E K cfg [transaction_address] multisig_program_id multisig_address) (\<lambda>approve_result.
       if ao_num_approvals approve_result = [] then session_panic
       else
         let can_execute = ao_threshold approve_result \<le> ao_num_approvals approve_result ! 0 in
         session_bind (if can_execute then session_ask else session_return False) (\<lambda>yes.
         session_bind
           (if yes then
              session_bind (session_snapshot K
                (execute_transaction E K cfg transaction_address multisig_program_id multisig_address)) (\<lambda>sig.
              session_return ())
            else session_return ()) (\<lambda>u.
         approve_each E K cfg multisig_program_id multisig_address lido_program_id rest)))))"

definition approve_transactions ::
  "lenv \<Rightarrow> 'n cli \<Rightarrow> cli_config \<Rightarrow> opts \<Rightarrow> pubkey list \<Rightarrow> ('n, unit) session" where
  "approve_transactions E K cfg opts transactions =
     session_bind (session_lift (opt_bool opts ''silent'')) (\<lambda>silent.
     session_bind (session_lift (opt_pubkey opts ''multisig_program_id'')) (\<lambda>multisig_program_id.
     session_bind (session_lift (opt_pubkey opts ''multisig_address'')) (\<lambda>multisig_address.
     session_bind (session_lift (opt_pubkey opts ''solido_program_id'')) (\<lambda>lido_program_id.
     if silent then
       session_bind (approve E K cfg transactions multisig_program_id multisig_address) (\<lambda>approve_result.
       session_return ())
     else approve_each E K cfg multisig_program_id multisig_address lido_program_id transactions))))"

primrec session_each :: "('a \<Rightarrow> ('n, unit) session) \<Rightarrow> 'a list \<Rightarrow> ('n, unit) session" where
  "session_each f [] = session_return ()"
| "session_each f (x # xs) = session_bind (f x) (\<lambda>u. session_each f xs)"

definition line_address :: "'n cli \<Rightarrow> string \<Rightarrow> pubkey option" where
  "line_address K line = Option.bind (first_word line) (pubkey_from_str (rpc K))"

definition approve_batch ::
  "lenv \<Rightarrow> 'n cli \<Rightarrow> host \<Rightarrow> cli_config \<Rightarrow> opts \<Rightarrow> ('n, unit) session" where
  "approve_batch E K H cfg opts =
     (case config_output_mode cfg of
        Json \<Rightarrow> session_return ()
      | Text \<Rightarrow>
          session_bind (session_lift (opt_path opts ''transaction_addresses_path'')) (\<lambda>path.
          case read_file H path of
            None \<Rightarrow> session_panic
          | Some transaction_addresses \<Rightarrow>
              session_each (\<lambda>chunk. approve_transactions E K cfg opts (List.map_filter (line_address K) chunk))
                (chunks 70 (text_lines transaction_addresses))))"

end
