(* ===== verification/Commands.thy ===== *)
theory Commands
  imports Multisig
begin

text \<open>
  \<^verbatim>\<open>cli/maintainer/src/commands_solido.rs\<close>, \<^verbatim>\<open>spl_token_utils.rs\<close> and the loading of keys in
  \<^verbatim>\<open>main.rs\<close>: the commands of the tool that create a pool, propose changes to its manager, deposit,
  withdraw and show its state. They read from a snapshot, build instructions with the builders of \<open>Instructions\<close>,
  and send them or hand them to \<open>propose_instruction\<close>. Key files and hardware wallets are the
  parameter \<open>wallets\<close>.
\<close>

subsection \<open>Loading keys\<close>

record wallets =
  uri_reference :: "string \<Rightarrow> string option"
  from_uri_key_query :: "string \<Rightarrow> string option option"
  locator_from_uri :: "string \<Rightarrow> string option"
  derivation_path_default :: string
  wallet_manager :: "string option option"
  remote_keypair :: "string \<Rightarrow> string \<Rightarrow> string \<Rightarrow> pubkey option"
  keypair_file :: "string \<Rightarrow> pubkey option"
  keypair_json :: "string \<Rightarrow> pubkey option"

definition uri_invalid_msg :: string where
  "uri_invalid_msg = ''Failed to parse usb:// keypair path. It must be of the form 'usb://ledger?key=0'.''"

definition parse_remote_wallet_details :: "wallets \<Rightarrow> string \<Rightarrow> (string \<times> string, cli_error) result" where
  "parse_remote_wallet_details W uri =
     and_then (ok_or (uri_reference W uri) (CliErr uri_invalid_msg)) (\<lambda>uri_ref.
     and_then (ok_or (from_uri_key_query W uri_ref) (CliErr uri_invalid_msg)) (\<lambda>query.
     let derivation_path = (case query of Some d \<Rightarrow> d | None \<Rightarrow> derivation_path_default W) in
     and_then (ok_or (locator_from_uri W uri_ref) (CliErr uri_invalid_msg)) (\<lambda>locator.
     Ok (derivation_path, locator))))"

text \<open>\<open>Path::starts_with\<close> compares whole components.\<close>

definition starts_with_usb :: "string \<Rightarrow> bool" where
  "starts_with_usb path \<longleftrightarrow> hd (split_on (CHR ''/'') path) = ''usb:''"

definition get_signer_from_path :: "wallets \<Rightarrow> string \<Rightarrow> (pubkey, cli_error) result" where
  "get_signer_from_path W path =
     (if starts_with_usb path then
        and_then (parse_remote_wallet_details W path) (\<lambda>(derivation_path, locator).
        and_then (ok_or (wallet_manager W) (CliErr ''Remote wallet found, but failed to establish protocol. Maybe the Solana app is not open.'')) (\<lambda>found.
        and_then (ok_or found (CliErr ''Failed to find a remote wallet, maybe Ledger is not connected or locked.'')) (\<lambda>hw_wallet.
        unwrap_opt (remote_keypair W locator derivation_path hw_wallet))))
      else unwrap_opt (keypair_file W path))"

definition get_signer_from_key :: "wallets \<Rightarrow> string \<Rightarrow> (pubkey, cli_error) result" where
  "get_signer_from_key W key_json = unwrap_opt (keypair_json W key_json)"

definition from_key_path_or_random :: "'n cli \<Rightarrow> wallets \<Rightarrow> string \<Rightarrow> ('n, pubkey) reads" where
  "from_key_path_or_random K W key_path =
     (if key_path \<noteq> [] then reads_lift (get_signer_from_path W key_path) else new_keypair K)"

subsection \<open>Token accounts\<close>

text \<open>These push two instructions; here they return them with the new key.\<close>

definition push_create_spl_token_mint ::
  "'i env \<Rightarrow> 'n cli \<Rightarrow> cli_config \<Rightarrow> instruction list \<Rightarrow> pubkey \<Rightarrow> ('n, pubkey \<times> instruction list) reads" where
  "push_create_spl_token_mint E K cfg instrs mint_authority =
     reads_bind (get_minimum_balance_for_rent_exemption E (rpc K) (mint_len (native K))) (\<lambda>min_balance.
     reads_bind (new_keypair K) (\<lambda>keypair.
     let instrs = instrs @ [create_account (native K) (config_signer cfg) keypair (lam min_balance)
       (word_of_nat (mint_len (native K))) (spl_token_id E)];
      num_decimals = 9 in
     reads_bind (reads_lift (assert (native_mint_decimals (native K) = num_decimals))) (\<lambda>u.
     reads_bind (reads_lift (map_err ProgramErr
       (initialize_mint (native K) (spl_token_id E) keypair mint_authority None num_decimals))) (\<lambda>ins.
     reads_return (keypair, instrs @ [ins])))))"

definition push_create_spl_token_account ::
  "'i env \<Rightarrow> 'n cli \<Rightarrow> cli_config \<Rightarrow> instruction list \<Rightarrow> pubkey \<Rightarrow> pubkey \<Rightarrow> ('n, pubkey \<times> instruction list) reads" where
  "push_create_spl_token_account E K cfg instrs mint owner =
     reads_bind (get_minimum_balance_for_rent_exemption E (rpc K) (token_account_len (native K))) (\<lambda>min_balance.
     reads_bind (new_keypair K) (\<lambda>keypair.
     let instrs = instrs @ [create_account (native K) (config_signer cfg) keypair (lam min_balance)
       (word_of_nat (token_account_len (native K))) (spl_token_id E)] in
     reads_bind (reads_lift (map_err ProgramErr
       (initialize_account (native K) (spl_token_id E) keypair mint owner))) (\<lambda>ins.
     reads_return (keypair, instrs @ [ins]))))"

subsection \<open>Creating a pool\<close>

definition lido_default :: lido where
  "lido_default =
     \<lparr>lido_account_type = Uninitialized, lido_lido_version = 0, manager = 0, st_sol_mint = 0,
      exchange_rate = \<lparr>computed_in_epoch = 0, st_sol_supply = StLamports 0, sol_balance = Lamports 0\<rparr>,
      sol_reserve_account_bump_seed = 0, stake_authority_bump_seed = 0, mint_authority_bump_seed = 0,
      reward_distribution = \<lparr>treasury_fee = 0, developer_fee = 0, st_sol_appreciation = 0\<rparr>,
      fee_recipients = \<lparr>treasury_account = 0, developer_account = 0\<rparr>,
      lido_metrics = metrics_new, lido_criteria = criteria_default,
      validator_list = 0, validator_perf_list = 0, maintainer_list = 0\<rparr>"

definition calculate_size :: "lenv \<Rightarrow> nat" where
  "calculate_size E = length (lido_borsh E lido_default)"

record create_solido_output =
  cso_solido_address :: pubkey
  cso_reserve_account :: pubkey
  cso_st_sol_mint_address :: pubkey
  cso_treasury_account :: pubkey
  cso_developer_account :: pubkey
  cso_mint_authority :: pubkey
  cso_validator_list_address :: pubkey
  cso_validator_perf_list_address :: pubkey
  cso_maintainer_list_address :: pubkey

text \<open>The block that takes the mint from the options or creates one in a transaction of its own.\<close>

definition create_or_use_mint ::
  "lenv \<Rightarrow> 'n cli \<Rightarrow> cli_config \<Rightarrow> opts \<Rightarrow> instruction list \<Rightarrow> pubkey \<Rightarrow> ('n, pubkey \<times> instruction list) reads" where
  "create_or_use_mint E K cfg opts instrs mint_authority =
     reads_bind (reads_lift (opt_pubkey opts ''mint_address'')) (\<lambda>mint_address.
     if mint_address \<noteq> 0 then reads_return (mint_address, instrs)
     else
       reads_bind (push_create_spl_token_mint E K cfg instrs mint_authority) (\<lambda>(st_sol_mint_keypair, instrs).
       reads_bind (cli_send E K cfg instrs [st_sol_mint_keypair, config_signer cfg]) (\<lambda>sig.
       reads_return (st_sol_mint_keypair, []))))"

definition command_create_solido ::
  "lenv \<Rightarrow> 'n cli \<Rightarrow> wallets \<Rightarrow> cli_config \<Rightarrow> opts \<Rightarrow> ('n, create_solido_output) reads" where
  "command_create_solido E K W cfg opts =
     reads_bind (reads_lift (opt_path opts ''solido_key_path'')) (\<lambda>path.
     reads_bind (from_key_path_or_random K W path) (\<lambda>lido_signer.
     reads_bind (reads_lift (opt_path opts ''validator_list_key_path'')) (\<lambda>path.
     reads_bind (from_key_path_or_random K W path) (\<lambda>validator_list_signer.
     reads_bind (reads_lift (opt_path opts ''validator_perf_list_key_path'')) (\<lambda>path.
     reads_bind (from_key_path_or_random K W path) (\<lambda>validator_perf_list_signer.
     reads_bind (reads_lift (opt_path opts ''maintainer_list_key_path'')) (\<lambda>path.
     reads_bind (from_key_path_or_random K W path) (\<lambda>maintainer_list_signer.
     reads_bind (reads_lift (opt_pubkey opts ''solido_program_id'')) (\<lambda>program_id.
     let reserve = fst (find_authority_program_address (find_program_address E) program_id lido_signer RESERVE_ACCOUNT);
         mint_authority = fst (find_authority_program_address (find_program_address E) program_id lido_signer MINT_AUTHORITY) in
     reads_bind (reads_lift (opt_pubkey opts ''multisig_program_id'')) (\<lambda>multisig_program_id.
     reads_bind (reads_lift (opt_pubkey opts ''multisig_address'')) (\<lambda>multisig_address.
     let manager_address = fst (get_multisig_program_address E multisig_program_id multisig_address);
         lido_size = calculate_size E in
     reads_bind (get_minimum_balance_for_rent_exemption E (rpc K) lido_size) (\<lambda>lido_account_balance.
     reads_bind (reads_lift (opt_u32 opts ''max_validators'')) (\<lambda>max_validators.
     let validator_list_size = required_bytes validator_entry max_validators in
     reads_bind (get_minimum_balance_for_rent_exemption E (rpc K) validator_list_size) (\<lambda>validator_list_balance.
     let validator_perf_list_size = required_bytes (PE E) max_validators in
     reads_bind (get_minimum_balance_for_rent_exemption E (rpc K) validator_perf_list_size) (\<lambda>validator_perf_list_balance.
     reads_bind (reads_lift (opt_u32 opts ''max_maintainers'')) (\<lambda>max_maintainers.
     let maintainer_list_size = required_bytes maintainer_entry max_maintainers in
     reads_bind (get_minimum_balance_for_rent_exemption E (rpc K) maintainer_list_size) (\<lambda>maintainer_list_balance.
     reads_bind (get_minimum_balance_for_rent_exemption E (rpc K) 0) (\<lambda>min_balance_empty_data_account.
     let instrs = [system_transfer (native K) (config_signer cfg) reserve (lam min_balance_empty_data_account)] in
     reads_bind (create_or_use_mint E K cfg opts instrs mint_authority) (\<lambda>(mint, instrs).
     reads_bind (reads_lift (opt_pubkey opts ''treasury_account_owner'')) (\<lambda>treasury_owner.
     reads_bind (push_create_spl_token_account E K cfg instrs mint treasury_owner) (\<lambda>(treasury_keypair, instrs).
     reads_bind (reads_lift (opt_pubkey opts ''developer_account_owner'')) (\<lambda>developer_owner.
     reads_bind (push_create_spl_token_account E K cfg instrs mint developer_owner) (\<lambda>(developer_keypair, instrs).
     reads_bind (cli_send E K cfg instrs [config_signer cfg, treasury_keypair, developer_keypair]) (\<lambda>sig.
     reads_bind (reads_lift (opt_u32 opts ''treasury_fee_share'')) (\<lambda>treasury_share.
     reads_bind (reads_lift (opt_u32 opts ''developer_fee_share'')) (\<lambda>developer_share.
     reads_bind (reads_lift (opt_u32 opts ''st_sol_appreciation_share'')) (\<lambda>appreciation_share.
     reads_bind (reads_lift (opt_u8 opts ''max_commission'')) (\<lambda>max_commission_opt.
     reads_bind (reads_lift (opt_u64 opts ''min_block_production_rate'')) (\<lambda>min_block_production_rate_opt.
     reads_bind (reads_lift (opt_u64 opts ''min_vote_success_rate'')) (\<lambda>min_vote_success_rate_opt.
     reads_bind (cli_send E K cfg
       [create_account (native K) (config_signer cfg) lido_signer (lam lido_account_balance)
          (word_of_nat lido_size) program_id,
        create_account (native K) (config_signer cfg) validator_list_signer (lam validator_list_balance)
          (word_of_nat validator_list_size) program_id,
        create_account (native K) (config_signer cfg) validator_perf_list_signer (lam validator_perf_list_balance)
          (word_of_nat validator_perf_list_size) program_id,
        create_account (native K) (config_signer cfg) maintainer_list_signer (lam maintainer_list_balance)
          (word_of_nat maintainer_list_size) program_id,
        initialize E program_id
          [lido_signer, manager_address, mint, treasury_keypair, developer_keypair, reserve,
           validator_list_signer, validator_perf_list_signer, maintainer_list_signer]
          \<lparr>treasury_fee = treasury_share, developer_fee = developer_share, st_sol_appreciation = appreciation_share\<rparr>
          \<lparr>max_commission = max_commission_opt, min_block_production_rate = min_block_production_rate_opt,
           min_vote_success_rate = min_vote_success_rate_opt\<rparr>
          max_validators max_maintainers]
       [config_signer cfg, lido_signer, validator_list_signer, validator_perf_list_signer, maintainer_list_signer]) (\<lambda>sig.
     reads_return
       \<lparr>cso_solido_address = lido_signer, cso_reserve_account = reserve, cso_st_sol_mint_address = mint,
        cso_treasury_account = treasury_keypair, cso_developer_account = developer_keypair,
        cso_mint_authority = mint_authority, cso_validator_list_address = validator_list_signer,
        cso_validator_perf_list_address = validator_perf_list_signer,
        cso_maintainer_list_address = maintainer_list_signer\<rparr>)))))))))))))))))))))))))))))))"

subsection \<open>Commands of the manager\<close>

definition command_add_validator :: "lenv \<Rightarrow> 'n cli \<Rightarrow> cli_config \<Rightarrow> opts \<Rightarrow> ('n, pubkey) reads" where
  "command_add_validator E K cfg opts =
     reads_bind (reads_lift (opt_pubkey opts ''multisig_program_id'')) (\<lambda>multisig_program_id.
     reads_bind (reads_lift (opt_pubkey opts ''multisig_address'')) (\<lambda>multisig_address.
     let manager_address = fst (get_multisig_program_address E multisig_program_id multisig_address) in
     reads_bind (reads_lift (opt_pubkey opts ''solido_address'')) (\<lambda>address.
     reads_bind (get_solido E address) (\<lambda>pool.
     reads_bind (reads_lift (opt_pubkey opts ''solido_program_id'')) (\<lambda>program_id.
     reads_bind (reads_lift (opt_pubkey opts ''validator_vote_account'')) (\<lambda>vote_account.
     propose_instruction E K cfg multisig_program_id multisig_address
       (add_validator E program_id [address, manager_address, vote_account, validator_list pool])))))))"

definition command_deactivate_validator :: "lenv \<Rightarrow> 'n cli \<Rightarrow> cli_config \<Rightarrow> opts \<Rightarrow> ('n, pubkey) reads" where
  "command_deactivate_validator E K cfg opts =
     reads_bind (reads_lift (opt_pubkey opts ''multisig_program_id'')) (\<lambda>multisig_program_id.
     reads_bind (reads_lift (opt_pubkey opts ''multisig_address'')) (\<lambda>multisig_address.
     let manager_address = fst (get_multisig_program_address E multisig_program_id multisig_address) in
     reads_bind (reads_lift (opt_pubkey opts ''solido_address'')) (\<lambda>address.
     reads_bind (get_solido E address) (\<lambda>pool.
     reads_bind (get_account_list validator_entry (validator_list pool)) (\<lambda>vals.
     reads_bind (reads_lift (opt_pubkey opts ''validator_vote_account'')) (\<lambda>vote_account.
     reads_bind (reads_lift (account_list_position validator_entry vals vote_account)) (\<lambda>found.
     reads_bind (reads_lift (ok_or found (CliErr ''Pubkey not found in validator list''))) (\<lambda>validator_index.
     reads_bind (reads_lift (opt_pubkey opts ''solido_program_id'')) (\<lambda>program_id.
     propose_instruction E K cfg multisig_program_id multisig_address
       (deactivate_validator E program_id [address, manager_address, vote_account, validator_list pool]
         validator_index))))))))))"

definition command_remove_validator :: "lenv \<Rightarrow> 'n cli \<Rightarrow> cli_config \<Rightarrow> opts \<Rightarrow> ('n, pubkey) reads" where
  "command_remove_validator E K cfg opts =
     reads_bind (reads_lift (opt_pubkey opts ''solido_address'')) (\<lambda>address.
     reads_bind (get_solido E address) (\<lambda>pool.
     reads_bind (get_account_list validator_entry (validator_list pool)) (\<lambda>vals.
     reads_bind (reads_lift (opt_pubkey opts ''multisig_program_id'')) (\<lambda>multisig_program_id.
     reads_bind (reads_lift (opt_pubkey opts ''multisig_address'')) (\<lambda>multisig_address.
     let manager_address = fst (get_multisig_program_address E multisig_program_id multisig_address) in
     reads_bind (reads_lift (opt_pubkey opts ''solido_program_id'')) (\<lambda>program_id.
     reads_bind (reads_lift (opt_pubkey opts ''validator_vote_account'')) (\<lambda>vote_account.
     reads_bind (reads_lift (account_list_position validator_entry vals vote_account)) (\<lambda>found.
     reads_bind (reads_lift (ok_or found (CliErr ''Pubkey not found in validator list''))) (\<lambda>validator_index.
     propose_instruction E K cfg multisig_program_id multisig_address
       (enqueue_validator_for_removal E program_id [address, manager_address, vote_account, validator_list pool]
         validator_index))))))))))"

definition command_add_maintainer :: "lenv \<Rightarrow> 'n cli \<Rightarrow> cli_config \<Rightarrow> opts \<Rightarrow> ('n, pubkey) reads" where
  "command_add_maintainer E K cfg opts =
     reads_bind (reads_lift (opt_pubkey opts ''multisig_program_id'')) (\<lambda>multisig_program_id.
     reads_bind (reads_lift (opt_pubkey opts ''multisig_address'')) (\<lambda>multisig_address.
     let manager_address = fst (get_multisig_program_address E multisig_program_id multisig_address) in
     reads_bind (reads_lift (opt_pubkey opts ''solido_address'')) (\<lambda>address.
     reads_bind (get_solido E address) (\<lambda>pool.
     reads_bind (reads_lift (opt_pubkey opts ''solido_program_id'')) (\<lambda>program_id.
     reads_bind (reads_lift (opt_pubkey opts ''maintainer_address'')) (\<lambda>maintainer_key.
     propose_instruction E K cfg multisig_program_id multisig_address
       (add_maintainer E program_id [address, manager_address, maintainer_key, maintainer_list pool])))))))"

definition command_remove_maintainer :: "lenv \<Rightarrow> 'n cli \<Rightarrow> cli_config \<Rightarrow> opts \<Rightarrow> ('n, pubkey) reads" where
  "command_remove_maintainer E K cfg opts =
     reads_bind (reads_lift (opt_pubkey opts ''multisig_program_id'')) (\<lambda>multisig_program_id.
     reads_bind (reads_lift (opt_pubkey opts ''multisig_address'')) (\<lambda>multisig_address.
     let manager_address = fst (get_multisig_program_address E multisig_program_id multisig_address) in
     reads_bind (reads_lift (opt_pubkey opts ''solido_address'')) (\<lambda>address.
     reads_bind (get_solido E address) (\<lambda>pool.
     reads_bind (get_account_list maintainer_entry (maintainer_list pool)) (\<lambda>maints.
     reads_bind (reads_lift (opt_pubkey opts ''maintainer_address'')) (\<lambda>maintainer_key.
     reads_bind (reads_lift (account_list_position maintainer_entry maints maintainer_key)) (\<lambda>found.
     reads_bind (reads_lift (ok_or found (CliErr ''Pubkey not found in maintainer list''))) (\<lambda>maintainer_index.
     reads_bind (reads_lift (opt_pubkey opts ''solido_program_id'')) (\<lambda>program_id.
     propose_instruction E K cfg multisig_program_id multisig_address
       (remove_maintainer E program_id [address, manager_address, maintainer_key, maintainer_list pool]
         maintainer_index))))))))))"

definition command_change_criteria :: "lenv \<Rightarrow> 'n cli \<Rightarrow> cli_config \<Rightarrow> opts \<Rightarrow> ('n, pubkey) reads" where
  "command_change_criteria E K cfg opts =
     reads_bind (reads_lift (opt_pubkey opts ''multisig_program_id'')) (\<lambda>multisig_program_id.
     reads_bind (reads_lift (opt_pubkey opts ''multisig_address'')) (\<lambda>multisig_address.
     let manager_address = fst (get_multisig_program_address E multisig_program_id multisig_address) in
     reads_bind (reads_lift (opt_pubkey opts ''solido_program_id'')) (\<lambda>program_id.
     reads_bind (reads_lift (opt_pubkey opts ''solido_address'')) (\<lambda>address.
     reads_bind (reads_lift (opt_u8 opts ''max_commission'')) (\<lambda>max_commission_opt.
     reads_bind (reads_lift (opt_u64 opts ''min_block_production_rate'')) (\<lambda>min_block_production_rate_opt.
     reads_bind (reads_lift (opt_u64 opts ''min_vote_success_rate'')) (\<lambda>min_vote_success_rate_opt.
     propose_instruction E K cfg multisig_program_id multisig_address
       (change_criteria E program_id [address, manager_address]
         \<lparr>max_commission = max_commission_opt, min_block_production_rate = min_block_production_rate_opt,
          min_vote_success_rate = min_vote_success_rate_opt\<rparr>))))))))"

text \<open>The closure of \<open>command_migrate_state_to_v2\<close>, which the command runs in \<open>with_snapshot\<close>.\<close>

definition propose_migrate_state_to_v2 :: "lenv \<Rightarrow> 'n cli \<Rightarrow> cli_config \<Rightarrow> opts \<Rightarrow> ('n, pubkey) reads" where
  "propose_migrate_state_to_v2 E K cfg opts =
     reads_bind (reads_lift (opt_pubkey opts ''multisig_program_id'')) (\<lambda>multisig_program_id.
     reads_bind (reads_lift (opt_pubkey opts ''multisig_address'')) (\<lambda>multisig_address.
     let manager_address = fst (get_multisig_program_address E multisig_program_id multisig_address) in
     reads_bind (reads_lift (opt_pubkey opts ''solido_program_id'')) (\<lambda>program_id.
     reads_bind (reads_lift (opt_u32 opts ''treasury_fee_share'')) (\<lambda>treasury_share.
     reads_bind (reads_lift (opt_u32 opts ''developer_fee_share'')) (\<lambda>developer_share.
     reads_bind (reads_lift (opt_u32 opts ''st_sol_appreciation_share'')) (\<lambda>appreciation_share.
     reads_bind (reads_lift (opt_u8 opts ''max_commission_percentage'')) (\<lambda>max_commission_percentage.
     reads_bind (reads_lift (opt_pubkey opts ''solido_address'')) (\<lambda>address.
     reads_bind (reads_lift (opt_pubkey opts ''validator_list_address'')) (\<lambda>validator_list_address.
     reads_bind (reads_lift (opt_pubkey opts ''validator_perf_list_address'')) (\<lambda>validator_perf_list_address.
     reads_bind (reads_lift (opt_pubkey opts ''maintainer_list_address'')) (\<lambda>maintainer_list_address.
     reads_bind (reads_lift (opt_pubkey opts ''developer_fee_address'')) (\<lambda>developer_fee_address.
     propose_instruction E K cfg multisig_program_id multisig_address
       (migrate_state_to_v2 E program_id
         [address, manager_address, validator_list_address, validator_perf_list_address, maintainer_list_address,
          developer_fee_address]
         \<lparr>treasury_fee = treasury_share, developer_fee = developer_share, st_sol_appreciation = appreciation_share\<rparr>
         6700 5000 max_commission_percentage)))))))))))))"

definition command_migrate_state_to_v2 :: "lenv \<Rightarrow> 'n cli \<Rightarrow> cli_config \<Rightarrow> opts \<Rightarrow> ('n, pubkey) session" where
  "command_migrate_state_to_v2 E K cfg opts = session_snapshot K (propose_migrate_state_to_v2 E K cfg opts)"

record create_v2_accounts_output =
  cvo_validator_list_address :: pubkey
  cvo_maintainer_list_address :: pubkey
  cvo_developer_fee_address :: pubkey

definition command_create_v2_accounts ::
  "'i env \<Rightarrow> 'n cli \<Rightarrow> cli_config \<Rightarrow> opts \<Rightarrow> ('n, create_v2_accounts_output) reads" where
  "command_create_v2_accounts E K cfg opts =
     reads_bind (new_keypair K) (\<lambda>validator_list_signer.
     reads_bind (new_keypair K) (\<lambda>maintainer_list_signer.
     let validator_list_size = required_bytes validator_entry 50000 in
     reads_bind (get_minimum_balance_for_rent_exemption E (rpc K) validator_list_size) (\<lambda>validator_list_balance.
     let maintainer_list_size = required_bytes maintainer_entry 5000 in
     reads_bind (get_minimum_balance_for_rent_exemption E (rpc K) maintainer_list_size) (\<lambda>maintainer_list_balance.
     reads_bind (reads_lift (opt_pubkey opts ''st_sol_mint'')) (\<lambda>mint.
     reads_bind (reads_lift (opt_pubkey opts ''developer_account_owner'')) (\<lambda>developer_owner.
     reads_bind (push_create_spl_token_account E K cfg [] mint developer_owner) (\<lambda>(developer_keypair, instrs).
     reads_bind (reads_lift (opt_pubkey opts ''solido_program_id'')) (\<lambda>program_id.
     let instrs = instrs @
       [create_account (native K) (config_signer cfg) validator_list_signer (lam validator_list_balance)
          (word_of_nat validator_list_size) program_id,
        create_account (native K) (config_signer cfg) maintainer_list_signer (lam maintainer_list_balance)
          (word_of_nat maintainer_list_size) program_id] in
     reads_bind (cli_send E K cfg instrs
       [config_signer cfg, validator_list_signer, maintainer_list_signer, developer_keypair]) (\<lambda>sig.
     reads_return
       \<lparr>cvo_validator_list_address = validator_list_signer, cvo_maintainer_list_address = maintainer_list_signer,
        cvo_developer_fee_address = developer_keypair\<rparr>)))))))))"

subsection \<open>Commands of users\<close>

record deposit_output =
  dpo_recipient :: pubkey
  dpo_expected_st_sol :: st_lamports
  dpo_st_sol_balance_increase :: st_lamports
  dpo_created_associated_st_sol_account :: bool

text \<open>The three closures of \<open>command_deposit\<close>.\<close>

definition deposit_recipient ::
  "lenv \<Rightarrow> 'n cli \<Rightarrow> cli_config \<Rightarrow> opts \<Rightarrow> ('n, pubkey \<times> bool) reads" where
  "deposit_recipient E K cfg opts =
     reads_bind (reads_lift (opt_pubkey opts ''solido_address'')) (\<lambda>address.
     reads_bind (get_solido E address) (\<lambda>pool.
     let recipient = get_associated_token_address (native K) (config_signer cfg) (st_sol_mint pool) in
     reads_bind (account_exists recipient) (\<lambda>found.
     if \<not> found then
       reads_bind (cli_send E K cfg
         [create_associated_token_account (native K) (config_signer cfg) (config_signer cfg) (st_sol_mint pool)]
         [config_signer cfg]) (\<lambda>sig.
       reads_return (recipient, True))
     else reads_return (recipient, False))))"

definition send_deposit ::
  "lenv \<Rightarrow> 'n cli \<Rightarrow> cli_config \<Rightarrow> opts \<Rightarrow> pubkey \<Rightarrow> ('n, st_lamports \<times> exchange_rate) reads" where
  "send_deposit E K cfg opts recipient =
     reads_bind (get_spl_token_balance E recipient) (\<lambda>balance_before.
     reads_bind (reads_lift (opt_pubkey opts ''solido_address'')) (\<lambda>address.
     reads_bind (get_solido E address) (\<lambda>pool.
     reads_bind (reads_lift (opt_pubkey opts ''solido_program_id'')) (\<lambda>program_id.
     reads_bind (reads_lift (map_err ProgramErr (get_reserve_account E pool program_id address))) (\<lambda>reserve.
     reads_bind (reads_lift (map_err ProgramErr (get_mint_authority E pool program_id address))) (\<lambda>mint_authority.
     reads_bind (reads_lift (opt_lamports opts ''amount_sol'')) (\<lambda>amount_sol.
     reads_bind (cli_send E K cfg
       [deposit E program_id
          [address, config_signer cfg, recipient, st_sol_mint pool, reserve, mint_authority] amount_sol]
       [config_signer cfg]) (\<lambda>sig.
     reads_return (StLamports balance_before, exchange_rate pool)))))))))"

definition balance_after_deposit :: "'i env \<Rightarrow> pubkey \<Rightarrow> ('n, st_lamports) reads" where
  "balance_after_deposit E recipient =
     reads_bind (get_spl_token_balance E recipient) (\<lambda>b. reads_return (StLamports b))"

definition command_deposit :: "lenv \<Rightarrow> 'n cli \<Rightarrow> cli_config \<Rightarrow> opts \<Rightarrow> ('n, deposit_output) session" where
  "command_deposit E K cfg opts =
     session_bind (session_snapshot K (deposit_recipient E K cfg opts)) (\<lambda>(recipient, created_recipient).
     session_bind (session_snapshot K (send_deposit E K cfg opts recipient)) (\<lambda>(balance_before, rate).
     session_bind (session_snapshot K (balance_after_deposit E recipient)) (\<lambda>balance_after.
     session_bind (session_lift (opt_lamports opts ''amount_sol'')) (\<lambda>amount_sol.
     session_bind (session_lift
       (case exchange_sol rate amount_sol of Ok x \<Rightarrow> Ok x | Err e \<Rightarrow> Ok (StLamports 0) | Panic \<Rightarrow> Panic)) (\<lambda>expected.
     session_return
       \<lparr>dpo_recipient = recipient, dpo_expected_st_sol = expected,
        dpo_st_sol_balance_increase = StLamports (saturating_sub (st_lam balance_after) (st_lam balance_before)),
        dpo_created_associated_st_sol_account = created_recipient\<rparr>)))))"

record withdraw_output =
  wdo_from_token_address :: pubkey
  wdo_withdrawn_sol :: lamports
  wdo_new_stake_account :: pubkey

definition send_withdraw :: "lenv \<Rightarrow> 'n cli \<Rightarrow> cli_config \<Rightarrow> opts \<Rightarrow> ('n, pubkey \<times> pubkey) reads" where
  "send_withdraw E K cfg opts =
     reads_bind (reads_lift (opt_pubkey opts ''solido_address'')) (\<lambda>address.
     reads_bind (get_solido E address) (\<lambda>pool.
     reads_bind (get_account_list validator_entry (validator_list pool)) (\<lambda>vals.
     let st_sol_address = get_associated_token_address (native K) (config_signer cfg) (st_sol_mint pool) in
     reads_bind (reads_lift (opt_pubkey opts ''solido_program_id'')) (\<lambda>program_id.
     reads_bind (reads_lift (map_err ProgramErr (get_stake_authority E pool program_id address))) (\<lambda>stake_authority.
     reads_bind (reads_lift (map_err (\<lambda>e. CliErr ''The instance has no active validators to withdraw from.'')
       (get_validator_to_withdraw vals))) (\<lambda>heaviest.
     let stake_address = fst (find_stake_account_address (find_program_address E) heaviest program_id address
       (seed_begin (stake_seeds heaviest)) Stake) in
     reads_bind (new_keypair K) (\<lambda>destination_stake_account.
     reads_bind (reads_lift (account_list_position validator_entry vals (vote_account_address heaviest))) (\<lambda>found.
     reads_bind (reads_lift (ok_or found (CliErr ''Pubkey not found in validator list''))) (\<lambda>validator_index.
     reads_bind (reads_lift (opt_st_lamports opts ''amount_st_sol'')) (\<lambda>amount_st_sol.
     reads_bind (cli_send E K cfg
       [withdraw E program_id
          [address, config_signer cfg, st_sol_address, st_sol_mint pool, vote_account_address heaviest, stake_address,
           destination_stake_account, stake_authority, validator_list pool]
          amount_st_sol validator_index]
       [config_signer cfg, destination_stake_account]) (\<lambda>sig.
     reads_return (st_sol_address, destination_stake_account))))))))))))"

definition command_withdraw :: "lenv \<Rightarrow> 'n cli \<Rightarrow> cli_config \<Rightarrow> opts \<Rightarrow> ('n, withdraw_output) session" where
  "command_withdraw E K cfg opts =
     session_bind (session_snapshot K (send_withdraw E K cfg opts)) (\<lambda>(st_sol_address, new_stake_account).
     session_bind (session_snapshot K (reads_bind (get_account new_stake_account) (\<lambda>acc.
       reads_return (Lamports (acc_lamports acc))))) (\<lambda>stake_sol.
     session_return
       \<lparr>wdo_from_token_address = st_sol_address, wdo_withdrawn_sol = stake_sol,
        wdo_new_stake_account = new_stake_account\<rparr>))"

record violation_info =
  vi_validator_vote_account :: pubkey
  vi_commission :: u8

definition read_commission :: "pubkey \<Rightarrow> ('n, u8) reads" where
  "read_commission vote_pubkey =
     reads_bind (get_account vote_pubkey) (\<lambda>acc.
     reads_lift (ok_or (ok_option (get_vote_account_commission (acc_data acc)))
       (CliErr ''Validator account data too small'')))"

primrec find_violations ::
  "u8 \<Rightarrow> validator list \<Rightarrow> ('n, violation_info list) reads" where
  "find_violations limit [] = reads_return []"
| "find_violations limit (v # vs) =
     reads_bind (read_commission (vote_account_address v)) (\<lambda>c.
     reads_bind (find_violations limit vs) (\<lambda>rest.
     reads_return (if \<not> is_active v \<or> c \<le> limit then rest
       else \<lparr>vi_validator_vote_account = vote_account_address v, vi_commission = c\<rparr> # rest)))"

record deactivate_if_violates_output =
  dvo_entries :: "violation_info list"
  dvo_max_commission_percentage :: u8

definition command_deactivate_if_violates ::
  "lenv \<Rightarrow> 'n cli \<Rightarrow> cli_config \<Rightarrow> opts \<Rightarrow> ('n, deactivate_if_violates_output) reads" where
  "command_deactivate_if_violates E K cfg opts =
     reads_bind (reads_lift (opt_pubkey opts ''solido_address'')) (\<lambda>address.
     reads_bind (get_solido E address) (\<lambda>pool.
     reads_bind (get_account_list validator_entry (validator_list pool)) (\<lambda>vals.
     reads_bind (reads_lift (opt_pubkey opts ''solido_program_id'')) (\<lambda>program_id.
     reads_bind (find_violations (max_commission (lido_criteria pool)) (entries vals)) (\<lambda>violations.
     let instrs = map (\<lambda>v. deactivate_if_violates E program_id
       [address, vi_validator_vote_account v, validator_list pool, validator_perf_list pool]) violations in
     reads_bind (cli_send E K cfg instrs []) (\<lambda>sig.
     reads_return
       \<lparr>dvo_entries = violations, dvo_max_commission_percentage = max_commission (lido_criteria pool)\<rparr>))))))"

subsection \<open>Showing a pool\<close>

record rich_validator =
  rv_vote_account_address :: pubkey
  rv_stake_seeds :: seed_range
  rv_unstake_seeds :: seed_range
  rv_stake_accounts_balance :: lamports
  rv_unstake_accounts_balance :: lamports
  rv_effective_stake_balance :: lamports
  rv_active :: bool
  rv_identity_account_address :: pubkey
  rv_info :: validator_info
  rv_perf :: "validator_perf option"
  rv_commission :: u8

record show_solido_output =
  sso_solido :: lido
  sso_solido_program_id :: pubkey
  sso_solido_address :: pubkey
  sso_reserve_account :: pubkey
  sso_stake_authority :: pubkey
  sso_mint_authority :: pubkey
  sso_validators :: "rich_validator list"
  sso_validators_max :: u32
  sso_maintainers :: "maintainer list"
  sso_maintainers_max :: u32
  sso_reserve_account_balance :: lamports

definition read_rich_validator ::
  "'n cli \<Rightarrow> validator_perf list \<Rightarrow> validator \<Rightarrow> ('n, rich_validator) reads" where
  "read_rich_validator K available_perfs v =
     reads_bind (get_vote_account (rpc K) (vote_account_address v)) (\<lambda>vote.
     reads_bind (get_validator_info (rpc K) (vs_node_pubkey vote)) (\<lambda>info.
     reads_bind (read_commission (vote_account_address v)) (\<lambda>c.
     reads_return
       \<lparr>rv_vote_account_address = vote_account_address v, rv_stake_seeds = stake_seeds v,
        rv_unstake_seeds = unstake_seeds v, rv_stake_accounts_balance = stake_accounts_balance v,
        rv_unstake_accounts_balance = unstake_accounts_balance v,
        rv_effective_stake_balance = effective_stake_balance v, rv_active = is_active v,
        rv_identity_account_address = vs_node_pubkey vote, rv_info = info,
        rv_perf = List.find (\<lambda>perf. validator_vote_account_address perf = vote_account_address v) available_perfs,
        rv_commission = c\<rparr>)))"

definition command_show_solido :: "lenv \<Rightarrow> 'n cli \<Rightarrow> opts \<Rightarrow> ('n, show_solido_output) reads" where
  "command_show_solido E K opts =
     reads_bind (reads_lift (opt_pubkey opts ''solido_address'')) (\<lambda>address.
     reads_bind (get_solido E address) (\<lambda>pool.
     reads_bind (reads_lift (opt_pubkey opts ''solido_program_id'')) (\<lambda>program_id.
     reads_bind (reads_lift (map_err ProgramErr (get_reserve_account E pool program_id address))) (\<lambda>reserve.
     reads_bind (reads_lift (map_err ProgramErr (get_stake_authority E pool program_id address))) (\<lambda>stake_authority.
     reads_bind (reads_lift (map_err ProgramErr (get_mint_authority E pool program_id address))) (\<lambda>mint_authority.
     reads_bind (get_account reserve) (\<lambda>reserve_acc.
     reads_bind (get_account_list validator_entry (validator_list pool)) (\<lambda>vals.
     reads_bind (get_account_list (PE E) (validator_perf_list pool)) (\<lambda>available_perfs.
     reads_bind (get_account_list maintainer_entry (maintainer_list pool)) (\<lambda>maints.
     reads_bind (reads_map (read_rich_validator K (entries available_perfs)) (entries vals)) (\<lambda>rich.
     reads_return
       \<lparr>sso_solido = pool, sso_solido_program_id = program_id, sso_solido_address = address,
        sso_reserve_account = reserve, sso_stake_authority = stake_authority, sso_mint_authority = mint_authority,
        sso_validators = rich, sso_validators_max = max_entries (al_header vals),
        sso_maintainers = entries maints, sso_maintainers_max = max_entries (al_header maints),
        sso_reserve_account_balance = Lamports (acc_lamports reserve_acc)\<rparr>)))))))))))"

record show_solido_authorities_output =
  sao_solido_program_id :: pubkey
  sao_solido_address :: pubkey
  sao_reserve_account :: pubkey
  sao_stake_authority :: pubkey
  sao_mint_authority :: pubkey

definition command_show_solido_authorities ::
  "'i env \<Rightarrow> opts \<Rightarrow> (show_solido_authorities_output, cli_error) result" where
  "command_show_solido_authorities E opts =
     and_then (opt_pubkey opts ''solido_program_id'') (\<lambda>program_id.
     and_then (opt_pubkey opts ''solido_address'') (\<lambda>address.
     let authority = (\<lambda>seed. fst (find_authority_program_address (find_program_address E) program_id address seed)) in
     Ok \<lparr>sao_solido_program_id = program_id, sao_solido_address = address,
         sao_reserve_account = authority RESERVE_ACCOUNT, sao_stake_authority = authority STAKE_AUTHORITY,
         sao_mint_authority = authority MINT_AUTHORITY\<rparr>))"

end
