(* ===== verification/Daemon.thy ===== *)
theory Daemon
  imports Maintenance
begin

text \<open>
  \<^verbatim>\<open>cli/maintainer/src/daemon.rs\<close>: the loop that polls the chain, performs
  maintenance when it is this maintainer's duty, counts what it did and publishes
  the latest state for the web server. \<open>run_maintenance_iteration\<close> is one poll;
  \<open>daemon_step\<close> is one round of \<open>Daemon::run\<close>, with the instant at which the
  snapshot is published as an argument. Its value is \<open>None\<close> when the poll never
  returns and \<open>Panic\<close> when the process aborts; otherwise it gives the daemon's next
  state and how it sleeps. The lengths of the sleeps (random, and floating point)
  and the HTTP server are not modelled.
\<close>

subsection \<open>Metrics\<close>

record maintenance_metrics =
  polls :: u64
  errors :: u64
  transactions_stake_deposit :: u64
  transactions_update_exchange_rate :: u64
  transactions_update_offchain_validator_perf :: u64
  transactions_update_onchain_validator_perf :: u64
  transactions_update_stake_account_balance :: u64
  transactions_merge_stake :: u64
  transactions_unstake_from_inactive_validator :: u64
  transactions_remove_validator :: u64
  transactions_deactivate_if_violates :: u64
  transactions_reactivate_if_complies :: u64
  transactions_unstake_from_active_validator :: u64

definition maintenance_metrics_zero :: maintenance_metrics where
  "maintenance_metrics_zero =
     \<lparr>polls = 0, errors = 0, transactions_stake_deposit = 0, transactions_update_exchange_rate = 0,
      transactions_update_offchain_validator_perf = 0, transactions_update_onchain_validator_perf = 0,
      transactions_update_stake_account_balance = 0, transactions_merge_stake = 0,
      transactions_unstake_from_inactive_validator = 0, transactions_remove_validator = 0,
      transactions_deactivate_if_violates = 0, transactions_reactivate_if_complies = 0,
      transactions_unstake_from_active_validator = 0\<rparr>"

fun observe_maintenance :: "maintenance_output \<Rightarrow> maintenance_metrics \<Rightarrow> maintenance_metrics" where
  "observe_maintenance (StakeDepositTask v a amount) m =
     m\<lparr>transactions_stake_deposit := transactions_stake_deposit m + 1\<rparr>"
| "observe_maintenance UpdateExchangeRateTask m =
     m\<lparr>transactions_update_exchange_rate := transactions_update_exchange_rate m + 1\<rparr>"
| "observe_maintenance (UpdateOffchainValidatorPerfTask v b r) m =
     m\<lparr>transactions_update_offchain_validator_perf := transactions_update_offchain_validator_perf m + 1\<rparr>"
| "observe_maintenance (UpdateOnchainValidatorPerfTask v) m =
     m\<lparr>transactions_update_onchain_validator_perf := transactions_update_onchain_validator_perf m + 1\<rparr>"
| "observe_maintenance (UpdateStakeAccountBalanceTask v d u) m =
     m\<lparr>transactions_update_stake_account_balance := transactions_update_stake_account_balance m + 1\<rparr>"
| "observe_maintenance (MergeStakeTask v f t fs ts) m =
     m\<lparr>transactions_merge_stake := transactions_merge_stake m + 1\<rparr>"
| "observe_maintenance (UnstakeFromInactiveValidatorTask u) m =
     m\<lparr>transactions_unstake_from_inactive_validator := transactions_unstake_from_inactive_validator m + 1\<rparr>"
| "observe_maintenance (DeactivateIfViolatesTask v) m =
     m\<lparr>transactions_deactivate_if_violates := transactions_deactivate_if_violates m + 1\<rparr>"
| "observe_maintenance (ReactivateIfCompliesTask v) m =
     m\<lparr>transactions_reactivate_if_complies := transactions_reactivate_if_complies m + 1\<rparr>"
| "observe_maintenance (RemoveValidatorTask v) m =
     m\<lparr>transactions_remove_validator := transactions_remove_validator m + 1\<rparr>"
| "observe_maintenance (UnstakeFromActiveValidatorTask u) m =
     m\<lparr>transactions_unstake_from_active_validator := transactions_unstake_from_active_validator m + 1\<rparr>"

subsection \<open>One poll\<close>

datatype maintenance_result =
    ErrSnapshot cli_error
  | ErrMaintenance solido_state cli_error
  | OkIdle solido_state
  | OkMaintenance solido_state maintenance_output

record maintainer_opts =
  opts_solido_program_id :: pubkey
  opts_solido_address :: pubkey
  opts_stake_time :: stake_time
  opts_end_of_epoch_threshold :: u8

definition maintenance_closure ::
  "lenv \<Rightarrow> 'n rpc_client \<Rightarrow> pubkey \<Rightarrow> output_mode \<Rightarrow> maintainer_opts \<Rightarrow> ('n, maintenance_result) reads" where
  "maintenance_closure E C signer mode opts =
     reads_bind (solido_state_new E C signer (opts_solido_program_id opts) (opts_solido_address opts)
       (opts_stake_time opts) (opts_end_of_epoch_threshold opts)) (\<lambda>st.
     if get_current_maintainer_duty st \<noteq> Some signer then reads_return (OkIdle st)
     else
       reads_bind (reads_try (try_perform_maintenance E C signer mode st)) (\<lambda>r.
       case r of
         Ok None \<Rightarrow> reads_return (OkIdle st)
       | Ok (Some out) \<Rightarrow> reads_return (OkMaintenance st out)
       | Err MissingAccount \<Rightarrow> reads_fail MissingAccount
       | Err (MissingValidatorIdentity addr) \<Rightarrow> reads_fail (MissingValidatorIdentity addr)
       | Err (OtherError err) \<Rightarrow> reads_return (ErrMaintenance st err)
       | Panic \<Rightarrow> reads_lift Panic))"

definition run_maintenance_iteration ::
  "lenv \<Rightarrow> 'n rpc_client \<Rightarrow> pubkey \<Rightarrow> output_mode \<Rightarrow> maintainer_opts \<Rightarrow> snapshot_client \<Rightarrow> 'n \<Rightarrow>
   ((maintenance_result, cli_error) result \<times> snapshot_client \<times> 'n) option" where
  "run_maintenance_iteration E C signer mode opts client n =
     (case with_snapshot C (maintenance_closure E C signer mode opts) client n of
        None \<Rightarrow> None
      | Some (r, client, n) \<Rightarrow>
          Some (case r of Err err \<Rightarrow> Ok (ErrSnapshot err) | Ok result \<Rightarrow> Ok result | Panic \<Rightarrow> Panic, client, n))"

subsection \<open>Block times\<close>

definition NUM_OBSERVATIONS :: nat where
  "NUM_OBSERVATIONS = 10"

type_synonym instant = nat

definition observe_clock :: "instant \<Rightarrow> sysvar_clock \<Rightarrow> (instant \<times> u64) list \<Rightarrow> (instant \<times> u64) list" where
  "observe_clock now clk observations =
     (let observations = (if length observations = NUM_OBSERVATIONS then tl observations else observations) in
      observations @ [(now, clock_slot clk)])"

definition get_most_recent_slot :: "(instant \<times> u64) list \<Rightarrow> u64 option" where
  "get_most_recent_slot observations =
     (if observations = [] then None else Some (snd (last observations)))"

subsection \<open>The daemon\<close>

record 'n daemon =
  daemon_client :: snapshot_client
  daemon_net :: 'n
  last_read_success :: instant
  observations :: "(instant \<times> u64) list"
  daemon_metrics :: maintenance_metrics
  snapshot_mutex :: "(maintenance_metrics \<times> solido_state option) option"

definition daemon_new :: "snapshot_client \<Rightarrow> 'n \<Rightarrow> instant \<Rightarrow> 'n daemon" where
  "daemon_new client n now =
     \<lparr>daemon_client = client, daemon_net = n, last_read_success = now, observations = [],
      daemon_metrics = maintenance_metrics_zero, snapshot_mutex = None\<rparr>"

definition publish_snapshot :: "instant \<Rightarrow> solido_state option \<Rightarrow> 'n daemon \<Rightarrow> 'n daemon" where
  "publish_snapshot now st d =
     (let d = (case st of
            Some st \<Rightarrow> d\<lparr>last_read_success := now,
                          observations := observe_clock now (state_clock st) (observations d)\<rparr>
          | None \<Rightarrow> d) in
      d\<lparr>snapshot_mutex := Some (daemon_metrics d, st)\<rparr>)"

datatype sleep = SleepAfterError | SleepUntilNextIteration | NoSleep

definition count_error :: "'n daemon \<Rightarrow> 'n daemon" where
  "count_error d = d\<lparr>daemon_metrics := (daemon_metrics d)\<lparr>errors := errors (daemon_metrics d) + 1\<rparr>\<rparr>"

definition handle_maintenance_result :: "instant \<Rightarrow> maintenance_result \<Rightarrow> 'n daemon \<Rightarrow> 'n daemon \<times> sleep" where
  "handle_maintenance_result now result d =
     (case result of
        ErrSnapshot err \<Rightarrow> (publish_snapshot now None (count_error d), SleepAfterError)
      | ErrMaintenance st err \<Rightarrow> (publish_snapshot now (Some st) (count_error d), SleepUntilNextIteration)
      | OkIdle st \<Rightarrow> (publish_snapshot now (Some st) d, SleepUntilNextIteration)
      | OkMaintenance st out \<Rightarrow>
          (publish_snapshot now (Some st)
             (d\<lparr>daemon_metrics := observe_maintenance out (daemon_metrics d)\<rparr>), NoSleep))"

definition daemon_step ::
  "lenv \<Rightarrow> 'n rpc_client \<Rightarrow> pubkey \<Rightarrow> output_mode \<Rightarrow> maintainer_opts \<Rightarrow> instant \<Rightarrow> 'n daemon \<Rightarrow>
   ('n daemon \<times> sleep, cli_error) result option" where
  "daemon_step E C signer mode opts now d =
     (let d = d\<lparr>daemon_metrics := (daemon_metrics d)\<lparr>polls := polls (daemon_metrics d) + 1\<rparr>\<rparr> in
      case run_maintenance_iteration E C signer mode opts (daemon_client d) (daemon_net d) of
        None \<Rightarrow> None
      | Some (r, client, n) \<Rightarrow>
          Some (map_ok (\<lambda>result.
            handle_maintenance_result now result (d\<lparr>daemon_client := client, daemon_net := n\<rparr>)) r))"

end
