(* ===== verification/SnapshotFacts.thy ===== *)
theory SnapshotFacts
  imports Snapshot "HOL-Library.Sublist"
begin

text \<open>
  Facts about \<open>Snapshot\<close>. An ordered set keeps its vector and its set in step.
  The locale \<open>static_chain\<close> states what the node promises while the chain does not
  move. Inside it, fetching in chunks gives the accounts in the order of the query
  for every limit of the node, and a computation that only reads (\<open>reader\<close>) run by
  \<open>with_snapshot\<close> ends and returns what it returns on the whole chain: the
  opportunistic retries amount to one atomic read.
\<close>

subsection \<open>Ordered sets\<close>

definition ordered_ok :: "'a ordered_set \<Rightarrow> bool" where
  "ordered_ok s \<longleftrightarrow> set (elements_vec s) = elements_set s \<and> distinct (elements_vec s)"

lemma ordered_ok_new [simp]: "ordered_ok ordered_set_new"
  by (simp add: ordered_ok_def ordered_set_new_def)

lemma elements_set_push [simp]: "elements_set (ordered_push x s) = insert x (elements_set s)"
  by (simp add: ordered_push_def Let_def)

lemma ordered_ok_push [simp]: "ordered_ok s \<Longrightarrow> ordered_ok (ordered_push x s)"
  by (auto simp: ordered_ok_def ordered_push_def Let_def)

lemma ordered_push_vec:
  "elements_vec (ordered_push x s) = (if x \<in> elements_set s then elements_vec s else elements_vec s @ [x])"
  by (simp add: ordered_push_def Let_def)

lemma fold_push:
  assumes "ordered_ok s"
  shows "ordered_ok (foldl (\<lambda>s x. ordered_push x s) s xs) \<and>
    elements_set (foldl (\<lambda>s x. ordered_push x s) s xs) = elements_set s \<union> set xs \<and>
    prefix (elements_vec s) (elements_vec (foldl (\<lambda>s x. ordered_push x s) s xs))"
  using assms
proof (induction xs arbitrary: s)
  case (Cons x xs)
  have "prefix (elements_vec s) (elements_vec (ordered_push x s))" by (simp add: ordered_push_vec)
  then show ?case using Cons.IH [of "ordered_push x s"] Cons.prems by (auto intro: prefix_order.trans)
qed simp

lemma union_with_facts:
  assumes "ordered_ok s" "ordered_ok t"
  shows "ordered_ok (union_with s t)" "elements_set (union_with s t) = elements_set s \<union> elements_set t"
    "prefix (elements_vec s) (elements_vec (union_with s t))"
  using fold_push [OF assms(1), of "elements_vec t"] assms(2) by (auto simp: union_with_def ordered_ok_def)

text \<open>C38: Ordered sets. The vector and the set of an \<open>OrderedSet\<close> hold the same elements, without
  duplicates, in the empty set, after \<open>push\<close> and after \<open>union_with\<close>; the union holds the elements of
  both and starts with the elements of the receiver in their order.\<close>

theorem ordered_set_invariant:
  assumes "ordered_ok s" "ordered_ok t"
  shows "ordered_ok (ordered_set_new :: 'a ordered_set) \<and> ordered_ok (ordered_push x s) \<and> ordered_ok (union_with s t) \<and>
    elements_set (union_with s t) = elements_set s \<union> elements_set t \<and>
    prefix (elements_vec s) (elements_vec (union_with s t))"
  using union_with_facts [OF assms] assms by simp

theorem ordered_set_invariant_witness:
  "ordered_ok (union_with \<lparr>elements_vec = [2, 1 :: nat], elements_set = {1, 2}\<rparr> \<lparr>elements_vec = [3, 1], elements_set = {1, 3}\<rparr>)"
proof -
  have "ordered_ok \<lparr>elements_vec = [2, 1 :: nat], elements_set = {1, 2}\<rparr>"
    "ordered_ok \<lparr>elements_vec = [3, 1 :: nat], elements_set = {1, 3}\<rparr>"
    by (auto simp: ordered_ok_def)
  from ordered_set_invariant [OF this, of 0] show ?thesis by (elim conjE)
qed

subsection \<open>Scaled fractions\<close>

lemma scaled_le_iff:
  fixes a b m :: nat
  assumes "0 < b" "b \<le> m"
  shows "a * m div b \<le> m \<longleftrightarrow> a \<le> b"
proof
  assume "a * m div b \<le> m"
  then have less: "a * m < b * m + b" using assms(1) by (simp add: less_Suc_eq_le [symmetric] div_less_iff_less_mult algebra_simps)
  show "a \<le> b"
  proof (rule ccontr)
    assume "\<not> a \<le> b"
    then have "Suc b * m \<le> a * m" by (intro mult_le_mono1) simp
    then show False using less assms(2) by simp
  qed
next
  assume "a \<le> b"
  then have "a * m div b \<le> b * m div b" by (intro div_le_mono mult_le_mono1)
  then show "a * m div b \<le> m" using assms(1) by simp
qed

lemma per64_eq:
  "per64 a b = (if b = 0 \<or> b < a then Panic else Ok (word_of_nat (unat a * (2 ^ 64 - 1) div unat b)))"
proof (cases "b = 0")
  case True
  then show ?thesis by (simp add: per64_def)
next
  case False
  let ?r = "(ucast a :: 128 word) * ucast (- 1 :: u64) div ucast b"
  have max: "unat (- 1 :: u64) = 2 ^ 64 - 1" by (simp add: unsigned_minus_1_eq_mask mask_eq_exp_minus_1)
  have r: "unat ?r = unat a * (2 ^ 64 - 1) div unat b"
    by (simp only: unat_div unat_ucast_64_128 unat_widening_mul max)
  have "unat b < 2 ^ 64" by simp
  then have "0 < unat b" "unat b \<le> 2 ^ 64 - 1" using False by (simp_all add: unat_gt_0 del: unat_64_less)
  then have le: "?r \<le> ucast (- 1 :: u64) \<longleftrightarrow> \<not> b < a"
    unfolding word_le_nat_alt r unat_ucast_64_128 max word_less_nat_alt not_less by (rule scaled_le_iff)
  have "ucast ?r = (word_of_nat (unat ?r) :: u64)" by simp
  then have "ucast ?r = (word_of_nat (unat a * (2 ^ 64 - 1) div unat b) :: u64)" unfolding r .
  moreover have "ucast b \<noteq> (0 :: 128 word)" using False by (metis unat_0 unat_eq_zero unat_ucast_64_128)
  ultimately show ?thesis using False le by (simp add: per64_def Let_def)
qed

text \<open>Block production rates. For the pair of leader slots and produced blocks that the node reports for
  a validator, the rate is 0 when it produced no block; it aborts the program when it produced fewer
  blocks than it had slots; otherwise it is the quotient of slots by blocks, scaled to \<open>u64::MAX\<close> and
  rounded down. The quotient is the wrong way around: a validator that skips a slot stops the
  maintainer.\<close>

theorem production_rate_spec:
  "production_rate leader_slots blocks_produced =
     (if blocks_produced = 0 then Ok 0
      else if blocks_produced < leader_slots then Panic
      else Ok (word_of_nat (unat leader_slots * (2 ^ 64 - 1) div unat blocks_produced)))"
  by (simp add: production_rate_def per64_eq word_gt_0)

subsection \<open>Composition\<close>

lemma reads_bind_eq:
  "reads_bind f k s = (case fst (f s) of Ok a \<Rightarrow> k a (snd (f s)) | Err e \<Rightarrow> (Err e, snd (f s)) | Panic \<Rightarrow> (Panic, snd (f s)))"
  by (cases "f s") (auto simp: reads_bind_def split: result.split)

subsection \<open>Chunks\<close>

lemma concat_chunks: "0 < k \<Longrightarrow> concat (chunks k xs) = xs"
proof (induction k xs rule: chunks.induct)
  case (1 k xs)
  then show ?case by (cases "xs = []") (subst chunks.simps, simp)+
qed

lemma chunks_bounded: "c \<in> set (chunks k xs) \<Longrightarrow> 0 < length c \<and> length c \<le> k"
proof (induction k xs rule: chunks.induct)
  case (1 k xs)
  then show ?case by (subst (asm) (2) chunks.simps) (auto split: if_splits)
qed

subsection \<open>An atomic read of the whole chain\<close>

definition atomic_snapshot :: "(pubkey \<rightharpoonup> account) \<Rightarrow> (pubkey \<rightharpoonup> pubkey) \<Rightarrow> 'n \<Rightarrow> 'n snapshot" where
  "atomic_snapshot chain infos n =
     \<lparr>snapshot_accounts = \<lambda>a. Some (chain a), validator_info_addrs = infos, accounts_referenced = ordered_set_new,
      sent_transaction = False, blockhash = None, net = n\<rparr>"

definition atomic_result :: "('a, snapshot_error) result \<Rightarrow> ('a, cli_error) result" where
  "atomic_result r =
     (case r of
        Ok a \<Rightarrow> Ok a
      | Panic \<Rightarrow> Panic
      | Err e \<Rightarrow>
          (case e of
             OtherError err \<Rightarrow> Err err
           | MissingValidatorIdentity i \<Rightarrow> Err (MissingValidatorInfoError i)
           | MissingAccount \<Rightarrow> Panic))"

lemma map_of_zip_map: "map_of (zip xs (map g xs)) a = (if a \<in> set xs then Some (g a) else None)"
  by (induction xs) auto

lemma info_accounts_loop_sound:
  assumes "info_accounts_loop C m bad accs = Ok (m', bad')" "m' i = Some a"
  shows "m i = Some a \<or>
    (\<exists>acc info. (a, acc) \<in> set accs \<and> deserialize_validator_info C a (acc_data acc) = Ok (i, info))"
  using assms
proof (induction C m bad accs rule: info_accounts_loop.induct)
  case (2 C m bad addr acc rest)
  show ?case
  proof (cases "deserialize_validator_info C addr (acc_data acc)")
    case (Ok x)
    obtain j info where x: "x = (j, info)" by (cases x)
    have "info_accounts_loop C (m(j \<mapsto> addr)) (if m j \<noteq> None then insert j bad else bad) rest = Ok (m', bad')"
      using 2(3) by (simp only: info_accounts_loop.simps Ok x result.case prod.case)
    then have "(m(j \<mapsto> addr)) i = Some a \<or>
        (\<exists>acc info. (a, acc) \<in> set rest \<and> deserialize_validator_info C a (acc_data acc) = Ok (i, info))"
      using 2(4) by (rule 2(1) [OF Ok x [symmetric]])
    then show ?thesis using Ok x by (auto split: if_splits)
  next
    case (Err e)
    then show ?thesis using 2 by auto
  next
    case Panic
    then show ?thesis using 2 by simp
  qed
qed simp

subsection \<open>The laws of a node while the chain stands still\<close>

locale static_chain =
  fixes C :: "'n rpc_client" and chain :: "pubkey \<rightharpoonup> account" and limit :: nat
    and infos :: "pubkey \<rightharpoonup> pubkey" and n :: 'n
  assumes limit_pos: "1 \<le> limit" and limit_usize: "limit \<le> usize_max"
    and fetch: "length ks \<le> limit \<Longrightarrow> get_multiple_accounts C n ks = (Ok (map chain ks), n)"
    and too_many: "limit < length ks \<Longrightarrow>
      \<exists>e. get_multiple_accounts C n ks = (Err e, n) \<and> is_too_many_inputs_error e"
    and configs: "\<exists>accs. get_program_accounts C n (config_program_id C) = (Ok accs, n) \<and>
      (\<forall>(a, acc) \<in> set accs. chain a = Some acc)"
    and refresh: "fst (get_validator_info_accounts C n) = Ok infos"
    and production_still: "snd (get_block_production C n) = n"
begin

lemma refresh_still: "get_validator_info_accounts C n = (Ok infos, n)"
  using configs refresh by (auto simp: get_validator_info_accounts_def)

lemma refresh_chain:
  assumes "infos i = Some a"
  shows "\<exists>acc info. chain a = Some acc \<and> deserialize_validator_info C a (acc_data acc) = Ok (i, info)"
proof -
  obtain accs where accs: "get_program_accounts C n (config_program_id C) = (Ok accs, n)"
    "\<forall>(a, acc) \<in> set accs. chain a = Some acc"
    using configs by blast
  obtain mapping bad where loop: "info_accounts_loop C Map.empty {} accs = Ok (mapping, bad)"
    and "infos = mapping |` (- bad)"
    using refresh accs(1) by (auto simp: get_validator_info_accounts_def map_ok_eq_Ok)
  then have "mapping i = Some a" using assms by (auto simp: restrict_map_def split: if_splits)
  then show ?thesis using info_accounts_loop_sound [OF loop, of i a] accs(2) by fastforce
qed

lemma read_chunks_static:
  "(list_all (\<lambda>c. length c \<le> limit) cs \<longrightarrow> read_chunks C acc cs n = (AllRead (acc @ map chain (concat cs)), n)) \<and>
   (\<not> list_all (\<lambda>c. length c \<le> limit) cs \<longrightarrow>
     (\<exists>c \<in> set cs. limit < length c \<and> read_chunks C acc cs n = (TooMany (length c - 1), n)))"
proof (induction cs arbitrary: acc)
  case (Cons c cs)
  show ?case
  proof (cases "length c \<le> limit")
    case True
    then show ?thesis using Cons.IH [of "acc @ map chain c"] by (auto simp: fetch)
  next
    case False
    then obtain e where "get_multiple_accounts C n c = (Err e, n)" "is_too_many_inputs_error e"
      using too_many [of c] by auto
    then show ?thesis using False by simp
  qed
qed simp

lemma num_chunks_loop_static:
  assumes "limit \<le> max_items" "0 < k" "k \<le> length query"
  shows "\<exists>max_items'. limit \<le> max_items' \<and> num_chunks_loop C query k max_items n = (Ok (map chain query), max_items', n)"
  using assms
proof (induction "length query - k" arbitrary: k max_items rule: less_induct)
  case less
  let ?items = "length query div k"
  have items: "0 < ?items" using less.prems by (simp add: div_greater_zero_iff)
  have again: "\<exists>max_items'. limit \<le> max_items' \<and>
      num_chunks_loop C query (Suc k) mi n = (Ok (map chain query), max_items', n)"
    if "limit \<le> mi" "limit < ?items" for mi
  proof -
    have "k \<noteq> length query" using that limit_pos less.prems by auto
    then show ?thesis using less.hyps [of "Suc k" mi] less.prems that by simp
  qed
  show ?case
  proof (cases "max_items < ?items")
    case True
    then show ?thesis using again [of max_items] less.prems items
      by (subst num_chunks_loop.simps) (simp add: Let_def)
  next
    case small: False
    let ?cs = "chunks ?items query"
    show ?thesis
    proof (cases "list_all (\<lambda>c. length c \<le> limit) ?cs")
      case True
      then show ?thesis using read_chunks_static [of ?cs "[]"] small items less.prems
        by (subst num_chunks_loop.simps) (auto simp: Let_def concat_chunks)
    next
      case False
      then obtain c where c: "c \<in> set ?cs" "limit < length c" "read_chunks C [] ?cs n = (TooMany (length c - 1), n)"
        using read_chunks_static [of ?cs "[]"] by auto
      then show ?thesis using again [of "length c - 1"] chunks_bounded [OF c(1)] small items
        by (subst num_chunks_loop.simps) (auto simp: Let_def)
    qed
  qed
qed

lemma get_multiple_accounts_chunked_static:
  assumes "limit \<le> max_items_per_call client"
  obtains max_items where "limit \<le> max_items"
    "get_multiple_accounts_chunked C client n =
       (Ok (map chain (elements_vec (accounts_to_query client))), client\<lparr>max_items_per_call := max_items\<rparr>, n)"
proof (cases "elements_vec (accounts_to_query client) = []")
  case True
  then show thesis using that [of "max_items_per_call client"] assms
    by (simp add: get_multiple_accounts_chunked_def)
next
  case False
  then obtain mi where "limit \<le> mi"
    "num_chunks_loop C (elements_vec (accounts_to_query client)) 1 (max_items_per_call client) n =
       (Ok (map chain (elements_vec (accounts_to_query client))), mi, n)"
    using num_chunks_loop_static [OF assms, of 1 "elements_vec (accounts_to_query client)"]
    by (auto simp: Suc_le_eq)
  then show thesis using that [of mi] False by (simp add: get_multiple_accounts_chunked_def)
qed

definition partial_view :: "'n snapshot \<Rightarrow> bool" where
  "partial_view s \<longleftrightarrow> snapshot_accounts s \<subseteq>\<^sub>m (\<lambda>a. Some (chain a)) \<and> validator_info_addrs s \<subseteq>\<^sub>m infos \<and> net s = n"

definition full :: "'n snapshot \<Rightarrow> 'n snapshot" where
  "full s = s\<lparr>snapshot_accounts := \<lambda>a. Some (chain a), validator_info_addrs := infos\<rparr>"

text \<open>
  A step of a reader from a partial view either agrees with the step from the whole
  chain, or stops early for an account or a validator info that is not in the view.
\<close>

definition view_frame :: "'n snapshot \<Rightarrow> 'n snapshot \<Rightarrow> bool" where
  "view_frame s s' \<longleftrightarrow>
     snapshot_accounts s' = snapshot_accounts s \<and> validator_info_addrs s' = validator_info_addrs s \<and>
     net s' = n \<and> sent_transaction s' = sent_transaction s \<and>
     elements_set (accounts_referenced s) \<subseteq> elements_set (accounts_referenced s') \<and>
     (ordered_ok (accounts_referenced s) \<longrightarrow> ordered_ok (accounts_referenced s'))"

definition steps_alike :: "'n snapshot \<Rightarrow> ('a, snapshot_error) result \<times> 'n snapshot \<Rightarrow>
    ('a, snapshot_error) result \<times> 'n snapshot \<Rightarrow> bool" where
  "steps_alike s x y \<longleftrightarrow>
     view_frame s (snd x) \<and>
     (fst x = fst y \<and> snd y = full (snd x) \<and> fst x \<noteq> Err MissingAccount \<and>
        (\<forall>i. fst x = Err (MissingValidatorIdentity i) \<longrightarrow> infos i = None)
      \<or> elements_set (accounts_referenced (snd x)) \<subseteq> elements_set (accounts_referenced (snd y)) \<and>
        (fst x = Err MissingAccount \<and> (\<exists>a \<in> elements_set (accounts_referenced (snd x)). snapshot_accounts s a = None)
         \<or> (\<exists>i. fst x = Err (MissingValidatorIdentity i) \<and> validator_info_addrs s i = None \<and> infos i \<noteq> None)))"

definition reader :: "('n, 'a) reads \<Rightarrow> bool" where
  "reader f \<longleftrightarrow> (\<forall>s. partial_view s \<longrightarrow> steps_alike s (f s) (f (full s)))"

lemma partial_view_full [simp]: "partial_view s \<Longrightarrow> partial_view (full s)"
  by (simp add: partial_view_def full_def)

lemma full_full [simp]: "full (full s) = full s"
  by (simp add: full_def)

lemma full_atomic [simp]: "full (atomic_snapshot chain infos n) = atomic_snapshot chain infos n"
  by (simp add: full_def atomic_snapshot_def)

lemma reader_pure: "reader (\<lambda>s. (r, s))" if "r \<noteq> Err MissingAccount" "\<And>i. r \<noteq> Err (MissingValidatorIdentity i)"
  using that by (auto simp: reader_def steps_alike_def view_frame_def partial_view_def)

lemma reader_return [simp, intro]: "reader (reads_return a)"
  by (simp add: reads_return_def reader_pure)

lemma reader_lift [simp, intro]: "reader (reads_lift r)"
proof -
  have "map_err OtherError r \<noteq> Err MissingAccount" "\<And>i. map_err OtherError r \<noteq> Err (MissingValidatorIdentity i)"
    by (cases r; simp add: map_err_def)+
  then show ?thesis unfolding reads_lift_def by (rule reader_pure)
qed

lemma reader_fail_other: "reader (reads_fail (OtherError e))"
  by (simp add: reads_fail_def reader_pure)

lemma reader_call:
  assumes "snd (c n) = n" shows "reader (reads_call c)"
proof -
  obtain r where c: "c n = (r, n)" using assms by (cases "c n") auto
  show ?thesis by (cases r) (auto simp: reader_def steps_alike_def view_frame_def partial_view_def reads_call_def c full_def map_err_def)
qed

lemma partial_view_account: "partial_view s \<Longrightarrow> snapshot_accounts s a = Some x \<Longrightarrow> x = chain a"
  by (auto simp: partial_view_def map_le_def dom_def)

lemma reader_get_account [simp, intro]: "reader (get_account a)"
  unfolding reader_def
proof (intro allI impI)
  fix s assume s: "partial_view s"
  then have "net s = n" by (simp add: partial_view_def)
  then show "steps_alike s (get_account a s) (get_account a (full s))"
    using partial_view_account [OF s, of a]
    by (cases "snapshot_accounts s a"; cases "chain a") (auto simp: steps_alike_def view_frame_def get_account_def full_def Let_def)
qed

lemma reader_stepsD:
  "reader f \<Longrightarrow> partial_view s \<Longrightarrow> steps_alike s (f s) (f (full s))"
  by (simp add: reader_def)

lemma steps_alike_view: "partial_view s \<Longrightarrow> steps_alike s x y \<Longrightarrow> partial_view (snd x)"
  by (simp add: steps_alike_def view_frame_def partial_view_def)

lemma steps_alike_grow:
  "steps_alike s x y \<Longrightarrow> elements_set (accounts_referenced s) \<subseteq> elements_set (accounts_referenced (snd x))"
  by (simp add: steps_alike_def view_frame_def)

lemma bind_grows:
  assumes f: "reader f" and k: "\<And>a. reader (k a)" and s: "partial_view s"
  shows "elements_set (accounts_referenced (snd (f s))) \<subseteq> elements_set (accounts_referenced (snd (reads_bind f k s)))"
proof -
  have "partial_view (snd (f s))" using reader_stepsD [OF f s] s by (rule steps_alike_view [rotated])
  then show ?thesis
    using steps_alike_grow [OF reader_stepsD [OF k]] by (simp add: reads_bind_eq split: result.splits)
qed

lemma steps_alike_trans:
  "view_frame s s' \<Longrightarrow> steps_alike s' y z \<Longrightarrow> steps_alike s y z"
  unfolding steps_alike_def view_frame_def by (auto 3 0)

lemma steps_alike_early:
  assumes "steps_alike s x y" "\<not> (fst x = fst y \<and> snd y = full (snd x))"
    "elements_set (accounts_referenced (snd y)) \<subseteq> elements_set (accounts_referenced (snd z))"
  obtains e where "fst x = Err e" "steps_alike s (Err e, snd x) z"
proof -
  have "elements_set (accounts_referenced (snd x)) \<subseteq> elements_set (accounts_referenced (snd y))"
    "fst x = Err MissingAccount \<and> (\<exists>a \<in> elements_set (accounts_referenced (snd x)). snapshot_accounts s a = None)
     \<or> (\<exists>i. fst x = Err (MissingValidatorIdentity i) \<and> validator_info_addrs s i = None \<and> infos i \<noteq> None)"
    using assms(1, 2) by (auto simp: steps_alike_def)
  then obtain e where "fst x = Err e" "steps_alike s (Err e, snd x) z"
    using assms(1, 3) by (fastforce simp: steps_alike_def)
  then show thesis by (rule that)
qed

lemma reader_bind [intro]:
  assumes f: "reader f" and k: "\<And>a. reader (k a)"
  shows "reader (reads_bind f k)"
  unfolding reader_def
proof (intro allI impI)
  fix s assume s: "partial_view s"
  have alike: "steps_alike s (f s) (f (full s))" using f s by (rule reader_stepsD)
  have view: "partial_view (snd (f s))" using s alike by (rule steps_alike_view)
  show "steps_alike s (reads_bind f k s) (reads_bind f k (full s))"
  proof (cases "fst (f s) = fst (f (full s)) \<and> snd (f (full s)) = full (snd (f s))")
    case True
    then have full: "f (full s) = (fst (f s), full (snd (f s)))" by (cases "f (full s)") simp
    show ?thesis
    proof (cases "fst (f s)")
      case (Ok a)
      have "view_frame s (snd (f s))" using alike by (simp add: steps_alike_def)
      then show ?thesis using steps_alike_trans [OF _ reader_stepsD [OF k view]]
        by (simp add: reads_bind_eq full Ok)
    qed (use alike full in \<open>simp_all add: steps_alike_def reads_bind_eq\<close>)
  next
    case False
    moreover have "elements_set (accounts_referenced (snd (f (full s)))) \<subseteq>
        elements_set (accounts_referenced (snd (reads_bind f k (full s))))"
      using f k s by (intro bind_grows) auto
    ultimately obtain e where "fst (f s) = Err e"
      "steps_alike s (Err e, snd (f s)) (reads_bind f k (full s))"
      using steps_alike_early [OF alike] by blast
    then show ?thesis by (simp add: reads_bind_eq [of f k s])
  qed
qed

lemma reader_map [intro]: "(\<And>x. reader (f x)) \<Longrightarrow> reader (reads_map f xs)"
  by (induction xs) auto

lemma reader_get_bincode [simp, intro]: "reader (get_bincode decode a)"
  unfolding get_bincode_def by auto

lemma reader_get_account_list [simp, intro]: "reader (get_account_list LE a)"
  unfolding get_account_list_def by auto

lemma reader_get_vote_account [simp, intro]: "reader (get_vote_account C a)"
  unfolding get_vote_account_def by auto

lemma reader_get_solido [simp, intro]: "reader (get_solido E a)"
  unfolding get_solido_def by auto

lemma reader_production_rates [simp, intro]: "reader (get_all_block_production_rates C)"
  unfolding get_all_block_production_rates_def by (intro reader_bind reader_call production_still) auto

lemma reader_get_validator_info [simp, intro]: "reader (get_validator_info C i)"
proof -
  define k :: "pubkey \<Rightarrow> ('n, validator_info) reads" where "k c = reads_bind (get_account c) (\<lambda>config_account.
      reads_bind (reads_lift (deserialize_validator_info C c (acc_data config_account)))
        (\<lambda>(info_identity, info).
      if info_identity = i then reads_return info else reads_fail (MissingValidatorIdentity i)))" for c
  have eq: "get_validator_info C i s = (case validator_info_addrs s i of
      None \<Rightarrow> (Err (MissingValidatorIdentity i), s) | Some c \<Rightarrow> k c s)" for s
    by (simp add: get_validator_info_def k_def split: option.split)
  have found: "steps_alike s (k c s) (k c (full s))" if i: "infos i = Some c" and s: "partial_view s" for c s
  proof -
    obtain acc info where acc: "chain c = Some acc" "deserialize_validator_info C c (acc_data acc) = Ok (i, info)"
      using refresh_chain [OF i] by blast
    define k' where "k' = reads_bind (get_account c) (\<lambda>a. reads_return info :: ('n, validator_info) reads)"
    have "k c t = k' t" if "partial_view t" for t
      using partial_view_account [OF that, of c] acc
      by (cases "snapshot_accounts t c") (auto simp: k_def k'_def reads_bind_def get_account_def Let_def reads_lift_def
          reads_return_def map_err_def split: option.split)
    moreover have "reader k'" unfolding k'_def by auto
    ultimately show ?thesis using s reader_stepsD [of k' s] by simp
  qed
  show ?thesis unfolding reader_def
  proof (intro allI impI)
    fix s assume s: "partial_view s"
    show "steps_alike s (get_validator_info C i s) (get_validator_info C i (full s))"
    proof (cases "validator_info_addrs s i")
      case None
      have grow: "elements_set (accounts_referenced s) \<subseteq> elements_set (accounts_referenced (snd (k c (full s))))"
        if "infos i = Some c" for c
        using steps_alike_grow [OF found [OF that partial_view_full [OF s]]] by (simp add: full_def)
      have "view_frame s s" using s by (simp add: view_frame_def partial_view_def)
      then show ?thesis using None grow
        by (cases "infos i") (auto simp: eq steps_alike_def full_def)
    next
      case (Some c)
      then have "infos i = Some c" using s by (auto simp: partial_view_def map_le_def dom_def)
      then show ?thesis using found [OF _ s] Some by (simp add: eq) (simp add: full_def)
    qed
  qed
qed

lemma with_snapshot_static:
  assumes f: "reader f"
    and "limit \<le> max_items_per_call client" "client_info_addrs client \<subseteq>\<^sub>m infos"
      "ordered_ok (accounts_to_query client)"
  defines "final \<equiv> f (atomic_snapshot chain infos n)"
  shows "\<exists>client'. with_snapshot C f client n = Some (atomic_result (fst final), client', n) \<and>
    (is_ok (fst final) \<longrightarrow> accounts_to_query client' = accounts_referenced (snd final))"
  using assms(2-4)
proof (induction "(if client_info_addrs client = infos then 0 else 1) +
      card (elements_set (accounts_referenced (snd final)) - elements_set (accounts_to_query client))"
    arbitrary: client rule: less_induct)
  case less
  define A where "A = elements_set (accounts_referenced (snd final))"
  define s where "s = \<lparr>snapshot_accounts = map_of (zip (elements_vec (accounts_to_query client))
        (map chain (elements_vec (accounts_to_query client)))),
      validator_info_addrs = client_info_addrs client, accounts_referenced = ordered_set_new,
      sent_transaction = False, blockhash = None, net = n\<rparr>"
  obtain mi where mi: "limit \<le> mi" and fetched: "get_multiple_accounts_chunked C client n =
      (Ok (map chain (elements_vec (accounts_to_query client))), client\<lparr>max_items_per_call := mi\<rparr>, n)"
    using get_multiple_accounts_chunked_static [OF less.prems(1)] .
  obtain r s' where fs: "f s = (r, s')" by (cases "f s")
  have view: "partial_view s"
    using less.prems by (auto simp: s_def partial_view_def map_le_def map_of_zip_map split: if_splits)
  have "full s = atomic_snapshot chain infos n" by (simp add: s_def full_def atomic_snapshot_def)
  then have alike: "steps_alike s (r, s') final" "steps_alike (full s) final final"
    using reader_stepsD [OF f view] reader_stepsD [OF f partial_view_full [OF view]] fs
    unfolding final_def by (simp_all del: full_full)
  have frame: "view_frame s s'" using alike(1) by (simp add: steps_alike_def)
  have "ordered_ok (accounts_referenced (snd final))"
    using alike(2) by (simp add: steps_alike_def view_frame_def full_def s_def)
  then have fin: "finite A" by (metis A_def List.finite_set ordered_ok_def)
  have still: "net s' = n" "\<not> sent_transaction s'" using frame by (simp_all add: view_frame_def s_def)
  have round: "with_snapshot C f client n = (case r of
      Panic \<Rightarrow> Some (Panic, client\<lparr>max_items_per_call := mi\<rparr>, n)
    | Ok a \<Rightarrow> Some (Ok a, client\<lparr>max_items_per_call := mi, accounts_to_query := accounts_referenced s'\<rparr>, n)
    | Err (OtherError err) \<Rightarrow> Some (Err err, client\<lparr>max_items_per_call := mi\<rparr>, n)
    | Err (MissingValidatorIdentity i) \<Rightarrow>
        (if infos i = None
         then Some (Err (MissingValidatorInfoError i), client\<lparr>max_items_per_call := mi, client_info_addrs := infos\<rparr>, n)
         else with_snapshot C f (client\<lparr>max_items_per_call := mi, client_info_addrs := infos\<rparr>) n)
    | Err MissingAccount \<Rightarrow>
        with_snapshot C f (client\<lparr>max_items_per_call := mi,
          accounts_to_query := union_with (accounts_referenced s') (accounts_to_query client)\<rparr>) n)"
    by (subst with_snapshot.simps)
      (simp add: fetched refresh_still s_def [symmetric] fs still split: result.split snapshot_error.split)
  consider (same) "r = fst final" "snd final = full s'" "r \<noteq> Err MissingAccount"
      "\<And>i. r = Err (MissingValidatorIdentity i) \<Longrightarrow> infos i = None"
    | (account) a where "r = Err MissingAccount" "a \<in> elements_set (accounts_referenced s')"
        "snapshot_accounts s a = None" "elements_set (accounts_referenced s') \<subseteq> A"
    | (info) i where "r = Err (MissingValidatorIdentity i)" "client_info_addrs client i = None" "infos i \<noteq> None"
    using alike(1) by (auto simp: steps_alike_def A_def s_def)
  then show ?case
  proof cases
    case same
    then show ?thesis unfolding round
      by (auto simp: atomic_result_def full_def is_ok_def split: result.split snapshot_error.split)
  next
    case account
    let ?client = "client\<lparr>max_items_per_call := mi,
      accounts_to_query := union_with (accounts_referenced s') (accounts_to_query client)\<rparr>"
    have ok: "ordered_ok (accounts_referenced s')" using frame by (simp add: view_frame_def s_def)
    have "a \<notin> elements_set (accounts_to_query client)"
      using account(3) less.prems(3) by (auto simp: s_def map_of_zip_map ordered_ok_def split: if_splits)
    then have "A - elements_set (accounts_to_query ?client) \<subset> A - elements_set (accounts_to_query client)"
      using account(2, 4) by (auto simp: union_with_facts(2) [OF ok less.prems(3)])
    then have "card (A - elements_set (accounts_to_query ?client)) < card (A - elements_set (accounts_to_query client))"
      using fin by (intro psubset_card_mono) auto
    then show ?thesis unfolding round
      using less.hyps [of ?client] less.prems mi account(1) union_with_facts(1) [OF ok less.prems(3)]
      by (simp add: A_def)
  next
    case info
    let ?client = "client\<lparr>max_items_per_call := mi, client_info_addrs := infos\<rparr>"
    have "client_info_addrs client \<noteq> infos" using info(2, 3) by auto
    then show ?thesis unfolding round
      using less.hyps [of ?client] less.prems mi info(1, 3) by auto
  qed
qed

end

end
