(* ===== verification/ReferenceClient.thy ===== *)
theory ReferenceClient
  imports SnapshotFacts
begin

text \<open>
  A reference node: its network state is the association list of accounts, it
  answers at most \<open>limit\<close> accounts per call and refuses more with the message of a
  Solana node, and it decodes accounts with small fixed formats. It satisfies the
  laws of \<open>static_chain\<close>, so the theorems about snapshots apply to it.
\<close>

type_synonym node = "(pubkey \<times> account) list"

definition reference_client :: "nat \<Rightarrow> node rpc_client" where
  "reference_client limit =
     \<lparr>get_multiple_accounts = (\<lambda>n ks.
        if length ks \<le> limit then (Ok (map (map_of n) ks), n)
        else (Err (RpcResponseError ''Too many inputs provided; max 100''), n)),
      get_program_accounts = (\<lambda>n p. (Ok (filter (\<lambda>(a, acc). acc_owner acc = p) n), n)),
      get_block_production = (\<lambda>n. (Ok [], n)),
      get_block_with_config = (\<lambda>n slot. (Ok ''11111111'', n)),
      send_transaction_with_config = (\<lambda>n tx. (Ok [], n)),
      confirm_transaction = (\<lambda>n sig. (Ok True, n)),
      confirm_transaction_with_spinner = (\<lambda>n sig h. (Ok (), n)),
      try_sign = (\<lambda>tx. True),
      pubkey_from_str = (\<lambda>s. None),
      hash_from_str = (\<lambda>s. Some []),
      rent_bincode = (\<lambda>d. Some \<lparr>minimum_balance = (\<lambda>len. 890880), is_exempt = (\<lambda>bal len. 890880 \<le> bal)\<rparr>),
      clock_bincode = (\<lambda>d. Some \<lparr>clock_epoch = u64_at 8 d, clock_slot = u64_at 0 d\<rparr>),
      epoch_schedule_bincode = (\<lambda>d. Some
        \<lparr>get_slots_in_epoch = (\<lambda>e. 432000), get_first_slot_in_epoch = (\<lambda>e. e * 432000),
        slots_per_epoch = 432000\<rparr>),
      stake_history_bincode = Some,
      vote_state_deserialize = (\<lambda>d. if d = [] then None
        else Some \<lparr>vs_node_pubkey = pubkey_at 1 d, vs_commission = hd d, vs_credits = 0,
          vs_last_slot = 0, vs_last_timestamp = 0\<rparr>),
      config_keys_bincode = (\<lambda>d. if d = [] then None else Some [(1, False), (ucast (hd d), True)]),
      config_keys_size = (\<lambda>keys. 1),
      string_bincode = (\<lambda>d. Some ''validator''),
      validator_info_json = (\<lambda>s. Some \<lparr>vi_name = s, vi_keybase_username = None\<rparr>),
      config_program_id = 2,
      validator_info_id = 1,
      epoch_schedule_id = 3,
      default_target_lamports_per_signature = 10000\<rparr>"

definition reference_infos :: "nat \<Rightarrow> node \<Rightarrow> pubkey \<rightharpoonup> pubkey" where
  "reference_infos limit n =
     (case fst (get_validator_info_accounts (reference_client limit) n) of Ok m \<Rightarrow> m | _ \<Rightarrow> Map.empty)"

lemma deserialize_reference_info:
  "deserialize_validator_info (reference_client limit) a d =
     (if d = [] then Err BincodeError
      else Ok (ucast (hd d), \<lparr>vi_name = ''validator'', vi_keybase_username = None\<rparr>))"
  by (cases d) (simp_all add: deserialize_validator_info_def reference_client_def)

lemma reference_info_loop: "\<exists>r. info_accounts_loop (reference_client limit) m bad accs = Ok r"
  by (induction "reference_client limit" m bad accs rule: info_accounts_loop.induct)
    (auto simp: deserialize_reference_info)

lemma reference_program_accounts:
  "get_program_accounts (reference_client limit) n (config_program_id (reference_client limit)) =
     (Ok (filter (\<lambda>(a, acc). acc_owner acc = 2) n), n)"
  by (simp add: reference_client_def)

lemma too_many_message:
  "is_too_many_inputs_error (RpcResponseError ''Too many inputs provided; max 100'')"
  by (auto simp: is_too_many_inputs_error_def str_contains_def list_ex_iff intro!: bexI [of _ 0])

lemma static_chain_reference:
  assumes "1 \<le> limit" "limit \<le> usize_max" "distinct (map fst n)"
  shows "static_chain (reference_client limit) (map_of n) limit (reference_infos limit n) n"
proof
  let ?C = "reference_client limit"
  show "\<exists>e. get_multiple_accounts ?C n ks = (Err e, n) \<and> is_too_many_inputs_error e" if "limit < length ks" for ks
    using that too_many_message by (simp add: reference_client_def)
  show "\<exists>accs. get_program_accounts ?C n (config_program_id ?C) = (Ok accs, n) \<and>
      (\<forall>(a, acc) \<in> set accs. map_of n a = Some acc)"
    using assms(3) by (auto simp: reference_program_accounts)
  have "\<exists>m. fst (get_validator_info_accounts ?C n) = Ok m"
    using reference_info_loop [of limit Map.empty "{}" "filter (\<lambda>(a, acc). acc_owner acc = 2) n"]
    by (auto simp: get_validator_info_accounts_def reference_program_accounts)
  then show "fst (get_validator_info_accounts ?C n) = Ok (reference_infos limit n)"
    by (auto simp: reference_infos_def)
qed (use assms in \<open>simp_all add: reference_client_def\<close>)

definition example_node :: node where
  "example_node =
     [(30, \<lparr>acc_lamports = 900000, acc_owner = 2, acc_data = [7]\<rparr>),
      (31, \<lparr>acc_lamports = 5, acc_owner = 0, acc_data = []\<rparr>)]"

lemma distinct_example_node: "distinct (map fst example_node)"
  by (simp add: example_node_def)

interpretation ref_node: static_chain "reference_client 100" "map_of example_node" 100 "reference_infos 100 example_node" example_node
  by (rule static_chain_reference) (simp_all add: usize_max_def distinct_example_node)

text \<open>Fetching in chunks. While the chain stands still, \<open>get_multiple_accounts_chunked\<close> returns the
  account (or its absence) of every address of the query, in the order of the query, for every
  positive limit of the node on the size of one call, provided the client has not learnt a bound below
  that limit; it does not learn one. The assertion of the loop over the number of chunks never fails.\<close>

theorem chunked_fetch_is_complete:
  assumes "static_chain C chain limit infos n" "limit \<le> max_items_per_call client"
  shows "\<exists>max_items. limit \<le> max_items \<and> get_multiple_accounts_chunked C client n =
    (Ok (map chain (elements_vec (accounts_to_query client))), client\<lparr>max_items_per_call := max_items\<rparr>, n)"
  using static_chain.get_multiple_accounts_chunked_static [OF assms] by metis

theorem chunked_fetch_is_complete_witness:
  "\<exists>max_items. get_multiple_accounts_chunked (reference_client 1)
       (snapshot_client_new\<lparr>accounts_to_query := \<lparr>elements_vec = [31, 30, 32], elements_set = {31, 30, 32}\<rparr>\<rparr>) example_node =
     (Ok [Some \<lparr>acc_lamports = 5, acc_owner = 0, acc_data = []\<rparr>,
          Some \<lparr>acc_lamports = 900000, acc_owner = 2, acc_data = [7]\<rparr>, None],
      snapshot_client_new\<lparr>accounts_to_query := \<lparr>elements_vec = [31, 30, 32], elements_set = {31, 30, 32}\<rparr>,
        max_items_per_call := max_items\<rparr>, example_node)"
proof -
  let ?client = "snapshot_client_new\<lparr>accounts_to_query := \<lparr>elements_vec = [31, 30, 32], elements_set = {31, 30, 32}\<rparr>\<rparr>"
  have "static_chain (reference_client 1) (map_of example_node) 1 (reference_infos 1 example_node) example_node"
    by (rule static_chain_reference) (simp_all add: usize_max_def distinct_example_node)
  then show ?thesis
    using chunked_fetch_is_complete [of "reference_client 1" "map_of example_node" 1 _ _ ?client]
    by (auto simp: snapshot_client_new_def usize_max_def example_node_def)
qed

end
