(* ===== verification/Proposals.thy ===== *)
theory Proposals
  imports Maintenance ReferenceEnv
begin

text \<open>
  What the maintainer bot proposes: \<open>try_stake_deposit\<close> on every state that is
  consistent with the pool's invariant, and an example state that the witnesses of
  the maintainer's theorems share.
\<close>

subsection \<open>Lists and positions\<close>

lemma index_or_panic_nth [simp]: "i < length xs \<Longrightarrow> index_or_panic xs i = Ok (xs ! i)"
  by (simp add: index_or_panic_def)

lemma opt_try_simps [simp]:
  "opt_try (Ok (Some a)) k = k a" "opt_try (Ok None) k = Ok None" "opt_try (Err e) k = Err e" "opt_try Panic k = Panic"
  by (simp_all add: opt_try_def)

lemma u32_of_usize_Ok [simp]: "i < 2 ^ 32 \<Longrightarrow> u32_of_usize i = Ok (word_of_nat i)"
  by (simp add: u32_of_usize_def)

definition is_maintainer_at :: "solido_state \<Rightarrow> nat \<Rightarrow> bool" where
  "is_maintainer_at st j \<longleftrightarrow> j < length (entries (maintainers st)) \<and>
     maintainer_pubkey (entries (maintainers st) ! j) = maintainer_address st"

lemma maintainer_position_found:
  assumes "maintainer_address st \<in> maintainer_pubkey ` set (entries (maintainers st))"
    and "length (entries (maintainers st)) < 2 ^ 32"
  obtains j where "is_maintainer_at st j" "maintainer_position st = Ok (Some (word_of_nat j))"
proof -
  let ?p = "\<lambda>m. maintainer_pubkey m = maintainer_address st"
  have "position ?p (entries (maintainers st)) \<noteq> None" using assms(1) by auto
  then obtain j where "position ?p (entries (maintainers st)) = Some j" by blast
  then show thesis using that [of j] position_SomeD assms(2)
    by (fastforce simp: is_maintainer_at_def maintainer_position_def account_list_position_def maintainer_entry_def)
qed

subsection \<open>Staking a deposit\<close>

text \<open>The amount to deposit: up to the target, but no less than the minimum.\<close>

definition stake_amount :: "lamports \<Rightarrow> lamports \<Rightarrow> lamports" where
  "stake_amount below reserve = max (min below reserve) MINIMUM_STAKE_ACCOUNT_BALANCE"

lemma stake_amount_le: "stake_amount below reserve \<le> reserve \<longleftrightarrow> MINIMUM_STAKE_ACCOUNT_BALANCE \<le> reserve"
  by (auto simp: stake_amount_def)

lemma targets_for_consistent_state:
  assumes "length (entries vs) < 2 ^ 32" "total_sol u vs < 2 ^ 64" "\<exists>v \<in> set (entries vs). is_active v"
  obtains ts where "get_target_balance u vs = Ok ts" "length ts = length (entries vs)"
    "\<And>i. i < length ts \<Longrightarrow> sol (ts ! i) \<le> total_sol u vs div num_active vs + 1"
proof -
  have "0 < num_active vs" using assms(3) by (auto simp: num_active_def filter_empty_conv)
  then obtain ts where ts: "get_target_balance u vs = Ok ts"
    "map sol ts = spread (total_sol u vs div num_active vs) (total_sol u vs mod num_active vs) (entries vs)"
    using get_target_balance_Ok [of vs u] assms(1, 2) by auto
  then have len: "length ts = length (entries vs)" by (metis length_map length_spread)
  have "sol (ts ! i) \<le> total_sol u vs div num_active vs + 1" if "i < length ts" for i
    using that len ts(2) spread_nth [of i "entries vs"] by (metis (no_types, lifting) Suc_eq_plus1 le_SucI nth_map order_refl zero_le)
  then show thesis using that ts(1) len by blast
qed

text \<open>The preconditions: this is the time to stake, the validators' balances are consistent (as the
  pool's invariant keeps them), the state has stake accounts for every validator, all SOL together
  fits a \<open>u64\<close>, and the one who runs the bot is a maintainer.\<close>

definition ready_to_stake :: "solido_state \<Rightarrow> bool" where
  "ready_to_stake st \<longleftrightarrow>
     confirm_should_stake_unstake_in_current_slot st = Ok (Some ()) \<and>
     list_ex is_active (entries (validators st)) \<and>
     list_all unstake_within_stake (entries (validators st)) \<and>
     length (entries (validators st)) < 2 ^ 32 \<and>
     length (validator_stake_accounts st) = length (entries (validators st)) \<and>
     total_sol (get_effective_reserve st) (validators st) < 2 ^ 64 \<and>
     maintainer_address st \<in> maintainer_pubkey ` set (entries (maintainers st)) \<and>
     length (entries (maintainers st)) < 2 ^ 32"

lemma try_stake_deposit_evaluates:
  assumes "ready_to_stake st"
  obtains i lowest below ts j where
    "length ts = length (entries (validators st))"
    "\<And>i. i < length ts \<Longrightarrow>
       sol (ts ! i) \<le> total_sol (get_effective_reserve st) (validators st) div num_active (validators st) + 1"
    "min_inv (entries (validators st)) ts (length (entries (validators st))) (i, lowest, below)"
    "is_maintainer_at st j"
    "MINIMUM_STAKE_ACCOUNT_BALANCE > get_effective_reserve st \<Longrightarrow> try_stake_deposit E st = Ok None"
    "MINIMUM_STAKE_ACCOUNT_BALANCE \<le> get_effective_reserve st \<Longrightarrow>
       \<exists>mi a. try_stake_deposit E st = Ok (Some mi) \<and>
         ins_data (mi_instruction mi) = instruction_borsh E
           (StakeDepositV2 (stake_amount below (get_effective_reserve st)) (word_of_nat i) (word_of_nat j)) \<and>
         mi_output mi = StakeDepositTask (vote_account_address (entries (validators st) ! i)) a
           (stake_amount below (get_effective_reserve st))"
proof -
  let ?vs = "validators st" and ?reserve = "get_effective_reserve st"
  have ready: "confirm_should_stake_unstake_in_current_slot st = Ok (Some ())" "\<exists>v \<in> set (entries ?vs). is_active v"
    "\<forall>v \<in> set (entries ?vs). unstake_within_stake v" "length (entries ?vs) < 2 ^ 32"
    "length (validator_stake_accounts st) = length (entries ?vs)"
    "total_sol ?reserve ?vs < 2 ^ 64"
    "maintainer_address st \<in> maintainer_pubkey ` set (entries (maintainers st))"
    "length (entries (maintainers st)) < 2 ^ 32"
    using assms by (auto simp: ready_to_stake_def list_ex_iff list_all_iff)
  obtain ts where ts: "get_target_balance ?reserve ?vs = Ok ts" "length ts = length (entries ?vs)"
    "\<And>i. i < length ts \<Longrightarrow> sol (ts ! i) \<le> total_sol ?reserve ?vs div num_active ?vs + 1"
    by (rule targets_for_consistent_state [OF ready(4, 6, 2)]) blast
  obtain i lowest below where i: "get_minimum_stake_validator_index_amount ?vs ts = Ok (i, below)"
    "min_inv (entries ?vs) ts (length (entries ?vs)) (i, lowest, below)"
    using minimum_stake_validator_found [OF ready(3) ts(2) [symmetric] ready(2)] by blast
  then have len: "i < length (entries ?vs)" "i < 2 ^ 32" using ready(4) by (auto simp: min_inv_def)
  obtain j where j: "is_maintainer_at st j" "maintainer_position st = Ok (Some (word_of_nat j))"
    using maintainer_position_found [OF ready(7, 8)] .
  have active: "iter_active ?vs \<noteq> []" using ready(2) by (auto simp: iter_active_def filter_empty_conv)
  have index: "u32_of_usize i = Ok (word_of_nat i)" using len(2) by (rule u32_of_usize_Ok)
  note eval = ready(1, 5) ts(1) i(1) len(1) index j(2) active try_stake_deposit_def Let_def stake_amount_def [symmetric]
    not_less [symmetric] stake_amount_le [unfolded not_less [symmetric]]
  show thesis
  proof (rule that [OF ts(2, 3) i(2) j(1)])
    show "try_stake_deposit E st = Ok None" if "MINIMUM_STAKE_ACCOUNT_BALANCE > ?reserve"
      using that by (simp add: eval)
    show "\<exists>mi a. try_stake_deposit E st = Ok (Some mi) \<and>
        ins_data (mi_instruction mi) = instruction_borsh E
          (StakeDepositV2 (stake_amount below ?reserve) (word_of_nat i) (word_of_nat j)) \<and>
        mi_output mi = StakeDepositTask (vote_account_address (entries ?vs ! i)) a (stake_amount below ?reserve)"
      if "MINIMUM_STAKE_ACCOUNT_BALANCE \<le> ?reserve"
      using that by (auto simp: eval maintenance_instruction_new_def stake_deposit_def build_def)
  qed
qed

text \<open>C15: Staking a deposit. On a state that is ready to stake, \<open>try_stake_deposit\<close> never panics. When
  the SOL in the reserve above rent exemption is less than the minimum stake account balance, it
  proposes nothing. Otherwise it proposes a \<open>StakeDepositV2\<close> instruction that names the running
  maintainer's index and the index of an active validator with the least effective stake of all active
  ones; its amount is at least the minimum and within the reserve, and unless it is exactly the minimum
  it does not lift the validator above an equal share of all SOL (rounded up).\<close>

theorem try_stake_deposit_spec:
  assumes "ready_to_stake st"
  shows "if get_effective_reserve st < MINIMUM_STAKE_ACCOUNT_BALANCE then try_stake_deposit E st = Ok None
    else \<exists>mi i j a amount. try_stake_deposit E st = Ok (Some mi) \<and>
      ins_data (mi_instruction mi) = instruction_borsh E (StakeDepositV2 amount (word_of_nat i) (word_of_nat j)) \<and>
      mi_output mi = StakeDepositTask (vote_account_address (entries (validators st) ! i)) a amount \<and>
      is_maintainer_at st j \<and>
      i < length (entries (validators st)) \<and> is_active (entries (validators st) ! i) \<and>
      (\<forall>v \<in> set (entries (validators st)). is_active v \<longrightarrow> effective_of (entries (validators st) ! i) \<le> effective_of v) \<and>
      MINIMUM_STAKE_ACCOUNT_BALANCE \<le> amount \<and> amount \<le> get_effective_reserve st \<and>
      (amount = MINIMUM_STAKE_ACCOUNT_BALANCE \<or>
       sol (effective_of (entries (validators st) ! i)) + sol amount
         \<le> total_sol (get_effective_reserve st) (validators st) div num_active (validators st) + 1)"
proof -
  let ?vs = "validators st" and ?reserve = "get_effective_reserve st"
  obtain i lowest below ts j where ev: "length ts = length (entries ?vs)"
    "\<And>i. i < length ts \<Longrightarrow> sol (ts ! i) \<le> total_sol ?reserve ?vs div num_active ?vs + 1"
    "min_inv (entries ?vs) ts (length (entries ?vs)) (i, lowest, below)" "is_maintainer_at st j"
    "MINIMUM_STAKE_ACCOUNT_BALANCE > ?reserve \<Longrightarrow> try_stake_deposit E st = Ok None"
    "MINIMUM_STAKE_ACCOUNT_BALANCE \<le> ?reserve \<Longrightarrow>
       \<exists>mi a. try_stake_deposit E st = Ok (Some mi) \<and>
         ins_data (mi_instruction mi) = instruction_borsh E
           (StakeDepositV2 (stake_amount below ?reserve) (word_of_nat i) (word_of_nat j)) \<and>
         mi_output mi = StakeDepositTask (vote_account_address (entries ?vs ! i)) a (stake_amount below ?reserve)"
    by (rule try_stake_deposit_evaluates [OF assms, of E]) blast
  have inv: "i < length (entries ?vs)" "is_active (entries ?vs ! i)" "lowest = effective_of (entries ?vs ! i)"
    "below = Lamports (saturating_sub (lam (ts ! i)) (lam lowest))"
    "\<forall>v \<in> set (entries ?vs). is_active v \<longrightarrow> effective_of (entries ?vs ! i) \<le> effective_of v"
    using ev(3) by (fastforce simp: min_inv_def in_set_conv_nth)+
  have share: "sol (effective_of (entries ?vs ! i)) + sol (stake_amount below ?reserve)
      \<le> total_sol ?reserve ?vs div num_active ?vs + 1"
    if "stake_amount below ?reserve \<noteq> MINIMUM_STAKE_ACCOUNT_BALANCE"
  proof -
    have "MINIMUM_STAKE_ACCOUNT_BALANCE < below" "stake_amount below ?reserve \<le> below"
      using that by (auto simp: stake_amount_def max_def min_def split: if_splits)
    then have "sol (stake_amount below ?reserve) \<le> sol (ts ! i) - sol lowest" "0 < sol (ts ! i) - sol lowest"
      using inv(4) by (auto simp: lamports_le_iff lamports_less_iff)
    then show ?thesis using ev(2) [of i] ev(1) inv(1, 3) by simp
  qed
  show ?thesis
  proof (cases "?reserve < MINIMUM_STAKE_ACCOUNT_BALANCE")
    case True
    then show ?thesis using ev(5) by simp
  next
    case False
    then have "MINIMUM_STAKE_ACCOUNT_BALANCE \<le> stake_amount below ?reserve" "stake_amount below ?reserve \<le> ?reserve"
      by (auto simp: stake_amount_le) (simp add: stake_amount_def)
    then show ?thesis using False ev(4, 6) inv share by fastforce
  qed
qed

subsection \<open>An example\<close>

text \<open>Two validators without stake, two maintainers, and a reserve with four times the minimum.\<close>

definition example_bot :: solido_state where
  "example_bot =
     \<lparr>solido_program_id = 1000, solido_address = 500, solido = example_state,
      validator_stake_accounts = [[], []], validator_unstake_accounts = [[], []],
      validator_vote_account_balances = [Lamports 0, Lamports 0],
      validator_vote_accounts = [None, None],
      validator_identity_account_balances = [Lamports 0, Lamports 0],
      validator_perfs = [], validator_block_production_rates = [], validator_infos = [],
      maintainer_balances = [Lamports 1000000000, Lamports 1000000000],
      state_st_sol_mint = \<lparr>mint_supply = 0, mint_mint_authority = None, mint_freeze_authority = None\<rparr>,
      reserve_address = 7,
      reserve_account = \<lparr>acc_lamports = 4009131520 + 890880, acc_owner = 0, acc_data = []\<rparr>,
      state_rent = \<lparr>minimum_balance = (\<lambda>len. 890880), is_exempt = (\<lambda>bal len. 890880 \<le> bal)\<rparr>,
      state_clock = \<lparr>clock_epoch = 1, clock_slot = 437250\<rparr>,
      state_epoch_schedule = \<lparr>get_slots_in_epoch = (\<lambda>e. 432000), get_first_slot_in_epoch = (\<lambda>e. e * 432000),
        slots_per_epoch = 432000\<rparr>,
      state_stake_history = [],
      maintainer_address = 22,
      stake_time = Anytime,
      validators = \<lparr>al_header = \<lparr>account_type = Validator, lido_version = 1, max_entries = 10\<rparr>,
                    entries = [validator_new 11, validator_new 12]\<rparr>,
      maintainers = \<lparr>al_header = \<lparr>account_type = Maintainer, lido_version = 1, max_entries = 10\<rparr>,
                     entries = [maintainer_new 21, maintainer_new 22]\<rparr>,
      end_of_epoch_threshold = 95\<rparr>"

lemma example_bot_reserve [simp]: "get_effective_reserve example_bot = Lamports 4009131520"
  by (simp add: get_effective_reserve_def example_bot_def saturating_sub_def word_le_nat_alt)

lemma example_bot_ready: "ready_to_stake example_bot"
  by (simp add: ready_to_stake_def total_sol_def)
    (simp add: example_bot_def confirm_should_stake_unstake_in_current_slot_def validator_new_def
      validator_default_def is_active_def unstake_within_stake_def maintainer_new_def lamports_le_iff)

theorem try_stake_deposit_spec_witness:
  "\<exists>mi a i amount. try_stake_deposit (reference_env 1) example_bot = Ok (Some mi) \<and>
     mi_output mi = StakeDepositTask (vote_account_address (entries (validators example_bot) ! i)) a amount \<and>
     i < length (entries (validators example_bot)) \<and> amount \<le> Lamports 4009131520"
  using try_stake_deposit_spec [OF example_bot_ready, of "reference_env 1"]
  by (auto simp: MINIMUM_STAKE_ACCOUNT_BALANCE_def lamports_less_iff)

end
