(* ===== verification/MaintenanceFacts.thy ===== *)
theory MaintenanceFacts
  imports Daemon ReferenceClient Proposals
begin

text \<open>
  Facts about the maintainer bot: the duty schedule, and the reading of the state
  (what the loop over the validators builds, and that reading it through
  \<open>with_snapshot\<close> is atomic while the chain stands still).
\<close>

subsection \<open>Maintainer duty\<close>

abbreviation num_maintainers :: "solido_state \<Rightarrow> nat" where
  "num_maintainers st \<equiv> length (entries (maintainers st))"

abbreviation slot_of :: "solido_state \<Rightarrow> nat" where
  "slot_of st \<equiv> unat (clock_slot (state_clock st))"

definition at_slot :: "nat \<Rightarrow> solido_state \<Rightarrow> solido_state" where
  "at_slot s st = st\<lparr>state_clock := (state_clock st)\<lparr>clock_slot := word_of_nat s\<rparr>\<rparr>"

lemma maintainers_at_slot [simp]: "maintainers (at_slot s st) = maintainers st"
  by (simp add: at_slot_def)

lemma slot_of_at_slot: "s < 2 ^ 64 \<Longrightarrow> slot_of (at_slot s st) = s"
  by (simp add: at_slot_def unat_of_nat)

lemma current_duty_nat:
  assumes "0 < num_maintainers st" "num_maintainers st < 2 ^ 64"
  shows "get_current_maintainer_duty st =
    (if 90 \<le> slot_of st mod 100 then None
     else Some (maintainer_pubkey (entries (maintainers st) ! (slot_of st div 100 mod num_maintainers st))))"
proof -
  have "unat (word_of_nat (num_maintainers st) :: u64) = num_maintainers st"
    using assms by (simp add: unat_of_nat)
  then show ?thesis
    using assms by (simp add: get_current_maintainer_duty_def MAINTAINER_DUTY_SLICE_LENGTH_def
        MAINTAINER_DUTY_PAUSE_LENGTH_def word_le_nat_alt unat_mod unat_div)
qed

lemma unat_add_mult_word:
  fixes a :: u64
  assumes "unat a + k * 100 < 2 ^ 64"
  shows "unat (a + word_of_nat k * 100) = unat a + k * 100"
proof -
  have "a + word_of_nat k * 100 = word_of_nat (unat a + k * 100)" by simp
  then show ?thesis using assms by (simp add: unat_of_nat del: of_nat_add of_nat_mult)
qed

lemma slot_parts:
  fixes d x :: nat
  shows "d < 90 \<Longrightarrow> (x * 100 + d) mod 100 = d" "d < 90 \<Longrightarrow> (x * 100 + d) div 100 = x"
    "d < 10 \<Longrightarrow> (x * 100 + (99 - d)) mod 100 = 99 - d"
  by (simp_all add: mod_mult_self3 del: diff_add_assoc add_diff_assoc2 Nat.add_diff_assoc Nat.add_diff_assoc2)

lemma next_duty_nat:
  fixes st k
  defines "cycle \<equiv> num_maintainers st * 100"
  assumes "slot_of st + cycle < 2 ^ 64" "position (\<lambda>m. maintainer_pubkey m = k) (entries (maintainers st)) = Some i"
  defines "start \<equiv> slot_of st div cycle * cycle + i * 100"
  shows "\<exists>t. get_next_maintainer_duty_slot st k = Some t \<and>
    unat t = (if start \<le> slot_of st then start + cycle else start)"
proof -
  let ?s = "clock_slot (state_clock st)" and ?m = "num_maintainers st"
  let ?c = "word_of_nat ?m * 100 :: u64"
  have i: "i < ?m" using position_SomeD [OF assms(3)] by simp
  have c: "unat ?c = cycle" using unat_add_mult_word [of 0 ?m] assms(2) by (simp add: cycle_def)
  have le: "slot_of st div cycle * cycle \<le> slot_of st" by (rule div_times_less_eq_dividend)
  have "unat (?s div ?c) * unat ?c < 2 ^ LENGTH(64)"
    using le assms(2) unfolding c unat_div by (simp del: div_times_less_eq_dividend)
  then have "unat (?s div ?c * ?c) = unat (?s div ?c) * unat ?c" by (rule unat_mult_lem [THEN iffD1])
  then have "unat (?s div ?c * ?c) = slot_of st div cycle * cycle" by (simp only: c unat_div)
  moreover have "i * 100 < cycle" using i by (simp add: cycle_def)
  ultimately have start: "unat (?s div ?c * ?c + word_of_nat i * 100) = start"
    using unat_add_mult_word [of "?s div ?c * ?c" i] le assms(2) by (simp only: start_def)
  show ?thesis
  proof (cases "start \<le> slot_of st")
    case True
    then have "unat (?s div ?c * ?c + word_of_nat i * 100 + ?c) = start + cycle"
      using unat_add_mult_word [of "?s div ?c * ?c + word_of_nat i * 100" ?m] start assms(2) by (simp add: cycle_def)
    then show ?thesis using True start i assms(3)
      by (auto simp: get_next_maintainer_duty_slot_def MAINTAINER_DUTY_SLICE_LENGTH_def Let_def word_le_nat_alt)
  next
    case False
    then show ?thesis using start i assms(3)
      by (auto simp: get_next_maintainer_duty_slot_def MAINTAINER_DUTY_SLICE_LENGTH_def Let_def word_le_nat_alt)
  qed
qed

text \<open>C14: Duty comes around. For a key \<open>k\<close> in the list of maintainers (and a slot number far from
  \<open>2^64\<close>), \<open>get_next_maintainer_duty_slot\<close> returns a slot that lies in the future, no later than one
  cycle of 100 slots per maintainer away. In each of the 90 slots from it on,
  \<open>get_current_maintainer_duty\<close> names \<open>k\<close> and nobody else, and in each of the 10 slots before it
  nobody is on duty.\<close>

theorem next_duty_slot_is_on_duty:
  assumes "k \<in> maintainer_pubkey ` set (entries (maintainers st))"
    and "slot_of st + num_maintainers st * 100 + 100 < 2 ^ 64"
  shows "\<exists>t. get_next_maintainer_duty_slot st k = Some t \<and>
    slot_of st < unat t \<and> unat t \<le> slot_of st + num_maintainers st * 100 \<and>
    (\<forall>d < 90. get_current_maintainer_duty (at_slot (unat t + d) st) = Some k) \<and>
    (\<forall>d < 10. get_current_maintainer_duty (at_slot (unat t - Suc d) st) = None)"
proof -
  let ?m = "num_maintainers st" and ?s = "slot_of st"
  define cycle where "cycle = ?m * 100"
  have "position (\<lambda>m. maintainer_pubkey m = k) (entries (maintainers st)) \<noteq> None"
    using assms(1) by (auto simp: position_eq_None)
  then obtain i where pos: "position (\<lambda>m. maintainer_pubkey m = k) (entries (maintainers st)) = Some i"
    by blast
  have i: "i < ?m" "maintainer_pubkey (entries (maintainers st) ! i) = k" using position_SomeD [OF pos] by auto
  then have nonempty: "entries (maintainers st) \<noteq> []" by auto
  define start where "start = ?s div cycle * cycle + i * 100"
  have big: "?s + cycle < 2 ^ 64" "cycle < 2 ^ 64" "?m < 2 ^ 64" "0 < cycle" using assms(2) i by (auto simp: cycle_def)
  obtain t where t: "get_next_maintainer_duty_slot st k = Some t"
    "unat t = (if start \<le> ?s then start + cycle else start)"
    using next_duty_nat [OF _ pos] big by (auto simp: cycle_def start_def)
  have rem: "?s = ?s div cycle * cycle + ?s mod cycle" "?s mod cycle < cycle" using big by simp_all
  have less: "i * 100 < cycle" using i by (simp add: cycle_def)
  have bounds: "?s < unat t" "unat t \<le> ?s + cycle"
    using rem less start_def unfolding t(2) by (simp_all only: split: if_split) linarith+
  obtain q where q: "unat t = (q * ?m + i) * 100"
  proof
    show "unat t = ((if start \<le> ?s then ?s div cycle + 1 else ?s div cycle) * ?m + i) * 100"
      by (simp add: t(2) start_def cycle_def algebra_simps)
  qed
  have on: "get_current_maintainer_duty (at_slot (unat t + d) st) = Some k" if "d < 90" for d
  proof -
    have "slot_of (at_slot (unat t + d) st) = (q * ?m + i) * 100 + d"
      using bounds(2) assms(2) that q by (simp only: cycle_def slot_of_at_slot)
    moreover have "((q * ?m + i) * 100 + d) mod 100 = d" "((q * ?m + i) * 100 + d) div 100 = q * ?m + i"
      using that by (simp_all only: slot_parts)
    ultimately show ?thesis
      using current_duty_nat [of "at_slot (unat t + d) st"] i nonempty that big by simp
  qed
  have off: "get_current_maintainer_duty (at_slot (unat t - Suc d) st) = None" if "d < 10" for d
  proof -
    have "0 < unat t" using bounds(1) by simp
    then have "0 < q * ?m + i" unfolding q by (simp only: nat_0_less_mult_iff)
    then obtain r where r: "q * ?m + i = Suc r" unfolding gr0_conv_Suc ..
    have "unat t - Suc d = r * 100 + (99 - d)" using that unfolding q r by simp
    moreover have "unat t - Suc d < 2 ^ 64"
      by (rule order_le_less_trans [OF diff_le_self]) simp
    ultimately have "slot_of (at_slot (unat t - Suc d) st) = r * 100 + (99 - d)"
      by (simp only: slot_of_at_slot)
    moreover have "(r * 100 + (99 - d)) mod 100 = 99 - d" using that by (simp only: slot_parts)
    ultimately show ?thesis
      using current_duty_nat [of "at_slot (unat t - Suc d) st"] i nonempty that big by simp
  qed
  show ?thesis using t(1) bounds on off by (auto simp: cycle_def)
qed

theorem next_duty_slot_is_on_duty_witness:
  "\<exists>t. get_next_maintainer_duty_slot example_bot 22 = Some t \<and> 437250 < unat t \<and> unat t \<le> 437450 \<and>
     (\<forall>d < 90. get_current_maintainer_duty (at_slot (unat t + d) example_bot) = Some 22) \<and>
     (\<forall>d < 10. get_current_maintainer_duty (at_slot (unat t - Suc d) example_bot) = None)"
proof -
  have "22 \<in> maintainer_pubkey ` set (entries (maintainers example_bot))" "num_maintainers example_bot = 2"
    "slot_of example_bot = 437250"
    by (simp_all add: example_bot_def maintainer_new_def)
  then show ?thesis using next_duty_slot_is_on_duty [of 22 example_bot] by simp
qed

subsection \<open>Reading the state\<close>

lemma reads_bind_OkE:
  assumes "reads_bind m k s = (Ok b, s'')"
  obtains a s' where "m s = (Ok a, s')" "k a s' = (Ok b, s'')"
  using assms by (cases "m s") (auto simp: reads_bind_def split: result.splits)

lemma reads_simps [simp]:
  "reads_return a s = (Ok b, s') \<longleftrightarrow> a = b \<and> s = s'"
  "reads_fail e s \<noteq> (Ok b, s')"
  "reads_lift r s = (Ok b, s') \<longleftrightarrow> r = Ok b \<and> s = s'"
  by (cases r; auto simp: reads_return_def reads_fail_def reads_lift_def map_err_def)+

definition open_accounts :: "vote_state option list \<Rightarrow> nat" where
  "open_accounts xs = length (filter (\<lambda>x. x \<noteq> None) xs)"

lemma open_accounts_simps [simp]:
  "open_accounts [] = 0" "open_accounts (xs @ [None]) = open_accounts xs"
  "open_accounts (xs @ [Some x]) = Suc (open_accounts xs)"
  by (simp_all add: open_accounts_def)

definition perf_of :: "lenv \<Rightarrow> validator_perf account_list \<Rightarrow> validator \<Rightarrow> validator_perf option" where
  "perf_of E all_perfs v = List.find (\<lambda>p. le_pubkey (PE E) p = vote_account_address v) (entries all_perfs)"

text \<open>What the loop over the validators has built after the validators \<open>vs\<close>: a row of every
  vector for each of them, except that closed vote accounts have no performance.\<close>

definition vectors_of :: "lenv \<Rightarrow> validator_perf account_list \<Rightarrow> validator list \<Rightarrow> state_vectors \<Rightarrow> bool" where
  "vectors_of E all_perfs vs sv \<longleftrightarrow>
     length (sv_vote_accounts sv) = length vs \<and> length (sv_stake_accounts sv) = length vs \<and>
     length (sv_unstake_accounts sv) = length vs \<and>
     length (sv_block_production_rates sv) = open_accounts (sv_vote_accounts sv) \<and>
     sv_perfs sv = map (perf_of E all_perfs)
       (map fst (filter (\<lambda>(v, vote). vote \<noteq> None) (zip vs (sv_vote_accounts sv))))"

lemma observe_validator_vectors:
  assumes "observe_validator E C p a rent clk hist perfs rates v sv s = (Ok sv', s')" "vectors_of E perfs vs sv"
  shows "vectors_of E perfs (vs @ [v]) sv'"
proof -
  obtain r s1 where r: "reads_try (get_account (vote_account_address v)) s = (Ok r, s1)"
    and rest: "reads_bind
       (case r of
          Ok vote_account \<Rightarrow> observe_vote_account E C rent perfs rates v vote_account sv
        | Err e \<Rightarrow>
            (case e of
               OtherError err \<Rightarrow> reads_return (sv\<lparr>sv_vote_accounts := sv_vote_accounts sv @ [None]\<rparr>)
             | MissingAccount \<Rightarrow> reads_fail e
             | MissingValidatorIdentity a \<Rightarrow> reads_fail e)
        | Panic \<Rightarrow> reads_lift Panic) (\<lambda>sv.
     reads_bind (get_validator_stake_accounts E p a clk hist v Stake) (\<lambda>stakes.
     reads_bind (get_validator_stake_accounts E p a clk hist v stake_type.Unstake) (\<lambda>unstakes.
     reads_return (sv\<lparr>sv_stake_accounts := sv_stake_accounts sv @ [stakes],
                      sv_unstake_accounts := sv_unstake_accounts sv @ [unstakes]\<rparr>)))) s1 = (Ok sv', s')"
    using assms(1) unfolding observe_validator_def by (rule reads_bind_OkE)
  show ?thesis
    using rest assms(2)
    by (elim reads_bind_OkE)
      (auto simp: vectors_of_def observe_vote_account_def perf_of_def Let_def
        split: result.splits snapshot_error.splits elim!: reads_bind_OkE)
qed

lemma observe_validators_vectors:
  assumes "observe_validators (observe_validator E C p a rent clk hist perfs rates) vs sv s = (Ok sv', s')"
    "vectors_of E perfs us sv"
  shows "vectors_of E perfs (us @ vs) sv'"
  using assms
proof (induction vs arbitrary: us sv s)
  case (Cons v vs)
  then show ?case using observe_validator_vectors by (fastforce elim!: reads_bind_OkE)
qed simp

lemma nth_filter_take:
  assumes "i < length xs" "P (xs ! i)"
  shows "length (filter P (take i xs)) < length (filter P xs)"
    and "filter P xs ! length (filter P (take i xs)) = xs ! i"
proof -
  have "filter P xs = filter P (take i xs) @ xs ! i # filter P (drop (Suc i) xs)"
    using arg_cong [OF id_take_nth_drop [OF assms(1)], of "filter P"] assms(2) by simp
  then show "length (filter P (take i xs)) < length (filter P xs)"
    "filter P xs ! length (filter P (take i xs)) = xs ! i" by simp_all
qed

text \<open>C37: Closed vote accounts shift the performance data. When the loop of \<open>SolidoState::new\<close> over
  the validators \<open>vs\<close> succeeds, there is a vote account entry for each of them, but there are only
  as many performance entries as there are validators whose vote account is open: the performance of
  validator \<open>i\<close> is stored at the number of open accounts before \<open>i\<close>, not at \<open>i\<close>, where the
  \<open>try_\<close> methods look it up.\<close>

theorem closed_vote_accounts_shift_perfs:
  assumes "observe_validators (observe_validator E C p a rent clk hist perfs rates) vs state_vectors_empty s = (Ok sv, s')"
  shows "length (sv_vote_accounts sv) = length vs \<and>
    length (sv_perfs sv) = open_accounts (sv_vote_accounts sv) \<and>
    (\<forall>i < length vs. sv_vote_accounts sv ! i \<noteq> None \<longrightarrow>
       sv_perfs sv ! open_accounts (take i (sv_vote_accounts sv)) = perf_of E perfs (vs ! i))"
proof -
  let ?votes = "sv_vote_accounts sv" and ?P = "\<lambda>(v, vote). vote \<noteq> None"
  have "vectors_of E perfs [] state_vectors_empty" by (simp add: vectors_of_def state_vectors_empty_def)
  then have vec: "vectors_of E perfs vs sv" using observe_validators_vectors [OF assms] by fastforce
  have count: "length (filter ?P (zip us vts)) = open_accounts vts" if "length us = length vts" for us :: "validator list" and vts
    using that by (induction us vts rule: list_induct2) (auto simp: open_accounts_def)
  have "sv_perfs sv ! open_accounts (take i ?votes) = perf_of E perfs (vs ! i)"
    if "i < length vs" "?votes ! i \<noteq> None" for i
  proof -
    have take: "length (filter ?P (take i (zip vs ?votes))) = open_accounts (take i ?votes)"
      using vec count [of "take i vs" "take i ?votes"] by (simp add: take_zip vectors_of_def)
    have "open_accounts (take i ?votes) < length (filter ?P (zip vs ?votes))"
      "filter ?P (zip vs ?votes) ! open_accounts (take i ?votes) = (vs ! i, ?votes ! i)"
      using nth_filter_take [of i "zip vs ?votes" ?P] that vec unfolding take by (simp_all add: vectors_of_def)
    then show ?thesis using vec by (simp add: vectors_of_def)
  qed
  then show ?thesis using vec count [of vs ?votes] by (simp add: vectors_of_def)
qed

definition closed_account_snapshot :: "node snapshot" where
  "closed_account_snapshot =
     \<lparr>snapshot_accounts = [11 \<mapsto> None,
        12 \<mapsto> Some \<lparr>acc_lamports = 900000, acc_owner = 0, acc_data = [5]\<rparr>,
        30 \<mapsto> Some \<lparr>acc_lamports = 900000, acc_owner = 2, acc_data = [0]\<rparr>,
        0 \<mapsto> Some \<lparr>acc_lamports = 900000, acc_owner = 0, acc_data = []\<rparr>],
      validator_info_addrs = [0 \<mapsto> 30], accounts_referenced = ordered_set_new,
      sent_transaction = False, blockhash = None, net = []\<rparr>"

definition no_perfs :: "validator_perf account_list" where
  "no_perfs = \<lparr>al_header = \<lparr>account_type = ValidatorPerf, lido_version = 1, max_entries = 0\<rparr>, entries = []\<rparr>"

lemma closed_account_run:
  "\<exists>sv s'. observe_validators (observe_validator (reference_env 1) (reference_client 100) 1000 500
       \<lparr>minimum_balance = (\<lambda>len. 890880), is_exempt = (\<lambda>bal len. True)\<rparr> \<lparr>clock_epoch = 1, clock_slot = 5\<rparr> [] no_perfs Map.empty)
     [validator_new 11, validator_new 12] state_vectors_empty closed_account_snapshot = (Ok sv, s') \<and>
     sv_vote_accounts sv = [None, Some \<lparr>vs_node_pubkey = 0, vs_commission = 5, vs_credits = 0,
       vs_last_slot = 0, vs_last_timestamp = 0\<rparr>]"
  by (simp add: observe_validator_def observe_vote_account_def closed_account_snapshot_def
      reads_bind_def reads_try_def get_account_def Let_def reads_return_def reads_lift_def reads_fail_def
      get_vote_account_def get_validator_info_def get_account_balance_except_rent_def
      get_validator_stake_accounts_def seed_iter_def validator_new_def validator_default_def
      state_vectors_empty_def reference_client_def deserialize_validator_info_def
      pubkey_at_def map_err_def lamports_sub_def token_sub_def checked_sub_def)

theorem closed_vote_accounts_shift_perfs_witness:
  "\<exists>sv :: state_vectors. length (sv_vote_accounts sv) = 2 \<and> sv_vote_accounts sv ! 1 \<noteq> None \<and> length (sv_perfs sv) = 1 \<and>
     sv_perfs sv ! 0 = perf_of (reference_env 1) no_perfs (validator_new 12)"
proof -
  obtain sv s' where run: "observe_validators (observe_validator (reference_env 1) (reference_client 100) 1000 500
       \<lparr>minimum_balance = (\<lambda>len. 890880), is_exempt = (\<lambda>bal len. True)\<rparr> \<lparr>clock_epoch = 1, clock_slot = 5\<rparr> [] no_perfs Map.empty)
     [validator_new 11, validator_new 12] state_vectors_empty closed_account_snapshot = (Ok sv, s')"
    "sv_vote_accounts sv = [None, Some \<lparr>vs_node_pubkey = 0, vs_commission = 5, vs_credits = 0,
       vs_last_slot = 0, vs_last_timestamp = 0\<rparr>]"
    using closed_account_run by blast
  have "sv_perfs sv ! open_accounts (take 1 (sv_vote_accounts sv)) = perf_of (reference_env 1) no_perfs (validator_new 12)"
    using closed_vote_accounts_shift_perfs [OF run(1)] run(2) by (auto dest: spec [of _ 1])
  moreover have "length (sv_perfs sv) = 1"
    using closed_vote_accounts_shift_perfs [OF run(1)] run(2) by (simp add: open_accounts_def)
  ultimately show ?thesis using run(2) by (intro exI [of _ sv]) (simp add: open_accounts_def)
qed

lemma reads_bind_fail [simp]: "reads_bind (reads_fail e) k = reads_fail e"
  by (simp add: reads_bind_def reads_fail_def)

context static_chain
begin

lemma reader_catch:
  assumes m: "reader m" and k: "\<And>a. reader (k (Ok a))" "\<And>e. reader (k (Err (OtherError e)))"
    and again: "k (Err MissingAccount) = reads_fail MissingAccount"
      "\<And>i. k (Err (MissingValidatorIdentity i)) = reads_fail (MissingValidatorIdentity i)"
  shows "reader (reads_bind (reads_try m) k)"
proof -
  define f where "f = reads_bind (reads_try m) k"
  have f: "f s = (case fst (m s) of Ok a \<Rightarrow> k (Ok a) (snd (m s)) | Err (OtherError e) \<Rightarrow> k (Err (OtherError e)) (snd (m s))
      | Err e \<Rightarrow> (Err e, snd (m s)) | Panic \<Rightarrow> (Panic, snd (m s)))" for s
    by (cases "m s") (auto simp: f_def reads_bind_def reads_try_def again reads_fail_def split: result.split snapshot_error.split)
  have grow: "elements_set (accounts_referenced (snd (m s))) \<subseteq> elements_set (accounts_referenced (snd (f s)))"
    if "partial_view s" for s
  proof -
    have "partial_view (snd (m s))" using that reader_stepsD [OF m that] by (rule steps_alike_view)
    then show ?thesis using steps_alike_grow [OF reader_stepsD [OF k(1)]] steps_alike_grow [OF reader_stepsD [OF k(2)]]
      by (auto simp: f split: result.split snapshot_error.split)
  qed
  have "steps_alike s (f s) (f (full s))" if s: "partial_view s" for s
  proof -
    have alike: "steps_alike s (m s) (m (full s))" using m s by (rule reader_stepsD)
    have view: "partial_view (snd (m s))" using s alike by (rule steps_alike_view)
    have frame: "view_frame s (snd (m s))" using alike by (simp add: steps_alike_def)
    show ?thesis
    proof (cases "fst (m s) = fst (m (full s)) \<and> snd (m (full s)) = full (snd (m s))")
      case True
      then show ?thesis using alike steps_alike_trans [OF frame reader_stepsD [OF k(1) view]]
          steps_alike_trans [OF frame reader_stepsD [OF k(2) view]]
        by (auto simp: f steps_alike_def split: result.split snapshot_error.split)
    next
      case False
      obtain e where e: "fst (m s) = Err e" "steps_alike s (Err e, snd (m s)) (f (full s))"
        using steps_alike_early [OF alike False grow [OF partial_view_full [OF s]]] by blast
      moreover have "e = MissingAccount \<or> (\<exists>i. e = MissingValidatorIdentity i)"
        using alike False e(1) by (auto simp: steps_alike_def)
      ultimately show ?thesis by (auto simp: f [of s])
    qed
  qed
  then show ?thesis by (simp add: reader_def f_def)
qed

lemma reader_stake_accounts [intro]: "reader (get_validator_stake_accounts E p a clk hist v ty)"
  unfolding get_validator_stake_accounts_def Let_def by (intro reader_map) (auto split: prod.split)

lemma reader_observe_validator [intro]: "reader (observe_validator E C p a rent clk hist perfs rates v sv)"
proof -
  have "reader (observe_vote_account E C rent perfs rates v acc sv)" for acc
    unfolding observe_vote_account_def Let_def by (intro reader_bind) auto
  then show ?thesis unfolding observe_validator_def
    by (intro reader_catch) auto
qed

lemma reader_observe_validators: "(\<And>v sv. reader (f v sv)) \<Longrightarrow> reader (observe_validators f vs sv)"
  by (induction vs arbitrary: sv) auto

lemma reader_solido_state_new: "reader (solido_state_new E C signer program_id address time threshold)"
  unfolding solido_state_new_def get_rent_def get_clock_def get_epoch_schedule_def get_stake_history_def
  by (intro reader_bind reader_observe_validators reader_map) auto

end

text \<open>C13: Snapshots are atomic and the retry loop ends. While the chain stands still, \<open>with_snapshot\<close> run on
  \<open>SolidoState::new\<close> returns, whatever accounts the client queries first and whatever limit the node
  puts on a call, and its result is the result of \<open>SolidoState::new\<close> on the whole chain at once. The
  client must have consistent sets and must not hold validator infos that the chain does not have; a new
  client qualifies.\<close>

theorem state_read_is_atomic:
  assumes "static_chain C chain limit infos n"
    and "limit \<le> max_items_per_call client" "client_info_addrs client \<subseteq>\<^sub>m infos"
    and "ordered_ok (accounts_to_query client)"
  shows "\<exists>client'. with_snapshot C (solido_state_new E C signer program_id address time threshold) client n =
    Some (atomic_result (fst (solido_state_new E C signer program_id address time threshold
      (atomic_snapshot chain infos n))), client', n)"
  using static_chain.with_snapshot_static [OF assms(1) static_chain.reader_solido_state_new [OF assms(1)] assms(2-4)]
  by blast

theorem state_read_is_atomic_witness:
  "\<exists>client'. with_snapshot (reference_client 100) (solido_state_new (reference_env 1) (reference_client 100) 22 1000 31 Anytime 95)
       snapshot_client_new example_node = Some (Err (SerializationError 31), client', example_node)"
proof -
  have "lido_read (reference_env 1) [] = None"
    by (simp add: reference_env_def read_lido_def read_account_type_def read_u8_def read_bytes_def)
  then have "fst (solido_state_new (reference_env 1) (reference_client 100) 22 1000 31 Anytime 95
      (atomic_snapshot (map_of example_node) (reference_infos 100 example_node) example_node)) =
      Err (OtherError (SerializationError 31))"
    by (simp add: solido_state_new_def get_solido_def reads_bind_def get_account_def Let_def atomic_snapshot_def
        example_node_def reads_lift_def map_err_def)
  then show ?thesis
    using state_read_is_atomic [OF ref_node.static_chain_axioms, of snapshot_client_new "reference_env 1" 22 1000 31 Anytime 95]
    by (simp add: snapshot_client_new_def usize_max_def atomic_result_def)
qed

end
