(* ===== verification/Guards.thy ===== *)
theory Guards
  imports Proposals ReferenceClient
begin

text \<open>
  What every proposal of the maintainer bot promises: the instruction it carries is the
  one its description names, the indices in it designate that validator and the
  maintainer who runs the bot, and the guards that the program puts on the
  instruction hold of the state the bot has read.
\<close>

subsection \<open>Inversion of the control flow\<close>

lemma opt_try_eq_Some [result_simps]:
  "opt_try m k = Ok (Some b) \<longleftrightarrow> (\<exists>a. m = Ok (Some a) \<and> k a = Ok (Some b))"
  by (cases m) (auto simp: opt_try_def split: option.splits)

lemma or_else_eq_Some [result_simps]:
  "or_else m m' = Ok (Some b) \<longleftrightarrow> m = Ok (Some b) \<or> m = Ok None \<and> m' = Ok (Some b)"
  by (cases m) (auto simp: or_else_def split: option.splits)

lemma or_else_eq_None [result_simps]:
  "or_else m m' = Ok None \<longleftrightarrow> m = Ok None \<and> m' = Ok None"
  by (cases m) (auto simp: or_else_def split: option.splits)

lemma for_return_SomeD:
  assumes "for_return f xs = Ok (Some b)"
  obtains x where "x \<in> set xs" "f x = Ok (Return (Some b))"
proof -
  have "\<exists>x \<in> set xs. f x = Ok (Return (Some b))" using assms
  proof (induction xs)
    case (Cons x xs)
    then obtain r where "f x = Ok r" by (auto simp: and_then_eq_Ok)
    with Cons show ?case by (cases r) auto
  qed simp
  then show thesis using that by blast
qed

lemma index_or_panic_eq_Ok [result_simps]: "index_or_panic xs i = Ok x \<longleftrightarrow> i < length xs \<and> x = xs ! i"
  by (auto simp: index_or_panic_def)

lemma u32_of_usize_eq_Ok [result_simps]: "u32_of_usize i = Ok w \<longleftrightarrow> i < 2 ^ 32 \<and> w = word_of_nat i"
  by (auto simp: u32_of_usize_def)

subsection \<open>Indices\<close>

definition designates :: "solido_state \<Rightarrow> u32 \<Rightarrow> pubkey \<Rightarrow> bool" where
  "designates st i vote \<longleftrightarrow> unat i < length (entries (validators st)) \<and>
     vote_account_address (entries (validators st) ! unat i) = vote"

lemma designates_of_nat [intro]:
  "i < length (entries (validators st)) \<Longrightarrow> i < 2 ^ 32 \<Longrightarrow> vote_account_address (entries (validators st) ! i) = vote \<Longrightarrow>
   designates st (word_of_nat i) vote"
  by (simp add: designates_def unsigned_of_nat take_bit_nat_eq_self)

lemma validator_position_designates:
  "validator_position st v = Ok (Some i) \<Longrightarrow> designates st i (vote_account_address v)"
  by (auto simp: validator_position_def account_list_position_def validator_entry_def
    split: option.splits if_splits dest: position_SomeD)

lemma maintainer_position_is_maintainer:
  "maintainer_position st = Ok (Some j) \<Longrightarrow> is_maintainer_at st (unat j)"
  by (auto simp: maintainer_position_def account_list_position_def maintainer_entry_def is_maintainer_at_def unsigned_of_nat take_bit_nat_eq_self
    split: option.splits if_splits dest: position_SomeD)

lemma minimum_stake_step_keeps:
  assumes "min_inv vs ts k s" and "k < length vs" and "minimum_stake_step s (k, vs ! k, ts ! k) = Ok s'"
  shows "min_inv vs ts (Suc k) s'"
proof (cases "unstake_within_stake (vs ! k)")
  case True
  then show ?thesis using minimum_stake_step_inv [OF assms(1,2) True] assms(3) by auto
next
  case False
  then have "\<not> is_active (vs ! k)" and "s' = s"
    using assms(3) by (cases s; auto simp: minimum_stake_step_def compute_effective_Panic split: if_splits)+
  then show ?thesis using assms(1) by (cases s) (auto simp: min_inv_def less_Suc_eq)
qed

lemma minimum_stake_loop_keeps:
  assumes "length vs = length ts" and "k \<le> length vs" and "min_inv vs ts k s"
    and "try_fold minimum_stake_step s (enumerate k (drop k (zip vs ts))) = Ok s'"
  shows "min_inv vs ts (length vs) s'"
  using assms(2-)
proof (induction "length vs - k" arbitrary: k s)
  case 0
  then show ?case using assms(1) by simp
next
  case (Suc n)
  then have k: "k < length vs" by simp
  have "drop k (zip vs ts) = (vs ! k, ts ! k) # drop (Suc k) (zip vs ts)"
    using k assms(1) by (simp add: Cons_nth_drop_Suc [symmetric])
  then obtain t where "minimum_stake_step s (k, vs ! k, ts ! k) = Ok t"
    and "try_fold minimum_stake_step t (enumerate (Suc k) (drop (Suc k) (zip vs ts))) = Ok s'"
    using Suc.prems(3) by (auto simp: and_then_eq_Ok)
  then show ?case using Suc k minimum_stake_step_keeps [OF Suc.prems(2) k] by (intro Suc.hyps(1)) auto
qed

text \<open>Whenever the search for the validator with the least stake returns, it has found it among the active
  ones; a validator whose balances are inconsistent makes the search panic.\<close>

definition least_stake :: "validator list \<Rightarrow> nat \<Rightarrow> (validator \<Rightarrow> lamports) \<Rightarrow> bool" where
  "least_stake vs i stake \<longleftrightarrow> (\<forall>v \<in> set vs. is_active v \<longrightarrow> stake (vs ! i) \<le> stake v)"

lemma minimum_stake_index_found:
  assumes "get_minimum_stake_validator_index_amount vs ts = Ok (i, amount)"
  shows "i < length (entries vs) \<and> is_active (entries vs ! i) \<and> least_stake (entries vs) i effective_of"
proof -
  let ?xs = "entries vs"
  obtain k lowest s where len: "length ?xs = length ts" and k: "position is_active ?xs = Some k"
    and eff: "compute_effective_stake_balance (?xs ! k) = (Ok lowest :: (lamports, lido_error) result)"
    and s: "try_fold minimum_stake_step (k, lowest, Lamports (saturating_sub (lam (ts ! k)) (lam lowest)))
      (enumerate 0 (zip ?xs ts)) = Ok s" "fst s = i"
    using assms by (auto simp: get_minimum_stake_validator_index_amount_def Let_def result_simps unwrap_opt_def split: option.splits)
  have "lowest = effective_of (?xs ! k)"
    using eff by (cases "unstake_within_stake (?xs ! k)") (auto simp: compute_effective_Ok compute_effective_Panic)
  then have "min_inv ?xs ts 0 (k, lowest, Lamports (saturating_sub (lam (ts ! k)) (lam lowest)))"
    using position_SomeD [OF k] by (simp add: min_inv_def)
  then have "min_inv ?xs ts (length ?xs) s" using minimum_stake_loop_keeps [OF len, of 0] s(1) by simp
  then show ?thesis using s(2) by (cases s) (auto simp: min_inv_def least_stake_def in_set_conv_nth)
qed

lemma least_stake_stored:
  "least_stake vs i effective_of \<Longrightarrow> i < length vs \<Longrightarrow> \<forall>v \<in> set vs. effective_stake_balance v = effective_of v \<Longrightarrow>
   least_stake vs i effective_stake_balance"
  by (simp add: least_stake_def)

subsection \<open>Performance\<close>

text \<open>The bot's judgement of a validator of the list: its vote account exists and the criteria hold of its commission
  and of the performance data at the same position.\<close>

definition judged :: "solido_state \<Rightarrow> pubkey \<Rightarrow> (validator \<Rightarrow> bool) \<Rightarrow> bool \<Rightarrow> bool" where
  "judged st vote p well \<longleftrightarrow> (\<exists>i < length (entries (validators st)). i < length (validator_vote_accounts st) \<and>
     vote_account_address (entries (validators st) ! i) = vote \<and> p (entries (validators st) ! i) \<and>
     (case validator_vote_accounts st ! i of
        None \<Rightarrow> \<not> well
      | Some vs \<Rightarrow> i < length (validator_perfs st) \<and>
          does_perform_well (lido_criteria (solido st)) (vs_commission vs) (validator_perfs st ! i) = well))"

subsection \<open>The promise of a proposal\<close>

text \<open>A validator of the list, or a validator with its stake accounts, that has the given vote
  account and a property.\<close>

definition listed :: "solido_state \<Rightarrow> pubkey \<Rightarrow> (validator \<Rightarrow> bool) \<Rightarrow> bool" where
  "listed st vote p \<longleftrightarrow> (\<exists>v \<in> set (entries (validators st)). vote_account_address v = vote \<and> p v)"

definition staked ::
  "solido_state \<Rightarrow> pubkey \<Rightarrow> (validator \<Rightarrow> (pubkey \<times> stake_account) list \<Rightarrow> bool) \<Rightarrow> bool" where
  "staked st vote p \<longleftrightarrow> (\<exists>(v, stakes) \<in> set (zip (entries (validators st)) (validator_stake_accounts st)).
     vote_account_address v = vote \<and> p v stakes)"

lemma listedI: "v \<in> set (entries (validators st)) \<Longrightarrow> p v \<Longrightarrow> listed st (vote_account_address v) p"
  by (auto simp: listed_def)

lemma stakedI:
  "(v, stakes) \<in> set (zip (entries (validators st)) (validator_stake_accounts st)) \<Longrightarrow> p v stakes \<Longrightarrow>
   staked st (vote_account_address v) p"
  by (auto simp: staked_def)

lemma staked_nthI:
  "i < length (entries (validators st)) \<Longrightarrow> i < length (validator_stake_accounts st) \<Longrightarrow>
   p (entries (validators st) ! i) (validator_stake_accounts st ! i) \<Longrightarrow>
   staked st (vote_account_address (entries (validators st) ! i)) p"
  by (rule stakedI) (auto simp: set_zip)

text \<open>The first two stake accounts are the ones to merge; the first one holds exactly the amount, or
  leaves the minimum behind when the amount is taken out of it.\<close>

fun merges :: "pubkey \<Rightarrow> pubkey \<Rightarrow> u64 \<Rightarrow> u64 \<Rightarrow> (pubkey \<times> stake_account) list \<Rightarrow> bool" where
  "merges from_stake to_stake from_seed to_seed ((a, x) # (b, y) # rest) \<longleftrightarrow>
     a = from_stake \<and> b = to_stake \<and> sa_seed x = from_seed \<and> sa_seed y = to_seed \<and> can_merge y x"
| "merges from_stake to_stake from_seed to_seed stakes \<longleftrightarrow> False"

fun holds :: "unstake_task \<Rightarrow> (nat \<Rightarrow> nat \<Rightarrow> bool) \<Rightarrow> (pubkey \<times> stake_account) list \<Rightarrow> bool" where
  "holds u p ((a, x) # rest) \<longleftrightarrow> a = un_from_stake_account u \<and>
     (case stake_balance_total (sa_balance x) :: (lamports, lido_error) result of
        Ok t \<Rightarrow> p (sol (un_amount u)) (sol t) | _ \<Rightarrow> False)"
| "holds u p [] \<longleftrightarrow> False"

text \<open>An instruction to unstake, with the indices it needs.\<close>

definition unstakes :: "solido_state \<Rightarrow> unstake_task \<Rightarrow> lido_instruction \<Rightarrow> bool" where
  "unstakes st u ins \<longleftrightarrow> (case ins of
     UnstakeV2 amount i j \<Rightarrow> amount = un_amount u \<and> designates st i (un_validator_vote_account u) \<and>
       is_maintainer_at st (unat j)
   | _ \<Rightarrow> False)"

text \<open>The instruction that belongs to a description, and the guards of its handler.\<close>

fun proposal_ok :: "solido_state \<Rightarrow> maintenance_output \<Rightarrow> lido_instruction \<Rightarrow> bool" where
  "proposal_ok st (StakeDepositTask vote a amount) ins \<longleftrightarrow>
     (case ins of
        StakeDepositV2 amount' i j \<Rightarrow> amount' = amount \<and> designates st i vote \<and> is_maintainer_at st (unat j) \<and>
          is_active (entries (validators st) ! unat i) \<and> least_stake (entries (validators st)) (unat i) effective_of \<and>
          ((\<forall>v \<in> set (entries (validators st)). effective_stake_balance v = effective_of v) \<longrightarrow>
             least_stake (entries (validators st)) (unat i) effective_stake_balance)
      | _ \<Rightarrow> False) \<and>
     MINIMUM_STAKE_ACCOUNT_BALANCE \<le> amount \<and> amount \<le> get_effective_reserve st"
| "proposal_ok st UpdateExchangeRateTask ins \<longleftrightarrow>
     ins = UpdateExchangeRateV2 \<and> computed_in_epoch (exchange_rate (solido st)) < clock_epoch (state_clock st)"
| "proposal_ok st (UpdateOffchainValidatorPerfTask vote block_rate vote_rate) ins \<longleftrightarrow>
     ins = UpdateOffchainValidatorPerf block_rate vote_rate \<and> is_at_epoch_end st \<and> listed st vote (\<lambda>v. True)"
| "proposal_ok st (UpdateOnchainValidatorPerfTask vote) ins \<longleftrightarrow>
     ins = UpdateOnchainValidatorPerf \<and> listed st vote (\<lambda>v. True)"
| "proposal_ok st (UpdateStakeAccountBalanceTask vote d u) ins \<longleftrightarrow>
     (case ins of UpdateStakeAccountBalance i \<Rightarrow> designates st i vote | _ \<Rightarrow> False)"
| "proposal_ok st (MergeStakeTask vote from_stake to_stake from_seed to_seed) ins \<longleftrightarrow>
     (case ins of MergeStakeV2 i \<Rightarrow> designates st i vote | _ \<Rightarrow> False) \<and>
     staked st vote (\<lambda>v. merges from_stake to_stake from_seed to_seed)"
| "proposal_ok st (UnstakeFromInactiveValidatorTask u) ins \<longleftrightarrow>
     unstakes st u ins \<and>
     staked st (un_validator_vote_account u) (\<lambda>v stakes. \<not> is_active v \<and> holds u (=) stakes \<and>
       seed_end (unstake_seeds v) - seed_begin (unstake_seeds v) < MAXIMUM_UNSTAKE_ACCOUNTS)"
| "proposal_ok st (DeactivateIfViolatesTask vote) ins \<longleftrightarrow>
     ins = DeactivateIfViolates \<and> judged st vote is_active False"
| "proposal_ok st (ReactivateIfCompliesTask vote) ins \<longleftrightarrow>
     ins = ReactivateIfComplies \<and> is_at_epoch_end st \<and> judged st vote is_inactive True"
| "proposal_ok st (RemoveValidatorTask vote) ins \<longleftrightarrow>
     (case ins of
        RemoveValidatorV2 i \<Rightarrow> designates st i vote \<and> check_can_be_removed (entries (validators st) ! unat i) = Ok ()
      | _ \<Rightarrow> False)"
| "proposal_ok st (UnstakeFromActiveValidatorTask u) ins \<longleftrightarrow>
     unstakes st u ins \<and> MINIMUM_STAKE_ACCOUNT_BALANCE \<le> un_amount u \<and>
     staked st (un_validator_vote_account u)
       (\<lambda>v. holds u (\<lambda>amount t. amount + sol MINIMUM_STAKE_ACCOUNT_BALANCE \<le> t))"

definition carries :: "lenv \<Rightarrow> solido_state \<Rightarrow> maintenance_instruction \<Rightarrow> bool" where
  "carries E st mi \<longleftrightarrow>
     (\<exists>ins. ins_data (mi_instruction mi) = instruction_borsh E ins \<and> proposal_ok st (mi_output mi) ins)"

lemma carries_build:
  "proposal_ok st out ins \<Longrightarrow> carries E st (maintenance_instruction_new (build E program_id spec keys multi ins) out)"
  by (auto simp: carries_def build_def maintenance_instruction_new_def)

definition promises :: "lenv \<Rightarrow> solido_state \<Rightarrow> maintenance_instruction maybe \<Rightarrow> bool" where
  "promises E st r \<longleftrightarrow> (\<forall>mi. r = Ok (Some mi) \<longrightarrow> carries E st mi)"

lemma promises_or_else: "promises E st m \<Longrightarrow> promises E st m' \<Longrightarrow> promises E st (or_else m m')"
  by (auto simp: promises_def or_else_eq_Some)

lemma promises_None: "promises E st (Ok None)"
  by (simp add: promises_def)

lemma promises_for_return:
  assumes "\<And>x mi. x \<in> set xs \<Longrightarrow> f x = Ok (Return (Some mi)) \<Longrightarrow> carries E st mi"
  shows "promises E st (for_return f xs)"
  using assms by (auto simp: promises_def elim!: for_return_SomeD)

lemmas built = stake_deposit_def unstake_def update_exchange_rate_def update_offchain_validator_perf_def
  update_onchain_validator_perf_def remove_validator_def merge_stake_def update_stake_account_balance_def
  deactivate_if_violates_def reactivate_if_complies_def

subsection \<open>The proposals keep it\<close>

lemma rate_promises: "promises E st (try_update_exchange_rate E st)"
  by (auto simp: promises_def try_update_exchange_rate_def built intro!: carries_build split: if_splits)

lemma in_enumerate_zipD: "(i, v, r) \<in> set (enumerate 0 (zip xs ys)) \<Longrightarrow> v \<in> set xs"
  by (auto simp: in_set_enumerate_eq intro: nth_mem)

lemma onchain_promises: "promises E st (do_update_onchain_validator_perfs E st)"
  unfolding do_update_onchain_validator_perfs_def
  by (rule promises_for_return)
    (auto simp: result_simps Let_def built split: option.splits if_splits dest!: in_enumerate_zipD intro!: carries_build listedI)

lemma judged_closed:
  "(i, v, None) \<in> set (enumerate 0 (zip (entries (validators st)) (validator_vote_accounts st))) \<Longrightarrow> p v \<Longrightarrow>
   judged st (vote_account_address v) p False"
  unfolding judged_def by (rule exI [of _ i]) (auto simp: in_set_enumerate_eq)

lemma judged_open:
  "(i, v, Some vs) \<in> set (enumerate 0 (zip (entries (validators st)) (validator_vote_accounts st))) \<Longrightarrow> p v \<Longrightarrow>
   i < length (validator_perfs st) \<Longrightarrow>
   does_perform_well (lido_criteria (solido st)) (vs_commission vs) (validator_perfs st ! i) = well \<Longrightarrow>
   judged st (vote_account_address v) p well"
  unfolding judged_def by (rule exI [of _ i]) (auto simp: in_set_enumerate_eq)

lemmas judged_intros = judged_closed judged_open [where well = True, simplified] judged_open [where well = False, simplified]

lemma deactivate_promises: "promises E st (try_deactivate_if_violates E st)"
  unfolding try_deactivate_if_violates_def
  by (rule promises_for_return)
    (auto simp: result_simps Let_def built split: option.splits if_splits intro!: carries_build,
      (erule judged_intros; assumption)+)

lemma reactivate_promises: "promises E st (try_reactivate_if_complies E st)"
  unfolding try_reactivate_if_complies_def
  by (cases "is_at_epoch_end st"; simp add: promises_None; rule promises_for_return)
    (auto simp: result_simps Let_def built split: option.splits if_splits intro!: carries_build,
      (erule judged_intros; assumption)+)

lemma offchain_promises: "promises E st (do_update_offchain_validator_perfs E st)"
  unfolding do_update_offchain_validator_perfs_def
  by (cases "is_at_epoch_end st"; simp add: promises_None; rule promises_for_return)
    (auto simp: result_simps Let_def built in_set_enumerate_eq split: option.splits if_splits intro!: carries_build listedI)

lemma remove_promises: "promises E st (try_remove_pending_validators E st)"
  unfolding try_remove_pending_validators_def
  by (rule promises_for_return)
    (auto simp: result_simps built in_set_enumerate_eq designates_of_nat unsigned_of_nat take_bit_nat_eq_self
      split: result.splits intro!: carries_build)

lemma merge_promises: "promises E st (try_merge_on_all_stakes E st)"
  unfolding try_merge_on_all_stakes_def
proof (rule promises_for_return, clarify)
  fix v stakes mi
  assume mem: "(v, stakes) \<in> set (zip (entries (validators st)) (validator_stake_accounts st))"
    and ret: "(if 1 < length stakes then
         let from_stake = stakes ! 0; to_stake = stakes ! 1 in
         if can_merge (snd to_stake) (snd from_stake) then
           map_ok Return
             (opt_try (get_merge_instruction E st v (sa_seed (snd from_stake)) (sa_seed (snd to_stake))) (\<lambda>ins.
              Ok (Some (maintenance_instruction_new ins
                (MergeStakeTask (vote_account_address v) (fst from_stake) (fst to_stake)
                  (sa_seed (snd from_stake)) (sa_seed (snd to_stake)))))))
         else Ok Continue
       else Ok Continue) = Ok (Return (Some mi))"
  obtain a x b y rest where stakes: "stakes = (a, x) # (b, y) # rest" "can_merge y x"
    using ret by (cases stakes rule: remdups_adj.cases) (auto split: if_splits)
  then show "carries E st mi"
    using mem ret by (auto simp: result_simps built get_merge_instruction_def Let_def
      dest!: validator_position_designates intro!: carries_build stakedI)
qed

lemma inactive_promises: "promises E st (try_unstake_from_inactive_validator E st)"
  unfolding try_unstake_from_inactive_validator_def
  by (rule promises_for_return,
      auto simp: result_simps built get_unstake_instruction_def unstake_task_of_def unstakes_def Let_def neq_Nil_conv not_le
      split: if_splits dest!: validator_position_designates maintainer_position_is_maintainer intro!: carries_build stakedI,
      auto)

lemma balance_promises: "promises E st (try_update_stake_account_balance E C st)"
  unfolding try_update_stake_account_balance_def
  by (rule promises_for_return)
    (auto simp: result_simps built Let_def set_zip designates_of_nat split: if_splits intro!: carries_build)

lemma deposit_promises: "promises E st (try_stake_deposit E st)"
  by (auto simp: promises_def try_stake_deposit_def result_simps built Let_def designates_of_nat unsigned_of_nat
    take_bit_nat_eq_self not_less split: if_splits
    dest!: maintainer_position_is_maintainer minimum_stake_index_found intro!: carries_build intro: least_stake_stored)

lemma lamports_sub_min:
  "lamports_sub t m = Ok d \<Longrightarrow> sol (min b d) + sol m \<le> sol t"
  by (auto simp: lamp.sub_eq_Ok min_def lamports_le_iff)

lemma active_promises: "promises E st (try_unstake_from_active_validators E st)"
  by (auto simp: promises_def try_unstake_from_active_validators_def result_simps built Let_def neq_Nil_conv not_less
    get_unstake_instruction_def unstake_task_of_def unstakes_def split: if_splits
    dest!: validator_position_designates maintainer_position_is_maintainer intro!: carries_build staked_nthI lamports_sub_min)

lemma select_promises: "promises E st (select_maintenance E C st)"
  unfolding select_maintenance_def try_update_validator_perfs_def
  by (intro promises_or_else promises_None rate_promises onchain_promises offchain_promises deactivate_promises
    reactivate_promises remove_promises merge_promises inactive_promises balance_promises deposit_promises active_promises)

text \<open>Everything after the exchange rate in the order of proposals is considered only when the rate is
  up to date.\<close>

lemma merge_output:
  "try_merge_on_all_stakes E st = Ok (Some mi) \<Longrightarrow>
   \<exists>vote from_stake to_stake s t. mi_output mi = MergeStakeTask vote from_stake to_stake s t"
  unfolding try_merge_on_all_stakes_def
  by (erule for_return_SomeD) (auto simp: result_simps Let_def maintenance_instruction_new_def split: if_splits)

lemma select_order:
  assumes "select_maintenance E C st = Ok (Some mi)"
    and "computed_in_epoch (exchange_rate (solido st)) < clock_epoch (state_clock st)"
  shows "mi_output mi = UpdateExchangeRateTask \<or>
    (\<exists>vote from_stake to_stake s t. mi_output mi = MergeStakeTask vote from_stake to_stake s t)"
proof -
  have "try_update_exchange_rate E st \<noteq> Ok None" using assms(2) by (simp add: try_update_exchange_rate_def)
  then show ?thesis using assms
    by (auto simp: select_maintenance_def or_else_eq_Some or_else_eq_None try_update_exchange_rate_def maintenance_instruction_new_def
      dest: merge_output split: if_splits)
qed

text \<open>C16: What the bot has checked of every proposal. Whatever \<open>select_maintenance\<close> proposes on whatever
  state, the data of the instruction is the encoding of the \<open>LidoInstruction\<close> that its description names,
  with the amounts of the description; validator indices designate the validator described and maintainer
  indices the maintainer who runs the bot. A deposit goes to an active validator, is of at least the minimum
  and within the reserve, and no active validator has less stake, as computed from the balances and, when the
  stored effective balances agree with the computed ones, as the handler reads it. An unstake from an inactive
  validator takes the whole first stake account and stays below the limit of unstake accounts; one from an
  active validator moves at least the minimum and leaves at least the minimum behind. Merged accounts are the
  first two of their validator and can be merged. A validator proposed for deactivation is active and its vote
  account is closed or fails the criteria; one proposed for reactivation is inactive, has a vote account and
  meets the criteria, at the end of an epoch; both by the performance data at the validator's position. A
  validator proposed for removal can be removed. While the exchange rate is out of date, nothing but a merge or
  its update is proposed. The limit of unstake accounts, which the handler of \<open>Unstake\<close> also puts on active
  validators, is not checked by the bot there and not claimed.\<close>

theorem proposals_pass_guards:
  assumes "select_maintenance E C st = Ok (Some mi)"
  shows "(\<exists>ins. ins_data (mi_instruction mi) = instruction_borsh E ins \<and> proposal_ok st (mi_output mi) ins) \<and>
    (computed_in_epoch (exchange_rate (solido st)) < clock_epoch (state_clock st) \<longrightarrow>
       mi_output mi = UpdateExchangeRateTask \<or>
       (\<exists>vote from_stake to_stake s t. mi_output mi = MergeStakeTask vote from_stake to_stake s t))"
  using select_promises [of E st C] select_order [OF assms] assms by (auto simp: promises_def carries_def)

subsection \<open>An example\<close>

text \<open>The vote accounts of both validators of the example are closed: the first one is to be deactivated.\<close>

lemma example_bot_selects:
  "\<exists>mi. select_maintenance E C example_bot = Ok (Some mi) \<and> mi_output mi = DeactivateIfViolatesTask 11"
proof -
  have "try_merge_on_all_stakes E example_bot = Ok None"
    "try_update_exchange_rate E example_bot = Ok None"
    "try_unstake_from_inactive_validator E example_bot = Ok None"
    by (simp_all add: example_bot_def try_merge_on_all_stakes_def try_update_exchange_rate_def example_state_def
      try_unstake_from_inactive_validator_def validator_new_def validator_default_def is_active_def)
  moreover have "\<not> is_at_epoch_end example_bot"
    by (simp add: is_at_epoch_end_def slots_into_current_epoch_def example_bot_def rational_ge_def rational_partial_cmp_def)
  moreover have "do_update_onchain_validator_perfs E example_bot = Ok None"
    by (simp add: do_update_onchain_validator_perfs_def example_bot_def)
  moreover have "try_update_stake_account_balance E C example_bot = Ok None"
    by (simp add: try_update_stake_account_balance_def example_bot_def sum_stake_accounts_def validator_new_def
      validator_default_def compute_effective_stake_balance_def lamports_less_iff lamports_sub_def token_sub_def checked_sub_def ok_or_def expect_def)
  ultimately show ?thesis
    by (simp add: select_maintenance_def or_else_def try_update_validator_perfs_def do_update_offchain_validator_perfs_def
      try_reactivate_if_complies_def)
      (simp add: try_deactivate_if_violates_def example_bot_def validator_new_def validator_default_def is_active_def
        maintenance_instruction_new_def)
qed

theorem proposals_pass_guards_witness:
  "\<exists>mi ins. select_maintenance (reference_env 1) (reference_client 1) example_bot = Ok (Some mi) \<and>
     ins_data (mi_instruction mi) = instruction_borsh (reference_env 1) ins \<and> ins = DeactivateIfViolates \<and>
     judged example_bot 11 is_active False"
proof -
  obtain mi where mi: "select_maintenance (reference_env 1) (reference_client 1) example_bot = Ok (Some mi)"
    "mi_output mi = DeactivateIfViolatesTask 11"
    using example_bot_selects by blast
  then show ?thesis using proposals_pass_guards [OF mi(1)] by simp
qed

end
