(* ===== verification/Sending.thy ===== *)
theory Sending
  imports MaintenanceFacts Guards Examples
begin

text \<open>
  When a poll of the daemon sends a transaction: only on duty, only what
  \<open>select_maintenance\<close> proposes, and never in a run that \<open>with_snapshot\<close> would repeat.
  The example is a snapshot of a pool whose exchange rate is out of date.
\<close>

subsection \<open>Sending transactions\<close>

text \<open>A computation that does not send, and one that never asks to be run again.\<close>

definition quiet :: "('n, 'a) reads \<Rightarrow> bool" where
  "quiet m \<longleftrightarrow> (\<forall>s. sent_transaction (snd (m s)) = sent_transaction s)"

definition conclusive :: "('n, 'a) reads \<Rightarrow> bool" where
  "conclusive m \<longleftrightarrow> (\<forall>s e. fst (m s) = Err e \<longrightarrow> (\<exists>err. e = OtherError err))"

lemma quiet_simple [simp, intro]:
  "quiet (reads_return a)" "quiet (reads_fail e)" "quiet (reads_lift r)" "quiet (reads_call c)" "quiet (get_account a')"
  by (auto simp: quiet_def reads_return_def reads_fail_def reads_lift_def reads_call_def get_account_def Let_def
      split: option.split prod.split)

lemma quiet_bind [intro]:
  assumes "quiet m" "\<And>a. quiet (k a)" shows "quiet (reads_bind m k)"
  unfolding quiet_def
proof
  fix s show "sent_transaction (snd (reads_bind m k s)) = sent_transaction s"
    using assms by (cases "fst (m s)") (simp_all add: reads_bind_eq quiet_def)
qed

lemma quiet_try [intro]: "quiet m \<Longrightarrow> quiet (reads_try m)"
  by (simp add: quiet_def reads_try_def split_beta split: result.split)

lemma quiet_map [intro]: "(\<And>x. quiet (f x)) \<Longrightarrow> quiet (reads_map f xs)"
  by (induction xs) auto

lemma quiet_observe_validators: "(\<And>v sv. quiet (f v sv)) \<Longrightarrow> quiet (observe_validators f vs sv)"
  by (induction vs arbitrary: sv) auto

lemma quiet_state_new: "quiet (solido_state_new E C self program_id address time threshold)"
proof -
  have info: "quiet (get_validator_info C i)" for i
  proof -
    define k :: "pubkey \<Rightarrow> ('a, validator_info) reads" where "k c = reads_bind (get_account c) (\<lambda>config_account.
      reads_bind (reads_lift (deserialize_validator_info C c (acc_data config_account)))
        (\<lambda>(info_identity, info).
      if info_identity = i then reads_return info else reads_fail (MissingValidatorIdentity i)))" for c
    have "quiet (k c)" for c unfolding k_def by (intro quiet_bind) (auto split: prod.split)
    then show ?thesis unfolding get_validator_info_def k_def [symmetric] by (auto simp: quiet_def split: option.split)
  qed
  have stakes: "quiet (get_validator_stake_accounts E p a clk hist v ty)" for p a clk hist v ty
    unfolding get_validator_stake_accounts_def Let_def by (intro quiet_map) (auto split: prod.split)
  have vote: "quiet (observe_vote_account E C rent perfs rates v acc sv)" for rent perfs rates v acc sv
    unfolding observe_vote_account_def get_vote_account_def Let_def by (intro quiet_bind info) auto
  have "quiet (observe_validator E C p a rent clk hist perfs rates v sv)" for p a rent clk hist perfs rates v sv
    unfolding observe_validator_def
    by (intro quiet_bind stakes) (auto intro: vote split: result.split snapshot_error.split)
  then show ?thesis
    unfolding solido_state_new_def get_solido_def get_account_list_def get_rent_def get_clock_def get_bincode_def
      get_epoch_schedule_def get_stake_history_def get_all_block_production_rates_def
    by (intro quiet_bind quiet_observe_validators quiet_map) auto
qed

lemma quiet_latest_blockhash: "quiet (get_latest_blockhash E C)"
proof -
  define m where "m = reads_bind (get_clock E C) (\<lambda>clk.
      reads_bind (reads_call (\<lambda>n. get_block_with_config C n (clock_slot clk))) (\<lambda>block.
      reads_bind (reads_lift (ok_or (hash_from_str C block) ParseHashError)) (\<lambda>h s.
      (Ok h, s\<lparr>blockhash := Some h\<rparr>))))"
  have "quiet (\<lambda>s. (Ok h, s\<lparr>blockhash := Some h\<rparr>))" for h by (simp add: quiet_def)
  then have "quiet m" unfolding m_def get_clock_def get_bincode_def by (intro quiet_bind) auto
  then show ?thesis unfolding get_latest_blockhash_def m_def [symmetric] by (auto simp: quiet_def split: option.split)
qed

lemma conclusive_simple [simp, intro]:
  "conclusive (reads_return a)" "conclusive (reads_fail (OtherError e))" "conclusive (reads_call c)"
  "conclusive (reads_lift r)" "conclusive mark_sent"
  by (auto simp: conclusive_def reads_return_def reads_fail_def reads_call_def reads_lift_def mark_sent_def
      map_err_def split: prod.split result.splits)

lemma conclusive_bind [intro]:
  assumes "conclusive m" "\<And>a. conclusive (k a)" shows "conclusive (reads_bind m k)"
  unfolding conclusive_def
proof (intro allI impI)
  fix s e assume "fst (reads_bind m k s) = Err e"
  then show "\<exists>err. e = OtherError err"
    using assms by (cases "fst (m s)") (auto simp: reads_bind_eq conclusive_def)
qed

lemma conclusive_send: "conclusive (case mode of
    Text \<Rightarrow> send_and_confirm_transaction_with_spinner C tx | Json \<Rightarrow> send_and_confirm_transaction C tx)"
proof -
  have "conclusive (confirm_loop C sig k)" for sig k by (induction k) auto
  then show ?thesis
    by (auto simp: send_and_confirm_transaction_with_spinner_def send_and_confirm_transaction_def split: output_mode.split)
qed

text \<open>After a send the result is final.\<close>

definition sends_last :: "('n, 'a) reads \<Rightarrow> bool" where
  "sends_last m \<longleftrightarrow> (\<forall>s e. \<not> sent_transaction s \<longrightarrow> sent_transaction (snd (m s)) \<longrightarrow> fst (m s) = Err e \<longrightarrow>
     (\<exists>err. e = OtherError err))"

lemma sends_last_bind:
  assumes "quiet m" "\<And>a. conclusive (k a)" shows "sends_last (reads_bind m k)"
  unfolding sends_last_def
proof (intro allI impI)
  fix s e assume "\<not> sent_transaction s" "sent_transaction (snd (reads_bind m k s))" "fst (reads_bind m k s) = Err e"
  then show "\<exists>err. e = OtherError err"
    using assms by (cases "fst (m s)") (auto simp: reads_bind_eq conclusive_def quiet_def)
qed

lemma sends_last_sign_and_send: "sends_last (sign_and_send_transaction E C self mode instructions signers)"
  unfolding sign_and_send_transaction_def
proof (rule sends_last_bind [OF _ conclusive_send])
  show "quiet (sign_transaction E C self instructions signers)"
    unfolding sign_transaction_def Let_def by (intro quiet_bind quiet_latest_blockhash) auto
qed

lemma reads_bind_lift_Ok: "reads_bind (reads_lift (Ok a)) k = k a"
  by (simp add: reads_bind_def reads_lift_def map_err_def)

lemma try_perform_sends:
  assumes "try_perform_maintenance E C self mode st s = (r, s')" "\<not> sent_transaction s" "sent_transaction s'"
  shows "\<not> maintainer_is_poor st \<and> (\<exists>mi. select_maintenance E C st = Ok (Some mi)) \<and>
    (\<forall>e. r = Err e \<longrightarrow> (\<exists>err. e = OtherError err))"
proof -
  have rich: "\<not> maintainer_is_poor st"
    using assms by (auto simp: try_perform_maintenance_def reads_fail_def)
  have sel: "\<exists>mi. select_maintenance E C st = Ok (Some mi)"
    using assms rich by (cases "select_maintenance E C st")
      (auto simp: try_perform_maintenance_def reads_bind_def reads_lift_def reads_return_def map_err_def expect_def split: option.splits)
  then obtain mi where mi: "select_maintenance E C st = Ok (Some mi)" by blast
  let ?send = "sign_and_send_transaction E C self mode [mi_instruction mi] (self # additional_signers mi)"
  have run: "reads_bind ?send (\<lambda>sig. reads_return (Some (mi_output mi))) s = (r, s')"
    using assms(1) rich mi by (simp add: try_perform_maintenance_def reads_bind_lift_Ok)
  have "\<exists>err. e = OtherError err" if "r = Err e" for e
    using run sends_last_sign_and_send [of E C self mode "[mi_instruction mi]" "self # additional_signers mi"] assms(2, 3) that
    by (cases "?send s") (auto simp: reads_bind_def reads_return_def sends_last_def split: result.splits)
  then show ?thesis using rich sel by blast
qed

text \<open>C12: Transactions. When a run of the daemon's closure, started before anything was sent, has sent a
  transaction, then it had read a state in which its signer is the maintainer on duty and can pay the
  fees, and \<open>select_maintenance\<close> proposed an instruction for that state; and the run does not end with a
  snapshot error, so \<open>with_snapshot\<close> neither runs the closure again (which would send twice) nor
  panics about a read after a transaction.\<close>

theorem transactions_only_on_duty:
  assumes "maintenance_closure E C self mode opts s = (r, s')" "\<not> sent_transaction s" "sent_transaction s'"
  shows "(\<forall>e. r \<noteq> Err e) \<and>
    (\<exists>st mi. fst (solido_state_new E C self (opts_solido_program_id opts) (opts_solido_address opts)
        (opts_stake_time opts) (opts_end_of_epoch_threshold opts) s) = Ok st \<and>
      get_current_maintainer_duty st = Some self \<and> \<not> maintainer_is_poor st \<and>
      select_maintenance E C st = Ok (Some mi))"
proof -
  let ?new = "solido_state_new E C self (opts_solido_program_id opts) (opts_solido_address opts)
        (opts_stake_time opts) (opts_end_of_epoch_threshold opts)"
  have quiet: "sent_transaction (snd (?new s)) = sent_transaction s" using quiet_state_new [unfolded quiet_def] by (rule spec)
  obtain r1 s1 where new: "?new s = (r1, s1)" by (cases "?new s")
  then obtain st where st: "r1 = Ok st"
    using assms quiet by (cases r1) (auto simp: maintenance_closure_def reads_bind_def)
  have duty: "get_current_maintainer_duty st = Some self"
    using assms quiet new st by (auto simp: maintenance_closure_def reads_bind_def reads_return_def split: if_splits)
  obtain r2 s2 where perform: "try_perform_maintenance E C self mode st s1 = (r2, s2)"
    by (cases "try_perform_maintenance E C self mode st s1")
  have rest: "(case r2 of
         Ok None \<Rightarrow> (Ok (OkIdle st), s2)
       | Ok (Some out) \<Rightarrow> (Ok (OkMaintenance st out), s2)
       | Err MissingAccount \<Rightarrow> (Err MissingAccount, s2)
       | Err (MissingValidatorIdentity addr) \<Rightarrow> (Err (MissingValidatorIdentity addr), s2)
       | Err (OtherError err) \<Rightarrow> (Ok (ErrMaintenance st err), s2)
       | Panic \<Rightarrow> (Panic, s2)) = (r, s')"
    using assms(1) duty new st perform
    by (cases r2) (auto simp: maintenance_closure_def reads_bind_def reads_try_def reads_return_def reads_fail_def
        split: option.splits snapshot_error.splits)
  then have "s2 = s'" by (auto split: result.splits option.splits snapshot_error.splits)
  then have "\<not> maintainer_is_poor st \<and> (\<exists>mi. select_maintenance E C st = Ok (Some mi)) \<and>
      (\<forall>e. r2 = Err e \<longrightarrow> (\<exists>err. e = OtherError err))"
    using try_perform_sends [OF perform] quiet new assms(2, 3) by simp
  moreover from this have "\<forall>e. r \<noteq> Err e"
    using rest by (auto split: result.splits option.splits snapshot_error.splits)
  ultimately show ?thesis using duty new st by auto
qed

subsection \<open>An example\<close>

text \<open>The snapshot of a pool without validators in epoch 5, slot 0, whose exchange rate is of epoch 3; the
  maintainer with the key 531 is on duty.\<close>

definition bot_ledger :: "pubkey \<Rightarrow> account" where
  "bot_ledger k =
     (if k = 500 then \<lparr>acc_lamports = 10000000, acc_owner = solido_id, acc_data = lido_bytes example_lido\<rparr>
      else if k = 511 then \<lparr>acc_lamports = 10000000, acc_owner = solido_id, acc_data = example_list validator_entry []\<rparr>
      else if k = 512 then \<lparr>acc_lamports = 10000000, acc_owner = solido_id, acc_data = example_list perf_entry []\<rparr>
      else if k = 513 then \<lparr>acc_lamports = 10000000, acc_owner = solido_id,
        acc_data = example_list maintainer_entry [maintainer_new 531]\<rparr>
      else if k = 6 then \<lparr>acc_lamports = 1, acc_owner = 0, acc_data = replicate 8 0 @ [5, 0, 0, 0, 0, 0, 0, 0]\<rparr>
      else \<lparr>acc_lamports = 5000000000, acc_owner = ref_system, acc_data = replicate 82 0\<rparr>)"

definition bot_snapshot :: "node snapshot" where
  "bot_snapshot =
     \<lparr>snapshot_accounts = (\<lambda>a. Some (Some (bot_ledger a))), validator_info_addrs = Map.empty,
      accounts_referenced = ordered_set_new, sent_transaction = False, blockhash = None, net = []\<rparr>"

definition bot_opts :: maintainer_opts where
  "bot_opts = \<lparr>opts_solido_program_id = solido_id, opts_solido_address = 500, opts_stake_time = Anytime,
     opts_end_of_epoch_threshold = 95\<rparr>"

abbreviation bot_env :: lenv where "bot_env \<equiv> reference_env 5"
abbreviation bot_client :: "node rpc_client" where "bot_client \<equiv> reference_client 100"

definition bot_at :: "pubkey ordered_set \<Rightarrow> node snapshot" where
  "bot_at refs = bot_snapshot\<lparr>accounts_referenced := refs\<rparr>"

lemma bot_get_account [simp]: "get_account a (bot_at refs) = (Ok (bot_ledger a), bot_at (ordered_push a refs))"
  by (simp add: bot_at_def bot_snapshot_def get_account_def Let_def)

lemma bot_lists:
  obtains hv hp hm where
    "account_list_from validator_entry (acc_data (bot_ledger 511)) = Ok \<lparr>al_header = hv, entries = []\<rparr>"
    "account_list_from perf_entry (acc_data (bot_ledger 512)) = Ok \<lparr>al_header = hp, entries = []\<rparr>"
    "account_list_from maintainer_entry (acc_data (bot_ledger 513)) = Ok \<lparr>al_header = hm, entries = [maintainer_new 531]\<rparr>"
proof -
  have "\<exists>h. list_repr validator_entry (example_list validator_entry []) h []"
    "\<exists>h. list_repr perf_entry (example_list perf_entry []) h []"
    "\<exists>h. list_repr maintainer_entry (example_list maintainer_entry [maintainer_new 531]) h [maintainer_new 531]"
    by (rule example_list_repr [OF vle.list_codec_axioms] example_list_repr [OF ple.list_codec_axioms]
        example_list_repr [OF mle.list_codec_axioms]; simp add: validator_entry_def validator_layout_def
        maintainer_entry_def maintainer_layout_def perf_entry_def perf_layout_def)+
  then show thesis
    using that vle.account_list_from_refines ple.account_list_from_refines mle.account_list_from_refines
    by (auto simp: bot_ledger_def)
qed

lemma bot_sysvars:
  "clock_bincode bot_client (acc_data (bot_ledger 6)) = Some \<lparr>clock_epoch = 5, clock_slot = 0\<rparr>"
  "sysvar_clock_id bot_env = 6" "PE bot_env = perf_entry"
  "lido_read bot_env (acc_data (bot_ledger 500)) = Some example_lido"
  "create_program_address bot_env seeds p = Some (ref_hash seeds p)"
  "\<exists>m. unpack_mint bot_env (acc_data (bot_ledger 502)) = Ok m"
  "\<exists>r. rent_bincode bot_client d = Some r" "\<exists>e. epoch_schedule_bincode bot_client d = Some e"
  "\<exists>h. stake_history_bincode bot_client d = Some h"
  "get_block_production bot_client n = (Ok [], n)"
  using li.read_write [OF example_wf, of "[]"]
  by (simp_all add: bot_ledger_def reference_client_def reference_env_def u64_at_def ref_unpack_mint_def)

lemma bot_state:
  "\<exists>st refs. solido_state_new bot_env bot_client 531 solido_id 500 Anytime 95 (bot_at ordered_set_new) = (Ok st, bot_at refs) \<and>
     solido st = example_lido \<and> entries (validators st) = [] \<and> entries (maintainers st) = [maintainer_new 531] \<and>
     state_clock st = \<lparr>clock_epoch = 5, clock_slot = 0\<rparr> \<and> maintainer_balances st = [Lamports 5000000000] \<and>
     maintainer_address st = 531"
proof -
  obtain hv hp hm where lists:
    "account_list_from validator_entry (acc_data (bot_ledger 511)) = Ok \<lparr>al_header = hv, entries = []\<rparr>"
    "account_list_from perf_entry (acc_data (bot_ledger 512)) = Ok \<lparr>al_header = hp, entries = []\<rparr>"
    "account_list_from maintainer_entry (acc_data (bot_ledger 513)) = Ok \<lparr>al_header = hm, entries = [maintainer_new 531]\<rparr>"
    by (rule bot_lists)
  obtain m where m: "unpack_mint bot_env (acc_data (bot_ledger 502)) = Ok m" using bot_sysvars(6) by blast
  obtain rent where rent: "rent_bincode bot_client (acc_data (bot_ledger (sysvar_rent_id bot_env))) = Some rent"
    using bot_sysvars(7) by blast
  obtain sched where sched: "epoch_schedule_bincode bot_client (acc_data (bot_ledger (epoch_schedule_id bot_client))) = Some sched"
    using bot_sysvars(8) by blast
  obtain hist where hist: "stake_history_bincode bot_client (acc_data (bot_ledger (sysvar_stake_history_id bot_env))) = Some hist"
    using bot_sysvars(9) by blast
  have addresses: "validator_list example_lido = 511" "validator_perf_list example_lido = 512"
    "maintainer_list example_lido = 513" "st_sol_mint example_lido = 502"
    by (simp_all add: example_lido_def)
  have balance: "acc_lamports (bot_ledger 531) = 5000000000" by (simp add: bot_ledger_def)
  have net: "net (bot_at refs) = []" "bot_at refs\<lparr>net := []\<rparr> = bot_at refs" for refs
    by (simp_all add: bot_at_def bot_snapshot_def)
  show ?thesis
    by (simp add: solido_state_new_def reads_bind_def reads_lift_def reads_return_def reads_call_def map_err_def
        get_solido_def get_account_list_def get_bincode_def get_rent_def get_clock_def get_epoch_schedule_def
        get_stake_history_def get_all_block_production_rates_def get_reserve_account_def
        lists m rent sched hist addresses balance net bot_sysvars maintainer_new_def state_vectors_empty_def)
      (rule exI, rule refl)
qed

lemma or_else_simps [simp]: "or_else (Ok None) m = m" "or_else (Ok (Some a)) m = Ok (Some a)"
  by (simp_all add: or_else_def)

lemma bot_selects:
  assumes "solido st = example_lido" "entries (validators st) = []" "state_clock st = \<lparr>clock_epoch = 5, clock_slot = 0\<rparr>"
  shows "\<exists>mi. select_maintenance bot_env bot_client st = Ok (Some mi)"
  using assms by (simp add: select_maintenance_def try_merge_on_all_stakes_def try_update_exchange_rate_def example_lido_def)

lemma bot_sends:
  "\<exists>sig s'. sign_and_send_transaction bot_env bot_client self Json instructions signers (bot_at refs) = (Ok sig, s') \<and>
     sent_transaction s'"
proof -
  have c: "get_block_with_config bot_client n slot = (Ok ''11111111'', n)" "hash_from_str bot_client str = Some []"
    "try_sign bot_client tx" "send_transaction_with_config bot_client n tx = (Ok [], n)"
    "confirm_transaction bot_client n sig = (Ok True, n)" for n slot str tx sig
    by (simp_all add: reference_client_def)
  have confirmed: "confirm_loop bot_client sig (Suc k) s = (Ok sig, s)" for sig k s
    by (simp add: reads_bind_def reads_call_def reads_return_def map_err_def c)
  have "confirm_loop bot_client sig 32 s = (Ok sig, s)" for sig s
    using confirmed [of sig 31 s] by (simp del: confirm_loop.simps)
  moreover have "blockhash (bot_at refs) = None" for refs by (simp add: bot_at_def bot_snapshot_def)
  ultimately show ?thesis
    by (simp add: sign_and_send_transaction_def sign_transaction_def get_latest_blockhash_def get_clock_def get_bincode_def
        send_and_confirm_transaction_def reads_bind_def reads_call_def reads_lift_def reads_return_def mark_sent_def map_err_def
        bot_sysvars c Let_def)
qed

theorem transactions_only_on_duty_witness:
  "\<exists>r s'. maintenance_closure bot_env bot_client 531 Json bot_opts bot_snapshot = (r, s') \<and> sent_transaction s' \<and>
     (\<forall>e. r \<noteq> Err e)"
proof -
  have start: "bot_at ordered_set_new = bot_snapshot" by (simp add: bot_at_def bot_snapshot_def)
  obtain st refs where st:
    "solido_state_new bot_env bot_client 531 solido_id 500 Anytime 95 bot_snapshot = (Ok st, bot_at refs)"
    "solido st = example_lido" "entries (validators st) = []" "entries (maintainers st) = [maintainer_new 531]"
    "state_clock st = \<lparr>clock_epoch = 5, clock_slot = 0\<rparr>" "maintainer_balances st = [Lamports 5000000000]"
    "maintainer_address st = 531"
    using bot_state unfolding start by blast
  obtain mi where mi: "select_maintenance bot_env bot_client st = Ok (Some mi)"
    using bot_selects [OF st(2, 3, 5)] by blast
  have duty: "get_current_maintainer_duty st = Some 531"
    using current_duty_nat [of st] st(4, 5) by (simp add: maintainer_new_def)
  have rich: "\<not> maintainer_is_poor st"
    using st(4, 6, 7) by (simp add: maintainer_is_poor_def maintainer_new_def minimum_maintainer_balance_def lamports_less_iff)
  obtain sig s' where sent: "sign_and_send_transaction bot_env bot_client 531 Json [mi_instruction mi]
      (531 # additional_signers mi) (bot_at refs) = (Ok sig, s')" "sent_transaction s'"
    using bot_sends by blast
  have run: "maintenance_closure bot_env bot_client 531 Json bot_opts bot_snapshot = (Ok (OkMaintenance st (mi_output mi)), s')"
    using st(1) duty rich mi sent(1)
    by (simp add: maintenance_closure_def bot_opts_def reads_bind_def reads_try_def reads_return_def reads_lift_def
        try_perform_maintenance_def map_err_def)
  have "\<not> sent_transaction bot_snapshot" by (simp add: bot_snapshot_def)
  from transactions_only_on_duty [OF run this sent(2)] run sent(2) show ?thesis by blast
qed

end
