(* ===== verification/CommandFacts.thy ===== *)
theory CommandFacts
  imports Commands Sending
begin

text \<open>
  What the commands of the tool guarantee. A command that has sent a transaction is not run again by
  the retry loop and does not run into its assertion. This is not obvious for \<open>create-solido\<close>, which sends
  two or three transactions and goes on reading between them.
\<close>

subsection \<open>Steps that do not send\<close>

lemma quiet_exit [simp, intro]: "quiet (reads_exit r)" "quiet (new_keypair K)" "quiet (account_exists a)"
  by (auto simp: quiet_def reads_exit_def new_keypair_def account_exists_def Let_def split: prod.split option.split)

lemma quiet_getters [simp, intro]:
  "quiet (get_account_list LE a)" "quiet (get_bincode decode a)" "quiet (get_unpack dec a)"
  "quiet (get_account_deserialize des a)" "quiet (get_solido E a)" "quiet (get_spl_token_balance F a)"
  "quiet (get_minimum_balance_for_rent_exemption F C n)" "quiet (get_vote_account C a)" "quiet (read_commission a)"
  unfolding get_account_list_def get_bincode_def get_unpack_def get_account_deserialize_def get_solido_def
    get_spl_token_balance_def get_minimum_balance_for_rent_exemption_def get_rent_def get_vote_account_def read_commission_def
  by (intro quiet_bind; simp)+

lemma quiet_key [simp, intro]: "quiet (from_key_path_or_random K W path)"
  by (simp add: from_key_path_or_random_def)

lemma quiet_violations [simp, intro]: "quiet (find_violations limit vs)"
  by (induction vs) auto

lemma sends_last_quiet: "quiet m \<Longrightarrow> sends_last m"
  by (simp add: quiet_def sends_last_def)

lemma sends_last_after_quiet:
  assumes "quiet m" and "\<And>a. sends_last (k a)"
  shows "sends_last (reads_bind m k)"
  unfolding sends_last_def
proof (intro allI impI)
  fix s e
  assume *: "\<not> sent_transaction s" "sent_transaction (snd (reads_bind m k s))" "fst (reads_bind m k s) = Err e"
  then show "\<exists>err. e = OtherError err"
    using assms by (cases "fst (m s)") (auto simp: reads_bind_eq sends_last_def quiet_def)
qed

lemma sends_last_cli_send: "sends_last (reads_bind (cli_send E K cfg instrs signers) (\<lambda>sig. reads_return (f sig)))"
  unfolding sends_last_def
proof (intro allI impI)
  fix s e
  assume *: "\<not> sent_transaction s"
    "sent_transaction (snd (reads_bind (cli_send E K cfg instrs signers) (\<lambda>sig. reads_return (f sig)) s))"
    "fst (reads_bind (cli_send E K cfg instrs signers) (\<lambda>sig. reads_return (f sig)) s) = Err e"
  then show "\<exists>err. e = OtherError err"
    using sends_last_sign_and_send [of E "rpc K" "config_signer cfg" "config_output_mode cfg" instrs signers]
    by (cases "fst (cli_send E K cfg instrs signers s)")
      (auto simp: reads_bind_eq sends_last_def cli_send_def reads_return_def)
qed

lemma sends_last_let: "(\<And>a b. sends_last (f a b)) \<Longrightarrow> sends_last (case p of (a, b) \<Rightarrow> f a b)"
  by (simp split: prod.split)

lemma sends_last_propose: "sends_last (propose_instruction E K cfg mp ma ins)"
  unfolding propose_instruction_def Let_def
  by (intro sends_last_after_quiet sends_last_cli_send quiet_exit quiet_getters)

subsection \<open>Creating a pool\<close>

text \<open>While nothing was sent the rent is known, and from the first transaction on the block hash too, so
  nothing that the remaining steps read is missing.\<close>

definition well_prepared :: "'i env \<Rightarrow> 'n snapshot \<Rightarrow> bool" where
  "well_prepared E s \<longleftrightarrow> snapshot_accounts s (sysvar_rent_id E) \<noteq> None \<and> (sent_transaction s \<longrightarrow> blockhash s \<noteq> None)"

definition smooth :: "'i env \<Rightarrow> ('n, 'a) reads \<Rightarrow> bool" where
  "smooth E m \<longleftrightarrow> (\<forall>s r s'. well_prepared E s \<longrightarrow> m s = (r, s') \<longrightarrow>
     (\<forall>a. r = Ok a \<longrightarrow> well_prepared E s') \<and> (\<forall>e. sent_transaction s' \<longrightarrow> r = Err e \<longrightarrow> (\<exists>err. e = OtherError err)))"

lemma smooth_bind [intro]:
  assumes "smooth E m" and "\<And>a. smooth E (k a)"
  shows "smooth E (reads_bind m k)"
  unfolding smooth_def
proof (intro allI impI)
  fix s r s'
  assume prep: "well_prepared E s" and run: "reads_bind m k s = (r, s')"
  obtain r1 s1 where m: "m s = (r1, s1)" by (cases "m s")
  show "(\<forall>a. r = Ok a \<longrightarrow> well_prepared E s') \<and> (\<forall>e. sent_transaction s' \<longrightarrow> r = Err e \<longrightarrow> (\<exists>err. e = OtherError err))"
  proof (cases r1)
    case (Ok a)
    then have "well_prepared E s1" using assms(1) prep m by (auto simp: smooth_def)
    then show ?thesis using assms(2) [of a] run m Ok by (auto simp: smooth_def reads_bind_def)
  next
    case (Err e)
    then show ?thesis using assms(1) prep m run by (auto simp: smooth_def reads_bind_def)
  next
    case Panic
    then show ?thesis using m run by (auto simp: reads_bind_def)
  qed
qed

lemma smooth_simple [simp, intro]:
  "smooth E (reads_return a)" "smooth E (reads_lift r)" "smooth E (new_keypair K)" "smooth E (reads_call c)"
  by (auto simp: smooth_def well_prepared_def reads_return_def reads_lift_def new_keypair_def reads_call_def map_err_def
      split: prod.splits result.splits)

lemma smooth_rent [simp, intro]: "smooth E (get_minimum_balance_for_rent_exemption E C n)"
proof -
  have "smooth E (get_account (sysvar_rent_id E))"
    by (auto simp: smooth_def well_prepared_def get_account_def Let_def split: option.splits)
  then show ?thesis
    unfolding get_minimum_balance_for_rent_exemption_def get_rent_def get_bincode_def by auto
qed

lemma sends_last_known_rent:
  assumes "\<And>a. smooth E (k a)"
  shows "sends_last (reads_bind (get_minimum_balance_for_rent_exemption E C n) k)"
  unfolding sends_last_def
proof (intro allI impI)
  let ?m = "get_minimum_balance_for_rent_exemption E C n"
  fix s e
  assume *: "\<not> sent_transaction s" "sent_transaction (snd (reads_bind ?m k s))" "fst (reads_bind ?m k s) = Err e"
  obtain r1 s1 where m: "?m s = (r1, s1)" by (cases "?m s")
  have quiet: "sent_transaction s1 = sent_transaction s"
    using quiet_getters(7) [of E C n, unfolded quiet_def, rule_format, of s] m by simp
  show "\<exists>err. e = OtherError err"
  proof (cases r1)
    case (Ok a)
    then have "snapshot_accounts s1 (sysvar_rent_id E) \<noteq> None"
      using m by (auto simp: get_minimum_balance_for_rent_exemption_def get_rent_def get_bincode_def reads_bind_eq get_account_def Let_def
          reads_lift_def reads_return_def map_err_def ok_or_def split: option.splits result.splits)
    then have "well_prepared E s1" using quiet *(1) by (simp add: well_prepared_def)
    then show ?thesis
      using assms [of a] * m Ok by (cases "k a s1") (auto simp: smooth_def reads_bind_def)
  qed (use * m quiet in \<open>auto simp: reads_bind_def\<close>)
qed

text \<open>Sending leaves the accounts and the block hash of the snapshot alone.\<close>

definition keeps_cache :: "('n, 'a) reads \<Rightarrow> bool" where
  "keeps_cache m \<longleftrightarrow> (\<forall>s. snapshot_accounts (snd (m s)) = snapshot_accounts s \<and> blockhash (snd (m s)) = blockhash s)"

lemma keeps_cache_bind [intro]:
  assumes "keeps_cache m" and "\<And>a. keeps_cache (k a)"
  shows "keeps_cache (reads_bind m k)"
  using assms by (auto simp: keeps_cache_def reads_bind_eq split: result.split)

lemma keeps_cache_simple [simp, intro]:
  "keeps_cache (reads_return a)" "keeps_cache (reads_fail e)" "keeps_cache (reads_lift r)" "keeps_cache (reads_call c)"
  "keeps_cache mark_sent" "keeps_cache (get_account a')"
  by (auto simp: keeps_cache_def reads_return_def reads_fail_def reads_lift_def reads_call_def mark_sent_def get_account_def
      Let_def split: prod.split option.split)

lemma keeps_cache_send: "keeps_cache (case mode of
    Text \<Rightarrow> send_and_confirm_transaction_with_spinner C tx | Json \<Rightarrow> send_and_confirm_transaction C tx)"
proof -
  have "keeps_cache (confirm_loop C sig k)" for sig k by (induction k) auto
  then show ?thesis
    by (auto simp: send_and_confirm_transaction_with_spinner_def send_and_confirm_transaction_def split: output_mode.split)
qed

lemma blockhash_known:
  assumes "get_latest_blockhash E C s = (r, s')"
  shows "snapshot_accounts s' = snapshot_accounts s" and "\<And>h. r = Ok h \<Longrightarrow> blockhash s' = Some h"
    and "blockhash s \<noteq> None \<Longrightarrow> (\<exists>h. r = Ok h) \<and> s' = s"
proof -
  have clk: "keeps_cache (get_clock E C)"
    unfolding get_clock_def get_bincode_def by auto
  have "(snapshot_accounts s' = snapshot_accounts s) \<and> (\<forall>h. r = Ok h \<longrightarrow> blockhash s' = Some h) \<and>
      (blockhash s \<noteq> None \<longrightarrow> (\<exists>h. r = Ok h) \<and> s' = s)"
    using assms clk [unfolded keeps_cache_def, rule_format, of s]
    by (auto simp: get_latest_blockhash_def reads_bind_eq reads_call_def reads_lift_def map_err_def
        split: option.splits result.splits prod.splits)
  then show "snapshot_accounts s' = snapshot_accounts s" "\<And>h. r = Ok h \<Longrightarrow> blockhash s' = Some h"
    "blockhash s \<noteq> None \<Longrightarrow> (\<exists>h. r = Ok h) \<and> s' = s" by auto
qed

lemma sign_known:
  assumes "sign_transaction E C self instrs signers s = (r, s')"
  shows "snapshot_accounts s' = snapshot_accounts s" and "\<And>tx. r = Ok tx \<Longrightarrow> blockhash s' \<noteq> None"
    and "\<And>e. blockhash s \<noteq> None \<Longrightarrow> r = Err e \<Longrightarrow> \<exists>err. e = OtherError err"
    and "sent_transaction s' = sent_transaction s"
proof -
  obtain r1 s1 where h: "get_latest_blockhash E C s = (r1, s1)" by (cases "get_latest_blockhash E C s")
  have s': "s' = s1" using assms h
    by (auto simp: sign_transaction_def reads_bind_def Let_def reads_return_def reads_fail_def split: result.splits if_splits)
  show "snapshot_accounts s' = snapshot_accounts s" using blockhash_known(1) [OF h] s' by simp
  show "blockhash s' \<noteq> None" if "r = Ok tx" for tx
    using blockhash_known(2) [OF h] assms h s' that
    by (auto simp: sign_transaction_def reads_bind_def Let_def reads_return_def reads_fail_def split: result.splits if_splits)
  show "\<exists>err. e = OtherError err" if "blockhash s \<noteq> None" "r = Err e" for e
    using blockhash_known(3) [OF h that(1)] assms h that(2)
    by (auto simp: sign_transaction_def reads_bind_def Let_def reads_return_def reads_fail_def split: result.splits if_splits)
  show "sent_transaction s' = sent_transaction s"
    using quiet_latest_blockhash [unfolded quiet_def, rule_format, of E C s] h s' by simp
qed

lemma smooth_cli_send [simp, intro]: "smooth E (cli_send E K cfg instrs signers)"
  unfolding smooth_def
proof (intro allI impI)
  fix s r s'
  assume prep: "well_prepared E s" and run: "cli_send E K cfg instrs signers s = (r, s')"
  obtain r1 s1 where sign: "sign_transaction E (rpc K) (config_signer cfg) instrs signers s = (r1, s1)"
    by (cases "sign_transaction E (rpc K) (config_signer cfg) instrs signers s")
  note known = sign_known [OF sign]
  show "(\<forall>a. r = Ok a \<longrightarrow> well_prepared E s') \<and> (\<forall>e. sent_transaction s' \<longrightarrow> r = Err e \<longrightarrow> (\<exists>err. e = OtherError err))"
  proof (cases r1)
    case (Ok tx)
    let ?send = "case config_output_mode cfg of
      Text \<Rightarrow> send_and_confirm_transaction_with_spinner (rpc K) tx | Json \<Rightarrow> send_and_confirm_transaction (rpc K) tx"
    have send: "?send s1 = (r, s')" using run sign Ok by (simp add: cli_send_def sign_and_send_transaction_def reads_bind_def)
    have "snapshot_accounts s' = snapshot_accounts s" "blockhash s' \<noteq> None"
      using keeps_cache_send [where mode = "config_output_mode cfg" and C = "rpc K" and tx = tx] send known(1) known(2) [OF Ok]
      by (auto simp: keeps_cache_def dest: spec [of _ s1])
    moreover have "\<exists>err. e = OtherError err" if "r = Err e" for e
      using conclusive_send [where mode = "config_output_mode cfg" and C = "rpc K" and tx = tx] send that by (auto simp: conclusive_def dest: spec [of _ s1])
    ultimately show ?thesis using prep by (auto simp: well_prepared_def)
  next
    case (Err e)
    then have "r = Err e" "s' = s1" using run sign by (auto simp: cli_send_def sign_and_send_transaction_def reads_bind_def)
    then show ?thesis using known(3) [OF _ Err] known(4) prep by (auto simp: well_prepared_def)
  next
    case Panic
    then show ?thesis using run sign by (auto simp: cli_send_def sign_and_send_transaction_def reads_bind_def)
  qed
qed

lemma smooth_case [intro]: "(\<And>a b. smooth E (f a b)) \<Longrightarrow> smooth E (case p of (a, b) \<Rightarrow> f a b)"
  by (simp split: prod.split)

lemma smooth_create_account [simp, intro]: "smooth E (push_create_spl_token_account E K cfg instrs mint owner)"
  unfolding push_create_spl_token_account_def Let_def by (intro smooth_bind smooth_rent smooth_simple)

lemma smooth_push_mint [simp, intro]: "smooth E (push_create_spl_token_mint E K cfg instrs auth)"
  unfolding push_create_spl_token_mint_def Let_def by (intro smooth_bind smooth_rent smooth_simple)

lemma smooth_create_mint [simp, intro]: "smooth E (create_or_use_mint E K cfg opts instrs auth)"
proof -
  have "smooth E (reads_bind (push_create_spl_token_mint E K cfg instrs auth) (\<lambda>(st_sol_mint_keypair, instrs).
       reads_bind (cli_send E K cfg instrs [st_sol_mint_keypair, config_signer cfg]) (\<lambda>sig.
       reads_return (st_sol_mint_keypair, [] :: instruction list))))"
    by (intro smooth_bind smooth_case smooth_push_mint smooth_cli_send smooth_simple)
  then show ?thesis unfolding create_or_use_mint_def by (intro smooth_bind smooth_simple) simp
qed

lemma sends_last_create_solido: "sends_last (command_create_solido E K W cfg opts)"
  unfolding command_create_solido_def Let_def
  apply (rule sends_last_after_quiet, (rule quiet_simple quiet_key)[1])+
  apply (rule sends_last_known_rent)
  apply (intro smooth_bind smooth_case smooth_simple smooth_rent smooth_create_mint smooth_create_account smooth_cli_send)
  done

lemma quiet_push_account [simp, intro]: "quiet (push_create_spl_token_account E K cfg instrs mint owner)"
  unfolding push_create_spl_token_account_def Let_def by (intro quiet_bind) auto

lemma sends_last_send: "sends_last (cli_send E K cfg instrs signers)"
  unfolding cli_send_def by (rule sends_last_sign_and_send)

lemma sends_last_if: "sends_last a \<Longrightarrow> sends_last b \<Longrightarrow> sends_last (if c then a else b)"
  by simp

lemma sends_last_return: "sends_last (reads_return a)"
  by (simp add: sends_last_quiet)

lemmas step_rules = sends_last_cli_send sends_last_send sends_last_propose sends_last_if sends_last_return
  sends_last_let sends_last_after_quiet quiet_exit quiet_simple quiet_getters quiet_violations quiet_push_account

lemma sends_last_commands:
  "sends_last (command_create_v2_accounts F K cfg opts)"
  "sends_last (command_add_validator E K cfg opts)"
  "sends_last (command_deactivate_validator E K cfg opts)"
  "sends_last (command_remove_validator E K cfg opts)"
  "sends_last (command_change_criteria E K cfg opts)"
  "sends_last (command_add_maintainer E K cfg opts)"
  "sends_last (command_remove_maintainer E K cfg opts)"
  "sends_last (propose_migrate_state_to_v2 E K cfg opts)"
  "sends_last (command_deactivate_if_violates E K cfg opts)"
  "sends_last (deposit_recipient E K cfg opts)"
  "sends_last (send_deposit E K cfg opts recipient)"
  "sends_last (send_withdraw E K cfg opts)"
  "sends_last (create_multisig F K cfg opts)"
  "sends_last (propose_upgrade F K cfg opts)"
  "sends_last (propose_change_multisig F K cfg opts)"
  "sends_last (propose_add_owner F K cfg opts)"
  "sends_last (propose_revoke_owner F K cfg opts)"
  "sends_last (transfer_token F K cfg opts)"
  "sends_last (propose_set_upgrade_authority F K cfg opts)"
  "sends_last (send_approvals F K cfg txs mp ma)"
  "sends_last (execute_transaction F K cfg tx mp ma)"
  unfolding command_create_v2_accounts_def command_add_validator_def command_deactivate_validator_def
    command_remove_validator_def command_change_criteria_def command_add_maintainer_def command_remove_maintainer_def
    propose_migrate_state_to_v2_def command_deactivate_if_violates_def send_deposit_def send_withdraw_def
    create_multisig_def propose_upgrade_def propose_change_multisig_def propose_add_owner_def propose_revoke_owner_def
    propose_owners_def transfer_token_def propose_set_upgrade_authority_def deposit_recipient_def send_approvals_def
    execute_transaction_def Let_def
  by (intro step_rules)+

lemma sends_last_perform_maintenance:
  "sends_last (run_perform_maintenance E C self mode program_id address time threshold)"
  unfolding run_perform_maintenance_def
proof (rule sends_last_after_quiet [OF quiet_state_new], unfold sends_last_def, intro allI impI)
  fix st s e
  assume "\<not> sent_transaction s" "sent_transaction (snd (try_perform_maintenance E C self mode st s))"
    "fst (try_perform_maintenance E C self mode st s) = Err e"
  then show "\<exists>err. e = OtherError err"
    using try_perform_sends [of E C self mode st s] by (cases "try_perform_maintenance E C self mode st s") auto
qed

text \<open>C17: Retries. The closure of every command of the tool that sends a transaction, \<open>perform-maintenance\<close>
  included, is safe under the retry loop of \<open>with_snapshot\<close>: when a run that started with nothing sent has sent something and then fails, it fails
  for good, and not with the request to be run again with more accounts. So no transaction is sent
  twice by a retry, and the assertion that nothing is read for the first time after a transaction never
  fails. \<open>create-solido\<close> has this property although it sends up to three transactions, because
  it has asked for the rent before the first one and remembers the block hash.\<close>

theorem commands_are_retry_safe:
  "sends_last (command_create_solido E K W cfg opts) \<and>
   sends_last (command_create_v2_accounts F K cfg opts) \<and>
   sends_last (command_add_validator E K cfg opts) \<and>
   sends_last (command_deactivate_validator E K cfg opts) \<and>
   sends_last (command_remove_validator E K cfg opts) \<and>
   sends_last (command_change_criteria E K cfg opts) \<and>
   sends_last (command_add_maintainer E K cfg opts) \<and>
   sends_last (command_remove_maintainer E K cfg opts) \<and>
   sends_last (propose_migrate_state_to_v2 E K cfg opts) \<and>
   sends_last (command_deactivate_if_violates E K cfg opts) \<and>
   sends_last (deposit_recipient E K cfg opts) \<and>
   sends_last (send_deposit E K cfg opts recipient) \<and>
   sends_last (send_withdraw E K cfg opts) \<and>
   sends_last (create_multisig F K cfg opts) \<and>
   sends_last (propose_upgrade F K cfg opts) \<and>
   sends_last (propose_change_multisig F K cfg opts) \<and>
   sends_last (propose_add_owner F K cfg opts) \<and>
   sends_last (propose_revoke_owner F K cfg opts) \<and>
   sends_last (transfer_token F K cfg opts) \<and>
   sends_last (propose_set_upgrade_authority F K cfg opts) \<and>
   sends_last (send_approvals F K cfg txs mp ma) \<and>
   sends_last (execute_transaction F K cfg tx mp ma) \<and>
   sends_last (run_perform_maintenance E (rpc K) (config_signer cfg) mode program_id address time threshold)"
  by (intro conjI sends_last_create_solido sends_last_commands sends_last_perform_maintenance)

end
