(* ===== verification/Governance.thy ===== *)
theory Governance
  imports CommandFacts
begin

text \<open>
  The way of a change through the multisig: what is proposed is what the owners are shown before they
  approve, and how their answers are read. The locale \<open>multisig_codec\<close> states what the tool relies on in
  the multisig program and in Borsh: stored transactions and instructions are read back as they were written. It
  is interpreted on Borsh encodings of the same data.
\<close>

subsection \<open>What the owners are shown\<close>

definition tx_fits :: "ms_transaction \<Rightarrow> bool" where
  "tx_fits tx \<longleftrightarrow> length (mt_accounts tx) < 2 ^ 32 \<and> length (mt_data tx) < 2 ^ 32 \<and> length (mt_signers tx) < 2 ^ 32"

locale multisig_codec =
  fixes E :: lenv and K :: "'n cli"
  assumes instruction_back: "deserialize_instruction K (instruction_borsh E i) = Some (i, [])"
    and transaction_back: "tx_fits tx \<Longrightarrow> transaction_try_deserialize (serum K)
      (transaction_discriminator (serum K) @ transaction_serialize (serum K) tx) = Ok tx"
    and instruction_of_transaction: "instruction_from (serum K) tx =
      \<lparr>ins_program_id = mt_program_id tx, ins_accounts = map (account_meta_from (serum K)) (mt_accounts tx),
       ins_data = mt_data tx\<rparr>"
    and metas_back: "account_meta_from (serum K) (transaction_account_from (serum K) m) = m"
    and set_owners_tag: "length owners < 2 ^ 32 \<Longrightarrow>
      take 8 (set_owners_and_change_threshold_data (serum K) owners th) = [55, 144, 74, 245, 249, 230, 14, 53]"
    and set_owners_back: "length owners < 2 ^ 32 \<Longrightarrow>
      set_owners_try_from_slice (serum K) (drop 8 (set_owners_and_change_threshold_data (serum K) owners th)) =
      Some (owners, th)"

text \<open>The account \<open>t\<close> of the snapshot holds the transaction that \<open>propose_instruction\<close> asks the multisig
  program to store for the instruction; its multisig can be read.\<close>

definition proposed_in :: "'n cli \<Rightarrow> 'n snapshot \<Rightarrow> pubkey \<Rightarrow> multisig \<Rightarrow> instruction \<Rightarrow> bool" where
  "proposed_in K s t ms ins \<longleftrightarrow>
     (\<exists>tx acc macc. tx_fits tx \<and> snapshot_accounts s t = Some (Some acc) \<and>
       acc_data acc = transaction_discriminator (serum K) @ transaction_serialize (serum K) tx \<and>
       mt_program_id tx = ins_program_id ins \<and> mt_data tx = ins_data ins \<and>
       mt_accounts tx = map (transaction_account_from (serum K)) (ins_accounts ins) \<and>
       snapshot_accounts s (mt_multisig tx) = Some (Some macc) \<and>
       multisig_try_deserialize (serum K) (acc_data macc) = Ok ms)"

definition shown_as ::
  "lenv \<Rightarrow> 'n cli \<Rightarrow> 'n snapshot \<Rightarrow> pubkey \<Rightarrow> pubkey \<Rightarrow> pubkey \<Rightarrow> parsed_instruction \<Rightarrow> bool" where
  "shown_as E K s t mp p parsed \<longleftrightarrow>
     (\<exists>out. fst (show_transaction E K t mp p s) = Ok out \<and> sto_parsed_instruction out = parsed)"

lemma meta_try_from_slice_to_vec:
  "length keys = length (var_accounts spec) \<Longrightarrow> \<not> variadic spec \<Longrightarrow>
     meta_try_from_slice spec (meta_to_vec spec keys []) = Ok (keys, [])"
  using meta_take_const_to_vec [of "const_accounts spec" "[]"]
  by (auto simp: meta_try_from_slice_def meta_to_vec_def meta_take_var_to_vec)

lemma get_account_deserialize_known:
  assumes "snapshot_accounts s a = Some (Some acc)" and "des (acc_data acc) = Ok x"
  shows "\<exists>s'. get_account_deserialize des a s = (Ok x, s') \<and> snapshot_accounts s' = snapshot_accounts s"
  using assms by (simp add: get_account_deserialize_def reads_bind_def get_account_def reads_lift_def Let_def map_err_def)

context multisig_codec
begin

lemma show_proposed:
  assumes "proposed_in K s t ms ins" and "\<And>s'. fst (parse_instruction E K ms mp p ins s') = Ok parsed"
  shows "shown_as E K s t mp p parsed"
proof -
  obtain tx acc macc where tx: "tx_fits tx" "snapshot_accounts s t = Some (Some acc)"
      "acc_data acc = transaction_discriminator (serum K) @ transaction_serialize (serum K) tx"
      "mt_program_id tx = ins_program_id ins" "mt_data tx = ins_data ins"
      "mt_accounts tx = map (transaction_account_from (serum K)) (ins_accounts ins)"
    and ms: "snapshot_accounts s (mt_multisig tx) = Some (Some macc)"
      "multisig_try_deserialize (serum K) (acc_data macc) = Ok ms"
    using assms(1) by (auto simp: proposed_in_def)
  have ins: "instruction_from (serum K) tx = ins"
    using tx(4-6) by (simp add: instruction_of_transaction comp_def metas_back)
  obtain s1 where s1: "get_account_deserialize (transaction_try_deserialize (serum K)) t s = (Ok tx, s1)"
      "snapshot_accounts s1 = snapshot_accounts s"
    using get_account_deserialize_known [OF tx(2), of "transaction_try_deserialize (serum K)" tx] tx(1, 3) transaction_back
    by auto
  obtain s2 where s2: "get_account_deserialize (multisig_try_deserialize (serum K)) (mt_multisig tx) s1 = (Ok ms, s2)"
    using get_account_deserialize_known [of s1 "mt_multisig tx" macc "multisig_try_deserialize (serum K)" ms] ms s1(2) by auto
  obtain s3 where "parse_instruction E K ms mp p ins s2 = (Ok parsed, s3)"
    using assms(2) [of s2] by (cases "parse_instruction E K ms mp p ins s2") auto
  then show ?thesis
    by (auto simp: shown_as_def show_transaction_def reads_bind_def Let_def s1(1) s2 ins reads_return_def)
qed

lemma parse_built:
  assumes "p \<noteq> loader_id (native K)" and "p \<noteq> mp" and "length keys = length (var_accounts spec)" and "\<not> variadic spec"
    and "\<And>s'. try_parse_solido_instruction E K (build E p spec keys [] i) s' = (Ok parsed, s')"
  shows "fst (parse_instruction E K ms mp p (build E p spec keys [] i) s) = Ok parsed"
  using assms
  by (simp add: parse_instruction_def build_def or_invalid_def reads_bind_def reads_try_def reads_return_def)

lemma try_parse_built:
  assumes "length keys = length (var_accounts spec)" and "\<not> variadic spec"
  shows "reads_bind (reads_lift (map_err ProgramErr
      (meta_try_from_slice spec (ins_accounts (build E p spec keys [] i))))) (\<lambda>(keys, multi). f keys) = f keys"
  using assms by (simp add: build_def meta_try_from_slice_to_vec reads_bind_lift_Ok)

lemma decode_built: "reads_bind (reads_lift (ok_or (deserialize_instruction K (ins_data (build E p spec keys [] i))) IoError)) f = f (i, [])"
  by (simp add: build_def instruction_back reads_bind_lift_Ok)

lemmas account_specs = add_validator_accounts_def deactivate_validator_accounts_def add_maintainer_accounts_def
  remove_maintainer_accounts_def change_criteria_accounts_def migrate_state_to_v2_accounts_def
  enqueue_validator_for_removal_accounts_def

lemmas builders = add_validator_def deactivate_validator_def add_maintainer_def
  remove_maintainer_def change_criteria_def migrate_state_to_v2_def enqueue_validator_for_removal_def

lemma proposal_shown:
  assumes "p \<noteq> loader_id (native K)" and "p \<noteq> mp" and "proposed_in K s t ms (build E p spec keys [] i)"
    and "length keys = length (var_accounts spec)" and "\<not> variadic spec"
    and "\<And>s'. try_parse_solido_instruction E K (build E p spec keys [] i) s' = (Ok parsed, s')"
  shows "shown_as E K s t mp p parsed"
  using parse_built [OF assms(1, 2, 4-6)] assms(3) by (rule show_proposed [rotated])

lemma proposals_shown:
  assumes "p \<noteq> loader_id (native K)" and "p \<noteq> mp"
  shows
    "proposed_in K s t ms (add_validator E p [a, m, v, l]) \<Longrightarrow>
      shown_as E K s t mp p (SolidoInstruction (ShownAddValidator a m v))"
    "proposed_in K s t ms (deactivate_validator E p [a, m, v, l] i) \<Longrightarrow>
      shown_as E K s t mp p (SolidoInstruction (ShownDeactivateValidator a m v i))"
    "proposed_in K s t ms (add_maintainer E p [a, m, v, l]) \<Longrightarrow>
      shown_as E K s t mp p (SolidoInstruction (ShownAddMaintainer a m v))"
    "proposed_in K s t ms (remove_maintainer E p [a, m, v, l] i) \<Longrightarrow>
      shown_as E K s t mp p (SolidoInstruction (ShownRemoveMaintainer a m v i))"
    "proposed_in K s t ms (change_criteria E p [a, m] c) \<Longrightarrow>
      shown_as E K s t mp p (SolidoInstruction (ShownChangeCriteria a c m))"
    "proposed_in K s t ms (migrate_state_to_v2 E p [a, m, v, pl, l, d] rd mv mm mc) \<Longrightarrow>
      shown_as E K s t mp p (SolidoInstruction (ShownMigrateStateToV2 a m v l d rd mv mm mc))"
    "proposed_in K s t ms (enqueue_validator_for_removal E p [a, m, v, l] i) \<Longrightarrow>
      shown_as E K s t mp p InvalidSolidoInstruction"
  unfolding builders
  by (erule proposal_shown [OF assms], simp_all add: account_specs try_parse_solido_instruction_def decode_built
      try_parse_built reads_return_def Let_def)+

lemma owner_change_shown:
  assumes "mp \<noteq> loader_id (native K)" and "length owners < 2 ^ 32"
    and "proposed_in K s t ms (change_multisig_instruction K mp ma d owners th)"
  shows "shown_as E K s t mp p (MultisigChange (ms_threshold ms) (ms_owners ms) th owners)"
proof (rule show_proposed [OF assms(3)])
  have "length (take 8 (set_owners_and_change_threshold_data (serum K) owners th)) = 8"
    using set_owners_tag [OF assms(2)] by simp
  then have "\<not> length (set_owners_and_change_threshold_data (serum K) owners th) < 8" by simp
  then show "fst (parse_instruction E K ms mp p (change_multisig_instruction K mp ma d owners th) s') =
      Ok (MultisigChange (ms_threshold ms) (ms_owners ms) th owners)" for s'
    using assms(1) set_owners_tag [OF assms(2), of th] set_owners_back [OF assms(2), of th]
    by (simp add: parse_instruction_def change_multisig_instruction_def reads_return_def)
qed

end

subsection \<open>A multisig program\<close>

text \<open>Borsh encodings of the stored transaction and of the instruction that changes the owners. The remaining
  fields of \<open>serum\<close> and \<open>native\<close> have arbitrary values.\<close>

definition vec_bytes :: "('a \<Rightarrow> u8 list) \<Rightarrow> 'a list \<Rightarrow> u8 list" where
  "vec_bytes wr xs = u32_bytes (word_of_nat (length xs)) @ concat (map wr xs)"

definition bool_bytes :: "bool \<Rightarrow> u8 list" where
  "bool_bytes b = [if b then 1 else 0]"

definition read_bool :: "bool reader" where
  "read_bool bs = map_option (\<lambda>(b, r). (b \<noteq> 0, r)) (read_u8 bs)"

definition meta_bytes :: "account_meta \<Rightarrow> u8 list" where
  "meta_bytes m = pubkey_bytes (meta_pubkey m) @ bool_bytes (meta_is_signer m) @ bool_bytes (meta_is_writable m)"

definition read_meta :: "account_meta reader" where
  "read_meta bs =
     Option.bind (read_pubkey bs) (\<lambda>(k, bs).
     Option.bind (read_bool bs) (\<lambda>(s, bs).
     map_option (\<lambda>(w, bs). (\<lparr>meta_pubkey = k, meta_is_signer = s, meta_is_writable = w\<rparr>, bs)) (read_bool bs)))"

definition tx_bytes :: "ms_transaction \<Rightarrow> u8 list" where
  "tx_bytes tx =
     pubkey_bytes (mt_multisig tx) @ pubkey_bytes (mt_program_id tx) @ vec_bytes meta_bytes (mt_accounts tx) @
     vec_bytes (\<lambda>b. [b]) (mt_data tx) @ vec_bytes bool_bytes (mt_signers tx) @ bool_bytes (mt_did_execute tx) @
     u32_bytes (mt_owner_set_seqno tx)"

definition read_tx :: "ms_transaction reader" where
  "read_tx bs =
     Option.bind (read_pubkey bs) (\<lambda>(ma, bs).
     Option.bind (read_pubkey bs) (\<lambda>(pid, bs).
     Option.bind (read_vec read_meta bs) (\<lambda>(accs, bs).
     Option.bind (read_vec read_u8 bs) (\<lambda>(d, bs).
     Option.bind (read_vec read_bool bs) (\<lambda>(sg, bs).
     Option.bind (read_bool bs) (\<lambda>(ex, bs).
     map_option (\<lambda>(q, bs). (\<lparr>mt_multisig = ma, mt_program_id = pid, mt_accounts = accs, mt_data = d, mt_signers = sg,
       mt_did_execute = ex, mt_owner_set_seqno = q\<rparr>, bs)) (read_u32 bs)))))))"

definition read_set_owners :: "(pubkey list \<times> u64) reader" where
  "read_set_owners bs =
     Option.bind (read_vec read_pubkey bs) (\<lambda>(owners, bs). map_option (\<lambda>(th, bs). ((owners, th), bs)) (read_u64 bs))"

definition reference_serum :: serum where
  "reference_serum =
     \<lparr>multisig_try_deserialize = (\<lambda>d. Ok \<lparr>ms_owners = [601, 602], ms_threshold = 2, ms_owner_set_seqno = 0\<rparr>),
      transaction_try_deserialize = (\<lambda>d. case read_tx (drop 8 d) of Some (tx, r) \<Rightarrow> Ok tx | None \<Rightarrow> Err InvalidAccountData),
      transaction_discriminator = replicate 8 7,
      transaction_serialize = tx_bytes,
      transaction_account_from = id, account_meta_from = id,
      instruction_from = (\<lambda>tx. \<lparr>ins_program_id = mt_program_id tx, ins_accounts = mt_accounts tx, ins_data = mt_data tx\<rparr>),
      create_multisig_data = (\<lambda>owners th nonce. []),
      create_transaction_data = (\<lambda>pid accs d. []),
      set_owners_and_change_threshold_data =
        (\<lambda>owners th. [55, 144, 74, 245, 249, 230, 14, 53] @ vec_bytes pubkey_bytes owners @ u64_bytes th),
      set_owners_try_from_slice = (\<lambda>d. map_option fst (read_set_owners d)),
      approve_data = [], execute_transaction_data = [],
      create_multisig_metas = (\<lambda>a r. []), create_transaction_metas = (\<lambda>a t pr r. []), auth_metas = (\<lambda>a d. []),
      approve_metas = (\<lambda>a t ow. []), execute_transaction_metas = (\<lambda>a d t. [])\<rparr>"

definition reference_native :: native where
  "reference_native =
     (let ins = \<lparr>ins_program_id = 0, ins_accounts = [], ins_data = []\<rparr> in
      \<lparr>create_account = (\<lambda>a b l n ow. ins), system_transfer = (\<lambda>a b l. ins),
       initialize_mint = (\<lambda>p m a f d. Ok ins), initialize_account = (\<lambda>p a m ow. Ok ins),
       spl_transfer = (\<lambda>p a b ow sg n. Ok ins), spl_unpack_instruction = (\<lambda>d. Ok SplOther),
       native_mint_decimals = 9, mint_len = 82, token_account_len = 165,
       get_associated_token_address = (\<lambda>w m. w + m), create_associated_token_account = (\<lambda>p w m. ins),
       loader_id = 8, is_upgrade_instruction = (\<lambda>d. True),
       loader_upgrade = (\<lambda>p b a sp. ins), set_upgrade_authority = (\<lambda>p a n. ins)\<rparr>)"

definition reference_cli :: "node rpc_client \<Rightarrow> node cli" where
  "reference_cli C =
     \<lparr>rpc = C, keypair_new = (\<lambda>n. (word_of_nat (length n), n)), pubkey_display = (\<lambda>k. []),
      hash_set_iter = sorted_list_of_set,
      deserialize_instruction = (\<lambda>bs. Option.bind (read_u8 bs) (\<lambda>(tag, bs). read_instruction_fields tag bs)),
      native = reference_native, serum = reference_serum\<rparr>"

lemma read_vec_bytes:
  assumes "\<And>x r. rd (wr x @ r) = Some (x, r)" and "length xs < 2 ^ 32"
  shows "read_vec rd (vec_bytes wr xs @ r) = Some (xs, r)"
  using assms(2) read_many_write [of rd wr xs r] assms(1)
  by (simp add: read_vec_def vec_bytes_def unat_of_nat take_bit_nat_eq_self_iff)

lemma read_bool_bytes: "read_bool (bool_bytes b @ r) = Some (b, r)"
  by (simp add: read_bool_def bool_bytes_def)

lemma read_meta_bytes: "read_meta (meta_bytes m @ r) = Some (m, r)"
  by (simp add: read_meta_def meta_bytes_def read_bool_bytes)

lemma read_tx_bytes: "tx_fits tx \<Longrightarrow> read_tx (tx_bytes tx @ r) = Some (tx, r)"
  by (simp add: read_tx_def tx_bytes_def tx_fits_def read_vec_bytes read_meta_bytes read_bool_bytes)

lemma multisig_codec_reference: "multisig_codec (reference_env e) (reference_cli C)"
proof
  show "deserialize_instruction (reference_cli C) (instruction_borsh (reference_env e) i) = Some (i, [])" for i
    using read_instruction_bytes [of i]
    by (auto simp: reference_cli_def reference_env_def read_instruction_def bind_eq_Some_conv split: if_splits prod.splits)
qed (use read_tx_bytes [of _ "[]"] in \<open>simp_all add: reference_cli_def reference_serum_def read_set_owners_def read_vec_bytes\<close>)

interpretation refm: multisig_codec "reference_env e" "reference_cli C" for e C
  by (rule multisig_codec_reference)




subsection \<open>The answers of the owner\<close>

definition answer :: "string \<Rightarrow> string" where
  "answer line = take 1 (map ascii_lowercase (trim line))"

definition undecided :: "string \<Rightarrow> bool" where
  "undecided line \<longleftrightarrow> answer line \<noteq> ''y'' \<and> answer line \<noteq> ''n''"

lemma ask_user_Cons: "ask_user_y_n (l # ls) = (if undecided l then ask_user_y_n ls else Some (answer l = ''y'', ls))"
  by (subst ask_user_y_n.simps) (simp add: next_line_def Let_def undecided_def answer_def)

lemma ask_user_Nil: "ask_user_y_n [] = None"
proof -
  have "ask_user_y_n lines = Some r \<longrightarrow> lines \<noteq> []" for lines r
    by (rule impI, rule ask_user_y_n.raw_induct [where P = "\<lambda>lines r. lines \<noteq> []"])
      (auto simp: next_line_def Let_def trim_def split: list.splits)
  then show ?thesis by (cases "ask_user_y_n []") auto
qed

text \<open>C21: Prompts. The loop that asks the owner for Y or N returns exactly when one of the lines that are typed starts,
  after white space and in either case, with one of these letters; then the answer is that of the first such
  line and everything behind it is left for later prompts. On an input without such a line, so in
  particular at the end of the input, it never returns.\<close>

theorem ask_user_y_n_spec:
  "ask_user_y_n lines =
     (case dropWhile undecided lines of [] \<Rightarrow> None | l # rest \<Rightarrow> Some (answer l = ''y'', rest))"
  by (induction lines) (simp_all add: ask_user_Nil ask_user_Cons)

text \<open>A declined transaction ends the approval of its whole chunk, although the message that is printed
  announces the next transaction.\<close>

theorem declined_ends_chunk:
  assumes "session_snapshot K (show_transaction E K t mp p) st = Some (Ok out, client, n, l # rest)"
    and "answer l = ''n''"
  shows "approve_each E K cfg mp ma p (t # ts) st = Some (Ok (), client, n, rest)"
  using assms
  by (simp add: session_bind_def session_ask_def ask_user_Cons undecided_def session_return_def)

end
