(* ===== verification/UserCommands.thy ===== *)
theory UserCommands
  imports Governance ValueFlow
begin














text \<open>The user with the key 508 withdraws from the pool of the example.\<close>

definition user_snapshot :: "node snapshot" where
  "user_snapshot =
     \<lparr>snapshot_accounts = (\<lambda>a. Some (Some (ledger withdraw_world a))), validator_info_addrs = Map.empty,
      accounts_referenced = ordered_set_new, sent_transaction = False, blockhash = None, net = []\<rparr>"

definition user_at :: "pubkey ordered_set \<Rightarrow> node snapshot" where
  "user_at refs = user_snapshot\<lparr>accounts_referenced := refs\<rparr>"

abbreviation user_env :: lenv where "user_env \<equiv> reference_env 3"

definition user_cfg :: cli_config where
  "user_cfg = \<lparr>config_signer = 508, config_output_mode = Json\<rparr>"

definition user_opts :: opts where
  "user_opts = [''solido_address'' \<mapsto> PubkeyV 500, ''solido_program_id'' \<mapsto> PubkeyV solido_id,
     ''amount_st_sol'' \<mapsto> StLamportsV (StLamports 900000000)]"

lemma user_get_account: "get_account a (user_at refs) = (Ok (ledger withdraw_world a), user_at (ordered_push a refs))"
  by (simp add: user_at_def user_snapshot_def get_account_def Let_def)

lemma user_reads:
  "get_solido user_env 500 (user_at refs) = (Ok example_lido, user_at (ordered_push 500 refs))"
  "\<exists>h. get_account_list validator_entry 511 (user_at refs) =
     (Ok \<lparr>al_header = h, entries = [example_validator]\<rparr>, user_at (ordered_push 511 refs))"
  "get_stake_authority user_env example_lido solido_id 500 = Ok 3132"
proof -
  have "acc_data (ledger withdraw_world 500) = lido_bytes example_lido" by (simp add: withdraw_world_def example_world_def)
  then show "get_solido user_env 500 (user_at refs) = (Ok example_lido, user_at (ordered_push 500 refs))"
    using li.read_write [OF example_wf, of "[]"]
    by (simp add: get_solido_def reads_bind_def user_get_account reads_lift_def reference_env_def map_err_def)
  obtain h where "list_repr validator_entry (acc_data (ledger withdraw_world 511)) h [example_validator]"
    using withdraw_world_represents [of 3]
    by (auto simp: represents_def holds_list_def example_pool_def example_lido_def reference_env_def)
  then show "\<exists>h. get_account_list validator_entry 511 (user_at refs) =
      (Ok \<lparr>al_header = h, entries = [example_validator]\<rparr>, user_at (ordered_push 511 refs))"
    using vle.account_list_from_refines
    by (auto simp: get_account_list_def reads_bind_def user_get_account reads_lift_def map_err_def)
  show "get_stake_authority user_env example_lido solido_id 500 = Ok 3132"
    by (simp add: get_stake_authority_def example_lido_def pubkey_bytes_500 reference_env_def ref_hash_def solido_id_def
        sum_list_replicate bytes_of_seeds)
qed


text \<open>The run up to the sending is the same for every client: it reads the pool and the validators.\<close>

abbreviation user_refs :: "pubkey ordered_set" where
  "user_refs \<equiv> ordered_push 511 (ordered_push 500 ordered_set_new)"

abbreviation user_withdrawal :: instruction where
  "user_withdrawal \<equiv> withdraw user_env solido_id [500, 508, 1010, 502, 521, 3952, 0, 3132, 511] (StLamports 900000000) 0"

lemma user_start: "user_at ordered_set_new = user_snapshot"
  by (simp add: user_at_def user_snapshot_def)

lemma user_token: "get_associated_token_address (native (reference_cli C)) 508 502 = 1010" "config_signer user_cfg = 508"
  by (simp_all add: reference_cli_def reference_native_def user_cfg_def Let_def)

lemma user_addresses: "validator_list example_lido = 511" "st_sol_mint example_lido = 502"
  by (simp_all add: example_lido_def)

lemma user_withdraws:
  "send_withdraw user_env (reference_cli C) user_cfg user_opts user_snapshot =
     (let (r, s') = cli_send user_env (reference_cli C) user_cfg [user_withdrawal] [508, 0] (user_at user_refs) in
      (map_ok (\<lambda>sig. (1010, 0)) r, s'))"
proof -
  obtain h where list: "get_account_list validator_entry 511 (user_at (ordered_push 500 ordered_set_new)) =
      (Ok \<lparr>al_header = h, entries = [example_validator]\<rparr>, user_at user_refs)"
    using user_reads(2) by blast
  let ?vals = "\<lparr>al_header = h, entries = [example_validator]\<rparr>"
  have heaviest: "get_validator_to_withdraw ?vals = Ok example_validator"
    by (simp add: get_validator_to_withdraw_def compute_effective_stake_balance_def withdraw_validator lamports_sub_def
        token_sub_def checked_sub_def ok_or_def expect_def)
  have position: "account_list_position validator_entry ?vals 521 = (Ok (Some 0) :: (u32 option, cli_error) result)"
    by (simp add: account_list_position_def validator_entry_def withdraw_validator)
  have opts: "opt_pubkey user_opts ''solido_address'' = (Ok 500 :: (pubkey, cli_error) result)"
    "opt_pubkey user_opts ''solido_program_id'' = (Ok solido_id :: (pubkey, cli_error) result)"
    "opt_st_lamports user_opts ''amount_st_sol'' = (Ok (StLamports 900000000) :: (st_lamports, cli_error) result)"
    by (simp_all add: user_opts_def getter_defs)
  have key: "new_keypair (reference_cli C) (user_at refs) = (Ok 0, user_at refs)" for refs
    by (simp add: new_keypair_def reference_cli_def user_at_def user_snapshot_def)
  show ?thesis
    by (simp add: send_withdraw_def user_start [symmetric] reads_bind_def reads_lift_def map_err_def opts user_reads user_addresses
        list user_reads(3) heaviest user_token key withdraw_validator position withdraw_source reads_return_def Let_def
        split: prod.split result.split)
qed

text \<open>A node that refuses the transaction: the run has sent it and fails for good.\<close>

definition refusing_client :: "node rpc_client" where
  "refusing_client = (reference_client 100)
     \<lparr>send_transaction_with_config := \<lambda>n tx. (Err (RpcResponseError ''Transaction simulation failed''), n)\<rparr>"

theorem commands_are_retry_safe_witness:
  "\<exists>e s'. send_withdraw user_env (reference_cli refusing_client) user_cfg user_opts user_snapshot = (Err e, s') \<and>
     sent_transaction s' \<and> (\<exists>err. e = OtherError err)"
proof -
  let ?run = "send_withdraw user_env (reference_cli refusing_client) user_cfg user_opts user_snapshot"
  obtain clk where clk: "clock_bincode (reference_client 100) (acc_data (ledger withdraw_world (sysvar_clock_id user_env))) = Some clk"
    by (auto simp: reference_client_def)
  have c: "get_block_with_config (reference_client 100) n slot = (Ok ''11111111'', n)" "hash_from_str (reference_client 100) str = Some []"
    "try_sign (reference_client 100) tx" for n slot str tx
    by (simp_all add: reference_client_def)
  have "blockhash (user_at user_refs) = None" by (simp add: user_at_def user_snapshot_def)
  then have "\<exists>e s'. cli_send user_env (reference_cli refusing_client) user_cfg [user_withdrawal] [508, 0] (user_at user_refs) =
      (Err e, s') \<and> sent_transaction s'"
    by (simp add: cli_send_def sign_and_send_transaction_def sign_transaction_def get_latest_blockhash_def get_clock_def
        get_bincode_def send_and_confirm_transaction_def reads_bind_def reads_call_def reads_lift_def reads_return_def mark_sent_def
        map_err_def Let_def user_cfg_def user_get_account reference_cli_def refusing_client_def c clk)
  then have "\<exists>e s'. ?run = (Err e, s') \<and> sent_transaction s'" by (auto simp: user_withdraws)
  then obtain e s' where run: "?run = (Err e, s')" "sent_transaction s'" by blast
  have "sends_last (send_withdraw user_env (reference_cli refusing_client) user_cfg user_opts)"
    using commands_are_retry_safe by blast
  moreover have "\<not> sent_transaction user_snapshot" by (simp add: user_snapshot_def)
  ultimately show ?thesis using run by (auto simp: sends_last_def)
qed


end
