(* ===== verification/Prometheus.thy ===== *)
theory Prometheus
  imports Daemon
begin

text \<open>
  \<^verbatim>\<open>cli/common/src/prometheus.rs\<close>: the text format in which the daemons publish
  their metrics, and the families that export the counters of the \<open>Lido\<close> account.
  Strings are UTF-8 byte sequences. A time is the number of nanoseconds since the
  Unix epoch. Writing appends to a buffer and does not fail; a time before the
  epoch panics. Printing a float, the Base58 form of an address and the Unicode table
  behind \<open>{:?}\<close> are parameters, collected in \<open>fmt_env\<close>.
\<close>

subsection \<open>Text\<close>

type_synonym f64 = u64
type_synonym system_time = int

record history_entry =
  he_effective :: u64
  he_activating :: u64
  he_deactivating :: u64

record fmt_env =
  fmt_f64 :: "f64 \<Rightarrow> string"
  fmt_pubkey :: "pubkey \<Rightarrow> string"
  wide_escaped :: "nat \<Rightarrow> bool"
  stake_history_get :: "stake_history \<Rightarrow> epoch \<Rightarrow> history_entry option"

abbreviation newline :: string where
  "newline \<equiv> [CHR 0x0A]"

text \<open>The characters of a string: each is the list of bytes that encodes it.\<close>

definition utf8_width :: "char \<Rightarrow> nat" where
  "utf8_width c = (let b = of_char c :: nat in
     if b < 128 then 1 else if b < 224 then 2 else if b < 240 then 3 else 4)"

lemma utf8_width_pos: "0 < utf8_width c"
  by (simp add: utf8_width_def Let_def)

function chars :: "string \<Rightarrow> string list" where
  "chars [] = []"
| "chars (c # s) = (c # take (utf8_width c - 1) s) # chars (drop (utf8_width c - 1) s)"
  by pat_completeness auto
termination by (relation "measure length") auto

definition code_point :: "string \<Rightarrow> nat" where
  "code_point bs =
     (case bs of
        [] \<Rightarrow> 0
      | c # cs \<Rightarrow>
          foldl (\<lambda>v d. v * 64 + of_char d mod 64)
            (if utf8_width c = 1 then of_char c else of_char c mod 2 ^ (7 - utf8_width c)) cs)"

definition hex_digit :: "nat \<Rightarrow> char" where
  "hex_digit d = (if d < 10 then digit_char d else char_of (87 + d))"

fun hex_digits :: "nat \<Rightarrow> string" where
  "hex_digits n = (if n < 16 then [hex_digit n] else hex_digits (n div 16) @ [hex_digit (n mod 16)])"

declare hex_digits.simps [simp del]

text \<open>\<open>char::escape_debug\<close> as the \<open>Debug\<close> form of a string uses it.\<close>

definition escape_debug :: "fmt_env \<Rightarrow> string \<Rightarrow> string" where
  "escape_debug F bs = (let n = code_point bs in
     if n = 0 then [CHR 0x5C, CHR ''0'']
     else if n = 9 then [CHR 0x5C, CHR ''t'']
     else if n = 13 then [CHR 0x5C, CHR ''r'']
     else if n = 10 then [CHR 0x5C, CHR ''n'']
     else if n = 34 then [CHR 0x5C, CHR 0x22]
     else if n = 92 then [CHR 0x5C, CHR 0x5C]
     else if n < 32 \<or> n = 127 \<or> 128 \<le> n \<and> wide_escaped F n
       then [CHR 0x5C, CHR ''u'', CHR 0x7B] @ hex_digits n @ [CHR 0x7D]
     else bs)"

definition debug_str :: "fmt_env \<Rightarrow> string \<Rightarrow> string" where
  "debug_str F s = [CHR 0x22] @ concat (map (escape_debug F) (chars s)) @ [CHR 0x22]"

definition pad_left :: "nat \<Rightarrow> string \<Rightarrow> string" where
  "pad_left k s = replicate (k - length s) (digit_char 0) @ s"

definition fixed_point :: "nat \<Rightarrow> u64 \<Rightarrow> string" where
  "fixed_point k v = fmt_u64 (unat v div 10 ^ k) @ ''.'' @ pad_left k (fmt_u64 (unat v mod 10 ^ k))"

subsection \<open>Metrics\<close>

datatype metric_value =
    MetricInt u64
  | MetricNano u64
  | MetricMicro u64
  | MetricFloat f64

record metric =
  metric_suffix :: string
  metric_labels :: "(string \<times> string) list"
  metric_value :: metric_value
  metric_timestamp :: "system_time option"

record metric_family =
  family_name :: string
  family_help :: string
  family_type :: string
  family_metrics :: "metric list"

definition metric_new :: "metric_value \<Rightarrow> metric" where
  "metric_new v = \<lparr>metric_suffix = [], metric_labels = [], metric_value = v, metric_timestamp = None\<rparr>"

definition metric_new_sol :: "lamports \<Rightarrow> metric" where
  "metric_new_sol amount = metric_new (MetricNano (lam amount))"

definition metric_new_st_sol :: "st_lamports \<Rightarrow> metric" where
  "metric_new_st_sol amount = metric_new (MetricNano (st_lam amount))"

definition metric_at :: "system_time \<Rightarrow> metric \<Rightarrow> metric" where
  "metric_at t m = m\<lparr>metric_timestamp := Some t\<rparr>"

definition with_suffix :: "string \<Rightarrow> metric \<Rightarrow> metric" where
  "with_suffix suffix m = m\<lparr>metric_suffix := suffix\<rparr>"

definition with_label :: "string \<Rightarrow> string \<Rightarrow> metric \<Rightarrow> metric" where
  "with_label key_text val m = m\<lparr>metric_labels := metric_labels m @ [(key_text, val)]\<rparr>"

fun write_labels :: "fmt_env \<Rightarrow> string \<Rightarrow> (string \<times> string) list \<Rightarrow> string" where
  "write_labels F separator [] = []"
| "write_labels F separator ((k, v) # rest) =
     separator @ k @ ''='' @ debug_str F v @ write_labels F '','' rest"

fun value_text :: "fmt_env \<Rightarrow> metric_value \<Rightarrow> string" where
  "value_text F (MetricInt v) = '' '' @ fmt_u64 (unat v)"
| "value_text F (MetricNano v) = '' '' @ fixed_point 9 v"
| "value_text F (MetricMicro v) = '' '' @ fixed_point 6 v"
| "value_text F (MetricFloat v) = '' '' @ fmt_f64 F v"

definition timestamp_text :: "system_time option \<Rightarrow> (string, 'e) result" where
  "timestamp_text timestamp =
     (case timestamp of
        None \<Rightarrow> Ok []
      | Some t \<Rightarrow> if t < 0 then Panic else Ok ('' '' @ fmt_u64 (nat t div 1000000)))"

definition write_sample :: "fmt_env \<Rightarrow> string \<Rightarrow> string \<Rightarrow> metric \<Rightarrow> (string, 'e) result" where
  "write_sample F name out m =
     map_ok (\<lambda>time.
       out @ name @ metric_suffix m @
       (if metric_labels m = [] then [] else [CHR 0x7B] @ write_labels F [] (metric_labels m) @ [CHR 0x7D]) @
       value_text F (metric_value m) @ time @ newline)
     (timestamp_text (metric_timestamp m))"

definition write_metric :: "fmt_env \<Rightarrow> string \<Rightarrow> metric_family \<Rightarrow> (string, 'e) result" where
  "write_metric F out family =
     map_ok (\<lambda>out. out @ newline)
       (try_fold (write_sample F (family_name family))
          (out @ ''# HELP '' @ family_name family @ '' '' @ family_help family @ newline @
           ''# TYPE '' @ family_name family @ '' '' @ family_type family @ newline)
          (family_metrics family))"

text \<open>A run of \<open>write_metric\<close> calls, each followed by \<open>?\<close>.\<close>

definition write_metrics :: "fmt_env \<Rightarrow> string \<Rightarrow> metric_family list \<Rightarrow> (string, 'e) result" where
  "write_metrics F out families = try_fold (write_metric F) out families"

definition mk_family :: "string \<Rightarrow> string \<Rightarrow> string \<Rightarrow> metric list \<Rightarrow> metric_family" where
  "mk_family name help ty ms =
     \<lparr>family_name = name, family_help = help, family_type = ty, family_metrics = ms\<rparr>"

subsection \<open>The counters of the pool\<close>

definition bucket_label :: "lamports \<Rightarrow> string" where
  "bucket_label upper_bound =
     (if lam upper_bound = - 1 then ''+Inf'' else fixed_point 9 (lam upper_bound))"

definition solido_histogram_to_metrics :: "system_time \<Rightarrow> lamports_histogram \<Rightarrow> metric list" where
  "solido_histogram_to_metrics t histogram =
     map (\<lambda>(count, upper_bound).
       metric_at t (with_label ''le'' (bucket_label upper_bound)
         (with_suffix ''_bucket'' (metric_new (MetricInt count)))))
       (zip (hist_counts histogram) BUCKET_UPPER_BOUNDS) @
     [metric_at t (with_suffix ''_sum'' (metric_new_sol (hist_total histogram))),
      metric_at t (with_suffix ''_count'' (metric_new (MetricInt (num_observations histogram))))]"

definition solido_metric_families :: "metrics \<Rightarrow> system_time \<Rightarrow> metric_family list" where
  "solido_metric_families m t =
     [mk_family ''solido_fee_treasury_sol_total''
        (''Total fees paid to the treasury, in SOL value before conversion to stSOL. '' @
         ''On-chain this value can only increase, but decreases in the observed value can '' @
         ''happen due to reorgs.'')
        ''gauge'' [metric_at t (metric_new_sol (fee_treasury_sol_total m))],
      mk_family ''solido_fee_treasury_st_sol_total''
        (''Total fees paid to the treasury. On-chain this value can only increase, but '' @
         ''decreases in the observed value can happen due to reorgs.'')
        ''gauge'' [metric_at t (metric_new_st_sol (fee_treasury_st_sol_total m))],
      mk_family ''solido_fee_validation_sol_total''
        (''Total validation fees paid to validators (excluding commission they took), in '' @
         ''SOL value before conversion to stSOL. On-chain this value can only increase, but '' @
         ''decreases in the observed value can happen due to reorgs.'')
        ''gauge'' [metric_at t (metric_new_sol (fee_validation_sol_total m))],
      mk_family ''solido_fee_validation_st_sol_total''
        (''Total validation fees paid to validators as stSOL (excluding commission they '' @
         ''took). On-chain this value can only increase, but decreases in the observed '' @
         ''value can happen due to reorgs.'')
        ''gauge'' [metric_at t (metric_new_st_sol (fee_validation_st_sol_total m))],
      mk_family ''solido_fee_developer_sol_total''
        (''Total fees paid to the developer, in SOL value before conversion to stSOL. '' @
         ''On-chain this value can only increase, but decreases in the observed value can '' @
         ''happen due to reorgs.'')
        ''gauge'' [metric_at t (metric_new_sol (fee_developer_sol_total m))],
      mk_family ''solido_fee_developer_st_sol_total''
        (''Total fees paid to the developer. On-chain this value can only increase, but '' @
         ''decreases in the observed value can happen due to reorgs.'')
        ''gauge'' [metric_at t (metric_new_st_sol (fee_developer_st_sol_total m))],
      mk_family ''solido_st_sol_appreciation_sol_total''
        (''Total SOL that went to benefit stSOL holders, i.e. rewards gained by users. '' @
         ''On-chain this value can only increase, but decreases in the observed value can '' @
         ''happen due to reorgs.'')
        ''gauge'' [metric_at t (metric_new_sol (st_sol_appreciation_sol_total m))],
      mk_family ''solido_deposit_amount_sol''
        ''Total amount of SOL deposited by users.''
        ''histogram'' (solido_histogram_to_metrics t (deposit_amount m)),
      mk_family ''solido_withdraw_count_total''
        ''Total number of withdrawals made by users.''
        ''counter'' [metric_at t (metric_new (MetricInt (withdraw_count (withdraw_amount m))))],
      mk_family ''solido_withdraw_amount_sol_total''
        ''Total amount of SOL that we returned to users for withdrawals.''
        ''counter'' [metric_at t (metric_new_sol (total_sol_amount (withdraw_amount m)))],
      mk_family ''solido_withdraw_amount_st_sol_total''
        ''Total amount of stSOL that users returned to us for withdrawals.''
        ''counter'' [metric_at t (metric_new_st_sol (total_st_sol_amount (withdraw_amount m)))]]"

definition write_solido_metrics_as_prometheus ::
  "fmt_env \<Rightarrow> metrics \<Rightarrow> system_time \<Rightarrow> string \<Rightarrow> (string, 'e) result" where
  "write_solido_metrics_as_prometheus F m t out = write_metrics F out (solido_metric_families m t)"

subsection \<open>The counters of the daemon\<close>

definition maintenance_metric_families :: "maintenance_metrics \<Rightarrow> metric_family list" where
  "maintenance_metric_families m =
     [mk_family ''solido_maintenance_polls_total''
        ''Number of times we checked if there is maintenance to perform, since launch.''
        ''counter'' [metric_new (MetricInt (polls m))],
      mk_family ''solido_maintenance_errors_total''
        (''Number of times we encountered an error while trying to perform maintenance, '' @
         ''since launch.'')
        ''counter'' [metric_new (MetricInt (errors m))],
      mk_family ''solido_maintenance_transactions_total''
        ''Number of maintenance transactions executed, since launch.''
        ''counter'' 
        [with_label ''operation'' ''StakeDeposit'' (metric_new (MetricInt (transactions_stake_deposit m))),
         with_label ''operation'' ''UpdateExchangeRate'' (metric_new (MetricInt (transactions_update_exchange_rate m))),
         with_label ''operation'' ''UpdateStakeAccountBalance'' (metric_new (MetricInt (transactions_update_stake_account_balance m))),
         with_label ''operation'' ''MergeStake'' (metric_new (MetricInt (transactions_merge_stake m))),
         with_label ''operation'' ''UnstakeFromInactiveValidator'' (metric_new (MetricInt (transactions_unstake_from_inactive_validator m))),
         with_label ''operation'' ''RemoveValidator'' (metric_new (MetricInt (transactions_remove_validator m))),
         with_label ''operation'' ''UnstakeFromActiveValidator'' (metric_new (MetricInt (transactions_unstake_from_active_validator m))),
         with_label ''operation'' ''DeactivateIfViolates'' (metric_new (MetricInt (transactions_deactivate_if_violates m)))]]"

definition maintenance_write_prometheus ::
  "fmt_env \<Rightarrow> maintenance_metrics \<Rightarrow> string \<Rightarrow> (string, 'e) result" where
  "maintenance_write_prometheus F m out = write_metrics F out (maintenance_metric_families m)"

lemma concat_chars [simp]: "concat (chars s) = s"
  by (induction s rule: chars.induct) simp_all

lemma pad_left_9_pad [simp]: "pad_left 9 = pad_left_9"
  by (simp add: fun_eq_iff pad_left_def pad_left_9_def)

lemma lamports_from_str_fixed_point [simp]: "lamports_from_str (fixed_point 9 v) = Ok (Lamports v)"
  using token_from_str_display_number [of v] by (simp add: lamports_from_str_def fixed_point_def)

lemma concat_map_concat: "concat (map f (concat xss)) = concat (map (\<lambda>xs. concat (map f xs)) xss)"
  by (induction xss) simp_all

lemmas metric_builders = metric_new_def metric_new_sol_def metric_new_st_sol_def metric_at_def
  with_suffix_def with_label_def mk_family_def

lemma zip_map_same: "zip (map g xs) xs = map (\<lambda>x. (g x, x)) xs"
  by (induction xs) simp_all

subsection \<open>What the format guarantees\<close>

text \<open>The label syntax of Prometheus: a backslash, a double quote and a line feed are
  escaped, and every other byte stands for itself.\<close>

definition prometheus_escape :: "char \<Rightarrow> string" where
  "prometheus_escape c =
     (if c = CHR 0x5C then [CHR 0x5C, CHR 0x5C]
      else if c = CHR 0x22 then [CHR 0x5C, CHR 0x22]
      else if c = CHR 0x0A then [CHR 0x5C, CHR ''n'']
      else [c])"

definition prometheus_label :: "string \<Rightarrow> string" where
  "prometheus_label s = [CHR 0x22] @ concat (map prometheus_escape s) @ [CHR 0x22]"

text \<open>A well-formed encoding of one character, and the characters that Rust escapes in a
  way that Prometheus does not know.\<close>

definition utf8_char :: "string \<Rightarrow> bool" where
  "utf8_char bs \<longleftrightarrow> bs \<noteq> [] \<and> length bs = utf8_width (hd bs) \<and>
     (\<forall>c \<in> set (tl bs). 128 \<le> (of_char c :: nat)) \<and> (1 < length bs \<longrightarrow> 128 \<le> code_point bs)"

definition rust_only :: "fmt_env \<Rightarrow> string \<Rightarrow> bool" where
  "rust_only F bs \<longleftrightarrow> (let n = code_point bs in
     n < 32 \<and> n \<noteq> 10 \<or> n = 127 \<or> 128 \<le> n \<and> wide_escaped F n)"

lemma utf8_width_1: "utf8_width c = Suc 0 \<longleftrightarrow> (of_char c :: nat) < 128"
  by (simp add: utf8_width_def Let_def)

lemma prometheus_escape_high: "128 \<le> (of_char c :: nat) \<Longrightarrow> prometheus_escape c = [c]"
  by (auto simp: prometheus_escape_def)

lemma concat_escape_high:
  "(\<forall>c \<in> set bs. 128 \<le> (of_char c :: nat)) \<Longrightarrow> concat (map prometheus_escape bs) = bs"
  by (induction bs) (simp_all add: prometheus_escape_high)

lemma of_char_eq_iff: "(of_char c :: nat) = of_char d \<longleftrightarrow> c = d"
  by simp

lemma escape_ascii:
  assumes "(of_char c :: nat) < 128" "\<not> rust_only F [c]"
  shows "escape_debug F [c] = prometheus_escape c"
proof -
  have cp: "code_point [c] = of_char c" using assms(1) by (simp add: code_point_def utf8_width_1)
  have eqs: "(of_char c :: nat) = 10 \<longleftrightarrow> c = CHR 0x0A" "(of_char c :: nat) = 34 \<longleftrightarrow> c = CHR 0x22"
    "(of_char c :: nat) = 92 \<longleftrightarrow> c = CHR 0x5C"
    using of_char_eq_iff [of c "CHR 0x0A"] of_char_eq_iff [of c "CHR 0x22"] of_char_eq_iff [of c "CHR 0x5C"]
    by simp_all
  have n: "(of_char c :: nat) = 10 \<or> 32 \<le> (of_char c :: nat) \<and> (of_char c :: nat) \<noteq> 127"
    using assms by (auto simp: rust_only_def cp Let_def)
  obtain n where c: "(of_char c :: nat) = n" by blast
  show ?thesis
    using n assms(1) unfolding escape_debug_def prometheus_escape_def cp Let_def eqs [symmetric] c
    by (cases "n = 10"; cases "n = 34"; cases "n = 92") simp_all
qed

lemma escape_debug_prometheus:
  assumes u: "utf8_char bs" and r: "\<not> rust_only F bs"
  shows "escape_debug F bs = concat (map prometheus_escape bs)"
proof (cases "length bs = 1")
  case True
  then obtain c where c: "bs = [c]" by (auto simp: length_Suc_conv)
  with u have "(of_char c :: nat) < 128" by (simp add: utf8_char_def utf8_width_1 [symmetric])
  with r show ?thesis by (simp add: c escape_ascii)
next
  case False
  from u obtain c cs where bs: "bs = c # cs" by (cases bs) (auto simp: utf8_char_def)
  have "length bs = utf8_width c" using u by (simp add: utf8_char_def bs)
  with False have w: "128 \<le> (of_char c :: nat)" using utf8_width_1 [of c] by auto
  have "1 < length bs" using False by (simp add: bs)
  then have cp: "128 \<le> code_point bs" using u by (simp add: utf8_char_def)
  have "\<forall>d \<in> set bs. 128 \<le> (of_char d :: nat)" using u w by (auto simp: utf8_char_def bs)
  then have "concat (map prometheus_escape bs) = bs" by (rule concat_escape_high)
  then show ?thesis using r cp by (auto simp: escape_debug_def rust_only_def Let_def)
qed

lemma label_escaping:
  assumes "\<forall>bs \<in> set (chars s). utf8_char bs \<and> \<not> rust_only F bs"
  shows "debug_str F s = prometheus_label s"
proof -
  have "map (escape_debug F) (chars s) = map (\<lambda>bs. concat (map prometheus_escape bs)) (chars s)"
    using assms by (simp add: escape_debug_prometheus)
  then have "concat (map (escape_debug F) (chars s)) = concat (map prometheus_escape (concat (chars s)))"
    by (simp only: concat_map_concat)
  then show ?thesis by (simp add: debug_str_def prometheus_label_def)
qed

text \<open>A reader of the text format, after the documentation of Prometheus: the name of a sample, its labels
  between braces, and the rest of the line.\<close>

definition label_char :: "char \<Rightarrow> bool" where
  "label_char c \<longleftrightarrow> (let n = of_char c :: nat in
     48 \<le> n \<and> n \<le> 57 \<or> 65 \<le> n \<and> n \<le> 90 \<or> n = 95 \<or> 97 \<le> n \<and> n \<le> 122)"

definition sample_name_char :: "char \<Rightarrow> bool" where
  "sample_name_char c \<longleftrightarrow> label_char c \<or> c = CHR '':''"

fun read_value :: "string \<Rightarrow> (string \<times> string) option" where
  "read_value [] = None"
| "read_value (c # s) =
     (if c = CHR 0x22 then Some ([], s)
      else if c = CHR 0x5C then
        (case s of
           [] \<Rightarrow> None
         | d # s' \<Rightarrow>
             if d = CHR ''n'' then map_option (apfst (Cons (CHR 0x0A))) (read_value s')
             else if d = CHR 0x5C \<or> d = CHR 0x22 then map_option (apfst (Cons d)) (read_value s')
             else None)
      else map_option (apfst (Cons c)) (read_value s))"

fun read_labels :: "nat \<Rightarrow> string \<Rightarrow> ((string \<times> string) list \<times> string) option" where
  "read_labels 0 s = None"
| "read_labels (Suc fuel) s =
     (let k = takeWhile label_char s; r = dropWhile label_char s in
      if take 2 r \<noteq> [CHR ''='', CHR 0x22] then None
      else case read_value (drop 2 r) of
        None \<Rightarrow> None
      | Some (v, r) \<Rightarrow>
          (case r of
             [] \<Rightarrow> None
           | c # r \<Rightarrow>
               if c = CHR 0x7D then Some ([(k, v)], r)
               else if c = CHR '','' then map_option (apfst (Cons (k, v))) (read_labels fuel r)
               else None))"

definition read_sample :: "string \<Rightarrow> (string \<times> (string \<times> string) list \<times> string) option" where
  "read_sample line =
     (let name = takeWhile sample_name_char line; r = dropWhile sample_name_char line in
      if take 1 r = [CHR 0x7B]
      then map_option (\<lambda>(ls, r). (name, ls, r)) (read_labels (length line) (drop 1 r))
      else Some (name, [], r))"

definition readable :: "fmt_env \<Rightarrow> string \<Rightarrow> metric \<Rightarrow> bool" where
  "readable F name m \<longleftrightarrow> list_all sample_name_char (name @ metric_suffix m) \<and>
     list_all (\<lambda>(k, v). list_all label_char k \<and> list_all (\<lambda>bs. utf8_char bs \<and> \<not> rust_only F bs) (chars v))
       (metric_labels m)"

text \<open>Writing succeeds when no sample is dated before the epoch.\<close>

definition timely :: "metric \<Rightarrow> bool" where
  "timely m \<longleftrightarrow> (case metric_timestamp m of None \<Rightarrow> True | Some t \<Rightarrow> 0 \<le> t)"

definition time_text :: "metric \<Rightarrow> string" where
  "time_text m = (case metric_timestamp m of None \<Rightarrow> [] | Some t \<Rightarrow> '' '' @ fmt_u64 (nat (t div 1000000)))"

lemma read_value_escaped: "read_value (concat (map prometheus_escape s) @ CHR 0x22 # rest) = Some (s, rest)"
  by (induction s) (auto simp: prometheus_escape_def)

lemma takeWhile_label: "list_all P k \<Longrightarrow> \<not> P c \<Longrightarrow> takeWhile P (k @ c # s) = k"
  "list_all P k \<Longrightarrow> \<not> P c \<Longrightarrow> dropWhile P (k @ c # s) = c # s"
  by (induction k) simp_all

lemma read_labels_written:
  assumes "ls \<noteq> []" "list_all (\<lambda>(k, v). list_all label_char k \<and> list_all (\<lambda>bs. utf8_char bs \<and> \<not> rust_only F bs) (chars v)) ls"
    "length ls \<le> fuel"
  shows "read_labels fuel (write_labels F [] ls @ CHR 0x7D # rest) = Some (ls, rest)"
  using assms
proof (induction ls arbitrary: fuel)
  case (Cons kv ls)
  obtain k v where kv: "kv = (k, v)" by (cases kv)
  obtain f where f: "fuel = Suc f" using Cons.prems(3) by (cases fuel) auto
  have k: "list_all label_char k" and "debug_str F v = prometheus_label v"
    using Cons.prems(2) by (auto simp: kv list_all_iff intro: label_escaping)
  then have wr: "write_labels F [] (kv # ls) @ CHR 0x7D # rest = k @ CHR ''='' # CHR 0x22 #
      concat (map prometheus_escape v) @ CHR 0x22 # write_labels F '','' ls @ CHR 0x7D # rest"
    by (simp add: kv prometheus_label_def)
  have eq: "\<not> label_char (CHR ''='')" by (simp add: label_char_def Let_def)
  show ?case
  proof (cases ls)
    case Nil
    then show ?thesis unfolding wr f by (simp add: takeWhile_label [OF k eq] read_value_escaped kv)
  next
    case (Cons kv' ls')
    then have sep: "write_labels F '','' ls = CHR '','' # write_labels F [] ls" by (cases kv') simp
    have "read_labels f (write_labels F [] ls @ CHR 0x7D # rest) = Some (ls, rest)"
      using Cons Cons.prems f by (intro Cons.IH) auto
    then show ?thesis unfolding wr f sep by (simp add: takeWhile_label [OF k eq] read_value_escaped kv)
  qed
qed simp

lemma length_write_labels: "length ls \<le> length (write_labels F sep ls)"
  by (induction F sep ls rule: write_labels.induct) auto

lemma value_text_space: "\<exists>t. value_text F v = CHR '' '' # t"
  by (cases v) simp_all

lemma read_sample_written:
  assumes m: "readable F name m"
  shows "read_sample (name @ metric_suffix m @
      (if metric_labels m = [] then [] else [CHR 0x7B] @ write_labels F [] (metric_labels m) @ [CHR 0x7D]) @
      value_text F (metric_value m) @ rest) =
    Some (name @ metric_suffix m, metric_labels m, value_text F (metric_value m) @ rest)"
proof -
  obtain t where t: "value_text F (metric_value m) = CHR '' '' # t" using value_text_space by blast
  have n: "list_all sample_name_char (name @ metric_suffix m)" using m by (simp add: readable_def)
  have c: "\<not> sample_name_char (CHR '' '')" "\<not> sample_name_char (CHR 0x7B)"
    by (simp_all add: sample_name_char_def label_char_def Let_def)
  show ?thesis
  proof (cases "metric_labels m = []")
    case True
    have "read_sample ((name @ metric_suffix m) @ CHR '' '' # (t @ rest)) = Some (name @ metric_suffix m, [], CHR '' '' # t @ rest)"
      unfolding read_sample_def Let_def takeWhile_label [OF n c(1)] by simp
    then show ?thesis by (simp add: True t)
  next
    case False
    let ?r = "write_labels F [] (metric_labels m) @ CHR 0x7D # (value_text F (metric_value m) @ rest)"
    let ?line = "(name @ metric_suffix m) @ CHR 0x7B # ?r"
    have "length (metric_labels m) \<le> length ?line" using length_write_labels [of "metric_labels m" F "[]"] by simp
    then have "read_labels (length ?line) ?r = Some (metric_labels m, value_text F (metric_value m) @ rest)"
      using m False by (intro read_labels_written) (simp_all add: readable_def)
    then have "read_sample ?line = Some (name @ metric_suffix m, metric_labels m, value_text F (metric_value m) @ rest)"
      unfolding read_sample_def Let_def takeWhile_label [OF n c(2)] by simp
    then show ?thesis using False by simp
  qed
qed

lemma timestamp_text_timely: "timely m \<Longrightarrow> timestamp_text (metric_timestamp m) = Ok (time_text m)"
  by (auto simp: timely_def timestamp_text_def time_text_def nat_div_distrib split: option.splits)

lemma write_samples_lines:
  assumes "\<forall>m \<in> set ms. timely m \<and> readable F name m"
  shows "\<exists>lines. try_fold (write_sample F name) out ms = (Ok (out @ concat (map (\<lambda>l. l @ newline) lines)) :: (string, 'e) result) \<and>
    list_all2 (\<lambda>m line. read_sample line =
      Some (name @ metric_suffix m, metric_labels m, value_text F (metric_value m) @ time_text m)) ms lines"
  using assms
proof (induction ms arbitrary: out)
  case (Cons m ms)
  let ?line = "name @ metric_suffix m @
      (if metric_labels m = [] then [] else [CHR 0x7B] @ write_labels F [] (metric_labels m) @ [CHR 0x7D]) @
      value_text F (metric_value m) @ time_text m"
  have "write_sample F name out m = (Ok (out @ ?line @ newline) :: (string, 'e) result)"
    using Cons.prems by (simp add: write_sample_def timestamp_text_timely)
  moreover obtain lines where "try_fold (write_sample F name) (out @ ?line @ newline) ms =
      (Ok ((out @ ?line @ newline) @ concat (map (\<lambda>l. l @ newline) lines)) :: (string, 'e) result)"
    and lines: "list_all2 (\<lambda>m line. read_sample line =
      Some (name @ metric_suffix m, metric_labels m, value_text F (metric_value m) @ time_text m)) ms lines"
    using Cons.IH [of "out @ ?line @ newline"] Cons.prems by (meson list.set_intros(2))
  ultimately have "try_fold (write_sample F name) out (m # ms) =
      (Ok (out @ concat (map (\<lambda>l. l @ newline) (?line # lines))) :: (string, 'e) result)" by simp
  moreover have "read_sample ?line =
      Some (name @ metric_suffix m, metric_labels m, value_text F (metric_value m) @ time_text m)"
    using Cons.prems by (intro read_sample_written) simp
  ultimately show ?case using lines by blast
qed simp

text \<open>C28: What \<open>write_metric\<close> writes reads back in the text format of Prometheus. For every family whose samples are not dated before
  the epoch, whose names and label names are made of the characters that Prometheus allows, and
  whose label values have no control characters other than line feed and no unprintable
  characters, the output is the two comment lines, one line per sample and an empty line; and a reader of the format
  finds in the line of a sample its name with the suffix, exactly its labels, with quotes,
  backslashes and line feeds in the values unescaped, and then its value and time.\<close>

theorem samples_read_back:
  assumes "\<forall>m \<in> set (family_metrics fam). timely m \<and> readable F (family_name fam) m"
  shows "\<exists>lines. write_metric F out fam =
      (Ok (out @ ''# HELP '' @ family_name fam @ '' '' @ family_help fam @ newline @
         ''# TYPE '' @ family_name fam @ '' '' @ family_type fam @ newline @
         concat (map (\<lambda>l. l @ newline) lines) @ newline) :: (string, 'e) result) \<and>
    list_all2 (\<lambda>m line. read_sample line =
      Some (family_name fam @ metric_suffix m, metric_labels m, value_text F (metric_value m) @ time_text m))
      (family_metrics fam) lines"
proof -
  let ?h = "''# HELP '' @ family_name fam @ '' '' @ family_help fam @ newline @
         ''# TYPE '' @ family_name fam @ '' '' @ family_type fam @ newline"
  obtain lines where w: "try_fold (write_sample F (family_name fam)) (out @ ?h) (family_metrics fam) =
      (Ok ((out @ ?h) @ concat (map (\<lambda>l. l @ newline) lines)) :: (string, 'e) result)"
    and l: "list_all2 (\<lambda>m line. read_sample line =
      Some (family_name fam @ metric_suffix m, metric_labels m, value_text F (metric_value m) @ time_text m))
      (family_metrics fam) lines"
    using write_samples_lines [OF assms] by blast
  show ?thesis by (rule exI [of _ lines]) (use w l in \<open>simp add: write_metric_def\<close>)
qed

definition example_fmt :: fmt_env where
  "example_fmt = \<lparr>fmt_f64 = (\<lambda>x. fmt_u64 (unat x)), fmt_pubkey = (\<lambda>k. fmt_u64 (unat k)),
     wide_escaped = (\<lambda>n. n < 160), stake_history_get = (\<lambda>h e. None)\<rparr>"

definition quoted_name :: string where
  "quoted_name = [CHR ''L'', CHR 0x22, CHR 0x0A, CHR 0xC3, CHR 0xA9]"

definition quoted_family :: metric_family where
  "quoted_family = mk_family ''credits'' ''Vote credits.'' ''counter''
     [metric_at 5000000 (with_label ''name'' quoted_name (with_label ''vote'' ''abc'' (metric_new (MetricInt 7))))]"

theorem samples_read_back_witness:
  "\<exists>line out. write_metric example_fmt [] quoted_family = (Ok out :: (string, unit) result) \<and>
     read_sample line = Some (''credits'', [(''vote'', ''abc''), (''name'', quoted_name)], '' 7 5'') \<and>
     out = ''# HELP credits Vote credits.'' @ newline @ ''# TYPE credits counter'' @ newline @ line @ newline @ newline"
proof -
  have "\<forall>m \<in> set (family_metrics quoted_family). timely m \<and> readable example_fmt (family_name quoted_family) m"
    by (simp add: quoted_family_def metric_builders quoted_name_def timely_def readable_def utf8_char_def rust_only_def
        utf8_width_def code_point_def example_fmt_def Let_def sample_name_char_def label_char_def)
  from samples_read_back [OF this, of "[]"] obtain lines
    where w: "write_metric example_fmt [] quoted_family = (Ok ([] @ ''# HELP '' @ family_name quoted_family @ '' '' @
         family_help quoted_family @ newline @ ''# TYPE '' @ family_name quoted_family @ '' '' @
         family_type quoted_family @ newline @ concat (map (\<lambda>l. l @ newline) lines) @ newline) :: (string, unit) result)"
      and l: "list_all2 (\<lambda>m line. read_sample line = Some (family_name quoted_family @ metric_suffix m, metric_labels m,
         value_text example_fmt (metric_value m) @ time_text m)) (family_metrics quoted_family) lines"
    by blast
  have d: "fmt_u64 7 = ''7''" "fmt_u64 5 = ''5''" by code_simp+
  from l obtain line where line: "lines = [line]"
    and r: "read_sample line = Some (''credits'', [(''vote'', ''abc''), (''name'', quoted_name)], '' 7 5'')"
    by (auto simp: quoted_family_def metric_builders list_all2_Cons1 time_text_def d)
  have f: "family_name quoted_family = ''credits''" "family_help quoted_family = ''Vote credits.''"
    "family_type quoted_family = ''counter''" by (simp_all add: quoted_family_def mk_family_def)
  show ?thesis
    by (rule exI [of _ line], rule exI, intro conjI, rule w, rule r) (simp add: line f)
qed

text \<open>C40: The exported deposit histogram is exact. For the histogram of any sequence of
  recorded deposits, the bucket samples carry, under the printed bucket bounds, the number of
  deposits not above each bound; \<open>_sum\<close> carries the exact total and \<open>_count\<close> the number of
  deposits.\<close>

theorem exported_histogram_exact:
  assumes "histogram_observe_all lamports_histogram_new xs = Ok h"
  shows "\<exists>total. unat total = (\<Sum>a\<leftarrow>xs. unat (lam a)) \<and>
     map metric_value (solido_histogram_to_metrics t h) =
       map (\<lambda>bound. MetricInt (word_of_nat (length (filter (\<lambda>a. a \<le> bound) xs)))) BUCKET_UPPER_BOUNDS @
       [MetricNano total, MetricInt (word_of_nat (length xs))] \<and>
     map (map snd \<circ> metric_labels) (solido_histogram_to_metrics t h) =
       map (\<lambda>bound. [bucket_label bound]) BUCKET_UPPER_BOUNDS @ [[], []]"
proof -
  note counts = histogram_counts_observations [OF assms]
  have "histogram_delta lamports_histogram_new xs h"
    using assms by (rule observe_all_delta) (simp add: lamports_histogram_new_def)
  then have len: "length (hist_counts h) = 12" by (simp add: histogram_delta_def)
  have "hist_counts h = map (\<lambda>bound. word_of_nat (length (filter (\<lambda>a. a \<le> bound) xs))) BUCKET_UPPER_BOUNDS"
    using counts by (intro nth_equalityI) (simp_all add: len)
  then have "zip (hist_counts h) BUCKET_UPPER_BOUNDS =
      map (\<lambda>bound. (word_of_nat (length (filter (\<lambda>a. a \<le> bound) xs)), bound)) BUCKET_UPPER_BOUNDS"
    by (simp only: zip_map_same)
  then show ?thesis
    using counts
    by (intro exI [of _ "lam (hist_total h)"])
      (simp add: solido_histogram_to_metrics_def metric_builders comp_def)
qed

theorem exported_histogram_witness:
  "\<exists>h. histogram_observe_all lamports_histogram_new [Lamports 5, Lamports 2000000] = Ok h \<and>
       last (map metric_value (solido_histogram_to_metrics 0 h)) = MetricInt 2"
proof -
  let ?xs = "[Lamports 5, Lamports 2000000]"
  have "\<exists>h. histogram_observe_all lamports_histogram_new ?xs = Ok h"
    by (simp add: histogram_observe_all_def histogram_observe_def lamports_histogram_new_def
        lamports_add_def token_add_def checked_add_def Let_def)
  then obtain h where h: "histogram_observe_all lamports_histogram_new ?xs = Ok h" ..
  with exported_histogram_exact [OF h, of 0] show ?thesis by (intro exI [of _ h]) auto
qed

lemma try_fold_total:
  "(\<And>s x. x \<in> set xs \<Longrightarrow> \<exists>s'. f s x = Ok s') \<Longrightarrow> \<exists>s'. try_fold f s xs = Ok s'"
proof (induction xs arbitrary: s)
  case (Cons x xs)
  then obtain s' where "f s x = Ok s'" by (meson list.set_intros(1))
  moreover have "\<exists>r. try_fold f s' xs = Ok r" using Cons by simp
  ultimately show ?case by (simp add: and_then_def)
qed simp

lemma map_ok_ex: "(\<exists>r. map_ok f x = Ok r) \<longleftrightarrow> (\<exists>y. x = Ok y)"
  by (cases x) (simp_all add: map_ok_def)

lemma write_metric_total:
  assumes "\<forall>m \<in> set (family_metrics fam). timely m"
  shows "\<exists>r. write_metric F out fam = Ok r"
  unfolding write_metric_def map_ok_ex using assms
  by (intro try_fold_total)
    (auto simp: write_sample_def timestamp_text_def timely_def map_ok_def split: option.splits)

lemma write_metrics_total:
  "\<forall>fam \<in> set fams. \<forall>m \<in> set (family_metrics fam). timely m \<Longrightarrow> \<exists>r. write_metrics F out fams = Ok r"
  unfolding write_metrics_def by (intro try_fold_total write_metric_total) auto

end
