(* ===== verification/Serving.thy ===== *)
theory Serving
  imports Prometheus
begin

text \<open>
  The rest of the maintenance daemon: \<open>SolidoState::write_prometheus\<close> of
  \<^verbatim>\<open>cli/maintainer/src/maintenance.rs\<close>, and of \<^verbatim>\<open>cli/maintainer/src/daemon.rs\<close> the
  request handler of the metrics server, the estimate of the block time and the lengths of
  the two sleeps. \<open>produced_at\<close>, the time at which the state was read, is an argument.
  Durations are numbers of nanoseconds. The computations with floats, the average of a
  duration over a number of slots and the constant \<open>from_secs_f32(0.2)\<close>, are parameters,
  and so is the random number that \<open>gen_range\<close> draws.
\<close>

subsection \<open>Names of validators\<close>

definition is_white_space :: "string \<Rightarrow> bool" where
  "is_white_space bs = (let n = code_point bs in
     9 \<le> n \<and> n \<le> 13 \<or> n = 32 \<or> n = 0x85 \<or> n = 0xA0 \<or> n = 0x1680 \<or> 0x2000 \<le> n \<and> n \<le> 0x200A \<or>
     n = 0x2028 \<or> n = 0x2029 \<or> n = 0x202F \<or> n = 0x205F \<or> n = 0x3000)"

definition trim_chars :: "string list \<Rightarrow> string list" where
  "trim_chars cs = rev (dropWhile is_white_space (rev (dropWhile is_white_space cs)))"

definition strip_prefix :: "'a list \<Rightarrow> 'a list \<Rightarrow> 'a list option" where
  "strip_prefix p s = (if take (length p) s = p then Some (drop (length p) s) else None)"

definition name_char :: "string \<Rightarrow> bool" where
  "name_char bs = (let n = code_point bs in
     n < 0x10000 \<and> (n < 0xFE00 \<or> n > 0xFE0F) \<and> (n < 0x2600 \<or> n > 0x26FF))"

definition sanitize_validator_name :: "string \<Rightarrow> string" where
  "sanitize_validator_name name =
     (case strip_prefix ''Lido / '' name of
        Some suffix \<Rightarrow> concat (trim_chars (filter name_char (chars suffix)))
      | None \<Rightarrow> ''INVALID: '' @ name)"

subsection \<open>The state of the pool as metrics\<close>

record metric_annotator =
  ma_produced_at :: system_time
  ma_vote_account :: string
  ma_name :: string
  ma_keybase_username :: string

definition add_labels :: "metric_annotator \<Rightarrow> metric \<Rightarrow> metric" where
  "add_labels ann m =
     with_label ''validator_keybase'' (ma_keybase_username ann)
       (with_label ''validator_name'' (ma_name ann)
          (with_label ''vote_account'' (ma_vote_account ann)
             (metric_at (ma_produced_at ann) m)))"

record validator_metrics =
  balance_sol_metrics :: "metric list"
  last_voted_slot_metrics :: "metric list"
  last_voted_timestamp_metrics :: "metric list"
  identity_account_balance_metrics :: "metric list"
  vote_credits_metrics :: "metric list"

type_synonym validator_row =
  "validator \<times> (pubkey \<times> stake_account) list \<times> (pubkey \<times> stake_account) list \<times> vote_state option \<times>
   lamports \<times> validator_info"

definition validator_rows :: "solido_state \<Rightarrow> validator_row list" where
  "validator_rows st =
     zip (entries (validators st)) (zip (validator_stake_accounts st) (zip (validator_unstake_accounts st)
       (zip (validator_vote_accounts st) (zip (validator_identity_account_balances st) (validator_infos st)))))"

definition push_balances ::
  "metric_annotator \<Rightarrow> stake_balance \<Rightarrow> validator_metrics \<Rightarrow> validator_metrics" where
  "push_balances ann b pv =
     (let sample = (\<lambda>amount status. with_label ''status'' status (add_labels ann (metric_new_sol amount))) in
      pv\<lparr>balance_sol_metrics := balance_sol_metrics pv @
        [sample (inactive b) ''inactive'', sample (activating b) ''activating'',
         sample (active b) ''active'', sample (deactivating b) ''deactivating'']\<rparr>)"

definition push_votes ::
  "metric_annotator \<Rightarrow> vote_state option \<Rightarrow> validator_metrics \<Rightarrow> validator_metrics" where
  "push_votes ann vote_account pv =
     (case vote_account of
        None \<Rightarrow> pv
      | Some vs \<Rightarrow>
          pv\<lparr>last_voted_slot_metrics := last_voted_slot_metrics pv @
               [add_labels ann (metric_new (MetricInt (vs_last_slot vs)))],
             last_voted_timestamp_metrics := last_voted_timestamp_metrics pv @
               [add_labels ann (metric_new (MetricInt (vs_last_timestamp vs)))],
             vote_credits_metrics := vote_credits_metrics pv @
               [add_labels ann (metric_new (MetricInt (vs_credits vs)))]\<rparr>)"

definition validator_round ::
  "fmt_env \<Rightarrow> system_time \<Rightarrow> validator_metrics \<Rightarrow> validator_row \<Rightarrow> (validator_metrics, 'e) result" where
  "validator_round F t pv =
     (\<lambda>(v, stake_accounts, unstake_accounts, vote_account, identity_account_balance, info).
      and_then (unwrap_opt (vi_keybase_username info)) (\<lambda>keybase_username.
      let ann = \<lparr>ma_produced_at = t, ma_vote_account = fmt_pubkey F (vote_account_address v),
                 ma_name = sanitize_validator_name (vi_name info), ma_keybase_username = keybase_username\<rparr> in
      and_then (stake_balance_sum (map (\<lambda>(addr, acc). sa_balance acc) (stake_accounts @ unstake_accounts))) (\<lambda>b.
      let pv = push_votes ann vote_account (push_balances ann b pv) in
      Ok (pv\<lparr>identity_account_balance_metrics := identity_account_balance_metrics pv @
               [add_labels ann (metric_new_sol identity_account_balance)]\<rparr>))))"

definition validator_metrics_of ::
  "fmt_env \<Rightarrow> system_time \<Rightarrow> solido_state \<Rightarrow> (validator_metrics, 'e) result" where
  "validator_metrics_of F t st =
     try_fold (validator_round F t)
       \<lparr>balance_sol_metrics =
          [with_label ''status'' ''reserve'' (metric_at t (metric_new_sol (get_effective_reserve st)))],
        last_voted_slot_metrics = [], last_voted_timestamp_metrics = [],
        identity_account_balance_metrics = [], vote_credits_metrics = []\<rparr>
       (validator_rows st)"

definition clock_families :: "fmt_env \<Rightarrow> system_time \<Rightarrow> solido_state \<Rightarrow> metric_family list" where
  "clock_families F t st =
     [mk_family ''solido_solana_block_height''
        ''Solana slot that we read the Solido details from.''
        ''gauge'' [metric_at t (metric_new (MetricInt (clock_slot (state_clock st))))],
      mk_family ''solido_solana_epoch''
        ''Solana epoch that the slot at solido_solana_block_height falls in.''
        ''gauge'' [metric_at t (metric_new (MetricInt (clock_epoch (state_clock st))))],
      mk_family ''solido_solana_epoch_start_slot''
        ''Slot number of the first slot of the current Solana epoch.''
        ''gauge'' [metric_at t (metric_new (MetricInt
          (get_first_slot_in_epoch (state_epoch_schedule st) (clock_epoch (state_clock st)))))],
      mk_family ''solido_solana_slots_per_epoch''
        ''Number of slots in the current Solana epoch.''
        ''gauge'' [metric_at t (metric_new (MetricInt (slots_per_epoch (state_epoch_schedule st))))]] @
     (case stake_history_get F (state_stake_history st) (clock_epoch (state_clock st) - 1) of
        None \<Rightarrow> []
      | Some entry \<Rightarrow>
     [mk_family ''solido_solana_stake_sol''
        ''Amount of SOL staked for the *previous* epoch, across the entire Solana network.''
        ''gauge'' 
        [with_label ''status'' ''activating'' (metric_at t (metric_new_sol (Lamports (he_activating entry)))),
         with_label ''status'' ''active'' (metric_at t (metric_new_sol (Lamports (he_effective entry)))),
         with_label ''status'' ''deactivating'' (metric_at t (metric_new_sol (Lamports (he_deactivating entry))))]]) @
     [mk_family ''solido_maintainer_balance_sol''
        ''Balance of the maintainer accounts, in SOL.''
        ''gauge'' 
        (map (\<lambda>(maintainer, balance).
          with_label ''maintainer_address'' (fmt_pubkey F (maintainer_pubkey maintainer))
            (metric_at t (metric_new_sol balance)))
          (zip (entries (maintainers st)) (maintainer_balances st)))]"

definition validator_families :: "validator_metrics \<Rightarrow> metric_family list" where
  "validator_families pv =
     [mk_family ''solido_balance_sol''
        ''Amount of SOL currently managed by Solido.''
        ''gauge'' (balance_sol_metrics pv),
      mk_family ''solido_validator_last_voted_slot''
        ''The slot that the validator last voted on.''
        ''gauge'' (last_voted_slot_metrics pv),
      mk_family ''solido_validator_last_voted_timestamp''
        (''The Unix timestamp (in seconds) that the validator included in its last vote. '' @
         ''Note that this is provided by the validator itself, it may not be accurate.'')
        ''gauge'' (last_voted_timestamp_metrics pv),
      mk_family ''solido_validator_identity_account_balance_sol''
        (''Balance of the validator's identity account (that pays for votes) minus '' @
         ''rent-exempt amount.'')
        ''gauge'' (identity_account_balance_metrics pv),
      mk_family ''solido_validator_vote_credits_total''
        (''Vote credits in the validator's vote account. On-chain this value can only '' @
         ''increase, but decreases in the observed value can happen due to reorgs.'')
        ''gauge'' (vote_credits_metrics pv)]"

definition supply_families :: "system_time \<Rightarrow> solido_state \<Rightarrow> metric_family list" where
  "supply_families t st =
     [mk_family ''solido_token_supply_st_sol''
        ''Amount of stSOL that exists currently.''
        ''gauge'' [with_label ''status'' ''minted''
          (metric_at t (metric_new_st_sol (StLamports (mint_supply (state_st_sol_mint st)))))],
      mk_family ''solido_exchange_rate_supply_st_sol''
        ''Amount of stSOL that existed at the time of the last exchange rate update.''
        ''gauge'' [metric_at t (metric_new_st_sol (st_sol_supply (exchange_rate (solido st))))],
      mk_family ''solido_exchange_rate_balance_sol''
        ''Amount of SOL managed at the time of the last exchange rate update.''
        ''gauge'' [metric_at t (metric_new_sol (sol_balance (exchange_rate (solido st))))],
      mk_family ''solido_exchange_rate_computed_epoch''
        ''The epoch in which the exchange rate was last computed.''
        ''gauge'' [metric_at t (metric_new (MetricInt (computed_in_epoch (exchange_rate (solido st)))))]]"

definition state_write_prometheus ::
  "fmt_env \<Rightarrow> system_time \<Rightarrow> solido_state \<Rightarrow> string \<Rightarrow> (string, 'e) result" where
  "state_write_prometheus F t st out =
     and_then (write_metrics F out (clock_families F t st)) (\<lambda>out.
     and_then (validator_metrics_of F t st) (\<lambda>pv.
     and_then (write_metrics F out (validator_families pv)) (\<lambda>out.
     and_then (write_metrics F out (supply_families t st)) (\<lambda>out.
     write_solido_metrics_as_prometheus F (lido_metrics (solido st)) t out))))"

subsection \<open>The metrics server\<close>

record response =
  resp_status :: nat
  resp_headers :: "(string \<times> string) list"
  resp_body :: string

definition text_plain_prometheus :: "string \<times> string" where
  "text_plain_prometheus = (''Content-Type'', ''text/plain; version=0.0.4; charset=UTF-8'')"

definition serve_metrics_request ::
  "fmt_env \<Rightarrow> system_time \<Rightarrow> (maintenance_metrics \<times> solido_state option) option \<Rightarrow> (response, 'e) result" where
  "serve_metrics_request F produced_at option_snapshot =
     (case option_snapshot of
        None \<Rightarrow> Ok \<lparr>resp_status = 503, resp_headers = [],
                    resp_body = ''Service Unavailable'' @ newline @ newline @
                      ''Server is still starting, try again shortly.''\<rparr>
      | Some (m, st) \<Rightarrow>
          and_then (maintenance_write_prometheus F m []) (\<lambda>out.
          and_then (case st of None \<Rightarrow> Ok out | Some st \<Rightarrow> state_write_prometheus F produced_at st out) (\<lambda>out.
          Ok \<lparr>resp_status = 200, resp_headers = [text_plain_prometheus], resp_body = out\<rparr>)))"

subsection \<open>Sleeping\<close>

type_synonym duration = nat

record sleep_env =
  average_f32 :: "duration \<Rightarrow> u64 \<Rightarrow> duration"
  min_sleep_time :: duration
  gen_range :: "duration \<Rightarrow> duration \<Rightarrow> duration"

definition get_average_block_time :: "sleep_env \<Rightarrow> (instant \<times> u64) list \<Rightarrow> duration option" where
  "get_average_block_time S obs =
     (if obs = [] then None
      else
        let (t0, slot0) = hd obs; (t1, slot1) = last obs;
            slots_elapsed = saturating_sub slot1 slot0;
            time_elapsed = t1 - t0 in
        if slots_elapsed = 0 then None else Some (average_f32 S time_elapsed slots_elapsed))"

text \<open>The largest duration has \<open>u64::MAX\<close> seconds; a product beyond it panics.\<close>

definition duration_max :: duration where
  "duration_max = (2 ^ 64 - 1) * 1000000000 + 999999999"

definition duration_mul :: "duration \<Rightarrow> u32 \<Rightarrow> (duration, 'e) result" where
  "duration_mul d k = (if d * unat k \<le> duration_max then Ok (d * unat k) else Panic)"

definition estimate_time_until_slot ::
  "sleep_env \<Rightarrow> (instant \<times> u64) list \<Rightarrow> u64 \<Rightarrow> (duration option, 'e) result" where
  "estimate_time_until_slot S obs target_slot =
     (if obs = [] then Ok None
      else
        (case get_average_block_time S obs of
           None \<Rightarrow> Ok None
         | Some time_per_slot \<Rightarrow>
             let slots_left = ucast (saturating_sub target_slot (snd (last obs))) :: u32 in
             map_ok Some (duration_mul time_per_slot slots_left)))"

definition sleep_after_error :: "sleep_env \<Rightarrow> instant \<Rightarrow> 'n daemon \<Rightarrow> duration" where
  "sleep_after_error S now d =
     (let time_since_last_success = now - last_read_success d;
          target_sleep_time = max (min_sleep_time S) (min 300000000000 time_since_last_success) in
      gen_range S 0 target_sleep_time)"

definition sleep_until_next_iteration ::
  "sleep_env \<Rightarrow> pubkey \<Rightarrow> u64 \<Rightarrow> 'n daemon \<Rightarrow> (duration, 'e) result" where
  "sleep_until_next_iteration S maintainer max_poll_interval_seconds d =
     (let poll_interval = unat max_poll_interval_seconds * 1000000000;
          next_duty_slot =
        (case snapshot_mutex d of
           Some (m, Some st) \<Rightarrow> get_next_maintainer_duty_slot st maintainer
         | _ \<Rightarrow> None) in
      and_then (case next_duty_slot of
          None \<Rightarrow> Ok None
        | Some slot \<Rightarrow> estimate_time_until_slot S (observations d) slot) (\<lambda>estimate.
      Ok (min (case estimate of Some t \<Rightarrow> t | None \<Rightarrow> poll_interval) poll_interval)))"

end
