(* ===== verification/ServingFacts.thy ===== *)
theory ServingFacts
  imports Serving Proposals
begin

text \<open>
  What the metrics server of the maintenance daemon guarantees: when a request aborts the
  process, that the exported balances add up to what the pool manages, and how long the daemon
  sleeps.
\<close>

subsection \<open>Sums of stake balances\<close>

definition sb_fields :: "(stake_balance \<Rightarrow> lamports) list" where
  "sb_fields = [inactive, activating, active, deactivating]"

lemma stake_balance_add_eq_Ok:
  "stake_balance_add a b = Ok c \<longleftrightarrow>
     (\<forall>f \<in> set sb_fields. unat (lam (f c)) = unat (lam (f a)) + unat (lam (f b)))"
proof
  assume "stake_balance_add a b = Ok c"
  then show "\<forall>f \<in> set sb_fields. unat (lam (f c)) = unat (lam (f a)) + unat (lam (f b))"
    by (auto simp: stake_balance_add_def result_simps sb_fields_def lamp.add_eq_Ok)
next
  assume *: "\<forall>f \<in> set sb_fields. unat (lam (f c)) = unat (lam (f a)) + unat (lam (f b))"
  have "lamports_add (f a) (f b) = Ok (f c)" if "f \<in> set sb_fields" for f
  proof -
    have "unat (lam (f c)) = unat (lam (f a)) + unat (lam (f b))" using * that by blast
    then show ?thesis using unat_64_less [of "lam (f c)"] by (simp add: lamp.add_eq_Ok)
  qed
  then show "stake_balance_add a b = Ok c"
    by (simp add: sb_fields_def stake_balance_add_def)
qed

lemma lamports_of_nat: "n < 2 ^ 64 \<Longrightarrow> \<exists>x. unat (lam x) = n"
  by (rule exI [of _ "Lamports (word_of_nat n)"]) (simp add: unsigned_of_nat take_bit_nat_eq_self)

lemma stake_balance_of_nats:
  assumes "\<forall>f \<in> set sb_fields. g f < (2 ^ 64 :: nat)"
  shows "\<exists>b. \<forall>f \<in> set sb_fields. unat (lam (f b)) = g f"
proof -
  obtain i a c d where "unat (lam i) = g inactive" "unat (lam a) = g activating"
    "unat (lam c) = g active" "unat (lam d) = g deactivating"
    using assms lamports_of_nat [of "g inactive"] lamports_of_nat [of "g activating"]
      lamports_of_nat [of "g active"] lamports_of_nat [of "g deactivating"]
    by (auto simp: sb_fields_def)
  then show ?thesis
    by (intro exI [of _ "\<lparr>inactive = i, activating = a, active = c, deactivating = d\<rparr>"])
      (simp add: sb_fields_def)
qed

lemma stake_balance_sum_from:
  "try_fold (\<lambda>acc x. expect (stake_balance_add acc x)) a bs = Ok c \<longleftrightarrow>
     (\<forall>f \<in> set sb_fields. unat (lam (f c)) = unat (lam (f a)) + (\<Sum>b\<leftarrow>bs. unat (lam (f b))))"
proof (induction bs arbitrary: a)
  case Nil
  show ?case by (cases a; cases c) (auto simp: sb_fields_def lamports_eq_iff)
next
  case (Cons b bs)
  have ex: "\<exists>d. \<forall>f \<in> set sb_fields. unat (lam (f d)) = unat (lam (f a)) + unat (lam (f b))"
    if "\<forall>f \<in> set sb_fields. unat (lam (f c)) = unat (lam (f a)) + (unat (lam (f b)) + (\<Sum>b\<leftarrow>bs. unat (lam (f b))))"
  proof (rule stake_balance_of_nats, rule ballI)
    fix f assume "f \<in> set sb_fields"
    then have "unat (lam (f a)) + unat (lam (f b)) \<le> unat (lam (f c))" using that by simp
    also have "\<dots> < 2 ^ 64" using unat_64_less by simp
    finally show "unat (lam (f a)) + unat (lam (f b)) < 2 ^ 64" .
  qed
  show ?case
    using ex by (fastforce simp: result_simps stake_balance_add_eq_Ok Cons.IH add.assoc)
qed

lemma stake_balance_sum_eq_Ok:
  "stake_balance_sum bs = Ok c \<longleftrightarrow>
     (\<forall>f \<in> set sb_fields. unat (lam (f c)) = (\<Sum>b\<leftarrow>bs. unat (lam (f b))))"
  by (simp add: stake_balance_sum_def stake_balance_sum_from) (simp add: sb_fields_def stake_balance_zero_def)

lemma stake_balance_sum_neq_Err [simp]: "stake_balance_sum bs \<noteq> Err e"
proof -
  have "try_fold (\<lambda>acc x. expect (stake_balance_add acc x)) a bs \<noteq> Err e" for a
    by (induction bs arbitrary: a) (auto simp: and_then_def split: result.splits)
  then show ?thesis by (simp add: stake_balance_sum_def)
qed

lemma stake_balance_sum_ex:
  "(\<exists>c. stake_balance_sum bs = Ok c) \<longleftrightarrow>
     (\<forall>f \<in> set sb_fields. (\<Sum>b\<leftarrow>bs. unat (lam (f b))) < 2 ^ 64)"
proof
  assume "\<exists>c. stake_balance_sum bs = Ok c"
  then obtain c where "\<forall>f \<in> set sb_fields. unat (lam (f c)) = (\<Sum>b\<leftarrow>bs. unat (lam (f b)))"
    unfolding stake_balance_sum_eq_Ok ..
  then show "\<forall>f \<in> set sb_fields. (\<Sum>b\<leftarrow>bs. unat (lam (f b))) < 2 ^ 64"
    by simp (metis unat_64_less)
next
  assume "\<forall>f \<in> set sb_fields. (\<Sum>b\<leftarrow>bs. unat (lam (f b))) < 2 ^ 64"
  then show "\<exists>c. stake_balance_sum bs = Ok c"
    unfolding stake_balance_sum_eq_Ok by (rule stake_balance_of_nats)
qed

subsection \<open>Requests\<close>

text \<open>The row of a validator can be exported: it has a Keybase name, and no kind of stake adds up to
  more than \<open>u64::MAX\<close>.\<close>

definition exportable :: "validator_row \<Rightarrow> bool" where
  "exportable = (\<lambda>(v, stake_accounts, unstake_accounts, vote_account, balance, info).
     vi_keybase_username info \<noteq> None \<and>
     (\<forall>f \<in> set sb_fields. (\<Sum>(addr, acc)\<leftarrow>stake_accounts @ unstake_accounts. unat (lam (f (sa_balance acc)))) < 2 ^ 64))"

lemma validator_round_Ok:
  "(\<exists>pv'. validator_round F t pv row = Ok pv') \<longleftrightarrow> exportable row"
proof -
  obtain v ss us vote bal info where row: "row = (v, ss, us, vote, bal, info)" by (cases row)
  have "exportable row \<longleftrightarrow> vi_keybase_username info \<noteq> None \<and>
      (\<exists>b. stake_balance_sum (map (\<lambda>(addr, acc). sa_balance acc) (ss @ us)) = Ok b)"
    unfolding stake_balance_sum_ex by (simp add: exportable_def row comp_def split_def)
  then show ?thesis
    by (auto simp: row validator_round_def unwrap_opt_def result_simps Let_def split: option.splits)
qed

lemma validator_round_neq_Err: "validator_round F t pv row \<noteq> Err e"
  by (cases row) (auto simp: validator_round_def unwrap_opt_def and_then_def Let_def split: option.splits result.splits)

lemma try_fold_Panic_iff:
  assumes "\<And>s x. (\<exists>s'. f s x = Ok s') \<longleftrightarrow> P x" "\<And>s x e. f s x \<noteq> Err e"
  shows "try_fold f s xs = Panic \<longleftrightarrow> (\<exists>x \<in> set xs. \<not> P x)" "try_fold f s xs \<noteq> Err e"
proof -
  have "(try_fold f s xs = Panic \<longleftrightarrow> (\<exists>x \<in> set xs. \<not> P x)) \<and> try_fold f s xs \<noteq> Err e"
  proof (induction xs arbitrary: s)
    case (Cons x xs)
    show ?case
      using assms [of s x] Cons.IH by (cases "f s x") auto
  qed simp
  then show "try_fold f s xs = Panic \<longleftrightarrow> (\<exists>x \<in> set xs. \<not> P x)" "try_fold f s xs \<noteq> Err e" by auto
qed

lemma validator_metrics_Panic:
  "validator_metrics_of F t st = Panic \<longleftrightarrow> (\<exists>row \<in> set (validator_rows st). \<not> exportable row)"
  "validator_metrics_of F t st \<noteq> Err e"
  unfolding validator_metrics_of_def
  by (rule try_fold_Panic_iff; simp add: validator_round_Ok validator_round_neq_Err)+


definition family_timely :: "metric_family \<Rightarrow> bool" where
  "family_timely fam \<longleftrightarrow> list_all timely (family_metrics fam)"

lemma timely_builders [simp]:
  "timely (metric_new v)" "timely (metric_new_sol x)" "timely (metric_new_st_sol y)"
  "timely (metric_at t m) \<longleftrightarrow> 0 \<le> t" "timely (with_suffix s m) = timely m" "timely (with_label k l m) = timely m"
  "timely (add_labels ann m) \<longleftrightarrow> 0 \<le> ma_produced_at ann"
  by (simp_all add: timely_def metric_builders add_labels_def)

lemma family_timely_mk [simp]: "family_timely (mk_family name help ty ms) = list_all timely ms"
  by (simp add: family_timely_def mk_family_def)

lemma write_families_total:
  "list_all family_timely fams \<Longrightarrow> \<exists>r. write_metrics F out fams = Ok r"
  by (rule write_metrics_total) (auto simp: list_all_iff family_timely_def)

definition pv_timely :: "validator_metrics \<Rightarrow> bool" where
  "pv_timely pv \<longleftrightarrow> list_all timely (balance_sol_metrics pv) \<and> list_all timely (last_voted_slot_metrics pv) \<and>
     list_all timely (last_voted_timestamp_metrics pv) \<and> list_all timely (identity_account_balance_metrics pv) \<and>
     list_all timely (vote_credits_metrics pv)"

lemma validator_round_timely:
  "validator_round F t pv row = Ok pv' \<Longrightarrow> 0 \<le> t \<Longrightarrow> pv_timely pv \<Longrightarrow> pv_timely pv'"
  by (cases row) (auto simp: validator_round_def unwrap_opt_def result_simps Let_def push_votes_def push_balances_def pv_timely_def
      split: option.splits)

lemma validator_metrics_timely: "validator_metrics_of F t st = Ok pv \<Longrightarrow> 0 \<le> t \<Longrightarrow> pv_timely pv"
  unfolding validator_metrics_of_def
  by (erule try_fold_invariant [where P = pv_timely])
    (simp add: pv_timely_def, erule (2) validator_round_timely)

lemma families_timely:
  assumes "0 \<le> t"
  shows "list_all family_timely (clock_families F t st)" "list_all family_timely (supply_families t st)"
    "pv_timely pv \<Longrightarrow> list_all family_timely (validator_families pv)"
    "list_all family_timely (solido_metric_families mt t)"
    "list_all family_timely (maintenance_metric_families mm)"
proof -
  show "list_all family_timely (clock_families F t st)"
    using assms by (auto simp: clock_families_def list_all_iff split: option.splits)
  show "list_all family_timely (supply_families t st)"
    using assms by (simp add: supply_families_def)
  show "pv_timely pv \<Longrightarrow> list_all family_timely (validator_families pv)"
    by (simp add: validator_families_def pv_timely_def)
  have "list_all timely (solido_histogram_to_metrics t (deposit_amount mt))"
    using assms by (auto simp: solido_histogram_to_metrics_def list_all_iff)
  then show "list_all family_timely (solido_metric_families mt t)"
    using assms by (simp add: solido_metric_families_def)
  show "list_all family_timely (maintenance_metric_families mm)"
    by (simp add: maintenance_metric_families_def)
qed

text \<open>C25: The metrics server, on every snapshot. Before the first snapshot it answers 503. With a snapshot
  whose state could not be read it answers 200 with the counters of the daemon. With a state, it answers 200
  exactly when each validator has a Keybase name and stake balances that add up within 64
  bits; otherwise the request handler panics, which aborts the daemon.\<close>

theorem metrics_server_aborts_iff:
  assumes "0 \<le> t"
  shows "(\<exists>response. serve_metrics_request F t None = (Ok response :: (response, 'e) result) \<and> resp_status response = 503) \<and>
    (\<exists>body. maintenance_write_prometheus F m [] = (Ok body :: (string, 'e) result) \<and>
       serve_metrics_request F t (Some (m, None)) =
         (Ok \<lparr>resp_status = 200, resp_headers = [text_plain_prometheus], resp_body = body\<rparr> :: (response, 'e) result)) \<and>
    (if list_all exportable (validator_rows st)
     then \<exists>body. serve_metrics_request F t (Some (m, Some st)) =
        (Ok \<lparr>resp_status = 200, resp_headers = [text_plain_prometheus], resp_body = body\<rparr> :: (response, 'e) result)
     else serve_metrics_request F t (Some (m, Some st)) = (Panic :: (response, 'e) result))"
proof -
  note total = families_timely [OF assms, THEN write_families_total]
  obtain o1 where 1: "maintenance_write_prometheus F m [] = (Ok o1 :: (string, 'e) result)"
    using total(5) unfolding maintenance_write_prometheus_def by blast
  obtain o2 where 2: "write_metrics F o1 (clock_families F t st) = (Ok o2 :: (string, 'e) result)"
    using total(1) by blast
  have unread: "serve_metrics_request F t (Some (m, None)) =
      (Ok \<lparr>resp_status = 200, resp_headers = [text_plain_prometheus], resp_body = o1\<rparr> :: (response, 'e) result)"
    by (simp add: serve_metrics_request_def 1)
  show ?thesis
  proof (cases "validator_metrics_of F t st :: (validator_metrics, 'e) result")
    case (Ok pv)
    then have "pv_timely pv" using assms by (rule validator_metrics_timely)
    then obtain o3 where 3: "write_metrics F o2 (validator_families pv) = (Ok o3 :: (string, 'e) result)"
      using total(3) by blast
    obtain o4 where 4: "write_metrics F o3 (supply_families t st) = (Ok o4 :: (string, 'e) result)"
      using total(2) by blast
    obtain o5 where 5: "write_solido_metrics_as_prometheus F (lido_metrics (solido st)) t o4 = (Ok o5 :: (string, 'e) result)"
      using total(4) unfolding write_solido_metrics_as_prometheus_def by blast
    have "validator_metrics_of F t st \<noteq> (Panic :: (validator_metrics, 'e) result)" using Ok by simp
    then have "list_all exportable (validator_rows st)" by (simp add: validator_metrics_Panic list_all_iff)
    with Ok show ?thesis
      by (simp add: unread 1, simp add: serve_metrics_request_def state_write_prometheus_def 1 2 3 4 5)
  next
    case Panic
    then have "\<not> list_all exportable (validator_rows st)" by (simp add: validator_metrics_Panic list_all_iff)
    then show ?thesis
      by (simp add: unread 1, simp add: serve_metrics_request_def state_write_prometheus_def 1 2 Panic)
  qed (simp add: validator_metrics_Panic)
qed


subsection \<open>Balances\<close>

definition nano_value :: "metric \<Rightarrow> nat" where
  "nano_value m = (case metric_value m of MetricNano v \<Rightarrow> unat v | _ \<Rightarrow> 0)"

definition balance_value :: "stake_balance \<Rightarrow> nat" where
  "balance_value b = (\<Sum>f\<leftarrow>sb_fields. unat (lam (f b)))"

definition row_value :: "validator_row \<Rightarrow> nat" where
  "row_value = (\<lambda>(v, stake_accounts, unstake_accounts, vote_account, balance, info).
     \<Sum>(addr, acc)\<leftarrow>stake_accounts @ unstake_accounts. balance_value (sa_balance acc))"

lemma balance_value_sum:
  "stake_balance_sum bs = Ok b \<Longrightarrow> balance_value b = sum_list (map balance_value bs)"
  by (simp add: stake_balance_sum_eq_Ok balance_value_def [abs_def] sb_fields_def sum_list_addf)

lemma nano_value_builders [simp]:
  "nano_value (metric_new_sol x) = unat (lam x)" "nano_value (metric_at t m) = nano_value m"
  "nano_value (with_label k l m) = nano_value m" "nano_value (add_labels ann m) = nano_value m"
  by (simp_all add: nano_value_def metric_builders add_labels_def)

lemma push_votes_balance [simp]: "balance_sol_metrics (push_votes ann vote pv) = balance_sol_metrics pv"
  by (simp add: push_votes_def split: option.splits)

lemma validator_round_balance:
  assumes "validator_round F t pv row = (Ok pv' :: (validator_metrics, 'e) result)"
  shows "sum_list (map nano_value (balance_sol_metrics pv')) =
     sum_list (map nano_value (balance_sol_metrics pv)) + row_value row"
proof -
  obtain v ss us vote bal info where row: "row = (v, ss, us, vote, bal, info)" by (cases row)
  obtain kb where kb: "vi_keybase_username info = Some kb"
    using assms by (auto simp: row validator_round_def unwrap_opt_def split: option.splits)
  from assms obtain b where b: "stake_balance_sum (map (\<lambda>(addr, acc). sa_balance acc) (ss @ us)) = (Ok b :: (stake_balance, 'e) result)"
    by (auto simp: row validator_round_def unwrap_opt_def kb result_simps Let_def)
  with assms have "\<exists>ann. balance_sol_metrics pv' = balance_sol_metrics (push_balances ann b pv)"
    by (auto simp: row validator_round_def unwrap_opt_def kb result_simps Let_def)
  then have new: "sum_list (map nano_value (balance_sol_metrics pv')) =
      sum_list (map nano_value (balance_sol_metrics pv)) + balance_value b"
    by (auto simp: push_balances_def Let_def balance_value_def sb_fields_def)
  from balance_value_sum [OF b] new show ?thesis
    by (simp add: row row_value_def comp_def split_def)
qed

lemma validator_rounds_balance:
  "try_fold (validator_round F t) pv rows = Ok pv' \<Longrightarrow>
     sum_list (map nano_value (balance_sol_metrics pv')) =
     sum_list (map nano_value (balance_sol_metrics pv)) + sum_list (map row_value rows)"
  by (induction rows arbitrary: pv) (auto simp: result_simps dest: validator_round_balance)

text \<open>C29: The samples of \<open>solido_balance_sol\<close> account for all SOL of the pool that the daemon knows:
  their sum is the effective reserve plus every kind of stake in every stake and unstake account of
  every exported validator.\<close>

theorem exported_balances_add_up:
  assumes "validator_metrics_of F t st = Ok pv"
  shows "sum_list (map nano_value (balance_sol_metrics pv)) =
     unat (lam (get_effective_reserve st)) + sum_list (map row_value (validator_rows st))"
  using validator_rounds_balance [OF assms [unfolded validator_metrics_of_def]] by simp

subsection \<open>Sleeping\<close>

text \<open>The sleep between two rounds never exceeds the configured interval, and computing it does
  not panic, as long as the observed clocks span less than 68 years. Rounding to single precision
  can only double an average.\<close>

lemma estimate_total:
  assumes avg: "\<And>d k. average_f32 S d k \<le> 2 * d"
    and obs: "fst (last obs) - fst (hd obs) \<le> 2147483648 * 1000000000"
  shows "\<exists>r. estimate_time_until_slot S obs slot = Ok r"
proof (cases "get_average_block_time S obs")
  case (Some a)
  then have "a \<le> 2 * (fst (last obs) - fst (hd obs))"
    using avg by (auto simp: get_average_block_time_def Let_def split_def split: if_splits)
  with obs have a: "a \<le> 4294967296 * 1000000000" by linarith
  have "a * unat k \<le> duration_max" for k :: u32
  proof -
    have "unat k < 4294967296" using unsigned_less [of k] by simp
    then have "unat k \<le> 4294967295" by simp
    with a have "a * unat k \<le> (4294967296 * 1000000000) * 4294967295" by (rule mult_le_mono)
    then show ?thesis by (simp add: duration_max_def)
  qed
  then show ?thesis using Some by (simp add: estimate_time_until_slot_def Let_def duration_mul_def)
qed (simp add: estimate_time_until_slot_def)

theorem sleep_until_next_iteration_bounded:
  assumes "\<And>d k. average_f32 S d k \<le> 2 * d"
    and "fst (last (observations d)) - fst (hd (observations d)) \<le> 2147483648 * 1000000000"
  shows "\<exists>t. sleep_until_next_iteration S maintainer secs d = (Ok t :: (duration, 'e) result) \<and> t \<le> unat secs * 1000000000"
proof -
  obtain next_slot where n: "next_slot = (case snapshot_mutex d of
      Some (m, Some st) \<Rightarrow> get_next_maintainer_duty_slot st maintainer | _ \<Rightarrow> None)" by blast
  show ?thesis
  proof (cases next_slot)
    case None
    then show ?thesis by (simp add: sleep_until_next_iteration_def Let_def n [symmetric])
  next
    case (Some slot)
    obtain r where "estimate_time_until_slot S (observations d) slot = (Ok r :: (duration option, 'e) result)"
      using estimate_total [OF assms] by blast
    then show ?thesis by (simp add: sleep_until_next_iteration_def Let_def n [symmetric] Some)
  qed
qed

subsection \<open>Examples\<close>

definition bot_with_infos :: "validator_info list \<Rightarrow> solido_state" where
  "bot_with_infos infos = example_bot\<lparr>validator_infos := infos\<rparr>"

definition lido_info :: "string option \<Rightarrow> validator_info" where
  "lido_info keybase = \<lparr>vi_name = ''Lido / A'', vi_keybase_username = keybase\<rparr>"

text \<open>A validator that clears its Keybase name stops the daemon at the next request.\<close>

theorem metrics_server_aborts_witness:
  "serve_metrics_request example_fmt 0
     (Some (maintenance_metrics_zero, Some (bot_with_infos [lido_info (Some ''a''), lido_info None]))) =
   (Panic :: (response, unit) result)"
proof -
  have "\<not> list_all exportable (validator_rows (bot_with_infos [lido_info (Some ''a''), lido_info None]))"
    by (simp add: bot_with_infos_def lido_info_def validator_rows_def example_bot_def exportable_def)
  then show ?thesis
    using metrics_server_aborts_iff [where 'e = unit, of 0 example_fmt maintenance_metrics_zero
        "bot_with_infos [lido_info (Some ''a''), lido_info None]"] by simp
qed

definition stake_of :: "u64 \<Rightarrow> u64 \<Rightarrow> stake_account" where
  "stake_of amount seed =
     \<lparr>sa_balance = stake_balance_zero\<lparr>active := Lamports amount, deactivating := Lamports 5\<rparr>,
      sa_credits_observed = 0, sa_activation_epoch = 0, sa_seed = seed\<rparr>"

definition staked_bot :: solido_state where
  "staked_bot = (bot_with_infos [lido_info (Some ''a''), lido_info (Some ''b'')])
     \<lparr>validator_stake_accounts := [[(71, stake_of 1000 0), (72, stake_of 300 1)], []],
      validator_unstake_accounts := [[], [(73, stake_of 20 0)]]\<rparr>"

theorem exported_balances_witness:
  "\<exists>pv. validator_metrics_of example_fmt 0 staked_bot = (Ok pv :: (validator_metrics, unit) result) \<and>
    sum_list (map nano_value (balance_sol_metrics pv)) = 4009131520 + 1335"
proof -
  note defs = staked_bot_def bot_with_infos_def lido_info_def validator_rows_def example_bot_def exportable_def
    row_value_def stake_of_def stake_balance_zero_def sb_fields_def balance_value_def
  have "\<forall>row \<in> set (validator_rows staked_bot). exportable row" by (simp add: defs)
  then have "validator_metrics_of example_fmt 0 staked_bot \<noteq> (Panic :: (validator_metrics, unit) result)"
    by (simp add: validator_metrics_Panic)
  then obtain pv where pv: "validator_metrics_of example_fmt 0 staked_bot = (Ok pv :: (validator_metrics, unit) result)"
    using validator_metrics_Panic(2) by (metis result.exhaust)
  have "get_effective_reserve staked_bot = get_effective_reserve example_bot"
    by (simp add: staked_bot_def bot_with_infos_def get_effective_reserve_def)
  moreover have "sum_list (map row_value (validator_rows staked_bot)) = 1335" by (simp add: defs)
  ultimately show ?thesis using exported_balances_add_up [OF pv] pv by simp
qed

end
