(* ===== verification/Sql.thy ===== *)
theory Sql
  imports Config
begin

text \<open>
  The part of SQL in which \<^verbatim>\<open>cli/listener/src/lib.rs\<close> writes its statements: a table with typed
  columns and checks, aggregates and rows selected by a conjunction of comparisons with bound
  parameters, and an insertion. Values, type affinity and comparison follow SQLite's documentation of its
  storage classes: a text that is compared with an \<open>INTEGER\<close> column is first read as a number, an
  integer is less than every text, text is compared byte by byte, and nothing compares with
  \<open>NULL\<close>. Numbers that do not fit 64 bits, which SQLite reads as floats, compare with the
  stored integers as they do here; fractions are not read.

  The database itself is a parameter. The locale \<open>sql_engine\<close> says that what it answers is what the
  evaluation below gives, for every statement; it may fail at any time. \<open>sql_available\<close> says that
  it does not.
\<close>

subsection \<open>Values\<close>

datatype sql_value = SqlNull | SqlInteger int | SqlText string

datatype col_type = IntegerType | TextType

fun text_less :: "string \<Rightarrow> string \<Rightarrow> bool" where
  "text_less s [] = False"
| "text_less [] (d # t) = True"
| "text_less (c # s) (d # t) \<longleftrightarrow> (of_char c :: nat) < of_char d \<or> c = d \<and> text_less s t"

definition number_of_text :: "string \<Rightarrow> int option" where
  "number_of_text s =
     (let neg = (s \<noteq> [] \<and> hd s = CHR ''-'');
          digits = (if s \<noteq> [] \<and> (hd s = CHR ''-'' \<or> hd s = CHR ''+'') then tl s else s);
          v = int (digits_value digits) in
      if digits = [] \<or> \<not> list_all is_digit digits then None else Some (if neg then - v else v))"

fun apply_affinity :: "col_type \<Rightarrow> sql_value \<Rightarrow> sql_value" where
  "apply_affinity IntegerType (SqlText s) = (case number_of_text s of None \<Rightarrow> SqlText s | Some i \<Rightarrow> SqlInteger i)"
| "apply_affinity TextType (SqlInteger i) = SqlText ((if i < 0 then ''-'' else []) @ fmt_u64 (nat \<bar>i\<bar>))"
| "apply_affinity ty v = v"

fun sql_less :: "sql_value \<Rightarrow> sql_value \<Rightarrow> bool" where
  "sql_less (SqlInteger i) (SqlInteger j) \<longleftrightarrow> i < j"
| "sql_less (SqlInteger i) (SqlText t) \<longleftrightarrow> True"
| "sql_less (SqlText s) (SqlText t) \<longleftrightarrow> text_less s t"
| "sql_less v w \<longleftrightarrow> False"

datatype comparison = SqlEq | SqlLess | SqlGreater | SqlGreaterEq

definition sql_compare :: "comparison \<Rightarrow> sql_value \<Rightarrow> sql_value \<Rightarrow> bool" where
  "sql_compare c v w \<longleftrightarrow> v \<noteq> SqlNull \<and> w \<noteq> SqlNull \<and>
     (case c of
        SqlEq \<Rightarrow> v = w
      | SqlLess \<Rightarrow> sql_less v w
      | SqlGreater \<Rightarrow> sql_less w v
      | SqlGreaterEq \<Rightarrow> \<not> sql_less v w)"

subsection \<open>Tables and statements\<close>

record column_def =
  col_name :: string
  col_type :: col_type
  col_not_null :: bool

type_synonym sql_row = "sql_value list"

text \<open>A check compares a column with a literal.\<close>

record table_def =
  table_name :: string
  table_columns :: "column_def list"
  primary_key :: string
  table_checks :: "(string \<times> comparison \<times> int) list"

text \<open>A condition compares columns with named parameters.\<close>

datatype sql_cond = Compare string comparison string | SqlAnd sql_cond sql_cond

datatype sql_aggregate = SqlMin | SqlMax

datatype statement =
    SelectAggregate sql_aggregate string string sql_cond
  | SelectAll string sql_cond nat

text \<open>\<open>VALUES\<close> is a list of numbered parameters.\<close>

record insertion =
  insert_into :: string
  insert_columns :: "string list"
  insert_values :: "nat list"

definition column_index :: "table_def \<Rightarrow> string \<Rightarrow> nat" where
  "column_index T c = length (takeWhile (\<lambda>d. col_name d \<noteq> c) (table_columns T))"

definition column_value :: "table_def \<Rightarrow> sql_row \<Rightarrow> string \<Rightarrow> sql_value" where
  "column_value T r c = (let i = column_index T c in if i < length r then r ! i else SqlNull)"

definition column_type :: "table_def \<Rightarrow> string \<Rightarrow> col_type" where
  "column_type T c = (case find (\<lambda>d. col_name d = c) (table_columns T) of Some d \<Rightarrow> col_type d | None \<Rightarrow> TextType)"

subsection \<open>Evaluation\<close>

text \<open>Parameters are numbered in the order in which their names occur first.\<close>

fun cond_params :: "sql_cond \<Rightarrow> string list" where
  "cond_params (Compare c op p) = [p]"
| "cond_params (SqlAnd a b) = cond_params a @ filter (\<lambda>p. p \<notin> set (cond_params a)) (cond_params b)"

fun statement_params :: "statement \<Rightarrow> string list" where
  "statement_params (SelectAggregate f c tab w) = cond_params w"
| "statement_params (SelectAll tab w n) = cond_params w"

definition bound :: "string list \<Rightarrow> sql_value list \<Rightarrow> string \<Rightarrow> sql_value" where
  "bound ps vs p = (case map_of (zip ps vs) p of Some v \<Rightarrow> v | None \<Rightarrow> SqlNull)"

fun eval_cond :: "table_def \<Rightarrow> (string \<Rightarrow> sql_value) \<Rightarrow> sql_cond \<Rightarrow> sql_row \<Rightarrow> bool" where
  "eval_cond T env (Compare c op p) r \<longleftrightarrow>
     sql_compare op (column_value T r c) (apply_affinity (column_type T c) (env p))"
| "eval_cond T env (SqlAnd a b) r \<longleftrightarrow> eval_cond T env a r \<and> eval_cond T env b r"

definition matching :: "table_def \<Rightarrow> sql_cond \<Rightarrow> sql_value list \<Rightarrow> sql_row list \<Rightarrow> sql_row list" where
  "matching T w vs rs = filter (eval_cond T (bound (cond_params w) vs) w) rs"

fun better :: "sql_aggregate \<Rightarrow> sql_value \<Rightarrow> sql_value \<Rightarrow> sql_value" where
  "better SqlMin v m = (if sql_less v m then v else m)"
| "better SqlMax v m = (if sql_less m v then v else m)"

definition eval_aggregate :: "sql_aggregate \<Rightarrow> sql_value list \<Rightarrow> sql_value" where
  "eval_aggregate f vs = (case filter (\<lambda>v. v \<noteq> SqlNull) vs of [] \<Rightarrow> SqlNull | v # vs \<Rightarrow> fold (better f) vs v)"

fun row_id :: "sql_value \<Rightarrow> int" where
  "row_id (SqlInteger i) = i"
| "row_id v = 0"

definition next_rowid :: "table_def \<Rightarrow> sql_row list \<Rightarrow> int" where
  "next_rowid T rs = foldr max (map (\<lambda>r. row_id (column_value T r (primary_key T))) rs) 0 + 1"

definition inserted_value :: "table_def \<Rightarrow> insertion \<Rightarrow> sql_value list \<Rightarrow> int \<Rightarrow> column_def \<Rightarrow> sql_value" where
  "inserted_value T ins vs rowid d =
     (case map_of (zip (insert_columns ins) (insert_values ins)) (col_name d) of
        Some k \<Rightarrow> if k - 1 < length vs then apply_affinity (col_type d) (vs ! (k - 1)) else SqlNull
      | None \<Rightarrow> if col_name d = primary_key T then SqlInteger rowid else SqlNull)"

definition inserted_row :: "table_def \<Rightarrow> insertion \<Rightarrow> sql_value list \<Rightarrow> sql_row list \<Rightarrow> sql_row" where
  "inserted_row T ins vs rs = map (inserted_value T ins vs (next_rowid T rs)) (table_columns T)"

definition constraints_ok :: "table_def \<Rightarrow> sql_row \<Rightarrow> bool" where
  "constraints_ok T r \<longleftrightarrow>
     list_all (\<lambda>d. col_not_null d \<longrightarrow> column_value T r (col_name d) \<noteq> SqlNull) (table_columns T) \<and>
     list_all (\<lambda>(c, op, k). column_value T r c = SqlNull \<or> sql_compare op (column_value T r c) (SqlInteger k))
       (table_checks T)"

subsection \<open>The database\<close>

datatype sqlite_error =
    SqliteFailure
  | InvalidParameterCount
  | QueryReturnedNoRows
  | InvalidColumnIndex
  | InvalidColumnType
  | IntegralValueOutOfRange
  | ToSqlConversionFailure

record 'db sqlite =
  prepare :: "'db \<Rightarrow> statement \<Rightarrow> (unit, sqlite_error) result"
  unchecked_transaction :: "'db \<Rightarrow> (unit, sqlite_error) result"
  bind_params :: "'db \<Rightarrow> statement \<Rightarrow> sql_value list \<Rightarrow> (unit, sqlite_error) result"
  query :: "'db \<Rightarrow> statement \<Rightarrow> sql_value list \<Rightarrow> (sql_row list, sqlite_error) result"
  execute :: "'db \<Rightarrow> insertion \<Rightarrow> sql_value list \<Rightarrow> ('db, sqlite_error) result"
  create_table :: "'db \<Rightarrow> table_def \<Rightarrow> ('db, sqlite_error) result"

fun condition_ok :: "table_def \<Rightarrow> sql_cond \<Rightarrow> bool" where
  "condition_ok T (Compare c op p) \<longleftrightarrow> c \<in> col_name ` set (table_columns T)"
| "condition_ok T (SqlAnd a b) \<longleftrightarrow> condition_ok T a \<and> condition_ok T b"

fun statement_ok :: "table_def \<Rightarrow> statement \<Rightarrow> bool" where
  "statement_ok T (SelectAggregate f c tab w) \<longleftrightarrow>
     tab = table_name T \<and> c \<in> col_name ` set (table_columns T) \<and> condition_ok T w"
| "statement_ok T (SelectAll tab w n) \<longleftrightarrow> tab = table_name T \<and> condition_ok T w"

definition insertion_ok :: "table_def \<Rightarrow> insertion \<Rightarrow> bool" where
  "insertion_ok T ins \<longleftrightarrow> insert_into ins = table_name T \<and>
     set (insert_columns ins) \<subseteq> col_name ` set (table_columns T) \<and>
     length (insert_values ins) = length (insert_columns ins)"

text \<open>
  What the database answers on the table \<open>T\<close>, whose rows are \<open>rows\<close>. \<open>LIMIT\<close> without \<open>ORDER BY\<close> takes any
  of the matching rows; a new row gets the number after the largest one, as long as there is
  one; a row that breaks a constraint is refused; \<open>CREATE TABLE IF NOT EXISTS\<close> keeps the rows.
\<close>

locale sql_engine =
  fixes S :: "'db sqlite" and T :: table_def and rows :: "'db \<Rightarrow> sql_row list"
  assumes no_panic: "prepare S db st \<noteq> Panic" "bind_params S db st vs \<noteq> Panic" "query S db st vs \<noteq> Panic"
      "execute S db ins vs \<noteq> Panic"
    and aggregate_answer: "\<lbrakk>query S db (SelectAggregate f c (table_name T) w) vs = Ok rs;
        length vs = length (cond_params w)\<rbrakk> \<Longrightarrow>
      rs = [[eval_aggregate f (map (\<lambda>r. column_value T r c) (matching T w vs (rows db)))]]"
    and rows_answer: "\<lbrakk>query S db (SelectAll (table_name T) w n) vs = Ok rs; length vs = length (cond_params w)\<rbrakk> \<Longrightarrow>
      mset rs \<subseteq># mset (matching T w vs (rows db)) \<and> length rs = min n (length (matching T w vs (rows db)))"
    and insert_answer: "\<lbrakk>execute S db ins vs = Ok db'; insert_into ins = table_name T;
        next_rowid T (rows db) < 2 ^ 63\<rbrakk> \<Longrightarrow>
      constraints_ok T (inserted_row T ins vs (rows db)) \<and> rows db' = rows db @ [inserted_row T ins vs (rows db)]"
    and create_answer: "create_table S db T = Ok db' \<Longrightarrow> rows db' = rows db"

definition sql_available :: "'db sqlite \<Rightarrow> table_def \<Rightarrow> ('db \<Rightarrow> sql_row list) \<Rightarrow> 'db \<Rightarrow> bool" where
  "sql_available S T rows db \<longleftrightarrow>
     unchecked_transaction S db = Ok () \<and>
     (\<forall>st. statement_ok T st \<longrightarrow> prepare S db st = Ok ()) \<and>
     (\<forall>st vs. statement_ok T st \<and> length vs = length (statement_params st) \<longrightarrow>
        bind_params S db st vs = Ok () \<and> (\<exists>rs. query S db st vs = Ok rs)) \<and>
     (\<forall>ins vs. insertion_ok T ins \<and> (\<forall>k \<in> set (insert_values ins). 0 < k \<and> k \<le> length vs) \<and>
        constraints_ok T (inserted_row T ins vs (rows db)) \<longrightarrow> (\<exists>db'. execute S db ins vs = Ok db'))"

subsection \<open>Facts\<close>

lemma available_statement:
  assumes "sql_available S T rows db" "statement_ok T st"
  shows "prepare S db st = Ok ()"
    and "length vs = length (statement_params st) \<Longrightarrow> bind_params S db st vs = Ok ()"
    and "length vs = length (statement_params st) \<Longrightarrow> \<exists>rs. query S db st vs = Ok rs"
  using assms unfolding sql_available_def by blast+

lemma available_insertion:
  assumes "sql_available S T rows db" "insertion_ok T ins" "\<forall>k \<in> set (insert_values ins). 0 < k \<and> k \<le> length vs"
    "constraints_ok T (inserted_row T ins vs (rows db))"
  shows "\<exists>db'. execute S db ins vs = Ok db'"
  using assms unfolding sql_available_def by blast

lemma next_rowid_pos: "0 < next_rowid T rs"
  by (induction rs) (auto simp: next_rowid_def max_def)

lemma fold_better_Min: "fold (better SqlMin) (map SqlInteger is) (SqlInteger i) = SqlInteger (Min (set (i # is)))"
proof (induction "is" arbitrary: i)
  case (Cons j "is")
  have "Min (set (i # j # is)) = Min (set (min i j # is))" by (cases "is = []") (simp_all add: min.assoc)
  then show ?case using Cons [of "min i j"] by (auto simp: min_def)
qed simp

lemma fold_better_Max: "fold (better SqlMax) (map SqlInteger is) (SqlInteger i) = SqlInteger (Max (set (i # is)))"
proof (induction "is" arbitrary: i)
  case (Cons j "is")
  have "Max (set (i # j # is)) = Max (set (max i j # is))" by (cases "is = []") (simp_all add: max.assoc)
  then show ?case using Cons [of "max i j"] by (auto simp: max_def)
qed simp

lemma no_null_integers: "filter (\<lambda>v. v \<noteq> SqlNull) (map SqlInteger is) = map SqlInteger is"
  by (induction "is") auto

lemma aggregate_Min:
  "eval_aggregate SqlMin (map SqlInteger is) = (if is = [] then SqlNull else SqlInteger (Min (set is)))"
  by (cases "is") (simp_all add: eval_aggregate_def no_null_integers fold_better_Min)

lemma aggregate_Max:
  "eval_aggregate SqlMax (map SqlInteger is) = (if is = [] then SqlNull else SqlInteger (Max (set is)))"
  by (cases "is") (simp_all add: eval_aggregate_def no_null_integers fold_better_Max)

lemma fmt_u64_nonempty: "fmt_u64 n \<noteq> []"
  by (simp add: fmt_u64_def)

lemma fmt_u64_is_digit: "c \<in> set (fmt_u64 n) \<Longrightarrow> is_digit c"
  using dec_digits_less by (fastforce simp: fmt_u64_def is_digit_def)

lemma digits_value_map: "\<forall>d \<in> set ds. d < 10 \<Longrightarrow>
    foldl (\<lambda>v c. v * 10 + (of_char c - 48)) w (map digit_char ds) = foldl (\<lambda>v d. v * 10 + d) w ds"
  by (induction ds arbitrary: w) auto

lemma digits_value_fmt_u64 [simp]: "digits_value (fmt_u64 n) = n"
  using digits_value_map [of "dec_digits n" 0] dec_digits_less dec_digits_value
  by (auto simp: digits_value_def fmt_u64_def)

text \<open>A number that is bound as text is read back when it is compared with an integer.\<close>

lemma number_of_fmt_u64 [simp]: "number_of_text (fmt_u64 n) = Some (int n)"
proof -
  obtain c s where cs: "fmt_u64 n = c # s" using fmt_u64_nonempty by (meson neq_Nil_conv)
  then have d: "is_digit c" using fmt_u64_is_digit [of c n] by simp
  then have "c \<noteq> CHR ''-''" "c \<noteq> CHR ''+''" by (auto simp: is_digit_def)
  moreover have "list_all is_digit (fmt_u64 n)" by (simp add: list_all_iff fmt_u64_is_digit)
  moreover have "digits_value (c # s) = n" using cs digits_value_fmt_u64 [of n] by simp
  ultimately show ?thesis by (simp add: number_of_text_def cs)
qed

end
