(* ===== verification/Listener.thy ===== *)
theory Listener
  imports Sql Serving
begin

text \<open>
  \<^verbatim>\<open>cli/listener/src/lib.rs\<close>: the daemon that records the exchange rate of the pool in an SQLite
  database and serves the yield between two dates over HTTP.

  A \<open>DateTime<Utc>\<close> is the number of nanoseconds since the Unix epoch and a \<open>chrono::Duration\<close> a
  number of nanoseconds; what the code uses of chrono beyond adding them is the parameter
  \<open>chrono\<close>. The database is a parameter over an arbitrary type \<open>'db\<close>; the table and the SQL
  statements of the source are definitions here, in the syntax of the theory \<open>Sql\<close>, and so are the conversions
  between values of Rust and of SQL and \<open>query_row\<close>, which follow the documentation of rusqlite. Floating point operations, the URL parser and the JSON printer are parameters
  too. \<open>u64\<close> arithmetic wraps, as in a release build, and a panic aborts the process. Times that
  the code reads from the system are arguments.
\<close>

subsection \<open>Parameters\<close>

type_synonym datetime = int

record chrono =
  to_rfc3339 :: "datetime \<Rightarrow> string"
  to_rfc2822 :: "datetime \<Rightarrow> string"
  datetime_from_str :: "string \<Rightarrow> datetime option"
  datetime_min :: datetime
  datetime_max :: datetime
  duration_div :: "int \<Rightarrow> int \<Rightarrow> int"

record float_ops =
  f64_lit :: "int \<Rightarrow> f64"
  f64_of_u64 :: "u64 \<Rightarrow> f64"
  f64_of_i64 :: "int \<Rightarrow> f64"
  f64_mul :: "f64 \<Rightarrow> f64 \<Rightarrow> f64"
  f64_div :: "f64 \<Rightarrow> f64 \<Rightarrow> f64"
  f64_powf :: "f64 \<Rightarrow> f64 \<Rightarrow> f64"
  f64_mul_add :: "f64 \<Rightarrow> f64 \<Rightarrow> f64 \<Rightarrow> f64"

record url =
  path_segments :: "string list option"
  query_pairs :: "(string \<times> string) list"

subsection \<open>Data points\<close>

definition SOLIDO_ID :: string where
  "SOLIDO_ID = ''solido''"

definition QUERY_SLOT_OFFSET :: u64 where
  "QUERY_SLOT_OFFSET = 1000"

record data_point =
  point_id :: int
  point_timestamp :: datetime
  point_slot :: u64
  point_epoch :: epoch
  point_pool :: string
  price_lamports_numerator :: u64
  price_lamports_denominator :: u64

record interval_prices =
  begin_datetime :: datetime
  end_datetime :: datetime
  begin_epoch :: epoch
  end_epoch :: epoch
  begin_token_price_sol :: rational
  end_token_price_sol :: rational

definition duration_wall_time :: "interval_prices \<Rightarrow> int" where
  "duration_wall_time self = end_datetime self - begin_datetime self"

definition duration_epochs :: "interval_prices \<Rightarrow> u64" where
  "duration_epochs self = end_epoch self - begin_epoch self"

definition rational_div :: "float_ops \<Rightarrow> rational \<Rightarrow> rational \<Rightarrow> f64" where
  "rational_div Fl self rhs =
     f64_div Fl (f64_mul Fl (f64_of_u64 Fl (numerator self)) (f64_of_u64 Fl (denominator rhs)))
       (f64_mul Fl (f64_of_u64 Fl (denominator self)) (f64_of_u64 Fl (numerator rhs)))"

definition growth_factor :: "float_ops \<Rightarrow> interval_prices \<Rightarrow> f64" where
  "growth_factor Fl self = rational_div Fl (end_token_price_sol self) (begin_token_price_sol self)"

text \<open>\<open>num_seconds\<close> and \<open>num_days\<close> round towards zero.\<close>

definition whole_units :: "int \<Rightarrow> int \<Rightarrow> int" where
  "whole_units unit_ns d = sgn d * (\<bar>d\<bar> div unit_ns)"

definition annual_growth_factor :: "float_ops \<Rightarrow> interval_prices \<Rightarrow> f64" where
  "annual_growth_factor Fl self =
     f64_powf Fl (growth_factor Fl self)
       (f64_div Fl (f64_of_i64 Fl (365 * 86400))
          (f64_of_i64 Fl (whole_units 1000000000 (duration_wall_time self))))"

definition annual_percentage_yield :: "float_ops \<Rightarrow> interval_prices \<Rightarrow> f64" where
  "annual_percentage_yield Fl self =
     f64_mul_add Fl (annual_growth_factor Fl self) (f64_lit Fl 100) (f64_lit Fl (- 100))"

subsection \<open>The database\<close>

text \<open>\<open>create_db\<close>: only the first of its three statements is executed.\<close>

definition col_def :: "string \<Rightarrow> col_type \<Rightarrow> bool \<Rightarrow> column_def" where
  "col_def n ty not_null = \<lparr>col_name = n, col_type = ty, col_not_null = not_null\<rparr>"

definition exchange_rate_table :: table_def where
  "exchange_rate_table =
     \<lparr>table_name = ''exchange_rate'',
      table_columns =
        [col_def ''id'' IntegerType False,
         col_def ''timestamp'' TextType False,
         col_def ''slot'' IntegerType True,
         col_def ''epoch'' IntegerType True,
         col_def ''pool'' TextType True,
         col_def ''price_lamports_numerator'' IntegerType True,
         col_def ''price_lamports_denominator'' IntegerType True],
      primary_key = ''id'',
      table_checks = [(''price_lamports_denominator'', SqlGreater, 0)]\<rparr>"

definition create_db :: "'db sqlite \<Rightarrow> 'db \<Rightarrow> ('db, sqlite_error) result" where
  "create_db S db = create_table S db exchange_rate_table"

definition first_epoch_stmt :: statement where
  "first_epoch_stmt = SelectAggregate SqlMin ''epoch'' ''exchange_rate''
     (SqlAnd (Compare ''pool'' SqlEq ''pool'') (Compare ''timestamp'' SqlGreater ''t''))"

definition last_epoch_stmt :: statement where
  "last_epoch_stmt = SelectAggregate SqlMax ''epoch'' ''exchange_rate''
     (SqlAnd (Compare ''pool'' SqlEq ''pool'') (Compare ''timestamp'' SqlLess ''t''))"

definition exchange_rate_stmt :: statement where
  "exchange_rate_stmt = SelectAll ''exchange_rate''
     (SqlAnd (SqlAnd (Compare ''pool'' SqlEq ''pool'') (Compare ''epoch'' SqlEq ''epoch''))
        (Compare ''slot'' SqlGreaterEq ''slot_min'')) 1"

definition insert_price_stmt :: insertion where
  "insert_price_stmt =
     \<lparr>insert_into = ''exchange_rate'',
      insert_columns = [''timestamp'', ''slot'', ''epoch'', ''pool'', ''price_lamports_numerator'',
        ''price_lamports_denominator''],
      insert_values = [1, 2, 3, 4, 5, 6]\<rparr>"

text \<open>\<open>Row::get\<close> at the types that the code uses.\<close>

definition row_get :: "(sql_value \<Rightarrow> ('a, sqlite_error) result) \<Rightarrow> sql_row \<Rightarrow> nat \<Rightarrow> ('a, sqlite_error) result" where
  "row_get from_sql row i = (if i < length row then from_sql (row ! i) else Err InvalidColumnIndex)"

fun string_from_sql :: "sql_value \<Rightarrow> (string, sqlite_error) result" where
  "string_from_sql (SqlText s) = Ok s"
| "string_from_sql v = Err InvalidColumnType"

fun u64_from_sql :: "sql_value \<Rightarrow> (u64, sqlite_error) result" where
  "u64_from_sql (SqlInteger i) = (if i < 0 then Err IntegralValueOutOfRange else Ok (word_of_int i))"
| "u64_from_sql v = Err InvalidColumnType"

fun i32_from_sql :: "sql_value \<Rightarrow> (int, sqlite_error) result" where
  "i32_from_sql (SqlInteger i) = (if i < - (2 ^ 31) \<or> 2 ^ 31 \<le> i then Err IntegralValueOutOfRange else Ok i)"
| "i32_from_sql v = Err InvalidColumnType"

definition u64_to_sql :: "u64 \<Rightarrow> (sql_value, sqlite_error) result" where
  "u64_to_sql x = (if uint x < 2 ^ 63 then Ok (SqlInteger (uint x)) else Err ToSqlConversionFailure)"

definition row_map :: "chrono \<Rightarrow> sql_row \<Rightarrow> (data_point, sqlite_error) result" where
  "row_map H row =
     and_then (row_get string_from_sql row 1) (\<lambda>text.
     and_then (unwrap_opt (datetime_from_str H text)) (\<lambda>timestamp.
     and_then (row_get i32_from_sql row 0) (\<lambda>i.
     and_then (row_get u64_from_sql row 2) (\<lambda>slot.
     and_then (row_get u64_from_sql row 3) (\<lambda>epoch.
     and_then (row_get string_from_sql row 4) (\<lambda>pool.
     and_then (row_get u64_from_sql row 5) (\<lambda>num.
     and_then (row_get u64_from_sql row 6) (\<lambda>den.
     Ok \<lparr>point_id = i, point_timestamp = timestamp, point_slot = slot, point_epoch = epoch,
         point_pool = pool, price_lamports_numerator = num, price_lamports_denominator = den\<rparr>))))))))"

text \<open>\<open>query_row\<close>, and its use for an aggregate: \<open>NULL\<close> is not an integer. Every error ends the search.\<close>

definition query_row :: "'db sqlite \<Rightarrow> 'db \<Rightarrow> statement \<Rightarrow> sql_value list \<Rightarrow> (sql_row, sqlite_error) result" where
  "query_row S db stmt vs =
     and_then (bind_params S db stmt vs) (\<lambda>u.
     and_then (query S db stmt vs) (\<lambda>rows.
     case rows of [] \<Rightarrow> Err QueryReturnedNoRows | row # _ \<Rightarrow> Ok row))"

definition query_epoch :: "'db sqlite \<Rightarrow> 'db \<Rightarrow> statement \<Rightarrow> sql_value list \<Rightarrow> (u64, sqlite_error) result" where
  "query_epoch S db stmt vs = and_then (query_row S db stmt vs) (\<lambda>row. row_get u64_from_sql row 0)"

datatype 'a found = NotFound | Found 'a

definition find_point ::
  "chrono \<Rightarrow> 'db sqlite \<Rightarrow> epoch_schedule \<Rightarrow> 'db \<Rightarrow> string \<Rightarrow> statement \<Rightarrow> datetime \<Rightarrow>
   ((data_point, sqlite_error) result option found, sqlite_error) result" where
  "find_point H S schedule db pool epoch_stmt t =
     and_then (prepare S db epoch_stmt) (\<lambda>u.
     case query_epoch S db epoch_stmt [SqlText pool, SqlText (to_rfc3339 H t)] of
       Err e \<Rightarrow> Ok NotFound
     | Panic \<Rightarrow> Panic
     | Ok epoch \<Rightarrow>
         (case checked_add (get_first_slot_in_epoch schedule epoch) QUERY_SLOT_OFFSET of
            None \<Rightarrow> Ok NotFound
          | Some minimum_slot \<Rightarrow>
              (let vs = [SqlText pool, SqlText (fmt_u64 (unat epoch)), SqlText (fmt_u64 (unat minimum_slot))] in
               and_then (prepare S db exchange_rate_stmt) (\<lambda>u.
               and_then (bind_params S db exchange_rate_stmt vs) (\<lambda>u.
               case query S db exchange_rate_stmt vs of
                 Panic \<Rightarrow> Panic
               | Err e \<Rightarrow> Ok (Found (Some (Err e)))
               | Ok [] \<Rightarrow> Ok (Found None)
               | Ok (row # _) \<Rightarrow>
                   (case row_map H row of Panic \<Rightarrow> Panic | r \<Rightarrow> Ok (Found (Some r))))))))"

definition interval_prices_of :: "data_point \<Rightarrow> data_point \<Rightarrow> interval_prices" where
  "interval_prices_of first final =
     \<lparr>begin_datetime = point_timestamp first, end_datetime = point_timestamp final,
      begin_epoch = point_epoch first, end_epoch = point_epoch final,
      begin_token_price_sol = \<lparr>numerator = price_lamports_numerator first,
                               denominator = price_lamports_denominator first\<rparr>,
      end_token_price_sol = \<lparr>numerator = price_lamports_numerator final,
                             denominator = price_lamports_denominator final\<rparr>\<rparr>"

definition get_interval_price_for_period ::
  "chrono \<Rightarrow> 'db sqlite \<Rightarrow> epoch_schedule \<Rightarrow> 'db \<Rightarrow> datetime \<Rightarrow> datetime \<Rightarrow> string \<Rightarrow>
   (interval_prices option, sqlite_error) result" where
  "get_interval_price_for_period H S schedule db from_time to_time pool =
     and_then (find_point H S schedule db pool first_epoch_stmt from_time) (\<lambda>f.
     case f of
       NotFound \<Rightarrow> Ok None
     | Found first \<Rightarrow>
         and_then (find_point H S schedule db pool last_epoch_stmt to_time) (\<lambda>l.
         case l of
           NotFound \<Rightarrow> Ok None
         | Found final \<Rightarrow>
             (case (first, final) of
                (Some first, Some final) \<Rightarrow>
                  and_then first (\<lambda>first. and_then final (\<lambda>final. Ok (Some (interval_prices_of first final))))
              | _ \<Rightarrow> Ok None)))"

definition insert_price ::
  "chrono \<Rightarrow> 'db sqlite \<Rightarrow> 'db \<Rightarrow> data_point \<Rightarrow> ('db, sqlite_error) result" where
  "insert_price H S db p =
     and_then (u64_to_sql (point_slot p)) (\<lambda>slot.
     and_then (u64_to_sql (point_epoch p)) (\<lambda>epoch.
     and_then (u64_to_sql (price_lamports_numerator p)) (\<lambda>num.
     and_then (u64_to_sql (price_lamports_denominator p)) (\<lambda>den.
     execute S db insert_price_stmt
       [SqlText (to_rfc3339 H (point_timestamp p)), slot, epoch, SqlText (point_pool p), num, den]))))"

subsection \<open>Metrics\<close>

record price_metrics =
  price_polls :: u64
  price_errors :: u64
  average_30d_interval_price :: "interval_prices option"

definition price_metric_families :: "float_ops \<Rightarrow> price_metrics \<Rightarrow> metric_family list" where
  "price_metric_families Fl self =
     [mk_family ''solido_pricedb_polls_total''
        ''Number of times we polled the exchange rate, since launch.''
        ''counter'' [metric_new (MetricInt (price_polls self))],
      mk_family ''solido_pricedb_errors_total''
        (''Number of times we encountered an error while trying to get the exchange rate, '' @
         ''since launch.'')
        ''counter'' [metric_new (MetricInt (price_errors self))]] @
     (case average_30d_interval_price self of
        None \<Rightarrow> []
      | Some interval_price \<Rightarrow>
          [mk_family ''solido_pricedb_30d_average_apy'' ''Average 30d APY'' ''gauge''
             [metric_new (MetricFloat (annual_percentage_yield Fl interval_price))]])"

definition price_write_prometheus ::
  "fmt_env \<Rightarrow> float_ops \<Rightarrow> price_metrics \<Rightarrow> string \<Rightarrow> (string, 'e) result" where
  "price_write_prometheus F Fl self out = write_metrics F out (price_metric_families Fl self)"

subsection \<open>Requests\<close>

datatype response_error = BadRequest string | NotFoundError string | InternalServerError

datatype date_request_type = FixedDate | MovingTarget

record date_request =
  date_start :: datetime
  date_end :: datetime
  request_type :: date_request_type

text \<open>\<open>str::parse::<i64>\<close>.\<close>

definition i64_from_str :: "string \<Rightarrow> int option" where
  "i64_from_str s =
     (let neg = (s \<noteq> [] \<and> hd s = CHR ''-'');
          digits = (if s \<noteq> [] \<and> (hd s = CHR ''-'' \<or> hd s = CHR ''+'') then tl s else s);
          v = (if neg then - int (digits_value digits) else int (digits_value digits)) in
      if digits = [] \<or> \<not> list_all is_digit digits \<or> v < - (2 ^ 63) \<or> 2 ^ 63 \<le> v then None else Some v)"

text \<open>\<open>chrono::Duration::days\<close> panics when the duration does not fit 64-bit milliseconds; adding a
  duration to a date panics, and \<open>checked_sub_signed\<close> gives \<open>None\<close>, outside of the range of dates.\<close>

definition duration_days :: "int \<Rightarrow> (int, 'e) result" where
  "duration_days days =
     (let ms = days * 86400000 in if ms < - (2 ^ 63) \<or> 2 ^ 63 \<le> ms then Panic else Ok (ms * 1000000))"

definition in_datetime_range :: "chrono \<Rightarrow> datetime \<Rightarrow> bool" where
  "in_datetime_range H t \<longleftrightarrow> datetime_min H \<le> t \<and> t \<le> datetime_max H"

definition datetime_add :: "chrono \<Rightarrow> datetime \<Rightarrow> int \<Rightarrow> (datetime, 'e) result" where
  "datetime_add H t d = (if in_datetime_range H (t + d) then Ok (t + d) else Panic)"

definition checked_sub_signed :: "chrono \<Rightarrow> datetime \<Rightarrow> int \<Rightarrow> datetime option" where
  "checked_sub_signed H t d = (if in_datetime_range H (t - d) then Some (t - d) else None)"

definition launch_date :: datetime where
  "launch_date = 1630454400000000000"

definition begin_msg :: string where
  "begin_msg = ''Invalid ISO 8601 timestamp in 'begin' query parameter. '' @
     ''Expected e.g. '2022-02-15T23:59:59+00:00'. Note that query parameters must be url-encoded''"

definition end_msg :: string where
  "end_msg = ''Invalid ISO 8601 timestamp in 'end' query parameter. '' @
     ''Expected e.g. '2022-02-15T23:59:59+00:00'. Note that query parameters must be url-encoded.''"

definition days_msg :: string where
  "days_msg = ''Invalid number of days in 'days' query parameter. Expected e.g. '30'.''"

definition missing_msg :: "string \<Rightarrow> string" where
  "missing_msg name = ''Missing query parameter: '' @ [CHR 0x27] @ name @ [CHR 0x27] @
     '', 'days' or 'since_launch'' @ [CHR 0x27]"

definition exactly_one_msg :: "string \<Rightarrow> string" where
  "exactly_one_msg name = ''Exactly one of '' @ [CHR 0x27] @ name @ [CHR 0x27] @
     '' or 'days' or 'since_launch' must be specified.''"

definition date_param ::
  "chrono \<Rightarrow> datetime \<Rightarrow> datetime list \<times> datetime list \<Rightarrow> string \<times> string \<Rightarrow>
   (datetime list \<times> datetime list, response_error) result" where
  "date_param H now vecs kv =
     (let begin_vec = fst vecs; end_vec = snd vecs; k = fst kv; v = snd kv in
      if k = ''begin'' then
        and_then (ok_or (datetime_from_str H v) (BadRequest begin_msg)) (\<lambda>t. Ok (begin_vec @ [t], end_vec))
      else if k = ''end'' then
        and_then (ok_or (datetime_from_str H v) (BadRequest end_msg)) (\<lambda>t. Ok (begin_vec, end_vec @ [t]))
      else if k = ''days'' then
        and_then (ok_or (i64_from_str v) (BadRequest days_msg)) (\<lambda>days.
        and_then (duration_days days) (\<lambda>d.
        and_then (ok_or (checked_sub_signed H now d) (BadRequest ''Date range too large'')) (\<lambda>t.
        Ok (begin_vec @ [t], end_vec @ [now]))))
      else if k = ''since_launch'' then Ok (begin_vec @ [launch_date], end_vec @ [now])
      else Ok (begin_vec, end_vec))"

definition exactly_one :: "string \<Rightarrow> 'a list \<Rightarrow> ('a, response_error) result" where
  "exactly_one name xs =
     (case xs of
        [] \<Rightarrow> Err (BadRequest (missing_msg name))
      | [x] \<Rightarrow> Ok x
      | _ \<Rightarrow> Err (BadRequest (exactly_one_msg name)))"

definition get_date_params ::
  "chrono \<Rightarrow> (string \<times> string) list \<Rightarrow> datetime \<Rightarrow> (date_request, response_error) result" where
  "get_date_params H query_params now =
     and_then (try_fold (date_param H now) ([], []) query_params) (\<lambda>(begin_vec, end_vec).
     and_then (exactly_one ''begin'' begin_vec) (\<lambda>t0.
     and_then (exactly_one ''end'' end_vec) (\<lambda>t1.
     Ok \<lparr>date_start = t0, date_end = t1,
         request_type = (if t1 \<ge> now then MovingTarget else FixedDate)\<rparr>)))"

definition content_text :: "string \<times> string" where
  "content_text = (''Content-Type'', ''text/plain; charset=UTF-8'')"

fun get_error_response :: "response_error \<Rightarrow> response" where
  "get_error_response (BadRequest msg) = \<lparr>resp_status = 400, resp_headers = [content_text], resp_body = msg\<rparr>"
| "get_error_response (NotFoundError msg) = \<lparr>resp_status = 404, resp_headers = [content_text], resp_body = msg\<rparr>"
| "get_error_response InternalServerError =
     \<lparr>resp_status = 500, resp_headers = [content_text], resp_body = ''internal server error''\<rparr>"

definition get_success_response ::
  "float_ops \<Rightarrow> (interval_prices \<Rightarrow> f64 \<Rightarrow> string) \<Rightarrow> interval_prices \<Rightarrow> response" where
  "get_success_response Fl to_json ip =
     \<lparr>resp_status = 200,
      resp_headers = [(''Content-Type'', ''application/json; charset=UTF-8''),
                      (''Access-Control-Allow-Origin'', ''*'')],
      resp_body = to_json ip (annual_percentage_yield Fl ip)\<rparr>"

text \<open>\<open>as i32\<close>, and the division of a duration by it, which panics for zero.\<close>

definition as_i32 :: "u64 \<Rightarrow> int" where
  "as_i32 x = sint (ucast x :: 32 word)"

definition div_duration :: "chrono \<Rightarrow> int \<Rightarrow> int \<Rightarrow> (int, 'e) result" where
  "div_duration H d k = (if k = 0 then Panic else Ok (duration_div H d k))"

definition five_minutes :: int where
  "five_minutes = 300000000000"

definition moving_expiry ::
  "chrono \<Rightarrow> epoch_schedule \<Rightarrow> u64 \<Rightarrow> datetime \<Rightarrow> interval_prices \<Rightarrow> sysvar_clock \<Rightarrow> (datetime, 'e) result" where
  "moving_expiry H schedule slot_ms now ip clk =
     (let first_slot_next_epoch = get_first_slot_in_epoch schedule (clock_epoch clk + 1);
          slots_diff = first_slot_next_epoch - clock_slot clk in
      if duration_epochs ip > 0 then
        and_then (div_duration H (duration_wall_time ip) (as_i32 (duration_epochs ip))) (\<lambda>epoch_duration.
        and_then (div_duration H epoch_duration (as_i32 (get_slots_in_epoch schedule (end_epoch ip)))) (\<lambda>slot_duration.
        datetime_add H now (slot_duration * as_i32 (slots_diff * 8 div 10))))
      else datetime_add H now (sint (slots_diff * slot_ms) * 1000000))"

definition get_expires ::
  "chrono \<Rightarrow> epoch_schedule \<Rightarrow> u64 \<Rightarrow> datetime \<Rightarrow> interval_prices \<Rightarrow> sysvar_clock option \<Rightarrow> date_request_type \<Rightarrow>
   (datetime, 'e) result" where
  "get_expires H schedule slot_ms now ip current_clock kind =
     and_then (case kind of
         FixedDate \<Rightarrow> datetime_add H now 604800000000000
       | MovingTarget \<Rightarrow>
           (case current_clock of
              None \<Rightarrow> datetime_add H now five_minutes
            | Some clk \<Rightarrow> moving_expiry H schedule slot_ms now ip clk)) (\<lambda>expires_date.
     and_then (datetime_add H now five_minutes) (\<lambda>soonest.
     Ok (max expires_date soonest)))"

definition get_expires_header ::
  "chrono \<Rightarrow> epoch_schedule \<Rightarrow> u64 \<Rightarrow> datetime \<Rightarrow> interval_prices \<Rightarrow> sysvar_clock option \<Rightarrow> date_request_type \<Rightarrow>
   (string \<times> string, 'e) result" where
  "get_expires_header H schedule slot_ms now ip current_clock kind =
     map_ok (\<lambda>expires_date. (''Expires'', to_rfc2822 H expires_date))
       (get_expires H schedule slot_ms now ip current_clock kind)"

text \<open>What the request handlers use of the world, beside the database.\<close>

record listener_env =
  le_chrono :: chrono
  le_float :: float_ops
  le_fmt :: fmt_env
  le_schedule :: epoch_schedule
  le_slot_ms :: u64
  le_to_json :: "interval_prices \<Rightarrow> f64 \<Rightarrow> string"
  le_parse_url :: "string \<Rightarrow> url option"

definition get_interval_price_request ::
  "listener_env \<Rightarrow> 'db sqlite \<Rightarrow> 'db \<Rightarrow> date_request \<Rightarrow> datetime \<Rightarrow> sysvar_clock option \<Rightarrow> (response, 'e) result" where
  "get_interval_price_request W S db range_date now current_clock =
     and_then (expect (unchecked_transaction S db)) (\<lambda>u.
     case get_interval_price_for_period (le_chrono W) S (le_schedule W) db
         (date_start range_date) (date_end range_date) SOLIDO_ID of
       Panic \<Rightarrow> Panic
     | Err e \<Rightarrow> Ok (get_error_response InternalServerError)
     | Ok (Some ip) \<Rightarrow>
         map_ok (\<lambda>header. let r = get_success_response (le_float W) (le_to_json W) ip in
            r\<lparr>resp_headers := resp_headers r @ [header]\<rparr>)
           (get_expires_header (le_chrono W) (le_schedule W) (le_slot_ms W) now ip current_clock
             (request_type range_date))
     | Ok None \<Rightarrow>
         Ok (get_error_response (NotFoundError ''No data points for calculating the price interval.'')))"

datatype endpoint = MetricsEndpoint | IntervalPriceRequest date_request

definition parse_url :: "listener_env \<Rightarrow> string \<Rightarrow> datetime \<Rightarrow> (endpoint, response_error) result" where
  "parse_url W request_url now =
     and_then (ok_or (le_parse_url W request_url) (BadRequest ''Failed to parse url.'')) (\<lambda>parsed_url.
     case map_option rev (path_segments parsed_url) of
       Some (seg # rest) \<Rightarrow>
         if seg = ''apy'' then
           map_ok IntervalPriceRequest (get_date_params (le_chrono W) (query_pairs parsed_url) now)
         else if seg = ''metrics'' \<and> rest = [] then Ok MetricsEndpoint
         else Err (NotFoundError ''Unknown route.'')
     | _ \<Rightarrow> Err (NotFoundError ''Unknown route.''))"

record price_snapshot =
  ps_metrics :: price_metrics
  ps_clock :: "sysvar_clock option"

definition serve_price_request ::
  "listener_env \<Rightarrow> 'db sqlite \<Rightarrow> 'db \<Rightarrow> string \<Rightarrow> datetime \<Rightarrow> price_snapshot \<Rightarrow> (response, 'e) result" where
  "serve_price_request W S db request_url now snap =
     (case parse_url W request_url now of
        Panic \<Rightarrow> Panic
      | Err e \<Rightarrow> Ok (get_error_response e)
      | Ok MetricsEndpoint \<Rightarrow>
          map_ok (\<lambda>out. \<lparr>resp_status = 200, resp_headers = [text_plain_prometheus], resp_body = out\<rparr>)
            (price_write_prometheus (le_fmt W) (le_float W) (ps_metrics snap) [])
      | Ok (IntervalPriceRequest range_date) \<Rightarrow>
          get_interval_price_request W S db range_date now (ps_clock snap))"

subsection \<open>The daemon\<close>

definition insert_price_and_query_30d_price_interval ::
  "listener_env \<Rightarrow> 'db sqlite \<Rightarrow> 'db \<Rightarrow> data_point \<Rightarrow> datetime \<Rightarrow>
   (interval_prices option, sqlite_error) result \<times> 'db" where
  "insert_price_and_query_30d_price_interval W S db p now =
     (case insert_price (le_chrono W) S db p of
        Ok db' \<Rightarrow>
          (and_then (unchecked_transaction S db') (\<lambda>u.
           and_then (duration_days 30) (\<lambda>d.
           and_then (datetime_add (le_chrono W) now (- d)) (\<lambda>now_minus_30d.
           get_interval_price_for_period (le_chrono W) S (le_schedule W) db' now_minus_30d now SOLIDO_ID))), db')
      | Err e \<Rightarrow> (Err e, db)
      | Panic \<Rightarrow> (Panic, db))"

datatype listener_result =
    ErrPriceSnapshot cli_error
  | OkListener data_point "interval_prices option" sysvar_clock
  | ErrListener sqlite_error sysvar_clock

definition exchange_rate_closure ::
  "lenv \<Rightarrow> 'n rpc_client \<Rightarrow> pubkey \<Rightarrow> string \<Rightarrow> datetime \<Rightarrow> ('n, data_point \<times> sysvar_clock) reads" where
  "exchange_rate_closure E C solido_addr pool now =
     reads_bind (get_solido E solido_addr) (\<lambda>pool_state.
     reads_bind (get_clock E C) (\<lambda>clk.
     reads_return
       (\<lparr>point_id = 0, point_timestamp = now, point_slot = clock_slot clk, point_epoch = clock_epoch clk,
         point_pool = pool,
         price_lamports_numerator = lam (sol_balance (exchange_rate pool_state)),
         price_lamports_denominator = st_lam (st_sol_supply (exchange_rate pool_state))\<rparr>, clk)))"

definition get_and_save_exchange_rate ::
  "lenv \<Rightarrow> 'n rpc_client \<Rightarrow> listener_env \<Rightarrow> 'db sqlite \<Rightarrow> pubkey \<Rightarrow> string \<Rightarrow> datetime \<Rightarrow> datetime \<Rightarrow>
   snapshot_client \<Rightarrow> 'n \<Rightarrow> 'db \<Rightarrow>
   ((listener_result, cli_error) result \<times> snapshot_client \<times> 'n \<times> 'db) option" where
  "get_and_save_exchange_rate E C W S solido_addr pool read_at query_at client n db =
     (case with_snapshot C (exchange_rate_closure E C solido_addr pool read_at) client n of
        None \<Rightarrow> None
      | Some (Panic, client, n) \<Rightarrow> Some (Panic, client, n, db)
      | Some (Err err, client, n) \<Rightarrow> Some (Ok (ErrPriceSnapshot err), client, n, db)
      | Some (Ok (p, clk), client, n) \<Rightarrow>
          (case insert_price_and_query_30d_price_interval W S db p query_at of
             (Ok ips, db) \<Rightarrow> Some (Ok (OkListener p ips clk), client, n, db)
           | (Err e, db) \<Rightarrow> Some (Ok (ErrListener e clk), client, n, db)
           | (Panic, db) \<Rightarrow> Some (Panic, client, n, db)))"

record ('n, 'db) listener =
  li_client :: snapshot_client
  li_net :: 'n
  li_db :: 'db
  li_metrics :: price_metrics
  li_last_read_success :: instant
  li_snapshot :: price_snapshot

definition listener_new ::
  "lenv \<Rightarrow> 'n rpc_client \<Rightarrow> snapshot_client \<Rightarrow> 'n \<Rightarrow> 'db \<Rightarrow> instant \<Rightarrow> (('n, 'db) listener, cli_error) result option" where
  "listener_new E C client n db now =
     (case with_snapshot C (get_clock E C) client n of
        None \<Rightarrow> None
      | Some (Panic, client, n) \<Rightarrow> Some Panic
      | Some (r, client, n) \<Rightarrow>
          let empty_metrics = \<lparr>price_polls = 0, price_errors = 0, average_30d_interval_price = None\<rparr>;
              current_clock = (case r of Ok clk \<Rightarrow> Some clk | _ \<Rightarrow> None) in
          Some (Ok \<lparr>li_client = client, li_net = n, li_db = db, li_metrics = empty_metrics,
                    li_last_read_success = now,
                    li_snapshot = \<lparr>ps_metrics = empty_metrics, ps_clock = current_clock\<rparr>\<rparr>))"

definition listener_sleep_after_error :: "sleep_env \<Rightarrow> instant \<Rightarrow> ('n, 'db) listener \<Rightarrow> duration" where
  "listener_sleep_after_error R now d =
     (let time_since_last_success = now - li_last_read_success d;
          target_sleep_time = max (min_sleep_time R) (min 300000000000 time_since_last_success) in
      gen_range R 0 target_sleep_time)"

definition listener_sleep_time :: "u32 \<Rightarrow> duration" where
  "listener_sleep_time poll_interval_seconds = unat poll_interval_seconds * 1000000000"

definition observe_listener_result ::
  "sleep_env \<Rightarrow> u32 \<Rightarrow> instant \<Rightarrow> listener_result \<Rightarrow> ('n, 'db) listener \<Rightarrow> ('n, 'db) listener \<times> duration" where
  "observe_listener_result R poll_interval_seconds now result d =
     (let (d, sleep_time, current_clock) =
        (case result of
           ErrPriceSnapshot err \<Rightarrow>
             (let d = d\<lparr>li_metrics := (li_metrics d)\<lparr>price_errors := price_errors (li_metrics d) + 1\<rparr>\<rparr> in
              (d, listener_sleep_after_error R now d, None))
         | OkListener p ips clk \<Rightarrow>
             ((case ips of
                 None \<Rightarrow> d
               | Some ip \<Rightarrow> d\<lparr>li_metrics := (li_metrics d)\<lparr>average_30d_interval_price := Some ip\<rparr>\<rparr>),
              listener_sleep_time poll_interval_seconds, Some clk)
         | ErrListener err clk \<Rightarrow> (d, listener_sleep_after_error R now d, Some clk)) in
      (d\<lparr>li_snapshot := \<lparr>ps_metrics = li_metrics d, ps_clock = current_clock\<rparr>\<rparr>, sleep_time))"

definition listener_step ::
  "lenv \<Rightarrow> 'n rpc_client \<Rightarrow> listener_env \<Rightarrow> 'db sqlite \<Rightarrow> sleep_env \<Rightarrow> pubkey \<Rightarrow> u32 \<Rightarrow>
   datetime \<Rightarrow> datetime \<Rightarrow> instant \<Rightarrow> ('n, 'db) listener \<Rightarrow>
   (('n, 'db) listener \<times> duration, cli_error) result option" where
  "listener_step E C W S R solido_addr poll_interval_seconds read_at query_at now d =
     (let d = d\<lparr>li_metrics := (li_metrics d)\<lparr>price_polls := price_polls (li_metrics d) + 1\<rparr>\<rparr> in
      case get_and_save_exchange_rate E C W S solido_addr SOLIDO_ID read_at query_at
          (li_client d) (li_net d) (li_db d) of
        None \<Rightarrow> None
      | Some (r, client, n, db) \<Rightarrow>
          Some (map_ok (\<lambda>result.
            observe_listener_result R poll_interval_seconds now result
              (d\<lparr>li_client := client, li_net := n, li_db := db\<rparr>)) r))"

end
