(* ===== verification/ListenerFacts.thy ===== *)
theory ListenerFacts
  imports Listener
begin

text \<open>
  What the price listener guarantees. \<open>rfc3339_dates\<close> says that dates are written in a form that reads back
  and that sorts by time; \<open>price_history\<close> puts it together with a database that answers according to SQL:
  under it the search for the two data points of an interval is related to the list of
  recorded data points. The reference database is a list of rows and the reference dates are
  decimal numbers of fixed width.
\<close>

subsection \<open>Recorded data points\<close>

locale rfc3339_dates =
  fixes H :: chrono and lo hi :: datetime
  assumes reads_back: "lo \<le> t \<Longrightarrow> t \<le> hi \<Longrightarrow> datetime_from_str H (to_rfc3339 H t) = Some t"
    and sorts: "lo \<le> t \<Longrightarrow> t \<le> hi \<Longrightarrow> lo \<le> u \<Longrightarrow> u \<le> hi \<Longrightarrow>
      text_less (to_rfc3339 H t) (to_rfc3339 H u) \<longleftrightarrow> t < u"

definition row_of :: "chrono \<Rightarrow> data_point \<Rightarrow> sql_row" where
  "row_of H p =
     [SqlInteger (point_id p), SqlText (to_rfc3339 H (point_timestamp p)), SqlInteger (uint (point_slot p)),
      SqlInteger (uint (point_epoch p)), SqlText (point_pool p),
      SqlInteger (uint (price_lamports_numerator p)), SqlInteger (uint (price_lamports_denominator p))]"

definition storable :: "datetime \<Rightarrow> datetime \<Rightarrow> data_point \<Rightarrow> bool" where
  "storable lo hi p \<longleftrightarrow> lo \<le> point_timestamp p \<and> point_timestamp p \<le> hi \<and>
     uint (point_slot p) < 2 ^ 63 \<and> uint (point_epoch p) < 2 ^ 63 \<and>
     uint (price_lamports_numerator p) < 2 ^ 63 \<and> uint (price_lamports_denominator p) < 2 ^ 63 \<and>
     0 < price_lamports_denominator p"

definition records :: "chrono \<Rightarrow> datetime \<Rightarrow> datetime \<Rightarrow> sql_row \<Rightarrow> data_point \<Rightarrow> bool" where
  "records H lo hi r p \<longleftrightarrow> r = row_of H p \<and> 0 < point_id p \<and> point_id p < 2 ^ 31 \<and> storable lo hi p"

definition points_after :: "data_point list \<Rightarrow> string \<Rightarrow> datetime \<Rightarrow> data_point list" where
  "points_after ps pool t = filter (\<lambda>p. point_pool p = pool \<and> t < point_timestamp p) ps"

definition points_before :: "data_point list \<Rightarrow> string \<Rightarrow> datetime \<Rightarrow> data_point list" where
  "points_before ps pool t = filter (\<lambda>p. point_pool p = pool \<and> point_timestamp p < t) ps"

definition eligible :: "epoch_schedule \<Rightarrow> data_point list \<Rightarrow> string \<Rightarrow> epoch \<Rightarrow> data_point list" where
  "eligible schedule ps pool e =
     filter (\<lambda>p. point_pool p = pool \<and> point_epoch p = e \<and>
       unat (get_first_slot_in_epoch schedule e) + 1000 \<le> unat (point_slot p)) ps"

definition first_epoch :: "data_point list \<Rightarrow> epoch" where
  "first_epoch ps = Min (point_epoch ` set ps)"

definition last_epoch :: "data_point list \<Rightarrow> epoch" where
  "last_epoch ps = Max (point_epoch ` set ps)"

text \<open>The interval between two dates: a point from the first epoch with a point after the begin and one from
  the last epoch with a point before the end, both far enough into their epoch.\<close>

definition is_interval ::
  "epoch_schedule \<Rightarrow> data_point list \<Rightarrow> string \<Rightarrow> datetime \<Rightarrow> datetime \<Rightarrow> interval_prices \<Rightarrow> bool" where
  "is_interval schedule ps pool from_time to_time ip \<longleftrightarrow>
     points_after ps pool from_time \<noteq> [] \<and> points_before ps pool to_time \<noteq> [] \<and>
     (\<exists>p \<in> set (eligible schedule ps pool (first_epoch (points_after ps pool from_time))).
      \<exists>q \<in> set (eligible schedule ps pool (last_epoch (points_before ps pool to_time))).
        ip = interval_prices_of p q)"

lemma uint_Min: "finite A \<Longrightarrow> A \<noteq> {} \<Longrightarrow> Min (uint ` A) = uint (Min A)"
  by (rule mono_Min_commute [symmetric]) (auto simp: mono_def word_le_def)

lemma uint_Max: "finite A \<Longrightarrow> A \<noteq> {} \<Longrightarrow> Max (uint ` A) = uint (Max A)"
  by (rule mono_Max_commute [symmetric]) (auto simp: mono_def word_le_def)

lemma first_epoch_in: "ps \<noteq> [] \<Longrightarrow> \<exists>p \<in> set ps. first_epoch ps = point_epoch p"
proof -
  assume "ps \<noteq> []"
  then have "Min (point_epoch ` set ps) \<in> point_epoch ` set ps" by (intro Min_in) auto
  then show ?thesis unfolding first_epoch_def by blast
qed

lemma exchange_rate_columns:
  "column_value exchange_rate_table (row_of H p) ''id'' = SqlInteger (point_id p)"
  "column_value exchange_rate_table (row_of H p) ''timestamp'' = SqlText (to_rfc3339 H (point_timestamp p))"
  "column_value exchange_rate_table (row_of H p) ''slot'' = SqlInteger (uint (point_slot p))"
  "column_value exchange_rate_table (row_of H p) ''epoch'' = SqlInteger (uint (point_epoch p))"
  "column_value exchange_rate_table (row_of H p) ''pool'' = SqlText (point_pool p)"
  "column_value exchange_rate_table (row_of H p) ''price_lamports_numerator'' =
     SqlInteger (uint (price_lamports_numerator p))"
  "column_value exchange_rate_table (row_of H p) ''price_lamports_denominator'' =
     SqlInteger (uint (price_lamports_denominator p))"
  by (simp_all add: column_value_def column_index_def exchange_rate_table_def col_def_def row_of_def)

lemma exchange_rate_types:
  "column_type exchange_rate_table ''timestamp'' = TextType" "column_type exchange_rate_table ''slot'' = IntegerType"
  "column_type exchange_rate_table ''epoch'' = IntegerType" "column_type exchange_rate_table ''pool'' = TextType"
  "table_name exchange_rate_table = ''exchange_rate''" "primary_key exchange_rate_table = ''id''"
  by (simp_all add: column_type_def exchange_rate_table_def col_def_def)

lemma listener_statements_ok:
  "statement_ok exchange_rate_table first_epoch_stmt" "statement_ok exchange_rate_table last_epoch_stmt"
  "statement_ok exchange_rate_table exchange_rate_stmt" "insertion_ok exchange_rate_table insert_price_stmt"
  by (simp_all add: first_epoch_stmt_def last_epoch_stmt_def exchange_rate_stmt_def insert_price_stmt_def
      exchange_rate_table_def col_def_def insertion_ok_def)

lemma listener_params:
  "length (statement_params first_epoch_stmt) = 2" "length (statement_params last_epoch_stmt) = 2"
  "length (statement_params exchange_rate_stmt) = 3" "insert_into insert_price_stmt = ''exchange_rate''"
  "set (insert_values insert_price_stmt) = {1, 2, 3, 4, 5, 6}"
  by (simp_all add: first_epoch_stmt_def last_epoch_stmt_def exchange_rate_stmt_def insert_price_stmt_def)

locale price_history = sql_engine S exchange_rate_table rows + rfc3339_dates H lo hi
  for S :: "'db sqlite" and rows :: "'db \<Rightarrow> sql_row list" and H :: chrono and lo hi :: datetime
begin

abbreviation holds :: "'db \<Rightarrow> data_point list \<Rightarrow> bool" where
  "holds db ps \<equiv> list_all2 (records H lo hi) (rows db) ps"

abbreviation available :: "'db \<Rightarrow> bool" where
  "available db \<equiv> sql_available S exchange_rate_table rows db"

lemma row_map_records: "records H lo hi r p \<Longrightarrow> row_map H r = Ok p"
  using reads_back [of "point_timestamp p"]
  by (cases p) (simp add: records_def row_map_def row_of_def storable_def unwrap_opt_def row_get_def)

lemma holds_reads: "holds db ps \<Longrightarrow> map (row_map H) (rows db) = map Ok ps"
  by (induction rule: list_all2_induct) (simp_all add: row_map_records)

lemma matching_holds:
  assumes "holds db ps"
    and "\<And>p. storable lo hi p \<Longrightarrow> eval_cond exchange_rate_table (bound (cond_params w) vs) w (row_of H p) \<longleftrightarrow> Q p"
  shows "matching exchange_rate_table w vs (rows db) = map (row_of H) (filter Q ps)"
  using assms(1) unfolding matching_def
  by (induction rule: list_all2_induct) (auto simp: records_def assms(2))

lemma query_row_Ok: "query_row S db st vs = Ok row \<longleftrightarrow>
    bind_params S db st vs = Ok () \<and> (\<exists>rs. query S db st vs = Ok (row # rs))"
  by (auto simp: query_row_def and_then_def split: result.splits list.splits)

lemma query_epoch_Ok:
  assumes "query_epoch S db (SelectAggregate f ''epoch'' ''exchange_rate'' w) vs = Ok e" "length vs = length (cond_params w)"
  shows "u64_from_sql (eval_aggregate f (map (\<lambda>r. column_value exchange_rate_table r ''epoch'')
    (matching exchange_rate_table w vs (rows db)))) = Ok e"
proof -
  from assms obtain row rs where q: "query S db (SelectAggregate f ''epoch'' ''exchange_rate'' w) vs = Ok (row # rs)"
    and e: "row_get u64_from_sql row 0 = Ok e"
    by (auto simp: query_epoch_def and_then_eq_Ok query_row_Ok)
  show ?thesis
    using aggregate_answer [of db f "''epoch''" w vs, unfolded exchange_rate_types, OF q assms(2)] e
    by (simp add: row_get_def)
qed

lemma query_epoch_answers:
  assumes "available db" "statement_ok exchange_rate_table (SelectAggregate f ''epoch'' ''exchange_rate'' w)"
    "length vs = length (cond_params w)"
  shows "query_epoch S db (SelectAggregate f ''epoch'' ''exchange_rate'' w) vs =
    u64_from_sql (eval_aggregate f (map (\<lambda>r. column_value exchange_rate_table r ''epoch'')
      (matching exchange_rate_table w vs (rows db))))"
proof -
  let ?st = "SelectAggregate f ''epoch'' ''exchange_rate'' w"
  obtain rs where q: "query S db ?st vs = Ok rs" using available_statement(3) [OF assms(1,2)] assms(3) by auto
  have b: "bind_params S db ?st vs = Ok ()" using available_statement(2) [OF assms(1,2)] assms(3) by auto
  from aggregate_answer [of db f "''epoch''" w vs, unfolded exchange_rate_types, OF q assms(3)]
  show ?thesis by (simp add: query_epoch_def query_row_def b q row_get_def)
qed

lemma min_epoch_of: "u64_from_sql (eval_aggregate SqlMin (map (SqlInteger \<circ> uint \<circ> point_epoch) ps)) =
    (if ps = [] then Err InvalidColumnType else Ok (first_epoch ps))"
proof -
  have "map (SqlInteger \<circ> uint \<circ> point_epoch) ps = map SqlInteger (map (uint \<circ> point_epoch) ps)" by simp
  moreover have "Min (set (map (uint \<circ> point_epoch) ps)) = uint (first_epoch ps)" if "ps \<noteq> []"
    unfolding first_epoch_def using that by (subst uint_Min [symmetric]) (auto simp: image_comp)
  ultimately show ?thesis unfolding aggregate_Min by (simp only: aggregate_Min) (simp add: not_less)
qed

lemma max_epoch_of: "u64_from_sql (eval_aggregate SqlMax (map (SqlInteger \<circ> uint \<circ> point_epoch) ps)) =
    (if ps = [] then Err InvalidColumnType else Ok (last_epoch ps))"
proof -
  have "map (SqlInteger \<circ> uint \<circ> point_epoch) ps = map SqlInteger (map (uint \<circ> point_epoch) ps)" by simp
  moreover have "Max (set (map (uint \<circ> point_epoch) ps)) = uint (last_epoch ps)" if "ps \<noteq> []"
    unfolding last_epoch_def using that by (subst uint_Max [symmetric]) (auto simp: image_comp)
  ultimately show ?thesis by (simp only: aggregate_Max) (simp add: not_less)
qed

lemma first_matching:
  assumes "holds db ps" "lo \<le> t" "t \<le> hi"
  shows "map (\<lambda>r. column_value exchange_rate_table r ''epoch'') (matching exchange_rate_table
      (SqlAnd (Compare ''pool'' SqlEq ''pool'') (Compare ''timestamp'' SqlGreater ''t''))
      [SqlText pool, SqlText (to_rfc3339 H t)] (rows db)) =
    map (SqlInteger \<circ> uint \<circ> point_epoch) (points_after ps pool t)"
proof -
  have "matching exchange_rate_table (SqlAnd (Compare ''pool'' SqlEq ''pool'') (Compare ''timestamp'' SqlGreater ''t''))
      [SqlText pool, SqlText (to_rfc3339 H t)] (rows db) = map (row_of H) (points_after ps pool t)"
    unfolding points_after_def using assms(1)
    by (rule matching_holds)
      (use assms(2,3) in \<open>auto simp: bound_def sql_compare_def exchange_rate_columns exchange_rate_types storable_def sorts\<close>)
  then show ?thesis by (simp add: exchange_rate_columns)
qed

lemma last_matching:
  assumes "holds db ps" "lo \<le> t" "t \<le> hi"
  shows "map (\<lambda>r. column_value exchange_rate_table r ''epoch'') (matching exchange_rate_table
      (SqlAnd (Compare ''pool'' SqlEq ''pool'') (Compare ''timestamp'' SqlLess ''t''))
      [SqlText pool, SqlText (to_rfc3339 H t)] (rows db)) =
    map (SqlInteger \<circ> uint \<circ> point_epoch) (points_before ps pool t)"
proof -
  have "matching exchange_rate_table (SqlAnd (Compare ''pool'' SqlEq ''pool'') (Compare ''timestamp'' SqlLess ''t''))
      [SqlText pool, SqlText (to_rfc3339 H t)] (rows db) = map (row_of H) (points_before ps pool t)"
    unfolding points_before_def using assms(1)
    by (rule matching_holds)
      (use assms(2,3) in \<open>auto simp: bound_def sql_compare_def exchange_rate_columns exchange_rate_types storable_def sorts\<close>)
  then show ?thesis by (simp add: exchange_rate_columns)
qed

lemma first_epoch_query:
  assumes "holds db ps" "lo \<le> t" "t \<le> hi"
  shows "query_epoch S db first_epoch_stmt [SqlText pool, SqlText (to_rfc3339 H t)] = Ok e \<Longrightarrow>
      points_after ps pool t \<noteq> [] \<and> e = first_epoch (points_after ps pool t)"
    and "available db \<Longrightarrow> query_epoch S db first_epoch_stmt [SqlText pool, SqlText (to_rfc3339 H t)] =
      (if points_after ps pool t = [] then Err InvalidColumnType else Ok (first_epoch (points_after ps pool t)))"
proof -
  assume "query_epoch S db first_epoch_stmt [SqlText pool, SqlText (to_rfc3339 H t)] = Ok e"
  from query_epoch_Ok [OF this [unfolded first_epoch_stmt_def]]
  have "(if points_after ps pool t = [] then Err InvalidColumnType else Ok (first_epoch (points_after ps pool t))) = Ok e"
    by (simp add: first_matching [OF assms] min_epoch_of)
  then show "points_after ps pool t \<noteq> [] \<and> e = first_epoch (points_after ps pool t)" by (simp split: if_splits)
next
  assume "available db"
  from query_epoch_answers [OF this listener_statements_ok(1) [unfolded first_epoch_stmt_def]]
  show "query_epoch S db first_epoch_stmt [SqlText pool, SqlText (to_rfc3339 H t)] =
      (if points_after ps pool t = [] then Err InvalidColumnType else Ok (first_epoch (points_after ps pool t)))"
    by (simp add: first_epoch_stmt_def first_matching [OF assms] min_epoch_of)
qed

lemma last_epoch_query:
  assumes "holds db ps" "lo \<le> t" "t \<le> hi"
  shows "query_epoch S db last_epoch_stmt [SqlText pool, SqlText (to_rfc3339 H t)] = Ok e \<Longrightarrow>
      points_before ps pool t \<noteq> [] \<and> e = last_epoch (points_before ps pool t)"
    and "available db \<Longrightarrow> query_epoch S db last_epoch_stmt [SqlText pool, SqlText (to_rfc3339 H t)] =
      (if points_before ps pool t = [] then Err InvalidColumnType else Ok (last_epoch (points_before ps pool t)))"
proof -
  assume "query_epoch S db last_epoch_stmt [SqlText pool, SqlText (to_rfc3339 H t)] = Ok e"
  from query_epoch_Ok [OF this [unfolded last_epoch_stmt_def]]
  have "(if points_before ps pool t = [] then Err InvalidColumnType else Ok (last_epoch (points_before ps pool t))) = Ok e"
    by (simp add: last_matching [OF assms] max_epoch_of)
  then show "points_before ps pool t \<noteq> [] \<and> e = last_epoch (points_before ps pool t)" by (simp split: if_splits)
next
  assume "available db"
  from query_epoch_answers [OF this listener_statements_ok(2) [unfolded last_epoch_stmt_def]]
  show "query_epoch S db last_epoch_stmt [SqlText pool, SqlText (to_rfc3339 H t)] =
      (if points_before ps pool t = [] then Err InvalidColumnType else Ok (last_epoch (points_before ps pool t)))"
    by (simp add: last_epoch_stmt_def last_matching [OF assms] max_epoch_of)
qed

lemma query_epoch_no_Panic: "query_epoch S db st vs \<noteq> Panic"
proof -
  have "row_get u64_from_sql row 0 \<noteq> Panic" for row
    by (cases "row ! 0") (simp_all add: row_get_def)
  then show ?thesis
    using no_panic by (auto simp: query_epoch_def query_row_def and_then_def split: result.splits list.splits)
qed

lemma rate_matching:
  fixes slot :: u64
  assumes "holds db ps" "unat slot = unat (get_first_slot_in_epoch schedule e) + 1000"
  shows "matching exchange_rate_table
      (SqlAnd (SqlAnd (Compare ''pool'' SqlEq ''pool'') (Compare ''epoch'' SqlEq ''epoch''))
        (Compare ''slot'' SqlGreaterEq ''slot_min''))
      [SqlText pool, SqlText (fmt_u64 (unat e)), SqlText (fmt_u64 (unat slot))] (rows db) =
    map (row_of H) (eligible schedule ps pool e)"
proof -
  have "slot \<le> point_slot p \<longleftrightarrow> unat (get_first_slot_in_epoch schedule e) + 1000 \<le> unat (point_slot p)" for p
    using assms(2) by (simp add: word_le_nat_alt)
  then show ?thesis
    unfolding eligible_def using assms(1)
    by (intro matching_holds)
      (auto simp: bound_def sql_compare_def exchange_rate_columns exchange_rate_types word_uint_eq_iff not_less
        word_le_def)
qed

lemma rate_query:
  fixes slot :: u64
  assumes "holds db ps" "unat slot = unat (get_first_slot_in_epoch schedule e) + 1000"
    and "query S db exchange_rate_stmt [SqlText pool, SqlText (fmt_u64 (unat e)), SqlText (fmt_u64 (unat slot))] = Ok rs"
  shows "rs = [] \<and> eligible schedule ps pool e = [] \<or> (\<exists>p \<in> set (eligible schedule ps pool e). rs = [row_of H p])"
proof -
  let ?m = "map (row_of H) (eligible schedule ps pool e)"
  have sub: "mset rs \<subseteq># mset ?m" and len: "length rs = min 1 (length ?m)"
    using rows_answer [of db _ 1 _ rs, unfolded exchange_rate_types, OF assms(3) [unfolded exchange_rate_stmt_def]]
      rate_matching [OF assms(1,2), of pool] by simp_all
  show ?thesis
  proof (cases rs)
    case (Cons r rs')
    then have "rs' = []" using len by (cases rs') auto
    moreover have "r \<in> set ?m" using sub Cons by (metis in_multiset_in_set list.set_intros(1) mset_subset_eqD)
    ultimately show ?thesis using Cons by auto
  qed (use len in \<open>simp add: min_def split: if_splits\<close>)
qed

lemma eligible_overflow:
  "unat (get_first_slot_in_epoch schedule e) + 1000 \<ge> 2 ^ 64 \<Longrightarrow> eligible schedule ps pool e = []"
proof -
  assume "unat (get_first_slot_in_epoch schedule e) + 1000 \<ge> 2 ^ 64"
  moreover have "unat (point_slot p) < 2 ^ 64" for p :: data_point using unsigned_less [of "point_slot p"] by simp
  ultimately have "\<not> unat (get_first_slot_in_epoch schedule e) + 1000 \<le> unat (point_slot p)" for p :: data_point
    by (meson leD less_le_trans not_le)
  then show ?thesis by (simp add: eligible_def filter_empty_conv)
qed

lemma offset_added:
  "checked_add x QUERY_SLOT_OFFSET = (if unat x + 1000 < 2 ^ 64 then Some (x + QUERY_SLOT_OFFSET) else None)"
  "unat x + 1000 < 2 ^ 64 \<Longrightarrow> unat (x + QUERY_SLOT_OFFSET) = unat x + 1000"
  by (simp_all add: checked_add_def QUERY_SLOT_OFFSET_def unat_word_ariths)

lemma records_in:
  assumes "holds db ps" "p \<in> set (eligible schedule ps pool e)"
  shows "row_map H (row_of H p) = Ok p"
proof -
  from assms(2) obtain i where i: "i < length ps" "ps ! i = p" by (auto simp: eligible_def in_set_conv_nth)
  then have "records H lo hi (rows db ! i) p" using assms(1) by (auto simp: list_all2_conv_all_nth)
  then show ?thesis using row_map_records by (simp add: records_def)
qed

lemma find_point_sound:
  assumes "holds db ps"
  shows "find_point H S schedule db pool st t \<noteq> Panic"
    and "find_point H S schedule db pool st t = Ok (Found (Some (Ok p))) \<Longrightarrow>
      \<exists>e. query_epoch S db st [SqlText pool, SqlText (to_rfc3339 H t)] = Ok e \<and> p \<in> set (eligible schedule ps pool e)"
proof -
  let ?q = "query_epoch S db st [SqlText pool, SqlText (to_rfc3339 H t)]"
  let ?f = "find_point H S schedule db pool st t"
  have "?f \<noteq> Panic \<and> (?f = Ok (Found (Some (Ok p))) \<longrightarrow> (\<exists>e. ?q = Ok e \<and> p \<in> set (eligible schedule ps pool e)))"
  proof (cases ?q)
    case (Ok e)
    let ?slot = "get_first_slot_in_epoch schedule e + QUERY_SLOT_OFFSET"
    let ?vs = "[SqlText pool, SqlText (fmt_u64 (unat e)), SqlText (fmt_u64 (unat ?slot))]"
    have rows: "rs = [] \<or> (\<exists>p \<in> set (eligible schedule ps pool e). rs = [row_of H p])"
      if "query S db exchange_rate_stmt ?vs = Ok rs" "unat (get_first_slot_in_epoch schedule e) + 1000 < 2 ^ 64" for rs
      using rate_query [OF assms offset_added(2) [OF that(2)] that(1)] by auto
    show ?thesis
    proof (cases "query S db exchange_rate_stmt ?vs")
      case q: (Ok rs)
      show ?thesis
        using no_panic(1,2) rows [OF q] records_in [OF assms]
        by (auto simp: find_point_def Ok q offset_added(1) Let_def and_then_def split: result.splits)
    qed (use no_panic in \<open>auto simp: find_point_def Ok offset_added(1) Let_def and_then_def split: result.splits\<close>)
  qed (use no_panic(1) query_epoch_no_Panic in \<open>auto simp: find_point_def and_then_def split: result.splits\<close>)
  then show "?f \<noteq> Panic" and "?f = Ok (Found (Some (Ok p))) \<Longrightarrow> \<exists>e. ?q = Ok e \<and> p \<in> set (eligible schedule ps pool e)"
    by auto
qed

lemma find_point_complete:
  assumes h: "holds db ps" and av: "available db" and st: "statement_ok exchange_rate_table st"
  shows "(\<exists>p. find_point H S schedule db pool st t = Ok (Found (Some (Ok p)))) \<or>
    find_point H S schedule db pool st t \<in> {Ok NotFound, Ok (Found None)} \<and>
    (\<forall>e. query_epoch S db st [SqlText pool, SqlText (to_rfc3339 H t)] = Ok e \<longrightarrow> eligible schedule ps pool e = [])"
proof (cases "query_epoch S db st [SqlText pool, SqlText (to_rfc3339 H t)]")
  case (Ok e)
  let ?slot = "get_first_slot_in_epoch schedule e + QUERY_SLOT_OFFSET"
  let ?vs = "[SqlText pool, SqlText (fmt_u64 (unat e)), SqlText (fmt_u64 (unat ?slot))]"
  note prep = available_statement(1) [OF av st] available_statement(1) [OF av listener_statements_ok(3)]
  have len: "length ?vs = length (statement_params exchange_rate_stmt)" by (simp add: listener_params)
  obtain rs where q: "query S db exchange_rate_stmt ?vs = Ok rs"
    using available_statement(3) [OF av listener_statements_ok(3) len] by blast
  note b = available_statement(2) [OF av listener_statements_ok(3) len]
  show ?thesis
  proof (cases "unat (get_first_slot_in_epoch schedule e) + 1000 < 2 ^ 64")
    case True
    then have add: "checked_add (get_first_slot_in_epoch schedule e) QUERY_SLOT_OFFSET = Some ?slot"
      by (simp add: offset_added(1))
    from rate_query [OF h offset_added(2) [OF True] q] show ?thesis
      using records_in [OF h] by (elim disjE conjE bexE) (simp_all add: find_point_def prep Ok add b q)
  next
    case False
    then show ?thesis by (simp add: find_point_def prep Ok offset_added(1) eligible_overflow)
  qed
qed (use query_epoch_no_Panic available_statement(1) [OF av st] in \<open>auto simp: find_point_def\<close>)

lemma interval_sound:
  assumes h: "holds db ps" and dates: "lo \<le> from_time" "from_time \<le> hi" "lo \<le> to_time" "to_time \<le> hi"
  shows "get_interval_price_for_period H S schedule db from_time to_time pool \<noteq> Panic"
    and "get_interval_price_for_period H S schedule db from_time to_time pool = Ok (Some ip) \<Longrightarrow>
      is_interval schedule ps pool from_time to_time ip"
proof -
  let ?f = "find_point H S schedule db pool first_epoch_stmt from_time"
  let ?l = "find_point H S schedule db pool last_epoch_stmt to_time"
  note np = find_point_sound(1) [OF h, of schedule pool]
  have found: "?f \<noteq> Ok (Found (Some Panic))" "?l \<noteq> Ok (Found (Some Panic))"
    by (auto simp: find_point_def and_then_def Let_def split: result.splits option.splits list.splits)
  show "get_interval_price_for_period H S schedule db from_time to_time pool \<noteq> Panic"
    using np [of first_epoch_stmt from_time] np [of last_epoch_stmt to_time] found
    by (auto simp: get_interval_price_for_period_def and_then_def split: result.splits found.splits option.splits)
  assume "get_interval_price_for_period H S schedule db from_time to_time pool = Ok (Some ip)"
  then obtain p q where p: "?f = Ok (Found (Some (Ok p)))" and q: "?l = Ok (Found (Some (Ok q)))"
    and ip: "ip = interval_prices_of p q"
    by (cases ?f; cases ?l) (auto simp: get_interval_price_for_period_def and_then_eq_Ok split: found.splits option.splits)
  obtain e where e: "query_epoch S db first_epoch_stmt [SqlText pool, SqlText (to_rfc3339 H from_time)] = Ok e"
    "p \<in> set (eligible schedule ps pool e)" using find_point_sound(2) [OF h p] by blast
  obtain e' where e': "query_epoch S db last_epoch_stmt [SqlText pool, SqlText (to_rfc3339 H to_time)] = Ok e'"
    "q \<in> set (eligible schedule ps pool e')" using find_point_sound(2) [OF h q] by blast
  show "is_interval schedule ps pool from_time to_time ip"
    unfolding is_interval_def ip
    using first_epoch_query(1) [OF h dates(1,2) e(1)] last_epoch_query(1) [OF h dates(3,4) e'(1)] e(2) e'(2) by blast
qed

lemma interval_complete:
  assumes h: "holds db ps" and dates: "lo \<le> from_time" "from_time \<le> hi" "lo \<le> to_time" "to_time \<le> hi"
    and av: "available db"
  shows "(\<exists>ip. get_interval_price_for_period H S schedule db from_time to_time pool = Ok (Some ip)) \<or>
    get_interval_price_for_period H S schedule db from_time to_time pool = Ok None \<and>
    (\<forall>ip. \<not> is_interval schedule ps pool from_time to_time ip)"
proof -
  let ?f = "find_point H S schedule db pool first_epoch_stmt from_time"
  let ?l = "find_point H S schedule db pool last_epoch_stmt to_time"
  note f = find_point_complete [OF h av listener_statements_ok(1), of schedule pool from_time,
      unfolded first_epoch_query(2) [OF h dates(1,2) av]]
  note l = find_point_complete [OF h av listener_statements_ok(2), of schedule pool to_time,
      unfolded last_epoch_query(2) [OF h dates(3,4) av]]
  show ?thesis
  proof (cases "(\<exists>p. ?f = Ok (Found (Some (Ok p)))) \<and> (\<exists>q. ?l = Ok (Found (Some (Ok q))))")
    case True
    then show ?thesis by (auto simp: get_interval_price_for_period_def)
  next
    case False
    then have "get_interval_price_for_period H S schedule db from_time to_time pool = Ok None"
      using f l by (auto simp: get_interval_price_for_period_def)
    moreover have "\<not> is_interval schedule ps pool from_time to_time ip" for ip
      using f l False by (auto simp: is_interval_def split: if_splits)
    ultimately show ?thesis by blast
  qed
qed

lemma inserted_price_row:
  "inserted_row exchange_rate_table insert_price_stmt
     [SqlText (to_rfc3339 H (point_timestamp p)), SqlInteger (uint (point_slot p)), SqlInteger (uint (point_epoch p)),
      SqlText (point_pool p), SqlInteger (uint (price_lamports_numerator p)),
      SqlInteger (uint (price_lamports_denominator p))] rs =
   row_of H (p\<lparr>point_id := next_rowid exchange_rate_table rs\<rparr>)"
  by (simp add: inserted_row_def inserted_value_def exchange_rate_table_def col_def_def insert_price_stmt_def row_of_def)

lemma price_constraints: "constraints_ok exchange_rate_table (row_of H p) \<longleftrightarrow> 0 < price_lamports_denominator p"
proof -
  have "constraints_ok exchange_rate_table (row_of H p) \<longleftrightarrow>
      sql_compare SqlGreater (SqlInteger (uint (price_lamports_denominator p))) (SqlInteger 0)"
    unfolding constraints_ok_def
    by (subst (1 2) exchange_rate_table_def) (simp add: col_def_def exchange_rate_columns)
  then show ?thesis by (simp add: sql_compare_def word_less_def)
qed

lemma insert_price_execute:
  assumes "storable lo hi p"
  shows "insert_price H S db p = execute S db insert_price_stmt
    [SqlText (to_rfc3339 H (point_timestamp p)), SqlInteger (uint (point_slot p)), SqlInteger (uint (point_epoch p)),
     SqlText (point_pool p), SqlInteger (uint (price_lamports_numerator p)),
     SqlInteger (uint (price_lamports_denominator p))]"
  using assms by (simp add: insert_price_def u64_to_sql_def storable_def)

lemma insert_price_stored:
  assumes h: "holds db ps" and p: "storable lo hi p" and i: "next_rowid exchange_rate_table (rows db) < 2 ^ 31"
    and ok: "insert_price H S db p = Ok db'"
  shows "holds db' (ps @ [p\<lparr>point_id := next_rowid exchange_rate_table (rows db)\<rparr>])"
proof -
  let ?p = "p\<lparr>point_id := next_rowid exchange_rate_table (rows db)\<rparr>"
  have "rows db' = rows db @ [row_of H ?p]"
    using insert_answer [OF ok [unfolded insert_price_execute [OF p]]] i
    by (simp add: inserted_price_row listener_params exchange_rate_types)
  moreover have "records H lo hi (row_of H ?p) ?p"
    using p i next_rowid_pos by (simp add: records_def storable_def)
  ultimately show ?thesis using h by (simp add: list_all2_appendI)
qed

lemma insert_price_answers:
  assumes "available db" and p: "storable lo hi p"
  shows "\<exists>db'. insert_price H S db p = Ok db'"
  unfolding insert_price_execute [OF p]
  by (rule available_insertion [OF assms(1) listener_statements_ok(4)])
    (use p in \<open>simp_all add: listener_params inserted_price_row price_constraints storable_def\<close>)

lemma insert_price_no_supply:
  assumes "price_lamports_denominator p = 0" "next_rowid exchange_rate_table (rows db) < 2 ^ 63"
  shows "\<exists>e. insert_price H S db p = Err e"
proof (cases "insert_price H S db p")
  case (Ok db')
  then have "execute S db insert_price_stmt
    [SqlText (to_rfc3339 H (point_timestamp p)), SqlInteger (uint (point_slot p)), SqlInteger (uint (point_epoch p)),
     SqlText (point_pool p), SqlInteger (uint (price_lamports_numerator p)),
     SqlInteger (uint (price_lamports_denominator p))] = Ok db'"
    by (auto simp: insert_price_def u64_to_sql_def and_then_eq_Ok split: if_splits)
  from insert_answer [OF this _ assms(2)] have "0 < price_lamports_denominator p"
    unfolding inserted_price_row price_constraints by (simp add: listener_params exchange_rate_types)
  with assms(1) show ?thesis by simp
next
  case Panic
  then show ?thesis using no_panic(4) by (auto simp: insert_price_def u64_to_sql_def and_then_def split: if_splits)
qed blast

end

subsection \<open>A reference database\<close>

definition reference_query :: "sql_row list \<Rightarrow> statement \<Rightarrow> sql_value list \<Rightarrow> sql_row list" where
  "reference_query db st vs =
     (case st of
        SelectAggregate f c tab w \<Rightarrow>
          [[eval_aggregate f (map (\<lambda>r. column_value exchange_rate_table r c) (matching exchange_rate_table w vs db))]]
      | SelectAll tab w n \<Rightarrow> take n (matching exchange_rate_table w vs db))"

definition reference_db :: "sql_row list sqlite" where
  "reference_db =
     \<lparr>prepare = (\<lambda>db st. if statement_ok exchange_rate_table st then Ok () else Err SqliteFailure),
      unchecked_transaction = (\<lambda>db. Ok ()),
      bind_params = (\<lambda>db st vs. if length vs = length (statement_params st) then Ok () else Err InvalidParameterCount),
      query = (\<lambda>db st vs. Ok (reference_query db st vs)),
      execute = (\<lambda>db ins vs.
        let r = inserted_row exchange_rate_table ins vs db in
        if insertion_ok exchange_rate_table ins \<and> constraints_ok exchange_rate_table r then Ok (db @ [r])
        else Err SqliteFailure),
      create_table = (\<lambda>db T. Ok db)\<rparr>"

fun fixed_dec :: "nat \<Rightarrow> nat \<Rightarrow> string" where
  "fixed_dec 0 n = []"
| "fixed_dec (Suc k) n = digit_char (n div 10 ^ k mod 10) # fixed_dec k n"

definition reference_chrono :: chrono where
  "reference_chrono =
     \<lparr>to_rfc3339 = (\<lambda>t. fixed_dec 20 (nat t)), to_rfc2822 = (\<lambda>t. fixed_dec 20 (nat t)),
      datetime_from_str = (\<lambda>s. if s \<noteq> [] \<and> list_all is_digit s then Some (int (digits_value s)) else None),
      datetime_min = 0, datetime_max = 10 ^ 20 - 1,
      duration_div = (\<lambda>d k. sgn d * sgn k * (\<bar>d\<bar> div \<bar>k\<bar>))\<rparr>"

lemma digit_split: "(n :: nat) mod 10 ^ Suc k = n div 10 ^ k mod 10 * 10 ^ k + n mod 10 ^ k"
  using mod_mult2_eq [of n "10 ^ k" 10] by (simp add: mult.commute)

lemma lex_digits:
  fixes r s K :: nat
  assumes "r < K" "s < K"
  shows "x * K + r < y * K + s \<longleftrightarrow> x < y \<or> x = y \<and> r < s"
proof -
  have "x * K + r < y * K + s" if "x < y"
  proof -
    have "Suc x * K \<le> y * K" using that by (intro mult_le_mono1) simp
    then show ?thesis using assms by simp
  qed
  moreover have "\<not> x * K + r < y * K + s" if "y < x"
  proof -
    have "Suc y * K \<le> x * K" using that by (intro mult_le_mono1) simp
    then show ?thesis using assms by simp
  qed
  ultimately show ?thesis by (cases x y rule: linorder_cases) auto
qed

lemma digit_char_eq: "d < 10 \<Longrightarrow> e < 10 \<Longrightarrow> digit_char d = digit_char e \<longleftrightarrow> d = e"
  by (metis add_left_cancel of_char_digit_char)

lemma text_less_fixed_dec: "text_less (fixed_dec k a) (fixed_dec k b) \<longleftrightarrow> a mod 10 ^ k < b mod 10 ^ k"
proof (induction k)
  case (Suc k)
  have "text_less (fixed_dec (Suc k) a) (fixed_dec (Suc k) b) \<longleftrightarrow>
      a div 10 ^ k mod 10 < b div 10 ^ k mod 10 \<or>
      a div 10 ^ k mod 10 = b div 10 ^ k mod 10 \<and> a mod 10 ^ k < b mod 10 ^ k"
    by (simp add: Suc digit_char_eq)
  also have "\<dots> \<longleftrightarrow> a mod 10 ^ Suc k < b mod 10 ^ Suc k"
    unfolding digit_split by (rule lex_digits [symmetric]) simp_all
  finally show ?case .
qed simp

lemma digits_value_fixed_dec:
  "foldl (\<lambda>v c. v * 10 + (of_char c - 48)) w (fixed_dec k n) = w * 10 ^ k + n mod 10 ^ k"
proof (induction k arbitrary: w)
  case (Suc k)
  show ?case unfolding digit_split by (simp add: Suc algebra_simps)
qed simp

lemma fixed_dec_digits: "list_all is_digit (fixed_dec k n)"
  by (induction k) (simp_all add: is_digit_def)

lemma fixed_dec_nonempty: "0 < k \<Longrightarrow> fixed_dec k n \<noteq> []"
  by (cases k) simp_all

lemma reference_dates: "rfc3339_dates reference_chrono 0 (10 ^ 20 - 1)"
proof
  fix t u :: datetime
  assume t: "0 \<le> t" "t \<le> 10 ^ 20 - 1"
  then have nt: "nat t mod 10 ^ 20 = nat t" by simp
  have "fixed_dec 20 (nat t) \<noteq> []" by (rule fixed_dec_nonempty) simp
  then show "datetime_from_str reference_chrono (to_rfc3339 reference_chrono t) = Some t"
    using t nt digits_value_fixed_dec [of 0 20 "nat t"]
    by (simp add: reference_chrono_def fixed_dec_digits digits_value_def)
  assume u: "0 \<le> u" "u \<le> 10 ^ 20 - 1"
  then have nu: "nat u mod 10 ^ 20 = nat u" by simp
  show "text_less (to_rfc3339 reference_chrono t) (to_rfc3339 reference_chrono u) \<longleftrightarrow> t < u"
    using t(1) by (simp only: reference_chrono_def chrono.select_convs text_less_fixed_dec nt nu nat_less_eq_zless)
qed

lemma reference_engine: "sql_engine reference_db exchange_rate_table (\<lambda>db. db)"
proof
  fix db :: "sql_row list" and w n vs rs
  assume "query reference_db db (SelectAll (table_name exchange_rate_table) w n) vs = Ok rs"
  then have rs: "rs = take n (matching exchange_rate_table w vs db)" by (simp add: reference_db_def reference_query_def)
  have "mset rs + mset (drop n (matching exchange_rate_table w vs db)) = mset (matching exchange_rate_table w vs db)"
    unfolding rs by (metis append_take_drop_id mset_append)
  then show "mset rs \<subseteq># mset (matching exchange_rate_table w vs db) \<and>
      length rs = min n (length (matching exchange_rate_table w vs db))"
    by (metis length_take min.commute mset_subset_eq_add_left rs)
qed (auto simp: reference_db_def reference_query_def Let_def split: if_splits)

lemma reference_available: "sql_available reference_db exchange_rate_table (\<lambda>db. db) db"
  by (simp add: sql_available_def reference_db_def Let_def)

interpretation reff: price_history reference_db "\<lambda>db. db" reference_chrono 0 "10 ^ 20 - 1"
  by (intro price_history.intro reference_engine reference_dates)

subsection \<open>Query parameters\<close>

definition day_ns :: int where
  "day_ns = 86400000000000"

definition days_fit :: "int \<Rightarrow> bool" where
  "days_fit d \<longleftrightarrow> - (2 ^ 63) \<le> d * 86400000 \<and> d * 86400000 < 2 ^ 63"

text \<open>What one parameter contributes to the begin and to the end of the range.\<close>

inductive contributes :: "chrono \<Rightarrow> datetime \<Rightarrow> string \<times> string \<Rightarrow> datetime list \<times> datetime list \<Rightarrow> bool"
  for H :: chrono and now :: datetime where
  begin_param: "datetime_from_str H v = Some t \<Longrightarrow> contributes H now (''begin'', v) ([t], [])"
| end_param: "datetime_from_str H v = Some t \<Longrightarrow> contributes H now (''end'', v) ([], [t])"
| days_param: "\<lbrakk>i64_from_str v = Some d; days_fit d; in_datetime_range H (now - d * day_ns)\<rbrakk> \<Longrightarrow>
    contributes H now (''days'', v) ([now - d * day_ns], [now])"
| since_launch: "contributes H now (''since_launch'', v) ([launch_date], [now])"
| ignored: "k \<notin> {''begin'', ''end'', ''days'', ''since_launch''} \<Longrightarrow> contributes H now (k, v) ([], [])"

inductive_simps contributes_simps:
  "contributes H now (''begin'', v) w" "contributes H now (''end'', v) w" "contributes H now (''days'', v) w"
  "contributes H now (''since_launch'', v) w" "contributes H now (k, v) w"

definition overflowing_days :: "string \<times> string \<Rightarrow> bool" where
  "overflowing_days kv \<longleftrightarrow> fst kv = ''days'' \<and> (\<exists>d. i64_from_str (snd kv) = Some d \<and> \<not> days_fit d)"

lemma duration_days_eq: "duration_days d = (if days_fit d then Ok (d * day_ns) else Panic)"
  by (auto simp: duration_days_def days_fit_def day_ns_def Let_def not_less)

lemma date_param_Ok:
  "date_param H now vecs kv = Ok vecs' \<longleftrightarrow>
     (\<exists>w. contributes H now kv w \<and> vecs' = (fst vecs @ fst w, snd vecs @ snd w))"
proof -
  obtain k v where kv: "kv = (k, v)" by (cases kv)
  consider "k = ''begin''" | "k = ''end''" | "k = ''days''" | "k = ''since_launch''"
    | "k \<notin> {''begin'', ''end'', ''days'', ''since_launch''}" by blast
  then show ?thesis
    by cases (auto simp: kv date_param_def contributes_simps(1-4) result_simps duration_days_eq checked_sub_signed_def
        ok_or_def contributes_simps(5) split: if_splits option.splits)
qed

lemma date_param_Panic: "date_param H now vecs kv = Panic \<longleftrightarrow> overflowing_days kv"
  by (cases kv) (auto simp: date_param_def overflowing_days_def duration_days_eq and_then_def ok_or_def Let_def
      split: if_splits option.splits)

lemma date_params_Ok:
  "try_fold (date_param H now) vecs kvs = Ok vecs' \<longleftrightarrow>
     (\<exists>ws. list_all2 (contributes H now) kvs ws \<and>
       vecs' = (fst vecs @ concat (map fst ws), snd vecs @ concat (map snd ws)))"
proof (induction kvs arbitrary: vecs)
  case (Cons kv kvs)
  have "try_fold (date_param H now) vecs (kv # kvs) = Ok vecs' \<longleftrightarrow>
      (\<exists>w. contributes H now kv w \<and>
        try_fold (date_param H now) (fst vecs @ fst w, snd vecs @ snd w) kvs = Ok vecs')"
    by (auto simp: and_then_eq_Ok date_param_Ok)
  also have "\<dots> \<longleftrightarrow> (\<exists>w ws. contributes H now kv w \<and> list_all2 (contributes H now) kvs ws \<and>
      vecs' = (fst vecs @ concat (map fst (w # ws)), snd vecs @ concat (map snd (w # ws))))"
    by (simp add: Cons)
  also have "\<dots> \<longleftrightarrow> (\<exists>ws. list_all2 (contributes H now) (kv # kvs) ws \<and>
      vecs' = (fst vecs @ concat (map fst ws), snd vecs @ concat (map snd ws)))"
    unfolding list_all2_Cons1 by blast
  finally show ?case .
qed auto

lemma date_params_Panic:
  "try_fold (date_param H now) vecs kvs = Panic \<longleftrightarrow>
     (\<exists>pre kv post ws. kvs = pre @ kv # post \<and> list_all2 (contributes H now) pre ws \<and> overflowing_days kv)"
proof (induction kvs arbitrary: vecs)
  case (Cons kv kvs)
  show ?case
  proof (cases "date_param H now vecs kv")
    case (Ok v)
    then obtain w where "contributes H now kv w" by (auto simp: date_param_Ok)
    moreover have "\<not> overflowing_days kv" using Ok date_param_Panic [of H now vecs kv] by simp
    ultimately show ?thesis
      by (auto simp: Ok Cons Cons_eq_append_conv list_all2_Cons1) blast+
  next
    case (Err e)
    then have "\<not> overflowing_days kv" using date_param_Panic [of H now vecs kv] by simp
    moreover have "\<not> contributes H now kv w" for w
      using date_param_Ok [of H now vecs kv "(fst vecs @ fst w, snd vecs @ snd w)"] Err by auto
    ultimately show ?thesis by (auto simp: Err Cons_eq_append_conv list_all2_Cons1)
  next
    case Panic
    then have "overflowing_days kv" by (simp add: date_param_Panic)
    then have "kv # kvs = [] @ kv # kvs \<and> list_all2 (contributes H now) [] [] \<and> overflowing_days kv" by simp
    then have "\<exists>pre kv' post ws. kv # kvs = pre @ kv' # post \<and> list_all2 (contributes H now) pre ws \<and>
        overflowing_days kv'" by blast
    then show ?thesis by (simp add: Panic)
  qed
qed simp

lemma exactly_one_Ok [simp]: "exactly_one name xs = Ok x \<longleftrightarrow> xs = [x]"
  by (auto simp: exactly_one_def split: list.splits)

lemma exactly_one_no_Panic [simp]: "exactly_one name xs \<noteq> Panic"
  by (auto simp: exactly_one_def split: list.splits)

text \<open>C26: The date range of a request, on every outcome. It is accepted exactly when every known
  parameter is valid and together they give one begin and one end; it is a moving target when its
  end is not in the past. The handler panics, and the process with it, exactly when a number of
  days that does not fit a duration follows valid parameters. Everything else is an
  error response.\<close>

theorem get_date_params_spec:
  "(get_date_params H kvs now = Ok req \<longleftrightarrow>
     (\<exists>ws. list_all2 (contributes H now) kvs ws \<and>
        concat (map fst ws) = [date_start req] \<and> concat (map snd ws) = [date_end req] \<and>
        request_type req = (if date_end req \<ge> now then MovingTarget else FixedDate))) \<and>
   (get_date_params H kvs now = Panic \<longleftrightarrow>
     (\<exists>pre kv post ws. kvs = pre @ kv # post \<and> list_all2 (contributes H now) pre ws \<and> overflowing_days kv))"
proof
  have "get_date_params H kvs now = Ok req \<longleftrightarrow>
     (\<exists>b e. try_fold (date_param H now) ([], []) kvs = Ok (b, e) \<and> b = [date_start req] \<and> e = [date_end req] \<and>
        request_type req = (if date_end req \<ge> now then MovingTarget else FixedDate))"
    by (cases req) (auto simp: get_date_params_def and_then_eq_Ok)
  then show "get_date_params H kvs now = Ok req \<longleftrightarrow>
     (\<exists>ws. list_all2 (contributes H now) kvs ws \<and>
        concat (map fst ws) = [date_start req] \<and> concat (map snd ws) = [date_end req] \<and>
        request_type req = (if date_end req \<ge> now then MovingTarget else FixedDate))"
    by (auto simp: date_params_Ok)
  have "get_date_params H kvs now = Panic \<longleftrightarrow> try_fold (date_param H now) ([], []) kvs = Panic"
    by (auto simp: get_date_params_def and_then_def split: result.splits prod.splits)
  then show "get_date_params H kvs now = Panic \<longleftrightarrow>
     (\<exists>pre kv post ws. kvs = pre @ kv # post \<and> list_all2 (contributes H now) pre ws \<and> overflowing_days kv)"
    by (simp add: date_params_Panic)
qed

subsection \<open>Prices\<close>

text \<open>C24: The interval between two dates, as a query on the recorded data points. For a database that
  answers according to SQL, whenever the search gives an interval, it is one from a data point of the pool, at least 1000
  slots into its epoch, of the first epoch with a point after the begin to such a point of the
  last epoch with a point before the end; any such point may be taken, since the statement has no
  order. The search never panics, and while the database is available it does not fail and gives
  nothing only when there is no such interval.\<close>

theorem interval_price_spec:
  assumes "price_history S rows H lo hi" and "list_all2 (records H lo hi) (rows db) ps"
    and "lo \<le> from_time" and "from_time \<le> hi" and "lo \<le> to_time" and "to_time \<le> hi"
  shows "get_interval_price_for_period H S schedule db from_time to_time pool \<noteq> Panic \<and>
    (\<forall>ip. get_interval_price_for_period H S schedule db from_time to_time pool = Ok (Some ip) \<longrightarrow>
       is_interval schedule ps pool from_time to_time ip) \<and>
    (sql_available S exchange_rate_table rows db \<longrightarrow>
       (\<exists>ip. get_interval_price_for_period H S schedule db from_time to_time pool = Ok (Some ip)) \<or>
       get_interval_price_for_period H S schedule db from_time to_time pool = Ok None \<and>
         (\<forall>ip. \<not> is_interval schedule ps pool from_time to_time ip))"
  using price_history.interval_sound [OF assms] price_history.interval_complete [OF assms] by blast

definition price_at :: "datetime \<Rightarrow> u64 \<Rightarrow> u64 \<Rightarrow> u64 \<Rightarrow> data_point" where
  "price_at t slot e price =
     \<lparr>point_id = 0, point_timestamp = t, point_slot = slot, point_epoch = e, point_pool = SOLIDO_ID,
      price_lamports_numerator = price, price_lamports_denominator = 1000\<rparr>"

definition example_schedule :: epoch_schedule where
  "example_schedule =
     \<lparr>get_slots_in_epoch = (\<lambda>e. 432000), get_first_slot_in_epoch = (\<lambda>e. e * 432000), slots_per_epoch = 432000\<rparr>"

definition example_points :: "data_point list" where
  "example_points = [price_at 5 433100 1 1001\<lparr>point_id := 1\<rparr>, price_at 9 865200 2 1003\<lparr>point_id := 2\<rparr>]"

definition example_rows :: "sql_row list" where
  "example_rows = map (row_of reference_chrono) example_points"

lemma example_rows_hold: "list_all2 (records reference_chrono 0 (10 ^ 20 - 1)) example_rows example_points"
  by (simp add: example_rows_def example_points_def records_def storable_def price_at_def)

lemma example_selects:
  "points_after example_points SOLIDO_ID 0 = example_points"
  "points_before example_points SOLIDO_ID 20 = example_points"
  "first_epoch example_points = 1" "last_epoch example_points = 2" "example_points \<noteq> []"
  "eligible example_schedule example_points SOLIDO_ID 1 = [price_at 5 433100 1 1001\<lparr>point_id := 1\<rparr>]"
  "eligible example_schedule example_points SOLIDO_ID 2 = [price_at 9 865200 2 1003\<lparr>point_id := 2\<rparr>]"
  by (simp_all add: example_points_def price_at_def points_after_def points_before_def first_epoch_def last_epoch_def
      eligible_def example_schedule_def)

lemma example_is_interval: "is_interval example_schedule example_points SOLIDO_ID 0 20 ip \<longleftrightarrow>
    ip = interval_prices_of (price_at 5 433100 1 1001\<lparr>point_id := 1\<rparr>) (price_at 9 865200 2 1003\<lparr>point_id := 2\<rparr>)"
  by (simp add: is_interval_def example_selects)

theorem interval_price_spec_witness:
  "\<exists>ip. get_interval_price_for_period reference_chrono reference_db example_schedule example_rows 0 20 SOLIDO_ID =
     Ok (Some ip) \<and> begin_epoch ip = 1 \<and> end_epoch ip = 2"
  using interval_price_spec [OF reff.price_history_axioms example_rows_hold,
      of 0 20 example_schedule SOLIDO_ID] reference_available
  by (auto simp: example_is_interval interval_prices_of_def price_at_def)

lemma example_interval:
  "\<exists>ip. get_interval_price_for_period reference_chrono reference_db example_schedule example_rows 0 20 SOLIDO_ID =
     Ok (Some ip)"
  using reff.interval_complete [OF example_rows_hold, of 0 20 example_schedule SOLIDO_ID] reference_available
  by (auto simp: example_is_interval)

lemma epoch_le_last: "p \<in> set ps \<Longrightarrow> point_epoch p \<le> last_epoch ps"
  by (simp add: last_epoch_def)

text \<open>A request whose end is not in the past never gets an interval that runs backwards: when
  all recorded points lie before the end, the first epoch is at most the last one, so that the
  unchecked subtraction in \<open>duration_epochs\<close> does not wrap.\<close>

theorem moving_interval_runs_forward:
  assumes "price_history S rows H lo hi" and "list_all2 (records H lo hi) (rows db) ps"
    and "lo \<le> from_time" and "from_time \<le> hi" and "lo \<le> to_time" and "to_time \<le> hi"
    and recent: "\<forall>p \<in> set ps. point_timestamp p < to_time"
    and ok: "get_interval_price_for_period H S schedule db from_time to_time pool = Ok (Some ip)"
  shows "begin_epoch ip \<le> end_epoch ip \<and>
    unat (duration_epochs ip) = unat (end_epoch ip) - unat (begin_epoch ip)"
proof -
  let ?a = "points_after ps pool from_time" and ?b = "points_before ps pool to_time"
  from price_history.interval_sound(2) [OF assms(1-6) ok] obtain p q
    where a: "?a \<noteq> []" and p: "p \<in> set (eligible schedule ps pool (first_epoch ?a))"
      and q: "q \<in> set (eligible schedule ps pool (last_epoch ?b))" and ip: "ip = interval_prices_of p q"
    by (auto simp: is_interval_def)
  from first_epoch_in [OF a] obtain r where r: "r \<in> set ?a" "first_epoch ?a = point_epoch r" by blast
  then have "r \<in> set ?b" using recent by (auto simp: points_after_def points_before_def)
  then have "point_epoch r \<le> last_epoch ?b" by (rule epoch_le_last)
  then have "begin_epoch ip \<le> end_epoch ip" using p q r(2) by (auto simp: ip interval_prices_of_def eligible_def)
  then show ?thesis by (simp add: duration_epochs_def unat_sub)
qed

theorem moving_interval_witness:
  "\<exists>ip. get_interval_price_for_period reference_chrono reference_db example_schedule example_rows 0 20 SOLIDO_ID =
     Ok (Some ip) \<and> begin_epoch ip \<le> end_epoch ip"
proof -
  have recent: "\<forall>p \<in> set example_points. point_timestamp p < 20"
    by (simp add: example_points_def price_at_def)
  obtain ip where ip: "get_interval_price_for_period reference_chrono reference_db example_schedule example_rows 0 20
      SOLIDO_ID = Ok (Some ip)" using example_interval by blast
  show ?thesis
    using moving_interval_runs_forward [OF reff.price_history_axioms example_rows_hold _ _ _ _ recent ip] ip
    by auto
qed

text \<open>C27: A recorded price reads back. For a database that answers according to SQL, a data point with a positive supply, all values below
  $2^{63}$ and a date that can be written: when its insertion succeeds, the table has all the rows it had
  and one more, and reading that row gives the point again under its new id, as long as ids fit
  32 bits; and while the database is available the insertion succeeds.\<close>

theorem recorded_price_reads_back:
  assumes "price_history S rows H lo hi" and "list_all2 (records H lo hi) (rows db) ps"
    and "storable lo hi p" and "next_rowid exchange_rate_table (rows db) < 2 ^ 31"
  shows "(\<forall>db'. insert_price H S db p = Ok db' \<longrightarrow>
       map (row_map H) (rows db') = map Ok (ps @ [p\<lparr>point_id := next_rowid exchange_rate_table (rows db)\<rparr>])) \<and>
    (sql_available S exchange_rate_table rows db \<longrightarrow> (\<exists>db'. insert_price H S db p = Ok db'))"
  using price_history.insert_price_stored [OF assms] price_history.holds_reads [OF assms(1)]
    price_history.insert_price_answers [OF assms(1) _ assms(3)] by blast

theorem recorded_price_witness:
  "\<exists>db'. insert_price reference_chrono reference_db example_rows (price_at 12 865300 2 1004) = Ok db' \<and>
     row_map reference_chrono (db' ! 2) = Ok (price_at 12 865300 2 1004\<lparr>point_id := 3\<rparr>)"
proof -
  let ?p = "price_at 12 865300 2 1004"
  have id: "next_rowid exchange_rate_table example_rows = 3"
    by (simp add: next_rowid_def example_rows_def example_points_def exchange_rate_types exchange_rate_columns)
  have "storable 0 (10 ^ 20 - 1) ?p" by (simp add: storable_def price_at_def)
  from recorded_price_reads_back [OF reff.price_history_axioms example_rows_hold this] reference_available
  obtain db' where db': "insert_price reference_chrono reference_db example_rows ?p = Ok db'"
    and reads: "map (row_map reference_chrono) db' = map Ok (example_points @ [?p\<lparr>point_id := 3\<rparr>])"
    by (auto simp: id)
  have len: "length example_points = 2" by (simp add: example_points_def)
  have "length db' = 3" using arg_cong [OF reads, of length] len by simp
  then have "row_map reference_chrono (db' ! 2) = map (row_map reference_chrono) db' ! 2" by simp
  also have "\<dots> = Ok (?p\<lparr>point_id := 3\<rparr>)" unfolding reads by (simp add: nth_append len)
  finally show ?thesis using db' by blast
qed

subsection \<open>Caching\<close>

text \<open>A response is never cached for less than five minutes, for exactly a week when its end is in the past,
  and for five minutes when the chain's clock is not known.\<close>

lemma get_expires_spec:
  assumes "get_expires H schedule slot_ms now ip clk kind = Ok t"
  shows "now + five_minutes \<le> t \<and> (kind = FixedDate \<longrightarrow> t = now + 7 * day_ns) \<and>
    (kind = MovingTarget \<longrightarrow> clk = None \<longrightarrow> t = now + five_minutes)"
  using assms
  by (auto simp: get_expires_def and_then_eq_Ok datetime_add_def five_minutes_def day_ns_def
      split: date_request_type.splits option.splits if_splits)

text \<open>Before the first deposit the supply is zero and the table refuses the price: the iteration ends with an
  error and the database is unchanged.\<close>

lemma no_supply_no_record:
  assumes "price_history S rows (le_chrono W) lo hi" and "price_lamports_denominator p = 0"
    and "next_rowid exchange_rate_table (rows db) < 2 ^ 63"
  shows "\<exists>e. insert_price_and_query_30d_price_interval W S db p now = (Err e, db)"
proof -
  obtain e where "insert_price (le_chrono W) S db p = Err e"
    using price_history.insert_price_no_supply [OF assms] by blast
  then show ?thesis by (simp add: insert_price_and_query_30d_price_interval_def)
qed

end
