(* ===== verification/Display.thy ===== *)
theory Display
  imports Commands Prometheus
begin

text \<open>
  The text that the command line tool prints: the \<open>Display\<close> instances of
  \<^verbatim>\<open>cli/maintainer/src/commands_multisig.rs\<close>, \<^verbatim>\<open>commands_solido.rs\<close> and
  \<^verbatim>\<open>maintenance.rs\<close>, each as the list of lines that it writes with \<open>writeln!\<close>;
  \<open>display_text\<close> puts the lines together. The Base58 form of addresses and signatures,
  percentages with two decimals (floating point), the order in which a hash set is traversed and
  the address of the wormhole token are parameters, collected in \<open>text_env\<close>.
\<close>

record text_env =
  show_pubkey :: "pubkey \<Rightarrow> string"
  show_signature :: "signature \<Rightarrow> string"
  percent_2 :: "u64 \<Rightarrow> string"
  set_order :: "pubkey set \<Rightarrow> pubkey list"
  wormhole_ldo_id :: pubkey

definition display_text :: "string list \<Rightarrow> string" where
  "display_text ls = concat (map (\<lambda>l. l @ newline) ls)"

definition show_bool :: "bool \<Rightarrow> string" where
  "show_bool b = (if b then ''true'' else ''false'')"

definition show_word :: "'w::len word \<Rightarrow> string" where
  "show_word w = fmt_u64 (unat w)"

text \<open>\<open>{:>n}\<close>: padded with spaces on the left.\<close>

definition align_right :: "nat \<Rightarrow> string \<Rightarrow> string" where
  "align_right n s = replicate (n - length s) (CHR '' '') @ s"

subsection \<open>Multisig output\<close>

definition create_multisig_lines :: "text_env \<Rightarrow> create_multisig_output \<Rightarrow> string list" where
  "create_multisig_lines T out =
     [''Multisig address:        '' @ show_pubkey T (cmo_multisig_address out),
      ''Program derived address: '' @ show_pubkey T (cmo_program_derived_address out),
      ''The multisig can sign on behalf of the derived address.'']"

definition show_multisig_lines :: "text_env \<Rightarrow> show_multisig_output \<Rightarrow> string list" where
  "show_multisig_lines T out =
     [''Program derived address: '' @ show_pubkey T (smo_program_derived_address out),
      ''Threshold: '' @ show_word (smo_threshold out) @ '' out of '' @ fmt_u64 (length (smo_owners out)),
      ''Owners:''] @
     map (\<lambda>owner. ''  '' @ show_pubkey T owner) (smo_owners out)"

definition changed_fee :: "u32 \<Rightarrow> u32 \<Rightarrow> u64 \<Rightarrow> u64 \<Rightarrow> string \<Rightarrow> string" where
  "changed_fee current_param new_param current_sum new_sum param_name =
     (let before = show_word current_param @ ''/'' @ show_word current_sum;
          after = show_word new_param @ ''/'' @ show_word new_sum in
      if before = after then ''   '' @ param_name @ '':          '' @ align_right 5 after
      else ''   '' @ param_name @ '': '' @ align_right 5 before @ '' -> '' @ align_right 5 after)"

definition print_changed_reward_distribution :: "lido \<Rightarrow> reward_distribution \<Rightarrow> string list" where
  "print_changed_reward_distribution current new =
     (let old = reward_distribution current;
          current_sum = reward_distribution_sum old; new_sum = reward_distribution_sum new in
      [changed_fee (treasury_fee old) (treasury_fee new) current_sum new_sum ''treasury'',
       changed_fee (developer_fee old) (developer_fee new) current_sum new_sum ''developer'',
       changed_fee (st_sol_appreciation old) (st_sol_appreciation new) current_sum new_sum ''stSOL appreciation''])"

definition changed_addr :: "text_env \<Rightarrow> pubkey \<Rightarrow> pubkey \<Rightarrow> string \<Rightarrow> string" where
  "changed_addr T current_addr new_addr param_name =
     (if current_addr = new_addr then ''   '' @ param_name @ '': '' @ show_pubkey T new_addr
      else ''   '' @ param_name @ '': '' @ show_pubkey T new_addr @ '' -> '' @ show_pubkey T current_addr)"

definition print_changed_recipients :: "text_env \<Rightarrow> lido \<Rightarrow> fee_recipients \<Rightarrow> string list" where
  "print_changed_recipients T current new =
     [changed_addr T (treasury_account (fee_recipients current)) (treasury_account new) ''treasury'',
      changed_addr T (developer_account (fee_recipients current)) (developer_account new) ''developer'']"

definition print_diff_multisig ::
  "text_env \<Rightarrow> u64 \<Rightarrow> u64 \<Rightarrow> pubkey list \<Rightarrow> pubkey list \<Rightarrow> string list" where
  "print_diff_multisig T old_threshold new_threshold old_owners new_owners =
     [if (old_threshold, length old_owners) = (new_threshold, length new_owners)
      then ''    Threshold (unchanged): '' @ show_word new_threshold @ '' of '' @ fmt_u64 (length new_owners)
      else ''    Threshold (changed): '' @ show_word old_threshold @ '' of '' @ fmt_u64 (length old_owners) @
        '' -> '' @ show_word new_threshold @ '' of '' @ fmt_u64 (length new_owners),
      if set old_owners = set new_owners then ''    Owners (unchanged):'' else ''    Owners (changed):''] @
     map (\<lambda>k. ''        '' @ show_pubkey T k) (set_order T (set old_owners \<inter> set new_owners)) @
     map (\<lambda>k. ''      - '' @ show_pubkey T k) (set_order T (set old_owners - set new_owners)) @
     map (\<lambda>k. ''      + '' @ show_pubkey T k) (set_order T (set new_owners - set old_owners))"

definition debug_reward_distribution :: "reward_distribution \<Rightarrow> string" where
  "debug_reward_distribution d =
     ''RewardDistribution { treasury_fee: '' @ show_word (treasury_fee d) @ '', developer_fee: '' @
     show_word (developer_fee d) @ '', st_sol_appreciation: '' @ show_word (st_sol_appreciation d) @ '' }''"

fun solido_instruction_lines :: "text_env \<Rightarrow> solido_instruction \<Rightarrow> string list" where
  "solido_instruction_lines T (ShownAddValidator a m v) =
     [''It adds a validator to Solido'',
      ''    Solido instance:        '' @ show_pubkey T a,
      ''    Manager:                '' @ show_pubkey T m,
      ''    Validator vote account: '' @ show_pubkey T v]"
| "solido_instruction_lines T (ShownDeactivateValidator a m v i) =
     [''It deactivates a validator.'',
      ''    Solido instance:        '' @ show_pubkey T a,
      ''    Manager:                '' @ show_pubkey T m,
      ''    Validator vote account: '' @ show_pubkey T v,
      ''    Validator index:        '' @ show_word i]"
| "solido_instruction_lines T (ShownAddMaintainer a m v) =
     [''It adds a maintainer'',
      ''    Solido instance: '' @ show_pubkey T a,
      ''    Manager:         '' @ show_pubkey T m,
      ''    Maintainer:      '' @ show_pubkey T v]"
| "solido_instruction_lines T (ShownRemoveMaintainer a m v i) =
     [''It removes a maintainer'',
      ''    Solido instance:  '' @ show_pubkey T a,
      ''    Manager:          '' @ show_pubkey T m,
      ''    Maintainer:       '' @ show_pubkey T v,
      ''    Maintainer index: '' @ show_word i]"
| "solido_instruction_lines T (ShownChangeRewardDistribution current d a m r) =
     [''It changes the reward distribution'',
      ''    Solido instance:       '' @ show_pubkey T a,
      ''    Manager:               '' @ show_pubkey T m,
      []] @
     print_changed_reward_distribution current d @ print_changed_recipients T current r"
| "solido_instruction_lines T (ShownChangeCriteria a c m) =
     [''It sets the curation criteria'',
      ''    Solido instance:    '' @ show_pubkey T a,
      ''    Manager:            '' @ show_pubkey T m,
      ''    Max commission for validators: '' @ show_word (max_commission c) @ ''%'',
      ''    Min vote success rate: '' @ show_word (min_vote_success_rate c) @ ''%'',
      ''    Min block production rate: '' @ show_word (min_block_production_rate c) @ ''%'']"
| "solido_instruction_lines T (ShownMigrateStateToV2 a m v l d rd mv mm mc) =
     [''It migrates Lido state to a version 2'',
      ''    Solido instance:           '' @ show_pubkey T a,
      ''    Manager:                   '' @ show_pubkey T m,
      ''    Validator list:            '' @ show_pubkey T v,
      ''    Maintainer list:           '' @ show_pubkey T l,
      ''    Developer account:         '' @ show_pubkey T d,
      ''    Max validators:            '' @ show_word mv,
      ''    Max maintainers:           '' @ show_word mm,
      ''    Max validation commission: '' @ show_word mc @ ''%'',
      ''    '' @ debug_reward_distribution rd]"

fun token_instruction_lines :: "text_env \<Rightarrow> token_instruction \<Rightarrow> string list" where
  "token_instruction_lines T (ShownTransfer from_address to_address token_address amount) =
     [''It transfers tokens.'',
      ''    Token address: '' @ show_pubkey T token_address,
      ''    From address:  '' @ show_pubkey T from_address,
      ''    To address:    '' @ show_pubkey T to_address,
      if token_address = wormhole_ldo_id T
      then ''    Amount:        '' @ fixed_point 8 amount @ '' wLDO (Wormhole-wrapped Lido DAO token)''
      else ''    Amount:        '' @ show_word amount @ '', of the token's smallest denomination'']"
| "token_instruction_lines T ShownUnsupported = [''The instruction is currently unsupported.'']"

text \<open>\<open>write!\<close> without a newline puts its text in front of the line that follows.\<close>

definition on_first_line :: "string \<Rightarrow> string list \<Rightarrow> string list" where
  "on_first_line s ls = (case ls of [] \<Rightarrow> [s] | l # ls \<Rightarrow> (s @ l) # ls)"

fun parsed_instruction_lines :: "text_env \<Rightarrow> parsed_instruction \<Rightarrow> string list" where
  "parsed_instruction_lines T (BpfLoaderUpgrade program data_address buffer spill) =
     [''  This is a bpf_loader_upgradeable::upgrade instruction.'',
      ''    Program to upgrade:      '' @ show_pubkey T program,
      ''    Program data address:    '' @ show_pubkey T data_address,
      ''    Buffer with new program: '' @ show_pubkey T buffer,
      ''    Spill address:           '' @ show_pubkey T spill]"
| "parsed_instruction_lines T (MultisigChange old_threshold old_owners new_threshold new_owners) =
     ''  This is a serum_multisig::set_owners_and_change_threshold instruction.'' #
     print_diff_multisig T old_threshold new_threshold old_owners new_owners"
| "parsed_instruction_lines T (SolidoInstruction i) =
     on_first_line ''  This is a Solido instruction. '' (solido_instruction_lines T i)"
| "parsed_instruction_lines T Unrecognized =
     [''  Unrecognized instruction. Provide --solido-program-id <address> parameter to parse a Solido instruction'']"
| "parsed_instruction_lines T InvalidSolidoInstruction =
     [''  Tried to deserialize a Solido instruction, but failed.'']"
| "parsed_instruction_lines T (TokenInstruction i) =
     on_first_line ''  This is an SPL token instruction. '' (token_instruction_lines T i)"

definition signers_lines :: "text_env \<Rightarrow> show_transaction_signers \<Rightarrow> string list" where
  "signers_lines T s =
     (case s of
        Current signers \<Rightarrow>
          [[], ''Signers:''] @
          map (\<lambda>s. ''  ['' @ (if sts_did_sign s then ''x'' else '' '') @ ''] '' @ show_pubkey T (sts_owner s)) signers
      | Outdated num_signed num_owners \<Rightarrow>
          [[], ''The owners of the multisig have changed since this transaction was created,'',
           ''therefore we cannot show the identities of the signers.'',
           ''The transaction had '' @ fmt_u64 num_signed @ '' out of '' @ fmt_u64 num_owners @ '' signatures.''])"

definition account_lines :: "text_env \<Rightarrow> account_meta \<Rightarrow> string list" where
  "account_lines T acc =
     [''    * '' @ show_pubkey T (meta_pubkey acc),
      ''      signer: '' @ show_bool (meta_is_signer acc) @ '', writable: '' @ show_bool (meta_is_writable acc),
      []]"

definition show_transaction_lines :: "text_env \<Rightarrow> show_transaction_output \<Rightarrow> string list" where
  "show_transaction_lines T out =
     [''Multisig: '' @ show_pubkey T (sto_multisig_address out),
      ''Did execute: '' @ show_bool (sto_did_execute out)] @
     signers_lines T (sto_signers out) @
     [[], ''Instruction:'',
      ''  Program to call: '' @ show_pubkey T (ins_program_id (sto_instruction out)),
      ''  Accounts:'', []] @
     concat (map (account_lines T) (ins_accounts (sto_instruction out))) @
     parsed_instruction_lines T (sto_parsed_instruction out)"

definition propose_instruction_lines :: "text_env \<Rightarrow> pubkey \<Rightarrow> string list" where
  "propose_instruction_lines T transaction_address = [''Transaction address: '' @ show_pubkey T transaction_address]"

definition approve_lines :: "text_env \<Rightarrow> approve_output \<Rightarrow> string list" where
  "approve_lines T out =
     [''Transactions approved.'',
      ''Solana transaction id of approval: '' @ show_signature T (ao_transaction_id out)] @
     map (\<lambda>(sub_transaction, num_approvals).
       ''Multisig transaction '' @ show_pubkey T sub_transaction @ '' now has '' @ show_word num_approvals @
       '' out of '' @ show_word (ao_threshold out) @ '' required approvals.'')
       (zip (ao_sub_transactions out) (ao_num_approvals out))"

definition execute_lines :: "text_env \<Rightarrow> signature \<Rightarrow> string list" where
  "execute_lines T transaction_id =
     [''Transaction executed.'', ''Solana transaction id of execution: '' @ show_signature T transaction_id]"

subsection \<open>Pool output\<close>

definition create_solido_lines :: "text_env \<Rightarrow> create_solido_output \<Rightarrow> string list" where
  "create_solido_lines T out =
     [''Solido details:'',
      ''  Solido address:                '' @ show_pubkey T (cso_solido_address out),
      ''  Reserve account:               '' @ show_pubkey T (cso_reserve_account out),
      ''  Mint authority:                '' @ show_pubkey T (cso_mint_authority out),
      ''  stSOL mint:                    '' @ show_pubkey T (cso_st_sol_mint_address out),
      ''  Treasury SPL token account:    '' @ show_pubkey T (cso_treasury_account out),
      ''  Developer fee SPL token account: '' @ show_pubkey T (cso_developer_account out)]"

definition reward_line :: "lido \<Rightarrow> string \<Rightarrow> u32 \<Rightarrow> string" where
  "reward_line l name part =
     ''  '' @ align_right 4 (show_word part) @ ''/'' @
     align_right 4 (show_word (reward_distribution_sum (reward_distribution l))) @ '' => '' @ name"

definition deposits_line :: "u64 \<times> lamports \<Rightarrow> string" where
  "deposits_line = (\<lambda>(count, upper_bound).
     ''  Number of deposits '' @ [CHR 0xE2, CHR 0x89, CHR 0xA4] @ '' '' @ align_right 25 (lamports_display upper_bound) @
     '': '' @ show_word count)"

definition solido_lines :: "text_env \<Rightarrow> show_solido_output \<Rightarrow> string list" where
  "solido_lines T out =
     (let l = sso_solido out; m = lido_metrics l in
      [''Manager:                     '' @ show_pubkey T (manager l),
       ''stSOL mint:                  '' @ show_pubkey T (st_sol_mint l),
       [], ''Exchange rate:'',
       ''  Computed in epoch: '' @ show_word (computed_in_epoch (exchange_rate l)),
       ''  SOL balance:       '' @ lamports_display (sol_balance (exchange_rate l)),
       ''  stSOL supply:      '' @ st_lamports_display (st_sol_supply (exchange_rate l)),
       [], ''Reserve balance: '' @ lamports_display (sso_reserve_account_balance out),
       [], ''Authorities (public key, bump seed):'',
       ''Stake authority:            '' @ show_pubkey T (sso_stake_authority out) @ '', '' @
         show_word (stake_authority_bump_seed l),
       ''Mint authority:             '' @ show_pubkey T (sso_mint_authority out) @ '', '' @
         show_word (mint_authority_bump_seed l),
       ''Reserve:                    '' @ show_pubkey T (sso_reserve_account out) @ '', '' @
         show_word (sol_reserve_account_bump_seed l),
       [], ''Reward distribution:'',
       reward_line l ''stSOL appreciation'' (st_sol_appreciation (reward_distribution l)),
       reward_line l ''Treasury'' (treasury_fee (reward_distribution l)),
       reward_line l ''Developer fee'' (developer_fee (reward_distribution l)),
       [], ''Fee recipients:'',
       ''  Treasury SPL token account:      '' @ show_pubkey T (treasury_account (fee_recipients l)),
       ''  Developer fee SPL token account: '' @ show_pubkey T (developer_account (fee_recipients l)),
       [], ''Metrics:'',
       ''  Total treasury fee:       '' @ st_lamports_display (fee_treasury_st_sol_total m) @ '', valued at '' @
         lamports_display (fee_treasury_sol_total m) @ '' when it was paid'',
       ''  Total developer fee:      '' @ st_lamports_display (fee_developer_st_sol_total m) @ '', valued at '' @
         lamports_display (fee_developer_sol_total m) @ '' when it was paid'',
       ''  Total stSOL appreciation: '' @ lamports_display (st_sol_appreciation_sol_total m),
       ''  Total amount withdrawn:   '' @ st_lamports_display (total_st_sol_amount (withdraw_amount m)) @
         '', valued at '' @ lamports_display (total_sol_amount (withdraw_amount m)) @ '' when it was withdrawn'',
       ''  Number of withdrawals:    '' @ show_word (withdraw_count (withdraw_amount m)),
       ''  Total deposited:          '' @ lamports_display (hist_total (deposit_amount m))] @
      map deposits_line (zip (hist_counts (deposit_amount m)) BUCKET_UPPER_BOUNDS) @
      [[], ''Validator curation criteria:'',
       ''  Max validation commission: '' @ show_word (max_commission (lido_criteria l)) @ ''%'',
       ''  Min block production rate: '' @ percent_2 T (min_block_production_rate (lido_criteria l)) @ ''%'',
       ''  Min vote success rate:     '' @ percent_2 T (min_vote_success_rate (lido_criteria l)) @ ''%'',
       [], ''Validator list '' @ show_pubkey T (validator_list l),
       ''Validators: '' @ fmt_u64 (length (sso_validators out)) @ '' in use out of '' @
         show_word (sso_validators_max out) @ '' that the instance can support''])"

text \<open>The tool has its own copy of the derivation of stake account addresses.\<close>

definition tool_stake_address_with_authority ::
  "lenv \<Rightarrow> pubkey \<Rightarrow> pubkey \<Rightarrow> pubkey \<Rightarrow> u8 list \<Rightarrow> u64 \<Rightarrow> pubkey \<times> u8" where
  "tool_stake_address_with_authority E vote_account program_id solido_account authority seed =
     find_program_address E
       [pubkey_bytes solido_account, pubkey_bytes vote_account, authority, le_bytes 8 (unat seed)] program_id"

definition tool_stake_address ::
  "lenv \<Rightarrow> pubkey \<Rightarrow> pubkey \<Rightarrow> pubkey \<Rightarrow> u64 \<Rightarrow> stake_type \<Rightarrow> pubkey \<times> u8" where
  "tool_stake_address E vote_account program_id solido_account seed stake_type =
     (let authority = (case stake_type of
            Stake \<Rightarrow> VALIDATOR_STAKE_ACCOUNT
          | stake_type.Unstake \<Rightarrow> VALIDATOR_UNSTAKE_ACCOUNT) in
      tool_stake_address_with_authority E vote_account program_id solido_account authority seed)"

definition seed_lines ::
  "lenv \<Rightarrow> text_env \<Rightarrow> show_solido_output \<Rightarrow> rich_validator \<Rightarrow> stake_type \<Rightarrow> seed_range \<Rightarrow> string \<Rightarrow> string list" where
  "seed_lines E T out v stake_type seeds none_text =
     (if seed_begin seeds = seed_end seeds then [none_text] else []) @
     map (\<lambda>seed. ''      - '' @ show_word seed @ '': '' @
       show_pubkey T (fst (tool_stake_address E (rv_vote_account_address v) (sso_solido_program_id out)
         (sso_solido_address out) seed stake_type)))
       (seed_iter seeds)"

definition offchain_lines :: "text_env \<Rightarrow> validator_perf option \<Rightarrow> string list" where
  "offchain_lines T perf =
     ''    Off-chain performance readings:'' #
     (case map_option perf_rest perf of
        Some (Some r) \<Rightarrow>
          [''      For epoch                  #'' @ show_word (updated_at r),
           ''      Block Production Rate:      '' @ percent_2 T (block_production_rate r) @ ''%'',
           ''      Vote Success Rate:          '' @ percent_2 T (vote_success_rate r) @ ''%'']
      | _ \<Rightarrow> [''      Not yet collected.''])"

definition onchain_lines :: "validator_perf option \<Rightarrow> string list" where
  "onchain_lines perf =
     ''    On-chain performance readings:'' #
     (case perf of
        Some p \<Rightarrow>
          [''      For epoch                  #'' @ show_word (commission_updated_at p),
           ''      Worst Commission:           '' @ show_word (commission p) @ ''%'']
      | None \<Rightarrow> [''      Not yet collected.''])"

definition rich_validator_lines ::
  "lenv \<Rightarrow> text_env \<Rightarrow> show_solido_output \<Rightarrow> rich_validator \<Rightarrow> string list" where
  "rich_validator_lines E T out v =
     [[], ''  - Name:                      '' @ vi_name (rv_info v),
      ''    Keybase username:          '' @
        (case vi_keybase_username (rv_info v) of Some username \<Rightarrow> username | None \<Rightarrow> ''not set''),
      ''    Vote account:              '' @ show_pubkey T (rv_vote_account_address v),
      ''    Identity account:          '' @ show_pubkey T (rv_identity_account_address v),
      ''    Commission:                '' @ show_word (rv_commission v) @ ''%'',
      ''    Active:                    '' @ show_bool (rv_active v),
      ''    Stake in all accounts:     '' @ lamports_display (rv_stake_accounts_balance v),
      ''    Stake in stake accounts:   '' @ lamports_display (rv_effective_stake_balance v),
      ''    Stake in unstake accounts: '' @ lamports_display (rv_unstake_accounts_balance v),
      ''    Stake accounts (seed, address):''] @
     seed_lines E T out v Stake (rv_stake_seeds v) ''      This validator has no stake accounts.'' @
     [''    Unstake accounts (seed, address):''] @
     seed_lines E T out v stake_type.Unstake (rv_unstake_seeds v) ''      This validator has no unstake accounts.'' @
     offchain_lines T (rv_perf v) @ onchain_lines (rv_perf v)"

definition show_solido_lines :: "lenv \<Rightarrow> text_env \<Rightarrow> show_solido_output \<Rightarrow> string list" where
  "show_solido_lines E T out =
     solido_lines T out @
     concat (map (rich_validator_lines E T out) (sso_validators out)) @
     [[], ''Maintainer list '' @ show_pubkey T (maintainer_list (sso_solido out)),
      ''Maintainers: '' @ fmt_u64 (length (sso_maintainers out)) @ '' in use out of '' @
        show_word (sso_maintainers_max out) @ '' that the instance can support'',
      []] @
     map (\<lambda>e. ''  - '' @ show_pubkey T (maintainer_pubkey e)) (sso_maintainers out)"

definition show_solido_authorities_lines :: "text_env \<Rightarrow> show_solido_authorities_output \<Rightarrow> string list" where
  "show_solido_authorities_lines T out =
     [''Stake authority:            '' @ show_pubkey T (sao_stake_authority out),
      ''Mint authority:             '' @ show_pubkey T (sao_mint_authority out),
      ''Reserve account:            '' @ show_pubkey T (sao_reserve_account out)]"

definition deposit_lines :: "text_env \<Rightarrow> deposit_output \<Rightarrow> string list" where
  "deposit_lines T out =
     [if dpo_created_associated_st_sol_account out then ''Created recipient stSOL account, it did not yet exist.''
      else ''Recipient stSOL account existed already before deposit.'',
      ''Recipient stSOL account: '' @ show_pubkey T (dpo_recipient out),
      ''Expected stSOL amount:   '' @ st_lamports_display (dpo_expected_st_sol out),
      ''stSOL balance increase:  '' @ st_lamports_display (dpo_st_sol_balance_increase out)]"

definition withdraw_lines :: "text_env \<Rightarrow> withdraw_output \<Rightarrow> string list" where
  "withdraw_lines T out =
     [''Withdrawn from:          '' @ show_pubkey T (wdo_from_token_address out),
      ''Total SOL withdrawn:     '' @ lamports_display (wdo_withdrawn_sol out),
      ''New stake account:       '' @ show_pubkey T (wdo_new_stake_account out)]"

definition deactivate_if_violates_lines :: "text_env \<Rightarrow> deactivate_if_violates_output \<Rightarrow> string list" where
  "deactivate_if_violates_lines T out =
     (''Maximum validation commission: '' @ show_word (dvo_max_commission_percentage out)) #
     map (\<lambda>entry. ''Validator vote account: '' @ show_pubkey T (vi_validator_vote_account entry) @
       '', validation commission: '' @ show_word (vi_commission entry)) (dvo_entries out)"

definition create_v2_accounts_lines :: "text_env \<Rightarrow> create_v2_accounts_output \<Rightarrow> string list" where
  "create_v2_accounts_lines T out =
     [''Created new v2 accounts:'',
      ''  Validator list account:   '' @ show_pubkey T (cvo_validator_list_address out),
      ''  Maintainer list account:  '' @ show_pubkey T (cvo_maintainer_list_address out),
      ''  Developer fee account:    '' @ show_pubkey T (cvo_developer_fee_address out)]"

subsection \<open>Maintenance output\<close>

definition unstake_lines :: "text_env \<Rightarrow> unstake_task \<Rightarrow> string list" where
  "unstake_lines T u =
     [''  Validator vote account: '' @ show_pubkey T (un_validator_vote_account u),
      ''  Stake account:               '' @ show_pubkey T (un_from_stake_account u) @ '', seed: '' @
        show_word (un_from_stake_seed u),
      ''  Unstake account:             '' @ show_pubkey T (un_to_unstake_account u) @ '', seed: '' @
        show_word (un_to_unstake_seed u),
      ''  Amount:              '' @ lamports_display (un_amount u)]"

fun maintenance_output_lines :: "text_env \<Rightarrow> maintenance_output \<Rightarrow> string list" where
  "maintenance_output_lines T (StakeDepositTask v a amount) =
     [''Staked deposit.'',
      ''  Validator vote account: '' @ show_pubkey T v,
      ''  Stake account:          '' @ show_pubkey T a,
      ''  Amount staked:          '' @ lamports_display amount]"
| "maintenance_output_lines T UpdateExchangeRateTask = [''Updated exchange rate.'']"
| "maintenance_output_lines T (UpdateStakeAccountBalanceTask v d u) =
     [''Updated stake account balance.'',
      ''  Validator vote account:        '' @ show_pubkey T v,
      ''  Expected difference in stake:  '' @ lamports_display d,
      ''  Amount withdrawn from unstake: '' @ lamports_display u]"
| "maintenance_output_lines T (UpdateOffchainValidatorPerfTask v b r) =
     [''Updated off-chain validator performance.'',
      ''  Validator vote account:     '' @ show_pubkey T v,
      ''  New block production rate:  '' @ percent_2 T b @ ''%'',
      ''  New vote success rate:      '' @ percent_2 T r @ ''%'']"
| "maintenance_output_lines T (UpdateOnchainValidatorPerfTask v) =
     [''Updated on-chain validator performance.'',
      ''  Validator vote account:     '' @ show_pubkey T v]"
| "maintenance_output_lines T (MergeStakeTask v f t fs ts) =
     [''Stake accounts merged'',
      ''  Validator vote account: '' @ show_pubkey T v,
      ''  From stake:             '' @ show_pubkey T f @ '', seed: '' @ show_word fs,
      ''  To stake:               '' @ show_pubkey T t @ '', seed: '' @ show_word ts]"
| "maintenance_output_lines T (UnstakeFromInactiveValidatorTask u) =
     [''Unstake from inactive validator''] @ unstake_lines T u @ [[]]"
| "maintenance_output_lines T (UnstakeFromActiveValidatorTask u) =
     [''Unstake from active validator''] @ unstake_lines T u @ [[]]"
| "maintenance_output_lines T (DeactivateIfViolatesTask v) =
     [''Deactivate a validator that fails to meet our criteria.'',
      ''  Validator vote account: '' @ show_pubkey T v]"
| "maintenance_output_lines T (ReactivateIfCompliesTask v) =
     [''Reactivate a validator that meets our criteria.'',
      ''  Validator vote account: '' @ show_pubkey T v]"
| "maintenance_output_lines T (RemoveValidatorTask v) =
     [''Remove a validator.'',
      ''  Validator vote account: '' @ show_pubkey T v]"

end
