(* ===== verification/Tool.thy ===== *)
theory Tool
  imports Display Daemon
begin

text \<open>
  The main functions of the command line tool (\<^verbatim>\<open>cli/maintainer/src/main.rs\<close> and
  \<^verbatim>\<open>commands_multisig.rs\<close>): merge the options, load the key that signs, run the subcommand in a
  snapshot or a session, print what it returns or end with status 1.

  What the tool uses of its surroundings is collected in \<open>tool\<close>: the host (files and environment), the
  wallets, the connection to a cluster by its address, the printers of \<^verbatim>\<open>Display.thy\<close> and
  the JSON serialiser. What is read from the command line is the argument of \<open>tool_main\<close>; the parser is
  the clap library. The daemon of \<open>run-maintainer\<close> does not return; \<open>DaemonRuns\<close> records with which
  arguments it is started, and its steps are those of \<^verbatim>\<open>Daemon.thy\<close>.
\<close>

subsection \<open>Printing\<close>

datatype (plugins only: code size) tool_output =
    CreatedMultisig create_multisig_output
  | ShownMultisig show_multisig_output
  | ShownTransaction show_transaction_output
  | ProposedInstruction pubkey
  | Approved approve_output
  | Executed signature
  | CreatedSolido create_solido_output
  | ViolationsDeactivated deactivate_if_violates_output
  | ShownSolido show_solido_output
  | ShownAuthorities show_solido_authorities_output
  | Deposited deposit_output
  | Withdrawn withdraw_output
  | CreatedV2Accounts create_v2_accounts_output
  | Maintained maintenance_output

record 'n tool =
  tool_host :: host
  tool_wallets :: wallets
  connect :: "string \<Rightarrow> 'n cli"
  tool_text :: text_env
  json_pretty :: "tool_output \<Rightarrow> string option"

fun tool_output_lines :: "lenv \<Rightarrow> text_env \<Rightarrow> tool_output \<Rightarrow> string list" where
  "tool_output_lines E T (CreatedMultisig out) = create_multisig_lines T out"
| "tool_output_lines E T (ShownMultisig out) = show_multisig_lines T out"
| "tool_output_lines E T (ShownTransaction out) = show_transaction_lines T out"
| "tool_output_lines E T (ProposedInstruction addr) = propose_instruction_lines T addr"
| "tool_output_lines E T (Approved out) = approve_lines T out"
| "tool_output_lines E T (Executed sig) = execute_lines T sig"
| "tool_output_lines E T (CreatedSolido out) = create_solido_lines T out"
| "tool_output_lines E T (ViolationsDeactivated out) = deactivate_if_violates_lines T out"
| "tool_output_lines E T (ShownSolido out) = show_solido_lines E T out"
| "tool_output_lines E T (ShownAuthorities out) = show_solido_authorities_lines T out"
| "tool_output_lines E T (Deposited out) = deposit_lines T out"
| "tool_output_lines E T (Withdrawn out) = withdraw_lines T out"
| "tool_output_lines E T (CreatedV2Accounts out) = create_v2_accounts_lines T out"
| "tool_output_lines E T (Maintained out) = maintenance_output_lines T out"

text \<open>How the process ends: normally, after its main function has printed a text; with a status, after a
  context message; by a panic, or an exit inside of a command; or not at all, as the daemon.\<close>

datatype (plugins only: code size) tool_ending =
    Printed string
  | ExitStatus nat string
  | Aborted
  | DaemonRuns pubkey output_mode maintainer_opts

definition println :: "string \<Rightarrow> string" where
  "println s = s @ newline"

definition print_output :: "lenv \<Rightarrow> 'n tool \<Rightarrow> output_mode \<Rightarrow> tool_output \<Rightarrow> tool_ending" where
  "print_output E X mode output =
     (case mode of
        Text \<Rightarrow> Printed (println (display_text (tool_output_lines E (tool_text X) output)))
      | Json \<Rightarrow>
          (case json_pretty X output of
             None \<Rightarrow> Aborted
           | Some json_string \<Rightarrow> Printed (println json_string)))"

definition ok_or_abort_with :: "('a, 'e) result \<Rightarrow> string \<Rightarrow> ('a \<Rightarrow> tool_ending) \<Rightarrow> tool_ending" where
  "ok_or_abort_with r message k =
     (case r of Ok a \<Rightarrow> k a | Err e \<Rightarrow> ExitStatus 1 message | Panic \<Rightarrow> Aborted)"

subsection \<open>Running a command\<close>

type_synonym 'n tool_run = "snapshot_client \<times> 'n \<times> string list \<Rightarrow> (tool_ending \<times> 'n) option"

definition run_session :: "string \<Rightarrow> ('a \<Rightarrow> tool_ending) \<Rightarrow> ('n, 'a) session \<Rightarrow> 'n tool_run" where
  "run_session message k m =
     (\<lambda>st. map_option (\<lambda>(r, client, n, lines). (ok_or_abort_with r message k, n)) (m st))"

definition run_snapshot :: "'n cli \<Rightarrow> string \<Rightarrow> ('a \<Rightarrow> tool_ending) \<Rightarrow> ('n, 'a) reads \<Rightarrow> 'n tool_run" where
  "run_snapshot K message k f = run_session message k (session_snapshot K f)"

definition multisig_main :: "lenv \<Rightarrow> 'n tool \<Rightarrow> 'n cli \<Rightarrow> cli_config \<Rightarrow> multisig_subcommand \<Rightarrow> 'n tool_run" where
  "multisig_main E X K cfg c =
     (let mode = config_output_mode cfg;
          proposed = (\<lambda>addr. print_output E X mode (ProposedInstruction addr)) in
      case c of
        CreateMultisig o1 \<Rightarrow>
          run_snapshot K ''Failed to create multisig.'' (\<lambda>out. print_output E X mode (CreatedMultisig out))
            (create_multisig E K cfg o1)
      | ShowMultisig o1 \<Rightarrow>
          run_snapshot K ''Failed to read multisig.'' (\<lambda>out. print_output E X mode (ShownMultisig out))
            (show_multisig E K o1)
      | ShowTransaction o1 \<Rightarrow>
          run_snapshot K ''Failed to read multisig.'' (\<lambda>out. print_output E X mode (ShownTransaction out))
            (reads_bind (reads_lift (opt_pubkey o1 ''transaction_address'')) (\<lambda>transaction_address.
             reads_bind (reads_lift (opt_pubkey o1 ''multisig_program_id'')) (\<lambda>multisig_program_id.
             reads_bind (reads_lift (opt_pubkey o1 ''solido_program_id'')) (\<lambda>solido_program_id.
             show_transaction E K transaction_address multisig_program_id solido_program_id))))
      | ProposeUpgrade o1 \<Rightarrow>
          run_snapshot K ''Failed to propose upgrade.'' proposed (propose_upgrade E K cfg o1)
      | ProposeChangeMultisig o1 \<Rightarrow>
          run_snapshot K ''Failed to propose multisig change.'' proposed
            (propose_change_multisig E K cfg o1)
      | ProposeAddOwner o1 \<Rightarrow>
          run_snapshot K ''Failed to propose addition.'' proposed (propose_add_owner E K cfg o1)
      | ProposeRevokeOwner o1 \<Rightarrow>
          run_snapshot K ''Failed to propose revocation.'' proposed (propose_revoke_owner E K cfg o1)
      | SetUpgradeAuthority o1 \<Rightarrow>
          run_snapshot K ''Failed to set upgrade authority.'' proposed
            (propose_set_upgrade_authority E K cfg o1)
      | Approve o1 \<Rightarrow>
          run_session ''Failed to approve multisig transaction.'' (\<lambda>out. print_output E X mode (Approved out))
            (session_bind (session_lift (opt_pubkey o1 ''transaction_address'')) (\<lambda>transaction_address.
             session_bind (session_lift (opt_pubkey o1 ''multisig_program_id'')) (\<lambda>multisig_program_id.
             session_bind (session_lift (opt_pubkey o1 ''multisig_address'')) (\<lambda>multisig_address.
             approve E K cfg [transaction_address] multisig_program_id multisig_address))))
      | ExecuteTransaction o1 \<Rightarrow>
          run_snapshot K ''Failed to execute multisig transaction.'' (\<lambda>sig. print_output E X mode (Executed sig))
            (reads_bind (reads_lift (opt_pubkey o1 ''transaction_address'')) (\<lambda>transaction_address.
             reads_bind (reads_lift (opt_pubkey o1 ''multisig_program_id'')) (\<lambda>multisig_program_id.
             reads_bind (reads_lift (opt_pubkey o1 ''multisig_address'')) (\<lambda>multisig_address.
             execute_transaction E K cfg transaction_address multisig_program_id multisig_address))))
      | ApproveBatch o1 \<Rightarrow>
          run_session ''Failed to batch-approve multisig transactions.'' (\<lambda>u. Printed '''')
            (approve_batch E K (tool_host X) cfg o1)
      | TokenTransfer o1 \<Rightarrow>
          run_snapshot K ''Failed to transfer token.'' proposed (transfer_token E K cfg o1))"

text \<open>\<open>check_end_of_epoch_threshold\<close> accepts 100, although its message asks for less.\<close>

definition check_end_of_epoch_threshold :: "u8 \<Rightarrow> (unit, exit) result" where
  "check_end_of_epoch_threshold threshold = (if 100 < threshold then Err (Exit 1) else Ok ())"

definition maintainer_opts_from :: "opts \<Rightarrow> (maintainer_opts, exit) result" where
  "maintainer_opts_from o1 =
     and_then (opt_u8 o1 ''end_of_epoch_threshold'') (\<lambda>threshold.
     and_then (check_end_of_epoch_threshold threshold) (\<lambda>u.
     and_then (opt_pubkey o1 ''solido_program_id'') (\<lambda>program_id.
     and_then (opt_pubkey o1 ''solido_address'') (\<lambda>address.
     and_then (opt_stake_time o1 ''stake_time'') (\<lambda>time.
     Ok \<lparr>opts_solido_program_id = program_id, opts_solido_address = address, opts_stake_time = time,
         opts_end_of_epoch_threshold = threshold\<rparr>)))))"

definition exit_ending :: "('a, exit) result \<Rightarrow> ('a \<Rightarrow> 'n tool_run) \<Rightarrow> 'n tool_run" where
  "exit_ending r k =
     (\<lambda>(client, n, lines). case r of
        Ok a \<Rightarrow> k a (client, n, lines)
      | Err (Exit code) \<Rightarrow> Some (ExitStatus code '''', n)
      | Panic \<Rightarrow> Some (Aborted, n))"

definition print_maintenance :: "lenv \<Rightarrow> 'n tool \<Rightarrow> output_mode \<Rightarrow> maintenance_output option \<Rightarrow> tool_ending" where
  "print_maintenance E X mode output =
     (case (mode, output) of
        (Text, None) \<Rightarrow> Printed (println ''Nothing done, there was no maintenance to perform.'')
      | (Json, None) \<Rightarrow> Printed (println ''null'')
      | (mode, Some output) \<Rightarrow> print_output E X mode (Maintained output))"

definition run_subcommand :: "lenv \<Rightarrow> 'n tool \<Rightarrow> 'n cli \<Rightarrow> cli_config \<Rightarrow> subcommand \<Rightarrow> 'n tool_run" where
  "run_subcommand E X K cfg c =
     (let mode = config_output_mode cfg;
          proposed = (\<lambda>addr. print_output E X mode (ProposedInstruction addr)) in
      case c of
        CmdCreateSolido o1 \<Rightarrow>
          run_snapshot K ''Failed to create Solido instance.'' (\<lambda>out. print_output E X mode (CreatedSolido out))
            (command_create_solido E K (tool_wallets X) cfg o1)
      | CmdMultisig m \<Rightarrow> multisig_main E X K cfg m
      | CmdPerformMaintenance o1 \<Rightarrow>
          exit_ending (maintainer_opts_from o1) (\<lambda>m.
          run_snapshot K ''Failed to perform maintenance.'' (print_maintenance E X mode)
            (run_perform_maintenance E (rpc K) (config_signer cfg) mode (opts_solido_program_id m)
              (opts_solido_address m) (opts_stake_time m) (opts_end_of_epoch_threshold m)))
      | CmdRunMaintainer o1 \<Rightarrow>
          exit_ending (maintainer_opts_from o1) (\<lambda>m (client, n, lines).
          Some (DaemonRuns (config_signer cfg) mode m, n))
      | CmdAddValidator o1 \<Rightarrow>
          run_snapshot K ''Failed to add validator.'' proposed (command_add_validator E K cfg o1)
      | CmdDeactivateValidator o1 \<Rightarrow>
          run_snapshot K ''Failed to deactivate validator.'' proposed (command_deactivate_validator E K cfg o1)
      | CmdDeactivateIfViolates o1 \<Rightarrow>
          run_snapshot K ''Failed to check max commission violation.''
            (\<lambda>out. print_output E X mode (ViolationsDeactivated out)) (command_deactivate_if_violates E K cfg o1)
      | CmdRemoveValidator o1 \<Rightarrow>
          run_snapshot K ''Failed to remove validator.'' proposed (command_remove_validator E K cfg o1)
      | CmdAddMaintainer o1 \<Rightarrow>
          run_snapshot K ''Failed to add maintainer.'' proposed (command_add_maintainer E K cfg o1)
      | CmdRemoveMaintainer o1 \<Rightarrow>
          run_snapshot K ''Failed to remove maintainer.'' proposed (command_remove_maintainer E K cfg o1)
      | CmdShowSolido o1 \<Rightarrow>
          run_snapshot K ''Failed to show Solido data.'' (\<lambda>out. print_output E X mode (ShownSolido out))
            (command_show_solido E K o1)
      | CmdShowAuthorities o1 \<Rightarrow>
          run_snapshot K ''Failed to show authorities for Solido public key.''
            (\<lambda>out. print_output E X mode (ShownAuthorities out)) (reads_lift (command_show_solido_authorities E o1))
      | CmdDeposit o1 \<Rightarrow>
          run_session ''Failed to deposit.'' (\<lambda>out. print_output E X mode (Deposited out)) (command_deposit E K cfg o1)
      | CmdWithdraw o1 \<Rightarrow>
          run_session ''Failed to withdraw.'' (\<lambda>out. print_output E X mode (Withdrawn out)) (command_withdraw E K cfg o1)
      | CmdChangeCriteria o1 \<Rightarrow>
          run_snapshot K ''Failed to set max validation commission.'' proposed (command_change_criteria E K cfg o1)
      | CmdMigrateStateToV2 o1 \<Rightarrow>
          run_session ''Failed to update Solido state to V2.'' proposed (command_migrate_state_to_v2 E K cfg o1)
      | CmdCreateV2Accounts o1 \<Rightarrow>
          run_snapshot K ''Failed to create new Solido V2 accounts.'' (\<lambda>out. print_output E X mode (CreatedV2Accounts out))
            (command_create_v2_accounts E K cfg o1))"

subsection \<open>The main function\<close>

definition load_signer :: "wallets \<Rightarrow> string \<Rightarrow> string \<Rightarrow> (pubkey, cli_error) result" where
  "load_signer W keypair keypair_path =
     (if keypair = [] then get_signer_from_path W keypair_path else get_signer_from_key W keypair)"

text \<open>The four unwraps of the merged options, which the source calls safe.\<close>

definition main_args :: "main_opts \<Rightarrow> (string \<times> string \<times> string \<times> output_mode, exit) result" where
  "main_args opts =
     and_then (unwrap_opt (main_keypair opts)) (\<lambda>keypair.
     and_then (unwrap_opt (main_keypair_path opts)) (\<lambda>keypair_path.
     and_then (unwrap_opt (main_cluster opts)) (\<lambda>cluster.
     and_then (unwrap_opt (main_output_mode opts)) (\<lambda>output_mode.
     Ok (keypair, keypair_path, cluster, output_mode)))))"

definition tool_main :: "lenv \<Rightarrow> 'n tool \<Rightarrow> main_opts \<Rightarrow> 'n \<Rightarrow> string list \<Rightarrow> (tool_ending \<times> 'n) option" where
  "tool_main E X opts n lines =
     exit_ending (main_merge_with_config_and_environment (tool_host X) opts) (\<lambda>(opts, config_file).
     exit_ending (main_args opts) (\<lambda>(keypair, keypair_path, cluster, output_mode) st.
       case load_signer (tool_wallets X) keypair keypair_path of
         Err e \<Rightarrow> Some (ExitStatus 1 ''Failed to load signer keypair.'', n)
       | Panic \<Rightarrow> Some (Aborted, n)
       | Ok signer \<Rightarrow>
           exit_ending (merge_subcommand (tool_host X) config_file (main_subcommand opts))
             (run_subcommand E X (connect X cluster)
               \<lparr>config_signer = signer, config_output_mode = output_mode\<rparr>) st))
     (snapshot_client_new, n, lines)"

end
