(* ===== verification/DisplayFacts.thy ===== *)
theory DisplayFacts
  imports Display Governance
begin

text \<open>
  Owners of the multisig approve what the tool prints. The text of an instruction determines the
  instruction, and the text of a change of owners lists exactly who stays, leaves and joins, for any
  printing of addresses by distinct alphanumeric strings and any order of traversing a set.
\<close>

subsection \<open>Printing is injective\<close>

definition alphanumeric :: "char \<Rightarrow> bool" where
  "alphanumeric c \<longleftrightarrow> (let n = of_char c :: nat in 48 \<le> n \<and> n \<le> 57 \<or> 65 \<le> n \<and> n \<le> 90 \<or> 97 \<le> n \<and> n \<le> 122)"

locale address_text =
  fixes T :: text_env
  assumes distinct_text: "show_pubkey T k = show_pubkey T k' \<Longrightarrow> k = k'"
    and plain_text: "c \<in> set (show_pubkey T k) \<Longrightarrow> alphanumeric c"
    and traversal: "finite A \<Longrightarrow> set (set_order T A) = A"

lemma map_digit_char_inj:
  "\<lbrakk>map digit_char xs = map digit_char ys; \<forall>d \<in> set xs. d < 10; \<forall>d \<in> set ys. d < 10\<rbrakk> \<Longrightarrow> xs = ys"
proof (induction xs arbitrary: ys)
  case (Cons x xs)
  then obtain y ys' where ys: "ys = y # ys'" by (cases ys) auto
  with Cons.prems have "(of_char (digit_char x) :: nat) = of_char (digit_char y)" by simp
  then have "x = y" using Cons.prems ys by simp
  with Cons ys show ?case by simp
qed simp

lemma fmt_u64_inj: "fmt_u64 m = fmt_u64 n \<longleftrightarrow> m = n"
proof
  assume "fmt_u64 m = fmt_u64 n"
  then have "dec_digits m = dec_digits n"
    unfolding fmt_u64_def by (rule map_digit_char_inj) (blast intro: dec_digits_less)+
  then show "m = n" by (metis dec_digits_value)
qed simp

lemma show_word_inj: "show_word a = show_word b \<longleftrightarrow> a = b"
  by (simp add: show_word_def fmt_u64_inj word_unat_eq_iff)

lemma show_word_digits: "c \<in> set (show_word w) \<Longrightarrow> is_digit c"
proof -
  assume "c \<in> set (show_word w)"
  then obtain d where "d \<in> set (dec_digits (unat w))" "c = digit_char d"
    unfolding show_word_def fmt_u64_def set_map by blast
  moreover from this have "d < 10" by (blast dest: dec_digits_less)
  ultimately show ?thesis by (simp add: is_digit_def)
qed

text \<open>Texts that differ only in a separator that neither side contains.\<close>

lemma append_sep_inj:
  "\<lbrakk>xs @ c # zs = ys @ c # ws; c \<notin> set xs; c \<notin> set ys\<rbrakk> \<Longrightarrow> xs = ys \<and> zs = ws"
proof (induction xs arbitrary: ys)
  case Nil
  then show ?case by (cases ys) auto
next
  case (Cons x xs)
  then show ?case by (cases ys) auto
qed

lemma display_text_inj:
  "\<lbrakk>display_text xs = display_text ys; \<forall>l \<in> set xs. CHR 0x0A \<notin> set l; \<forall>l \<in> set ys. CHR 0x0A \<notin> set l\<rbrakk> \<Longrightarrow> xs = ys"
proof (induction xs arbitrary: ys)
  case Nil
  then show ?case by (cases ys) (auto simp: display_text_def)
next
  case (Cons x xs)
  then obtain y ys' where ys: "ys = y # ys'" by (cases ys) (auto simp: display_text_def)
  have "x @ CHR 0x0A # display_text xs = y @ CHR 0x0A # display_text ys'"
    using Cons.prems(1) by (simp add: ys display_text_def)
  then have "x = y \<and> display_text xs = display_text ys'"
    using Cons.prems(2,3) ys by (intro append_sep_inj) auto
  then show ?case using Cons ys by auto
qed

lemma align_right_inj:
  "\<lbrakk>align_right n s = align_right n t; CHR '' '' \<notin> set s; CHR '' '' \<notin> set t\<rbrakk> \<Longrightarrow> s = t"
proof -
  assume *: "align_right n s = align_right n t" "CHR '' '' \<notin> set s" "CHR '' '' \<notin> set t"
  have "dropWhile (\<lambda>c. c = CHR '' '') (align_right n s) = s" if "CHR '' '' \<notin> set s" for s
    using that by (cases s) (auto simp: align_right_def dropWhile_append)
  with * show ?thesis by metis
qed

fun shown_current :: "solido_instruction \<Rightarrow> lido option" where
  "shown_current (ShownChangeRewardDistribution current d a m r) = Some current"
| "shown_current i = None"

context address_text
begin

lemma show_inj [simp]: "show_pubkey T k = show_pubkey T k' \<longleftrightarrow> k = k'"
  using distinct_text by blast

lemma not_in_address: "\<not> alphanumeric c \<Longrightarrow> c \<notin> set (show_pubkey T k)"
  using plain_text by blast

lemma not_in_number: "\<not> is_digit c \<Longrightarrow> c \<notin> set (show_word w)"
  using show_word_digits by blast

lemma plain_chars:
  "CHR 0x0A \<notin> set (show_pubkey T k)" "CHR '' '' \<notin> set (show_pubkey T k)" "CHR 0x0A \<notin> set (show_word w)"
  "CHR '' '' \<notin> set (show_word w)" "CHR ''/'' \<notin> set (show_word w)" "CHR ''>'' \<notin> set (show_word w)"
  "CHR ''%'' \<notin> set (show_word w)" "CHR '','' \<notin> set (show_word w)"
  by (simp_all add: not_in_address not_in_number alphanumeric_def is_digit_def)

lemma changed_addr_inj: "changed_addr T c a name = changed_addr T c b name \<Longrightarrow> a = b"
proof -
  have no: "show_pubkey T a \<noteq> show_pubkey T b @ CHR '' '' # s" for a b s
    using plain_chars(2) by (metis in_set_conv_decomp)
  assume "changed_addr T c a name = changed_addr T c b name"
  then show "a = b"
    using no [of c b] no [of c a] by (auto simp: changed_addr_def split: if_splits dest: sym)
qed

lemma fraction_inj:
  "show_word a @ ''/'' @ show_word s = show_word b @ ''/'' @ show_word t \<longleftrightarrow> a = b \<and> s = t"
  using append_sep_inj [of "show_word a" "CHR ''/''" "show_word s" "show_word b" "show_word t"]
  by (auto simp: plain_chars show_word_inj)

lemma changed_fee_inj:
  assumes "changed_fee c a cs s name = changed_fee c b cs t name"
  shows "a = b"
proof -
  let ?f = "\<lambda>a s. show_word a @ ''/'' @ show_word s"
  have sp: "CHR '' '' \<notin> set (?f a s)" "CHR ''>'' \<notin> set (align_right 5 (?f a s))" for a s
    by (auto simp: plain_chars align_right_def)
  have arrow: "''         '' @ align_right 5 (?f a s) \<noteq> align_right 5 (?f c cs) @ '' -> '' @ u" for a s u
  proof
    assume eq: "''         '' @ align_right 5 (?f a s) = align_right 5 (?f c cs) @ '' -> '' @ u"
    have "CHR ''>'' \<in> set (align_right 5 (?f c cs) @ '' -> '' @ u)" by simp
    then have "CHR ''>'' \<in> set (''         '' @ align_right 5 (?f a s))" by (simp only: eq)
    then show False using sp(2) by auto
  qed
  have "align_right 5 (?f a s) = align_right 5 (?f b t)"
    using assms arrow [of a s] arrow [of b t]
    by (auto simp: changed_fee_def Let_def split: if_splits dest: sym)
  then have "?f a s = ?f b t" by (rule align_right_inj) (use sp(1) in auto)
  then show ?thesis by (simp only: fraction_inj)
qed

lemma debug_reward_distribution_inj: "debug_reward_distribution d = debug_reward_distribution d' \<Longrightarrow> d = d'"
proof -
  assume "debug_reward_distribution d = debug_reward_distribution d'"
  then have 1: "show_word (treasury_fee d) @ CHR '','' # '' developer_fee: '' @ show_word (developer_fee d) @
        CHR '','' # '' st_sol_appreciation: '' @ show_word (st_sol_appreciation d) @ '' }'' =
      show_word (treasury_fee d') @ CHR '','' # '' developer_fee: '' @ show_word (developer_fee d') @
        CHR '','' # '' st_sol_appreciation: '' @ show_word (st_sol_appreciation d') @ '' }''"
    by (simp add: debug_reward_distribution_def)
  from append_sep_inj [OF 1] have t: "treasury_fee d = treasury_fee d'"
    and 2: "show_word (developer_fee d) @ CHR '','' # '' st_sol_appreciation: '' @ show_word (st_sol_appreciation d) @ '' }'' =
      show_word (developer_fee d') @ CHR '','' # '' st_sol_appreciation: '' @ show_word (st_sol_appreciation d') @ '' }''"
    by (auto simp: plain_chars show_word_inj)
  from append_sep_inj [OF 2] have "developer_fee d = developer_fee d'" "st_sol_appreciation d = st_sol_appreciation d'"
    by (auto simp: plain_chars show_word_inj)
  with t show "d = d'" by simp
qed

lemma changed_lines_inj:
  assumes "print_changed_reward_distribution c d @ print_changed_recipients T c r =
    print_changed_reward_distribution c d' @ print_changed_recipients T c r'"
  shows "d = d' \<and> r = r'"
proof -
  have "treasury_fee d = treasury_fee d'" "developer_fee d = developer_fee d'"
    "st_sol_appreciation d = st_sol_appreciation d'"
    "treasury_account r = treasury_account r'" "developer_account r = developer_account r'"
    using assms by (auto simp: print_changed_reward_distribution_def print_changed_recipients_def Let_def
        dest: changed_fee_inj changed_addr_inj)
  then show ?thesis by simp
qed

lemma instruction_lines_inj:
  assumes "solido_instruction_lines T i = solido_instruction_lines T j"
    and "\<And>c c'. shown_current i = Some c \<Longrightarrow> shown_current j = Some c' \<Longrightarrow> c = c'"
  shows "i = j"
proof (cases i)
  case (ShownAddValidator a m v)
  then show ?thesis using assms(1) by (cases j) (simp_all add: show_word_inj)
next
  case (ShownDeactivateValidator a m v k)
  then show ?thesis using assms(1) by (cases j) (simp_all add: show_word_inj)
next
  case (ShownAddMaintainer a m v)
  then show ?thesis using assms(1) by (cases j) (simp_all add: show_word_inj)
next
  case (ShownRemoveMaintainer a m v k)
  then show ?thesis using assms(1) by (cases j) (simp_all add: show_word_inj)
next
  case (ShownChangeCriteria a c m)
  then show ?thesis using assms(1) by (cases j) (simp_all add: show_word_inj)
next
  case (ShownMigrateStateToV2 a m v l d rd mv mm mc)
  then show ?thesis using assms(1) debug_reward_distribution_inj by (cases j) (simp_all add: show_word_inj)
next
  case i: (ShownChangeRewardDistribution c d a m r)
  show ?thesis
  proof (cases j)
    case j: (ShownChangeRewardDistribution c' d' a' m' r')
    have c: "c' = c" using assms(2) [of c c'] by (simp add: i j)
    with assms(1) show ?thesis using changed_lines_inj [of c d r d' r'] by (simp add: i j)
  qed (use assms(1) i in simp_all)
qed

lemma changed_addr_plain: "CHR 0x0A \<notin> set name \<Longrightarrow> CHR 0x0A \<notin> set (changed_addr T c a name)"
  by (simp add: changed_addr_def plain_chars)

lemma changed_fee_plain: "CHR 0x0A \<notin> set name \<Longrightarrow> CHR 0x0A \<notin> set (changed_fee c a cs s name)"
  by (simp add: changed_fee_def align_right_def Let_def plain_chars)

lemma changed_lines_plain:
  "\<forall>l \<in> set (print_changed_reward_distribution c d). CHR 0x0A \<notin> set l"
  "\<forall>l \<in> set (print_changed_recipients T c r). CHR 0x0A \<notin> set l"
  by (simp_all add: print_changed_reward_distribution_def print_changed_recipients_def Let_def changed_fee_plain
      changed_addr_plain)

lemma instruction_lines_plain: "\<forall>l \<in> set (solido_instruction_lines T i). CHR 0x0A \<notin> set l"
  by (cases i) (simp_all add: plain_chars debug_reward_distribution_def ball_Un changed_lines_plain)

lemma instruction_text_inj:
  assumes "display_text (solido_instruction_lines T i) = display_text (solido_instruction_lines T j)"
    and "\<And>c c'. shown_current i = Some c \<Longrightarrow> shown_current j = Some c' \<Longrightarrow> c = c'"
  shows "i = j"
proof (rule instruction_lines_inj)
  show "solido_instruction_lines T i = solido_instruction_lines T j"
    using assms(1) by (rule display_text_inj) (rule instruction_lines_plain)+
qed (rule assms(2))

lemma diff_lines_split:
  "\<exists>a b. take 5 a = ''    T'' \<and> take 5 b = ''    O'' \<and> print_diff_multisig T t t' os ns = a # b #
     map (\<lambda>k. ''        '' @ show_pubkey T k) (set_order T (set os \<inter> set ns)) @
     map (\<lambda>k. ''      - '' @ show_pubkey T k) (set_order T (set os - set ns)) @
     map (\<lambda>k. ''      + '' @ show_pubkey T k) (set_order T (set ns - set os))"
  by (simp add: print_diff_multisig_def)

lemma diff_lines:
  "''        '' @ show_pubkey T k \<in> set (print_diff_multisig T t t' os ns) \<longleftrightarrow> k \<in> set os \<inter> set ns"
  "''      - '' @ show_pubkey T k \<in> set (print_diff_multisig T t t' os ns) \<longleftrightarrow> k \<in> set os - set ns"
  "''      + '' @ show_pubkey T k \<in> set (print_diff_multisig T t t' os ns) \<longleftrightarrow> k \<in> set ns - set os"
proof -
  obtain a b where a: "take 5 a = ''    T''" and b: "take 5 b = ''    O''"
    and lines: "print_diff_multisig T t t' os ns = a # b #
     map (\<lambda>k. ''        '' @ show_pubkey T k) (set_order T (set os \<inter> set ns)) @
     map (\<lambda>k. ''      - '' @ show_pubkey T k) (set_order T (set os - set ns)) @
     map (\<lambda>k. ''      + '' @ show_pubkey T k) (set_order T (set ns - set os))"
    using diff_lines_split by blast
  have ne: "''        '' @ show_pubkey T k \<noteq> x" "''      - '' @ show_pubkey T k \<noteq> x" "''      + '' @ show_pubkey T k \<noteq> x"
    if "x = a \<or> x = b" for x
    using that a b by auto
  have im: "set (print_diff_multisig T t t' os ns) = {a, b} \<union>
     (\<lambda>k. ''        '' @ show_pubkey T k) ` (set os \<inter> set ns) \<union>
     (\<lambda>k. ''      - '' @ show_pubkey T k) ` (set os - set ns) \<union>
     (\<lambda>k. ''      + '' @ show_pubkey T k) ` (set ns - set os)"
    unfolding lines by (simp add: traversal Un_assoc)
  show "''        '' @ show_pubkey T k \<in> set (print_diff_multisig T t t' os ns) \<longleftrightarrow> k \<in> set os \<inter> set ns"
    using ne(1) unfolding im by (simp add: image_iff)
  show "''      - '' @ show_pubkey T k \<in> set (print_diff_multisig T t t' os ns) \<longleftrightarrow> k \<in> set os - set ns"
    using ne(2) unfolding im by (simp add: image_iff)
  show "''      + '' @ show_pubkey T k \<in> set (print_diff_multisig T t t' os ns) \<longleftrightarrow> k \<in> set ns - set os"
    using ne(3) unfolding im by (simp add: image_iff)
qed

end

subsection \<open>What the owners see\<close>

definition reference_text :: text_env where
  "reference_text =
     \<lparr>show_pubkey = (\<lambda>k. show_word k), show_signature = (\<lambda>s. []), percent_2 = (\<lambda>x. show_word x),
      set_order = sorted_list_of_set, wormhole_ldo_id = 5\<rparr>"

interpretation reft: address_text reference_text
proof
  fix c k assume "c \<in> set (show_pubkey reference_text k)"
  then have "is_digit c" by (simp add: reference_text_def show_word_digits)
  then show "alphanumeric c" by (simp add: is_digit_def alphanumeric_def Let_def)
qed (simp_all add: reference_text_def show_word_inj)

text \<open>C22: The printed text determines what was parsed. For any printing of addresses by distinct alphanumeric
  strings, two parsed instructions (values of \<open>SolidoInstruction\<close>) that \<open>show-transaction\<close> prints in the same way are
  the same in every field. What the parsing has already dropped is not determined: the account list of most
  instructions, the performance list of the migration, and everything of a removal, which is shown as invalid. Changes of
  the reward distribution are printed relative to the current state, which has to be the same for both.\<close>

theorem shown_text_determines_instruction:
  assumes "address_text T"
    and "display_text (solido_instruction_lines T i) = display_text (solido_instruction_lines T j)"
    and "\<forall>c c'. shown_current i = Some c \<longrightarrow> shown_current j = Some c' \<longrightarrow> c = c'"
  shows "i = j"
  using address_text.instruction_text_inj [OF assms(1,2)] assms(3) by blast

theorem shown_text_witness:
  "display_text (solido_instruction_lines reference_text (ShownAddMaintainer 1 2 3)) \<noteq>
   display_text (solido_instruction_lines reference_text (ShownAddMaintainer 1 2 4))"
proof
  assume "display_text (solido_instruction_lines reference_text (ShownAddMaintainer 1 2 3)) =
    display_text (solido_instruction_lines reference_text (ShownAddMaintainer 1 2 4))"
  from shown_text_determines_instruction [OF reft.address_text_axioms this] show False by simp
qed

text \<open>The text of a change of owners marks exactly the owners who stay, who leave and who join.\<close>

theorem owner_changes_are_shown:
  assumes "address_text T"
  shows "(''        '' @ show_pubkey T k \<in> set (print_diff_multisig T t t' os ns) \<longleftrightarrow> k \<in> set os \<inter> set ns) \<and>
    (''      - '' @ show_pubkey T k \<in> set (print_diff_multisig T t t' os ns) \<longleftrightarrow> k \<in> set os - set ns) \<and>
    (''      + '' @ show_pubkey T k \<in> set (print_diff_multisig T t t' os ns) \<longleftrightarrow> k \<in> set ns - set os)"
  using address_text.diff_lines [OF assms] by blast

text \<open>The tool's own derivation of stake account addresses is that of the program.\<close>

lemma tool_stake_address_eq:
  "tool_stake_address E (vote_account_address v) program_id solido_account seed stake_type =
     find_stake_account_address (find_program_address E) v program_id solido_account seed stake_type"
  by (simp add: tool_stake_address_def tool_stake_address_with_authority_def find_stake_account_address_def
      find_stake_account_address_with_authority_def u64_bytes_def Let_def)

end
