(* ===== verification/ToolFacts.thy ===== *)
theory ToolFacts
  imports Tool DisplayFacts
begin

text \<open>
  What the main function of the tool guarantees whatever the subcommand does: the commands that show something
  cannot send, and nothing reaches the network before the options are complete.
\<close>

subsection \<open>Reading does not depend on sending\<close>

definition with_sending ::
  "('n \<Rightarrow> transaction \<Rightarrow> (signature, client_error) result \<times> 'n) \<Rightarrow> 'n cli \<Rightarrow> 'n cli" where
  "with_sending g K = K\<lparr>rpc := (rpc K)\<lparr>send_transaction_with_config := g\<rparr>\<rparr>"

lemma with_sending_simps [simp]:
  "rpc (with_sending g K) = (rpc K)\<lparr>send_transaction_with_config := g\<rparr>"
  "serum (with_sending g K) = serum K" "native (with_sending g K) = native K"
  "deserialize_instruction (with_sending g K) = deserialize_instruction K"
  by (simp_all add: with_sending_def)

lemma read_chunks_sending [simp]:
  "read_chunks (C\<lparr>send_transaction_with_config := g\<rparr>) acc cs n = read_chunks C acc cs n"
  by (induction C acc cs n rule: read_chunks.induct) (simp_all split: prod.split result.split)

lemma num_chunks_loop_sending [simp]:
  "num_chunks_loop (C\<lparr>send_transaction_with_config := g\<rparr>) query k m n = num_chunks_loop C query k m n"
proof (induction C query k m n rule: num_chunks_loop.induct)
  case (1 C query k m n)
  show ?case
    by (subst (1 2) num_chunks_loop.simps) (simp add: 1 Let_def split: prod.split chunk_outcome.split)
qed

lemma deserialize_validator_info_sending [simp]:
  "deserialize_validator_info (C\<lparr>send_transaction_with_config := g\<rparr>) addr bs = deserialize_validator_info C addr bs"
  by (simp add: deserialize_validator_info_def Let_def case_prod_beta cong: if_cong)

lemma info_accounts_loop_sending [simp]:
  "info_accounts_loop (C\<lparr>send_transaction_with_config := g\<rparr>) mp bad xs = info_accounts_loop C mp bad xs"
  by (induction xs arbitrary: mp bad) (auto split: prod.split result.split)

lemma getters_sending [simp]:
  "get_multiple_accounts_chunked (C\<lparr>send_transaction_with_config := g\<rparr>) client n = get_multiple_accounts_chunked C client n"
  "get_validator_info_accounts (C\<lparr>send_transaction_with_config := g\<rparr>) n = get_validator_info_accounts C n"
  "get_validator_info (C\<lparr>send_transaction_with_config := g\<rparr>) = get_validator_info C"
  "get_vote_account (C\<lparr>send_transaction_with_config := g\<rparr>) = get_vote_account C"
  by (simp_all add: get_multiple_accounts_chunked_def get_validator_info_accounts_def get_validator_info_def
      get_vote_account_def fun_eq_iff split: option.split)

text \<open>The retry loop itself never sends; this holds also when it does not end.\<close>

lemma with_snapshot_sending_Some:
  assumes "with_snapshot C f client n = Some y"
  shows "with_snapshot (C\<lparr>send_transaction_with_config := g\<rparr>) f client n = Some y"
  using assms
  apply (rule with_snapshot.raw_induct [rotated])
  subgoal premises prems for loop C f client n y
    using prems(2) by (subst with_snapshot.simps)
      (auto split: prod.splits result.splits snapshot_error.splits if_splits intro: prems(1))
  done

lemma with_snapshot_sending [simp]:
  "with_snapshot (C\<lparr>send_transaction_with_config := g\<rparr>) f client n = with_snapshot C f client n"
proof (cases "with_snapshot C f client n")
  case None
  have "with_snapshot (C\<lparr>send_transaction_with_config := g\<rparr>) f client n \<noteq> Some y" for y
    using with_snapshot_sending_Some [of "C\<lparr>send_transaction_with_config := g\<rparr>" f client n y
        "send_transaction_with_config C"] None by auto
  then show ?thesis using None by (metis not_Some_eq)
qed (simp add: with_snapshot_sending_Some)

lemma show_sending [simp]:
  "show_multisig E (with_sending g K) = show_multisig E K"
  "try_parse_solido_instruction E (with_sending g K) = try_parse_solido_instruction E K"
  "try_parse_token_instruction E (with_sending g K) = try_parse_token_instruction E K"
  "read_rich_validator (with_sending g K) = read_rich_validator K"
  by (simp_all add: show_multisig_def try_parse_solido_instruction_def try_parse_token_instruction_def
      read_rich_validator_def fun_eq_iff)

lemma parse_instruction_sending [simp]:
  "parse_instruction E (with_sending g K) ms mp lp instr = parse_instruction E K ms mp lp instr"
  by (simp only: parse_instruction_def with_sending_simps show_sending)

lemma commands_sending [simp]:
  "show_transaction E (with_sending g K) tx mp = show_transaction E K tx mp"
  "command_show_solido E (with_sending g K) o1 = command_show_solido E K o1"
  "run_snapshot (with_sending g K) msg k f = run_snapshot K msg k f"
  by (simp_all add: show_transaction_def command_show_solido_def Let_def run_snapshot_def session_snapshot_def
      fun_eq_iff)

fun reads_only :: "subcommand \<Rightarrow> bool" where
  "reads_only (CmdShowSolido o1) = True"
| "reads_only (CmdShowAuthorities o1) = True"
| "reads_only (CmdMultisig (ShowMultisig o1)) = True"
| "reads_only (CmdMultisig (ShowTransaction o1)) = True"
| "reads_only c = False"

lemma print_output_connect [simp]: "print_output E (X\<lparr>connect := c\<rparr>) mode out = print_output E X mode out"
  by (simp add: print_output_def split: output_mode.split)

lemma merge_subcommand_reads_only:
  "merge_subcommand H cf c = Ok c' \<Longrightarrow> reads_only c \<Longrightarrow> reads_only c'"
  by (cases c rule: reads_only.cases)
    (auto simp: merge_subcommand_def multisig_merge_with_config_and_environment_def map_ok_eq_Ok)

lemma run_subcommand_sending:
  "reads_only c \<Longrightarrow> run_subcommand E (X\<lparr>connect := c'\<rparr>) (with_sending g K) cfg c = run_subcommand E X K cfg c"
  by (cases c rule: reads_only.cases) (simp_all add: run_subcommand_def multisig_main_def Let_def)

lemma main_merge_keeps_subcommand:
  "main_merge_with_config_and_environment H opts = Ok (opts', cf) \<Longrightarrow> main_subcommand opts' = main_subcommand opts"
  by (auto simp: main_merge_with_config_and_environment_def and_then_eq_Ok)

lemma merged_reads_only:
  assumes "reads_only (main_subcommand opts)" and "main_merge_with_config_and_environment H opts = Ok (opts', cf)"
    and "merge_subcommand H cf (main_subcommand opts') = Ok c"
  shows "reads_only c"
  using assms merge_subcommand_reads_only main_merge_keeps_subcommand by metis

text \<open>C23: Reading. The commands that show a pool, its authorities, a multisig or a proposed transaction cannot send:
  however the node would react to a transaction, they end in the same way, print the same text and leave the
  same network behind. This holds from the command line on, for every cluster, and also if a read never ends.\<close>

theorem show_commands_never_send:
  assumes "reads_only (main_subcommand opts)"
  shows "tool_main E (X\<lparr>connect := \<lambda>cluster. with_sending g (connect X cluster)\<rparr>) opts n lines =
    tool_main E X opts n lines"
  using assms
  by (auto simp: tool_main_def exit_ending_def split: prod.split result.split exit.split
      intro!: fun_cong [OF run_subcommand_sending] intro: merged_reads_only)

definition example_tool :: "node tool" where
  "example_tool =
     \<lparr>tool_host = example_host\<lparr>env_var := [''HOME'' \<mapsto> ''/home/user'']\<rparr>,
      tool_wallets =
        \<lparr>uri_reference = (\<lambda>s. None), from_uri_key_query = (\<lambda>s. None), locator_from_uri = (\<lambda>s. None),
         derivation_path_default = [], wallet_manager = None, remote_keypair = (\<lambda>s t u. None),
         keypair_file = (\<lambda>s. Some 21), keypair_json = (\<lambda>s. None)\<rparr>,
      connect = (\<lambda>cluster. reference_cli bot_client), tool_text = reference_text, json_pretty = (\<lambda>out. None)\<rparr>"

definition example_main_opts :: main_opts where
  "example_main_opts =
     \<lparr>main_keypair = None, main_keypair_path = None, main_cluster = None, main_output_mode = None,
      main_subcommand = CmdShowAuthorities
        [''solido_address'' \<mapsto> PubkeyV 500, ''solido_program_id'' \<mapsto> PubkeyV solido_id],
      main_config = None\<rparr>"

lemma example_main_merge:
  "main_merge_with_config_and_environment (tool_host example_tool) example_main_opts =
     Ok (example_main_opts\<lparr>main_keypair := Some '''', main_keypair_path := Some ''/home/user/.config/solana/id.json'',
       main_cluster := Some ''http://127.0.0.1:8899'', main_output_mode := Some Text\<rparr>, None)"
proof -
  have texts: "env_var_name ''keypair'' = ''SOLIDO_KEYPAIR''" "env_var_name ''keypair_path'' = ''SOLIDO_KEYPAIR_PATH''"
    "env_var_name ''cluster'' = ''SOLIDO_CLUSTER''" "env_var_name ''output_mode'' = ''SOLIDO_OUTPUT_MODE''"
    "env_var_name ''config'' = ''SOLIDO_CONFIG''"
    by code_simp+
  show ?thesis
    by (simp add: main_merge_with_config_and_environment_def example_main_opts_def example_tool_def example_host_def
      merge_with_config_and_environment_def general_opts_def defaulted_def merge_field_def get_option_from_config_def
      get_option_from_env_def texts default_keypair_path_def get_default_keypair_path_def path_push_def opt_or_def
      opt_string_def opt_path_def opt_output_mode_def)
qed

lemma example_merge_subcommand:
  "merge_subcommand (tool_host example_tool) None (main_subcommand example_main_opts) = Ok (main_subcommand example_main_opts)"
proof -
  have texts: "env_var_name ''solido_address'' = ''SOLIDO_SOLIDO_ADDRESS''"
    "env_var_name ''solido_program_id'' = ''SOLIDO_SOLIDO_PROGRAM_ID''"
    by code_simp+
  show ?thesis
    by (simp add: merge_subcommand_def example_main_opts_def example_tool_def example_host_def
      merge_with_config_and_environment_def show_solido_authorities_opts_def required_def merge_field_def get_option_from_config_def
      get_option_from_env_def texts opt_or_def fun_eq_iff)
qed

lemma example_signer:
  "\<not> starts_with_usb path \<Longrightarrow> load_signer (tool_wallets example_tool) [] path = Ok 21"
  by (simp add: load_signer_def get_signer_from_path_def example_tool_def)

lemma example_show:
  "\<exists>text. tool_main bot_env example_tool example_main_opts example_node [] = Some (Printed text, example_node)"
proof -
  have usb: "\<not> starts_with_usb ''/home/user/.config/solana/id.json''" by code_simp
  have "\<exists>text. run_subcommand bot_env example_tool K \<lparr>config_signer = 21, config_output_mode = Text\<rparr>
    (main_subcommand example_main_opts) (snapshot_client_new, example_node, []) = Some (Printed text, example_node)" for K
    by (simp add: run_subcommand_def example_main_opts_def run_snapshot_def run_session_def session_snapshot_def)
      (subst with_snapshot.simps, simp add: get_multiple_accounts_chunked_def snapshot_client_new_def reads_lift_def
        command_show_solido_authorities_def opt_pubkey_def ordered_set_new_def ok_or_abort_with_def print_output_def)
  then show ?thesis
    by (simp add: tool_main_def exit_ending_def example_main_merge main_args_def example_signer [OF usb] example_merge_subcommand)
qed
theorem show_commands_never_send_witness:
  "\<exists>text. tool_main bot_env
     (example_tool\<lparr>connect := \<lambda>cluster. with_sending (\<lambda>n tx. (Panic, [])) (connect example_tool cluster)\<rparr>)
     example_main_opts example_node [] = Some (Printed text, example_node)"
proof -
  have "reads_only (main_subcommand example_main_opts)" by (simp add: example_main_opts_def)
  then show ?thesis
    using example_show by (simp only: show_commands_never_send [where X = example_tool])
qed

subsection \<open>Nothing happens before the options are complete\<close>

definition given :: "field_spec list \<Rightarrow> opts \<Rightarrow> bool" where
  "given spec o1 \<longleftrightarrow> list_all (\<lambda>f. o1 (field_name f) \<noteq> None) spec"

fun multisig_complete :: "multisig_subcommand \<Rightarrow> bool" where
  "multisig_complete (CreateMultisig o1) = given create_multisig_opts o1"
| "multisig_complete (ShowMultisig o1) = given show_multisig_opts o1"
| "multisig_complete (ShowTransaction o1) = given show_transaction_opts o1"
| "multisig_complete (ProposeUpgrade o1) = given propose_upgrade_opts o1"
| "multisig_complete (ProposeChangeMultisig o1) = given propose_change_multisig_opts o1"
| "multisig_complete (ProposeAddOwner o1) = given propose_owner_multisig_opts o1"
| "multisig_complete (ProposeRevokeOwner o1) = given propose_owner_multisig_opts o1"
| "multisig_complete (SetUpgradeAuthority o1) = given set_upgrade_authority_opts o1"
| "multisig_complete (Approve o1) = given approve_opts o1"
| "multisig_complete (ExecuteTransaction o1) = given execute_transaction_opts o1"
| "multisig_complete (ApproveBatch o1) = given approve_batch_opts o1"
| "multisig_complete (TokenTransfer o1) = given transfer_token_opts o1"

text \<open>For the two maintenance commands, the threshold must also be a percentage.\<close>

definition threshold_in_range :: "opts \<Rightarrow> bool" where
  "threshold_in_range o1 \<longleftrightarrow> (case o1 ''end_of_epoch_threshold'' of Some (U8V t) \<Rightarrow> t \<le> 100 | _ \<Rightarrow> False)"

fun subcommand_complete :: "subcommand \<Rightarrow> bool" where
  "subcommand_complete (CmdCreateSolido o1) = given create_solido_opts o1"
| "subcommand_complete (CmdAddValidator o1) = given add_validator_opts o1"
| "subcommand_complete (CmdDeactivateValidator o1) = given deactivate_validator_opts o1"
| "subcommand_complete (CmdRemoveValidator o1) = given remove_validator_opts o1"
| "subcommand_complete (CmdDeactivateIfViolates o1) = given deactivate_if_violates_opts o1"
| "subcommand_complete (CmdAddMaintainer o1) = given add_remove_maintainer_opts o1"
| "subcommand_complete (CmdRemoveMaintainer o1) = given add_remove_maintainer_opts o1"
| "subcommand_complete (CmdDeposit o1) = given deposit_opts o1"
| "subcommand_complete (CmdWithdraw o1) = given withdraw_opts o1"
| "subcommand_complete (CmdShowSolido o1) = given show_solido_opts o1"
| "subcommand_complete (CmdShowAuthorities o1) = given show_solido_authorities_opts o1"
| "subcommand_complete (CmdPerformMaintenance o1) = given perform_maintenance_opts o1"
| "subcommand_complete (CmdRunMaintainer o1) = given run_maintainer_opts o1"
| "subcommand_complete (CmdMultisig m) = multisig_complete m"
| "subcommand_complete (CmdChangeCriteria o1) = given change_criteria_opts o1"
| "subcommand_complete (CmdMigrateStateToV2 o1) = given migrate_state_to_v2_opts o1"
| "subcommand_complete (CmdCreateV2Accounts o1) = given create_v2_accounts_opts o1"

fun maintenance_opts :: "subcommand \<Rightarrow> opts option" where
  "maintenance_opts (CmdPerformMaintenance o1) = Some o1"
| "maintenance_opts (CmdRunMaintainer o1) = Some o1"
| "maintenance_opts c = None"

lemma merge_fields_given:
  assumes "merge_fields H cf fs self failed = Ok (o1, False)"
  shows "\<not> failed \<and> given fs o1 \<and> (\<forall>x. self x \<noteq> None \<longrightarrow> o1 x \<noteq> None)"
  using assms
proof (induction fs arbitrary: self failed)
  case (Cons f fs)
  then obtain v where v: "merge_field H cf f (self (field_name f)) = Ok v"
    "merge_fields H cf fs (self(field_name f := v)) (failed \<or> v = None) = Ok (o1, False)"
    by (auto simp: and_then_eq_Ok)
  from Cons.IH [OF v(2)] have IH: "\<not> failed" "v \<noteq> None" "given fs o1" "\<And>x. (self(field_name f := v)) x \<noteq> None \<Longrightarrow> o1 x \<noteq> None"
    by auto
  have "o1 (field_name f) \<noteq> None" using IH(4) [of "field_name f"] IH(2) by simp
  moreover have "o1 x \<noteq> None" if "self x \<noteq> None" for x using IH(4) [of x] IH(2) that by (cases "x = field_name f") auto
  ultimately show ?case using IH by (auto simp: given_def)
qed (simp add: given_def)

lemma merged_given: "merge_with_config_and_environment H spec cf self = Ok o1 \<Longrightarrow> given spec o1"
  by (auto simp: merge_with_config_and_environment_def and_then_eq_Ok dest!: merge_fields_given split: if_splits)

lemma merged_complete: "merge_subcommand H cf c = Ok c' \<Longrightarrow> subcommand_complete c'"
proof -
  have "multisig_merge_with_config_and_environment H cf m = Ok m' \<Longrightarrow> multisig_complete m'" for m m'
    by (cases m) (auto simp: multisig_merge_with_config_and_environment_def map_ok_eq_Ok dest: merged_given)
  then show "merge_subcommand H cf c = Ok c' \<Longrightarrow> subcommand_complete c'"
    by (cases c) (auto simp: merge_subcommand_def map_ok_eq_Ok dest: merged_given)
qed

text \<open>The process has done something when it printed a result, started the daemon or left the network in another state.\<close>

definition acted :: "'n \<Rightarrow> tool_ending \<times> 'n \<Rightarrow> bool" where
  "acted n = (\<lambda>(ending, n'). n' \<noteq> n \<or> (case ending of Printed text \<Rightarrow> True | DaemonRuns k m d \<Rightarrow> True | _ \<Rightarrow> False))"

lemma acted_simps [simp]: "\<not> acted n (ExitStatus code msg, n)" "\<not> acted n (Aborted, n)"
  by (simp_all add: acted_def)

lemma exit_ending_acted:
  assumes "exit_ending r k (client, n, lines) = Some z" and "acted n z"
  obtains a where "r = Ok a" and "k a (client, n, lines) = Some z"
  using assms by (auto simp: exit_ending_def split: result.splits exit.splits)

lemma run_subcommand_threshold:
  assumes "run_subcommand E X K cfg c (client, n, lines) = Some z" and "acted n z" and "maintenance_opts c = Some o1"
  shows "threshold_in_range o1"
proof -
  have "\<exists>m. maintainer_opts_from o1 = Ok m"
    using assms by (cases c) (auto simp: run_subcommand_def Let_def elim: exit_ending_acted)
  then show ?thesis
    by (auto simp: maintainer_opts_from_def and_then_eq_Ok check_end_of_epoch_threshold_def threshold_in_range_def opt_u8_def
        not_less split: if_splits option.splits opt_value.splits)
qed

text \<open>When the process has done anything, the general options could be merged, a key was loaded, every option of the
  subcommand has a value from the command line, the config file, the environment or its default, and the
  threshold of a maintenance command is at most 100.\<close>

theorem tool_acts_only_when_complete:
  assumes "tool_main E X opts n lines = Some z" and "acted n z"
  shows "\<exists>opts' cf keypair path cluster mode payer c.
    main_merge_with_config_and_environment (tool_host X) opts = Ok (opts', cf) \<and>
    main_args opts' = Ok (keypair, path, cluster, mode) \<and> load_signer (tool_wallets X) keypair path = Ok payer \<and>
    merge_subcommand (tool_host X) cf (main_subcommand opts) = Ok c \<and> subcommand_complete c \<and>
    (\<forall>o1. maintenance_opts c = Some o1 \<longrightarrow> threshold_in_range o1)"
proof -
  obtain opts' cf keypair path cluster mode where
    merge: "main_merge_with_config_and_environment (tool_host X) opts = Ok (opts', cf)"
    and args: "main_args opts' = Ok (keypair, path, cluster, mode)"
    and rest: "(case load_signer (tool_wallets X) keypair path of
         Err e \<Rightarrow> Some (ExitStatus 1 ''Failed to load signer keypair.'', n)
       | Panic \<Rightarrow> Some (Aborted, n)
       | Ok payer \<Rightarrow>
           exit_ending (merge_subcommand (tool_host X) cf (main_subcommand opts'))
             (run_subcommand E X (connect X cluster) \<lparr>config_signer = payer, config_output_mode = mode\<rparr>)
             (snapshot_client_new, n, lines)) = Some z"
    using assms unfolding tool_main_def by (elim exit_ending_acted [OF _ assms(2)]) (auto elim: exit_ending_acted)
  from rest assms(2) obtain payer c where "load_signer (tool_wallets X) keypair path = Ok payer"
    and c: "merge_subcommand (tool_host X) cf (main_subcommand opts') = Ok c"
      "run_subcommand E X (connect X cluster) \<lparr>config_signer = payer, config_output_mode = mode\<rparr> c
        (snapshot_client_new, n, lines) = Some z"
    by (auto split: result.splits elim: exit_ending_acted)
  then show ?thesis
    using merge args merged_complete [OF c(1)] run_subcommand_threshold [OF c(2) assms(2)]
      main_merge_keeps_subcommand [OF merge] by auto
qed

lemma merged_main_args:
  "main_merge_with_config_and_environment H opts = Ok (opts', cf) \<Longrightarrow> main_args opts' \<noteq> Panic"
  by (auto simp: main_merge_with_config_and_environment_def main_args_def and_then_eq_Ok)

end
