(* ===== verification/ErrorText.thy ===== *)
theory ErrorText
  imports Tool
begin

text \<open>
  Parts of \<^verbatim>\<open>cli/common/src/error.rs\<close> that decide what a user is told about a failure: whether a
  transaction may have executed, which error of this program or of the multisig program a code stands for, and
  the text of program errors and missing accounts. The multisig program is not part of the repository: the code of its errors
  and the printed form of foreign errors are parameters, collected in \<open>foreign_errors\<close>.
\<close>

subsection \<open>Terminal output\<close>

definition ansi :: "string \<Rightarrow> string" where
  "ansi code = [CHR 0x1B] @ ''['' @ code @ ''m''"

definition print_key :: "string \<Rightarrow> string" where
  "print_key message =
     ''  '' @ ansi ''1'' @ message @ replicate (11 - length message) (CHR '' '') @ ansi ''0''"

definition print_red :: "string \<Rightarrow> string" where
  "print_red message = ansi ''31'' @ message @ ansi ''0''"

subsection \<open>Transactions that may have executed\<close>

fun str_contains :: "string \<Rightarrow> string \<Rightarrow> bool" where
  "str_contains pat [] = (pat = [])"
| "str_contains pat (c # cs) = (take (length pat) (c # cs) = pat \<or> str_contains pat cs)"

definition might_have_executed :: "client_error \<Rightarrow> bool" where
  "might_have_executed err =
     (case err of ForUser message \<Rightarrow> str_contains ''unable to confirm transaction.'' message | _ \<Rightarrow> False)"

subsection \<open>Error codes\<close>

text \<open>\<open>serum_multisig::ErrorCode\<close>, in the order of \<open>all_errors\<close>.\<close>

datatype (plugins only: code size) multisig_error =
    MsInvalidOwner
  | MsNotEnoughSigners
  | MsTransactionAlreadySigned
  | MsOverflow
  | MsUnableToDelete
  | MsAlreadyExecuted
  | MsInvalidThreshold

record foreign_errors =
  multisig_program_error :: "multisig_error \<Rightarrow> program_error"
  multisig_debug :: "multisig_error \<Rightarrow> string"
  multisig_display :: "multisig_error \<Rightarrow> string"
  program_error_debug :: "program_error \<Rightarrow> string"

definition all_multisig_errors :: "multisig_error list" where
  "all_multisig_errors =
     [MsInvalidOwner, MsNotEnoughSigners, MsTransactionAlreadySigned, MsOverflow, MsUnableToDelete,
      MsAlreadyExecuted, MsInvalidThreshold]"

definition multisig_error_from_u32 :: "foreign_errors \<Rightarrow> u32 \<Rightarrow> multisig_error option" where
  "multisig_error_from_u32 F error_code =
     List.find (\<lambda>err. case multisig_program_error F err of Custom x \<Rightarrow> x = error_code | _ \<Rightarrow> False) all_multisig_errors"

text \<open>The derived instances of \<open>LidoError\<close>: \<open>FromPrimitive\<close> inverts the codes, \<open>Debug\<close> prints the name.\<close>

definition lido_error_from_u32 :: "u32 \<Rightarrow> lido_error option" where
  "lido_error_from_u32 error_code = List.find (\<lambda>err. lido_error_code err = error_code) all_lido_errors"

fun debug_lido_error :: "lido_error \<Rightarrow> string" where
  "debug_lido_error AlreadyInUse = ''AlreadyInUse''"
| "debug_lido_error InvalidOwner = ''InvalidOwner''"
| "debug_lido_error InvalidAmount = ''InvalidAmount''"
| "debug_lido_error SignatureMissing = ''SignatureMissing''"
| "debug_lido_error InvalidReserveAccount = ''InvalidReserveAccount''"
| "debug_lido_error CalculationFailure = ''CalculationFailure''"
| "debug_lido_error WrongStakeState = ''WrongStakeState''"
| "debug_lido_error InvalidFeeAmount = ''InvalidFeeAmount''"
| "debug_lido_error MaximumNumberOfAccountsExceeded = ''MaximumNumberOfAccountsExceeded''"
| "debug_lido_error UnexpectedMaxValidators = ''UnexpectedMaxValidators''"
| "debug_lido_error InvalidManager = ''InvalidManager''"
| "debug_lido_error InvalidMaintainer = ''InvalidMaintainer''"
| "debug_lido_error InvalidAccountInfo = ''InvalidAccountInfo''"
| "debug_lido_error TooManyAccountKeys = ''TooManyAccountKeys''"
| "debug_lido_error InvalidFeeDistributionAccount = ''InvalidFeeDistributionAccount''"
| "debug_lido_error InvalidValidatorCreditAccount = ''InvalidValidatorCreditAccount''"
| "debug_lido_error ValidatorCreditChanged = ''ValidatorCreditChanged''"
| "debug_lido_error InvalidFeeAccount = ''InvalidFeeAccount''"
| "debug_lido_error InvalidFeeRecipient = ''InvalidFeeRecipient''"
| "debug_lido_error DuplicatedEntry = ''DuplicatedEntry''"
| "debug_lido_error ValidatorCreditNotFound = ''ValidatorCreditNotFound''"
| "debug_lido_error ValidatorHasUnclaimedCredit = ''ValidatorHasUnclaimedCredit''"
| "debug_lido_error ReserveIsNotRentExempt = ''ReserveIsNotRentExempt''"
| "debug_lido_error AmountExceedsReserve = ''AmountExceedsReserve''"
| "debug_lido_error DuplicatedMaintainer = ''DuplicatedMaintainer''"
| "debug_lido_error InvalidAccountMember = ''InvalidAccountMember''"
| "debug_lido_error InvalidAccountSize = ''InvalidAccountSize''"
| "debug_lido_error NoActiveValidators = ''NoActiveValidators''"
| "debug_lido_error InvalidStakeAccount = ''InvalidStakeAccount''"
| "debug_lido_error InvalidStSolAccount = ''InvalidStSolAccount''"
| "debug_lido_error ExchangeRateAlreadyUpToDate = ''ExchangeRateAlreadyUpToDate''"
| "debug_lido_error ExchangeRateNotUpdatedInThisEpoch = ''ExchangeRateNotUpdatedInThisEpoch''"
| "debug_lido_error ValidatorBalanceDecreased = ''ValidatorBalanceDecreased''"
| "debug_lido_error InvalidStakeAuthority = ''InvalidStakeAuthority''"
| "debug_lido_error InvalidRewardsWithdrawAuthority = ''InvalidRewardsWithdrawAuthority''"
| "debug_lido_error InvalidVoteAccount = ''InvalidVoteAccount''"
| "debug_lido_error InvalidTokenOwner = ''InvalidTokenOwner''"
| "debug_lido_error ValidatorWithMoreStakeExists = ''ValidatorWithMoreStakeExists''"
| "debug_lido_error InvalidMint = ''InvalidMint''"
| "debug_lido_error StakeToInactiveValidator = ''StakeToInactiveValidator''"
| "debug_lido_error ValidatorIsStillActive = ''ValidatorIsStillActive''"
| "debug_lido_error ValidatorShouldHaveNoStakeAccounts = ''ValidatorShouldHaveNoStakeAccounts''"
| "debug_lido_error ValidatorWithLessStakeExists = ''ValidatorWithLessStakeExists''"
| "debug_lido_error ValidatorShouldHaveNoUnstakeAccounts = ''ValidatorShouldHaveNoUnstakeAccounts''"
| "debug_lido_error MaxUnstakeAccountsReached = ''MaxUnstakeAccountsReached''"
| "debug_lido_error ValidatorVoteAccountHasDifferentOwner = ''ValidatorVoteAccountHasDifferentOwner''"
| "debug_lido_error InvalidStSolAccountOwner = ''InvalidStSolAccountOwner''"
| "debug_lido_error InstructionIsDeprecated = ''InstructionIsDeprecated''"
| "debug_lido_error ValidationCommissionOutOfBounds = ''ValidationCommissionOutOfBounds''"
| "debug_lido_error UnexpectedListAccountSize = ''UnexpectedListAccountSize''"
| "debug_lido_error InvalidAccountType = ''InvalidAccountType''"
| "debug_lido_error InvalidListAccount = ''InvalidListAccount''"
| "debug_lido_error LidoVersionMismatch = ''LidoVersionMismatch''"
| "debug_lido_error IndexOutOfBounds = ''IndexOutOfBounds''"
| "debug_lido_error PubkeyIndexMismatch = ''PubkeyIndexMismatch''"
| "debug_lido_error AccountListIndexOutOfBounds = ''AccountListIndexOutOfBounds''"
| "debug_lido_error ValidatorListNotEmpty = ''ValidatorListNotEmpty''"
| "debug_lido_error ValidatorHasNoStake = ''ValidatorHasNoStake''"
| "debug_lido_error IncorrectReserveAddress = ''IncorrectReserveAddress''"
| "debug_lido_error ValidatorPerfAlreadyUpdatedForEpoch = ''ValidatorPerfAlreadyUpdatedForEpoch''"

definition print_pretty_error_code :: "foreign_errors \<Rightarrow> u32 \<Rightarrow> string" where
  "print_pretty_error_code F error_code =
     print_key ''Error code interpretations:'' @ println newline @
     println (case lido_error_from_u32 error_code of
         Some err \<Rightarrow> ''    Solido error '' @ show_word error_code @ '' is '' @ debug_lido_error err
       | None \<Rightarrow> ''    Error '' @ show_word error_code @ '' is not a known Solido error.'') @
     println (case multisig_error_from_u32 F error_code of
         Some err \<Rightarrow> ''    Multisig error '' @ show_word error_code @ '' is '' @ multisig_debug F err @ '': '' @
           multisig_display F err
       | None \<Rightarrow> ''    Error '' @ show_word error_code @ '' is not a known Multisig error.'')"

definition program_error_print_pretty :: "foreign_errors \<Rightarrow> program_error \<Rightarrow> string" where
  "program_error_print_pretty F err =
     print_red ''Program error:'' @
     (case err of
        Custom error_code \<Rightarrow>
          println ('' Custom error '' @ show_word error_code @ '' (0x'' @ hex_digits (unat error_code) @ '')'' @ newline) @
          print_pretty_error_code F error_code
      | predefined_error \<Rightarrow> println ('' '' @ program_error_debug F predefined_error))"

definition missing_account_print_pretty :: "text_env \<Rightarrow> pubkey \<Rightarrow> string" where
  "missing_account_print_pretty T missing_account =
     print_red (''Missing account error:'' @ newline) @
     println (''We tried to read the following account, but it does not exist: '' @ show_pubkey T missing_account)"

definition missing_validator_info_print_pretty :: "text_env \<Rightarrow> pubkey \<Rightarrow> string" where
  "missing_validator_info_print_pretty T validator_identity =
     print_red (''Missing validator info error:'' @ newline) @
     println (''We tried to get the validator info for the validator with identity account '' @
       show_pubkey T validator_identity @ '', but no validator info exists for this identity.'')"

subsection \<open>Codes are understood\<close>

text \<open>What the tool relies on: the multisig program numbers its errors above those of this program, each with a
  code of its own. (Anchor starts at 300; the test in \<^verbatim>\<open>error.rs\<close> has 301 for \<open>NotEnoughSigners\<close>.)\<close>

locale multisig_error_codes =
  fixes F :: foreign_errors
  assumes custom: "\<exists>c. multisig_program_error F err = Custom c \<and> 300 \<le> c"
    and distinct_codes: "multisig_program_error F a = multisig_program_error F b \<Longrightarrow> a = b"
begin

lemma multisig_error_from_u32_iff:
  "multisig_error_from_u32 F c = Some err \<longleftrightarrow> multisig_program_error F err = Custom c"
proof
  have all: "e \<in> set all_multisig_errors" for e by (cases e) (simp_all add: all_multisig_errors_def)
  have test: "(case multisig_program_error F e of Custom x \<Rightarrow> x = c | _ \<Rightarrow> False) \<longleftrightarrow> multisig_program_error F e = Custom c" for e
    by (simp split: program_error.split)
  show "multisig_program_error F err = Custom c" if "multisig_error_from_u32 F c = Some err"
    using that unfolding multisig_error_from_u32_def test by (auto simp: find_Some_iff)
  assume err: "multisig_program_error F err = Custom c"
  then obtain e where "multisig_error_from_u32 F c = Some e"
    using all [of err] unfolding multisig_error_from_u32_def test
    by (cases "List.find (\<lambda>e. multisig_program_error F e = Custom c) all_multisig_errors") (auto simp: find_None_iff)
  moreover have "multisig_program_error F e = Custom c"
    using calculation unfolding multisig_error_from_u32_def test by (auto simp: find_Some_iff)
  ultimately show "multisig_error_from_u32 F c = Some err" using err distinct_codes [of e err] by simp
qed

end

lemma lido_error_from_u32_iff: "lido_error_from_u32 c = Some err \<longleftrightarrow> lido_error_code err = c"
proof
  show "lido_error_code err = c" if "lido_error_from_u32 c = Some err"
    using that by (auto simp: lido_error_from_u32_def find_Some_iff)
  assume err: "lido_error_code err = c"
  then obtain e where e: "lido_error_from_u32 c = Some e"
    using all_lido_errors_complete [of err] unfolding lido_error_from_u32_def
    by (cases "List.find (\<lambda>e. lido_error_code e = c) all_lido_errors") (auto simp: find_None_iff)
  then have "lido_error_code e = c" by (auto simp: lido_error_from_u32_def find_Some_iff)
  with err lido_error_code_inj [of e err] e show "lido_error_from_u32 c = Some err" by simp
qed

lemma lido_error_code_less: "lido_error_code e < 60"
  by (cases e) simp_all

context multisig_error_codes
begin

text \<open>No code is claimed by both programs.\<close>

lemma codes_unambiguous: "lido_error_from_u32 c = None \<or> multisig_error_from_u32 F c = None"
proof (rule ccontr)
  assume "\<not> ?thesis"
  then obtain a b where "lido_error_code a = c" "multisig_program_error F b = Custom c"
    by (auto simp: lido_error_from_u32_iff multisig_error_from_u32_iff)
  then have "c < 60" "300 \<le> c" using lido_error_code_less [of a] custom [of b] by auto
  then show False by (simp add: word_less_nat_alt word_le_nat_alt)
qed

end

definition anchor_errors :: foreign_errors where
  "anchor_errors =
     \<lparr>multisig_program_error = (\<lambda>err. Custom (case err of
        MsInvalidOwner \<Rightarrow> 300 | MsNotEnoughSigners \<Rightarrow> 301 | MsTransactionAlreadySigned \<Rightarrow> 302 | MsOverflow \<Rightarrow> 303
      | MsUnableToDelete \<Rightarrow> 304 | MsAlreadyExecuted \<Rightarrow> 305 | MsInvalidThreshold \<Rightarrow> 306)),
      multisig_debug = (\<lambda>err. []), multisig_display = (\<lambda>err. []), program_error_debug = (\<lambda>err. [])\<rparr>"

interpretation anchor: multisig_error_codes anchor_errors
proof
  show "\<exists>c. multisig_program_error anchor_errors err = Custom c \<and> 300 \<le> c" for err
    by (cases err) (simp_all add: anchor_errors_def)
  show "a = b" if "multisig_program_error anchor_errors a = multisig_program_error anchor_errors b" for a b
    using that by (cases a; cases b) (simp_all add: anchor_errors_def)
qed

text \<open>The error that the program returns for a failed check is named to the user, and no error of the multisig
  program beside it.\<close>

theorem program_errors_are_named:
  assumes "multisig_error_codes F"
  shows "program_error_print_pretty F (program_error_of_lido err) =
    print_red ''Program error:'' @
    println ('' Custom error '' @ show_word (lido_error_code err) @ '' (0x'' @ hex_digits (unat (lido_error_code err)) @ '')'' @ newline) @
    print_key ''Error code interpretations:'' @ println newline @
    println (''    Solido error '' @ show_word (lido_error_code err) @ '' is '' @ debug_lido_error err) @
    println (''    Error '' @ show_word (lido_error_code err) @ '' is not a known Multisig error.'')"
proof -
  have "lido_error_from_u32 (lido_error_code err) = Some err" by (simp add: lido_error_from_u32_iff)
  moreover from this have "multisig_error_from_u32 F (lido_error_code err) = None"
    using multisig_error_codes.codes_unambiguous [OF assms, of "lido_error_code err"] by simp
  ultimately show ?thesis
    by (simp add: program_error_print_pretty_def print_pretty_error_code_def program_error_of_lido_def)
qed

end
