(* ===== verification/Spec2Isabelle.thy ===== *)
theory Spec2Isabelle
  imports Processor StakeFlow UserCommands ServingFacts ListenerFacts ToolFacts ErrorText
begin

text \<open>
  Solido is a stake pool: users deposit SOL and get stSOL, the pool stakes the SOL with a list of
  validators, and maintainers move stake around. The repository has an on-chain Solana program
  (\<^verbatim>\<open>src/program\<close>) and off-chain programs that call it (\<^verbatim>\<open>src/cli\<close>). This
  development models the program completely, and of the off-chain code the maintainer bot with its metrics, the
  commands of the command line tool, and the listener that records and serves prices.

  \<^bold>\<open>Conventions.\<close> \<open>Prelude\<close> holds Rust's results: \<open>Ok\<close>, \<open>Err\<close>, and \<open>Panic\<close> for a failed \<open>expect\<close>,
  \<open>unwrap\<close>, \<open>assert!\<close> or index. Integers are machine words; unchecked operators wrap, as in a release
  build, and checked ones give \<open>None\<close>. A struct is a record, an enum a datatype, a method a definition with
  the source's name where it is free. Loops are structural recursion or \<open>function\<close> with a termination
  proof, so there is no fuel; the one loop that may run forever, \<open>with_snapshot\<close>, is a partial function
  into \<open>option\<close>, and so are the commands that run it several times or ask the user.

  \<^bold>\<open>The program.\<close>
  \<^item> \<open>Errors\<close>, \<open>Token\<close>, \<open>Metrics\<close>: \<^verbatim>\<open>error.rs\<close>, \<^verbatim>\<open>token.rs\<close>, \<^verbatim>\<open>metrics.rs\<close>. Amounts
    with checked arithmetic, exact multiplication with a rational, printing and parsing, counters.
  \<^item> \<open>StakeAccounts\<close>: \<^verbatim>\<open>stake_account.rs\<close> and \<^verbatim>\<open>vote_state.rs\<close>, byte readers and the merge rule.
  \<^item> \<open>BigVec\<close>, \<open>Entries\<close>, \<open>Lists\<close>: \<^verbatim>\<open>big_vec.rs\<close>, \<^verbatim>\<open>state/*.rs\<close> and the lists of
    \<^verbatim>\<open>state.rs\<close>. A list lives in the bytes of an account; the locales \<open>entry_codec\<close> and
    \<open>list_codec\<close> state what the layout of an entry promises, and under them the operations on bytes
    implement operations on HOL lists (\<open>bvh_repr\<close>, \<open>list_repr\<close>). They are interpreted for validators and
    maintainers.
  \<^item> \<open>State\<close>, \<open>LidoChecks\<close>: the pool account, exchange rate, reward distribution and every check method.
  \<^item> \<open>Runtime\<close>: a program is a function from the ledger (and the list of borrowed accounts) to a result and a
    ledger. Code outside of the repository (sysvars, SPL token, the stake program, Borsh, address
    derivation) is the parameter \<open>env\<close>.
  \<^item> \<open>Instructions\<close>: \<^verbatim>\<open>accounts.rs\<close> and \<^verbatim>\<open>instruction.rs\<close>. The account macro is a pair of
    parsers over a specification; all 21 instructions have their specification and builder.
  \<^item> \<open>Balance\<close>, \<open>Logic\<close>, \<open>Management\<close>, \<open>Processor\<close>: \<^verbatim>\<open>balance.rs\<close>, \<^verbatim>\<open>logic.rs\<close>,
    \<^verbatim>\<open>process_management.rs\<close>, \<^verbatim>\<open>processor.rs\<close>. Every handler, with every early return.

  \<^bold>\<open>The specification.\<close> \<open>Pool\<close> has a pool without bytes and accounts (the state record, the validators, the
  maintainers), the step relation \<open>pool_step now signers ins\<close>, and its invariant \<open>pool_inv\<close>.
  \<open>PoolRefinement\<close> relates a ledger to a pool (\<open>represents\<close>) and states in the locale \<open>solana\<close> what the
  environment promises: an invoked program does not write accounts that this program owns, and Borsh
  inverts itself. \<open>Simulation\<close> shows for each handler that an accepted instruction is a step of the pool,
  \<open>Init\<close> that \<open>Initialize\<close> establishes the representation, \<open>PoolFacts\<close> what steps preserve, \<open>Runs\<close> that this
  holds along histories in which other programs act in between. \<open>Borsh\<close> and \<open>ReferenceEnv\<close> build an
  environment from the derived Borsh code and show that it satisfies the laws; \<open>Examples\<close> has the ledgers of the
  witnesses. The theorems of this theory are the consequences for the program itself. They are about
  instructions that name the pool as their first account, as every handler requires, and about accepted
  instructions. \<open>Effects\<close> extends the locale \<open>solana\<close> to \<open>value_flow\<close>, the laws of the system, token and stake
  programs for the lamports and tokens they move, and to \<open>stake_flow\<close>, with the laws for the authorities and the lamports
  of stake accounts; under them \<open>ValueFlow\<close> shows what a deposit and a withdrawal do to the accounts of the user, and
  \<open>StakeFlow\<close> what each instruction does to the stake on record, \<open>UpdateStakeAccountBalance\<close> included.

  \<^bold>\<open>The maintainer bot.\<close>
  \<^item> \<open>Snapshot\<close>: \<^verbatim>\<open>cli/common/src/snapshot.rs\<close>, \<^verbatim>\<open>validator_info_utils.rs\<close>,
    \<^verbatim>\<open>per64.rs\<close>. Reads from a snapshot are functions that also return the snapshot, because an
    account that was asked for stays recorded when the read fails. The RPC node is the parameter
    \<open>rpc_client\<close> over an arbitrary type of network states. \<open>SnapshotFacts\<close> has the locale
    \<open>static_chain\<close> (a node with a limit per call, over a chain that stands still) and the class of
    computations that only read; for them chunked fetching and retries amount to one atomic read.
    \<open>ReferenceClient\<close> is a node that satisfies the laws.
  \<^item> \<open>Maintenance\<close>: \<^verbatim>\<open>cli/maintainer/src/maintenance.rs\<close>. \<open>SolidoState::new\<close>, the ten proposals
    and their order, maintainer duty. \<open>Proposals\<close> specifies the proposal to stake a deposit,
    \<open>Guards\<close> what every proposal promises (its instruction, its indices, and those of the handler's guards that the bot checks),
    \<open>MaintenanceFacts\<close> the duty schedule and the reading of the state.
  \<^item> \<open>Daemon\<close>: \<^verbatim>\<open>daemon.rs\<close>, one poll and one round of the main loop. \<open>Sending\<close> shows when a poll sends a
    transaction.

  \<^bold>\<open>The command line tool.\<close>
  \<^item> \<open>Config\<close>: \<^verbatim>\<open>cli/maintainer/src/config.rs\<close> and the option handling of \<^verbatim>\<open>main.rs\<close>. The option
    macro is a function on lists of fields, of which every option struct is one.
  \<^item> \<open>Multisig\<close>: \<^verbatim>\<open>commands_multisig.rs\<close>, through which the manager of a pool acts: proposing, showing,
    approving and executing transactions. The multisig program, Anchor's encodings and the builders of other
    programs are the parameter \<open>cli\<close>.
  \<^item> \<open>Commands\<close>: \<^verbatim>\<open>commands_solido.rs\<close> and \<^verbatim>\<open>spl_token_utils.rs\<close>, every command, built from the
    reads of \<open>Snapshot\<close> and the builders of \<open>Instructions\<close>.
  \<^item> \<open>CommandFacts\<close> shows that commands are safe under the retry loop, \<open>Governance\<close> (with the locale
    \<open>multisig_codec\<close>, the laws of the stored transactions) which fields of a proposal are shown,
    \<open>UserCommands\<close> what a withdrawal sends.
  \<^item> \<open>Display\<close>: what the commands and the bot print, as lists of lines. \<open>DisplayFacts\<close> shows that the text of a
    parsed instruction determines it and that a change of owners is listed exactly.
  \<^item> \<open>Tool\<close>: the main functions of \<^verbatim>\<open>main.rs\<close> and \<^verbatim>\<open>commands_multisig.rs\<close>, from the options to the text that is
    printed or the exit status. \<open>ToolFacts\<close> shows that the commands that show something cannot send, and that nothing
    happens before every option has a value. The JSON serialiser is a parameter.
  \<^item> \<open>ErrorText\<close>: of \<^verbatim>\<open>cli/common/src/error.rs\<close>, which error a code stands for and how it is reported; no code is claimed
    by both the pool and the multisig program (locale \<open>multisig_error_codes\<close>).

  \<^bold>\<open>Metrics and prices.\<close>
  \<^item> \<open>Prometheus\<close>: \<^verbatim>\<open>cli/common/src/prometheus.rs\<close>, the text format of metrics and the export of the
    program's counters. \<open>Serving\<close>: \<open>SolidoState::write_prometheus\<close>, the metrics server and the sleeps of
    \<^verbatim>\<open>daemon.rs\<close>. \<open>ServingFacts\<close> shows when a request aborts the daemon, that the exported balances add up,
    and how long the daemon sleeps. Printing a float and the two computations with \<open>f32\<close> are parameters.
  \<^item> \<open>Listener\<close>: \<^verbatim>\<open>cli/listener/src/lib.rs\<close>: the table of prices, the search for the two prices
    of an interval, the parameters of a request, the expiry of a response, and one round of the loop. The table and the SQL
    statements of the source are definitions, in a syntax of SQL whose meaning on a list of rows is given in \<open>Sql\<close>;
    the locale \<open>sql_engine\<close> says that a database answers according to this meaning, when it answers. SQLite, chrono, the
    URL parser, JSON and \<open>f64\<close> are parameters. \<open>ListenerFacts\<close> adds the laws of dates as text
    (\<open>rfc3339_dates\<close>, together \<open>price_history\<close>), relates the search to the recorded data points, and interprets the
    laws for a list of rows and decimal dates.

  \<^bold>\<open>What is proved.\<close> The refinement and its consequences (C1 to C9): authorisation, stake accounting, removal
  of validators, the exchange rate, initialisation. The value that deposits and withdrawals move (C10, C11). The bot
  (C12 to C16): transactions only on duty and never sent twice by a retry, atomic and terminating reads, the
  duty schedule, staking a deposit, what is checked of a proposal. The command line tool (C17 to C23).
  The metrics server and the listener (C24 to C29): the search for prices, the requests that abort a
  process, the date range of a request, prices that read back, metrics that read back, the exported balances.
  Then the components (C30 to C40): target balances and choices of validators, lists in bytes and their sizes, exchange and
  rewards, ordered sets, Borsh, the exported histogram.
  Three theorems describe defects of the off-chain code: a closed vote account shifts the performance data, the
  block production rate is the inverse of what it should be, and the proposal to remove a validator is shown as
  invalid (part of C18).

  \<^bold>\<open>Not modelled.\<close> The values of floating point operations, the text of JSON output and of
  errors of other libraries, log messages, the entry point macro, the sockets and threads of the HTTP servers, reading the command line
  (done by the clap library), and the test library, which are fixtures. The multisig program is not part of the
  repository.
\<close>

section \<open>The program implements the abstract pool\<close>

text \<open>C1: Refinement. In every environment that satisfies the laws of \<open>solana\<close>, when the accounts of
  the instruction belong to a ledger that represents the pool \<open>s\<close> and the program accepts the
  instruction, the ledger afterwards represents a pool \<open>s'\<close>, and \<open>s'\<close> follows from \<open>s\<close> by the step that the
  abstract specification allows for this instruction, in this epoch and with these signatures.\<close>

theorem process_instruction_simulates:
  assumes "solana E p" and "represents E p (key (accounts ! 0)) w s"
    and "process_instruction E p accounts ins w = Ok ((), w')"
  shows "\<exists>s'. represents E p (key (accounts ! 0)) w' s' \<and>
    pool_step (epoch_of E) (signers_of accounts) ins s s'"
  using solana.process_instruction_refines [OF assms(1,2) refl assms(3)] .

theorem process_instruction_simulates_witness:
  "\<exists>s'. represents (reference_env 3) solido_id 500 example_world_1 s' \<and>
     pool_step 3 {501} (ChangeCriteria example_criteria) example_pool s'"
  using process_instruction_simulates [OF solana_reference [of 3] example_before example_instruction]
  by (simp add: example_signers example_epoch) (simp add: example_accounts_def)

text \<open>C2: Initialisation and history. When \<open>Initialize\<close> succeeds, with a performance list that is an
  account of its own and account data below $2^{64}$ bytes, then after any sequence of accepted instructions of this program
  that name the pool as their first account, in any epochs and between any actions of other programs, the accounts still
  represent a pool, and
  it satisfies the invariant: for every validator the unstake balance is within the stake balance, the stored
  effective balance is their difference and at most three unstake accounts exist; validators and maintainers
  are listed once. The manager is still the one that was named at initialisation.\<close>

theorem initialized_pool_invariant:
  assumes "solana E p"
    and "process_instruction E p accounts (Initialize rd c max_v max_m) w = Ok ((), w1)"
    and "key (accounts ! 7) \<notin> {key (accounts ! 0), key (accounts ! 6), key (accounts ! 8)}"
    and "\<And>k. length (acc_data (ledger w k)) < 2 ^ 64"
    and "ledger_run p (key (accounts ! 0)) E w1 w2"
  shows "\<exists>s. represents E p (key (accounts ! 0)) w2 s \<and> pool_inv s \<and>
    manager (pool_lido s) = key (accounts ! 1)"
proof -
  obtain l where l: "represents E p (key (accounts ! 0)) w1 (initial_pool l)" "manager l = key (accounts ! 1)"
    using solana.process_initialize_represents [OF assms(1) _ assms(3,4), of rd c max_v max_m] assms(2)
    by (auto simp: process_instruction_def)
  from ledger_run_history [OF assms(5) l(1) initial_pool_inv] show ?thesis
    using l(2) by (auto simp: history_inv_def fixed_fields_def initial_pool_def)
qed

theorem initialized_pool_invariant_witness:
  "\<exists>w w' s. process_instruction (reference_env 0) solido_id genesis_accounts
      (Initialize \<lparr>treasury_fee = 4, developer_fee = 1, st_sol_appreciation = 95\<rparr> criteria_default 2 2)
      genesis_world = Ok ((), w) \<and>
    process_instruction (reference_env 7) solido_id example_accounts (ChangeCriteria example_criteria) w = Ok ((), w') \<and>
    represents (reference_env 0) solido_id 500 w' s \<and> pool_inv s \<and> manager (pool_lido s) = 501"
proof -
  obtain w where w: "process_instruction (reference_env 0) solido_id genesis_accounts
      (Initialize \<lparr>treasury_fee = 4, developer_fee = 1, st_sol_appreciation = 95\<rparr> criteria_default 2 2)
      genesis_world = Ok ((), w)" and free: "borrowed w = []" "length (acc_data (ledger w 500)) = 466"
    using genesis_ok [of 0] by blast
  have k: "key (genesis_accounts ! 0) = 500" "key (genesis_accounts ! 1) = 501" "key (example_accounts ! 0) = 500"
    "key (genesis_accounts ! 7) \<notin> {key (genesis_accounts ! 0), key (genesis_accounts ! 6), key (genesis_accounts ! 8)}"
    by (simp_all add: genesis_accounts_def example_accounts_def)
  have codec: "same_codec (reference_env 0) (reference_env 7)" by (simp add: same_codec_def reference_env_def)
  obtain s where s: "represents (reference_env 0) solido_id 500 w s" "manager (pool_lido s) = 501"
    using initialized_pool_invariant [OF solana_reference w k(4) genesis_small run_refl] unfolding k by blast
  then have "represents (reference_env 7) solido_id 500 w s" using represents_codec [OF codec] by simp
  from criteria_accepted [OF this s(2) free] obtain w'
    where w': "process_instruction (reference_env 7) solido_id example_accounts (ChangeCriteria example_criteria) w = Ok ((), w')"
    by blast
  have "ledger_run solido_id (key (genesis_accounts ! 0)) (reference_env 0) w w'"
    unfolding k by (rule run_instruction [OF run_refl solana_reference codec k(3) w'])
  from initialized_pool_invariant [OF solana_reference w k(4) genesis_small this] show ?thesis
    unfolding k using w w' by blast
qed

text \<open>C3: Authorisation. An accepted instruction that manages the pool carries the signature of the pool's
  manager, and an accepted instruction that stakes or unstakes carries the signature of the
  maintainer whose index it names.\<close>

theorem instructions_are_authorised:
  assumes "solana E p" and "represents E p (key (accounts ! 0)) w s"
    and "process_instruction E p accounts ins w = Ok ((), w')"
  shows "(manager_instruction ins \<longrightarrow> manager (pool_lido s) \<in> signers_of accounts) \<and>
    (\<forall>i. maintainer_index_of ins = Some i \<longrightarrow> (\<exists>m. maintainer_at s i m \<and> m \<in> signers_of accounts))"
  using solana.process_instruction_refines [OF assms(1,2) refl assms(3)]
  by (auto dest: pool_step_manager pool_step_maintainer)

theorem instructions_are_authorised_witness:
  "manager_instruction (ChangeCriteria example_criteria) \<and> manager (pool_lido example_pool) \<in> signers_of example_accounts"
  using instructions_are_authorised [OF solana_reference [of 3] example_before example_instruction]
  by (simp add: manager_instruction_def)

text \<open>C4: Accounting. When the invoked programs do what they promise, of all accepted instructions only three change the
  total stake that the pool has on record: \<open>StakeDeposit\<close> adds exactly its amount, \<open>Withdraw\<close> takes exactly the SOL
  value of the stSOL at the current exchange rate, and \<open>UpdateStakeAccountBalance\<close> replaces the balance of its validator by
  exactly the lamports that the stake and unstake accounts of the validator, at the addresses that its seeds give, hold
  afterwards (when these addresses and the reserve's are distinct). Unstaking moves stake within a validator, and removing
  a validator loses none.\<close>

theorem stake_accounting:
  assumes "stake_flow E p token_amount authority" and "represents E p (key (accounts ! 0)) w s"
    and "process_instruction E p accounts ins w = Ok ((), w')" and "represents E p (key (accounts ! 0)) w' s'"
  shows "stake_effect E p (key (accounts ! 0)) ins w' s s'"
  using stake_flow.process_instruction_stake_effect [OF assms] .

theorem stake_accounting_witness:
  "\<exists>w' s'. process_instruction (reference_env 3) solido_id observe_infos (UpdateStakeAccountBalance 0) observe_world = Ok ((), w') \<and>
     represents (reference_env 3) solido_id 500 w' s' \<and> total_stake s' = lamports_at w' 3952"
proof -
  obtain w' where ok: "process_instruction (reference_env 3) solido_id observe_infos (UpdateStakeAccountBalance 0) observe_world = Ok ((), w')"
    using observe_ok by blast
  have k: "key (observe_infos ! 0) = 500" by (simp add: observe_infos_def)
  have rep: "represents (reference_env 3) solido_id (key (observe_infos ! 0)) observe_world example_pool"
    unfolding k by (rule observe_world_represents)
  obtain s' where rep': "represents (reference_env 3) solido_id (key (observe_infos ! 0)) w' s'"
    using solana.process_instruction_refines [OF solana_reference rep refl ok] by blast
  have at: "validator_at example_pool 0 v \<longleftrightarrow> v = example_validator" for v
    by (auto simp: validator_at_def example_pool_def)
  have total: "total_stake example_pool = 10000000000" "stake_accounts_balance example_validator = Lamports 10000000000"
    by (simp_all add: total_stake_def example_pool_def withdraw_validator)
  have "get_reserve_account (reference_env 3) (pool_lido example_pool) solido_id 500 = Ok 3108"
    using example_reserve [of 3] by (simp add: get_reserve_account_def example_lido_def example_pool_def)
  then have "total_stake s' = lamports_at w' 3952"
    using stake_accounting [OF stake_flow_reference rep ok rep']
    by (auto simp: stake_effect_def stake_effect_with_def k at observed_addresses total)
  then show ?thesis using ok rep' unfolding k by blast
qed

text \<open>C5: Removal. A validator whose address is no longer listed after an accepted instruction was pending
  removal, had neither stake accounts nor unstake accounts, and had no stake on record.\<close>

theorem removed_validators_are_drained:
  assumes "solana E p" and "represents E p (key (accounts ! 0)) w s"
    and "process_instruction E p accounts ins w = Ok ((), w')" and "represents E p (key (accounts ! 0)) w' s'"
  shows "list_all (\<lambda>v. vote_account_address v \<in> validator_keys s' \<or> drained v) (pool_validators s)"
  using pool_step_drained [OF solana.instruction_step [OF assms(1,2) refl assms(3,4)]] .

theorem removed_validators_are_drained_witness:
  "list_all (\<lambda>v. vote_account_address v \<in> validator_keys example_pool_1 \<or> drained v) [example_validator]"
  using removed_validators_are_drained [OF solana_reference [of 3] example_before example_instruction example_after]
  by (simp add: example_pool_def)

text \<open>C6: A validator that is pending removal stays so: no accepted instruction other than its removal
  makes it active or suspended again.\<close>

theorem pending_removal_is_final:
  assumes "solana E p" and "represents E p (key (accounts ! 0)) w s"
    and "process_instruction E p accounts ins w = Ok ((), w')" and "represents E p (key (accounts ! 0)) w' s'"
  shows "(\<exists>i. ins = RemoveValidatorV2 i) \<or> {k. pending_removal s k} \<subseteq> {k. pending_removal s' k}"
  using pool_step_pending_removal [OF solana.instruction_step [OF assms(1,2) refl assms(3,4)]] by blast

theorem pending_removal_is_final_witness:
  "{k. pending_removal example_pool k} \<subseteq> {k. pending_removal example_pool_1 k}"
  using pending_removal_is_final [OF solana_reference [of 3] example_before example_instruction example_after]
  by simp

text \<open>C7: The exchange rate. An accepted instruction leaves the rate as it is, or it is
  \<open>UpdateExchangeRate\<close>, the rate was computed in an earlier epoch, and it is now of the current epoch; so
  the rate changes at most once in an epoch.\<close>

theorem exchange_rate_once_per_epoch:
  assumes "solana E p" and "represents E p (key (accounts ! 0)) w s"
    and "process_instruction E p accounts ins w = Ok ((), w')" and "represents E p (key (accounts ! 0)) w' s'"
  shows "exchange_rate (pool_lido s') = exchange_rate (pool_lido s) \<or>
    ins = UpdateExchangeRateV2 \<and> computed_in_epoch (exchange_rate (pool_lido s)) < epoch_of E \<and>
    computed_in_epoch (exchange_rate (pool_lido s')) = epoch_of E"
  using pool_step_exchange_rate [OF solana.instruction_step [OF assms(1,2) refl assms(3,4)]] .

theorem exchange_rate_once_per_epoch_witness:
  "exchange_rate (pool_lido example_pool_1) = exchange_rate (pool_lido example_pool)"
  using exchange_rate_once_per_epoch [OF solana_reference [of 3] example_before example_instruction example_after]
  by simp

text \<open>C8: An initialised pool cannot be initialised or migrated again: both instructions fail on its accounts.\<close>

theorem no_second_initialisation:
  assumes "solana E p" and "represents E p (key (accounts ! 0)) w s"
  shows "\<not> is_ok (process_instruction E p accounts (Initialize rd c max_v max_m) w) \<and>
    \<not> is_ok (process_instruction E p accounts (MigrateStateToV2 rd max_v max_m max_c) w)"
  using solana.process_initialize_fails [OF assms refl] solana.process_migrate_to_v2_fails [OF assms refl]
  by (auto simp: process_instruction_def is_ok_def split: result.splits)

theorem no_second_initialisation_witness:
  "\<not> is_ok (process_instruction (reference_env 3) solido_id example_accounts
     (Initialize \<lparr>treasury_fee = 4, developer_fee = 1, st_sol_appreciation = 95\<rparr> criteria_default 2 2) example_world)"
  using no_second_initialisation [OF solana_reference [of 3] example_before]
  by simp

text \<open>C9: The identity of a pool is fixed: no accepted instruction changes its manager, its mint, the addresses
  of its lists, the version or the bump seeds.\<close>

theorem identity_is_fixed:
  assumes "solana E p" and "represents E p (key (accounts ! 0)) w s"
    and "process_instruction E p accounts ins w = Ok ((), w')" and "represents E p (key (accounts ! 0)) w' s'"
  shows "fixed_fields (pool_lido s') = fixed_fields (pool_lido s)"
  using pool_step_fixed_fields [OF solana.instruction_step [OF assms(1,2) refl assms(3,4)]] .

theorem identity_is_fixed_witness:
  "fixed_fields (pool_lido example_pool_1) = fixed_fields example_lido"
  using identity_is_fixed [OF solana_reference [of 3] example_before example_instruction example_after]
  by (simp add: example_pool_def)

text \<open>The instructions of the first version are refused with \<open>InstructionIsDeprecated\<close>, whatever the accounts
  and the ledger are.\<close>

theorem deprecated_instructions_rejected:
  "list_all (\<lambda>ins. process_instruction E p accounts ins w = Err (lido_err InstructionIsDeprecated))
     [WithdrawInactiveStake, CollectValidatorFee, ClaimValidatorFee, UpdateExchangeRate, MergeStake,
      AddValidator, AddMaintainer, DeactivateValidator, RemoveMaintainer, RemoveValidator,
      StakeDeposit a, lido_instruction.Unstake b, Withdraw c]"
  by (simp add: process_instruction_def fail_lido_def fail_def)

end
